(* ===== verification/Prelude.thy ===== *)
theory Prelude
  imports Main "HOL-Library.Word"
begin

text \<open>
  Shared vocabulary of the development: machine integers at the widths of the Go and C
  code, Go run-time panics as values, Go byte slices with their capacity, and the generic
  list and map lemmas that several components use.
\<close>

unbundle bit_operations_syntax

section \<open>Machine integers\<close>

type_synonym u8 = "8 word"
type_synonym u16 = "16 word"
type_synonym u32 = "32 word"
type_synonym u64 = "64 word"

lemma unat_of_nat_small: "m < 2 ^ LENGTH('a) \<Longrightarrow> unat (of_nat m :: 'a::len word) = m"
  by (simp add: unat_of_nat take_bit_nat_eq_self)

lemma of_nat_eq_small:
  "m < 2 ^ LENGTH('a) \<Longrightarrow> n < 2 ^ LENGTH('a) \<Longrightarrow> (of_nat m :: 'a::len word) = of_nat n \<longleftrightarrow> m = n"
  by (metis unat_of_nat_small)

lemma unat_Suc_less: "i < n \<Longrightarrow> unat (i + 1) = Suc (unat i)" for i n :: "'a::len word"
proof -
  assume "i < n"
  have "unat n < 2 ^ LENGTH('a)" by (rule unsigned_less)
  with \<open>i < n\<close> have "Suc (unat i) < 2 ^ LENGTH('a)"
    unfolding word_less_nat_alt by linarith
  then show ?thesis by (simp add: unat_word_ariths)
qed

section \<open>Go outcomes\<close>

text \<open>
  A Go function that can panic returns a sum: \<open>Inl\<close> the panic, \<open>Inr\<close> the value.
  A Go pair \<open>(T, error)\<close> is a nested sum below the panic.
\<close>

datatype panic =
    IndexOutOfRange
  | SliceBounds
  | NegativeShift
  | AtoiPanic
  | TypeAssertion
  | NonPositiveTicker
  | NegativeLength

type_synonym 'a go = "panic + 'a"

fun go_bind :: "'a go \<Rightarrow> ('a \<Rightarrow> 'b go) \<Rightarrow> 'b go" where
  "go_bind (Inl p) f = Inl p"
| "go_bind (Inr x) f = f x"

named_theorems go_simps \<open>evaluation of the Go primitives\<close>

lemma go_bind_Inr_iff [simp]:
  "go_bind m f = Inr y \<longleftrightarrow> (\<exists>x. m = Inr x \<and> f x = Inr y)"
  by (cases m) auto

lemma go_bind_cong [fundef_cong]:
  "m = m' \<Longrightarrow> (\<And>x. m' = Inr x \<Longrightarrow> f x = f' x) \<Longrightarrow> go_bind m f = go_bind m' f'"
  by (cases m') auto

lemma go_bind_assoc: "go_bind (go_bind m f) g = go_bind m (\<lambda>x. go_bind (f x) g)"
  by (cases m) auto

definition go_index :: "'a list \<Rightarrow> nat \<Rightarrow> 'a go" where
  "go_index xs i = (if i < length xs then Inr (xs ! i) else Inl IndexOutOfRange)"

lemma go_index_in [go_simps]: "i < length xs \<Longrightarrow> go_index xs i = Inr (xs ! i)"
  by (simp add: go_index_def)

lemma go_index_out [go_simps]: "length xs \<le> i \<Longrightarrow> go_index xs i = Inl IndexOutOfRange"
  by (simp add: go_index_def)

text \<open>
  A byte slice: the elements of its backing array from the start of the slice to its
  capacity, and its length. Slicing is checked against the capacity, indexing against
  the length, as in Go.
\<close>

record slice =
  arr :: "u8 list"
  slen :: nat

definition slice_wf :: "slice \<Rightarrow> bool" where
  "slice_wf s \<longleftrightarrow> slen s \<le> length (arr s)"

definition slice_bytes :: "slice \<Rightarrow> u8 list" where
  "slice_bytes s = take (slen s) (arr s)"

definition full_slice :: "u8 list \<Rightarrow> slice" where
  "full_slice bs = \<lparr>arr = bs, slen = length bs\<rparr>"

definition reslice :: "slice \<Rightarrow> nat \<Rightarrow> nat \<Rightarrow> slice go" where
  "reslice s lo hi =
     (if lo \<le> hi \<and> hi \<le> length (arr s)
      then Inr \<lparr>arr = drop lo (arr s), slen = hi - lo\<rparr>
      else Inl SliceBounds)"

lemma slice_wf_full [simp]: "slice_wf (full_slice bs)"
  by (simp add: slice_wf_def full_slice_def)

lemma slice_bytes_full [simp]: "slice_bytes (full_slice bs) = bs"
  by (simp add: slice_bytes_def full_slice_def)

lemma length_slice_bytes [simp]: "slice_wf s \<Longrightarrow> length (slice_bytes s) = slen s"
  by (simp add: slice_wf_def slice_bytes_def)

section \<open>Lists and maps\<close>

text \<open>Overwriting a run of elements in place.\<close>

definition overwrite :: "'a list \<Rightarrow> nat \<Rightarrow> 'a list \<Rightarrow> 'a list" where
  "overwrite xs off ys = take off xs @ ys @ drop (off + length ys) xs"

lemma length_overwrite [simp]:
  "off + length ys \<le> length xs \<Longrightarrow> length (overwrite xs off ys) = length xs"
  by (simp add: overwrite_def)

lemma overwrite_append:
  "length pre = off \<Longrightarrow> length ys \<le> length xs \<Longrightarrow>
   overwrite (pre @ xs) off ys = (pre @ ys) @ drop (length ys) xs"
  by (simp add: overwrite_def)

lemma take_drop_overwrite:
  "off + length ys \<le> length xs \<Longrightarrow> take (length ys) (drop off (overwrite xs off ys)) = ys"
  by (simp add: overwrite_def)

lemma list_update_length_append [simp]: "length pre = n \<Longrightarrow> (pre @ x # xs)[n := y] = pre @ y # xs"
  by auto

lemma take_Suc_drop: "i < length xs \<Longrightarrow> drop i xs = xs ! i # drop (Suc i) xs"
  by (rule Cons_nth_drop_Suc [symmetric])

section \<open>Runs of a step function\<close>

text \<open>
  The event-driven components (the server's handlers, the packet hook, the agent's loop)
  are step functions run over a list of events. A client that only knows that a predicate
  is kept by every step gets it for every run.
\<close>

fun run :: "('e \<Rightarrow> 's \<Rightarrow> 's) \<Rightarrow> 'e list \<Rightarrow> 's \<Rightarrow> 's" where
  "run step [] s = s"
| "run step (e # es) s = run step es (step e s)"

lemma run_append [simp]: "run step (es @ es') s = run step es' (run step es s)"
  by (induction es arbitrary: s) auto

text \<open>\<open>ok_run step ok es s\<close>: each event of \<open>es\<close> is admissible when it occurs.\<close>

fun ok_run :: "('e \<Rightarrow> 's \<Rightarrow> 's) \<Rightarrow> ('e \<Rightarrow> 's \<Rightarrow> bool) \<Rightarrow> 'e list \<Rightarrow> 's \<Rightarrow> bool" where
  "ok_run step ok [] s = True"
| "ok_run step ok (e # es) s = (ok e s \<and> ok_run step ok es (step e s))"

locale step_invariant =
  fixes step :: "'e \<Rightarrow> 's \<Rightarrow> 's"
    and ok :: "'e \<Rightarrow> 's \<Rightarrow> bool"
    and inv :: "'s \<Rightarrow> bool"
  assumes step_keeps: "inv s \<Longrightarrow> ok e s \<Longrightarrow> inv (step e s)"
begin

lemma run_keeps: "inv s \<Longrightarrow> ok_run step ok es s \<Longrightarrow> inv (run step es s)"
  by (induction es arbitrary: s) (auto intro: step_keeps)

lemma run_keeps_prefix: "inv s \<Longrightarrow> ok_run step ok (es @ es') s \<Longrightarrow> inv (run step es s)"
proof (induction es arbitrary: s)
  case Nil
  then show ?case by simp
next
  case (Cons e es)
  then show ?case by (auto intro: step_keeps)
qed

end

text \<open>
  A refinement: on states that satisfy the invariant, an admissible concrete step, seen
  through the abstraction, is the abstract step. Then a whole run is.
\<close>

locale refinement = step_invariant step ok inv
  for step :: "'e \<Rightarrow> 's \<Rightarrow> 's"
    and ok :: "'e \<Rightarrow> 's \<Rightarrow> bool"
    and inv :: "'s \<Rightarrow> bool" +
  fixes spec_step :: "'e \<Rightarrow> 't \<Rightarrow> 't"
    and abs :: "'s \<Rightarrow> 't"
  assumes refines: "inv s \<Longrightarrow> ok e s \<Longrightarrow> abs (step e s) = spec_step e (abs s)"
begin

lemma run_refines: "inv s \<Longrightarrow> ok_run step ok es s \<Longrightarrow> abs (run step es s) = run spec_step es (abs s)"
  by (induction es arbitrary: s) (simp_all add: step_keeps flip: refines)

end

end
