(* ===== verification/Binary.thy ===== *)
theory Binary
  imports Prelude
begin

text \<open>
  The part of Go's \<open>encoding/binary\<close> that the payload codec uses: \<open>BigEndian.PutUintN\<close>
  and \<open>BigEndian.UintN\<close> on a re-sliced buffer, with the bounds checks Go makes. The three
  widths share one interface, \<open>be_codec\<close>.
\<close>

section \<open>Big-endian words as bytes\<close>

definition be16 :: "u16 \<Rightarrow> u8 list" where
  "be16 v = [ucast (drop_bit 8 v), ucast v]"

definition be32 :: "u32 \<Rightarrow> u8 list" where
  "be32 v = [ucast (drop_bit 24 v), ucast (drop_bit 16 v), ucast (drop_bit 8 v), ucast v]"

definition be64 :: "u64 \<Rightarrow> u8 list" where
  "be64 v = [ucast (drop_bit 56 v), ucast (drop_bit 48 v), ucast (drop_bit 40 v),
     ucast (drop_bit 32 v), ucast (drop_bit 24 v), ucast (drop_bit 16 v),
     ucast (drop_bit 8 v), ucast v]"

definition rd16 :: "u8 list \<Rightarrow> u16" where
  "rd16 b = ucast (b ! 1) OR push_bit 8 (ucast (b ! 0))"

definition rd32 :: "u8 list \<Rightarrow> u32" where
  "rd32 b = ucast (b ! 3) OR push_bit 8 (ucast (b ! 2)) OR push_bit 16 (ucast (b ! 1))
     OR push_bit 24 (ucast (b ! 0))"

definition rd64 :: "u8 list \<Rightarrow> u64" where
  "rd64 b = ucast (b ! 7) OR push_bit 8 (ucast (b ! 6)) OR push_bit 16 (ucast (b ! 5))
     OR push_bit 24 (ucast (b ! 4)) OR push_bit 32 (ucast (b ! 3)) OR push_bit 40 (ucast (b ! 2))
     OR push_bit 48 (ucast (b ! 1)) OR push_bit 56 (ucast (b ! 0))"

lemma length_be [simp]: "length (be16 v) = 2" "length (be32 w) = 4" "length (be64 x) = 8"
  by (simp_all add: be16_def be32_def be64_def)

section \<open>Checked access to a buffer\<close>

text \<open>
  \<open>put_at enc w buf lo hi v\<close> is \<open>PutUint(buf[lo:hi], v)\<close> on a buffer whose capacity is
  its length (Go's \<open>make([]byte, n)\<close>); \<open>get_at dec w s lo hi\<close> is \<open>Uint(s[lo:hi])\<close>.
\<close>

definition put_at :: "('w \<Rightarrow> u8 list) \<Rightarrow> nat \<Rightarrow> u8 list \<Rightarrow> nat \<Rightarrow> nat \<Rightarrow> 'w \<Rightarrow> u8 list go" where
  "put_at enc w buf lo hi v =
     (if \<not> (lo \<le> hi \<and> hi \<le> length buf) then Inl SliceBounds
      else if hi - lo < w then Inl IndexOutOfRange
      else Inr (overwrite buf lo (enc v)))"

definition get_at :: "(u8 list \<Rightarrow> 'w) \<Rightarrow> nat \<Rightarrow> slice \<Rightarrow> nat \<Rightarrow> nat \<Rightarrow> 'w go" where
  "get_at dec w s lo hi =
     go_bind (reslice s lo hi) (\<lambda>t. if slen t < w then Inl IndexOutOfRange else Inr (dec (arr t)))"

text \<open>Callers give slice bounds as sums; the two rules below check them and no more.\<close>

lemma get_at_in [go_simps]:
  "hi = lo + w \<Longrightarrow> hi \<le> length (arr s) \<Longrightarrow> get_at dec w s lo hi = Inr (dec (drop lo (arr s)))"
  by (simp add: get_at_def reslice_def)

lemma get_at_out [go_simps]: "length (arr s) < hi \<Longrightarrow> get_at dec w s lo hi = Inl SliceBounds"
  by (simp add: get_at_def reslice_def)

locale be_codec =
  fixes enc :: "'w \<Rightarrow> u8 list"
    and dec :: "u8 list \<Rightarrow> 'w"
    and w :: nat
  assumes length_enc: "length (enc v) = w"
    and dec_enc: "dec (enc v @ rest) = v"
    and enc_dec: "w \<le> length bs \<Longrightarrow> enc (dec bs) = take w bs"
begin

lemma put_in: "hi = lo + w \<Longrightarrow> hi \<le> length buf \<Longrightarrow>
    put_at enc w buf lo hi v = Inr (overwrite buf lo (enc v))"
  by (simp add: put_at_def)

lemma put_out: "length buf < hi \<Longrightarrow> put_at enc w buf lo hi v = Inl SliceBounds"
  by (simp add: put_at_def)

lemma put_append:
  "length pre = lo \<Longrightarrow> hi = lo + w \<Longrightarrow> w \<le> length xs \<Longrightarrow>
   put_at enc w (pre @ xs) lo hi v = Inr ((pre @ enc v) @ drop w xs)"
  using overwrite_append [of pre lo "enc v" xs] by (simp add: put_in length_enc)

lemma dec_self [simp]: "dec (enc v) = v"
  using dec_enc [of v "[]"] by simp

lemma enc_inj: "enc v = enc v' \<longleftrightarrow> v = v'"
  by (metis dec_self)

lemma get_put: "put_at enc w buf lo hi v = Inr buf' \<Longrightarrow> hi = lo + w \<Longrightarrow>
    get_at dec w (full_slice buf') lo hi = Inr v"
  by (auto simp: put_at_def get_at_def reslice_def full_slice_def overwrite_def
      length_enc dec_enc split: if_splits)

end

text \<open>
  The three widths. Writing what was read gives the bytes back bit by bit; the converse
  follows because a word is determined by its bytes.
\<close>

lemma take_nths:
  "2 \<le> length bs \<Longrightarrow> take 2 bs = [bs ! 0, bs ! 1]"
  "4 \<le> length bs \<Longrightarrow> take 4 bs = [bs ! 0, bs ! 1, bs ! 2, bs ! 3]"
  "8 \<le> length bs \<Longrightarrow>
     take 8 bs = [bs ! 0, bs ! 1, bs ! 2, bs ! 3, bs ! 4, bs ! 5, bs ! 6, bs ! 7]"
  by (intro nth_equalityI; simp add: nth_Cons' less_Suc_eq numeral_eq_Suc; force)+

lemma bit_u8_ge: "8 \<le> n \<Longrightarrow> \<not> bit (b :: u8) n"
  by (auto dest: bit_imp_le_length)

lemma bit_of_byte:
  "bit v n \<longleftrightarrow> bit (ucast (drop_bit (8 * (n div 8)) v) :: u8) (n mod 8)" for v :: "'a::len word"
  by (simp add: bit_simps)

lemma be16_rd16: "be16 (rd16 b) = [b ! 0, b ! 1]"
  by (auto simp: be16_def rd16_def bit_simps bit_u8_ge intro!: bit_word_eqI)

lemma be32_rd32: "be32 (rd32 b) = [b ! 0, b ! 1, b ! 2, b ! 3]"
  by (auto simp: be32_def rd32_def bit_simps bit_u8_ge intro!: bit_word_eqI)

lemma be64_rd64: "be64 (rd64 b) = [b ! 0, b ! 1, b ! 2, b ! 3, b ! 4, b ! 5, b ! 6, b ! 7]"
  by (auto simp: be64_def rd64_def bit_simps bit_u8_ge intro!: bit_word_eqI)

lemma be16_inject: "be16 v = be16 w \<longleftrightarrow> v = w"
proof
  assume eq: "be16 v = be16 w"
  show "v = w"
  proof (rule bit_word_eqI)
    fix n assume "n < LENGTH(16)"
    then have "n div 8 \<in> {0, 1}" by auto
    with eq show "bit v n \<longleftrightarrow> bit w n"
      by (subst (1 2) bit_of_byte) (auto simp: be16_def)
  qed
qed simp

lemma be32_inject: "be32 v = be32 w \<longleftrightarrow> v = w"
proof
  assume eq: "be32 v = be32 w"
  show "v = w"
  proof (rule bit_word_eqI)
    fix n assume "n < LENGTH(32)"
    then have "n div 8 \<in> {0, 1, 2, 3}" by auto
    with eq show "bit v n \<longleftrightarrow> bit w n"
      by (subst (1 2) bit_of_byte) (auto simp: be32_def)
  qed
qed simp

lemma be64_inject: "be64 v = be64 w \<longleftrightarrow> v = w"
proof
  assume eq: "be64 v = be64 w"
  show "v = w"
  proof (rule bit_word_eqI)
    fix n assume "n < LENGTH(64)"
    then have "n div 8 \<in> {0, 1, 2, 3, 4, 5, 6, 7}" by auto
    with eq show "bit v n \<longleftrightarrow> bit w n"
      by (subst (1 2) bit_of_byte) (auto simp: be64_def)
  qed
qed simp

lemma rd16_be16: "rd16 (be16 v @ rest) = v"
  using be16_rd16 [of "be16 v @ rest"] by (simp add: be16_def flip: be16_inject)

lemma rd32_be32: "rd32 (be32 v @ rest) = v"
  using be32_rd32 [of "be32 v @ rest"] by (simp add: be32_def flip: be32_inject)

lemma rd64_be64: "rd64 (be64 v @ rest) = v"
  using be64_rd64 [of "be64 v @ rest"] by (simp add: be64_def flip: be64_inject)

interpretation be16: be_codec be16 rd16 2
  by unfold_locales (simp_all add: be16_rd16 rd16_be16 take_nths)

interpretation be32: be_codec be32 rd32 4
  by unfold_locales (simp_all add: be32_rd32 rd32_be32 take_nths)

interpretation be64: be_codec be64 rd64 8
  by unfold_locales (simp_all add: be64_rd64 rd64_be64 take_nths)

end
