(* ===== verification/Byteorder.thy ===== *)
theory Byteorder
  imports Binary
begin

text \<open>
  Package \<open>byteorder\<close> (byteorder/byte_order.go): the two 32-bit conversions, which are
  the same unconditional byte swap.
\<close>

definition Htonl :: "u32 \<Rightarrow> u32" where
  "Htonl x = (push_bit 24 x) OR ((push_bit 8 x) AND 0x00FF0000)
     OR ((drop_bit 8 x) AND 0x0000FF00) OR (drop_bit 24 x)"

definition Ntohl :: "u32 \<Rightarrow> u32" where
  "Ntohl x = (push_bit 24 x) OR ((push_bit 8 x) AND 0x00FF0000)
     OR ((drop_bit 8 x) AND 0x0000FF00) OR (drop_bit 24 x)"

lemma Ntohl_eq_Htonl: "Ntohl = Htonl"
  by (simp add: fun_eq_iff Ntohl_def Htonl_def)

lemma mask_FF0000: "(0x00FF0000 :: u32) = push_bit 16 (mask 8)"
  by (simp add: mask_eq_exp_minus_1 push_bit_eq_mult)

lemma mask_FF00: "(0x0000FF00 :: u32) = push_bit 8 (mask 8)"
  by (simp add: mask_eq_exp_minus_1 push_bit_eq_mult)

text \<open>Bit \<open>n\<close> of a swapped word is the same bit of the mirrored byte.\<close>

lemma bit_Htonl:
  "bit (Htonl x) n \<longleftrightarrow> n < 32 \<and> bit x (8 * (3 - n div 8) + n mod 8)"
proof -
  consider "n < 8" | "8 \<le> n" "n < 16" | "16 \<le> n" "n < 24" | "24 \<le> n" "n < 32" | "32 \<le> n"
    by linarith
  then show ?thesis
  proof cases
    case 1
    then show ?thesis by (auto simp: Htonl_def mask_FF0000 mask_FF00 bit_simps dest: bit_imp_le_length)
  next
    case 2
    then have "n div 8 = 1" and "n mod 8 = n - 8" by (simp_all add: le_div_geq le_mod_geq)
    with 2 show ?thesis by (auto simp: Htonl_def mask_FF0000 mask_FF00 bit_simps dest: bit_imp_le_length)
  next
    case 3
    then have "n div 8 = 2" and "n mod 8 = n - 16" by (simp_all add: le_div_geq le_mod_geq)
    with 3 show ?thesis by (auto simp: Htonl_def mask_FF0000 mask_FF00 bit_simps dest: bit_imp_le_length)
  next
    case 4
    then have "n div 8 = 3" and "n mod 8 = n - 24" by (simp_all add: le_div_geq le_mod_geq)
    with 4 show ?thesis by (auto simp: Htonl_def mask_FF0000 mask_FF00 bit_simps dest: bit_imp_le_length)
  next
    case 5
    then show ?thesis by (auto dest: bit_imp_le_length)
  qed
qed

lemma bit_Htonl_bytes:
  assumes "n < 8"
  shows "bit (Htonl x) (24 + n) \<longleftrightarrow> bit x n" and "bit (Htonl x) (16 + n) \<longleftrightarrow> bit x (8 + n)"
    and "bit (Htonl x) (8 + n) \<longleftrightarrow> bit x (16 + n)" and "bit (Htonl x) n \<longleftrightarrow> bit x (24 + n)"
proof -
  have "(24 + n) div 8 = 3" "(24 + n) mod 8 = n" "(16 + n) div 8 = 2" "(16 + n) mod 8 = n"
    "(8 + n) div 8 = 1" "(8 + n) mod 8 = n" "n div 8 = 0" "n mod 8 = n"
    using assms by auto presburger+
  with assms show "bit (Htonl x) (24 + n) \<longleftrightarrow> bit x n" and "bit (Htonl x) (16 + n) \<longleftrightarrow> bit x (8 + n)"
    and "bit (Htonl x) (8 + n) \<longleftrightarrow> bit x (16 + n)" and "bit (Htonl x) n \<longleftrightarrow> bit x (24 + n)"
    by (simp_all add: bit_Htonl)
qed

lemma Ntohl_Htonl_id [simp]: "Ntohl (Htonl x) = x"
proof (rule bit_word_eqI)
  fix n assume "n < LENGTH(32)"
  then have "n div 8 < 4" by auto
  then have "(8 * (3 - n div 8) + n mod 8) div 8 = 3 - n div 8" and "3 - (3 - n div 8) = n div 8"
    by simp_all
  with \<open>n < LENGTH(32)\<close> show "bit (Ntohl (Htonl x)) n \<longleftrightarrow> bit x n"
    by (auto simp: Ntohl_eq_Htonl bit_Htonl)
qed

lemma Htonl_Htonl_id [simp]: "Htonl (Htonl x) = x" and Htonl_Ntohl_id [simp]: "Htonl (Ntohl x) = x"
  using Ntohl_Htonl_id by (simp_all add: Ntohl_eq_Htonl)

lemma Htonl_inject: "Htonl x = Htonl y \<longleftrightarrow> x = y"
  by (metis Htonl_Htonl_id)

lemma Htonl_and: "Htonl (x AND y) = Htonl x AND Htonl y"
  by (auto simp: bit_simps bit_Htonl intro!: bit_word_eqI)

lemma be32_Htonl: "be32 (Htonl x) = rev (be32 x)"
  by (auto simp: be32_def bit_simps bit_Htonl_bytes intro!: bit_word_eqI)

text \<open>
  \<open>Htonl\<close> stores the four bytes of its argument in the opposite order, and
  \<open>Ntohl\<close> undoes it: the agent and the server agree on the conversion.
\<close>

lemma Htonl_reverses_bytes: "be32 (Htonl x) = rev (be32 x) \<and> Ntohl (Htonl x) = x"
  by (simp add: be32_Htonl)

end
