(* ===== verification/Payload.thy ===== *)
theory Payload
  imports Byteorder
begin

text \<open>
  Package \<open>payload\<close> (payload/payload.go): the wire format between agent and server. The
  encoder fills a buffer of the exact size through bounded sub-slices; the decoder checks
  the length with 32-bit arithmetic and reads each entry at a 32-bit offset. Both loops
  are modelled as written, every bounds check included.
\<close>

section \<open>Data\<close>

record IPKey =
  SrcIP :: u32
  DstIP :: u32
  SrcPort :: u16
  DstPort :: u16

record IPValue =
  PacketSize :: u64

record Entry =
  ESrcIP :: u32
  EDstIP :: u32
  ESrcPort :: u16
  EDstPort :: u16
  Traffic :: u64

datatype decode_error =
    UnexpectedLength
  | UnexpectedLengthForEntries

section \<open>Encode\<close>

text \<open>One pass of the loop over \<open>keys\<close>; \<open>i\<close> and \<open>offset\<close> are the loop's variables.\<close>

fun Encode_loop :: "IPValue list \<Rightarrow> nat \<Rightarrow> nat \<Rightarrow> IPKey list \<Rightarrow> u8 list \<Rightarrow> u8 list go" where
  "Encode_loop values i offset [] buf = Inr buf"
| "Encode_loop values i offset (srcDst # keys) buf =
     go_bind (put_at be32 4 buf offset (offset + 4) (SrcIP srcDst)) (\<lambda>buf.
     go_bind (put_at be32 4 buf (offset + 4) (offset + 8) (DstIP srcDst)) (\<lambda>buf.
     go_bind (put_at be16 2 buf (offset + 8) (offset + 10) (SrcPort srcDst)) (\<lambda>buf.
     go_bind (put_at be16 2 buf (offset + 10) (offset + 12) (DstPort srcDst)) (\<lambda>buf.
     go_bind (go_index values i) (\<lambda>v.
     go_bind (put_at be64 8 buf (offset + 12) (offset + 20) (PacketSize v)) (\<lambda>buf.
       Encode_loop values (Suc i) (offset + 20) keys buf))))))"

definition Encode :: "IPKey list \<Rightarrow> IPValue list \<Rightarrow> u8 list go" where
  "Encode keys values =
     (let size = 4 + 20 * length keys;
          buf = replicate size 0
      in go_bind (put_at be32 4 buf 0 4 (of_nat (length keys))) (\<lambda>buf.
           Encode_loop values 0 4 keys buf))"

section \<open>Decode\<close>

text \<open>
  \<open>Decode_entry\<close> is the body of the loop; \<open>Decode_loop\<close> counts \<open>i\<close> from its argument up
  to \<open>numEntries\<close>, both \<open>uint32\<close>, and fills the preallocated slice.
\<close>

definition Decode_entry :: "slice \<Rightarrow> u32 \<Rightarrow> Entry go" where
  "Decode_entry buf i =
     (let offset = 4 + i * 20
      in go_bind (get_at rd32 4 buf (unat offset) (unat (offset + 4))) (\<lambda>srcIP.
         go_bind (get_at rd32 4 buf (unat (offset + 4)) (unat (offset + 8))) (\<lambda>dstIP.
         go_bind (get_at rd16 2 buf (unat (offset + 8)) (unat (offset + 10))) (\<lambda>srcPort.
         go_bind (get_at rd16 2 buf (unat (offset + 10)) (unat (offset + 12))) (\<lambda>dstPort.
         go_bind (get_at rd64 8 buf (unat (offset + 12)) (unat (offset + 20))) (\<lambda>traffic.
           Inr \<lparr>ESrcIP = Ntohl srcIP, EDstIP = Ntohl dstIP, ESrcPort = srcPort,
                EDstPort = dstPort, Traffic = traffic\<rparr>))))))"

function Decode_loop :: "slice \<Rightarrow> u32 \<Rightarrow> u32 \<Rightarrow> Entry list \<Rightarrow> Entry list go" where
  "Decode_loop buf numEntries i entries =
     (if i < numEntries
      then go_bind (Decode_entry buf i) (\<lambda>e.
             if unat i < length entries
             then Decode_loop buf numEntries (i + 1) (entries[unat i := e])
             else Inl IndexOutOfRange)
      else Inr entries)"
  by pat_completeness auto
termination
proof (relation "measure (\<lambda>(buf, n, i, es). unat n - unat i)")
  fix buf :: slice and numEntries i :: u32 and entries :: "Entry list" and e
  assume "i < numEntries"
  then show "((buf, numEntries, i + 1, entries[unat i := e]), (buf, numEntries, i, entries))
      \<in> measure (\<lambda>(buf, n, i, es). unat n - unat i)"
    by (simp add: unat_Suc_less word_less_nat_alt)
qed simp

declare Decode_loop.simps [simp del]

definition zero_entry :: Entry where
  "zero_entry = \<lparr>ESrcIP = 0, EDstIP = 0, ESrcPort = 0, EDstPort = 0, Traffic = 0\<rparr>"

definition Decode :: "slice \<Rightarrow> (decode_error + Entry list) go" where
  "Decode buf =
     (if slen buf < 4 then Inr (Inl UnexpectedLength)
      else go_bind (get_at rd32 4 buf 0 4) (\<lambda>numEntries.
        let size = 4 + 20 * numEntries
        in if of_nat (slen buf) \<noteq> size then Inr (Inl UnexpectedLengthForEntries)
           else go_bind (Decode_loop buf numEntries 0 (replicate (unat numEntries) zero_entry))
                  (\<lambda>entries. Inr (Inr entries))))"

section \<open>The wire format\<close>

text \<open>
  What the bytes mean: \<open>entry_bytes\<close> is the 20-byte record of one flow, \<open>wire\<close> the
  whole message, \<open>entry_at\<close> the entry read from the front of a byte list.
\<close>

definition entry_bytes :: "IPKey \<Rightarrow> IPValue \<Rightarrow> u8 list" where
  "entry_bytes k v = be32 (SrcIP k) @ be32 (DstIP k) @ be16 (SrcPort k) @ be16 (DstPort k)
     @ be64 (PacketSize v)"

definition wire :: "IPKey list \<Rightarrow> IPValue list \<Rightarrow> u8 list" where
  "wire keys values = be32 (of_nat (length keys)) @ concat (map2 entry_bytes keys values)"

definition entry_at :: "u8 list \<Rightarrow> Entry" where
  "entry_at b = \<lparr>ESrcIP = Ntohl (rd32 b), EDstIP = Ntohl (rd32 (drop 4 b)),
     ESrcPort = rd16 (drop 8 b), EDstPort = rd16 (drop 10 b), Traffic = rd64 (drop 12 b)\<rparr>"

text \<open>The entry the server sees for a key and a value of the agent, and back.\<close>

definition entry_of :: "IPKey \<Rightarrow> IPValue \<Rightarrow> Entry" where
  "entry_of k v = \<lparr>ESrcIP = Ntohl (SrcIP k), EDstIP = Ntohl (DstIP k), ESrcPort = SrcPort k,
     EDstPort = DstPort k, Traffic = PacketSize v\<rparr>"

definition key_of :: "Entry \<Rightarrow> IPKey" where
  "key_of e = \<lparr>SrcIP = Htonl (ESrcIP e), DstIP = Htonl (EDstIP e), SrcPort = ESrcPort e,
     DstPort = EDstPort e\<rparr>"

definition value_of :: "Entry \<Rightarrow> IPValue" where
  "value_of e = \<lparr>PacketSize = Traffic e\<rparr>"

lemma length_entry_bytes [simp]: "length (entry_bytes k v) = 20"
  by (simp add: entry_bytes_def)

lemma length_concat_entry_bytes [simp]:
  "length (concat (map2 entry_bytes keys values)) = 20 * min (length keys) (length values)"
  by (induction keys "values" rule: list_induct2') auto

lemma entry_at_entry_bytes: "entry_at (entry_bytes k v @ rest) = entry_of k v"
  by (simp add: entry_at_def entry_bytes_def entry_of_def be32.dec_enc be16.dec_enc be64.dec_enc)

lemma entry_of_key_value [simp]: "entry_of (key_of e) (value_of e) = e"
  by (simp add: entry_of_def key_of_def value_of_def)

lemma take_take_drop: "take m b @ take n (drop m b) = take (m + n) b"
  by (simp add: take_add)

lemma entry_bytes_entry_at:
  assumes "20 \<le> length b"
  shows "entry_bytes (key_of (entry_at b)) (value_of (entry_at b)) = take 20 b"
proof -
  have "entry_bytes (key_of (entry_at b)) (value_of (entry_at b)) =
      take 4 b @ take 4 (drop 4 b) @ take 2 (drop 8 b) @ take 2 (drop 10 b) @ take 8 (drop 12 b)"
    using assms by (simp add: entry_bytes_def entry_at_def key_of_def value_of_def
        be32.enc_dec be16.enc_dec be64.enc_dec)
  also have "\<dots> = take 20 b"
    using take_take_drop [of 4 b 4] take_take_drop [of 8 b 2] take_take_drop [of 10 b 2]
      take_take_drop [of 12 b 8] by (simp flip: append_assoc)
  finally show ?thesis .
qed

section \<open>Encode fills the buffer with the wire format\<close>

lemma Encode_loop_ok:
  assumes "length pre = offset" "length rest = 20 * length keys" "i + length keys \<le> length values"
  shows "Encode_loop values i offset keys (pre @ rest)
    = Inr (pre @ concat (map2 entry_bytes keys (drop i values)))"
  using assms
proof (induction keys arbitrary: i offset pre rest)
  case Nil
  then show ?case by simp
next
  case (Cons k keys)
  let ?v = "values ! i"
  have drop_i: "drop i values = ?v # drop (Suc i) values"
    using Cons.prems by (simp add: Cons_nth_drop_Suc)
  have "Encode_loop values i offset (k # keys) (pre @ rest)
      = Encode_loop values (Suc i) (offset + 20) keys ((pre @ entry_bytes k ?v) @ drop 20 rest)"
    using Cons.prems
    by (simp add: be32.put_append be16.put_append be64.put_append go_simps entry_bytes_def
        del: append_assoc) simp
  also have "\<dots> = Inr ((pre @ entry_bytes k ?v) @ concat (map2 entry_bytes keys (drop (Suc i) values)))"
    using Cons.prems by (intro Cons.IH) auto
  finally show ?case by (simp add: drop_i)
qed

lemma Encode_ok:
  assumes "length keys \<le> length values"
  shows "Encode keys values = Inr (wire keys values)"
proof -
  have "Encode keys values =
      Encode_loop values 0 4 keys (be32 (of_nat (length keys)) @ replicate (20 * length keys) 0)"
    using be32.put_append [of "[]" 0 4 "replicate (4 + 20 * length keys) 0"]
    by (simp add: Encode_def)
  also have "\<dots> = Inr (be32 (of_nat (length keys)) @ concat (map2 entry_bytes keys (drop 0 values)))"
    using assms by (intro Encode_loop_ok) auto
  finally show ?thesis by (simp add: wire_def)
qed

lemma Encode_loop_short:
  assumes "length pre = offset" "length rest = 20 * length keys"
    and "i \<le> length values" "length values < i + length keys"
  shows "Encode_loop values i offset keys (pre @ rest) = Inl IndexOutOfRange"
  using assms
proof (induction keys arbitrary: i offset pre rest)
  case Nil
  then show ?case by simp
next
  case (Cons k keys)
  show ?case
  proof (cases "i < length values")
    case True
    have "Encode_loop values i offset (k # keys) (pre @ rest)
        = Encode_loop values (Suc i) (offset + 20) keys
            ((pre @ entry_bytes k (values ! i)) @ drop 20 rest)"
      using Cons.prems True
      by (simp add: be32.put_append be16.put_append be64.put_append go_simps entry_bytes_def
          del: append_assoc) simp
    also have "\<dots> = Inl IndexOutOfRange"
      using Cons.prems True by (intro Cons.IH) auto
    finally show ?thesis .
  next
    case False
    then show ?thesis
      using Cons.prems
      by (simp add: be32.put_append be16.put_append go_simps del: append_assoc)
  qed
qed

lemma Encode_short:
  assumes "length values < length keys"
  shows "Encode keys values = Inl IndexOutOfRange"
proof -
  have "Encode keys values =
      Encode_loop values 0 4 keys (be32 (of_nat (length keys)) @ replicate (20 * length keys) 0)"
    using be32.put_append [of "[]" 0 4 "replicate (4 + 20 * length keys) 0"]
    by (simp add: Encode_def)
  also have "\<dots> = Inl IndexOutOfRange"
    using assms by (intro Encode_loop_short) auto
  finally show ?thesis .
qed

text \<open>
  \<open>Encode\<close> panics exactly when there are fewer values than keys; otherwise it returns
  the whole wire message, the count followed by one 20-byte record per key.
\<close>

lemma Encode_result:
  "Encode keys values =
     (if length keys \<le> length values then Inr (wire keys values) else Inl IndexOutOfRange)"
  by (simp add: Encode_ok Encode_short)

section \<open>Decode\<close>

text \<open>The byte positions of entry \<open>i\<close>, when the 32-bit offsets do not wrap.\<close>

lemma unat_offset:
  assumes "24 + 20 * unat i < 2 ^ 32" and "c \<le> 20"
  shows "unat (4 + i * 20 + of_nat c :: u32) = 4 + 20 * unat i + c"
proof -
  have "4 + i * 20 + of_nat c = (of_nat (4 + 20 * unat i + c) :: u32)"
    by (simp add: mult.commute)
  moreover have "4 + 20 * unat i + c < 2 ^ LENGTH(32)"
    using assms by simp
  ultimately show ?thesis by (metis unat_of_nat_small)
qed

lemmas unat_offsets = unat_offset [where c = 0, simplified] unat_offset [where c = 4, simplified]
  unat_offset [where c = 8, simplified] unat_offset [where c = 10, simplified]
  unat_offset [where c = 12, simplified] unat_offset [where c = 20, simplified]

lemma Decode_entry_in:
  assumes "24 + 20 * unat i < 2 ^ 32" and "24 + 20 * unat i \<le> length (arr s)"
  shows "Decode_entry s i = Inr (entry_at (drop (4 + 20 * unat i) (arr s)))"
  using assms by (simp add: Decode_entry_def unat_offsets go_simps entry_at_def add.commute)

lemma Decode_entry_out:
  assumes "24 + 20 * unat i < 2 ^ 32" and "length (arr s) < 24 + 20 * unat i"
  shows "Decode_entry s i = Inl SliceBounds"
  using assms by (simp add: Decode_entry_def unat_offsets Let_def get_at_def reslice_def)

lemma Decode_loop_in:
  assumes "4 + 20 * unat n < 2 ^ 32" "4 + 20 * unat n \<le> length (arr s)"
    and "length es = unat n" "unat i \<le> unat n"
  shows "Decode_loop s n i es
    = Inr (take (unat i) es @ map (\<lambda>j. entry_at (drop (4 + 20 * j) (arr s))) [unat i..<unat n])"
  using assms
proof (induction s n i es rule: Decode_loop.induct)
  case (1 s n i es)
  show ?case
  proof (cases "i < n")
    case True
    then have lt: "unat i < unat n" by (simp add: word_less_nat_alt)
    have e: "Decode_entry s i = Inr (entry_at (drop (4 + 20 * unat i) (arr s)))"
      using "1.prems" lt by (intro Decode_entry_in) auto
    have "Decode_loop s n i es
        = Decode_loop s n (i + 1) (es[unat i := entry_at (drop (4 + 20 * unat i) (arr s))])"
      using True lt e "1.prems" by (subst Decode_loop.simps) simp
    also have "\<dots> = Inr (take (Suc (unat i)) (es[unat i := entry_at (drop (4 + 20 * unat i) (arr s))])
        @ map (\<lambda>j. entry_at (drop (4 + 20 * j) (arr s))) [Suc (unat i)..<unat n])"
      using "1.IH" [OF True e] "1.prems" lt True by (simp add: unat_Suc_less)
    finally show ?thesis
      using lt "1.prems" by (simp add: take_Suc_conv_app_nth upt_conv_Cons)
  next
    case False
    then have "unat i = unat n" using "1.prems" by (simp add: word_less_nat_alt)
    with False "1.prems" show ?thesis by (subst Decode_loop.simps) simp
  qed
qed

text \<open>
  The number of entries a message announces. \<open>fits\<close> says that the message length it
  stands for is representable in the 32 bits the decoder computes it with.
\<close>

definition count_of :: "slice \<Rightarrow> nat" where
  "count_of s = unat (rd32 (arr s))"

definition fits :: "nat \<Rightarrow> bool" where
  "fits n \<longleftrightarrow> 4 + 20 * n < 2 ^ 32"

definition entries_in :: "slice \<Rightarrow> Entry list" where
  "entries_in s = map (\<lambda>j. entry_at (drop (4 + 20 * j) (arr s))) [0..<count_of s]"

lemma length_entries_in [simp]: "length (entries_in s) = count_of s"
  by (simp add: entries_in_def)

lemma of_nat_count_of [simp]: "of_nat (count_of s) = rd32 (arr s)"
  by (simp add: count_of_def)

lemma size_check:
  assumes "fits (count_of s)" "slen s < 2 ^ 32"
  shows "(of_nat (slen s) = 4 + 20 * rd32 (arr s)) \<longleftrightarrow> slen s = 4 + 20 * count_of s"
proof -
  have "4 + 20 * rd32 (arr s) = (of_nat (4 + 20 * count_of s) :: u32)"
    by simp
  moreover have "slen s < 2 ^ LENGTH(32)" and "4 + 20 * count_of s < 2 ^ LENGTH(32)"
    using assms by (simp_all add: fits_def)
  ultimately show ?thesis by (metis of_nat_eq_small)
qed

lemma Decode_step:
  assumes "slice_wf s" "4 \<le> slen s"
  shows "Decode s = (if of_nat (slen s) \<noteq> 4 + 20 * rd32 (arr s) then Inr (Inl UnexpectedLengthForEntries)
    else go_bind (Decode_loop s (rd32 (arr s)) 0 (replicate (count_of s) zero_entry))
           (\<lambda>entries. Inr (Inr entries)))"
  using assms by (simp add: Decode_def slice_wf_def go_simps count_of_def)

lemma Decode_fits:
  assumes "slice_wf s" "slen s < 2 ^ 32" "fits (count_of s)"
  shows "Decode s = Inr
    (if slen s < 4 then Inl UnexpectedLength
     else if slen s \<noteq> 4 + 20 * count_of s then Inl UnexpectedLengthForEntries
     else Inr (entries_in s))"
proof (cases "4 \<le> slen s \<and> slen s = 4 + 20 * count_of s")
  case True
  then have "Decode_loop s (rd32 (arr s)) 0 (replicate (count_of s) zero_entry) = Inr (entries_in s)"
    using assms Decode_loop_in [of "rd32 (arr s)" s "replicate (count_of s) zero_entry" 0]
    by (simp add: fits_def slice_wf_def count_of_def entries_in_def)
  with True assms show ?thesis
    by (simp add: Decode_step size_check)
next
  case False
  show ?thesis
  proof (cases "slen s < 4")
    case True
    then show ?thesis by (simp add: Decode_def)
  next
    case False
    with \<open>\<not> (4 \<le> slen s \<and> slen s = 4 + 20 * count_of s)\<close> assms show ?thesis
      by (simp add: Decode_step size_check)
  qed
qed

text \<open>Beyond 32 bits the loop runs into the end of the backing array.\<close>

lemma Decode_loop_out:
  assumes "length (arr s) + 32 \<le> 2 ^ 32" "length (arr s) < 4 + 20 * unat n"
    and "length es = unat n" "4 + 20 * unat i \<le> length (arr s)"
  shows "Decode_loop s n i es = Inl SliceBounds"
  using assms
proof (induction s n i es rule: Decode_loop.induct)
  case (1 s n i es)
  then have lt: "unat i < unat n" and i: "i < n" by (simp_all add: word_less_nat_alt)
  show ?case
  proof (cases "24 + 20 * unat i \<le> length (arr s)")
    case True
    have e: "Decode_entry s i = Inr (entry_at (drop (4 + 20 * unat i) (arr s)))"
      using "1.prems" True by (intro Decode_entry_in) auto
    show ?thesis
      using i lt e "1.prems" True "1.IH" [OF i e]
      by (subst Decode_loop.simps) (simp add: unat_Suc_less)
  next
    case False
    then have "Decode_entry s i = Inl SliceBounds"
      using "1.prems" by (intro Decode_entry_out) auto
    with i show ?thesis by (subst Decode_loop.simps) simp
  qed
qed

lemma Decode_wraps:
  assumes "slice_wf s" "length (arr s) + 32 \<le> 2 ^ 32" "\<not> fits (count_of s)" "4 \<le> slen s"
  shows "Decode s = (if of_nat (slen s) = 4 + 20 * rd32 (arr s) then Inl SliceBounds
    else Inr (Inl UnexpectedLengthForEntries))"
proof -
  have "Decode_loop s (rd32 (arr s)) 0 (replicate (count_of s) zero_entry) = Inl SliceBounds"
    using assms by (intro Decode_loop_out) (auto simp: fits_def count_of_def slice_wf_def)
  with assms show ?thesis by (simp add: Decode_step)
qed

text \<open>
  C23. What \<open>Decode\<close> returns for every message of less than 4 GiB whose count does not
  overflow the 32-bit size computation: the two length errors, or the entries in order.
\<close>

theorem Decode_result:
  assumes "slice_wf s" "slen s < 2 ^ 32" "fits (count_of s)"
  shows "Decode s = Inr
    (if slen s < 4 then Inl UnexpectedLength
     else if slen s \<noteq> 4 + 20 * count_of s then Inl UnexpectedLengthForEntries
     else Inr (entries_in s))"
  using assms by (rule Decode_fits)

theorem Decode_result_witness:
  "Decode (full_slice [0, 0, 0, 1, 1, 0, 0, 10, 2, 0, 0, 10, 0, 80, 1, 187, 0, 0, 0, 0, 0, 0, 5, 220])
     = Inr (Inr [\<lparr>ESrcIP = 0x0A000001, EDstIP = 0x0A000002, ESrcPort = 80, EDstPort = 443,
         Traffic = 1500\<rparr>])"
proof -
  let ?s = "full_slice [0, 0, 0, 1, 1, 0, 0, 10, 2, 0, 0, 10, 0, 80, 1, 187, 0, 0, 0, 0, 0, 0, 5, 220]"
  have c: "count_of ?s = 1" by (simp add: count_of_def full_slice_def rd32_def)
  have l: "slen ?s = 24" by (simp add: full_slice_def)
  have "Decode ?s = Inr (Inr (entries_in ?s))"
    using Decode_result [of ?s] by (simp add: fits_def c l)
  moreover have "entries_in ?s = [\<lparr>ESrcIP = 0x0A000001, EDstIP = 0x0A000002, ESrcPort = 80,
      EDstPort = 443, Traffic = 1500\<rparr>]"
    unfolding entries_in_def c
    by (simp add: entry_at_def rd32_def rd16_def rd64_def Ntohl_def full_slice_def)
  ultimately show ?thesis by simp
qed

lemma entries_at_wire:
  assumes "length keys \<le> length values"
  shows "map (\<lambda>j. entry_at (drop (20 * j) (concat (map2 entry_bytes keys values) @ junk)))
      [0..<length keys] = map2 entry_of keys values"
  using assms
proof (induction keys arbitrary: "values")
  case Nil
  then show ?case by simp
next
  case (Cons k keys)
  then obtain v vs where "values = v # vs" by (cases "values") auto
  with Cons show ?case
    by (simp add: upt_conv_Cons entry_at_entry_bytes map_Suc_upt [symmetric] o_def del: upt_Suc)
qed

lemma Decode_Encode_eq:
  assumes "Encode keys values = Inr (slice_bytes s)" "slice_wf s" "fits (length keys)"
  shows "Decode s = Inr (Inr (map2 entry_of keys values))"
proof -
  from assms(1) have le: "length keys \<le> length values"
    and bytes: "slice_bytes s = wire keys values"
    by (cases "length keys \<le> length values"; simp add: Encode_ok Encode_short)+
  define junk where "junk = drop (slen s) (arr s)"
  have arr: "arr s = be32 (of_nat (length keys)) @ concat (map2 entry_bytes keys values) @ junk"
    using bytes append_take_drop_id [of "slen s" "arr s"]
    by (simp add: slice_bytes_def wire_def junk_def)
  have len: "slen s = 4 + 20 * length keys"
    using arg_cong [OF bytes, of length] assms(2) le by (simp add: wire_def)
  have count: "count_of s = length keys"
    using assms(3) by (simp add: count_of_def arr be32.dec_enc fits_def unat_of_nat_small)
  have "entries_in s = map2 entry_of keys values"
    using entries_at_wire [OF le, of junk] by (simp add: entries_in_def count arr)
  with assms len count show ?thesis
    by (simp add: Decode_fits fits_def)
qed

text \<open>
  C13. \<open>Decode\<close> inverts \<open>Encode\<close>: the server reads back every flow the agent wrote, in
  order, with the addresses in host order, whatever lies in the buffer behind the message.
\<close>

theorem Decode_Encode:
  assumes "Encode keys values = Inr (slice_bytes s)" "slice_wf s" "fits (length keys)"
  shows "Decode s = Inr (Inr (map2 entry_of keys values))"
  using assms by (rule Decode_Encode_eq)

theorem Decode_Encode_witness:
  "Decode \<lparr>arr = wire [\<lparr>SrcIP = 1, DstIP = 2, SrcPort = 80, DstPort = 443\<rparr>] [\<lparr>PacketSize = 3\<rparr>]
       @ replicate 488 0, slen = 24\<rparr>
     = Inr (Inr [\<lparr>ESrcIP = 0x01000000, EDstIP = 0x02000000, ESrcPort = 80, EDstPort = 443,
         Traffic = 3\<rparr>])"
proof -
  let ?k = "[\<lparr>SrcIP = 1, DstIP = 2, SrcPort = 80, DstPort = 443\<rparr>]" and ?v = "[\<lparr>PacketSize = 3\<rparr>]"
  let ?s = "\<lparr>arr = wire ?k ?v @ replicate 488 0, slen = 24\<rparr>"
  have "length (wire ?k ?v) = 24" by (simp add: wire_def)
  then have "Encode ?k ?v = Inr (slice_bytes ?s)" and "slice_wf ?s"
    by (simp_all add: Encode_ok slice_bytes_def slice_wf_def)
  then have "Decode ?s = Inr (Inr (map2 entry_of ?k ?v))"
    by (rule Decode_Encode) (simp add: fits_def)
  then show ?thesis by (simp add: entry_of_def Ntohl_def)
qed

lemma concat_chunks:
  "n * w \<le> length xs \<Longrightarrow> concat (map (\<lambda>j. take w (drop (w * j) xs)) [0..<n]) = take (n * w) xs"
proof (induction n)
  case 0
  then show ?case by simp
next
  case (Suc n)
  then show ?case by (simp add: take_add mult.commute add.commute [of w])
qed

text \<open>
  C22. \<open>Encode\<close> inverts \<open>Decode\<close>: a message that decodes is the encoding of the entries it
  decodes to, so no two messages of the same length mean the same flows.
\<close>

theorem Encode_Decode:
  assumes "Decode s = Inr (Inr es)" "slice_wf s" "slen s < 2 ^ 32" "fits (count_of s)"
  shows "Encode (map key_of es) (map value_of es) = Inr (slice_bytes s)"
proof -
  let ?n = "count_of s" and ?b = "drop 4 (arr s)"
  from assms have es: "es = entries_in s" and len: "slen s = 4 + 20 * ?n"
    by (auto simp: Decode_fits split: if_splits)
  from len assms(2) have long: "?n * 20 \<le> length ?b" by (simp add: slice_wf_def)
  have "map2 entry_bytes (map key_of es) (map value_of es)
      = map (\<lambda>e. entry_bytes (key_of e) (value_of e)) es"
    by (simp add: map2_map_map)
  also have "\<dots> = map (\<lambda>j. take 20 (drop (20 * j) ?b)) [0..<?n]"
    using long by (auto simp: es entries_in_def entry_bytes_entry_at add.commute)
  finally have "concat (map2 entry_bytes (map key_of es) (map value_of es)) = take (?n * 20) ?b"
    using concat_chunks [OF long] by simp
  moreover have "be32 (of_nat (length es)) = take 4 (arr s)"
    using len assms(2) by (simp add: es be32.enc_dec slice_wf_def)
  ultimately show ?thesis
    by (simp add: Encode_ok wire_def slice_bytes_def len take_take_drop mult.commute)
qed

theorem Encode_Decode_witness:
  "Encode (map key_of []) (map value_of []) = Inr (slice_bytes (full_slice [0, 0, 0, 0]))"
proof -
  have c: "count_of (full_slice [0, 0, 0, 0]) = 0" and l: "slen (full_slice [0, 0, 0, 0]) = 4"
    by (simp_all add: count_of_def full_slice_def rd32_def)
  then have "Decode (full_slice [0, 0, 0, 0]) = Inr (Inr [])"
    by (simp add: Decode_fits fits_def entries_in_def)
  then show ?thesis
    by (rule Encode_Decode) (simp_all add: c l fits_def)
qed

text \<open>
  C14. \<open>Decode\<close> panics exactly on the messages whose count overflows the 32-bit size
  computation to the message's own length: the length check passes and the loop reads past
  the backing array. (A capacity below 4 GiB less 32 bytes keeps the offsets from wrapping.)
\<close>

theorem Decode_panics_iff:
  assumes "slice_wf s" "length (arr s) + 32 \<le> 2 ^ 32"
  shows "Decode s = Inl p \<longleftrightarrow> p = SliceBounds \<and> 4 \<le> slen s \<and> \<not> fits (count_of s)
    \<and> of_nat (slen s) = 4 + 20 * rd32 (arr s)"
proof (cases "fits (count_of s) \<or> slen s < 4")
  case True
  then show ?thesis
  proof
    assume "fits (count_of s)"
    moreover have "slen s < 2 ^ 32" using assms by (simp add: slice_wf_def)
    ultimately show ?thesis using assms by (simp add: Decode_fits)
  next
    assume "slen s < 4"
    then show ?thesis by (simp add: Decode_def)
  qed
next
  case False
  with assms show ?thesis by (auto simp: Decode_wraps)
qed

text \<open>
  The witness is a crafted eight-byte body in the 512-byte buffer that \<open>io.ReadAll\<close> starts
  with: it announces 214748365 entries, and \<open>4 + 20 * 214748365\<close> is 8 modulo \<open>2 ^ 32\<close>.
\<close>

theorem Decode_panics_iff_witness:
  "Decode \<lparr>arr = [12, 204, 204, 205, 0, 0, 0, 0] @ replicate 504 0, slen = 8\<rparr> = Inl SliceBounds"
proof -
  let ?s = "\<lparr>arr = [12, 204, 204, 205, 0, 0, 0, 0] @ replicate 504 0, slen = 8\<rparr>"
  have r: "rd32 (arr ?s) = 214748365" by (simp add: rd32_def)
  then have "\<not> fits (count_of ?s)" by (simp add: fits_def count_of_def)
  then show ?thesis
    by (subst Decode_panics_iff) (simp_all add: slice_wf_def r [simplified])
qed

end
