(* ===== verification/Net_IP.thy ===== *)
theory Net_IP
  imports Binary
begin

text \<open>
  The part of Go's standard library on which the address handling rests: \<open>net.ParseIP\<close>,
  \<open>net.ParseCIDR\<close>, \<open>IP.To4\<close>, \<open>IP.String\<close>, \<open>net.CIDRMask\<close>, \<open>strings.Split\<close> and
  \<open>strconv.Atoi\<close>, for both address families. A \<open>net.IP\<close> is its byte slice; the nil
  address is the empty list.
\<close>

type_synonym IP = "u8 list"

section \<open>Characters\<close>

definition code :: "char \<Rightarrow> nat" where
  "code c = of_char c"

definition is_digit :: "char \<Rightarrow> bool" where
  "is_digit c \<longleftrightarrow> 48 \<le> code c \<and> code c \<le> 57"

definition digit_val :: "char \<Rightarrow> nat" where
  "digit_val c = code c - 48"

definition digit_char :: "nat \<Rightarrow> char" where
  "digit_char d = (if d < 10 then char_of (48 + d) else char_of (87 + d))"

definition hex_val :: "char \<Rightarrow> nat option" where
  "hex_val c =
     (if is_digit c then Some (digit_val c)
      else if 97 \<le> code c \<and> code c \<le> 102 then Some (code c - 97 + 10)
      else if 65 \<le> code c \<and> code c \<le> 70 then Some (code c - 65 + 10)
      else None)"

section \<open>strings.Split and strconv.Atoi\<close>

fun split_dot :: "string \<Rightarrow> string list" where
  "split_dot [] = [[]]"
| "split_dot (c # cs) =
     (if c = CHR ''.'' then [] # split_dot cs
      else (case split_dot cs of [] \<Rightarrow> [[c]] | p # ps \<Rightarrow> (c # p) # ps))"

fun atoi_digits :: "int \<Rightarrow> string \<Rightarrow> int option" where
  "atoi_digits n [] = Some n"
| "atoi_digits n (c # cs) =
     (if is_digit c then atoi_digits (n * 10 + int (digit_val c)) cs else None)"

text \<open>\<open>None\<close> stands for any non-nil error: syntax, or out of the range of a 64-bit int.\<close>

definition Atoi :: "string \<Rightarrow> int option" where
  "Atoi s =
     (let (neg, ds) = (case s of [] \<Rightarrow> (False, [])
            | c # cs \<Rightarrow> if c = CHR ''-'' then (True, cs) else if c = CHR ''+'' then (False, cs)
                        else (False, s))
      in if ds = [] then None
         else (case atoi_digits 0 ds of None \<Rightarrow> None
           | Some n \<Rightarrow> let n = (if neg then - n else n)
                      in if - (2 ^ 63) \<le> n \<and> n < 2 ^ 63 then Some n else None))"

section \<open>Parsing\<close>

text \<open>
  \<open>v4_fields\<close> is the loop of \<open>netip.parseIPv4Fields\<close>: the character before, the rest of
  the input, the value, the field number, the digits seen and the four octets so far.
\<close>

fun v4_fields :: "char option \<Rightarrow> string \<Rightarrow> nat \<Rightarrow> nat \<Rightarrow> nat \<Rightarrow> u8 list \<Rightarrow> u8 list option" where
  "v4_fields prev [] val pos digLen fs =
     (if pos < 3 then None else Some (fs[3 := of_nat val]))"
| "v4_fields prev (c # cs) val pos digLen fs =
     (if is_digit c then
        (if digLen = 1 \<and> val = 0 then None
         else if 255 < val * 10 + digit_val c then None
         else v4_fields (Some c) cs (val * 10 + digit_val c) pos (Suc digLen) fs)
      else if c = CHR ''.'' then
        (if prev = None \<or> cs = [] \<or> prev = Some (CHR ''.'') then None
         else if pos = 3 then None
         else v4_fields (Some c) cs 0 (Suc pos) 0 (fs[pos := of_nat val]))
      else None)"

definition parse_v4 :: "string \<Rightarrow> u8 list option" where
  "parse_v4 s = v4_fields None s 0 0 0 [0, 0, 0, 0]"

text \<open>One group of hexadecimal digits: its value, the number of digits and the rest.\<close>

fun hex_group :: "nat \<Rightarrow> nat \<Rightarrow> string \<Rightarrow> (nat \<times> nat \<times> string) option" where
  "hex_group off acc [] = Some (acc, off, [])"
| "hex_group off acc (c # cs) =
     (case hex_val c of
        None \<Rightarrow> Some (acc, off, c # cs)
      | Some d \<Rightarrow>
          if 3 < off then None
          else if 65535 < acc * 16 + d then None
          else hex_group (Suc off) (acc * 16 + d) cs)"

text \<open>
  The main loop of \<open>netip.parseIPv6\<close>: the rest of the input, the byte index, the position
  of the ellipsis and the sixteen bytes.
\<close>

function v6_loop :: "string \<Rightarrow> nat \<Rightarrow> nat option \<Rightarrow> u8 list
    \<Rightarrow> (string \<times> nat \<times> nat option \<times> u8 list) option" where
  "v6_loop s i ellipsis ip =
     (if i < 16 then
        (case hex_group 0 0 s of
           None \<Rightarrow> None
         | Some (acc, off, rest) \<Rightarrow>
             if off = 0 then None
             else if rest \<noteq> [] \<and> hd rest = CHR ''.'' then
               (if ellipsis = None \<and> i \<noteq> 12 then None
                else if 16 < i + 4 then None
                else (case parse_v4 s of
                        None \<Rightarrow> None
                      | Some f \<Rightarrow> Some ([], i + 4, ellipsis, overwrite ip i f)))
             else
               (let ip = ip[i := of_nat (acc div 256), Suc i := of_nat acc];
                    i = i + 2
                in if rest = [] then Some ([], i, ellipsis, ip)
                   else if hd rest \<noteq> CHR '':'' then None
                   else if tl rest = [] then None
                   else if hd (tl rest) = CHR '':'' then
                     (if ellipsis \<noteq> None then None
                      else if tl (tl rest) = [] then Some ([], i, Some i, ip)
                      else v6_loop (tl (tl rest)) i (Some i) ip)
                   else v6_loop (tl rest) i ellipsis ip))
      else Some (s, i, ellipsis, ip))"
  by pat_completeness auto
termination
  by (relation "measure (\<lambda>(s, i, e, ip). 16 - i)") auto

declare v6_loop.simps [simp del]

text \<open>The bytes and the zone of an IPv6 literal.\<close>

definition parse_v6 :: "string \<Rightarrow> (u8 list \<times> string) option" where
  "parse_v6 input =
     (let s = takeWhile (\<lambda>c. c \<noteq> CHR ''%'') input;
          after = dropWhile (\<lambda>c. c \<noteq> CHR ''%'') input;
          zone = tl after;
          lead = (take 2 s = ''::'')
      in if after \<noteq> [] \<and> zone = [] then None
         else if lead \<and> drop 2 s = [] then Some (replicate 16 0, zone)
         else (case v6_loop (if lead then drop 2 s else s) 0 (if lead then Some 0 else None)
                     (replicate 16 0) of
             None \<Rightarrow> None
           | Some (rest, i, ellipsis, ip) \<Rightarrow>
               if rest \<noteq> [] then None
               else if i < 16 then
                 (case ellipsis of
                    None \<Rightarrow> None
                  | Some e \<Rightarrow> Some (take e ip @ replicate (16 - i) 0 @ take (i - e) (drop e ip), zone))
               else if ellipsis \<noteq> None then None
               else Some (ip, zone)))"

text \<open>
  \<open>netip.Addr\<close>: the sixteen bytes (a four-byte address in its mapped form), whether it is
  a four-byte address, and the zone. \<open>ParseAddr\<close> decides by the first separator.
\<close>

record netip_Addr =
  As16 :: "u8 list"
  Is4 :: bool
  Zone :: string

definition v4_prefix :: "u8 list" where
  "v4_prefix = [0, 0, 0, 0, 0, 0, 0, 0, 0, 0, 255, 255]"

definition ParseAddr :: "string \<Rightarrow> netip_Addr option" where
  "ParseAddr s =
     (case dropWhile (\<lambda>c. c \<notin> {CHR ''.'', CHR '':'', CHR ''%''}) s of
        [] \<Rightarrow> None
      | c # _ \<Rightarrow>
          if c = CHR ''.'' then
            map_option (\<lambda>f. \<lparr>As16 = v4_prefix @ f, Is4 = True, Zone = []\<rparr>) (parse_v4 s)
          else if c = CHR '':'' then
            map_option (\<lambda>(b, z). \<lparr>As16 = b, Is4 = False, Zone = z\<rparr>) (parse_v6 s)
          else None)"

definition ParseIP :: "string \<Rightarrow> IP" where
  "ParseIP s = (case ParseAddr s of None \<Rightarrow> [] | Some a \<Rightarrow> if Zone a \<noteq> [] then [] else As16 a)"

definition To4 :: "IP \<Rightarrow> IP" where
  "To4 ip =
     (if length ip = 4 then ip
      else if length ip = 16 \<and> take 12 ip = v4_prefix then drop 12 ip
      else [])"

section \<open>Printing\<close>

definition append_decimal :: "nat \<Rightarrow> string" where
  "append_decimal x =
     (if 100 \<le> x then [digit_char (x div 100)] else [])
     @ (if 10 \<le> x then [digit_char (x div 10 mod 10)] else [])
     @ [digit_char (x mod 10)]"

definition string4 :: "u8 list \<Rightarrow> string" where
  "string4 b = append_decimal (unat (b ! 0)) @ ''.'' @ append_decimal (unat (b ! 1)) @ ''.''
     @ append_decimal (unat (b ! 2)) @ ''.'' @ append_decimal (unat (b ! 3))"

definition append_hex :: "nat \<Rightarrow> string" where
  "append_hex x =
     (if 4096 \<le> x then [digit_char (x div 4096)] else [])
     @ (if 256 \<le> x then [digit_char (x div 256 mod 16)] else [])
     @ (if 16 \<le> x then [digit_char (x div 16 mod 16)] else [])
     @ [digit_char (x mod 16)]"

fun join_colon :: "string list \<Rightarrow> string" where
  "join_colon [] = []"
| "join_colon [s] = s"
| "join_colon (s # ss) = s @ CHR '':'' # join_colon ss"

fun groups :: "u8 list \<Rightarrow> nat list" where
  "groups (h # l # bs) = (unat h * 256 + unat l) # groups bs"
| "groups _ = []"

text \<open>The longest run of at least two zero groups, the first one among equals.\<close>

definition zero_run :: "nat list \<Rightarrow> nat \<times> nat" where
  "zero_run gs = foldl (\<lambda>(zs, ze) i.
      let l = length (takeWhile (\<lambda>g. g = 0) (drop i gs))
      in if 2 \<le> l \<and> ze - zs < l then (i, i + l) else (zs, ze)) (255, 255) [0..<8]"

definition string6 :: "u8 list \<Rightarrow> string" where
  "string6 b =
     (let gs = groups b; hs = map append_hex gs; (zs, ze) = zero_run gs
      in if zs = 255 then join_colon hs
         else join_colon (take zs hs) @ ''::'' @ join_colon (drop ze hs))"

text \<open>\<open>IP.String\<close>, for slices of any length.\<close>

definition IP_String :: "IP \<Rightarrow> string" where
  "IP_String ip =
     (if ip = [] then ''<nil>''
      else if length ip \<noteq> 4 \<and> length ip \<noteq> 16 then
        CHR ''?'' # concat (map (\<lambda>b. [digit_char (unat b div 16), digit_char (unat b mod 16)]) ip)
      else if To4 ip \<noteq> [] then string4 (To4 ip)
      else string6 ip)"

section \<open>ParseCIDR\<close>

fun dtoi_loop :: "nat \<Rightarrow> nat \<Rightarrow> string \<Rightarrow> (nat \<times> nat) option" where
  "dtoi_loop n i [] = Some (n, i)"
| "dtoi_loop n i (c # cs) =
     (if is_digit c then
        (if 16777215 \<le> n * 10 + digit_val c then None
         else dtoi_loop (n * 10 + digit_val c) (Suc i) cs)
      else Some (n, i))"

definition CIDRMask :: "nat \<Rightarrow> nat \<Rightarrow> u8 list" where
  "CIDRMask ones bits =
     map (\<lambda>i. if 8 * i + 8 \<le> ones then 255
              else if ones \<le> 8 * i then 0
              else NOT (drop_bit (ones - 8 * i) 255)) [0..<bits div 8]"

text \<open>The address as given (host bits kept) and the mask; \<open>None\<close> is an error.\<close>

definition ParseCIDR :: "string \<Rightarrow> (IP \<times> u8 list) option" where
  "ParseCIDR s =
     (let addr = takeWhile (\<lambda>c. c \<noteq> CHR ''/'') s; after = dropWhile (\<lambda>c. c \<noteq> CHR ''/'') s
      in if after = [] then None
         else (case ParseAddr addr of
           None \<Rightarrow> None
         | Some a \<Rightarrow>
             let m = tl after; bits = (if Is4 a then 32 else 128)
             in if Zone a \<noteq> [] then None
                else (case dtoi_loop 0 0 m of
                    None \<Rightarrow> None
                  | Some (n, i) \<Rightarrow>
                      if i = 0 \<or> i \<noteq> length m \<or> bits < n then None
                      else Some (As16 a, CIDRMask n bits))))"

end
