(* ===== verification/Ip_Convert.thy ===== *)
theory Ip_Convert
  imports Net_IP Byteorder
begin

text \<open>
  The conversions between textual addresses and \<open>uint32\<close>: \<open>ipToUint32\<close>, which agent and
  server each have a copy of (agent/agent.go, cmd/server/main.go), and the agent's
  \<open>maskToUint32\<close>. The first goes through the printed form of the address and panics on a
  part that is not a number.
\<close>

section \<open>Definitions\<close>

fun ipToUint32_loop :: "nat \<Rightarrow> string list \<Rightarrow> u32 \<Rightarrow> u32 go" where
  "ipToUint32_loop i [] result = Inr result"
| "ipToUint32_loop i (part # parts) result =
     (case Atoi part of
        None \<Rightarrow> Inl AtoiPanic
      | Some num \<Rightarrow>
          if 24 - 8 * int i < 0 then Inl NegativeShift
          else ipToUint32_loop (Suc i) parts
                 (result OR push_bit (nat (24 - 8 * int i)) (word_of_int num)))"

definition ipToUint32 :: "IP \<Rightarrow> u32 go" where
  "ipToUint32 ip = ipToUint32_loop 0 (split_dot (IP_String ip)) 0"

text \<open>The agent's copy.\<close>

fun agent_ipToUint32_loop :: "nat \<Rightarrow> string list \<Rightarrow> u32 \<Rightarrow> u32 go" where
  "agent_ipToUint32_loop i [] result = Inr result"
| "agent_ipToUint32_loop i (part # parts) result =
     (case Atoi part of
        None \<Rightarrow> Inl AtoiPanic
      | Some num \<Rightarrow>
          if 24 - 8 * int i < 0 then Inl NegativeShift
          else agent_ipToUint32_loop (Suc i) parts
                 (result OR push_bit (nat (24 - 8 * int i)) (word_of_int num)))"

definition agent_ipToUint32 :: "IP \<Rightarrow> u32 go" where
  "agent_ipToUint32 ip = agent_ipToUint32_loop 0 (split_dot (IP_String ip)) 0"

definition maskToUint32 :: "u8 list \<Rightarrow> u32" where
  "maskToUint32 m = foldl (\<lambda>result byteValue. (push_bit 8 result) OR ucast byteValue) 0 m"

section \<open>Decimal text\<close>

lemma digit_char_props:
  assumes "d < 10"
  shows "code (digit_char d) = 48 + d" and "is_digit (digit_char d)"
    and "digit_val (digit_char d) = d"
  using assms by (simp_all add: digit_char_def code_def is_digit_def digit_val_def)

lemma is_digit_separators [simp]:
  "\<not> is_digit (CHR ''.'')" "\<not> is_digit (CHR '':'')" "\<not> is_digit (CHR ''-'')"
  "\<not> is_digit (CHR ''+'')" "\<not> is_digit (CHR ''?'')" "\<not> is_digit (CHR ''<'')"
  by (simp_all add: is_digit_def code_def)

definition all_digits :: "string \<Rightarrow> bool" where
  "all_digits s \<longleftrightarrow> s \<noteq> [] \<and> (\<forall>c \<in> set s. is_digit c)"

definition decimal_value :: "nat \<Rightarrow> string \<Rightarrow> nat" where
  "decimal_value n s = foldl (\<lambda>n c. n * 10 + digit_val c) n s"

lemma all_digits_append_decimal: "x < 1000 \<Longrightarrow> all_digits (append_decimal x)"
  by (auto simp: all_digits_def append_decimal_def digit_char_props)

lemma decimal_value_append_decimal:
  assumes "x < 1000"
  shows "decimal_value 0 (append_decimal x) = x"
proof -
  have hundreds: "x div 100 = x div 10 div 10" by (simp flip: div_mult2_eq)
  have "x div 10 div 10 * 10 + x div 10 mod 10 = x div 10" by (rule div_mult_mod_eq)
  then have value3: "(x div 100 * 10 + x div 10 mod 10) * 10 + x mod 10 = x"
    by (simp only: hundreds) (rule div_mult_mod_eq)
  have value2: "x div 10 * 10 + x mod 10 = x" by (rule div_mult_mod_eq)
  show ?thesis
  proof (cases "100 \<le> x")
    case True
    have "x div 100 < 10" using assms by auto
    with True have "decimal_value 0 (append_decimal x)
        = (x div 100 * 10 + x div 10 mod 10) * 10 + x mod 10"
      by (simp add: decimal_value_def append_decimal_def digit_char_props)
    then show ?thesis by (simp only: value3)
  next
    case False
    then have "x div 10 < 10" by auto
    with False have "decimal_value 0 (append_decimal x) = x div 10 * 10 + x mod 10"
      by (simp add: decimal_value_def append_decimal_def digit_char_props)
    then show ?thesis by (simp only: value2)
  qed
qed

lemma atoi_digits_all:
  "\<forall>c \<in> set s. is_digit c \<Longrightarrow> atoi_digits (int n) s = Some (int (decimal_value n s))"
proof (induction s arbitrary: n)
  case Nil
  then show ?case by (simp add: decimal_value_def)
next
  case (Cons c s)
  from Cons.IH [of "n * 10 + digit_val c"] Cons.prems show ?case
    by (simp add: decimal_value_def)
qed

lemma atoi_digits_None: "c \<in> set s \<Longrightarrow> \<not> is_digit c \<Longrightarrow> atoi_digits n s = None"
  by (induction s arbitrary: n) auto

lemma Atoi_append_decimal:
  assumes "x < 256"
  shows "Atoi (append_decimal x) = Some (int x)"
proof -
  have d: "all_digits (append_decimal x)" using assms by (simp add: all_digits_append_decimal)
  then obtain c cs where s: "append_decimal x = c # cs" "is_digit c"
    by (cases "append_decimal x") (auto simp: all_digits_def)
  then have "c \<noteq> CHR ''-''" "c \<noteq> CHR ''+''" by auto
  moreover have "atoi_digits 0 (append_decimal x) = Some (int x)"
    using atoi_digits_all [of "append_decimal x" 0] d assms
    by (simp add: all_digits_def decimal_value_append_decimal)
  ultimately show ?thesis using s assms by (simp add: Atoi_def Let_def)
qed

section \<open>Splitting at dots\<close>

lemma split_dot_nodot: "CHR ''.'' \<notin> set s \<Longrightarrow> split_dot s = [s]"
  by (induction s) auto

lemma split_dot_append: "CHR ''.'' \<notin> set s \<Longrightarrow> split_dot (s @ CHR ''.'' # t) = s # split_dot t"
  by (induction s) auto

lemma no_dot_append_decimal: "x < 1000 \<Longrightarrow> CHR ''.'' \<notin> set (append_decimal x)"
  using all_digits_append_decimal [of x] by (auto simp: all_digits_def)

lemma unat_u8_less [simp]: "unat (b :: u8) < 256" "unat (b :: u8) < 1000"
  using unsigned_less [of b, where ?'a = nat] by simp_all

lemma split_dot_string4:
  "split_dot (string4 b) = [append_decimal (unat (b ! 0)), append_decimal (unat (b ! 1)),
     append_decimal (unat (b ! 2)), append_decimal (unat (b ! 3))]"
  by (simp add: string4_def split_dot_append split_dot_nodot no_dot_append_decimal)

section \<open>ipToUint32\<close>

lemma agent_ipToUint32_eq: "agent_ipToUint32 = ipToUint32"
proof -
  have "agent_ipToUint32_loop i parts r = ipToUint32_loop i parts r" for i parts r
    by (induction i parts r rule: ipToUint32_loop.induct) (auto split: option.splits)
  then show ?thesis by (simp add: fun_eq_iff agent_ipToUint32_def ipToUint32_def)
qed

lemma length_To4: "To4 ip \<noteq> [] \<Longrightarrow> length (To4 ip) = 4"
  by (auto simp: To4_def split: if_splits)

lemma IP_String_v4: "To4 ip \<noteq> [] \<Longrightarrow> IP_String ip = string4 (To4 ip)"
  by (auto simp: IP_String_def To4_def split: if_splits)

lemma ipToUint32_v4:
  assumes "To4 ip \<noteq> []"
  shows "ipToUint32 ip = Inr (rd32 (To4 ip))"
proof -
  have "ipToUint32 ip = Inr (push_bit 24 (ucast (To4 ip ! 0)) OR push_bit 16 (ucast (To4 ip ! 1))
      OR push_bit 8 (ucast (To4 ip ! 2)) OR ucast (To4 ip ! 3))"
    using assms by (simp add: ipToUint32_def IP_String_v4 split_dot_string4 Atoi_append_decimal or.assoc)
  then show ?thesis by (simp add: rd32_def ac_simps)
qed

lemma Atoi_None: "c \<in> set s \<Longrightarrow> \<not> is_digit c \<Longrightarrow> c \<noteq> CHR ''-'' \<Longrightarrow> c \<noteq> CHR ''+'' \<Longrightarrow> Atoi s = None"
  by (cases s) (auto simp: Atoi_def Let_def atoi_digits_None)

lemma ipToUint32_nondecimal:
  "IP_String ip = s \<Longrightarrow> CHR ''.'' \<notin> set s \<Longrightarrow> Atoi s = None \<Longrightarrow> ipToUint32 ip = Inl AtoiPanic"
  by (simp add: ipToUint32_def split_dot_nodot)

lemma digit_char_not_dot [simp]:
  assumes "d < 16"
  shows "digit_char d \<noteq> CHR ''.''" and "CHR ''.'' \<noteq> digit_char d"
proof -
  have "code (digit_char d) \<noteq> code (CHR ''.'')"
    using assms by (simp add: digit_char_def code_def)
  then show "digit_char d \<noteq> CHR ''.''" and "CHR ''.'' \<noteq> digit_char d" by metis+
qed

lemma no_dot_append_hex:
  assumes "x < 65536"
  shows "CHR ''.'' \<notin> set (append_hex x)"
proof -
  have "x div 4096 < 16" using assms by auto
  then show ?thesis by (simp add: append_hex_def)
qed

lemma set_join_colon: "set (join_colon ss) \<subseteq> insert (CHR '':'') (\<Union>s \<in> set ss. set s)"
  by (induction ss rule: join_colon.induct) auto

lemma colon_in_join: "2 \<le> length ss \<Longrightarrow> CHR '':'' \<in> set (join_colon ss)"
  by (induction ss rule: join_colon.induct) auto

lemma groups_bound: "g \<in> set (groups b) \<Longrightarrow> g < 65536"
proof (induction b rule: groups.induct)
  case (1 h l bs)
  have "unat h * 256 + unat l < 65536"
    using unat_u8_less(1) [of h] unat_u8_less(1) [of l] by linarith
  with 1 show ?case by auto
qed auto

lemma length_groups: "length (groups b) = length b div 2"
  by (induction b rule: groups.induct) auto

lemma no_dot_string6: "CHR ''.'' \<notin> set (string6 b)"
proof -
  have hex: "CHR ''.'' \<notin> set h" if "h \<in> set (map append_hex (groups b))" for h
    using that groups_bound no_dot_append_hex by auto
  have join: "CHR ''.'' \<notin> set (join_colon ss)" if "set ss \<subseteq> set (map append_hex (groups b))" for ss
  proof
    assume "CHR ''.'' \<in> set (join_colon ss)"
    then obtain h where "h \<in> set ss" "CHR ''.'' \<in> set h" using set_join_colon by fastforce
    with that hex show False by blast
  qed
  obtain zs ze where z: "zero_run (groups b) = (zs, ze)" by fastforce
  show ?thesis
    using join [OF order.refl] join [OF set_take_subset [of zs]] join [OF set_drop_subset [of ze]]
    by (simp add: string6_def z Let_def)
qed

lemma colon_in_string6: "length b = 16 \<Longrightarrow> CHR '':'' \<in> set (string6 b)"
  by (cases "zero_run (groups b)") (simp add: string6_def Let_def length_groups colon_in_join)

lemma ipToUint32_not_v4:
  assumes "To4 ip = []"
  shows "ipToUint32 ip = Inl AtoiPanic"
proof -
  consider "ip = []" | "ip \<noteq> []" "length ip \<noteq> 4" "length ip \<noteq> 16" | "length ip = 16"
    using assms by (auto simp: To4_def split: if_splits)
  then show ?thesis
  proof cases
    case 1
    then show ?thesis
      by (intro ipToUint32_nondecimal [OF refl])
        (auto simp: IP_String_def intro: Atoi_None [of "CHR ''<''"])
  next
    case 2
    have "unat b div 16 < 16" for b :: u8
      using unat_u8_less(1) [of b] by (simp add: less_mult_imp_div_less)
    with 2 show ?thesis
      by (intro ipToUint32_nondecimal [OF refl])
        (auto simp: IP_String_def intro: Atoi_None [of "CHR ''?''"])
  next
    case 3
    then have "IP_String ip = string6 ip" using assms by (auto simp: IP_String_def)
    then show ?thesis
      using 3 no_dot_string6 colon_in_string6 Atoi_None [of "CHR '':''" "string6 ip"]
      by (intro ipToUint32_nondecimal) auto
  qed
qed

text \<open>
  C30. \<open>ipToUint32\<close> is defined on every byte slice: for an address with a four-byte form it
  returns the big-endian number of its four bytes, and for every other one, nil and IPv6
  included, it panics. The agent's copy computes the same.
\<close>

theorem ipToUint32_result:
  "ipToUint32 ip = (if To4 ip \<noteq> [] then Inr (rd32 (To4 ip)) else Inl AtoiPanic)
    \<and> agent_ipToUint32 ip = ipToUint32 ip"
  by (simp add: ipToUint32_v4 ipToUint32_not_v4 agent_ipToUint32_eq)

section \<open>Parsing a printed address\<close>

lemma v4_fields_append_decimal:
  assumes "n < 256"
  shows "\<exists>k d. d \<noteq> CHR ''.'' \<and>
    v4_fields prev (append_decimal n @ rest) 0 pos 0 fs = v4_fields (Some d) rest n pos k fs"
proof -
  have d: "n div 100 < 10" "n div 10 mod 10 < 10" "n mod 10 < 10" using assms by auto
  have value2: "n div 10 * 10 + n mod 10 = n" by (rule div_mult_mod_eq)
  have "n div 100 = n div 10 div 10" by (simp flip: div_mult2_eq)
  then have value1: "n div 100 * 10 + n div 10 mod 10 = n div 10"
    by (simp only:) (rule div_mult_mod_eq)
  have "d \<noteq> CHR ''.''" if "d = digit_char (n mod 10)" for d
    using that d digit_char_props(2) [of "n mod 10"] by auto
  moreover consider "100 \<le> n" | "10 \<le> n" "n < 100" | "n < 10" by linarith
  then have "\<exists>k. v4_fields prev (append_decimal n @ rest) 0 pos 0 fs
      = v4_fields (Some (digit_char (n mod 10))) rest n pos k fs"
  proof cases
    case 1
    then have "n div 100 \<noteq> 0" "n div 10 \<le> 255" "n div 100 \<le> 255" using assms by auto
    with 1 d assms value1 value2 show ?thesis
      by (auto simp: append_decimal_def digit_char_props simp del: mult_Suc)
  next
    case 2
    then have "n div 10 < 10" "n div 10 \<noteq> 0" by auto
    with 2 d assms value2 show ?thesis
      by (auto simp: append_decimal_def digit_char_props)
  next
    case 3
    then show ?thesis by (auto simp: append_decimal_def digit_char_props)
  qed
  ultimately show ?thesis by blast
qed

lemma parse_v4_string4: "parse_v4 (string4 [a, b, c, d]) = Some [a, b, c, d]"
proof -
  let ?D = "\<lambda>x :: u8. append_decimal (unat x)"
  have ne: "append_decimal n \<noteq> []" for n by (simp add: append_decimal_def)
  have dot: "v4_fields (Some p) (CHR ''.'' # ?D x @ rest) v pos k fs
      = v4_fields (Some (CHR ''.'')) (?D x @ rest) 0 (Suc pos) 0 (fs[pos := of_nat v])"
    if "p \<noteq> CHR ''.''" "pos < 3" for p x rest v pos k fs
    using that ne by simp
  obtain k1 d1 where 1: "d1 \<noteq> CHR ''.''"
    "v4_fields None (?D a @ CHR ''.'' # ?D b @ CHR ''.'' # ?D c @ CHR ''.'' # ?D d) 0 0 0 [0, 0, 0, 0]
      = v4_fields (Some d1) (CHR ''.'' # ?D b @ CHR ''.'' # ?D c @ CHR ''.'' # ?D d) (unat a) 0 k1 [0, 0, 0, 0]"
    using v4_fields_append_decimal [of "unat a"] by (meson unat_u8_less(1))
  obtain k2 d2 where 2: "d2 \<noteq> CHR ''.''"
    "v4_fields (Some (CHR ''.'')) (?D b @ CHR ''.'' # ?D c @ CHR ''.'' # ?D d) 0 1 0 [a, 0, 0, 0]
      = v4_fields (Some d2) (CHR ''.'' # ?D c @ CHR ''.'' # ?D d) (unat b) 1 k2 [a, 0, 0, 0]"
    using v4_fields_append_decimal [of "unat b"] by (meson unat_u8_less(1))
  obtain k3 d3 where 3: "d3 \<noteq> CHR ''.''"
    "v4_fields (Some (CHR ''.'')) (?D c @ CHR ''.'' # ?D d) 0 2 0 [a, b, 0, 0]
      = v4_fields (Some d3) (CHR ''.'' # ?D d) (unat c) 2 k3 [a, b, 0, 0]"
    using v4_fields_append_decimal [of "unat c"] by (meson unat_u8_less(1))
  obtain k4 d4 where 4:
    "v4_fields (Some (CHR ''.'')) (?D d @ []) 0 3 0 [a, b, c, 0]
      = v4_fields (Some d4) [] (unat d) 3 k4 [a, b, c, 0]"
    using v4_fields_append_decimal [of "unat d"] by (meson unat_u8_less(1))
  show ?thesis
    using 1 2 3 4 dot [of _ _ _ "[]"] dot
    by (simp add: parse_v4_def string4_def numeral_2_eq_2 numeral_3_eq_3)
qed

lemma dropWhile_string4:
  "\<exists>cs. dropWhile (\<lambda>c. c \<notin> {CHR ''.'', CHR '':'', CHR ''%''}) (string4 b) = CHR ''.'' # cs"
proof -
  have "c \<notin> {CHR ''.'', CHR '':'', CHR ''%''}" if "c \<in> set (append_decimal (unat (b ! 0)))" for c
    using that all_digits_append_decimal [of "unat (b ! 0)"]
    by (auto simp: all_digits_def is_digit_def code_def)
  then show ?thesis by (simp add: string4_def dropWhile_append2)
qed

lemma list4: "length b = 4 \<Longrightarrow> b = [b ! 0, b ! 1, b ! 2, b ! 3]"
  using take_nths(2) [of b] by simp

lemma ParseAddr_string4:
  assumes "length b = 4"
  shows "ParseAddr (string4 b) = Some \<lparr>As16 = v4_prefix @ b, Is4 = True, Zone = []\<rparr>"
proof -
  obtain cs where "dropWhile (\<lambda>c. c \<notin> {CHR ''.'', CHR '':'', CHR ''%''}) (string4 b) = CHR ''.'' # cs"
    using dropWhile_string4 by blast
  moreover have "parse_v4 (string4 b) = Some b"
    using parse_v4_string4 list4 [OF assms] by metis
  ultimately show ?thesis by (simp add: ParseAddr_def)
qed

lemma ParseIP_string4: "length b = 4 \<Longrightarrow> ParseIP (string4 b) = v4_prefix @ b"
  by (simp add: ParseIP_def ParseAddr_string4)

lemma To4_v4_prefix [simp]: "length b = 4 \<Longrightarrow> To4 (v4_prefix @ b) = b"
  by (simp add: To4_def v4_prefix_def)

text \<open>
  Text to number: parsing the dotted form of four bytes and converting the result gives
  their big-endian number, so two pods get the same index key only for the same address.
\<close>

lemma ipToUint32_dotted:
  assumes "length b = 4"
  shows "ParseIP (string4 b) \<noteq> [] \<and> ipToUint32 (ParseIP (string4 b)) = Inr (rd32 b)"
proof -
  have "v4_prefix @ b \<noteq> []" using assms by auto
  moreover have "b \<noteq> []" using assms by auto
  ultimately show ?thesis using assms by (simp add: ParseIP_string4 ipToUint32_v4)
qed

section \<open>maskToUint32\<close>

lemma maskToUint32_append:
  assumes "length b = 4"
  shows "maskToUint32 (pre @ b) = rd32 b"
proof -
  have "maskToUint32 (pre @ [w, x, y, z]) = rd32 [w, x, y, z]" for w x y z
    by (auto simp: maskToUint32_def rd32_def bit_simps intro!: bit_word_eqI dest: bit_imp_le_length)
  from this [of "b ! 0" "b ! 1" "b ! 2" "b ! 3"] show ?thesis
    unfolding list4 [OF assms, symmetric] .
qed

lemma bit_255: "bit (255 :: u8) n \<longleftrightarrow> n < 8"
proof -
  have "bit (255 :: u8) n \<longleftrightarrow> bit (mask 8 :: u8) n" by (simp add: mask_eq_exp_minus_1)
  also have "\<dots> \<longleftrightarrow> n < 8" by (simp only: bit_mask_iff) auto
  finally show ?thesis .
qed

lemma nth_CIDRMask:
  "i < bits div 8 \<Longrightarrow> CIDRMask ones bits ! i =
    (if 8 * i + 8 \<le> ones then 255 else if ones \<le> 8 * i then 0 else NOT (drop_bit (ones - 8 * i) 255))"
  by (simp add: CIDRMask_def)

lemma bit_CIDRMask:
  assumes "i < bits div 8" "j < 8"
  shows "bit (CIDRMask ones bits ! i) j \<longleftrightarrow> 8 * i + 8 \<le> ones + j"
proof -
  have part: "bit (NOT (drop_bit m 255) :: u8) j \<longleftrightarrow> 8 \<le> m + j" for m
    using assms(2) by (simp add: bit_simps bit_255 not_less del: bit_numeral_word_iff)
  consider "8 * i + 8 \<le> ones" | "ones \<le> 8 * i" | "8 * i < ones" "ones < 8 * i + 8" by linarith
  then show ?thesis
  proof cases
    case 1
    with assms show ?thesis by (simp only: nth_CIDRMask if_True bit_255) simp
  next
    case 2
    with assms show ?thesis by (simp add: nth_CIDRMask)
  next
    case 3
    then have "CIDRMask ones bits ! i = NOT (drop_bit (ones - 8 * i) 255)"
      using assms(1) by (simp add: nth_CIDRMask)
    then have "bit (CIDRMask ones bits ! i) j \<longleftrightarrow> 8 \<le> ones - 8 * i + j"
      by (simp only: part)
    with 3 show ?thesis by linarith
  qed
qed

lemma length_CIDRMask [simp]: "length (CIDRMask ones bits) = bits div 8"
  by (simp add: CIDRMask_def)

lemma bit_mask_of_bytes:
  assumes "length b = 4" "k < 32"
    and "\<And>i j. i < 4 \<Longrightarrow> j < 8 \<Longrightarrow> bit (b ! i) j \<longleftrightarrow> 8 * i + 8 \<le> n + j"
  shows "bit (rd32 b) k \<longleftrightarrow> 32 \<le> n + k"
proof -
  consider "k < 8" | "8 \<le> k" "k < 16" | "16 \<le> k" "k < 24" | "24 \<le> k" using assms(2) by linarith
  then show ?thesis
  proof cases
    case 1
    then show ?thesis using assms(3) [of 3 k] by (auto simp: rd32_def bit_simps)
  next
    case 2
    then show ?thesis using assms(3) [of 2 "k - 8"]
      by (auto simp: rd32_def bit_simps dest: bit_imp_le_length)
  next
    case 3
    then show ?thesis using assms(3) [of 1 "k - 16"]
      by (auto simp: rd32_def bit_simps dest: bit_imp_le_length)
  next
    case 4
    then show ?thesis using assms(2) assms(3) [of 0 "k - 24"]
      by (auto simp: rd32_def bit_simps dest: bit_imp_le_length)
  qed
qed

lemma bit_maskToUint32_32:
  "bit (maskToUint32 (CIDRMask n 32)) k \<longleftrightarrow> k < 32 \<and> 32 \<le> n + k"
proof (cases "k < 32")
  case True
  have eq: "maskToUint32 (CIDRMask n 32) = rd32 (CIDRMask n 32)"
    using maskToUint32_append [of "CIDRMask n 32" "[]"] by simp
  have "bit (rd32 (CIDRMask n 32)) k \<longleftrightarrow> 32 \<le> n + k"
    using True by (intro bit_mask_of_bytes) (auto simp: bit_CIDRMask)
  with True show ?thesis by (simp add: eq)
next
  case False
  then show ?thesis by (auto dest: bit_imp_le_length)
qed

lemma maskToUint32_128:
  assumes "96 \<le> n"
  shows "maskToUint32 (CIDRMask n 128) = maskToUint32 (CIDRMask (n - 96) 32)"
proof -
  have "drop 12 (CIDRMask n 128) = CIDRMask (n - 96) 32"
    using assms by (intro nth_equalityI) (auto simp: CIDRMask_def)
  then have "CIDRMask n 128 = take 12 (CIDRMask n 128) @ CIDRMask (n - 96) 32"
    by (metis append_take_drop_id)
  then have "maskToUint32 (CIDRMask n 128) = rd32 (CIDRMask (n - 96) 32)"
    using maskToUint32_append [of "CIDRMask (n - 96) 32" "take 12 (CIDRMask n 128)"] by simp
  then show ?thesis
    using maskToUint32_append [of "CIDRMask (n - 96) 32" "[]"] by simp
qed

section \<open>ParseCIDR on a dotted address\<close>

lemma decimal_value_ge: "n \<le> decimal_value n s"
proof (induction s arbitrary: n)
  case Nil
  then show ?case by (simp add: decimal_value_def)
next
  case (Cons c s)
  have "n \<le> n * 10 + digit_val c" by simp
  also have "\<dots> \<le> decimal_value n (c # s)" using Cons.IH by (simp add: decimal_value_def)
  finally show ?case .
qed

lemma dtoi_loop_digits:
  "\<forall>c \<in> set s. is_digit c \<Longrightarrow> decimal_value n s < 16777215 \<Longrightarrow>
   dtoi_loop n i s = Some (decimal_value n s, i + length s)"
proof (induction s arbitrary: n i)
  case Nil
  then show ?case by (simp add: decimal_value_def)
next
  case (Cons c s)
  have eq: "decimal_value n (c # s) = decimal_value (n * 10 + digit_val c) s"
    by (simp add: decimal_value_def)
  with Cons.prems decimal_value_ge [of "n * 10 + digit_val c" s] Cons.IH show ?case by simp
qed

lemma string4_no_slash: "CHR ''/'' \<notin> set (string4 b)"
proof -
  have "CHR ''/'' \<notin> set (append_decimal (unat x))" for x :: u8
    using all_digits_append_decimal [of "unat x"] unat_u8_less(1) [of x]
    by (auto simp: all_digits_def is_digit_def code_def)
  then show ?thesis by (simp add: string4_def)
qed

lemma ParseCIDR_string4:
  assumes "length b = 4" "n \<le> 32"
  shows "ParseCIDR (string4 b @ CHR ''/'' # append_decimal n) = Some (v4_prefix @ b, CIDRMask n 32)"
proof -
  have d: "all_digits (append_decimal n)" using assms by (simp add: all_digits_append_decimal)
  moreover have v: "decimal_value 0 (append_decimal n) = n"
    using assms by (simp add: decimal_value_append_decimal)
  ultimately have "dtoi_loop 0 0 (append_decimal n) = Some (n, length (append_decimal n))"
    using assms dtoi_loop_digits [of "append_decimal n" 0 0] by (simp add: all_digits_def)
  moreover have "takeWhile (\<lambda>c. c \<noteq> CHR ''/'') (string4 b @ CHR ''/'' # append_decimal n) = string4 b"
    "dropWhile (\<lambda>c. c \<noteq> CHR ''/'') (string4 b @ CHR ''/'' # append_decimal n) = CHR ''/'' # append_decimal n"
    using string4_no_slash [of b] by (auto simp: takeWhile_append dropWhile_append)
  ultimately show ?thesis
    using assms d by (auto simp: ParseCIDR_def ParseAddr_string4 all_digits_def Let_def)
qed

section \<open>The address a text stands for\<close>

definition addr_of :: "string \<Rightarrow> u32 option" where
  "addr_of t = (if To4 (ParseIP t) = [] then None else Some (rd32 (To4 (ParseIP t))))"

lemma To4_nil [simp]: "To4 [] = []"
  by (simp add: To4_def)

lemma ParseIP_nil [simp]: "ParseIP [] = []"
  by (simp add: ParseIP_def ParseAddr_def)

end
