(* ===== verification/Ledger.thy ===== *)
theory Ledger
  imports Prelude "HOL-Library.Multiset"
begin

text \<open>
  Counters that are only added to: the Go idiom \<open>m[k] += v\<close> and the abstract ledger it
  implements. The server's statistics and the kernel's flow map are both ledgers; what a
  batch of postings amounts to is proved once, for any state with a balance.
\<close>

section \<open>The interface\<close>

locale ledger =
  fixes post :: "'k \<Rightarrow> 'v::comm_monoid_add \<Rightarrow> 's \<Rightarrow> 's"
    and balance :: "'s \<Rightarrow> 'k \<Rightarrow> 'v"
  assumes balance_post: "balance (post k v s) k' = balance s k' + (if k = k' then v else 0)"
begin

lemma balance_posts:
  "balance (fold (\<lambda>(k, v). post k v) ps s) k'
    = balance s k' + sum_list (map snd (filter (\<lambda>p. fst p = k') ps))"
  by (induction ps arbitrary: s) (auto simp: balance_post ac_simps split: prod.splits)

lemma balance_posts_mset:
  assumes "mset ps = mset qs"
  shows "balance (fold (\<lambda>(k, v). post k v) ps s) k' = balance (fold (\<lambda>(k, v). post k v) qs s) k'"
proof -
  have "mset (map snd (filter (\<lambda>p. fst p = k') ps)) = mset (map snd (filter (\<lambda>p. fst p = k') qs))"
    using assms by simp
  then have "sum_list (map snd (filter (\<lambda>p. fst p = k') ps))
      = sum_list (map snd (filter (\<lambda>p. fst p = k') qs))"
    by (metis sum_mset_sum_list)
  then show ?thesis by (simp add: balance_posts)
qed

end

section \<open>Go maps of counters\<close>

text \<open>\<open>lookup0\<close> reads an absent counter as zero, \<open>bump\<close> is \<open>m[k] += v\<close> on \<open>uint64\<close>.\<close>

definition lookup0 :: "('k \<rightharpoonup> u64) \<Rightarrow> 'k \<Rightarrow> u64" where
  "lookup0 m k = (case m k of None \<Rightarrow> 0 | Some v \<Rightarrow> v)"

definition bump :: "'k \<Rightarrow> u64 \<Rightarrow> ('k \<rightharpoonup> u64) \<Rightarrow> ('k \<rightharpoonup> u64)" where
  "bump k v m = m(k \<mapsto> lookup0 m k + v)"

interpretation counters: ledger bump lookup0
  by unfold_locales (auto simp: bump_def lookup0_def)

lemma dom_bump [simp]: "dom (bump k v m) = insert k (dom m)"
  by (simp add: bump_def)

lemma dom_bumps: "dom (fold (\<lambda>(k, v). bump k v) ps m) = dom m \<union> fst ` set ps"
  by (induction ps arbitrary: m) (simp_all add: split_def)

lemma map_eqI_lookup0: "dom m = dom n \<Longrightarrow> (\<And>k. lookup0 m k = lookup0 n k) \<Longrightarrow> m = n"
proof
  fix k assume dom: "dom m = dom n" and eq: "\<And>k. lookup0 m k = lookup0 n k"
  have "k \<in> dom m \<longleftrightarrow> k \<in> dom n" using dom by simp
  then show "m k = n k" using eq [of k] by (auto simp: lookup0_def split: option.splits)
qed

lemma bumps_mset:
  assumes "mset ps = mset qs"
  shows "fold (\<lambda>(k, v). bump k v) ps m = fold (\<lambda>(k, v). bump k v) qs m"
proof (rule map_eqI_lookup0)
  show "dom (fold (\<lambda>(k, v). bump k v) ps m) = dom (fold (\<lambda>(k, v). bump k v) qs m)"
    using mset_eq_setD [OF assms] by (simp add: dom_bumps)
qed (rule counters.balance_posts_mset [OF assms])

text \<open>Without overflow the numbers only grow.\<close>

lemma unat_add_sum_list:
  "unat a + sum_list (map unat ws) < 2 ^ LENGTH('a) \<Longrightarrow>
   unat (a + sum_list ws) = unat a + sum_list (map unat ws)" for a :: "'a::len word"
proof (induction ws arbitrary: a)
  case Nil
  then show ?case by simp
next
  case (Cons w ws)
  then have "unat a + unat w < 2 ^ LENGTH('a)" by (simp add: add.assoc [symmetric])
  then have "unat (a + w) = unat a + unat w" by (simp add: unat_word_ariths)
  with Cons.IH [of "a + w"] Cons.prems show ?case by (simp add: add.assoc)
qed

lemma sum_list_filter_le: "sum_list (map f (filter P xs)) \<le> sum_list (map f xs)" for f :: "'a \<Rightarrow> nat"
  by (induction xs) auto

text \<open>
  Reading a ledger back: adding up the balances of the keys that satisfy a predicate gives
  the sum of their postings, so nothing is gained or lost by aggregating first.
\<close>

lemma sum_by_key:
  fixes qs :: "('k \<times> 'v::comm_monoid_add) list"
  assumes "finite A" "fst ` set qs \<subseteq> A"
  shows "(\<Sum>k\<in>A. if P k then sum_list (map snd (filter (\<lambda>q. fst q = k) qs)) else 0)
    = sum_list (map snd (filter (\<lambda>q. P (fst q)) qs))"
  using assms(2)
proof (induction qs)
  case Nil
  show ?case by (simp cong: if_cong)
next
  case (Cons q qs)
  have "(\<Sum>k\<in>A. if P k then sum_list (map snd (filter (\<lambda>p. fst p = k) (q # qs))) else 0)
      = (\<Sum>k\<in>A. (if k = fst q then if P k then snd q else 0 else 0)
          + (if P k then sum_list (map snd (filter (\<lambda>p. fst p = k) qs)) else 0))"
    by (rule sum.cong) auto
  also have "\<dots> = (if P (fst q) then snd q else 0) + sum_list (map snd (filter (\<lambda>p. P (fst p)) qs))"
    using Cons assms(1) by (simp add: sum.distrib sum.delta)
  finally show ?case by simp
qed

lemma sum_graph:
  assumes "set ps = Map.graph m" "distinct (map fst ps)" "finite (dom m)"
  shows "sum_list (map snd (filter (\<lambda>p. P (fst p)) ps)) = (\<Sum>k\<in>dom m. if P k then the (m k) else 0)"
proof -
  have "distinct ps" using assms(2) by (simp add: distinct_map)
  have inj: "inj_on fst (set ps)" using assms(2) by (simp add: distinct_map)
  have dom: "fst ` set ps = dom m" using assms(1) by (force simp: Map.graph_def)
  have val: "snd p = the (m (fst p))" if "p \<in> set ps" for p
  proof -
    from that assms(1) have "p \<in> Map.graph m" by simp
    then show ?thesis by (cases p) (simp add: Map.graph_def)
  qed
  have "sum_list (map snd (filter (\<lambda>p. P (fst p)) ps)) = (\<Sum>p\<leftarrow>ps. if P (fst p) then snd p else 0)"
    by (induction ps) auto
  also have "\<dots> = (\<Sum>p\<in>set ps. if P (fst p) then snd p else 0)"
    using \<open>distinct ps\<close> by (rule sum_list_distinct_conv_sum_set)
  also have "\<dots> = (\<Sum>p\<in>set ps. if P (fst p) then the (m (fst p)) else 0)"
    using val by (intro sum.cong) auto
  also have "\<dots> = (\<Sum>k\<in>fst ` set ps. if P k then the (m k) else 0)"
    using inj by (simp add: sum.reindex)
  finally show ?thesis by (simp only: dom)
qed

lemma sum_drained:
  assumes "set ps = Map.graph (fold (\<lambda>(k, v). bump k v) qs Map.empty)" "distinct (map fst ps)"
  shows "sum_list (map snd (filter (\<lambda>p. P (fst p)) ps)) = sum_list (map snd (filter (\<lambda>q. P (fst q)) qs))"
proof -
  let ?m = "fold (\<lambda>(k, v). bump k v) qs Map.empty"
  have dom: "dom ?m = fst ` set qs" by (simp add: dom_bumps)
  have "the (?m k) = sum_list (map snd (filter (\<lambda>q. fst q = k) qs))" if "k \<in> dom ?m" for k
    using that counters.balance_posts [of qs Map.empty k] by (auto simp: lookup0_def)
  then have "(\<Sum>k\<in>dom ?m. if P k then the (?m k) else 0)
      = (\<Sum>k\<in>dom ?m. if P k then sum_list (map snd (filter (\<lambda>q. fst q = k) qs)) else 0)"
    by (intro sum.cong) auto
  also have "\<dots> = sum_list (map snd (filter (\<lambda>q. P (fst q)) qs))"
    by (rule sum_by_key) (simp_all add: dom)
  finally show ?thesis using sum_graph [OF assms, of P] by (simp add: dom)
qed

section \<open>Amounts\<close>

text \<open>
  How much of a map and of a list belongs to the keys that satisfy a predicate, in any
  measure of the 64-bit counters.
\<close>

definition map_val :: "(u64 \<Rightarrow> 'a::comm_monoid_add) \<Rightarrow> ('k \<Rightarrow> bool) \<Rightarrow> ('k \<rightharpoonup> u64) \<Rightarrow> 'a" where
  "map_val val P m = (\<Sum>k\<in>dom m. if P k then val (the (m k)) else 0)"

definition list_val :: "(u64 \<Rightarrow> 'a::comm_monoid_add) \<Rightarrow> ('k \<Rightarrow> bool) \<Rightarrow> ('k \<times> u64) list \<Rightarrow> 'a" where
  "list_val val P ps = (\<Sum>p\<leftarrow>ps. if P (fst p) then val (snd p) else 0)"

lemma map_val_empty [simp]: "map_val val P Map.empty = 0"
  by (simp add: map_val_def)

lemma list_val_simps [simp]:
  "list_val val P [] = 0"
  "list_val val P (p # ps) = (if P (fst p) then val (snd p) else 0) + list_val val P ps"
  "list_val val P (ps @ qs) = list_val val P ps + list_val val P qs"
  by (simp_all add: list_val_def)

lemma map_val_upd:
  assumes "finite (dom m)"
  shows "map_val val P (m(k \<mapsto> v)) = (if P k then val v else 0) + map_val val P (m(k := None))"
proof -
  have "map_val val P (m(k \<mapsto> v)) = (\<Sum>j\<in>insert k (dom m - {k}). if P j then val (the ((m(k \<mapsto> v)) j)) else 0)"
    unfolding map_val_def by (rule sum.cong) auto
  also have "\<dots> = (if P k then val v else 0)
      + (\<Sum>j\<in>dom m - {k}. if P j then val (the ((m(k \<mapsto> v)) j)) else 0)"
    using assms by (subst sum.insert) auto
  also have "(\<Sum>j\<in>dom m - {k}. if P j then val (the ((m(k \<mapsto> v)) j)) else 0) = map_val val P (m(k := None))"
    unfolding map_val_def by (rule sum.cong) auto
  finally show ?thesis .
qed

lemma map_val_remove:
  "finite (dom m) \<Longrightarrow> m k = Some v \<Longrightarrow>
   map_val val P m = (if P k then val v else 0) + map_val val P (m(k := None))"
  using map_val_upd [of m val P k v] by (simp add: fun_upd_idem)

lemma map_val_absent: "k \<notin> dom m \<Longrightarrow> m(k := None) = m"
  by (auto simp: fun_upd_idem domIff)

text \<open>A batch splits a map.\<close>

lemma map_val_batch:
  assumes "finite (dom m)" "set ps \<subseteq> Map.graph m" "distinct (map fst ps)"
  shows "map_val val P (m |` (- fst ` set ps)) + list_val val P ps = map_val val P m"
  using assms
proof (induction ps arbitrary: m)
  case Nil
  then show ?case by simp
next
  case (Cons p ps)
  obtain k v where p: "p = (k, v)" by (cases p)
  let ?m = "m(k := None)"
  have k: "m k = Some v" using Cons.prems(2) p by (auto simp: Map.graph_def)
  have sub: "set ps \<subseteq> Map.graph ?m" using Cons.prems p by (force simp: Map.graph_def)
  have fin: "finite (dom ?m)" using Cons.prems(1) by (simp only: dom_fun_upd) simp
  have "map_val val P (?m |` (- fst ` set ps)) + list_val val P ps = map_val val P ?m"
    by (rule Cons.IH [OF fin sub]) (use Cons.prems(3) in simp)
  moreover have "?m |` (- fst ` set ps) = m |` (- fst ` set (p # ps))"
    using p by (auto simp: restrict_map_def fun_eq_iff)
  ultimately show ?case
    using map_val_remove [OF Cons.prems(1) k, of val P] by (simp add: p ac_simps)
qed

text \<open>Adding to a counter: exactly its amount modulo \<open>2 ^ 64\<close>, and never more.\<close>

lemma map_val_bump:
  assumes "finite (dom m)"
  shows "map_val id P (bump k d m) = map_val id P m + (if P k then d else 0)"
    and "map_val unat P (bump k d m) \<le> map_val unat P m + (if P k then unat d else 0)"
proof -
  show "map_val id P (bump k d m) = map_val id P m + (if P k then d else 0)"
    using assms by (cases "m k") (simp_all add: bump_def lookup0_def map_val_upd map_val_remove
      map_val_absent domIff)
  have "unat (v + d) \<le> unat v + unat d" for v :: u64 by (simp add: unat_plus_if')
  then show "map_val unat P (bump k d m) \<le> map_val unat P m + (if P k then unat d else 0)"
    using assms by (cases "m k") (simp_all add: bump_def lookup0_def map_val_upd map_val_remove
      map_val_absent domIff add.commute)
qed

lemma unat_sum_list_le: "unat (a + sum_list ws) \<le> unat a + sum_list (map unat ws)" for a :: u64
proof (induction ws arbitrary: a)
  case Nil
  then show ?case by simp
next
  case (Cons w ws)
  have "unat (a + w + sum_list ws) \<le> unat (a + w) + sum_list (map unat ws)" by (rule Cons.IH)
  also have "unat (a + w) \<le> unat a + unat w" by (simp add: unat_plus_if')
  finally show ?case by (simp add: add.assoc)
qed

end
