(* ===== verification/Kubernetes.thy ===== *)
theory Kubernetes
  imports Prelude
begin

text \<open>
  The Kubernetes API objects that agent and server watch, with the fields the program reads.
\<close>

text \<open>An informer hands out values of type \<open>interface{}\<close>: pods, nodes, or anything else.\<close>

record v1_Pod =
  pod_Namespace :: string
  pod_Name :: string
  pod_NodeName :: string
  pod_HostIP :: string
  pod_PodIPs :: "string list"

record v1_Node =
  node_Name :: string
  node_Labels :: "string \<rightharpoonup> string"

datatype k8s_obj = PodObj v1_Pod | NodeObj v1_Node | OtherObj

end
