(* ===== verification/Server.thy ===== *)
theory Server
  imports Payload Ip_Convert Ledger Kubernetes
begin

text \<open>
  The server (cmd/server/main.go): the five indexes behind one mutex, the informer handlers
  that maintain them, the HTTP handler that charges cross-zone traffic to its source, and
  the Prometheus collector. Each handler holds the mutex while it touches the state, so a
  handler is one atomic step. Go leaves the iteration order of a map open: the two loops
  over maps take the order as an argument.
\<close>

section \<open>State\<close>

record podKey =
  pk_namespace :: string
  pk_name :: string

record PodInfo =
  Node :: string
  IPs :: "u32 list"

record NodeInfo =
  Zone_name :: string

record Server =
  podIpIndex :: "u32 \<rightharpoonup> podKey"
  nodeIpIndex :: "u32 \<rightharpoonup> string"
  podIndex :: "podKey \<rightharpoonup> PodInfo"
  nodeIndex :: "string \<rightharpoonup> string"
  statistics :: "podKey \<rightharpoonup> u64"

definition init_server :: Server where
  "init_server = \<lparr>podIpIndex = Map.empty, nodeIpIndex = Map.empty, podIndex = Map.empty,
     nodeIndex = Map.empty, statistics = Map.empty\<rparr>"

section \<open>Pods\<close>

definition pod_key :: "v1_Pod \<Rightarrow> podKey" where
  "pod_key pod = \<lparr>pk_namespace = pod_Namespace pod, pk_name = pod_Name pod\<rparr>"

text \<open>The host address, 0 when it is absent or not IPv4.\<close>

definition host_ip :: "v1_Pod \<Rightarrow> u32 go" where
  "host_ip pod =
     (if pod_HostIP pod \<noteq> [] then
        (let parsedHostIP = ParseIP (pod_HostIP pod)
         in if parsedHostIP \<noteq> [] \<and> To4 parsedHostIP \<noteq> [] then ipToUint32 parsedHostIP else Inr 0)
      else Inr 0)"

fun pod_ips :: "string list \<Rightarrow> u32 list \<Rightarrow> u32 list go" where
  "pod_ips [] ips = Inr ips"
| "pod_ips (podIP # podIPs) ips =
     (let ip = ParseIP podIP
      in if ip = [] \<or> To4 ip = [] then pod_ips podIPs ips
         else go_bind (ipToUint32 ip) (\<lambda>n. pod_ips podIPs (ips @ [n])))"

fun index_ips :: "podKey \<Rightarrow> string \<Rightarrow> u32 \<Rightarrow> u32 list \<Rightarrow> Server \<Rightarrow> Server" where
  "index_ips k node hostIP [] s = s"
| "index_ips k node hostIP (ip # ips) s =
     index_ips k node hostIP ips
       (if hostIP \<noteq> 0 \<and> ip = hostIP then s\<lparr>nodeIpIndex := (nodeIpIndex s)(ip \<mapsto> node)\<rparr>
        else s\<lparr>podIpIndex := (podIpIndex s)(ip \<mapsto> k)\<rparr>)"

definition handlePod :: "k8s_obj \<Rightarrow> Server \<Rightarrow> Server go" where
  "handlePod obj s =
     (case obj of
        PodObj pod \<Rightarrow>
          go_bind (host_ip pod) (\<lambda>hostIP.
          go_bind (pod_ips (pod_PodIPs pod) []) (\<lambda>ips.
            let s = s\<lparr>podIndex := (podIndex s)(pod_key pod \<mapsto> \<lparr>Node = pod_NodeName pod, IPs = ips\<rparr>)\<rparr>
            in Inr (index_ips (pod_key pod) (pod_NodeName pod) hostIP ips s)))
      | _ \<Rightarrow> Inr s)"

definition onPodAdd :: "k8s_obj \<Rightarrow> Server \<Rightarrow> Server go" where
  "onPodAdd obj s = handlePod obj s"

definition onPodUpdate :: "k8s_obj \<Rightarrow> k8s_obj \<Rightarrow> Server \<Rightarrow> Server go" where
  "onPodUpdate oldObj newObj s = handlePod newObj s"

fun unindex_ips :: "u32 \<Rightarrow> u32 list \<Rightarrow> Server \<Rightarrow> Server" where
  "unindex_ips hostIP [] s = s"
| "unindex_ips hostIP (ip # ips) s =
     unindex_ips hostIP ips
       (if hostIP = 0 \<or> ip \<noteq> hostIP then s\<lparr>podIpIndex := (podIpIndex s)(ip := None)\<rparr> else s)"

definition onPodDelete :: "k8s_obj \<Rightarrow> Server \<Rightarrow> Server go" where
  "onPodDelete obj s =
     (case obj of
        PodObj pod \<Rightarrow>
          go_bind (host_ip pod) (\<lambda>hostIP.
            let k = pod_key pod;
                s = (case podIndex s k of
                       Some info \<Rightarrow>
                         let s = unindex_ips hostIP (IPs info) s
                         in s\<lparr>podIndex := (podIndex s)(k := None)\<rparr>
                     | None \<Rightarrow> s)
            in Inr (s\<lparr>statistics := (statistics s)(k := None)\<rparr>))
      | _ \<Rightarrow> Inr s)"

section \<open>Nodes\<close>

definition zone_label :: string where
  "zone_label = ''topology.kubernetes.io/zone''"

definition onNodeAdd :: "k8s_obj \<Rightarrow> Server \<Rightarrow> Server" where
  "onNodeAdd obj s =
     (case obj of
        NodeObj node \<Rightarrow>
          let zone = (case node_Labels node zone_label of Some z \<Rightarrow> z | None \<Rightarrow> ''unknown'')
          in s\<lparr>nodeIndex := (nodeIndex s)(node_Name node \<mapsto> zone)\<rparr>
      | _ \<Rightarrow> s)"

definition onNodeUpdate :: "k8s_obj \<Rightarrow> k8s_obj \<Rightarrow> Server \<Rightarrow> Server" where
  "onNodeUpdate oldObj newObj s =
     (case newObj of
        NodeObj node \<Rightarrow>
          let zone = (case node_Labels node zone_label of Some z \<Rightarrow> z | None \<Rightarrow> ''unknown'')
          in s\<lparr>nodeIndex := (nodeIndex s)(node_Name node \<mapsto> zone)\<rparr>
      | _ \<Rightarrow> s)"

text \<open>The loop over \<open>nodeIpIndex\<close>, in the order the run-time picks for the map's keys.\<close>

fun drop_node_ips :: "string \<Rightarrow> u32 list \<Rightarrow> (u32 \<rightharpoonup> string) \<Rightarrow> (u32 \<rightharpoonup> string)" where
  "drop_node_ips name [] m = m"
| "drop_node_ips name (ip # ips) m =
     drop_node_ips name ips (if m ip = Some name then m(ip := None) else m)"

definition onNodeDelete :: "u32 list \<Rightarrow> k8s_obj \<Rightarrow> Server \<Rightarrow> Server" where
  "onNodeDelete order obj s =
     (case obj of
        NodeObj node \<Rightarrow>
          s\<lparr>nodeIpIndex := drop_node_ips (node_Name node) order (nodeIpIndex s),
            nodeIndex := (nodeIndex s)(node_Name node := None)\<rparr>
      | _ \<Rightarrow> s)"

section \<open>Receiving statistics\<close>

record flowLog =
  src :: podKey
  srcPort :: int
  dst :: podKey
  dstPort :: int
  bytes :: int

definition node_key :: "string \<Rightarrow> podKey" where
  "node_key node = \<lparr>pk_namespace = ''_node_'', pk_name = node\<rparr>"

text \<open>
  The two halves of the loop body: whom an address belongs to and in which zone it is.
  \<open>None\<close> is a \<open>continue\<close>.
\<close>

definition resolve_source :: "Server \<Rightarrow> u32 \<Rightarrow> (podKey \<times> string) option" where
  "resolve_source s ip =
     (case podIpIndex s ip of
        Some sourcePodKey \<Rightarrow>
          (case podIndex s sourcePodKey of
             None \<Rightarrow> None
           | Some sourcePod \<Rightarrow>
               (case nodeIndex s (Node sourcePod) of
                  None \<Rightarrow> None
                | Some srcZone \<Rightarrow> Some (sourcePodKey, srcZone)))
      | None \<Rightarrow>
          (case nodeIpIndex s ip of
             None \<Rightarrow> None
           | Some srcNode \<Rightarrow>
               (case nodeIndex s srcNode of
                  None \<Rightarrow> None
                | Some srcZone \<Rightarrow> Some (node_key srcNode, srcZone))))"

definition resolve_destination :: "Server \<Rightarrow> u32 \<Rightarrow> (podKey \<times> string) option" where
  "resolve_destination s ip =
     (case podIpIndex s ip of
        Some dstPodKey \<Rightarrow>
          (case podIndex s dstPodKey of
             None \<Rightarrow> None
           | Some dstPod \<Rightarrow>
               (case nodeIndex s (Node dstPod) of
                  None \<Rightarrow> None
                | Some dstZone \<Rightarrow> Some (dstPodKey, dstZone)))
      | None \<Rightarrow>
          (case nodeIpIndex s ip of
             None \<Rightarrow> None
           | Some dstNode \<Rightarrow>
               (case nodeIndex s dstNode of
                  None \<Rightarrow> None
                | Some dstZone \<Rightarrow> Some (node_key dstNode, dstZone))))"

definition handle_entry :: "Entry \<Rightarrow> Server \<times> flowLog list \<Rightarrow> Server \<times> flowLog list" where
  "handle_entry entry = (\<lambda>(s, flowLogs).
     (case resolve_source s (ESrcIP entry) of
        None \<Rightarrow> (s, flowLogs)
      | Some (sourcePodKey, srcZone) \<Rightarrow>
          (case resolve_destination s (EDstIP entry) of
             None \<Rightarrow> (s, flowLogs)
           | Some (dstPodKey, dstZone) \<Rightarrow>
               if srcZone \<noteq> dstZone then
                 (s\<lparr>statistics := bump sourcePodKey (Traffic entry) (statistics s)\<rparr>,
                  flowLogs @ [\<lparr>src = sourcePodKey, srcPort = uint (ESrcPort entry), dst = dstPodKey,
                    dstPort = uint (EDstPort entry), bytes = sint (Traffic entry)\<rparr>])
               else (s, flowLogs))))"

text \<open>
  A request is its method and its body, \<open>None\<close> when reading it fails. The response is the
  error that the handler writes, or the implicit empty 200. The lines logged at the end are
  returned with the state.
\<close>

record http_request =
  Method :: string
  Body :: "slice option"

datatype http_response = HttpOk | HttpError string nat

fun decode_error_text :: "decode_error \<Rightarrow> string" where
  "decode_error_text UnexpectedLength = ''unexpected length of buffer''"
| "decode_error_text UnexpectedLengthForEntries =
     ''unexpected length of buffer for number of entries''"

definition handlePayload ::
    "http_request \<Rightarrow> Server \<Rightarrow> (Server \<times> http_response \<times> flowLog list) go" where
  "handlePayload r s =
     (if Method r \<noteq> ''POST'' then Inr (s, HttpError ''Invalid request method'' 405, [])
      else (case Body r of
          None \<Rightarrow> Inr (s, HttpError ''Failed to read request body'' 500, [])
        | Some body \<Rightarrow>
            go_bind (Decode body) (\<lambda>res.
              case res of
                Inl err \<Rightarrow>
                  Inr (s, HttpError (''Failed to decode request body: '' @ decode_error_text err) 400, [])
              | Inr data \<Rightarrow>
                  (let (s, flowLogs) = fold handle_entry data (s, [])
                   in Inr (s, HttpOk, flowLogs)))))"

section \<open>Exporting metrics\<close>

text \<open>
  \<open>float64(traffic)\<close>: the integer value of the nearest double, ties to even. \<open>excess\<close> is the
  number of low bits that do not fit the 53-bit significand.
\<close>

fun excess :: "nat \<Rightarrow> nat" where
  "excess n = (if n < 2 ^ 53 then 0 else Suc (excess (n div 2)))"

declare excess.simps [simp del]

definition round53 :: "nat \<Rightarrow> nat" where
  "round53 n =
     (let k = excess n; q = n div 2 ^ k; r = n mod 2 ^ k
      in if k = 0 then n
         else if 2 ^ (k - 1) < r \<or> (r = 2 ^ (k - 1) \<and> odd q) then (q + 1) * 2 ^ k
         else q * 2 ^ k)"

definition float64 :: "u64 \<Rightarrow> nat" where
  "float64 x = round53 (unat x)"

record metric =
  m_value :: nat
  m_namespace :: string
  m_pod :: string

text \<open>\<open>Collect\<close> sends one metric per key of the map, in the run-time's order.\<close>

fun Collect_loop :: "podKey list \<Rightarrow> (podKey \<rightharpoonup> u64) \<Rightarrow> metric list" where
  "Collect_loop [] m = []"
| "Collect_loop (pod # pods) m =
     (case m pod of
        None \<Rightarrow> Collect_loop pods m
      | Some traffic \<Rightarrow>
          \<lparr>m_value = float64 traffic, m_namespace = pk_namespace pod, m_pod = pk_name pod\<rparr>
            # Collect_loop pods m)"

definition Collect_metrics :: "podKey list \<Rightarrow> Server \<Rightarrow> metric list" where
  "Collect_metrics order s = Collect_loop order (statistics s)"

definition metric_desc :: "string \<times> string \<times> string list" where
  "metric_desc = (''pod_cross_zone_network_traffic_bytes_total'',
     ''The amount of cross-zone traffic the pod caused'', [''namespace'', ''pod''])"

definition Describe :: "(string \<times> string \<times> string list) list" where
  "Describe = [metric_desc]"

end
