(* ===== verification/Server_Facts.thy ===== *)
theory Server_Facts
  imports Server
begin

text \<open>
  What the server's handlers compute: closed forms of the informer handlers, the charging
  rule of \<open>handlePayload\<close> with its independence of order, and the exported metrics.
\<close>

section \<open>Addresses of a pod\<close>

text \<open>The host address (0 for none) and the addresses of a pod.\<close>

definition host_addr :: "v1_Pod \<Rightarrow> u32" where
  "host_addr pod = (case addr_of (pod_HostIP pod) of None \<Rightarrow> 0 | Some a \<Rightarrow> a)"

definition pod_addrs :: "v1_Pod \<Rightarrow> u32 list" where
  "pod_addrs pod = List.map_filter addr_of (pod_PodIPs pod)"

definition host_network :: "v1_Pod \<Rightarrow> u32 \<Rightarrow> bool" where
  "host_network pod ip \<longleftrightarrow> host_addr pod \<noteq> 0 \<and> ip = host_addr pod"

lemma host_ip_total: "host_ip pod = Inr (host_addr pod)"
  by (auto simp: host_ip_def host_addr_def addr_of_def ipToUint32_v4 Let_def)

lemma pod_ips_total: "pod_ips ts ips = Inr (ips @ List.map_filter addr_of ts)"
  by (induction ts ips rule: pod_ips.induct)
    (auto simp: ipToUint32_v4 addr_of_def List.map_filter_def Let_def)

section \<open>Closed forms of the informer handlers\<close>

lemma index_ips_eq:
  "index_ips k node h ips s = s\<lparr>
     podIpIndex := (\<lambda>ip. if ip \<in> set ips \<and> \<not> (h \<noteq> 0 \<and> ip = h) then Some k else podIpIndex s ip),
     nodeIpIndex := (\<lambda>ip. if ip \<in> set ips \<and> h \<noteq> 0 \<and> ip = h then Some node else nodeIpIndex s ip)\<rparr>"
proof (induction k node h ips s rule: index_ips.induct)
  case (1 k node h s)
  then show ?case by simp
next
  case (2 k node h ip ips s)
  then show ?case by (auto simp: fun_eq_iff intro!: Server.equality)
qed

lemma unindex_ips_eq:
  "unindex_ips h ips s = s\<lparr>
     podIpIndex := (\<lambda>ip. if ip \<in> set ips \<and> \<not> (h \<noteq> 0 \<and> ip = h) then None else podIpIndex s ip)\<rparr>"
proof (induction h ips s rule: unindex_ips.induct)
  case (1 h s)
  then show ?case by simp
next
  case (2 h ip ips s)
  then show ?case by (auto simp: fun_eq_iff intro!: Server.equality)
qed

text \<open>The state after a pod has been seen, and after it is gone.\<close>

definition indexed :: "v1_Pod \<Rightarrow> Server \<Rightarrow> Server" where
  "indexed pod s = s\<lparr>
     podIndex := (podIndex s)(pod_key pod \<mapsto> \<lparr>Node = pod_NodeName pod, IPs = pod_addrs pod\<rparr>),
     podIpIndex := (\<lambda>ip. if ip \<in> set (pod_addrs pod) \<and> \<not> host_network pod ip
                         then Some (pod_key pod) else podIpIndex s ip),
     nodeIpIndex := (\<lambda>ip. if ip \<in> set (pod_addrs pod) \<and> host_network pod ip
                          then Some (pod_NodeName pod) else nodeIpIndex s ip)\<rparr>"

definition recorded :: "Server \<Rightarrow> podKey \<Rightarrow> u32 set" where
  "recorded s k = (case podIndex s k of None \<Rightarrow> {} | Some info \<Rightarrow> set (IPs info))"

definition unindexed :: "v1_Pod \<Rightarrow> Server \<Rightarrow> Server" where
  "unindexed pod s = s\<lparr>
     podIpIndex := (\<lambda>ip. if ip \<in> recorded s (pod_key pod) \<and> \<not> host_network pod ip
                         then None else podIpIndex s ip),
     podIndex := (podIndex s)(pod_key pod := None),
     statistics := (statistics s)(pod_key pod := None)\<rparr>"

lemma handlePod_eq: "handlePod (PodObj pod) s = Inr (indexed pod s)"
  by (simp add: handlePod_def host_ip_total pod_ips_total index_ips_eq pod_addrs_def indexed_def
      host_network_def Let_def cong: if_cong)

lemma onPodDelete_eq: "onPodDelete (PodObj pod) s = Inr (unindexed pod s)"
  by (cases "podIndex s (pod_key pod)")
    (auto simp: onPodDelete_def host_ip_total unindex_ips_eq host_network_def Let_def fun_eq_iff
      recorded_def unindexed_def intro!: Server.equality)

lemma drop_node_ips_eq:
  "drop_node_ips name order m = (\<lambda>ip. if ip \<in> set order \<and> m ip = Some name then None else m ip)"
  by (induction name order m rule: drop_node_ips.induct) (auto simp: fun_eq_iff)

lemma drop_node_ips_all:
  "set order = dom m \<Longrightarrow>
   drop_node_ips name order m = (\<lambda>ip. if m ip = Some name then None else m ip)"
  by (auto simp: drop_node_ips_eq fun_eq_iff)

lemma handlePod_other [simp]: "handlePod (NodeObj n) s = Inr s" "handlePod OtherObj s = Inr s"
  by (simp_all add: handlePod_def)

text \<open>
  C33. The pod handlers never panic, whatever the status texts of the pod are. Add and update
  record the pod's IPv4 addresses in order and point each of them at the pod, except the
  host's own address, which they point at the node; entries under other addresses, earlier
  addresses of the same pod included, stay. Delete removes the pod, its counter and every
  index entry under an address recorded for it, whichever pod that entry belongs to. Objects
  that are not pods, tombstones among them, change nothing.
\<close>

theorem pod_handlers_result:
  "onPodAdd (PodObj pod) s = Inr (s\<lparr>
     podIndex := (podIndex s)(pod_key pod \<mapsto> \<lparr>Node = pod_NodeName pod, IPs = pod_addrs pod\<rparr>),
     podIpIndex := (\<lambda>ip. if ip \<in> set (pod_addrs pod) \<and> \<not> host_network pod ip
                         then Some (pod_key pod) else podIpIndex s ip),
     nodeIpIndex := (\<lambda>ip. if ip \<in> set (pod_addrs pod) \<and> host_network pod ip
                          then Some (pod_NodeName pod) else nodeIpIndex s ip)\<rparr>)
    \<and> onPodUpdate old (PodObj pod) s = onPodAdd (PodObj pod) s
    \<and> onPodDelete (PodObj pod) s = Inr (s\<lparr>
         podIpIndex := (\<lambda>ip. if ip \<in> recorded s (pod_key pod) \<and> \<not> host_network pod ip
                             then None else podIpIndex s ip),
         podIndex := (podIndex s)(pod_key pod := None),
         statistics := (statistics s)(pod_key pod := None)\<rparr>)
    \<and> onPodAdd OtherObj s = Inr s \<and> onPodUpdate old OtherObj s = Inr s \<and> onPodDelete OtherObj s = Inr s"
  by (simp add: onPodAdd_def onPodUpdate_def handlePod_eq onPodDelete_eq indexed_def unindexed_def)
    (simp add: onPodDelete_def)

text \<open>
  Deleting a node removes exactly the host addresses that point at it, in whatever
  order the run-time visits the map, and the node's zone.
\<close>

lemma onNodeDelete_any_order:
  assumes "set order = dom (nodeIpIndex s)"
  shows "onNodeDelete order (NodeObj node) s = s\<lparr>
      nodeIpIndex := (\<lambda>ip. if nodeIpIndex s ip = Some (node_Name node) then None else nodeIpIndex s ip),
      nodeIndex := (nodeIndex s)(node_Name node := None)\<rparr>"
  using assms by (simp add: onNodeDelete_def drop_node_ips_all)

section \<open>Charging\<close>

text \<open>
  The directory is all that charging reads from the state: for an address, the key it is
  charged to and its zone. \<open>charge\<close> is what one entry costs, \<open>charges\<close> what a message costs.
\<close>

definition directory :: "Server \<Rightarrow> u32 \<rightharpoonup> podKey \<times> string" where
  "directory s = resolve_source s"

definition charge :: "(u32 \<rightharpoonup> podKey \<times> string) \<Rightarrow> Entry \<Rightarrow> (podKey \<times> u64) option" where
  "charge d e =
     (case (d (ESrcIP e), d (EDstIP e)) of
        (Some (k, z), Some (_, z')) \<Rightarrow> if z \<noteq> z' then Some (k, Traffic e) else None
      | _ \<Rightarrow> None)"

definition charges :: "(u32 \<rightharpoonup> podKey \<times> string) \<Rightarrow> Entry list \<Rightarrow> (podKey \<times> u64) list" where
  "charges d es = List.map_filter (charge d) es"

lemma resolve_destination_eq: "resolve_destination = resolve_source"
  by (simp add: fun_eq_iff resolve_destination_def resolve_source_def)

lemma directory_statistics [simp]: "directory (s\<lparr>statistics := m\<rparr>) = directory s"
  by (simp add: directory_def resolve_source_def fun_eq_iff cong: option.case_cong)

lemma handle_entry_statistics:
  "fst (handle_entry e (s, fl)) =
     s\<lparr>statistics := (case charge (directory s) e of
         None \<Rightarrow> statistics s | Some (k, v) \<Rightarrow> bump k v (statistics s))\<rparr>"
  by (auto simp: handle_entry_def charge_def directory_def resolve_destination_eq
      split: option.splits prod.splits)

lemma charges_simps [simp]:
  "charges d [] = []"
  "charges d (e # es) = (case charge d e of None \<Rightarrow> charges d es | Some p \<Rightarrow> p # charges d es)"
  "charges d (es @ es') = charges d es @ charges d es'"
  by (simp_all add: charges_def List.map_filter_def split: option.splits)

lemma fold_handle_entry:
  "fst (fold handle_entry es (s, fl)) =
     s\<lparr>statistics := fold (\<lambda>(k, v). bump k v) (charges (directory s) es) (statistics s)\<rparr>"
proof (induction es arbitrary: s fl)
  case Nil
  then show ?case by simp
next
  case (Cons e es)
  obtain s' fl' where s': "handle_entry e (s, fl) = (s', fl')" by fastforce
  then have "s' = s\<lparr>statistics := (case charge (directory s) e of
         None \<Rightarrow> statistics s | Some (k, v) \<Rightarrow> bump k v (statistics s))\<rparr>"
    using handle_entry_statistics [of e s fl] by simp
  with Cons.IH [of s' fl'] s' show ?case
    by (auto split: option.splits)
qed

text \<open>The line logged for a charged entry.\<close>

definition log_of :: "(u32 \<rightharpoonup> podKey \<times> string) \<Rightarrow> Entry \<Rightarrow> flowLog option" where
  "log_of d e =
     (case (d (ESrcIP e), d (EDstIP e)) of
        (Some (k, z), Some (k', z')) \<Rightarrow>
          if z \<noteq> z' then Some \<lparr>src = k, srcPort = uint (ESrcPort e), dst = k',
            dstPort = uint (EDstPort e), bytes = sint (Traffic e)\<rparr> else None
      | _ \<Rightarrow> None)"

lemma log_of_charge: "(log_of d e = None) \<longleftrightarrow> (charge d e = None)"
  by (auto simp: log_of_def charge_def split: option.splits prod.splits)

lemma handle_entry_log:
  "snd (handle_entry e (s, fl)) = fl @ (case log_of (directory s) e of None \<Rightarrow> [] | Some l \<Rightarrow> [l])"
  by (auto simp: handle_entry_def log_of_def directory_def resolve_destination_eq
      split: option.splits prod.splits)

lemma snd_fold_handle_entry:
  "snd (fold handle_entry es (s, fl)) = fl @ List.map_filter (log_of (directory s)) es"
proof (induction es arbitrary: s fl)
  case Nil
  then show ?case by (simp add: List.map_filter_def)
next
  case (Cons e es)
  obtain s' fl' where s': "handle_entry e (s, fl) = (s', fl')" by fastforce
  then have "directory s' = directory s"
    using handle_entry_statistics [of e s fl] by (metis directory_statistics fst_conv)
  moreover have "fl' = fl @ (case log_of (directory s) e of None \<Rightarrow> [] | Some l \<Rightarrow> [l])"
    using s' handle_entry_log [of e s fl] by simp
  ultimately show ?case
    using Cons.IH [of s' fl'] s' by (simp add: List.map_filter_def split: option.splits)
qed

text \<open>The state after a message with the given entries.\<close>

definition charged :: "Entry list \<Rightarrow> Server \<Rightarrow> Server" where
  "charged es s =
     s\<lparr>statistics := fold (\<lambda>(k, v). bump k v) (charges (directory s) es) (statistics s)\<rparr>"

lemma directory_charged [simp]: "directory (charged es s) = directory s"
  by (simp add: charged_def)

lemma charged_append: "charged (es @ es') s = charged es' (charged es s)"
  by (simp add: charged_def)

lemma charged_mset:
  assumes "mset es = mset es'"
  shows "charged es s = charged es' s"
proof -
  have "mset (charges d es) = mset (charges d es')" for d
    using assms by (simp add: charges_def List.map_filter_def)
  then show ?thesis unfolding charged_def by (metis bumps_mset)
qed

lemma lookup0_charged:
  "lookup0 (statistics (charged es s)) k = lookup0 (statistics s) k
     + sum_list (map Traffic (filter (\<lambda>e. \<exists>v. charge (directory s) e = Some (k, v)) es))"
proof -
  have "map snd (filter (\<lambda>p. fst p = k) (charges d es))
      = map Traffic (filter (\<lambda>e. \<exists>v. charge d e = Some (k, v)) es)" for d
    by (induction es) (auto simp: charge_def split: option.splits prod.splits if_splits)
  then show ?thesis by (simp add: charged_def counters.balance_posts)
qed

lemma handlePayload_eq:
  "handlePayload r s =
     (if Method r \<noteq> ''POST'' then Inr (s, HttpError ''Invalid request method'' 405, [])
      else case Body r of
        None \<Rightarrow> Inr (s, HttpError ''Failed to read request body'' 500, [])
      | Some b \<Rightarrow>
          (case Decode b of
             Inl p \<Rightarrow> Inl p
           | Inr (Inl err) \<Rightarrow>
               Inr (s, HttpError (''Failed to decode request body: '' @ decode_error_text err) 400, [])
           | Inr (Inr es) \<Rightarrow> Inr (charged es s, HttpOk, List.map_filter (log_of (directory s)) es)))"
proof -
  have "fold handle_entry es (s, [])
      = (charged es s, List.map_filter (log_of (directory s)) es)" for es
    using fold_handle_entry [of es s "[]"] snd_fold_handle_entry [of es s "[]"]
    by (simp add: prod_eq_iff charged_def)
  then show ?thesis
    by (auto simp: handlePayload_def split: option.splits sum.splits)
qed

text \<open>
  C20. The answer to every request: a wrong method, an unreadable body and an undecodable
  body are refused with their status and leave the server as it was; a decodable one is
  accepted, changes nothing but the statistics and logs one line per charged entry.
\<close>

theorem handlePayload_result:
  "handlePayload r s =
     (if Method r \<noteq> ''POST'' then Inr (s, HttpError ''Invalid request method'' 405, [])
      else case Body r of
        None \<Rightarrow> Inr (s, HttpError ''Failed to read request body'' 500, [])
      | Some b \<Rightarrow>
          (case Decode b of
             Inl p \<Rightarrow> Inl p
           | Inr (Inl err) \<Rightarrow>
               Inr (s, HttpError (''Failed to decode request body: '' @ decode_error_text err) 400, [])
           | Inr (Inr es) \<Rightarrow>
               Inr (s\<lparr>statistics := fold (\<lambda>(k, v). bump k v) (charges (directory s) es) (statistics s)\<rparr>,
                    HttpOk, List.map_filter (log_of (directory s)) es)))"
  unfolding handlePayload_eq charged_def by (rule refl)

text \<open>A small cluster for the witnesses: two pods on two nodes in two zones.\<close>

definition sample_server :: Server where
  "sample_server = init_server\<lparr>
     podIpIndex := [0x0A000001 \<mapsto> \<lparr>pk_namespace = ''default'', pk_name = ''web''\<rparr>,
                    0x0A000002 \<mapsto> \<lparr>pk_namespace = ''default'', pk_name = ''db''\<rparr>],
     podIndex := [\<lparr>pk_namespace = ''default'', pk_name = ''web''\<rparr> \<mapsto> \<lparr>Node = ''n1'', IPs = [0x0A000001]\<rparr>,
                  \<lparr>pk_namespace = ''default'', pk_name = ''db''\<rparr> \<mapsto> \<lparr>Node = ''n2'', IPs = [0x0A000002]\<rparr>],
     nodeIndex := [''n1'' \<mapsto> ''z1'', ''n2'' \<mapsto> ''z2'']\<rparr>"

definition sample_keys :: "IPKey list" where
  "sample_keys = [\<lparr>SrcIP = 0x0100000A, DstIP = 0x0200000A, SrcPort = 80, DstPort = 443\<rparr>]"

definition sample_body :: slice where
  "sample_body = full_slice (wire sample_keys [\<lparr>PacketSize = 1500\<rparr>])"

definition sample_entry :: Entry where
  "sample_entry = \<lparr>ESrcIP = 0x0A000001, EDstIP = 0x0A000002, ESrcPort = 80, EDstPort = 443,
     Traffic = 1500\<rparr>"

lemma Decode_sample: "Decode sample_body = Inr (Inr [sample_entry])"
proof -
  have "Decode sample_body = Inr (Inr (map2 entry_of sample_keys [\<lparr>PacketSize = 1500\<rparr>]))"
    by (rule Decode_Encode_eq) (simp_all add: sample_body_def sample_keys_def Encode_ok fits_def)
  then show ?thesis by (simp add: sample_keys_def entry_of_def sample_entry_def Ntohl_def)
qed

lemma resolve_sample:
  "resolve_source sample_server 0x0A000001 = Some (\<lparr>pk_namespace = ''default'', pk_name = ''web''\<rparr>, ''z1'')"
  "resolve_source sample_server 0x0A000002 = Some (\<lparr>pk_namespace = ''default'', pk_name = ''db''\<rparr>, ''z2'')"
  by (simp_all add: resolve_source_def sample_server_def)

text \<open>
  C12. Accounting: an accepted message adds to each counter exactly the bytes of the entries
  whose source resolves to that key and whose destination resolves to another zone, modulo
  \<open>2 ^ 64\<close>. Same-zone and unresolvable traffic is never charged, nor is the destination.
\<close>

theorem handlePayload_accounts:
  assumes "handlePayload r s = Inr (s', HttpOk, logs)" "Body r = Some b" "Decode b = Inr (Inr es)"
  shows "lookup0 (statistics s') k = lookup0 (statistics s) k
    + (\<Sum>e\<leftarrow>filter (\<lambda>e. \<exists>z k' z'. resolve_source s (ESrcIP e) = Some (k, z)
          \<and> resolve_destination s (EDstIP e) = Some (k', z') \<and> z \<noteq> z') es. Traffic e)"
proof -
  from assms have "s' = charged es s" by (auto simp: handlePayload_eq split: if_splits)
  moreover have "(\<exists>v. charge (directory s) e = Some (k, v)) \<longleftrightarrow>
      (\<exists>z k' z'. resolve_source s (ESrcIP e) = Some (k, z)
        \<and> resolve_destination s (EDstIP e) = Some (k', z') \<and> z \<noteq> z')" for e
    by (auto simp: charge_def directory_def resolve_destination_eq split: option.splits prod.splits if_splits)
  ultimately show ?thesis by (simp add: lookup0_charged)
qed

theorem handlePayload_accounts_witness:
  "\<exists>s' logs. handlePayload \<lparr>Method = ''POST'', Body = Some sample_body\<rparr> sample_server = Inr (s', HttpOk, logs)
    \<and> lookup0 (statistics s') \<lparr>pk_namespace = ''default'', pk_name = ''web''\<rparr> = 1500
    \<and> lookup0 (statistics s') \<lparr>pk_namespace = ''default'', pk_name = ''db''\<rparr> = 0"
proof -
  let ?r = "\<lparr>Method = ''POST'', Body = Some sample_body\<rparr>"
  obtain s' logs where s': "handlePayload ?r sample_server = Inr (s', HttpOk, logs)"
    by (simp add: handlePayload_eq Decode_sample)
  note acc = handlePayload_accounts [OF s' _ Decode_sample, simplified]
  show ?thesis
    using s' acc [of "\<lparr>pk_namespace = ''default'', pk_name = ''web''\<rparr>"]
      acc [of "\<lparr>pk_namespace = ''default'', pk_name = ''db''\<rparr>"]
    by (simp add: sample_entry_def resolve_destination_eq resolve_sample lookup0_def)
      (simp add: sample_server_def init_server_def)
qed

text \<open>What a request leaves behind; a panic is caught by the HTTP server.\<close>

definition after_request :: "http_request \<Rightarrow> Server \<Rightarrow> Server" where
  "after_request r s = (case handlePayload r s of Inl _ \<Rightarrow> s | Inr (s', _) \<Rightarrow> s')"

lemma after_request_charged: "\<exists>es. \<forall>s. after_request r s = charged es s"
proof (cases "Method r = ''POST'' \<and> (\<exists>b es. Body r = Some b \<and> Decode b = Inr (Inr es))")
  case True
  then obtain b es where "Method r = ''POST''" "Body r = Some b" "Decode b = Inr (Inr es)" by blast
  then have "\<forall>s. after_request r s = charged es s"
    by (simp add: after_request_def handlePayload_eq)
  then show ?thesis by blast
next
  case False
  then have "\<forall>s. after_request r s = charged [] s"
    by (auto simp: after_request_def handlePayload_eq charged_def split: option.splits sum.splits)
  then show ?thesis by blast
qed

text \<open>
  Requests commute: two agents' messages leave the same statistics in whichever order
  the mutex lets them in, so the counters do not depend on scheduling.
\<close>

lemma requests_commute: "after_request r (after_request r' s) = after_request r' (after_request r s)"
proof -
  obtain es where es: "\<forall>s. after_request r s = charged es s" using after_request_charged by blast
  obtain es' where es': "\<forall>s. after_request r' s = charged es' s" using after_request_charged by blast
  have "charged (es' @ es) s = charged (es @ es') s" by (rule charged_mset) simp
  then show ?thesis using es es' by (simp add: charged_append)
qed

section \<open>Exported values\<close>

lemma excess_bounds: "n div 2 ^ excess n < 2 ^ 53 \<and> (0 < excess n \<longrightarrow> 2 ^ 52 \<le> n div 2 ^ excess n)"
proof (induction n rule: excess.induct)
  case (1 n)
  show ?case
  proof (cases "n < 2 ^ 53")
    case True
    then show ?thesis by (subst (1 2 3) excess.simps) simp
  next
    case False
    then have e: "excess n = Suc (excess (n div 2))" by (subst excess.simps) simp
    have half: "n div 2 ^ Suc (excess (n div 2)) = n div 2 div 2 ^ excess (n div 2)"
      by (simp add: div_mult2_eq)
    have "2 ^ 52 \<le> n div 2" using False by simp
    moreover have "excess (n div 2) = 0" if "n div 2 < 2 ^ 53" using that by (subst excess.simps) simp
    ultimately show ?thesis using "1" [OF False] unfolding e half
      by (metis div_by_1 excess.simps power_0 zero_less_Suc)
  qed
qed

lemma excess_mono: "m \<le> n \<Longrightarrow> excess m \<le> excess n"
proof (induction n arbitrary: m rule: excess.induct)
  case (1 n)
  show ?case
  proof (cases "m < 2 ^ 53")
    case True
    then show ?thesis by (simp add: excess.simps [of m])
  next
    case False
    then have "\<not> n < 2 ^ 53" using "1.prems" by simp
    moreover have "m div 2 \<le> n div 2" using "1.prems" by (rule div_le_mono)
    ultimately show ?thesis using "1.IH" False by (simp add: excess.simps [of m] excess.simps [of n])
  qed
qed

lemma round53_bounds:
  defines "step n \<equiv> 2 ^ excess n"
  shows "n div step n * step n \<le> round53 n" and "round53 n \<le> (n div step n + 1) * step n"
    and "\<bar>int (round53 n) - int n\<bar> * 2 \<le> int (step n)"
proof -
  let ?q = "n div step n" and ?r = "n mod step n"
  have split: "n = ?q * step n + ?r" by (rule div_mult_mod_eq [symmetric])
  have splitz: "int n = int ?q * int (step n) + int ?r"
    using arg_cong [OF split, of int] by (simp only: of_nat_add of_nat_mult)
  have r: "?r < step n" by (simp add: step_def)
  have half: "2 * 2 ^ (excess n - 1) = step n" if "0 < excess n"
    using that by (simp add: step_def power_eq_if)
  consider "excess n = 0" "round53 n = n"
    | "0 < excess n" "2 ^ (excess n - 1) \<le> ?r" "round53 n = (?q + 1) * step n"
    | "0 < excess n" "?r \<le> 2 ^ (excess n - 1)" "round53 n = ?q * step n"
  proof -
    let ?up = "2 ^ (excess n - 1) < ?r \<or> (?r = 2 ^ (excess n - 1) \<and> odd ?q)"
    have eq: "round53 n = (if excess n = 0 then n else if ?up then (?q + 1) * step n else ?q * step n)"
      by (simp only: round53_def Let_def step_def)
    show thesis
    proof (cases "excess n = 0")
      case True
      with eq that(1) show thesis by simp
    next
      case False
      show thesis
      proof (cases ?up)
        case True
        then have "2 ^ (excess n - 1) \<le> ?r" by auto
        with False True eq that(2) show thesis by simp
      next
        case down: False
        then have "?r \<le> 2 ^ (excess n - 1)" by auto
        moreover have "round53 n = ?q * step n" by (subst eq) (simp only: False down if_False)
        ultimately show thesis using False that(3) by simp
      qed
    qed
  qed
  then show "?q * step n \<le> round53 n" and "round53 n \<le> (?q + 1) * step n"
    and "\<bar>int (round53 n) - int n\<bar> * 2 \<le> int (step n)"
  proof (atomize (full), cases)
    case 1
    then show "?q * step n \<le> round53 n \<and> round53 n \<le> (?q + 1) * step n
        \<and> \<bar>int (round53 n) - int n\<bar> * 2 \<le> int (step n)"
      by (simp add: step_def)
  next
    case 2
    then have "int (round53 n) = int ?q * int (step n) + int (step n)"
      by (simp only: of_nat_add of_nat_mult of_nat_1 distrib_right mult_1)
    then have "int (round53 n) - int n = int (step n) - int ?r"
      using splitz by linarith
    moreover have "step n \<le> 2 * ?r" using 2 half by linarith
    ultimately show "?q * step n \<le> round53 n \<and> round53 n \<le> (?q + 1) * step n
        \<and> \<bar>int (round53 n) - int n\<bar> * 2 \<le> int (step n)"
      using 2 r by (simp add: abs_if)
  next
    case 3
    then have "int (round53 n) = int ?q * int (step n)" by (simp only: of_nat_mult)
    then have "int n - int (round53 n) = int ?r"
      using splitz by linarith
    moreover have "2 * ?r \<le> step n" using 3 half by linarith
    ultimately show "?q * step n \<le> round53 n \<and> round53 n \<le> (?q + 1) * step n
        \<and> \<bar>int (round53 n) - int n\<bar> * 2 \<le> int (step n)"
      using 3 by simp
  qed
qed

lemma round53_small: "n < 2 ^ 53 \<Longrightarrow> round53 n = n"
  by (simp add: round53_def excess.simps [of n])

lemma round53_mono:
  assumes "m \<le> n"
  shows "round53 m \<le> round53 n"
proof (cases "excess m = excess n")
  case True
  let ?k = "2 ^ excess n"
  from assms have le: "m div ?k \<le> n div ?k" by (rule div_le_mono)
  show ?thesis
  proof (cases "m div ?k = n div ?k")
    case eq: True
    have "m mod ?k \<le> n mod ?k"
      using assms eq div_mult_mod_eq [of m ?k] div_mult_mod_eq [of n ?k] by (metis add_le_cancel_left)
    then show ?thesis using assms True eq by (auto simp: round53_def Let_def)
  next
    case False
    with le have "(m div ?k + 1) * ?k \<le> n div ?k * ?k" by (intro mult_le_mono1) simp
    then show ?thesis
      using round53_bounds(2) [of m] round53_bounds(1) [of n] True by simp
  qed
next
  case False
  with excess_mono [OF assms] have lt: "excess m < excess n" by simp
  have "round53 m \<le> (m div 2 ^ excess m + 1) * 2 ^ excess m" by (rule round53_bounds)
  also have "\<dots> \<le> 2 ^ 53 * 2 ^ excess m"
    using excess_bounds [of m] by (intro mult_le_mono1) simp
  also have "\<dots> = (2 :: nat) ^ (53 + excess m)" by (simp only: power_add)
  also have "\<dots> \<le> 2 ^ (52 + excess n)" using lt by (intro power_increasing) simp_all
  also have "\<dots> = 2 ^ 52 * 2 ^ excess n" by (simp only: power_add)
  also have "\<dots> \<le> n div 2 ^ excess n * 2 ^ excess n"
    using excess_bounds [of n] lt by (intro mult_le_mono1) simp
  also have "\<dots> \<le> round53 n" by (rule round53_bounds)
  finally show ?thesis .
qed

lemma round53_error: "\<bar>int (round53 n) - int n\<bar> * 2 ^ 53 \<le> int n"
proof (cases "excess n = 0")
  case True
  then show ?thesis by (simp add: round53_def)
next
  case False
  have "\<bar>int (round53 n) - int n\<bar> * 2 ^ 53 = \<bar>int (round53 n) - int n\<bar> * 2 * 2 ^ 52" by simp
  also have "\<dots> \<le> int (2 ^ excess n) * 2 ^ 52"
    using round53_bounds(3) [of n] by (intro mult_right_mono) simp_all
  also have "\<dots> = int (2 ^ 52 * 2 ^ excess n)" by simp
  also have "\<dots> \<le> int (n div 2 ^ excess n * 2 ^ excess n)"
    using excess_bounds [of n] False by (intro zle_int [THEN iffD2] mult_le_mono1) simp
  also have "\<dots> \<le> int n"
    by (intro zle_int [THEN iffD2] div_times_less_eq_dividend)
  finally show ?thesis .
qed

text \<open>
  The exported value of a counter is exact below \<open>2 ^ 53\<close> bytes, within one part in
  \<open>2 ^ 53\<close> above, and never decreases when the counter grows, so rounding cannot make the
  metric look like a counter reset.
\<close>

lemma exported_value:
  "\<bar>int (float64 x) - uint x\<bar> * 2 ^ 53 \<le> uint x
    \<and> (unat x < 2 ^ 53 \<longrightarrow> float64 x = unat x)
    \<and> (x \<le> y \<longrightarrow> float64 x \<le> float64 y)"
proof -
  have "int (unat x) = uint x" by simp
  then show ?thesis
    using round53_error [of "unat x"] round53_small [of "unat x"] round53_mono [of "unat x" "unat y"]
    by (simp add: float64_def word_le_nat_alt)
qed

lemma podKey_collapse [simp]: "\<lparr>pk_namespace = pk_namespace k, pk_name = pk_name k\<rparr> = k"
  by (cases k) simp

lemma Collect_loop_eq:
  "set order \<subseteq> dom m \<Longrightarrow> Collect_loop order m = map (\<lambda>k. \<lparr>m_value = float64 (lookup0 m k),
     m_namespace = pk_namespace k, m_pod = pk_name k\<rparr>) order"
  by (induction order m rule: Collect_loop.induct) (auto simp: lookup0_def)

text \<open>
  C34. A scrape exports every counter exactly once, in whatever order the map is visited: the
  exported label pairs are distinct and are those of the statistics' keys. The exported number
  is the counter itself below \<open>2 ^ 53\<close> bytes and within one part in \<open>2 ^ 53\<close> of it above.
\<close>

theorem Collect_exports_each_once:
  assumes "distinct order" "set order = dom (statistics s)"
  shows "distinct (map (\<lambda>m. (m_namespace m, m_pod m)) (Collect_metrics order s))
    \<and> (\<forall>ns p v. \<lparr>m_value = v, m_namespace = ns, m_pod = p\<rparr> \<in> set (Collect_metrics order s) \<longleftrightarrow>
        (\<exists>x. statistics s \<lparr>pk_namespace = ns, pk_name = p\<rparr> = Some x \<and> v = float64 x))
    \<and> (\<forall>ns p x. statistics s \<lparr>pk_namespace = ns, pk_name = p\<rparr> = Some x \<longrightarrow>
        (\<exists>v. \<lparr>m_value = v, m_namespace = ns, m_pod = p\<rparr> \<in> set (Collect_metrics order s)
          \<and> \<bar>int v - uint x\<bar> * 2 ^ 53 \<le> uint x \<and> (unat x < 2 ^ 53 \<longrightarrow> v = unat x)))"
proof -
  have eq: "Collect_metrics order s = map (\<lambda>k. \<lparr>m_value = float64 (lookup0 (statistics s) k),
      m_namespace = pk_namespace k, m_pod = pk_name k\<rparr>) order"
    using assms by (simp add: Collect_metrics_def Collect_loop_eq)
  have "inj_on (\<lambda>k. (pk_namespace k, pk_name k)) (set order)"
    by (auto intro!: inj_onI podKey.equality)
  then have "distinct (map (\<lambda>m. (m_namespace m, m_pod m)) (Collect_metrics order s))"
    using assms by (simp add: eq o_def distinct_map)
  moreover have exported: "\<lparr>m_value = v, m_namespace = ns, m_pod = p\<rparr> \<in> set (Collect_metrics order s) \<longleftrightarrow>
      (\<exists>x. statistics s \<lparr>pk_namespace = ns, pk_name = p\<rparr> = Some x \<and> v = float64 x)" for ns p v
  proof -
    have "\<lparr>m_value = v, m_namespace = ns, m_pod = p\<rparr> \<in> set (Collect_metrics order s) \<longleftrightarrow>
      (\<exists>k \<in> dom (statistics s). k = \<lparr>pk_namespace = ns, pk_name = p\<rparr>
         \<and> v = float64 (lookup0 (statistics s) k))"
      using assms by (auto simp: eq intro!: bexI [of _ "\<lparr>pk_namespace = ns, pk_name = p\<rparr>"])
    then show ?thesis by (auto simp: lookup0_def)
  qed
  moreover have "\<bar>int (float64 x) - uint x\<bar> * 2 ^ 53 \<le> uint x"
    "unat x < 2 ^ 53 \<longrightarrow> float64 x = unat x" for x
    using exported_value [of x x] by simp_all
  ultimately show ?thesis by blast
qed

theorem Collect_exports_each_once_witness:
  "Collect_metrics [\<lparr>pk_namespace = ''a'', pk_name = ''b''\<rparr>]
      (init_server\<lparr>statistics := [\<lparr>pk_namespace = ''a'', pk_name = ''b''\<rparr> \<mapsto> 7]\<rparr>)
    = [\<lparr>m_value = 7, m_namespace = ''a'', m_pod = ''b''\<rparr>]
   \<and> \<lparr>m_value = 7, m_namespace = ''a'', m_pod = ''b''\<rparr> \<in>
      set (Collect_metrics [\<lparr>pk_namespace = ''a'', pk_name = ''b''\<rparr>]
        (init_server\<lparr>statistics := [\<lparr>pk_namespace = ''a'', pk_name = ''b''\<rparr> \<mapsto> 7]\<rparr>))"
proof -
  let ?k = "\<lparr>pk_namespace = ''a'', pk_name = ''b''\<rparr>"
  have f: "float64 7 = 7" by (simp add: float64_def round53_small)
  have "distinct [?k]" "set [?k] = dom (statistics (init_server\<lparr>statistics := [?k \<mapsto> 7]\<rparr>))" by auto
  from Collect_exports_each_once [OF this, THEN conjunct2, THEN conjunct1] f show ?thesis
    by (simp add: Collect_metrics_def)
qed

end
