(* ===== verification/Server_System.thy ===== *)
theory Server_System
  imports Server_Facts
begin

text \<open>
  The server as a state machine. One step is one handler run under the mutex: an informer
  event, a request or a scrape, in any interleaving. The theory states which invariants hold
  in every reachable state, and which ones need the cluster to hand out addresses lawfully.
\<close>

section \<open>Steps\<close>

datatype server_event =
    PodAdd k8s_obj
  | PodUpdate k8s_obj k8s_obj
  | PodDelete k8s_obj
  | NodeAdd k8s_obj
  | NodeUpdate k8s_obj k8s_obj
  | NodeDelete k8s_obj
  | Request http_request
  | Scrape

text \<open>A request whose decoding panics is dropped by the HTTP server, outside the mutex.\<close>

inductive server_step :: "server_event \<Rightarrow> Server \<Rightarrow> Server \<Rightarrow> bool" where
  pod_add: "onPodAdd obj s = Inr s' \<Longrightarrow> server_step (PodAdd obj) s s'"
| pod_update: "onPodUpdate oldObj newObj s = Inr s' \<Longrightarrow> server_step (PodUpdate oldObj newObj) s s'"
| pod_delete: "onPodDelete obj s = Inr s' \<Longrightarrow> server_step (PodDelete obj) s s'"
| node_add: "server_step (NodeAdd obj) s (onNodeAdd obj s)"
| node_update: "server_step (NodeUpdate oldObj newObj) s (onNodeUpdate oldObj newObj s)"
| node_delete: "set order = dom (nodeIpIndex s) \<Longrightarrow> server_step (NodeDelete obj) s (onNodeDelete order obj s)"
| request: "handlePayload r s = Inr (s', response, logs) \<Longrightarrow> server_step (Request r) s s'"
| request_panic: "handlePayload r s = Inl p \<Longrightarrow> server_step (Request r) s s"
| scrape: "server_step Scrape s s"

inductive_simps server_step_simps:
  "server_step (PodAdd obj) s s'" "server_step (PodUpdate oldObj newObj) s s'"
  "server_step (PodDelete obj) s s'" "server_step (NodeAdd obj) s s'"
  "server_step (NodeUpdate oldObj newObj) s s'" "server_step (NodeDelete obj) s s'"
  "server_step (Request r) s s'" "server_step Scrape s s'"

inductive reachable :: "Server \<Rightarrow> bool" where
  start: "reachable init_server"
| step: "reachable s \<Longrightarrow> server_step e s s' \<Longrightarrow> reachable s'"

section \<open>The effect of a step\<close>

definition zone_of :: "v1_Node \<Rightarrow> string" where
  "zone_of node = (case node_Labels node zone_label of Some z \<Rightarrow> z | None \<Rightarrow> ''unknown'')"

fun effect :: "server_event \<Rightarrow> Server \<Rightarrow> Server" where
  "effect (PodAdd (PodObj pod)) s = indexed pod s"
| "effect (PodUpdate _ (PodObj pod)) s = indexed pod s"
| "effect (PodDelete (PodObj pod)) s = unindexed pod s"
| "effect (NodeAdd (NodeObj node)) s = s\<lparr>nodeIndex := (nodeIndex s)(node_Name node \<mapsto> zone_of node)\<rparr>"
| "effect (NodeUpdate _ (NodeObj node)) s = s\<lparr>nodeIndex := (nodeIndex s)(node_Name node \<mapsto> zone_of node)\<rparr>"
| "effect (NodeDelete (NodeObj node)) s = s\<lparr>
     nodeIpIndex := (\<lambda>ip. if nodeIpIndex s ip = Some (node_Name node) then None else nodeIpIndex s ip),
     nodeIndex := (nodeIndex s)(node_Name node := None)\<rparr>"
| "effect (Request r) s = after_request r s"
| "effect _ s = s"

lemma onPodDelete_other: "onPodDelete (NodeObj n) s = Inr s" "onPodDelete OtherObj s = Inr s"
  by (simp_all add: onPodDelete_def)

lemma onNodeDelete_eq:
  "set order = dom (nodeIpIndex s) \<Longrightarrow> onNodeDelete order obj s = effect (NodeDelete obj) s"
  by (cases obj) (simp_all add: onNodeDelete_def drop_node_ips_all)

lemma server_step_effect: "server_step e s s' \<Longrightarrow> s' = effect e s"
proof (induction rule: server_step.induct)
  case (pod_add obj s s')
  then show ?case by (cases obj) (simp_all add: onPodAdd_def handlePod_eq)
next
  case (pod_update oldObj newObj s s')
  then show ?case by (cases newObj) (simp_all add: onPodUpdate_def handlePod_eq)
next
  case (pod_delete obj s s')
  then show ?case by (cases obj) (simp_all add: onPodDelete_eq onPodDelete_other)
next
  case (node_add obj s)
  then show ?case by (cases obj) (simp_all add: onNodeAdd_def zone_of_def)
next
  case (node_update oldObj newObj s)
  then show ?case by (cases newObj) (simp_all add: onNodeUpdate_def zone_of_def)
qed (simp_all add: onNodeDelete_eq after_request_def)

lemma server_step_exists:
  assumes "finite (dom (nodeIpIndex s))"
  shows "\<exists>s'. server_step e s s'"
proof (cases e)
  case (PodAdd obj)
  then show ?thesis by (cases obj) (auto simp: server_step_simps onPodAdd_def handlePod_eq)
next
  case (PodUpdate oldObj obj)
  then show ?thesis by (cases obj) (auto simp: server_step_simps onPodUpdate_def handlePod_eq)
next
  case (PodDelete obj)
  then show ?thesis by (cases obj) (auto simp: server_step_simps onPodDelete_eq onPodDelete_other)
next
  case (NodeDelete obj)
  obtain order where "set order = dom (nodeIpIndex s)" using finite_list [OF assms] by blast
  with NodeDelete show ?thesis by (auto intro: server_step.node_delete)
next
  case (Request r)
  then show ?thesis by (cases "handlePayload r s") (auto simp: server_step_simps)
qed (auto intro: server_step.intros)

section \<open>Invariants of every run\<close>

text \<open>The Go maps are finite.\<close>

definition finite_maps :: "Server \<Rightarrow> bool" where
  "finite_maps s \<longleftrightarrow> finite (dom (nodeIpIndex s)) \<and> finite (dom (statistics s))"

text \<open>
  Every exported counter belongs to a pod that is still indexed, or to a node.
\<close>

definition counters_owned :: "Server \<Rightarrow> bool" where
  "counters_owned s \<longleftrightarrow> (\<forall>k \<in> dom (statistics s). k \<in> dom (podIndex s) \<or> pk_namespace k = ''_node_'')"

lemma finite_dom_if: "finite (dom m) \<Longrightarrow> finite A \<Longrightarrow>
    finite (dom (\<lambda>x. if x \<in> A \<and> P x then Some y else m x))"
  by (rule finite_subset [of _ "A \<union> dom m"]) (auto split: if_splits)

lemma charge_owner:
  "charge (directory s) e = Some (k, v) \<Longrightarrow> k \<in> dom (podIndex s) \<or> pk_namespace k = ''_node_''"
  by (auto simp: charge_def directory_def resolve_source_def node_key_def
      split: option.splits prod.splits if_splits)

lemma dom_statistics_charged:
  "dom (statistics (charged es s)) = dom (statistics s) \<union> {k. \<exists>e \<in> set es. \<exists>v. charge (directory s) e = Some (k, v)}"
proof -
  have "fst ` set (charges d es) = {k. \<exists>e \<in> set es. \<exists>v. charge d e = Some (k, v)}" for d
    by (force simp: charges_def List.map_filter_def)
  then show ?thesis by (simp add: charged_def dom_bumps)
qed

lemma finite_charged: "finite (dom (statistics (charged es s))) = finite (dom (statistics s))"
  by (simp add: charged_def dom_bumps)

lemma frame_charged [simp]:
  "podIndex (charged es s) = podIndex s" "podIpIndex (charged es s) = podIpIndex s"
  "nodeIpIndex (charged es s) = nodeIpIndex s" "nodeIndex (charged es s) = nodeIndex s"
  by (simp_all add: charged_def)

lemma finite_maps_effect: "finite_maps s \<Longrightarrow> finite_maps (effect e s)"
proof (induction e s rule: effect.induct)
  case (7 r s)
  obtain es where "\<forall>s. after_request r s = charged es s" using after_request_charged by blast
  with 7 show ?case by (simp add: finite_maps_def finite_charged)
next
  case (6 node s)
  moreover have "dom (\<lambda>ip. if nodeIpIndex s ip = Some (node_Name node) then None else nodeIpIndex s ip)
      \<subseteq> dom (nodeIpIndex s)" by (auto split: if_splits)
  ultimately show ?case by (auto simp: finite_maps_def intro: finite_subset)
qed (auto simp: finite_maps_def indexed_def unindexed_def finite_dom_if)

lemma counters_owned_effect: "counters_owned s \<Longrightarrow> counters_owned (effect e s)"
proof (induction e s rule: effect.induct)
  case (7 r s)
  obtain es where "\<forall>s. after_request r s = charged es s" using after_request_charged by blast
  with 7 show ?case
    by (auto simp: counters_owned_def dom_statistics_charged simp del: domIff dest: charge_owner)
qed (auto simp: counters_owned_def indexed_def unindexed_def split: if_splits)

interpretation finite_maps: step_invariant effect "\<lambda>_ _. True" finite_maps
  by unfold_locales (rule finite_maps_effect)

interpretation counters_owned: step_invariant effect "\<lambda>_ _. True" counters_owned
  by unfold_locales (rule counters_owned_effect)

lemma reachable_run: "reachable s \<Longrightarrow> \<exists>es. s = run effect es init_server"
proof (induction rule: reachable.induct)
  case start
  show ?case by (rule exI [of _ "[]"]) simp
next
  case (step s e s')
  then obtain es where "s = run effect es init_server" by blast
  with server_step_effect [OF step.hyps(2)] have "s' = run effect (es @ [e]) init_server" by simp
  then show ?case by blast
qed

lemma ok_run_True [simp]: "ok_run step (\<lambda>_ _. True) es s"
  by (induction es arbitrary: s) auto

lemma init_invariants: "finite_maps init_server" "counters_owned init_server"
  by (simp_all add: finite_maps_def counters_owned_def init_server_def)

lemma reachable_finite_maps: "reachable s \<Longrightarrow> finite_maps s"
  using reachable_run finite_maps.run_keeps [OF init_invariants(1)] by force

lemma reachable_counters_owned: "reachable s \<Longrightarrow> counters_owned s"
  using reachable_run counters_owned.run_keeps [OF init_invariants(2)] by force

text \<open>
  In every reachable state every event has exactly one outcome, whatever order the run-time
  visits its maps in.
\<close>

lemma every_event_has_one_outcome: "reachable s \<Longrightarrow> \<exists>!s'. server_step e s s'"
  using server_step_exists reachable_finite_maps server_step_effect
  unfolding finite_maps_def by metis

text \<open>
  C21. No orphaned series: in every reachable state, every counter that a scrape would export
  belongs to a pod that is in the index at that moment, or to a node. The counter of a
  deleted pod cannot come back while the pod is gone, however its old addresses are used.
\<close>

theorem reachable_counters_have_owner:
  assumes "reachable s" "statistics s k = Some v"
  shows "k \<in> dom (podIndex s) \<or> pk_namespace k = ''_node_''"
  using reachable_counters_owned [OF assms(1)] assms(2) by (auto simp: counters_owned_def)

lemma reachable_effect: "reachable s \<Longrightarrow> server_step e s s' \<Longrightarrow> reachable (effect e s)"
  using server_step_effect reachable.step by metis

text \<open>A run for the witnesses: two nodes, two pods, one message.\<close>

definition sample_pod :: "string \<Rightarrow> string \<Rightarrow> string \<Rightarrow> string \<Rightarrow> v1_Pod" where
  "sample_pod name node host ip = \<lparr>pod_Namespace = ''default'', pod_Name = name, pod_NodeName = node,
     pod_HostIP = host, pod_PodIPs = [ip]\<rparr>"

definition sample_node :: "string \<Rightarrow> string \<Rightarrow> v1_Node" where
  "sample_node name zone = \<lparr>node_Name = name, node_Labels = [zone_label \<mapsto> zone]\<rparr>"

definition sample_run :: "server_event list" where
  "sample_run =
     [NodeAdd (NodeObj (sample_node ''n1'' ''z1'')), NodeAdd (NodeObj (sample_node ''n2'' ''z2'')),
      PodAdd (PodObj (sample_pod ''web'' ''n1'' ''192.168.0.1'' ''10.0.0.1'')),
      PodAdd (PodObj (sample_pod ''db'' ''n2'' ''192.168.0.2'' ''10.0.0.2''))]"

lemma reachable_runs: "reachable s \<Longrightarrow> reachable (run effect es s)"
proof (induction es arbitrary: s)
  case Nil
  then show ?case by simp
next
  case (Cons e es)
  obtain s' where "server_step e s s'"
    using server_step_exists reachable_finite_maps [OF Cons.prems] unfolding finite_maps_def by blast
  with Cons show ?case by (simp add: reachable_effect)
qed

lemma addr_of_samples:
  "addr_of ''10.0.0.1'' = Some 0x0A000001" "addr_of ''10.0.0.2'' = Some 0x0A000002"
  "addr_of ''192.168.0.1'' = Some 0xC0A80001" "addr_of ''192.168.0.2'' = Some 0xC0A80002"
  by code_simp+

lemmas sample_simps = sample_pod_def sample_node_def pod_key_def pod_addrs_def host_addr_def
  host_network_def indexed_def unindexed_def zone_of_def addr_of_samples List.map_filter_simps

abbreviation sample_key :: "string \<Rightarrow> podKey" where
  "sample_key name \<equiv> \<lparr>pk_namespace = ''default'', pk_name = name\<rparr>"

definition sample_state :: Server where
  "sample_state = run effect sample_run init_server"

lemma sample_state_eq: "sample_state = init_server\<lparr>
   podIpIndex := [0x0A000001 \<mapsto> sample_key ''web'', 0x0A000002 \<mapsto> sample_key ''db''],
   podIndex := [sample_key ''web'' \<mapsto> \<lparr>Node = ''n1'', IPs = [0x0A000001]\<rparr>,
                sample_key ''db'' \<mapsto> \<lparr>Node = ''n2'', IPs = [0x0A000002]\<rparr>],
   nodeIndex := [''n1'' \<mapsto> ''z1'', ''n2'' \<mapsto> ''z2'']\<rparr>"
  by (auto simp: sample_state_def sample_run_def sample_simps init_server_def fun_eq_iff)

lemma reachable_sample: "reachable sample_state"
  unfolding sample_state_def by (rule reachable_runs) (rule reachable.start)

lemma sample_state_is_sample_server: "sample_state = sample_server"
  by (simp add: sample_state_eq sample_server_def)

definition sample_post :: http_request where
  "sample_post = \<lparr>Method = ''POST'', Body = Some sample_body\<rparr>"

lemma charge_sample: "charge (directory sample_state) sample_entry = Some (sample_key ''web'', 1500)"
  by (simp add: charge_def directory_def sample_state_is_sample_server resolve_sample sample_entry_def)

lemma after_sample_post:
  "after_request sample_post sample_state = sample_state\<lparr>statistics := [sample_key ''web'' \<mapsto> 1500]\<rparr>"
proof -
  have "after_request sample_post sample_state = charged [sample_entry] sample_state"
    by (simp add: after_request_def handlePayload_eq sample_post_def Decode_sample)
  also have "\<dots> = sample_state\<lparr>statistics := [sample_key ''web'' \<mapsto> 1500]\<rparr>"
    by (simp add: charged_def charge_sample bump_def lookup0_def)
      (simp add: sample_state_eq init_server_def)
  finally show ?thesis .
qed

theorem reachable_counters_have_owner_witness:
  "\<exists>s. reachable s \<and> statistics s (sample_key ''web'') = Some 1500
    \<and> (sample_key ''web'' \<in> dom (podIndex s) \<or> pk_namespace (sample_key ''web'') = ''_node_'')"
proof -
  let ?s = "run effect [Request sample_post] sample_state"
  have r: "reachable ?s" by (rule reachable_runs) (rule reachable_sample)
  have v: "statistics ?s (sample_key ''web'') = Some 1500" by (simp add: after_sample_post)
  show ?thesis using reachable_counters_have_owner [OF r v] r v by blast
qed

text \<open>
  C32. Counters only grow: no event but the deletion of its own pod makes a counter smaller,
  as long as its value stays below \<open>2 ^ 64\<close>, which is what Prometheus expects of a counter.
\<close>

theorem counter_only_grows:
  assumes "server_step e s s'"
    and "\<And>pod. e = PodDelete (PodObj pod) \<Longrightarrow> pod_key pod \<noteq> k"
    and "\<And>r b es. e = Request r \<Longrightarrow> Body r = Some b \<Longrightarrow> Decode b = Inr (Inr es) \<Longrightarrow>
      unat (lookup0 (statistics s) k) + (\<Sum>e\<leftarrow>es. unat (Traffic e)) < 2 ^ 64"
  shows "lookup0 (statistics s) k \<le> lookup0 (statistics s') k"
proof (cases "\<exists>r b es. e = Request r \<and> Body r = Some b \<and> Decode b = Inr (Inr es) \<and> Method r = ''POST''")
  case True
  then obtain r b es where e: "e = Request r" "Body r = Some b" "Decode b = Inr (Inr es)"
    and "Method r = ''POST''" by blast
  then have s': "s' = charged es s"
    using server_step_effect [OF assms(1)] by (simp add: after_request_def handlePayload_eq)
  let ?own = "filter (\<lambda>e. \<exists>v. charge (directory s) e = Some (k, v)) es"
  have "unat (lookup0 (statistics s) k) + (\<Sum>e\<leftarrow>?own. unat (Traffic e)) < 2 ^ LENGTH(64)"
    using assms(3) [OF e] sum_list_filter_le [of "\<lambda>e. unat (Traffic e)"
        "\<lambda>e. \<exists>v. charge (directory s) e = Some (k, v)" es] by simp
  then show ?thesis
    using unat_add_sum_list [of "lookup0 (statistics s) k" "map Traffic ?own"]
    by (simp add: s' lookup0_charged word_le_nat_alt o_def)
next
  case False
  then have "statistics s' = statistics s \<or> (\<exists>pod. e = PodDelete (PodObj pod) \<and> s' = unindexed pod s)"
    using server_step_effect [OF assms(1)]
    by (cases "(e, s)" rule: effect.cases)
      (auto simp: indexed_def after_request_def handlePayload_eq split: option.splits sum.splits)
  then show ?thesis using assms(2) by (auto simp: unindexed_def lookup0_def)
qed

theorem counter_only_grows_witness:
  "lookup0 (statistics sample_state) (sample_key ''web'')
    \<le> lookup0 (statistics (after_request sample_post sample_state)) (sample_key ''web'')"
proof (rule counter_only_grows [of "Request sample_post"])
  have "handlePayload sample_post sample_state
      = Inr (charged [sample_entry] sample_state, HttpOk, List.map_filter (log_of (directory sample_state)) [sample_entry])"
    by (simp add: handlePayload_eq sample_post_def Decode_sample)
  then show "server_step (Request sample_post) sample_state (after_request sample_post sample_state)"
    by (auto simp: after_request_def intro: server_step.request)
  show "unat (lookup0 (statistics sample_state) (sample_key ''web'')) + (\<Sum>e\<leftarrow>es. unat (Traffic e)) < 2 ^ 64"
    if "Request sample_post = Request r" "Body r = Some b" "Decode b = Inr (Inr es)" for r b es
    using that by (auto simp: sample_post_def Decode_sample sample_entry_def lookup0_def)
      (simp add: sample_state_eq init_server_def)
qed simp

section \<open>Lawful clusters\<close>

text \<open>
  \<open>H\<close> is the set of the nodes' own addresses. A cluster is lawful when a pod uses an address
  of \<open>H\<close> exactly as its host's address, keeps the addresses it has been seen with, and
  takes no address that is recorded for another pod.
\<close>

definition lawful_pod :: "u32 set \<Rightarrow> v1_Pod \<Rightarrow> Server \<Rightarrow> bool" where
  "lawful_pod H pod s \<longleftrightarrow>
     (\<forall>ip \<in> set (pod_addrs pod). ip \<in> H \<longleftrightarrow> host_network pod ip)
     \<and> recorded s (pod_key pod) \<subseteq> set (pod_addrs pod)
     \<and> (\<forall>k. k \<noteq> pod_key pod \<longrightarrow> recorded s k \<inter> set (pod_addrs pod) \<subseteq> H)"

fun lawful :: "u32 set \<Rightarrow> server_event \<Rightarrow> Server \<Rightarrow> bool" where
  "lawful H (PodAdd (PodObj pod)) s = lawful_pod H pod s"
| "lawful H (PodUpdate _ (PodObj pod)) s = lawful_pod H pod s"
| "lawful H (PodDelete (PodObj pod)) s =
     (\<forall>ip \<in> recorded s (pod_key pod). host_network pod ip \<longrightarrow> ip \<in> H)"
| "lawful H _ s = True"

inductive lawfully_reachable :: "u32 set \<Rightarrow> Server \<Rightarrow> bool" for H where
  start: "lawfully_reachable H init_server"
| step: "lawfully_reachable H s \<Longrightarrow> lawful H e s \<Longrightarrow> server_step e s s' \<Longrightarrow> lawfully_reachable H s'"

text \<open>The address index is exactly the inverse of the pods' recorded addresses.\<close>

definition index_exact :: "u32 set \<Rightarrow> Server \<Rightarrow> bool" where
  "index_exact H s \<longleftrightarrow>
     (\<forall>ip k. podIpIndex s ip = Some k \<longleftrightarrow> ip \<notin> H \<and> ip \<in> recorded s k)
     \<and> (\<forall>ip node. nodeIpIndex s ip = Some node \<longrightarrow> ip \<in> H)"

lemma recorded_simps [simp]:
  "recorded (indexed pod s) k = (if k = pod_key pod then set (pod_addrs pod) else recorded s k)"
  "recorded (unindexed pod s) k = (if k = pod_key pod then {} else recorded s k)"
  "recorded (charged es s) = recorded s"
  "recorded (s\<lparr>nodeIndex := m\<rparr>) = recorded s"
  "recorded (s\<lparr>nodeIpIndex := n\<rparr>) = recorded s"
  by (auto simp: recorded_def indexed_def unindexed_def fun_eq_iff)

lemma index_simps [simp]:
  "podIpIndex (indexed pod s) ip =
     (if ip \<in> set (pod_addrs pod) \<and> \<not> host_network pod ip then Some (pod_key pod) else podIpIndex s ip)"
  "nodeIpIndex (indexed pod s) ip =
     (if ip \<in> set (pod_addrs pod) \<and> host_network pod ip then Some (pod_NodeName pod) else nodeIpIndex s ip)"
  "podIpIndex (unindexed pod s) ip =
     (if ip \<in> recorded s (pod_key pod) \<and> \<not> host_network pod ip then None else podIpIndex s ip)"
  "nodeIpIndex (unindexed pod s) = nodeIpIndex s"
  by (simp_all add: indexed_def unindexed_def)

lemma lawful_pod_owner:
  "lawful_pod H pod s \<Longrightarrow> ip \<in> recorded s k \<Longrightarrow> ip \<notin> H \<Longrightarrow> ip \<in> set (pod_addrs pod) \<longleftrightarrow> k = pod_key pod"
  unfolding lawful_pod_def by blast

lemma lawful_pod_host:
  "lawful_pod H pod s \<Longrightarrow> ip \<in> set (pod_addrs pod) \<Longrightarrow> host_network pod ip \<longleftrightarrow> ip \<in> H"
  unfolding lawful_pod_def by blast

lemma index_exactD:
  "index_exact H s \<Longrightarrow> podIpIndex s ip = Some k \<longleftrightarrow> ip \<notin> H \<and> ip \<in> recorded s k"
  "index_exact H s \<Longrightarrow> nodeIpIndex s ip = Some node \<Longrightarrow> ip \<in> H"
  by (auto simp: index_exact_def)

lemma index_exact_indexed:
  assumes "index_exact H s" "lawful_pod H pod s"
  shows "index_exact H (indexed pod s)"
proof -
  have "podIpIndex (indexed pod s) ip = Some k \<longleftrightarrow> ip \<notin> H \<and> ip \<in> recorded (indexed pod s) k" for ip k
  proof (cases "ip \<in> set (pod_addrs pod)")
    case True
    then show ?thesis
      using lawful_pod_host [OF assms(2) True] lawful_pod_owner [OF assms(2), of ip k] index_exactD(1) [OF assms(1)]
      by auto
  next
    case False
    then show ?thesis
      using lawful_pod_owner [OF assms(2), of ip k] index_exactD(1) [OF assms(1)] by auto
  qed
  moreover have "nodeIpIndex (indexed pod s) ip = Some node \<longrightarrow> ip \<in> H" for ip node
    using lawful_pod_host [OF assms(2)] index_exactD(2) [OF assms(1)] by auto
  ultimately show ?thesis unfolding index_exact_def by blast
qed

lemma index_exact_unindexed:
  assumes "index_exact H s" "\<forall>ip \<in> recorded s (pod_key pod). host_network pod ip \<longrightarrow> ip \<in> H"
  shows "index_exact H (unindexed pod s)"
proof -
  have "podIpIndex (unindexed pod s) ip = Some k \<longleftrightarrow> ip \<notin> H \<and> ip \<in> recorded (unindexed pod s) k" for ip k
  proof -
    have "ip \<in> recorded s k \<longrightarrow> ip \<in> recorded s (pod_key pod) \<longrightarrow> ip \<notin> H \<longrightarrow> k = pod_key pod"
      using index_exactD(1) [OF assms(1)] by (metis option.inject)
    then show ?thesis using assms(2) index_exactD(1) [OF assms(1)] by auto
  qed
  then show ?thesis using index_exactD(2) [OF assms(1)] unfolding index_exact_def by simp
qed

lemma index_exact_frame:
  "podIpIndex s' = podIpIndex s \<Longrightarrow> recorded s' = recorded s \<Longrightarrow>
   (\<And>ip node. nodeIpIndex s' ip = Some node \<Longrightarrow> nodeIpIndex s ip = Some node) \<Longrightarrow>
   index_exact H s \<Longrightarrow> index_exact H s'"
  by (simp add: index_exact_def)

lemma index_exact_effect: "index_exact H s \<Longrightarrow> lawful H e s \<Longrightarrow> index_exact H (effect e s)"
proof (induction e s rule: effect.induct)
  case (7 r s)
  obtain es where "\<forall>s. after_request r s = charged es s" using after_request_charged by blast
  with 7 show ?case by (auto intro: index_exact_frame)
next
  case (6 node s)
  then show ?case by (auto intro: index_exact_frame split: if_splits)
qed (auto intro: index_exact_indexed index_exact_unindexed index_exact_frame)

interpretation index_exact: step_invariant effect "lawful H" "index_exact H" for H
  by unfold_locales (rule index_exact_effect)

lemma lawfully_reachable_exact: "lawfully_reachable H s \<Longrightarrow> index_exact H s"
proof (induction rule: lawfully_reachable.induct)
  case start
  show ?case by (simp add: index_exact_def init_server_def recorded_def)
next
  case (step s e s')
  then show ?case using server_step_effect index_exact.step_keeps by metis
qed

lemma lawfully_reachable_reachable: "lawfully_reachable H s \<Longrightarrow> reachable s"
  by (induction rule: lawfully_reachable.induct) (auto intro: reachable.intros)

lemma lawful_runs:
  "lawfully_reachable H s \<Longrightarrow> ok_run effect (lawful H) es s \<Longrightarrow> lawfully_reachable H (run effect es s)"
proof (induction es arbitrary: s)
  case Nil
  then show ?case by simp
next
  case (Cons e es)
  obtain s' where s': "server_step e s s'"
    using server_step_exists reachable_finite_maps lawfully_reachable_reachable [OF Cons.prems(1)]
    unfolding finite_maps_def by blast
  then have "lawfully_reachable H (effect e s)"
    using Cons.prems lawfully_reachable.step server_step_effect by (metis ok_run.simps(2))
  with Cons show ?case by simp
qed

lemma lawful_sample: "lawfully_reachable {0xC0A80001, 0xC0A80002} sample_state"
  unfolding sample_state_def
  by (rule lawful_runs [OF lawfully_reachable.start])
    (auto simp: sample_run_def sample_simps lawful_pod_def recorded_def init_server_def)

text \<open>On a lawful cluster a pod-network address resolves to the pod that records it.\<close>

lemma resolution_exact:
  assumes "index_exact H s" "ip \<notin> H"
  shows "resolve_source s ip = Some (k, z) \<longleftrightarrow>
    (\<exists>info. podIndex s k = Some info \<and> ip \<in> set (IPs info) \<and> nodeIndex s (Node info) = Some z)"
proof -
  note exact = assms(1)
  have node: "nodeIpIndex s ip = None"
    using index_exactD(2) [OF exact] assms(2) by (cases "nodeIpIndex s ip") auto
  have pod: "podIpIndex s ip = Some k \<longleftrightarrow> (\<exists>info. podIndex s k = Some info \<and> ip \<in> set (IPs info))" for k
    using index_exactD(1) [OF exact, of ip k] assms(2) by (auto simp: recorded_def split: option.splits)
  show ?thesis
  proof (cases "podIpIndex s ip")
    case None
    with pod [of k] node show ?thesis by (auto simp: resolve_source_def)
  next
    case (Some k')
    with pod [of k'] pod [of k] show ?thesis
      by (auto simp: resolve_source_def split: option.splits)
  qed
qed

section \<open>Unlawful clusters\<close>

text \<open>
  C37. When an address has moved to another pod before the pod that had it is deleted (a
  finished pod keeps its address in its status), the deletion takes the address from its
  new owner: that pod is still indexed with it, and its traffic is no longer charged.
\<close>

theorem delete_unmaps_new_owner:
  assumes "ip \<in> recorded s (pod_key old)" "ip \<in> recorded s k" "k \<noteq> pod_key old"
    and "\<not> host_network old ip" "nodeIpIndex s ip = None"
    and "onPodDelete (PodObj old) s = Inr s'"
  shows "ip \<in> recorded s' k \<and> resolve_source s' ip = None"
proof -
  have "s' = unindexed old s" using assms(6) by (simp add: onPodDelete_eq)
  with assms show ?thesis by (simp add: resolve_source_def)
qed

definition reuse_run :: "server_event list" where
  "reuse_run =
     [NodeAdd (NodeObj (sample_node ''n1'' ''z1'')),
      PodAdd (PodObj (sample_pod ''job'' ''n1'' ''192.168.0.1'' ''10.0.0.1'')),
      PodAdd (PodObj (sample_pod ''web'' ''n1'' ''192.168.0.1'' ''10.0.0.1''))]"

theorem delete_unmaps_new_owner_witness:
  "\<exists>s s'. reachable s \<and> resolve_source s 0x0A000001 = Some (sample_key ''web'', ''z1'')
    \<and> onPodDelete (PodObj (sample_pod ''job'' ''n1'' ''192.168.0.1'' ''10.0.0.1'')) s = Inr s'
    \<and> 0x0A000001 \<in> recorded s' (sample_key ''web'') \<and> resolve_source s' 0x0A000001 = None"
proof -
  let ?s = "run effect reuse_run init_server" and ?job = "sample_pod ''job'' ''n1'' ''192.168.0.1'' ''10.0.0.1''"
  have r: "reachable ?s" by (rule reachable_runs) (rule reachable.start)
  have web: "resolve_source ?s 0x0A000001 = Some (sample_key ''web'', ''z1'')"
    by (simp add: reuse_run_def sample_simps resolve_source_def)
  have del: "onPodDelete (PodObj ?job) ?s = Inr (unindexed ?job ?s)" by (rule onPodDelete_eq)
  have "0x0A000001 \<in> recorded (unindexed ?job ?s) (sample_key ''web'')
      \<and> resolve_source (unindexed ?job ?s) 0x0A000001 = None"
    by (rule delete_unmaps_new_owner [OF _ _ _ _ _ del])
      (simp_all add: reuse_run_def sample_simps recorded_def init_server_def)
  with r web del show ?thesis by blast
qed

text \<open>
  C38. When a pod is updated without an address it had before, the old index entry stays, and
  the later deletion of the pod does not remove it either: the address is pinned to a pod
  that is gone and resolves to nothing, even if it has become a node's address.
\<close>

theorem dropped_address_stays_pinned:
  assumes "podIpIndex s ip = Some (pod_key pod)" "ip \<notin> set (pod_addrs pod)"
    and "onPodUpdate old (PodObj pod) s = Inr s1" "onPodDelete (PodObj pod) s1 = Inr s2"
  shows "podIpIndex s2 ip = Some (pod_key pod) \<and> resolve_source s2 ip = None"
proof -
  have "s2 = unindexed pod (indexed pod s)"
    using assms(3,4) by (simp add: onPodUpdate_def handlePod_eq onPodDelete_eq)
  then show ?thesis
    using assms(1,2) by (simp add: resolve_source_def) (simp add: unindexed_def)
qed

theorem dropped_address_stays_pinned_witness:
  "\<exists>s1 s2. onPodUpdate OtherObj (PodObj (sample_pod ''web'' ''n1'' ''192.168.0.1'' ''10.0.0.2'')) sample_state = Inr s1
    \<and> onPodDelete (PodObj (sample_pod ''web'' ''n1'' ''192.168.0.1'' ''10.0.0.2'')) s1 = Inr s2
    \<and> podIpIndex s2 0x0A000001 = Some (sample_key ''web'') \<and> resolve_source s2 0x0A000001 = None"
proof -
  let ?p = "sample_pod ''web'' ''n1'' ''192.168.0.1'' ''10.0.0.2''"
  have k: "pod_key ?p = sample_key ''web''" by (simp add: sample_simps)
  have u: "onPodUpdate OtherObj (PodObj ?p) sample_state = Inr (indexed ?p sample_state)"
    by (simp add: onPodUpdate_def handlePod_eq)
  have d: "onPodDelete (PodObj ?p) (indexed ?p sample_state) = Inr (unindexed ?p (indexed ?p sample_state))"
    by (rule onPodDelete_eq)
  have "podIpIndex (unindexed ?p (indexed ?p sample_state)) 0x0A000001 = Some (pod_key ?p)
      \<and> resolve_source (unindexed ?p (indexed ?p sample_state)) 0x0A000001 = None"
    by (rule dropped_address_stays_pinned [OF _ _ u d]) (simp_all add: sample_state_eq sample_simps)
  with u d k show ?thesis by auto
qed

end
