(* ===== verification/Server_Main.thy ===== *)
theory Server_Main
  imports Server_System
begin

text \<open>
  The server process (cmd/server/main.go \<open>main\<close>, \<open>watchPods\<close>, \<open>watchNodes\<close>,
  \<open>instrumentHandler\<close>): which handler the informers and the HTTP routes lead to. The informer
  library, the HTTP server and the request counters of the Prometheus client are not part of
  the repository: watch events and requests are inputs, the counters are a parameter.
\<close>

section \<open>Informers\<close>

text \<open>
  What an informer is created with. A delete handler gets the order in which the run-time
  iterates the node addresses.
\<close>

record informer =
  inf_resource :: string
  inf_namespace :: string
  inf_resync :: nat
  AddFunc :: "k8s_obj \<Rightarrow> Server \<Rightarrow> Server go"
  UpdateFunc :: "k8s_obj \<Rightarrow> k8s_obj \<Rightarrow> Server \<Rightarrow> Server go"
  DeleteFunc :: "u32 list \<Rightarrow> k8s_obj \<Rightarrow> Server \<Rightarrow> Server go"

definition watchPods :: informer where
  "watchPods = \<lparr>inf_resource = ''pods'', inf_namespace = [], inf_resync = 0,
     AddFunc = onPodAdd, UpdateFunc = onPodUpdate, DeleteFunc = (\<lambda>order. onPodDelete)\<rparr>"

definition watchNodes :: informer where
  "watchNodes = \<lparr>inf_resource = ''nodes'', inf_namespace = [], inf_resync = 0,
     AddFunc = (\<lambda>obj s. Inr (onNodeAdd obj s)),
     UpdateFunc = (\<lambda>oldObj newObj s. Inr (onNodeUpdate oldObj newObj s)),
     DeleteFunc = (\<lambda>order obj s. Inr (onNodeDelete order obj s))\<rparr>"

datatype watch_event =
    Added k8s_obj
  | Modified k8s_obj k8s_obj
  | Deleted "u32 list" k8s_obj

fun dispatch :: "informer \<Rightarrow> watch_event \<Rightarrow> Server \<Rightarrow> Server go" where
  "dispatch w (Added obj) s = AddFunc w obj s"
| "dispatch w (Modified oldObj newObj) s = UpdateFunc w oldObj newObj s"
| "dispatch w (Deleted order obj) s = DeleteFunc w order obj s"

section \<open>HTTP routes\<close>

text \<open>
  A reply is what \<open>handlePayload\<close> writes, the metrics of the server's own collector (the
  request counters of the registry follow them on the wire), the 404 of the request multiplexer, or an aborted connection: \<open>net/http\<close> recovers from a handler's panic.
\<close>

datatype reply =
    Written http_response
  | Exported "metric list"
  | NotFound
  | Aborted panic

fun status_code :: "reply \<Rightarrow> nat" where
  "status_code (Written HttpOk) = 200"
| "status_code (Written (HttpError msg st)) = st"
| "status_code (Exported ms) = 200"
| "status_code NotFound = 404"
| "status_code (Aborted p) = 0"

text \<open>
  An instrumented handler counts the reply under its own name, with the request's method and
  the status, unless it panics. \<open>observe\<close> is the increment of the counter vector.
\<close>

definition instrumentHandler ::
    "(string \<Rightarrow> string \<Rightarrow> nat \<Rightarrow> 'c \<Rightarrow> 'c) \<Rightarrow> string
      \<Rightarrow> (http_request \<Rightarrow> Server \<Rightarrow> (Server \<times> reply) go)
      \<Rightarrow> http_request \<Rightarrow> Server \<times> 'c \<Rightarrow> ((Server \<times> 'c) \<times> reply) go" where
  "instrumentHandler observe handlerName handler r = (\<lambda>(s, c).
     go_bind (handler r s) (\<lambda>(s', rep).
       Inr ((s', observe handlerName (Method r) (status_code rep) c), rep)))"

definition routes ::
    "(string \<Rightarrow> string \<Rightarrow> nat \<Rightarrow> 'c \<Rightarrow> 'c) \<Rightarrow> podKey list \<Rightarrow> string
      \<Rightarrow> (http_request \<Rightarrow> Server \<times> 'c \<Rightarrow> ((Server \<times> 'c) \<times> reply) go) option" where
  "routes observe order path =
     (if path = ''/metrics'' then
        Some (instrumentHandler observe ''metrics'' (\<lambda>r s. Inr (s, Exported (Collect_metrics order s))))
      else if path = ''/write-network-statistics'' then
        Some (instrumentHandler observe ''write_statistics'' (\<lambda>r s.
          go_bind (handlePayload r s) (\<lambda>(s', response, logs). Inr (s', Written response))))
      else None)"

section \<open>The process\<close>

text \<open>
  The inputs of the running process: watch events and requests, the latter with the order in
  which a scrape iterates the counters. \<open>Inl\<close> is the end of the process by a panic.
\<close>

datatype input =
    PodEvent watch_event
  | NodeEvent watch_event
  | Http string "podKey list" http_request

fun server_input ::
    "(string \<Rightarrow> string \<Rightarrow> nat \<Rightarrow> 'c \<Rightarrow> 'c) \<Rightarrow> input \<Rightarrow> Server \<times> 'c
      \<Rightarrow> ((Server \<times> 'c) \<times> reply list) go" where
  "server_input observe (PodEvent e) (s, c) = go_bind (dispatch watchPods e s) (\<lambda>s'. Inr ((s', c), []))"
| "server_input observe (NodeEvent e) (s, c) = go_bind (dispatch watchNodes e s) (\<lambda>s'. Inr ((s', c), []))"
| "server_input observe (Http path order r) (s, c) =
     (case routes observe order path of
        None \<Rightarrow> Inr ((s, c), [NotFound])
      | Some handler \<Rightarrow>
          (case handler r (s, c) of
             Inl p \<Rightarrow> Inr ((s, c), [Aborted p])
           | Inr (st, rep) \<Rightarrow> Inr (st, [rep])))"

fun serve ::
    "(string \<Rightarrow> string \<Rightarrow> nat \<Rightarrow> 'c \<Rightarrow> 'c) \<Rightarrow> input list \<Rightarrow> Server \<times> 'c
      \<Rightarrow> ((Server \<times> 'c) \<times> reply list) go" where
  "serve observe [] st = Inr (st, [])"
| "serve observe (i # is) st =
     go_bind (server_input observe i st) (\<lambda>(st', reps).
     go_bind (serve observe is st') (\<lambda>(st'', reps'). Inr (st'', reps @ reps')))"

text \<open>
  \<open>main\<close>: without a cluster configuration or a client the process exits with status 1 before
  it serves anything, and when the port cannot be listened on; \<open>Inl\<close> is that status.
\<close>

definition server_main ::
    "bool \<Rightarrow> bool \<Rightarrow> bool \<Rightarrow> bool \<Rightarrow> (string \<Rightarrow> string \<Rightarrow> nat \<Rightarrow> 'c \<Rightarrow> 'c) \<Rightarrow> 'c \<Rightarrow> input list
      \<Rightarrow> nat + ((Server \<times> 'c) \<times> reply list) go" where
  "server_main in_cluster kubeconfig clientset listens observe c is =
     (if \<not> in_cluster \<and> \<not> kubeconfig then Inl 1
      else if \<not> clientset then Inl 1
      else if \<not> listens then Inl 1
      else Inr (serve observe is (init_server, c)))"

section \<open>Every run of the process is a run of the state machine\<close>

fun event_of :: "input \<Rightarrow> server_event" where
  "event_of (PodEvent (Added obj)) = PodAdd obj"
| "event_of (PodEvent (Modified oldObj newObj)) = PodUpdate oldObj newObj"
| "event_of (PodEvent (Deleted order obj)) = PodDelete obj"
| "event_of (NodeEvent (Added obj)) = NodeAdd obj"
| "event_of (NodeEvent (Modified oldObj newObj)) = NodeUpdate oldObj newObj"
| "event_of (NodeEvent (Deleted order obj)) = NodeDelete obj"
| "event_of (Http path order r) = (if path = ''/write-network-statistics'' then Request r else Scrape)"

text \<open>The run-time iterates exactly the keys of the map.\<close>

fun iterates :: "input \<Rightarrow> Server \<Rightarrow> bool" where
  "iterates (NodeEvent (Deleted order obj)) s = (set order = dom (nodeIpIndex s))"
| "iterates _ s = True"

fun is_http :: "input \<Rightarrow> bool" where
  "is_http (Http path order r) = True"
| "is_http _ = False"

lemma pod_event_effect: "dispatch watchPods e s = Inr (effect (event_of (PodEvent e)) s)"
proof (cases e)
  case (Added obj)
  then show ?thesis by (cases obj) (simp_all add: watchPods_def onPodAdd_def handlePod_eq)
next
  case (Modified oldObj obj)
  then show ?thesis by (cases obj) (simp_all add: watchPods_def onPodUpdate_def handlePod_eq)
next
  case (Deleted order obj)
  then show ?thesis by (cases obj) (simp_all add: watchPods_def onPodDelete_eq onPodDelete_other)
qed

lemma node_event_effect:
  assumes "iterates (NodeEvent e) s"
  shows "dispatch watchNodes e s = Inr (effect (event_of (NodeEvent e)) s)"
proof (cases e)
  case (Added obj)
  then show ?thesis by (cases obj) (simp_all add: watchNodes_def onNodeAdd_def zone_of_def)
next
  case (Modified oldObj obj)
  then show ?thesis by (cases obj) (simp_all add: watchNodes_def onNodeUpdate_def zone_of_def)
next
  case (Deleted order obj)
  then show ?thesis using assms by (simp add: watchNodes_def onNodeDelete_eq)
qed

lemma http_effect:
  "\<exists>c' rep. server_input observe (Http path order r) (s, c) = Inr ((effect (event_of (Http path order r)) s, c'), [rep])"
  by (cases "handlePayload r s") (auto simp: routes_def instrumentHandler_def after_request_def)

lemma server_input_effect:
  assumes "iterates i s"
  shows "\<exists>c' reps. server_input observe i (s, c) = Inr ((effect (event_of i) s, c'), reps)
    \<and> length reps = (if is_http i then 1 else 0)"
proof (cases i)
  case (PodEvent e)
  then show ?thesis by (simp add: pod_event_effect)
next
  case (NodeEvent e)
  then show ?thesis using assms by (simp add: node_event_effect)
next
  case (Http path order r)
  then show ?thesis using http_effect [of observe path order r s c] by fastforce
qed

lemma serve_effect:
  "ok_run (\<lambda>i. effect (event_of i)) iterates is s \<Longrightarrow>
   \<exists>c' reps. serve observe is (s, c) = Inr ((run effect (map event_of is) s, c'), reps)
     \<and> length reps = length (filter is_http is)"
proof (induction "is" arbitrary: s c)
  case Nil
  then show ?case by simp
next
  case (Cons i "is")
  obtain c1 reps1 where 1: "server_input observe i (s, c) = Inr ((effect (event_of i) s, c1), reps1)"
    "length reps1 = (if is_http i then 1 else 0)"
    using server_input_effect [of i s observe c] Cons.prems by auto
  obtain c2 reps2 where 2: "serve observe is (effect (event_of i) s, c1)
      = Inr ((run effect (map event_of is) (effect (event_of i) s), c2), reps2)"
    "length reps2 = length (filter is_http is)"
    using Cons.IH [of "effect (event_of i) s" c1] Cons.prems by auto
  show ?case using 1 2 by simp
qed

lemma reachable_effect_step: "reachable s \<Longrightarrow> reachable (effect e s)"
  using server_step_exists reachable_finite_maps server_step_effect reachable.step
  unfolding finite_maps_def by metis

lemma run_effect_reachable: "reachable s \<Longrightarrow> reachable (run effect es s)"
  by (induction es arbitrary: s) (auto intro: reachable_effect_step)



end
