(* ===== verification/Server_Mutex.thy ===== *)
theory Server_Mutex
  imports Server_Main
begin

text \<open>
  The handlers as goroutines (cmd/server/main.go): what each does before it locks the mutex,
  and, one access of the indexes at a time, what it does inside. Any number of handlers are
  started at any time and interleave; only the mutex keeps them apart. The theory shows that
  this is enough for every handler to be one atomic step, which is how the other theories
  treat them.
\<close>

section \<open>Critical sections\<close>

text \<open>
  The rest of a critical section: an update of the state and, from the state it read, how to go
  on, or the unlocking with what the handler replies.
\<close>

datatype code =
    Release "reply list"
  | Micro "Server \<Rightarrow> Server" "Server \<Rightarrow> code"

text \<open>Without interruption.\<close>

primrec exec :: "code \<Rightarrow> Server \<Rightarrow> Server \<times> reply list" where
  "exec (Release reps) = (\<lambda>s. (s, reps))"
| "exec (Micro update continue) = (\<lambda>s. exec (continue s) (update s))"

text \<open>A handler returns without locking, or locks, or ends the process.\<close>

datatype handler =
    Returns "reply list"
  | Locks code
  | Dies panic

section \<open>The handlers\<close>

fun index_code :: "podKey \<Rightarrow> string \<Rightarrow> u32 \<Rightarrow> u32 list \<Rightarrow> code" where
  "index_code k node hostIP [] = Release []"
| "index_code k node hostIP (ip # ips) =
     Micro (\<lambda>s. if hostIP \<noteq> 0 \<and> ip = hostIP then s\<lparr>nodeIpIndex := (nodeIpIndex s)(ip \<mapsto> node)\<rparr>
                else s\<lparr>podIpIndex := (podIpIndex s)(ip \<mapsto> k)\<rparr>)
       (\<lambda>_. index_code k node hostIP ips)"

fun handlePod_code :: "k8s_obj \<Rightarrow> handler" where
  "handlePod_code (PodObj pod) =
     (case host_ip pod of
        Inl p \<Rightarrow> Dies p
      | Inr hostIP \<Rightarrow>
          (case pod_ips (pod_PodIPs pod) [] of
             Inl p \<Rightarrow> Dies p
           | Inr ips \<Rightarrow>
               Locks (Micro
                 (\<lambda>s. s\<lparr>podIndex := (podIndex s)(pod_key pod \<mapsto> \<lparr>Node = pod_NodeName pod, IPs = ips\<rparr>)\<rparr>)
                 (\<lambda>_. index_code (pod_key pod) (pod_NodeName pod) hostIP ips))))"
| "handlePod_code _ = Returns []"

definition delete_statistics_code :: "podKey \<Rightarrow> code" where
  "delete_statistics_code k =
     Micro (\<lambda>s. s\<lparr>statistics := (statistics s)(k := None)\<rparr>) (\<lambda>_. Release [])"

fun unindex_code :: "u32 \<Rightarrow> u32 list \<Rightarrow> podKey \<Rightarrow> code" where
  "unindex_code hostIP [] k =
     Micro (\<lambda>s. s\<lparr>podIndex := (podIndex s)(k := None)\<rparr>) (\<lambda>_. delete_statistics_code k)"
| "unindex_code hostIP (ip # ips) k =
     Micro (\<lambda>s. if hostIP = 0 \<or> ip \<noteq> hostIP then s\<lparr>podIpIndex := (podIpIndex s)(ip := None)\<rparr> else s)
       (\<lambda>_. unindex_code hostIP ips k)"

fun onPodDelete_code :: "k8s_obj \<Rightarrow> handler" where
  "onPodDelete_code (PodObj pod) =
     (case host_ip pod of
        Inl p \<Rightarrow> Dies p
      | Inr hostIP \<Rightarrow>
          Locks (Micro (\<lambda>s. s)
            (\<lambda>s. case podIndex s (pod_key pod) of
               Some info \<Rightarrow> unindex_code hostIP (IPs info) (pod_key pod)
             | None \<Rightarrow> delete_statistics_code (pod_key pod))))"
| "onPodDelete_code _ = Returns []"

fun onNodeAdd_code :: "k8s_obj \<Rightarrow> handler" where
  "onNodeAdd_code (NodeObj node) =
     (let zone = (case node_Labels node zone_label of Some z \<Rightarrow> z | None \<Rightarrow> ''unknown'')
      in Locks (Micro (\<lambda>s. s\<lparr>nodeIndex := (nodeIndex s)(node_Name node \<mapsto> zone)\<rparr>) (\<lambda>_. Release [])))"
| "onNodeAdd_code _ = Returns []"

fun drop_node_ips_code :: "string \<Rightarrow> u32 list \<Rightarrow> code" where
  "drop_node_ips_code name [] =
     Micro (\<lambda>s. s\<lparr>nodeIndex := (nodeIndex s)(name := None)\<rparr>) (\<lambda>_. Release [])"
| "drop_node_ips_code name (ip # ips) =
     Micro (\<lambda>s. if nodeIpIndex s ip = Some name then s\<lparr>nodeIpIndex := (nodeIpIndex s)(ip := None)\<rparr> else s)
       (\<lambda>_. drop_node_ips_code name ips)"

fun onNodeDelete_code :: "u32 list \<Rightarrow> k8s_obj \<Rightarrow> handler" where
  "onNodeDelete_code order (NodeObj node) = Locks (drop_node_ips_code (node_Name node) order)"
| "onNodeDelete_code order _ = Returns []"

text \<open>The loop over the entries, with the lines to log as its local variable.\<close>

fun entries_code :: "Entry list \<Rightarrow> flowLog list \<Rightarrow> code" where
  "entries_code [] flowLogs = Release [Written HttpOk]"
| "entries_code (entry # data) flowLogs =
     Micro (\<lambda>s. fst (handle_entry entry (s, flowLogs)))
       (\<lambda>s. entries_code data (snd (handle_entry entry (s, flowLogs))))"

definition handlePayload_code :: "http_request \<Rightarrow> handler" where
  "handlePayload_code r =
     (if Method r \<noteq> ''POST'' then Returns [Written (HttpError ''Invalid request method'' 405)]
      else (case Body r of
          None \<Rightarrow> Returns [Written (HttpError ''Failed to read request body'' 500)]
        | Some body \<Rightarrow>
            (case Decode body of
               Inl p \<Rightarrow> Returns [Aborted p]
             | Inr (Inl err) \<Rightarrow>
                 Returns [Written (HttpError (''Failed to decode request body: '' @ decode_error_text err) 400)]
             | Inr (Inr data) \<Rightarrow> Locks (entries_code data []))))"

fun Collect_code :: "podKey list \<Rightarrow> metric list \<Rightarrow> code" where
  "Collect_code [] ms = Release [Exported ms]"
| "Collect_code (pod # pods) ms =
     Micro (\<lambda>s. s)
       (\<lambda>s. case statistics s pod of
          None \<Rightarrow> Collect_code pods ms
        | Some traffic \<Rightarrow>
            Collect_code pods
              (ms @ [\<lparr>m_value = float64 traffic, m_namespace = pk_namespace pod, m_pod = pk_name pod\<rparr>]))"

fun handler_of :: "input \<Rightarrow> handler" where
  "handler_of (PodEvent (Added obj)) = handlePod_code obj"
| "handler_of (PodEvent (Modified oldObj newObj)) = handlePod_code newObj"
| "handler_of (PodEvent (Deleted order obj)) = onPodDelete_code obj"
| "handler_of (NodeEvent (Added obj)) = onNodeAdd_code obj"
| "handler_of (NodeEvent (Modified oldObj newObj)) = onNodeAdd_code newObj"
| "handler_of (NodeEvent (Deleted order obj)) = onNodeDelete_code order obj"
| "handler_of (Http path order r) =
     (if path = ''/metrics'' then Locks (Collect_code order [])
      else if path = ''/write-network-statistics'' then handlePayload_code r
      else Returns [NotFound])"

section \<open>Interleaving\<close>

text \<open>
  The goroutines that have not locked yet, the one that holds the mutex, and the finished ones
  with their replies, in the order in which they returned or unlocked.
\<close>

record server_conf =
  mem :: Server
  holder :: "(input \<times> code) option"
  waiting :: "input multiset"
  history :: "(input \<times> reply list) list"

definition init_conf :: server_conf where
  "init_conf = \<lparr>mem = init_server, holder = None, waiting = {#}, history = []\<rparr>"

inductive conf_step :: "server_conf \<Rightarrow> server_conf \<Rightarrow> bool" where
  arrive: "conf_step c (c\<lparr>waiting := add_mset i (waiting c)\<rparr>)"
| return_early: "waiting c = add_mset i rest \<Longrightarrow> handler_of i = Returns reps \<Longrightarrow>
    conf_step c (c\<lparr>waiting := rest, history := history c @ [(i, reps)]\<rparr>)"
| lock: "holder c = None \<Longrightarrow> waiting c = add_mset i rest \<Longrightarrow> handler_of i = Locks prog \<Longrightarrow>
    conf_step c (c\<lparr>waiting := rest, holder := Some (i, prog)\<rparr>)"
| micro: "holder c = Some (i, Micro update continue) \<Longrightarrow>
    conf_step c (c\<lparr>mem := update (mem c), holder := Some (i, continue (mem c))\<rparr>)"
| unlock: "holder c = Some (i, Release reps) \<Longrightarrow>
    conf_step c (c\<lparr>holder := None, history := history c @ [(i, reps)]\<rparr>)"

section \<open>A critical section run alone\<close>

lemma exec_index: "exec (index_code k node h ips) s = (index_ips k node h ips s, [])"
  by (induction k node h ips arbitrary: s rule: index_code.induct) simp_all

lemma exec_unindex:
  "exec (unindex_code h ips k) s =
     (let s = unindex_ips h ips s; s = s\<lparr>podIndex := (podIndex s)(k := None)\<rparr>
      in (s\<lparr>statistics := (statistics s)(k := None)\<rparr>, []))"
  by (induction h ips k arbitrary: s rule: unindex_code.induct)
    (simp_all add: delete_statistics_code_def Let_def)

lemma exec_drop_node_ips:
  "exec (drop_node_ips_code name ips) s =
     (s\<lparr>nodeIpIndex := drop_node_ips name ips (nodeIpIndex s), nodeIndex := (nodeIndex s)(name := None)\<rparr>, [])"
  by (induction name ips arbitrary: s rule: drop_node_ips_code.induct) simp_all

lemma exec_entries: "exec (entries_code es logs) s = (fst (fold handle_entry es (s, logs)), [Written HttpOk])"
  by (induction es logs arbitrary: s rule: entries_code.induct) simp_all

lemma exec_Collect: "exec (Collect_code order ms) s = (s, [Exported (ms @ Collect_loop order (statistics s))])"
  by (induction order arbitrary: ms) (auto split: option.split)

text \<open>The process of \<open>Server_Main\<close>, without the request counters.\<close>

abbreviation seq_input :: "input \<Rightarrow> Server \<Rightarrow> ((Server \<times> unit) \<times> reply list) go" where
  "seq_input i s \<equiv> server_input (\<lambda>_ _ _ c. c) i (s, ())"

lemma handler_total: "handler_of i \<noteq> Dies p"
proof -
  have "handlePod_code obj \<noteq> Dies p" "onPodDelete_code obj \<noteq> Dies p" "onNodeAdd_code obj \<noteq> Dies p"
    "onNodeDelete_code order obj \<noteq> Dies p" for obj order
    by (cases obj; simp add: host_ip_total pod_ips_total Let_def)+
  moreover have "handlePayload_code r \<noteq> Dies p" for r
    by (simp add: handlePayload_code_def split: option.split sum.split)
  ultimately show ?thesis by (cases i rule: handler_of.cases) simp_all
qed

lemma handler_sequential:
  "case handler_of i of
     Returns reps \<Rightarrow> seq_input i s = Inr ((s, ()), reps)
   | Locks c \<Rightarrow> seq_input i s = Inr ((fst (exec c s), ()), snd (exec c s))
   | Dies p \<Rightarrow> True"
proof (cases i rule: handler_of.cases)
  case (1 obj)
  then show ?thesis
    by (cases obj) (simp_all add: watchPods_def onPodAdd_def handlePod_def host_ip_total pod_ips_total exec_index)
next
  case (2 oldObj newObj)
  then show ?thesis
    by (cases newObj) (simp_all add: watchPods_def onPodUpdate_def handlePod_def host_ip_total pod_ips_total exec_index)
next
  case (3 order obj)
  then show ?thesis
    by (cases obj) (auto simp: watchPods_def onPodDelete_def host_ip_total exec_unindex
      delete_statistics_code_def Let_def split: option.split)
next
  case (4 obj)
  then show ?thesis by (cases obj) (simp_all add: watchNodes_def onNodeAdd_def Let_def)
next
  case (5 oldObj newObj)
  then show ?thesis by (cases newObj) (simp_all add: watchNodes_def onNodeUpdate_def Let_def)
next
  case (6 order obj)
  then show ?thesis by (cases obj) (simp_all add: watchNodes_def onNodeDelete_def exec_drop_node_ips)
next
  case (7 path order r)
  then show ?thesis
    by (auto simp: routes_def instrumentHandler_def exec_Collect Collect_metrics_def handlePayload_code_def
        handlePayload_def exec_entries split_beta split: option.split sum.split)
qed

section \<open>Every interleaving is a sequence\<close>

abbreviation seq_run :: "input list \<Rightarrow> ((Server \<times> unit) \<times> reply list) go" where
  "seq_run is \<equiv> serve (\<lambda>_ _ _ c. c) is (init_server, ())"

lemma serve_snoc:
  "serve observe is st = Inr (st', reps) \<Longrightarrow> server_input observe i st' = Inr (st'', reps') \<Longrightarrow>
   serve observe (is @ [i]) st = Inr (st'', reps @ reps')"
proof (induction "is" arbitrary: st reps)
  case Nil
  then show ?case by simp
next
  case (Cons a "is")
  obtain st1 r1 r2 where st1: "server_input observe a st = Inr (st1, r1)" "serve observe is st1 = Inr (st', r2)"
    and reps: "reps = r1 @ r2"
    using Cons.prems(1) by (auto split: prod.splits)
  from Cons.IH [OF st1(2) Cons.prems(2)] show ?case by (simp add: st1(1) reps)
qed

text \<open>
  The finished handlers have run one after the other, and the one inside, run to its end, does
  what it would have ended from there.
\<close>

definition atomic_inv :: "server_conf \<Rightarrow> bool" where
  "atomic_inv c \<longleftrightarrow> (\<exists>s. seq_run (map fst (history c)) = Inr ((s, ()), concat (map snd (history c)))
     \<and> (case holder c of
          None \<Rightarrow> mem c = s
        | Some (i, prog) \<Rightarrow> (\<exists>start. handler_of i = Locks start \<and> exec prog (mem c) = exec start s)))"

lemma conf_step_atomic: "conf_step c c' \<Longrightarrow> atomic_inv c \<Longrightarrow> atomic_inv c'"
proof (induction rule: conf_step.induct)
  case (arrive c i)
  then show ?case by (cases "holder c") (auto simp: atomic_inv_def)
next
  case (return_early c i rest reps)
  then obtain s where s: "seq_run (map fst (history c)) = Inr ((s, ()), concat (map snd (history c)))"
    "case holder c of None \<Rightarrow> mem c = s
       | Some (i, prog) \<Rightarrow> (\<exists>start. handler_of i = Locks start \<and> exec prog (mem c) = exec start s)"
    unfolding atomic_inv_def by blast
  have "seq_input i s = Inr ((s, ()), reps)" using handler_sequential [of i s] return_early(2) by simp
  from serve_snoc [OF s(1) this] s(2) show ?case by (cases "holder c") (auto simp: atomic_inv_def)
next
  case (lock c i rest prog)
  then show ?case by (auto simp: atomic_inv_def)
next
  case (micro c i update continue)
  then show ?case by (simp add: atomic_inv_def)
next
  case (unlock c i reps)
  then obtain s start where s: "seq_run (map fst (history c)) = Inr ((s, ()), concat (map snd (history c)))"
    and start: "handler_of i = Locks start" "(mem c, reps) = exec start s"
    by (auto simp: atomic_inv_def)
  have "seq_input i s = Inr ((mem c, ()), reps)"
    using handler_sequential [of i s] start(1) by (simp flip: start(2))
  from serve_snoc [OF s(1) this] show ?case by (simp add: atomic_inv_def)
qed

lemma reachable_atomic: "conf_step\<^sup>*\<^sup>* init_conf c \<Longrightarrow> atomic_inv c"
proof (induction rule: rtranclp_induct)
  case base
  show ?case by (simp add: atomic_inv_def init_conf_def)
next
  case (step c c')
  then show ?case using conf_step_atomic by blast
qed

text \<open>
  C6. The mutex makes every handler atomic. However the goroutines of watch events, requests and
  scrapes interleave, down to the single index accesses inside their critical sections, whenever
  the mutex is free the server's state and all replies given so far are those of a process that
  runs the same handlers one after the other, in the order in which they returned. A scrape
  therefore exports the counters of one moment.
\<close>

theorem handlers_are_atomic:
  assumes "conf_step\<^sup>*\<^sup>* init_conf c" "holder c = None"
  shows "serve (\<lambda>_ _ _ c. c) (map fst (history c)) (init_server, ())
    = Inr ((mem c, ()), concat (map snd (history c)))"
  using reachable_atomic [OF assms(1)] assms(2) by (auto simp: atomic_inv_def)

section \<open>Every handler completes\<close>

lemma holder_completes:
  "holder c = Some (i, prog) \<Longrightarrow>
   \<exists>c' reps. conf_step\<^sup>*\<^sup>* c c' \<and> holder c' = None \<and> waiting c' = waiting c \<and> history c' = history c @ [(i, reps)]"
proof (induction prog arbitrary: c)
  case (Release reps)
  let ?c = "c\<lparr>holder := None, history := history c @ [(i, reps)]\<rparr>"
  have "conf_step c ?c" by (rule conf_step.unlock [OF Release])
  then show ?case by (intro exI [of _ ?c] exI [of _ reps]) auto
next
  case (Micro update continue)
  let ?c = "c\<lparr>mem := update (mem c), holder := Some (i, continue (mem c))\<rparr>"
  have step: "conf_step c ?c" by (rule conf_step.micro [OF Micro.prems])
  obtain c' reps where "conf_step\<^sup>*\<^sup>* ?c c'" "holder c' = None" "waiting c' = waiting c"
    "history c' = history c @ [(i, reps)]"
    using Micro.IH [of "continue (mem c)" ?c] by auto
  with step show ?case by (meson converse_rtranclp_into_rtranclp)
qed

lemma waiting_complete:
  "holder c = None \<Longrightarrow>
   \<exists>c'. conf_step\<^sup>*\<^sup>* c c' \<and> holder c' = None \<and> waiting c' = {#}
     \<and> (\<exists>ended. history c' = history c @ ended \<and> mset (map fst ended) = waiting c)"
proof (induction "waiting c" arbitrary: c)
  case empty
  then show ?case by (intro exI [of _ c]) simp
next
  case (add i rest)
  have "\<exists>c1 reps. conf_step\<^sup>*\<^sup>* c c1 \<and> holder c1 = None \<and> waiting c1 = rest \<and> history c1 = history c @ [(i, reps)]"
  proof (cases "handler_of i")
    case (Returns reps)
    let ?c = "c\<lparr>waiting := rest, history := history c @ [(i, reps)]\<rparr>"
    have "conf_step c ?c" by (rule conf_step.return_early [OF add.hyps(2) [symmetric] Returns])
    then show ?thesis using add.prems by (intro exI [of _ ?c] exI [of _ reps]) auto
  next
    case (Locks prog)
    let ?c = "c\<lparr>waiting := rest, holder := Some (i, prog)\<rparr>"
    have "conf_step c ?c" by (rule conf_step.lock [OF add.prems add.hyps(2) [symmetric] Locks])
    moreover obtain c1 reps where "conf_step\<^sup>*\<^sup>* ?c c1" "holder c1 = None" "waiting c1 = rest"
      "history c1 = history c @ [(i, reps)]"
      using holder_completes [of ?c i prog] by auto
    ultimately show ?thesis
      by (intro exI [of _ c1] exI [of _ reps]) (auto intro: converse_rtranclp_into_rtranclp)
  next
    case (Dies p)
    with handler_total show ?thesis by blast
  qed
  then obtain c1 reps where c1: "conf_step\<^sup>*\<^sup>* c c1" "holder c1 = None" "waiting c1 = rest"
    "history c1 = history c @ [(i, reps)]" by blast
  from add.hyps(1) [OF c1(3) [symmetric] c1(2)] obtain c2 ended where c2: "conf_step\<^sup>*\<^sup>* c1 c2"
    "holder c2 = None" "waiting c2 = {#}" "history c2 = history c1 @ ended" "mset (map fst ended) = rest"
    using c1(3) by auto
  have "history c2 = history c @ (i, reps) # ended" "mset (map fst ((i, reps) # ended)) = waiting c"
    using c1(4) c2(4,5) add.hyps(2) by simp_all
  with c1(1) c2 show ?case by (meson rtranclp_trans)
qed


text \<open>Two handlers, a node and a bad request: the request returns while the node's holds the mutex.\<close>

abbreviation sample_node_input :: input where
  "sample_node_input \<equiv> NodeEvent (Added (NodeObj (sample_node ''n1'' ''z1'')))"

abbreviation bad_request_input :: input where
  "bad_request_input \<equiv> Http ''/write-network-statistics'' [] \<lparr>Method = ''GET'', Body = None\<rparr>"

definition sample_conf :: server_conf where
  "sample_conf = \<lparr>mem = init_server\<lparr>nodeIndex := [''n1'' \<mapsto> ''z1'']\<rparr>,
     holder = Some (sample_node_input, Release []), waiting = {#},
     history = [(bad_request_input, [Written (HttpError ''Invalid request method'' 405)])]\<rparr>"

lemma sample_conf_reachable: "conf_step\<^sup>*\<^sup>* init_conf sample_conf"
proof -
  let ?c = "\<lambda>m h w hist. \<lparr>mem = m, holder = h, waiting = w, history = hist\<rparr>"
  let ?n = sample_node_input and ?r = bad_request_input
  let ?reps = "[Written (HttpError ''Invalid request method'' 405)]"
  let ?u = "\<lambda>s. s\<lparr>nodeIndex := (nodeIndex s)(''n1'' \<mapsto> ''z1'')\<rparr>"
  have prog: "handler_of ?n = Locks (Micro ?u (\<lambda>_. Release []))" by (simp add: sample_node_def)
  have refused: "handler_of ?r = Returns ?reps" by (simp add: handlePayload_code_def)
  have 1: "conf_step init_conf (?c init_server None {#?n#} [])"
    using conf_step.arrive [of init_conf ?n] by (simp add: init_conf_def)
  have 2: "conf_step (?c init_server None {#?n#} []) (?c init_server (Some (?n, Micro ?u (\<lambda>_. Release []))) {#} [])"
    using conf_step.lock [OF _ _ prog, of "?c init_server None {#?n#} []" "{#}"] by simp
  have 3: "conf_step (?c init_server (Some (?n, Micro ?u (\<lambda>_. Release []))) {#} [])
      (?c init_server (Some (?n, Micro ?u (\<lambda>_. Release []))) {#?r#} [])"
    using conf_step.arrive [of "?c init_server (Some (?n, Micro ?u (\<lambda>_. Release []))) {#} []" ?r] by simp
  have 4: "conf_step (?c init_server (Some (?n, Micro ?u (\<lambda>_. Release []))) {#?r#} [])
      (?c init_server (Some (?n, Micro ?u (\<lambda>_. Release []))) {#} [(?r, ?reps)])"
    using conf_step.return_early [OF _ refused, of "?c init_server (Some (?n, Micro ?u (\<lambda>_. Release []))) {#?r#} []" "{#}"]
    by simp
  have 5: "conf_step (?c init_server (Some (?n, Micro ?u (\<lambda>_. Release []))) {#} [(?r, ?reps)]) sample_conf"
    using conf_step.micro [of "?c init_server (Some (?n, Micro ?u (\<lambda>_. Release []))) {#} [(?r, ?reps)]" ?n ?u]
    by (simp add: sample_conf_def init_server_def)
  show ?thesis using 1 2 3 4 5 by (meson converse_rtranclp_into_rtranclp rtranclp.rtrancl_refl)
qed

theorem handlers_are_atomic_witness:
  "serve (\<lambda>_ _ _ c. c) [bad_request_input, sample_node_input] (init_server, ())
    = Inr ((init_server\<lparr>nodeIndex := [''n1'' \<mapsto> ''z1'']\<rparr>, ()),
        [Written (HttpError ''Invalid request method'' 405)])"
proof -
  let ?c = "sample_conf\<lparr>holder := None, history := history sample_conf @ [(sample_node_input, [])]\<rparr>"
  have "conf_step sample_conf ?c" by (rule conf_step.unlock) (simp add: sample_conf_def)
  with sample_conf_reachable have "conf_step\<^sup>*\<^sup>* init_conf ?c" by (rule rtranclp.rtrancl_into_rtrancl)
  from handlers_are_atomic [OF this] show ?thesis by (simp only: sample_conf_def server_conf.simps) simp
qed


end
