(* ===== verification/Server_Spec.thy ===== *)
theory Server_Spec
  imports Server_System
begin

text \<open>
  What the server is meant to compute, without its indexes: a cluster is its pods with their
  nodes and addresses, the zones of its nodes, the nodes' own addresses, and a bill. Whom an
  address belongs to is read off the pods. The handlers refine this: on every lawful run the
  server's state is the cluster's, and the address index is only a cache.
\<close>

section \<open>The abstract cluster\<close>

record cluster =
  pods :: "podKey \<rightharpoonup> PodInfo"
  hosts :: "u32 \<rightharpoonup> string"
  zones :: "string \<rightharpoonup> string"
  bill :: "podKey \<Rightarrow> u64"

definition empty_cluster :: cluster where
  "empty_cluster = \<lparr>pods = Map.empty, hosts = Map.empty, zones = Map.empty, bill = \<lambda>_. 0\<rparr>"

text \<open>\<open>owns H c ip k z\<close>: the address is a pod's or, inside \<open>H\<close>, a node's, in zone \<open>z\<close>.\<close>

definition owns :: "u32 set \<Rightarrow> cluster \<Rightarrow> u32 \<Rightarrow> podKey \<Rightarrow> string \<Rightarrow> bool" where
  "owns H c ip k z \<longleftrightarrow>
     (if ip \<in> H then \<exists>node. hosts c ip = Some node \<and> k = node_key node \<and> zones c node = Some z
      else \<exists>info. pods c k = Some info \<and> ip \<in> set (IPs info) \<and> zones c (Node info) = Some z)"

text \<open>An entry is on the bill of \<open>k\<close> when it leaves \<open>k\<close>'s zone for another known one.\<close>

definition on_bill :: "u32 set \<Rightarrow> cluster \<Rightarrow> podKey \<Rightarrow> Entry \<Rightarrow> bool" where
  "on_bill H c k e \<longleftrightarrow>
     (\<exists>z k' z'. owns H c (ESrcIP e) k z \<and> owns H c (EDstIP e) k' z' \<and> z \<noteq> z')"

text \<open>The entries of a request that the server accepts.\<close>

definition accepted :: "http_request \<Rightarrow> Entry list" where
  "accepted r =
     (if Method r = ''POST'' then
        (case Body r of
           Some b \<Rightarrow> (case Decode b of Inr (Inr es) \<Rightarrow> es | _ \<Rightarrow> [])
         | None \<Rightarrow> [])
      else [])"

fun spec_step :: "u32 set \<Rightarrow> server_event \<Rightarrow> cluster \<Rightarrow> cluster" where
  "spec_step H (PodAdd (PodObj pod)) c = c\<lparr>
     pods := (pods c)(pod_key pod \<mapsto> \<lparr>Node = pod_NodeName pod, IPs = pod_addrs pod\<rparr>),
     hosts := (\<lambda>ip. if ip \<in> set (pod_addrs pod) \<inter> H then Some (pod_NodeName pod) else hosts c ip)\<rparr>"
| "spec_step H (PodUpdate _ (PodObj pod)) c = c\<lparr>
     pods := (pods c)(pod_key pod \<mapsto> \<lparr>Node = pod_NodeName pod, IPs = pod_addrs pod\<rparr>),
     hosts := (\<lambda>ip. if ip \<in> set (pod_addrs pod) \<inter> H then Some (pod_NodeName pod) else hosts c ip)\<rparr>"
| "spec_step H (PodDelete (PodObj pod)) c = c\<lparr>
     pods := (pods c)(pod_key pod := None), bill := (bill c)(pod_key pod := 0)\<rparr>"
| "spec_step H (NodeAdd (NodeObj node)) c = c\<lparr>zones := (zones c)(node_Name node \<mapsto> zone_of node)\<rparr>"
| "spec_step H (NodeUpdate _ (NodeObj node)) c = c\<lparr>zones := (zones c)(node_Name node \<mapsto> zone_of node)\<rparr>"
| "spec_step H (NodeDelete (NodeObj node)) c = c\<lparr>
     hosts := (\<lambda>ip. if hosts c ip = Some (node_Name node) then None else hosts c ip),
     zones := (zones c)(node_Name node := None)\<rparr>"
| "spec_step H (Request r) c = c\<lparr>
     bill := (\<lambda>k. bill c k + (\<Sum>e\<leftarrow>filter (on_bill H c k) (accepted r). Traffic e))\<rparr>"
| "spec_step H _ c = c"

definition abs_server :: "Server \<Rightarrow> cluster" where
  "abs_server s = \<lparr>pods = podIndex s, hosts = nodeIpIndex s, zones = nodeIndex s,
     bill = lookup0 (statistics s)\<rparr>"

section \<open>Refinement\<close>

lemma after_request_accepted: "after_request r s = charged (accepted r) s"
proof -
  have "charged [] s = s" by (simp add: charged_def)
  then show ?thesis
    by (auto simp: after_request_def handlePayload_eq accepted_def split: option.splits sum.splits)
qed

lemma owns_resolve:
  assumes "index_exact H s"
  shows "owns H (abs_server s) ip k z \<longleftrightarrow> resolve_source s ip = Some (k, z)"
proof (cases "ip \<in> H")
  case True
  then have "podIpIndex s ip = None"
    using index_exactD(1) [OF assms] by (cases "podIpIndex s ip") auto
  with True show ?thesis
    by (auto simp: owns_def abs_server_def resolve_source_def split: option.splits)
next
  case False
  then show ?thesis using resolution_exact [OF assms] by (simp add: owns_def abs_server_def)
qed

lemma on_bill_charge:
  assumes "index_exact H s"
  shows "on_bill H (abs_server s) k e \<longleftrightarrow> (\<exists>v. charge (directory s) e = Some (k, v))"
  unfolding on_bill_def owns_resolve [OF assms]
  by (auto simp: charge_def directory_def split: option.splits)

lemma abs_charged:
  assumes "index_exact H s"
  shows "abs_server (charged es s) = (abs_server s)\<lparr>
    bill := (\<lambda>k. bill (abs_server s) k + (\<Sum>e\<leftarrow>filter (on_bill H (abs_server s) k) es. Traffic e))\<rparr>"
proof -
  have "lookup0 (statistics (charged es s)) k = lookup0 (statistics s) k
      + (\<Sum>e\<leftarrow>filter (on_bill H (abs_server s) k) es. Traffic e)" for k
  proof -
    have "on_bill H (abs_server s) k = (\<lambda>e. \<exists>v. charge (directory s) e = Some (k, v))"
      by (simp add: fun_eq_iff on_bill_charge [OF assms])
    then show ?thesis by (simp only: lookup0_charged)
  qed
  then show ?thesis by (simp add: abs_server_def charged_def fun_eq_iff)
qed

lemma abs_indexed:
  assumes "lawful_pod H pod s"
  shows "abs_server (indexed pod s) = (abs_server s)\<lparr>
    pods := (pods (abs_server s))(pod_key pod \<mapsto> \<lparr>Node = pod_NodeName pod, IPs = pod_addrs pod\<rparr>),
    hosts := (\<lambda>ip. if ip \<in> set (pod_addrs pod) \<inter> H then Some (pod_NodeName pod)
                   else hosts (abs_server s) ip)\<rparr>"
  using lawful_pod_host [OF assms] by (auto simp: abs_server_def indexed_def fun_eq_iff)

lemma abs_unindexed:
  "abs_server (unindexed pod s) = (abs_server s)\<lparr>
    pods := (pods (abs_server s))(pod_key pod := None),
    bill := (bill (abs_server s))(pod_key pod := 0)\<rparr>"
  by (simp add: abs_server_def unindexed_def lookup0_def fun_eq_iff)

lemma effect_refines:
  "index_exact H s \<Longrightarrow> lawful H e s \<Longrightarrow> abs_server (effect e s) = spec_step H e (abs_server s)"
proof (induction e s rule: effect.induct)
  case (7 r s)
  then show ?case by (simp add: after_request_accepted abs_charged)
qed (simp_all add: abs_indexed abs_unindexed, simp_all add: abs_server_def cong: if_cong)

interpretation cluster: refinement effect "lawful H" "index_exact H" "spec_step H" abs_server for H
  by unfold_locales (rule effect_refines)

text \<open>A lawful run, with the events that led to the state.\<close>

inductive lawful_trace :: "u32 set \<Rightarrow> server_event list \<Rightarrow> Server \<Rightarrow> bool" for H where
  init: "lawful_trace H [] init_server"
| snoc: "lawful_trace H es s \<Longrightarrow> lawful H e s \<Longrightarrow> server_step e s s' \<Longrightarrow> lawful_trace H (es @ [e]) s'"

inductive_cases lawful_trace_snocE: "lawful_trace H (es @ [e]) s"

lemma lawful_trace_reachable: "lawful_trace H es s \<Longrightarrow> lawfully_reachable H s"
  by (induction rule: lawful_trace.induct) (auto intro: lawfully_reachable.intros)

lemma lawful_trace_abs: "lawful_trace H es s \<Longrightarrow> abs_server s = run (spec_step H) es empty_cluster"
proof (induction rule: lawful_trace.induct)
  case init
  show ?case by (simp add: abs_server_def init_server_def empty_cluster_def lookup0_def fun_eq_iff)
next
  case (snoc es s e s')
  have "index_exact H s"
    using lawful_trace_reachable [OF snoc.hyps(1)] by (rule lawfully_reachable_exact)
  from cluster.refines [OF this snoc.hyps(2)] snoc.IH server_step_effect [OF snoc.hyps(3)]
  show ?case by simp
qed

lemma lawful_trace_run:
  "lawfully_reachable H s \<Longrightarrow> lawful_trace H es s \<Longrightarrow> ok_run effect (lawful H) es' s \<Longrightarrow>
   lawful_trace H (es @ es') (run effect es' s)"
proof (induction es' arbitrary: es s)
  case Nil
  then show ?case by simp
next
  case (Cons e es')
  obtain s' where "server_step e s s'"
    using server_step_exists reachable_finite_maps lawfully_reachable_reachable [OF Cons.prems(1)]
    unfolding finite_maps_def by blast
  then have step: "server_step e s (effect e s)" using server_step_effect by metis
  have "lawful_trace H (es @ [e]) (effect e s)"
    using Cons.prems step by (auto intro: lawful_trace.snoc)
  with Cons.IH [of "effect e s" "es @ [e]"] Cons.prems step show ?case
    by (auto intro: lawfully_reachable.step)
qed

text \<open>
  C8. The server refines its specification: after any sequence of pod, node, request and
  scrape events on a cluster that hands out addresses lawfully, in any order, the server's
  state is the abstract cluster's after the same events. Each counter is the bill of the
  traffic that left the pod's zone, resolved against the pods as they were when the request
  arrived; the address index never makes a difference.
\<close>

theorem server_refines_cluster:
  assumes "lawful_trace H es s"
  shows "abs_server s = run (spec_step H) es empty_cluster
    \<and> (resolve_source s ip = Some (k, z) \<longleftrightarrow> owns H (run (spec_step H) es empty_cluster) ip k z)"
proof -
  have "index_exact H s"
    using lawful_trace_reachable [OF assms] by (rule lawfully_reachable_exact)
  from owns_resolve [OF this] lawful_trace_abs [OF assms] show ?thesis by metis
qed

theorem server_refines_cluster_witness:
  "bill (run (spec_step {0xC0A80001, 0xC0A80002}) (sample_run @ [Request sample_post]) empty_cluster)
    (sample_key ''web'') = 1500"
proof -
  let ?H = "{0xC0A80001, 0xC0A80002} :: u32 set"
  have ok: "ok_run effect (lawful ?H) (sample_run @ [Request sample_post]) init_server"
    by (auto simp: sample_run_def sample_simps lawful_pod_def recorded_def init_server_def)
  have "lawful_trace ?H ([] @ sample_run @ [Request sample_post])
      (run effect (sample_run @ [Request sample_post]) init_server)"
    by (rule lawful_trace_run [OF lawfully_reachable.start lawful_trace.init ok])
  then have "lawful_trace ?H (sample_run @ [Request sample_post]) (after_request sample_post sample_state)"
    by (simp add: sample_state_def)
  from server_refines_cluster [OF this]
  have "abs_server (after_request sample_post sample_state)
      = run (spec_step ?H) (sample_run @ [Request sample_post]) empty_cluster" by blast
  moreover have "bill (abs_server (after_request sample_post sample_state)) (sample_key ''web'') = 1500"
    by (simp add: after_sample_post abs_server_def lookup0_def)
  ultimately show ?thesis by metis
qed

end
