(* ===== verification/Server_Restart.thy ===== *)
theory Server_Restart
  imports Server_Spec
begin

text \<open>
  A server keeps its indexes in memory only. When it is restarted, its informers list the
  cluster again and report every pod and every node once, in any order; the theory shows that
  this restores what it needs to bill.
\<close>

section \<open>Relisting\<close>

definition pod_entry :: "v1_Pod \<Rightarrow> podKey \<times> PodInfo" where
  "pod_entry pod = (pod_key pod, \<lparr>Node = pod_NodeName pod, IPs = pod_addrs pod\<rparr>)"

definition node_entry :: "v1_Node \<Rightarrow> string \<times> string" where
  "node_entry node = (node_Name node, zone_of node)"

fun added_pod :: "server_event \<Rightarrow> v1_Pod option" where
  "added_pod (PodAdd (PodObj pod)) = Some pod"
| "added_pod _ = None"

fun added_node :: "server_event \<Rightarrow> v1_Node option" where
  "added_node (NodeAdd (NodeObj node)) = Some node"
| "added_node _ = None"

fun_cases added_podE: "added_pod e = Some pod"
fun_cases added_nodeE: "added_node e = Some node"

definition added_pods :: "server_event list \<Rightarrow> v1_Pod list" where
  "added_pods evs = List.map_filter added_pod evs"

definition added_nodes :: "server_event list \<Rightarrow> v1_Node list" where
  "added_nodes evs = List.map_filter added_node evs"

text \<open>
  Events that add pods and nodes, none twice, where a pod uses an address of \<open>H\<close> exactly as its
  host's address.
\<close>

definition listing :: "u32 set \<Rightarrow> server_event list \<Rightarrow> bool" where
  "listing H evs \<longleftrightarrow>
     (\<forall>e \<in> set evs. added_pod e \<noteq> None \<or> added_node e \<noteq> None)
     \<and> distinct (map pod_key (added_pods evs)) \<and> distinct (map node_Name (added_nodes evs))
     \<and> (\<forall>pod \<in> set (added_pods evs). \<forall>ip \<in> set (pod_addrs pod). ip \<in> H \<longleftrightarrow> host_network pod ip)"

text \<open>No two of the added pods share an address outside \<open>H\<close>.\<close>

definition apart :: "u32 set \<Rightarrow> server_event list \<Rightarrow> bool" where
  "apart H evs \<longleftrightarrow>
     (\<forall>pod \<in> set (added_pods evs). \<forall>pod' \<in> set (added_pods evs).
        pod_key pod \<noteq> pod_key pod' \<longrightarrow> set (pod_addrs pod) \<inter> set (pod_addrs pod') \<subseteq> H)"

text \<open>The events report the pods and nodes that the server knows.\<close>

definition relists :: "server_event list \<Rightarrow> Server \<Rightarrow> bool" where
  "relists evs s \<longleftrightarrow>
     map_of (map pod_entry (added_pods evs)) = podIndex s
     \<and> map_of (map node_entry (added_nodes evs)) = nodeIndex s"

lemma added_snoc [simp]:
  "added_pods [] = []" "added_nodes [] = []"
  "added_pods (evs @ [e]) = added_pods evs @ (case added_pod e of Some pod \<Rightarrow> [pod] | None \<Rightarrow> [])"
  "added_nodes (evs @ [e]) = added_nodes evs @ (case added_node e of Some node \<Rightarrow> [node] | None \<Rightarrow> [])"
  by (simp_all add: added_pods_def added_nodes_def List.map_filter_def split: option.split)

lemma added_cases:
  assumes "listing H (evs @ [e])"
  obtains pod where "e = PodAdd (PodObj pod)" | node where "e = NodeAdd (NodeObj node)"
proof -
  have "added_pod e \<noteq> None \<or> added_node e \<noteq> None" using assms by (simp add: listing_def)
  then show ?thesis using that by (auto elim: added_podE added_nodeE)
qed

lemma listing_prefix: "listing H (evs @ [e]) \<Longrightarrow> listing H evs"
  by (auto simp: listing_def split: option.splits)

lemma apart_prefix: "apart H (evs @ [e]) \<Longrightarrow> apart H evs"
  by (simp add: apart_def split: option.splits)

lemma fst_entries [simp]:
  "map fst (map pod_entry ps) = map pod_key ps" "map fst (map node_entry ns) = map node_Name ns"
  "fst (pod_entry pod) = pod_key pod" "fst (node_entry node) = node_Name node"
  by (simp_all add: pod_entry_def node_entry_def)

lemma listing_new:
  "listing H (evs @ [PodAdd (PodObj pod)]) \<Longrightarrow> pod_key pod \<notin> fst ` set (map pod_entry (added_pods evs))"
  "listing H (evs @ [NodeAdd (NodeObj node)]) \<Longrightarrow> node_Name node \<notin> fst ` set (map node_entry (added_nodes evs))"
  by (simp_all add: listing_def image_image)

lemma map_of_snoc: "k \<notin> fst ` set xs \<Longrightarrow> map_of (xs @ [(k, v)]) = (map_of xs)(k \<mapsto> v)"
  by (induction xs) auto

lemma recorded_entries:
  assumes "podIndex s = map_of (map pod_entry ps)" "distinct (map pod_key ps)"
  shows "ip \<in> recorded s k \<longleftrightarrow> (\<exists>pod \<in> set ps. pod_key pod = k \<and> ip \<in> set (pod_addrs pod))"
proof -
  have "distinct (map fst (map pod_entry ps))" using assms(2) by (simp only: fst_entries)
  then have "podIndex s k = Some info \<longleftrightarrow> (k, info) \<in> set (map pod_entry ps)" for info
    unfolding assms(1) by (rule map_of_eq_Some_iff)
  then have "podIndex s k = Some info \<longleftrightarrow> (\<exists>pod \<in> set ps. (k, info) = pod_entry pod)" for info
    by (simp only: set_map image_iff)
  moreover have "ip \<in> recorded s k \<longleftrightarrow> (\<exists>info. podIndex s k = Some info \<and> ip \<in> set (IPs info))"
    by (simp add: recorded_def split: option.split)
  ultimately have "ip \<in> recorded s k
      \<longleftrightarrow> (\<exists>info. (\<exists>pod \<in> set ps. (k, info) = pod_entry pod) \<and> ip \<in> set (IPs info))"
    by presburger
  then show ?thesis unfolding pod_entry_def by auto
qed

section \<open>The rebuilt server\<close>

definition rebuilt :: "server_event list \<Rightarrow> Server" where
  "rebuilt evs = run effect evs init_server"

lemma rebuilt_simps [simp]: "rebuilt [] = init_server" "rebuilt (evs @ [e]) = effect e (rebuilt evs)"
  by (simp_all add: rebuilt_def)

lemma init_fields:
  "statistics init_server = Map.empty" "podIndex init_server = Map.empty" "nodeIndex init_server = Map.empty"
  by (simp_all add: init_server_def)

lemma rebuilt_pod_lawful:
  assumes "podIndex (rebuilt evs) = map_of (map pod_entry (added_pods evs))"
    and "listing H (evs @ [PodAdd (PodObj pod)])" "apart H (evs @ [PodAdd (PodObj pod)])"
  shows "lawful_pod H pod (rebuilt evs)"
proof -
  have new: "pod_key pod \<notin> pod_key ` set (added_pods evs)"
    and dist: "distinct (map pod_key (added_pods evs))"
    and host: "\<forall>ip \<in> set (pod_addrs pod). ip \<in> H \<longleftrightarrow> host_network pod ip"
    using assms(2) by (simp_all add: listing_def)
  note rec = recorded_entries [OF assms(1) dist]
  have "ip \<notin> recorded (rebuilt evs) (pod_key pod)" for ip
    using new unfolding rec by (metis imageI)
  then have "recorded (rebuilt evs) (pod_key pod) = {}" by blast
  moreover have "recorded (rebuilt evs) k \<inter> set (pod_addrs pod) \<subseteq> H" if "k \<noteq> pod_key pod" for k
    using assms(3) that by (fastforce simp: apart_def rec)
  ultimately show ?thesis using host by (simp add: lawful_pod_def)
qed

lemma rebuilt_indexes:
  assumes "listing H evs" "apart H evs"
  shows "lawful_trace H evs (rebuilt evs) \<and> statistics (rebuilt evs) = Map.empty
    \<and> podIndex (rebuilt evs) = map_of (map pod_entry (added_pods evs))
    \<and> nodeIndex (rebuilt evs) = map_of (map node_entry (added_nodes evs))"
  using assms
proof (induction evs rule: rev_induct)
  case Nil
  show ?case by (simp add: lawful_trace.init init_fields)
next
  case (snoc e evs)
  note IH = snoc.IH [OF listing_prefix [OF snoc.prems(1)] apart_prefix [OF snoc.prems(2)]]
  have step: "lawful_trace H (evs @ [e]) (rebuilt (evs @ [e]))" if "lawful H e (rebuilt evs)"
    using lawful_trace_run [of H "rebuilt evs" evs "[e]"] IH that lawful_trace_reachable by auto
  from snoc.prems(1) show ?case
  proof (cases rule: added_cases)
    case (1 pod)
    have "pod_key pod \<notin> fst ` set (map pod_entry (added_pods evs))"
      using snoc.prems(1) unfolding 1 by (rule listing_new)
    then have entry: "map_of (map pod_entry (added_pods evs @ [pod])) =
        (map_of (map pod_entry (added_pods evs)))(pod_key pod \<mapsto> \<lparr>Node = pod_NodeName pod, IPs = pod_addrs pod\<rparr>)"
      unfolding map_append list.map pod_entry_def [of pod] by (rule map_of_snoc)
    have "lawful_pod H pod (rebuilt evs)"
      using rebuilt_pod_lawful IH snoc.prems by (simp only: 1)
    then have trace: "lawful_trace H (evs @ [e]) (rebuilt (evs @ [e]))"
      using step by (simp only: 1 lawful.simps)
    have now: "rebuilt (evs @ [e]) = indexed pod (rebuilt evs)"
        "added_pods (evs @ [e]) = added_pods evs @ [pod]" "added_nodes (evs @ [e]) = added_nodes evs"
      by (simp_all add: 1)
    show ?thesis
      using trace IH unfolding now entry by (simp add: indexed_def)
  next
    case (2 node)
    have "node_Name node \<notin> fst ` set (map node_entry (added_nodes evs))"
      using snoc.prems(1) unfolding 2 by (rule listing_new)
    then have entry: "map_of (map node_entry (added_nodes evs @ [node])) =
        (map_of (map node_entry (added_nodes evs)))(node_Name node \<mapsto> zone_of node)"
      unfolding map_append list.map node_entry_def [of node] by (rule map_of_snoc)
    have trace: "lawful_trace H (evs @ [e]) (rebuilt (evs @ [e]))"
      using step by (simp only: 2 lawful.simps)
    have now: "rebuilt (evs @ [e])
          = (rebuilt evs)\<lparr>nodeIndex := (nodeIndex (rebuilt evs))(node_Name node \<mapsto> zone_of node)\<rparr>"
        "added_pods (evs @ [e]) = added_pods evs" "added_nodes (evs @ [e]) = added_nodes evs @ [node]"
      by (simp_all add: 2)
    show ?thesis
      using trace IH unfolding now entry by simp
  qed
qed

lemma relisted_apart:
  assumes "index_exact H s" "listing H evs" "relists evs s"
  shows "apart H evs"
proof -
  have "distinct (map pod_key (added_pods evs))" using assms(2) by (simp add: listing_def)
  moreover have "podIndex s = map_of (map pod_entry (added_pods evs))"
    using assms(3) by (simp add: relists_def)
  ultimately have rec: "ip \<in> recorded s (pod_key pod)"
    if "pod \<in> set (added_pods evs)" "ip \<in> set (pod_addrs pod)" for ip pod
    using that recorded_entries by blast
  have "pod_key pod = pod_key pod'" if "ip \<in> recorded s (pod_key pod)" "ip \<in> recorded s (pod_key pod')"
      "ip \<notin> H" for ip pod pod'
    using that index_exactD(1) [OF assms(1)] by (metis option.inject)
  with rec show ?thesis unfolding apart_def by blast
qed

text \<open>
  C9. A restart loses the counters and nothing else. If the cluster has handed out addresses
  lawfully, a new server that is told every live pod and node once, in any order, is in a
  lawful state with the same pods and nodes and empty counters, and it resolves every address
  outside the hosts' own to the same key and zone as the server it replaces, whatever that one
  had been through; a message about such addresses adds the same amounts to the counters.
  Hosts' addresses are excepted: they are only learnt from pods.
\<close>

theorem restart_resolves_same:
  assumes "lawfully_reachable H s" "listing H evs" "relists evs s"
  shows "lawful_trace H evs (rebuilt evs) \<and> statistics (rebuilt evs) = Map.empty
    \<and> podIndex (rebuilt evs) = podIndex s \<and> nodeIndex (rebuilt evs) = nodeIndex s
    \<and> (ip \<notin> H \<longrightarrow> resolve_source (rebuilt evs) ip = resolve_source s ip)
    \<and> ((\<forall>e \<in> set (accepted r). ESrcIP e \<notin> H \<and> EDstIP e \<notin> H) \<longrightarrow>
         lookup0 (statistics (after_request r s)) k
           = lookup0 (statistics s) k + lookup0 (statistics (after_request r (rebuilt evs))) k)"
proof -
  have exact: "index_exact H s" using assms(1) by (rule lawfully_reachable_exact)
  note new = rebuilt_indexes [OF assms(2) relisted_apart [OF exact assms(2,3)]]
  have exact': "index_exact H (rebuilt evs)"
    using new lawful_trace_reachable lawfully_reachable_exact by blast
  have same: "podIndex (rebuilt evs) = podIndex s" "nodeIndex (rebuilt evs) = nodeIndex s"
    using new assms(3) by (simp_all add: relists_def)
  have "resolve_source (rebuilt evs) a = Some (k, z) \<longleftrightarrow> resolve_source s a = Some (k, z)"
    if "a \<notin> H" for a k z
    using that by (simp add: resolution_exact [OF exact'] resolution_exact [OF exact] same)
  then have res: "resolve_source (rebuilt evs) a = resolve_source s a" if "a \<notin> H" for a
    using that by (metis not_None_eq surj_pair)
  then have "charge (directory (rebuilt evs)) e = charge (directory s) e"
    if "ESrcIP e \<notin> H \<and> EDstIP e \<notin> H" for e
    using that by (simp add: charge_def directory_def)
  then have "lookup0 (statistics (after_request r s)) k
      = lookup0 (statistics s) k + lookup0 (statistics (after_request r (rebuilt evs))) k"
    if "\<forall>e \<in> set (accepted r). ESrcIP e \<notin> H \<and> EDstIP e \<notin> H"
    using that new by (simp add: after_request_accepted lookup0_charged cong: filter_cong)
      (simp add: lookup0_def)
  with new same res show ?thesis by blast
qed

text \<open>The witness: the sample cluster after a message, told again in another order.\<close>

definition relist_run :: "server_event list" where
  "relist_run =
     [PodAdd (PodObj (sample_pod ''db'' ''n2'' ''192.168.0.2'' ''10.0.0.2'')),
      NodeAdd (NodeObj (sample_node ''n2'' ''z2'')),
      PodAdd (PodObj (sample_pod ''web'' ''n1'' ''192.168.0.1'' ''10.0.0.1'')),
      NodeAdd (NodeObj (sample_node ''n1'' ''z1''))]"

theorem restart_resolves_same_witness:
  "statistics (rebuilt relist_run) = Map.empty
    \<and> resolve_source (rebuilt relist_run) 0x0A000001 = Some (sample_key ''web'', ''z1'')
    \<and> lookup0 (statistics (after_request sample_post (after_request sample_post sample_state))) (sample_key ''web'')
      = 1500 + lookup0 (statistics (after_request sample_post (rebuilt relist_run))) (sample_key ''web'')"
proof -
  let ?H = "{0xC0A80001, 0xC0A80002} :: u32 set"
  define s where "s = after_request sample_post sample_state"
  have "lawfully_reachable ?H (run effect [Request sample_post] sample_state)"
    by (rule lawful_runs [OF lawful_sample]) simp
  then have reach: "lawfully_reachable ?H s" by (simp add: s_def)
  have idx: "podIndex s = podIndex sample_state" "nodeIndex s = nodeIndex sample_state"
    "podIpIndex s = podIpIndex sample_state" "nodeIpIndex s = nodeIpIndex sample_state"
    by (simp_all add: s_def after_sample_post)
  have "listing ?H relist_run"
    by (simp add: listing_def relist_run_def added_pods_def added_nodes_def sample_simps)
  moreover have "relists relist_run s"
    by (simp add: relists_def idx relist_run_def added_pods_def added_nodes_def pod_entry_def
        node_entry_def sample_state_eq sample_simps)
  moreover have "\<forall>e \<in> set (accepted sample_post). ESrcIP e \<notin> ?H \<and> EDstIP e \<notin> ?H"
    by (simp add: accepted_def sample_post_def Decode_sample sample_entry_def)
  moreover have "lookup0 (statistics s) (sample_key ''web'') = 1500"
    by (simp add: s_def after_sample_post lookup0_def)
  moreover have "resolve_source s 0x0A000001 = Some (sample_key ''web'', ''z1'')"
    by (simp add: resolve_source_def idx sample_state_eq init_server_def)
  ultimately show ?thesis
    using restart_resolves_same [OF reach, of relist_run "0x0A000001" sample_post "sample_key ''web''"]
    by (simp flip: s_def)
qed

end
