(* ===== verification/Server_Scrape.thy ===== *)
theory Server_Scrape
  imports Server_Facts "HOL-Library.List_Lexorder" "HOL-Library.Char_ord"
begin

text \<open>
  Go visits a map in an order of its own, so two scrapes of the same state emit their metrics in
  different orders. Pod keys are ordered by namespace and name, as the label pairs of a metric
  are in the exposition; sorted by that order, what a scrape emits is a function of the state.
\<close>

section \<open>The order of pod keys\<close>

instantiation podKey_ext :: (linorder) linorder
begin

definition less_eq_podKey_ext :: "'a podKey_ext \<Rightarrow> 'a podKey_ext \<Rightarrow> bool" where
  "less_eq_podKey_ext a b \<longleftrightarrow>
     pk_namespace a < pk_namespace b
     \<or> pk_namespace a = pk_namespace b
        \<and> (pk_name a < pk_name b \<or> pk_name a = pk_name b \<and> podKey.more a \<le> podKey.more b)"

definition less_podKey_ext :: "'a podKey_ext \<Rightarrow> 'a podKey_ext \<Rightarrow> bool" where
  "less_podKey_ext a b \<longleftrightarrow> a \<le> b \<and> \<not> b \<le> a"

instance
proof
  fix a b c :: "'a podKey_ext"
  show "a < b \<longleftrightarrow> a \<le> b \<and> \<not> b \<le> a" by (rule less_podKey_ext_def)
  show "a \<le> a" by (simp add: less_eq_podKey_ext_def)
  show "a \<le> b \<Longrightarrow> b \<le> c \<Longrightarrow> a \<le> c" by (auto simp: less_eq_podKey_ext_def)
  show "a \<le> b \<Longrightarrow> b \<le> a \<Longrightarrow> a = b" by (auto simp: less_eq_podKey_ext_def intro: podKey.equality)
  show "a \<le> b \<or> b \<le> a" by (auto simp: less_eq_podKey_ext_def)
qed

end

section \<open>Scrapes\<close>

definition metric_key :: "metric \<Rightarrow> podKey" where
  "metric_key m = \<lparr>pk_namespace = m_namespace m, pk_name = m_pod m\<rparr>"

definition metric_at :: "(podKey \<rightharpoonup> u64) \<Rightarrow> podKey \<Rightarrow> metric" where
  "metric_at m k = \<lparr>m_value = float64 (lookup0 m k), m_namespace = pk_namespace k, m_pod = pk_name k\<rparr>"

lemma metric_key_at [simp]: "metric_key (metric_at m k) = k"
  by (simp add: metric_key_def metric_at_def)

lemma Collect_metric_at:
  "set order = dom (statistics s) \<Longrightarrow> Collect_metrics order s = map (metric_at (statistics s)) order"
  by (simp add: Collect_metrics_def Collect_loop_eq metric_at_def [abs_def])

lemma sort_key_section:
  assumes "\<And>x. f (g x) = x"
  shows "sort_key f (map g xs) = map g (sort xs)"
proof (rule properties_for_sort_key)
  show "mset (map g (sort xs)) = mset (map g xs)" by simp
  show "sorted (map f (map g (sort xs)))" by (simp add: comp_def assms)
  show "filter (\<lambda>y. f k = f y) (map g (sort xs)) = filter (\<lambda>y. f k = f y) (map g xs)" for k
    using sort_key_stable [of "\<lambda>x. x" "f k" xs] by (simp add: filter_map comp_def assms eq_commute)
qed



end
