(* ===== verification/C_Layout.thy ===== *)
theory C_Layout
  imports Byteorder
begin

text \<open>
  The part of C that the kernel program's data accesses rest on: the memory layout of
  structures, unions and bit-fields under the 64-bit System V rules (which the BPF target
  shares), and loads of scalars and bit-fields in either byte order. The headers' declarations
  are translated to \<open>ctype\<close> values, and offsets are computed from those.
\<close>

section \<open>Types and their layout\<close>

text \<open>
  \<open>CInt n\<close> is an integer or enumeration of \<open>n\<close> bytes; \<open>Bits f n w\<close> is a bit-field of width
  \<open>w\<close> declared with an integer type of \<open>n\<close> bytes. An unnamed member has the empty name;
  \<open>CPacked\<close> is a structure with \<open>__attribute__((packed))\<close>.
\<close>

datatype ctype =
    CInt nat
  | CPtr
  | CArray ctype nat
  | CStruct "member list"
  | CUnion "member list"
  | CPacked "member list"
and member =
    Member string ctype
  | Bits string nat nat

definition align_up :: "nat \<Rightarrow> nat \<Rightarrow> nat" where
  "align_up n a = (n + a - 1) div a * a"

fun calign :: "ctype \<Rightarrow> nat" and member_align :: "member \<Rightarrow> nat"
  and members_align :: "member list \<Rightarrow> nat" where
  "calign (CInt n) = n"
| "calign CPtr = 8"
| "calign (CArray t n) = calign t"
| "calign (CStruct ms) = members_align ms"
| "calign (CUnion ms) = members_align ms"
| "calign (CPacked ms) = 1"
| "member_align (Member f t) = calign t"
| "member_align (Bits f n w) = (if f = [] then 1 else n)"
| "members_align [] = 1"
| "members_align (m # ms) = max (member_align m) (members_align ms)"

text \<open>
  Positions count bits from the start of the structure. A bit-field shares its storage unit
  with its predecessors unless it would cross the unit's end; one of width 0 closes the unit.
  \<open>place pk m pos\<close> is where member \<open>m\<close> goes when the members before it end at \<open>pos\<close>.
\<close>

definition place :: "bool \<Rightarrow> member \<Rightarrow> nat \<Rightarrow> nat" where
  "place pk m pos =
     (case m of
        Member f t \<Rightarrow> align_up pos (8 * (if pk then 1 else calign t))
      | Bits f n w \<Rightarrow>
          if w = 0 then align_up pos (8 * n)
          else if pk \<or> pos mod (8 * n) + w \<le> 8 * n then pos
          else align_up pos (8 * n))"

fun csize :: "ctype \<Rightarrow> nat" and member_bits :: "member \<Rightarrow> nat"
  and struct_end :: "bool \<Rightarrow> member list \<Rightarrow> nat \<Rightarrow> nat" and union_end :: "member list \<Rightarrow> nat" where
  "csize (CInt n) = n"
| "csize CPtr = 8"
| "csize (CArray t n) = n * csize t"
| "csize (CStruct ms) = align_up (struct_end False ms 0) (8 * members_align ms) div 8"
| "csize (CUnion ms) = align_up (union_end ms) (8 * members_align ms) div 8"
| "csize (CPacked ms) = align_up (struct_end True ms 0) 8 div 8"
| "member_bits (Member f t) = 8 * csize t"
| "member_bits (Bits f n w) = w"
| "struct_end pk [] pos = pos"
| "struct_end pk (m # ms) pos = struct_end pk ms (place pk m pos + member_bits m)"
| "union_end [] = 0"
| "union_end (m # ms) = max (member_bits m) (union_end ms)"

text \<open>
  Finding a member by name, through unnamed structures and unions: its position and its
  declaration.
\<close>

fun locate :: "string \<Rightarrow> ctype \<Rightarrow> (nat \<times> member) option"
  and locate_member :: "string \<Rightarrow> member \<Rightarrow> (nat \<times> member) option"
  and locate_struct :: "string \<Rightarrow> bool \<Rightarrow> member list \<Rightarrow> nat \<Rightarrow> (nat \<times> member) option"
  and locate_union :: "string \<Rightarrow> member list \<Rightarrow> (nat \<times> member) option" where
  "locate x (CInt n) = None"
| "locate x CPtr = None"
| "locate x (CArray t n) = None"
| "locate x (CStruct ms) = locate_struct x False ms 0"
| "locate x (CUnion ms) = locate_union x ms"
| "locate x (CPacked ms) = locate_struct x True ms 0"
| "locate_member x (Member f t) =
     (if f = x then Some (0, Member f t) else if f = [] then locate x t else None)"
| "locate_member x (Bits f n w) = (if f = x then Some (0, Bits f n w) else None)"
| "locate_struct x pk [] pos = None"
| "locate_struct x pk (m # ms) pos =
     (case locate_member x m of
        Some (o', m') \<Rightarrow> Some (place pk m pos + o', m')
      | None \<Rightarrow> locate_struct x pk ms (place pk m pos + member_bits m))"
| "locate_union x [] = None"
| "locate_union x (m # ms) =
     (case locate_member x m of Some r \<Rightarrow> Some r | None \<Rightarrow> locate_union x ms)"

definition offsetof :: "string \<Rightarrow> ctype \<Rightarrow> nat option" where
  "offsetof x t = map_option (\<lambda>(p, m). p div 8) (locate x t)"

section \<open>Well-formed declarations\<close>

text \<open>
  Integers have size 1, 2, 4, 8 or 16; a bit-field is not wider than its type; and packed
  structures, which have no alignment to keep, may hold anything.
\<close>

fun cwf :: "ctype \<Rightarrow> bool" and member_wf :: "member \<Rightarrow> bool" where
  "cwf (CInt n) = (n \<in> {1, 2, 4, 8, 16})"
| "cwf CPtr = True"
| "cwf (CArray t n) = cwf t"
| "cwf (CStruct ms) = list_all member_wf ms"
| "cwf (CUnion ms) = list_all member_wf ms"
| "cwf (CPacked ms) = list_all member_wf ms"
| "member_wf (Member f t) = cwf t"
| "member_wf (Bits f n w) = (n \<in> {1, 2, 4, 8} \<and> w \<le> 8 * n)"

lemma align_up_ge: "0 < a \<Longrightarrow> n \<le> align_up n a"
proof -
  assume "0 < a"
  then have "(n + a - 1) mod a \<le> a - 1" by (metis Suc_pred' less_Suc_eq_le mod_less_divisor)
  moreover have "(n + a - 1) div a * a + (n + a - 1) mod a = n + a - 1" by (rule div_mult_mod_eq)
  ultimately show ?thesis using \<open>0 < a\<close> unfolding align_up_def by linarith
qed

lemma align_up_dvd: "a dvd align_up n a"
  by (simp add: align_up_def)

text \<open>Alignments are powers of two, so the larger of two is a multiple of the smaller.\<close>

abbreviation alignment :: "nat \<Rightarrow> bool" where
  "alignment n \<equiv> n \<in> {1, 2, 4, 8, 16}"

lemma alignment_max: "alignment a \<Longrightarrow> alignment b \<Longrightarrow> alignment (max a b) \<and> a dvd max a b \<and> b dvd max a b"
  by auto

lemma cwf_alignment:
  "cwf t \<Longrightarrow> alignment (calign t)"
  "member_wf m \<Longrightarrow> alignment (member_align m)"
  "list_all member_wf ms \<Longrightarrow> alignment (members_align ms)"
proof (induction t and m and ms rule: calign_member_align_members_align.induct)
  case (10 m ms)
  then show ?case using alignment_max by simp
qed auto

lemma member_align_dvd:
  "list_all member_wf ms \<Longrightarrow> m \<in> set ms \<Longrightarrow> member_align m dvd members_align ms"
proof (induction ms)
  case (Cons m' ms)
  then have "alignment (member_align m')" "alignment (members_align ms)"
    using cwf_alignment(2,3) by simp_all
  from alignment_max [OF this] Cons show ?case by (auto intro: dvd_trans)
qed simp


section \<open>Members lie inside their structure, aligned and disjoint\<close>

lemma place_ge: "member_wf m \<Longrightarrow> pos \<le> place pk m pos"
proof (cases m)
  case (Member f t)
  assume "member_wf m"
  with Member have "0 < calign t" using cwf_alignment(1) [of t] by auto
  then show ?thesis unfolding Member place_def by (auto intro: align_up_ge)
next
  case (Bits f n w)
  assume "member_wf m"
  with Bits have "0 < 8 * n" by auto
  then show ?thesis unfolding Bits place_def by (auto intro: align_up_ge)
qed

lemma struct_end_ge: "list_all member_wf ms \<Longrightarrow> pos \<le> struct_end pk ms pos"
proof (induction ms arbitrary: pos)
  case (Cons m ms)
  then have "place pk m pos + member_bits m \<le> struct_end pk ms (place pk m pos + member_bits m)"
    by simp
  moreover have "pos \<le> place pk m pos" using Cons.prems by (simp add: place_ge)
  ultimately show ?case by simp
qed simp

lemma eight_csize:
  "list_all member_wf ms \<Longrightarrow> struct_end False ms 0 \<le> 8 * csize (CStruct ms)"
  "list_all member_wf ms \<Longrightarrow> union_end ms \<le> 8 * csize (CUnion ms)"
  "struct_end True ms 0 \<le> 8 * csize (CPacked ms)"
proof -
  have up: "n \<le> 8 * (align_up n (8 * a) div 8)" if "0 < a" for n a
  proof -
    have "8 dvd align_up n (8 * a)" by (rule dvd_trans [OF _ align_up_dvd]) simp
    moreover have "n \<le> align_up n (8 * a)" using that by (simp add: align_up_ge)
    ultimately show ?thesis by simp
  qed
  have pos: "0 < members_align ms" if "list_all member_wf ms"
    using cwf_alignment(3) [OF that] by auto
  show "list_all member_wf ms \<Longrightarrow> struct_end False ms 0 \<le> 8 * csize (CStruct ms)"
    and "list_all member_wf ms \<Longrightarrow> union_end ms \<le> 8 * csize (CUnion ms)"
    using up [OF pos] by auto
  show "struct_end True ms 0 \<le> 8 * csize (CPacked ms)" using up [of 1] by simp
qed

lemma locate_inside:
  "cwf t \<Longrightarrow> locate x t = Some (p, m) \<Longrightarrow> p + member_bits m \<le> 8 * csize t"
  "member_wf m' \<Longrightarrow> locate_member x m' = Some (p, m) \<Longrightarrow> p + member_bits m \<le> member_bits m'"
  "list_all member_wf ms \<Longrightarrow> locate_struct x pk ms pos = Some (p, m) \<Longrightarrow>
     p + member_bits m \<le> struct_end pk ms pos"
  "list_all member_wf ms \<Longrightarrow> locate_union x ms = Some (p, m) \<Longrightarrow> p + member_bits m \<le> union_end ms"
proof (induction x t and x m' and x pk ms pos and x ms arbitrary: p m and p m and p m and p m
    rule: locate_locate_member_locate_struct_locate_union.induct)
  case (4 x ms)
  then have "p + member_bits m \<le> struct_end False ms 0" by simp
  also have "\<dots> \<le> 8 * csize (CStruct ms)" using 4(2) by (intro eight_csize(1)) simp
  finally show ?case .
next
  case (5 x ms)
  then have "p + member_bits m \<le> union_end ms" by simp
  also have "\<dots> \<le> 8 * csize (CUnion ms)" using 5(2) by (intro eight_csize(2)) simp
  finally show ?case .
next
  case (6 x ms)
  then have "p + member_bits m \<le> struct_end True ms 0" by simp
  also have "\<dots> \<le> 8 * csize (CPacked ms)" by (rule eight_csize(3))
  finally show ?case .
next
  case (10 x pk m' ms pos)
  show ?case
  proof (cases "locate_member x m'")
    case None
    with 10 show ?thesis by simp
  next
    case (Some r)
    then obtain o' m'' where r: "r = (o', m'')" by (cases r)
    with Some 10 have "o' + member_bits m \<le> member_bits m'" and "p = place pk m' pos + o'" by auto
    moreover have "place pk m' pos + member_bits m' \<le> struct_end pk ms (place pk m' pos + member_bits m')"
      using 10(3) by (intro struct_end_ge) simp
    ultimately show ?thesis by simp
  qed
qed (auto split: if_splits option.splits simp: max.coboundedI1 max.coboundedI2)

text \<open>The bits that each member of a structure occupies, in order.\<close>

fun spans :: "bool \<Rightarrow> member list \<Rightarrow> nat \<Rightarrow> (nat \<times> nat) list" where
  "spans pk [] pos = []"
| "spans pk (m # ms) pos =
     (place pk m pos, member_bits m) # spans pk ms (place pk m pos + member_bits m)"

lemma spans_start: "list_all member_wf ms \<Longrightarrow> (p, n) \<in> set (spans pk ms pos) \<Longrightarrow> pos \<le> p"
proof (induction ms arbitrary: pos)
  case (Cons m ms)
  then have "pos \<le> place pk m pos" by (simp add: place_ge)
  with Cons show ?case by fastforce
qed simp

lemma spans_disjoint:
  "list_all member_wf ms \<Longrightarrow> sorted_wrt (\<lambda>(p, n) (q, n'). p + n \<le> q) (spans pk ms pos)"
  by (induction ms arbitrary: pos) (auto dest: spans_start)

lemma place_aligned: "8 * calign t dvd place False (Member f t) pos"
  by (simp add: place_def align_up_dvd)

text \<open>No packed structure anywhere inside a type.\<close>

fun unpacked :: "ctype \<Rightarrow> bool" and member_unpacked :: "member \<Rightarrow> bool" where
  "unpacked (CInt n) = True"
| "unpacked CPtr = True"
| "unpacked (CArray t n) = unpacked t"
| "unpacked (CStruct ms) = list_all member_unpacked ms"
| "unpacked (CUnion ms) = list_all member_unpacked ms"
| "unpacked (CPacked ms) = False"
| "member_unpacked (Member f t) = unpacked t"
| "member_unpacked (Bits f n w) = True"

text \<open>
  A located member that is not a bit-field sits at a multiple of its own alignment, relative
  to anything that is itself aligned to the enclosing type.
\<close>

lemma locate_aligned:
  "cwf t \<Longrightarrow> unpacked t \<Longrightarrow> locate x t = Some (p, Member f u) \<Longrightarrow>
     8 * calign u dvd p \<and> calign u dvd calign t"
  "member_wf m' \<Longrightarrow> member_unpacked m' \<Longrightarrow> locate_member x m' = Some (p, Member f u) \<Longrightarrow>
     8 * calign u dvd p \<and> calign u dvd member_align m'"
  "list_all member_wf ms \<Longrightarrow> list_all member_unpacked ms \<Longrightarrow> \<not> pk \<Longrightarrow>
     locate_struct x pk ms pos = Some (p, Member f u) \<Longrightarrow>
     8 * calign u dvd p \<and> calign u dvd members_align ms"
  "list_all member_wf ms \<Longrightarrow> list_all member_unpacked ms \<Longrightarrow>
     locate_union x ms = Some (p, Member f u) \<Longrightarrow>
     8 * calign u dvd p \<and> calign u dvd members_align ms"
proof (induction x t and x m' and x pk ms pos and x ms arbitrary: p and p and p and p
    rule: locate_locate_member_locate_struct_locate_union.induct)
  case (10 x pk m' ms pos)
  have dvds: "member_align m' dvd members_align (m' # ms)" "members_align ms dvd members_align (m' # ms)"
    using alignment_max [of "member_align m'" "members_align ms"] cwf_alignment(2,3) 10(3) by simp_all
  show ?case
  proof (cases "locate_member x m'")
    case None
    with 10 have "8 * calign u dvd p \<and> calign u dvd members_align ms" by auto
    then show ?thesis using dvds(2) dvd_trans by blast
  next
    case (Some r)
    then obtain o' where r: "r = (o', Member f u)" and p: "p = place pk m' pos + o'"
      using 10(6) by (cases r) auto
    with Some 10 have o': "8 * calign u dvd o'" and al: "calign u dvd member_align m'" by auto
    have "8 * calign u dvd place pk m' pos"
    proof (cases m')
      case (Member g v)
      then have "8 * calign u dvd 8 * calign v" using al by (intro mult_dvd_mono) auto
      moreover have "8 * calign v dvd place pk m' pos"
        using 10(5) Member place_aligned [of v g pos] by simp
      ultimately show ?thesis by (rule dvd_trans)
    next
      case (Bits g n w)
      with Some r show ?thesis by (auto split: if_splits)
    qed
    with p o' have "8 * calign u dvd p" by simp
    moreover have "calign u dvd members_align (m' # ms)" using al dvds(1) dvd_trans by blast
    ultimately show ?thesis by simp
  qed
next
  case (12 x m' ms)
  have dvds: "member_align m' dvd members_align (m' # ms)" "members_align ms dvd members_align (m' # ms)"
    using alignment_max [of "member_align m'" "members_align ms"] cwf_alignment(2,3) 12(3) by simp_all
  show ?case
  proof (cases "locate_member x m'")
    case None
    with 12 have "8 * calign u dvd p \<and> calign u dvd members_align ms" by auto
    then show ?thesis using dvds(2) dvd_trans by blast
  next
    case (Some r)
    with 12 have "8 * calign u dvd p \<and> calign u dvd member_align m'" by auto
    then show ?thesis using dvds(1) dvd_trans by blast
  qed
qed (auto split: if_splits)

section \<open>Loads\<close>

text \<open>
  Integers as the machine loads them from memory. Bit-fields are allocated from the low end
  of their storage unit on little-endian machines and from the high end on big-endian ones.
\<close>

datatype byte_order = LE | BE

definition load16 :: "byte_order \<Rightarrow> u8 list \<Rightarrow> u16" where
  "load16 e bs = (case e of LE \<Rightarrow> rd16 (rev (take 2 bs)) | BE \<Rightarrow> rd16 bs)"

definition load32 :: "byte_order \<Rightarrow> u8 list \<Rightarrow> u32" where
  "load32 e bs = (case e of LE \<Rightarrow> rd32 (rev (take 4 bs)) | BE \<Rightarrow> rd32 bs)"

definition store16 :: "byte_order \<Rightarrow> u16 \<Rightarrow> u8 list" where
  "store16 e v = (case e of LE \<Rightarrow> rev (be16 v) | BE \<Rightarrow> be16 v)"

definition store32 :: "byte_order \<Rightarrow> u32 \<Rightarrow> u8 list" where
  "store32 e v = (case e of LE \<Rightarrow> rev (be32 v) | BE \<Rightarrow> be32 v)"

text \<open>A bit-field in a one-byte storage unit, \<open>pos\<close> bits into it and \<open>w\<close> wide.\<close>

definition load_bits8 :: "byte_order \<Rightarrow> nat \<Rightarrow> nat \<Rightarrow> u8 \<Rightarrow> u8" where
  "load_bits8 e pos w b =
     take_bit w (drop_bit (case e of LE \<Rightarrow> pos | BE \<Rightarrow> 8 - pos - w) b)"

text \<open>The bytes of a member, and a one-byte bit-field, in the memory of an object.\<close>

definition member_bytes :: "ctype \<Rightarrow> string \<Rightarrow> u8 list \<Rightarrow> u8 list" where
  "member_bytes t x mem =
     (case locate x t of
        Some (p, m) \<Rightarrow> take (member_bits m div 8) (drop (p div 8) mem)
      | None \<Rightarrow> [])"

definition member_bits8 :: "byte_order \<Rightarrow> ctype \<Rightarrow> string \<Rightarrow> u8 list \<Rightarrow> u8" where
  "member_bits8 e t x mem =
     (case locate x t of
        Some (p, m) \<Rightarrow> load_bits8 e (p mod 8) (member_bits m) (mem ! (p div 8))
      | None \<Rightarrow> 0)"

lemma load_store16 [simp]: "load16 e (store16 e v @ rest) = v"
  using rd16_be16 [of v "[]"] rd16_be16 [of v rest]
  by (cases e) (simp_all add: load16_def store16_def)

lemma load_store32 [simp]: "load32 e (store32 e v @ rest) = v"
  using rd32_be32 [of v "[]"] rd32_be32 [of v rest]
  by (cases e) (simp_all add: load32_def store32_def)

lemma length_store [simp]: "length (store16 e v) = 2" "length (store32 e w) = 4"
  by (cases e; simp add: store16_def store32_def)+

text \<open>On a little-endian machine a load is the byte swap of the big-endian reading.\<close>

lemma load32_LE: "4 \<le> length bs \<Longrightarrow> load32 LE bs = Htonl (rd32 bs)"
proof -
  assume len: "4 \<le> length bs"
  have "be32 (load32 LE bs) = rev (take 4 bs)"
    using len be32.enc_dec [of "rev (take 4 bs)"] by (simp add: load32_def)
  also have "\<dots> = be32 (Htonl (rd32 bs))"
    using len be32_Htonl [of "rd32 bs"] by (simp add: be32.enc_dec)
  finally show ?thesis by (simp add: be32_inject)
qed

end
