(* ===== verification/Kernel_ABI.thy ===== *)
theory Kernel_ABI
  imports C_Layout
begin

text \<open>
  The kernel's data structures that the packet hook touches, translated from agent/vmlinux.h:
  the IPv4, TCP and UDP headers, the socket buffer with everything it contains, and the
  context of a netfilter program. The offsets that the program's loads use are computed from
  these declarations.
\<close>

section \<open>Declarations\<close>

definition struct_iphdr :: ctype where
  "struct_iphdr = CStruct [
     Bits ''ihl'' 1 4, Bits ''version'' 1 4, Member ''tos'' (CInt 1),
     Member ''tot_len'' (CInt 2), Member ''id'' (CInt 2), Member ''frag_off'' (CInt 2),
     Member ''ttl'' (CInt 1), Member ''protocol'' (CInt 1), Member ''check'' (CInt 2),
     Member '''' (CUnion [
       Member '''' (CStruct [
         Member ''saddr'' (CInt 4), Member ''daddr'' (CInt 4)]), Member ''addrs'' (CStruct [
         Member ''saddr'' (CInt 4), Member ''daddr'' (CInt 4)])])]"

lemma layout_struct_iphdr [simp]: "cwf struct_iphdr" "calign struct_iphdr = 4" "csize struct_iphdr = 20"
  by (simp_all add: struct_iphdr_def place_def align_up_def)

definition struct_tcphdr :: ctype where
  "struct_tcphdr = CStruct [
     Member ''source'' (CInt 2), Member ''dest'' (CInt 2), Member ''seq'' (CInt 4),
     Member ''ack_seq'' (CInt 4), Bits ''res1'' 2 4, Bits ''doff'' 2 4, Bits ''fin'' 2 1,
     Bits ''syn'' 2 1, Bits ''rst'' 2 1, Bits ''psh'' 2 1, Bits ''ack'' 2 1, Bits ''urg'' 2 1,
     Bits ''ece'' 2 1, Bits ''cwr'' 2 1, Member ''window'' (CInt 2), Member ''check'' (CInt 2),
     Member ''urg_ptr'' (CInt 2)]"

lemma layout_struct_tcphdr [simp]: "cwf struct_tcphdr" "calign struct_tcphdr = 4" "csize struct_tcphdr = 20"
  by (simp_all add: struct_tcphdr_def place_def align_up_def)

definition struct_udphdr :: ctype where
  "struct_udphdr = CStruct [
     Member ''source'' (CInt 2), Member ''dest'' (CInt 2), Member ''len'' (CInt 2),
     Member ''check'' (CInt 2)]"

lemma layout_struct_udphdr [simp]: "cwf struct_udphdr" "calign struct_udphdr = 2" "csize struct_udphdr = 8"
  by (simp_all add: struct_udphdr_def place_def align_up_def)

definition struct_rb_node :: ctype where
  "struct_rb_node = CStruct [
     Member ''__rb_parent_color'' (CInt 8), Member ''rb_right'' CPtr, Member ''rb_left'' CPtr]"

lemma layout_struct_rb_node [simp]: "cwf struct_rb_node" "calign struct_rb_node = 8" "csize struct_rb_node = 24"
  by (simp_all add: struct_rb_node_def place_def align_up_def)

definition struct_list_head :: ctype where
  "struct_list_head = CStruct [
     Member ''next'' CPtr, Member ''prev'' CPtr]"

lemma layout_struct_list_head [simp]: "cwf struct_list_head" "calign struct_list_head = 8" "csize struct_list_head = 16"
  by (simp_all add: struct_list_head_def place_def align_up_def)

definition struct_llist_node :: ctype where
  "struct_llist_node = CStruct [
     Member ''next'' CPtr]"

lemma layout_struct_llist_node [simp]: "cwf struct_llist_node" "calign struct_llist_node = 8" "csize struct_llist_node = 8"
  by (simp_all add: struct_llist_node_def place_def align_up_def)

definition type_atomic_t :: ctype where
  "type_atomic_t = CStruct [
     Member ''counter'' (CInt 4)]"

lemma layout_type_atomic_t [simp]: "cwf type_atomic_t" "calign type_atomic_t = 4" "csize type_atomic_t = 4"
  by (simp_all add: type_atomic_t_def place_def align_up_def)

definition struct_refcount_struct :: ctype where
  "struct_refcount_struct = CStruct [
     Member ''refs'' type_atomic_t]"

lemma layout_struct_refcount_struct [simp]: "cwf struct_refcount_struct" "calign struct_refcount_struct = 4" "csize struct_refcount_struct = 4"
  by (simp_all add: struct_refcount_struct_def place_def align_up_def)

definition struct_sk_buff :: ctype where
  "struct_sk_buff = CStruct [
     Member '''' (CUnion [
       Member '''' (CStruct [
         Member ''next'' CPtr, Member ''prev'' CPtr, Member '''' (CUnion [
           Member ''dev'' CPtr, Member ''dev_scratch'' (CInt 8)])]),
       Member ''rbnode'' struct_rb_node, Member ''list'' struct_list_head,
       Member ''ll_node'' struct_llist_node]), Member ''sk'' CPtr, Member '''' (CUnion [
       Member ''tstamp'' (CInt 8), Member ''skb_mstamp_ns'' (CInt 8)]),
     Member ''cb'' (CArray (CInt 1) 48), Member '''' (CUnion [
       Member '''' (CStruct [
         Member ''_skb_refdst'' (CInt 8), Member ''destructor'' CPtr]),
       Member ''tcp_tsorted_anchor'' struct_list_head, Member ''_sk_redir'' (CInt 8)]),
     Member ''_nfct'' (CInt 8), Member ''len'' (CInt 4), Member ''data_len'' (CInt 4),
     Member ''mac_len'' (CInt 2), Member ''hdr_len'' (CInt 2), Member ''queue_mapping'' (CInt 2),
     Member ''__cloned_offset'' (CArray (CInt 1) 0), Bits ''cloned'' 1 1, Bits ''nohdr'' 1 1,
     Bits ''fclone'' 1 2, Bits ''peeked'' 1 1, Bits ''head_frag'' 1 1, Bits ''pfmemalloc'' 1 1,
     Bits ''pp_recycle'' 1 1, Member ''active_extensions'' (CInt 1), Member '''' (CUnion [
       Member '''' (CStruct [
         Member ''__pkt_type_offset'' (CArray (CInt 1) 0), Bits ''pkt_type'' 1 3,
         Bits ''ignore_df'' 1 1, Bits ''dst_pending_confirm'' 1 1, Bits ''ip_summed'' 1 2,
         Bits ''ooo_okay'' 1 1, Member ''__mono_tc_offset'' (CArray (CInt 1) 0),
         Bits ''tstamp_type'' 1 2, Bits ''tc_at_ingress'' 1 1, Bits ''tc_skip_classify'' 1 1,
         Bits ''remcsum_offload'' 1 1, Bits ''csum_complete_sw'' 1 1, Bits ''csum_level'' 1 2,
         Bits ''inner_protocol_type'' 1 1, Bits ''l4_hash'' 1 1, Bits ''sw_hash'' 1 1,
         Bits ''wifi_acked_valid'' 1 1, Bits ''wifi_acked'' 1 1, Bits ''no_fcs'' 1 1,
         Bits ''encapsulation'' 1 1, Bits ''encap_hdr_csum'' 1 1, Bits ''csum_valid'' 1 1,
         Bits ''ndisc_nodetype'' 1 2, Bits ''ipvs_property'' 1 1, Bits ''nf_trace'' 1 1,
         Bits ''offload_fwd_mark'' 1 1, Bits ''offload_l3_fwd_mark'' 1 1,
         Bits ''redirected'' 1 1, Bits ''from_ingress'' 1 1, Bits ''nf_skip_egress'' 1 1,
         Bits ''decrypted'' 1 1, Bits ''slow_gro'' 1 1, Bits ''csum_not_inet'' 1 1,
         Member ''tc_index'' (CInt 2), Member ''alloc_cpu'' (CInt 2), Member '''' (CUnion [
           Member ''csum'' (CInt 4), Member '''' (CStruct [
             Member ''csum_start'' (CInt 2), Member ''csum_offset'' (CInt 2)])]),
         Member ''priority'' (CInt 4), Member ''skb_iif'' (CInt 4), Member ''hash'' (CInt 4),
         Member '''' (CUnion [
           Member ''vlan_all'' (CInt 4), Member '''' (CStruct [
             Member ''vlan_proto'' (CInt 2), Member ''vlan_tci'' (CInt 2)])]),
         Member '''' (CUnion [
           Member ''napi_id'' (CInt 4), Member ''sender_cpu'' (CInt 4)]),
         Member ''secmark'' (CInt 4), Member '''' (CUnion [
           Member ''mark'' (CInt 4), Member ''reserved_tailroom'' (CInt 4)]),
         Member '''' (CUnion [
           Member ''inner_protocol'' (CInt 2), Member ''inner_ipproto'' (CInt 1)]),
         Member ''inner_transport_header'' (CInt 2), Member ''inner_network_header'' (CInt 2),
         Member ''inner_mac_header'' (CInt 2), Member ''protocol'' (CInt 2),
         Member ''transport_header'' (CInt 2), Member ''network_header'' (CInt 2),
         Member ''mac_header'' (CInt 2)]), Member ''headers'' (CStruct [
         Member ''__pkt_type_offset'' (CArray (CInt 1) 0), Bits ''pkt_type'' 1 3,
         Bits ''ignore_df'' 1 1, Bits ''dst_pending_confirm'' 1 1, Bits ''ip_summed'' 1 2,
         Bits ''ooo_okay'' 1 1, Member ''__mono_tc_offset'' (CArray (CInt 1) 0),
         Bits ''tstamp_type'' 1 2, Bits ''tc_at_ingress'' 1 1, Bits ''tc_skip_classify'' 1 1,
         Bits ''remcsum_offload'' 1 1, Bits ''csum_complete_sw'' 1 1, Bits ''csum_level'' 1 2,
         Bits ''inner_protocol_type'' 1 1, Bits ''l4_hash'' 1 1, Bits ''sw_hash'' 1 1,
         Bits ''wifi_acked_valid'' 1 1, Bits ''wifi_acked'' 1 1, Bits ''no_fcs'' 1 1,
         Bits ''encapsulation'' 1 1, Bits ''encap_hdr_csum'' 1 1, Bits ''csum_valid'' 1 1,
         Bits ''ndisc_nodetype'' 1 2, Bits ''ipvs_property'' 1 1, Bits ''nf_trace'' 1 1,
         Bits ''offload_fwd_mark'' 1 1, Bits ''offload_l3_fwd_mark'' 1 1,
         Bits ''redirected'' 1 1, Bits ''from_ingress'' 1 1, Bits ''nf_skip_egress'' 1 1,
         Bits ''decrypted'' 1 1, Bits ''slow_gro'' 1 1, Bits ''csum_not_inet'' 1 1,
         Member ''tc_index'' (CInt 2), Member ''alloc_cpu'' (CInt 2), Member '''' (CUnion [
           Member ''csum'' (CInt 4), Member '''' (CStruct [
             Member ''csum_start'' (CInt 2), Member ''csum_offset'' (CInt 2)])]),
         Member ''priority'' (CInt 4), Member ''skb_iif'' (CInt 4), Member ''hash'' (CInt 4),
         Member '''' (CUnion [
           Member ''vlan_all'' (CInt 4), Member '''' (CStruct [
             Member ''vlan_proto'' (CInt 2), Member ''vlan_tci'' (CInt 2)])]),
         Member '''' (CUnion [
           Member ''napi_id'' (CInt 4), Member ''sender_cpu'' (CInt 4)]),
         Member ''secmark'' (CInt 4), Member '''' (CUnion [
           Member ''mark'' (CInt 4), Member ''reserved_tailroom'' (CInt 4)]),
         Member '''' (CUnion [
           Member ''inner_protocol'' (CInt 2), Member ''inner_ipproto'' (CInt 1)]),
         Member ''inner_transport_header'' (CInt 2), Member ''inner_network_header'' (CInt 2),
         Member ''inner_mac_header'' (CInt 2), Member ''protocol'' (CInt 2),
         Member ''transport_header'' (CInt 2), Member ''network_header'' (CInt 2),
         Member ''mac_header'' (CInt 2)])]), Member ''tail'' (CInt 4), Member ''end'' (CInt 4),
     Member ''head'' CPtr, Member ''data'' CPtr, Member ''truesize'' (CInt 4),
     Member ''users'' struct_refcount_struct, Member ''extensions'' CPtr]"

lemma layout_struct_sk_buff [simp]: "cwf struct_sk_buff" "calign struct_sk_buff = 8" "csize struct_sk_buff = 232"
  by (simp_all add: struct_sk_buff_def place_def align_up_def)

definition struct_bpf_nf_ctx :: ctype where
  "struct_bpf_nf_ctx = CStruct [
     Member ''state'' CPtr, Member ''skb'' CPtr]"

lemma layout_struct_bpf_nf_ctx [simp]: "cwf struct_bpf_nf_ctx" "calign struct_bpf_nf_ctx = 8" "csize struct_bpf_nf_ctx = 16"
  by (simp_all add: struct_bpf_nf_ctx_def place_def align_up_def)

section \<open>Offsets\<close>

lemma locate_iphdr [simp]:
  "locate ''ihl'' struct_iphdr = Some (0, Bits ''ihl'' 1 4)"
  "locate ''tot_len'' struct_iphdr = Some (16, Member ''tot_len'' (CInt 2))"
  "locate ''protocol'' struct_iphdr = Some (72, Member ''protocol'' (CInt 1))"
  "locate ''saddr'' struct_iphdr = Some (96, Member ''saddr'' (CInt 4))"
  "locate ''daddr'' struct_iphdr = Some (128, Member ''daddr'' (CInt 4))"
  by code_simp+

lemma locate_ctx:
  "locate ''skb'' struct_bpf_nf_ctx = Some (64, Member ''skb'' CPtr)"
  "locate ''protocol'' struct_sk_buff = Some (1440, Member ''protocol'' (CInt 2))"
  by code_simp+

text \<open>Every structure of this theory, by name.\<close>

definition hook_types :: "(string \<times> ctype) list" where
  "hook_types = [(''struct_iphdr'', struct_iphdr),
     (''struct_tcphdr'', struct_tcphdr),
     (''struct_udphdr'', struct_udphdr),
     (''struct_rb_node'', struct_rb_node),
     (''struct_list_head'', struct_list_head),
     (''struct_llist_node'', struct_llist_node),
     (''type_atomic_t'', type_atomic_t),
     (''struct_refcount_struct'', struct_refcount_struct),
     (''struct_sk_buff'', struct_sk_buff),
     (''struct_bpf_nf_ctx'', struct_bpf_nf_ctx)]"

lemma hook_types_wf: "list_all (\<lambda>(x, t). cwf t) hook_types"
  by (simp add: hook_types_def)

end
