(* ===== verification/Bpf_Program.thy ===== *)
theory Bpf_Program
  imports Kernel_ABI
begin

text \<open>
  The kernel program agent/kubezonnet.c: the flow map's types, the packet handler and the
  netfilter hook. The kernel's helpers are not part of the repository; they are the fields
  of a record \<open>kernel\<close> that the program takes as an argument. The byte order of the machine
  is an argument too, because the program is built for both.
\<close>

section \<open>Constants and types\<close>

definition NF_DROP :: int where "NF_DROP = 0"
definition NF_ACCEPT :: int where "NF_ACCEPT = 1"
definition ETH_P_IP :: u16 where "ETH_P_IP = 0x0800"
definition ETH_P_IPV6 :: u16 where "ETH_P_IPV6 = 0x86DD"
definition IP_MF :: u16 where "IP_MF = 0x2000"
definition IP_OFFSET :: u16 where "IP_OFFSET = 0x1FFF"
definition NEXTHDR_FRAGMENT :: u8 where "NEXTHDR_FRAGMENT = 44"

text \<open>The two members of vmlinux.h's protocol enumeration, and the update flag.\<close>

definition IPPROTO_TCP :: u8 where "IPPROTO_TCP = 6"
definition IPPROTO_UDP :: u8 where "IPPROTO_UDP = 17"
definition BPF_ANY :: u64 where "BPF_ANY = 0"

record ip_key =
  src_ip :: u32
  dest_ip :: u32
  src_port :: u16
  dest_port :: u16

record ip_value =
  packet_size :: u64

text \<open>The same two types as the compiler lays them out, and the map's parameters.\<close>

definition struct_ip_key :: ctype where
  "struct_ip_key = CStruct [
     Member ''src_ip'' (CInt 4), Member ''dest_ip'' (CInt 4),
     Member ''src_port'' (CInt 2), Member ''dest_port'' (CInt 2)]"

definition struct_ip_value :: ctype where
  "struct_ip_value = CStruct [Member ''packet_size'' (CInt 8)]"

datatype bpf_map_kind = BPF_MAP_TYPE_HASH

record map_def =
  map_type :: bpf_map_kind
  map_key :: ctype
  map_value :: ctype
  max_entries :: nat

definition ip_map :: map_def where
  "ip_map = \<lparr>map_type = BPF_MAP_TYPE_HASH, map_key = struct_ip_key,
     map_value = struct_ip_value, max_entries = 1024\<rparr>"

text \<open>The two constants that the agent rewrites before it loads the program.\<close>

record subnet =
  subnet_prefix :: u32
  subnet_mask :: u32

section \<open>The kernel\<close>

text \<open>
  What the program calls: the memory of a socket buffer, the packet view (an error code and
  the view; a slice is \<open>None\<close> for NULL), the byte swap, and the map. A map lookup returns a
  pointer \<open>'r\<close> to the value; the atomic addition goes through that pointer.
\<close>

record ('skb, 'ptr, 'map, 'r) kernel =
  skb_memory :: "'skb \<Rightarrow> u8 list"
  bpf_dynptr_from_skb :: "'skb \<Rightarrow> u64 \<Rightarrow> int \<times> 'ptr"
  bpf_dynptr_slice :: "'ptr \<Rightarrow> u32 \<Rightarrow> nat \<Rightarrow> u8 list option"
  bpf_ntohs :: "u16 \<Rightarrow> u16"
  bpf_map_lookup_elem :: "'map \<Rightarrow> ip_key \<Rightarrow> 'r option"
  bpf_map_update_elem :: "'map \<Rightarrow> ip_key \<Rightarrow> ip_value \<Rightarrow> u64 \<Rightarrow> int \<times> 'map"
  sync_fetch_and_add :: "'r \<Rightarrow> u64 \<Rightarrow> 'map \<Rightarrow> 'map"

section \<open>The program\<close>

text \<open>The ports of a TCP or UDP packet; both stay 0 when the slice is NULL.\<close>

definition packet_ports ::
    "byte_order \<Rightarrow> ('skb, 'ptr, 'map, 'r) kernel \<Rightarrow> 'ptr \<Rightarrow> u8 list \<Rightarrow> u16 \<times> u16" where
  "packet_ports e K ptr ip =
     (let protocol = hd (member_bytes struct_iphdr ''protocol'' ip);
          ihl = member_bits8 e struct_iphdr ''ihl'' ip
      in if protocol = IPPROTO_TCP \<or> protocol = IPPROTO_UDP
         then (case bpf_dynptr_slice K ptr (word_of_int (uint ihl * 4)) 4 of
                 Some ports \<Rightarrow>
                   (bpf_ntohs K (load16 e ports), bpf_ntohs K (load16 e (drop 2 ports)))
               | None \<Rightarrow> (0, 0))
         else (0, 0))"

text \<open>Counting a packet: look the flow up, then add to it or insert it.\<close>

definition count_packet ::
    "('skb, 'ptr, 'map, 'r) kernel \<Rightarrow> ip_key \<Rightarrow> u64 \<Rightarrow> 'map \<Rightarrow> 'map" where
  "count_packet K k pkt_size m =
     (case bpf_map_lookup_elem K m k of
        Some v \<Rightarrow> sync_fetch_and_add K v pkt_size m
      | None \<Rightarrow> snd (bpf_map_update_elem K m k \<lparr>packet_size = pkt_size\<rparr> BPF_ANY))"

definition handle_v4 ::
    "byte_order \<Rightarrow> ('skb, 'ptr, 'map, 'r) kernel \<Rightarrow> subnet \<Rightarrow> 'skb \<Rightarrow> 'map \<Rightarrow> int \<times> 'map" where
  "handle_v4 e K cfg skb m =
     (let (err, ptr) = bpf_dynptr_from_skb K skb 0
      in if err \<noteq> 0 then (NF_ACCEPT, m)
         else (case bpf_dynptr_slice K ptr 0 20 of
             None \<Rightarrow> (NF_ACCEPT, m)
           | Some ip \<Rightarrow>
               (let saddr = load32 e (member_bytes struct_iphdr ''saddr'' ip);
                    daddr = load32 e (member_bytes struct_iphdr ''daddr'' ip)
                in if saddr AND subnet_mask cfg = subnet_prefix cfg \<and>
                      daddr AND subnet_mask cfg = subnet_prefix cfg
                   then
                     (let (sport, dport) = packet_ports e K ptr ip;
                          k = \<lparr>src_ip = saddr, dest_ip = daddr, src_port = sport, dest_port = dport\<rparr>;
                          pkt_size = ucast (bpf_ntohs K (load16 e (member_bytes struct_iphdr ''tot_len'' ip)))
                      in (NF_ACCEPT, count_packet K k pkt_size m))
                   else (NF_ACCEPT, m))))"

text \<open>The hook gets the context; what it uses of it is the socket buffer.\<close>

definition nf_postrouting_hook ::
    "byte_order \<Rightarrow> ('skb, 'ptr, 'map, 'r) kernel \<Rightarrow> subnet \<Rightarrow> 'skb \<Rightarrow> 'map \<Rightarrow> int \<times> 'map" where
  "nf_postrouting_hook e K cfg skb m =
     (let protocol = bpf_ntohs K (load16 e (member_bytes struct_sk_buff ''protocol'' (skb_memory K skb)))
      in if protocol = ETH_P_IP then handle_v4 e K cfg skb m
         else if protocol = ETH_P_IPV6 then (NF_ACCEPT, m)
         else (NF_ACCEPT, m))"

definition license :: string where
  "license = ''Dual MIT/GPL''"

end
