(* ===== verification/Bpf_Kernel.thy ===== *)
theory Bpf_Kernel
  imports Bpf_Program
begin

text \<open>
  What the packet hook relies on, as a locale over a \<open>kernel\<close>, and a concrete kernel that
  satisfies it: socket buffers that carry their bytes, and a hash map with a fixed number of
  preallocated slots. The abstract view of a map is \<open>contents\<close>, a finite partial function.
\<close>

section \<open>The contract of the helpers\<close>

text \<open>
  \<open>pkt\<close> is the packet of a socket buffer from its IP header on. A slice is either a view of
  the bytes asked for or NULL when the packet ends before. On a hash map, a lookup misses
  exactly the absent keys; an update with \<open>BPF_ANY\<close> replaces or inserts, and fails without
  effect when the key is absent and the map is full; the atomic addition changes the value
  the pointer refers to, and moves no entry. A pointer may be stale: the addition then changes at most one live
  value, by the amount added.
\<close>

locale bpf_kernel =
  fixes e :: byte_order
    and K :: "('skb, 'ptr, 'map, 'r) kernel"
    and pkt :: "'skb \<Rightarrow> u8 list"
    and contents :: "'map \<Rightarrow> ip_key \<rightharpoonup> u64"
    and valid :: "'map \<Rightarrow> bool"
  assumes skb_sized: "csize struct_sk_buff \<le> length (skb_memory K skb)"
    and ntohs: "length bs = 2 \<Longrightarrow> bpf_ntohs K (load16 e bs) = rd16 bs"
    and slice: "bpf_dynptr_from_skb K skb 0 = (0, ptr) \<Longrightarrow>
      bpf_dynptr_slice K ptr off n =
        (if unat off + n \<le> length (pkt skb) then Some (take n (drop (unat off) (pkt skb))) else None)"
    and bounded: "valid m \<Longrightarrow> finite (dom (contents m)) \<and> card (dom (contents m)) \<le> max_entries ip_map"
    and lookup_miss: "valid m \<Longrightarrow> bpf_map_lookup_elem K m k = None \<longleftrightarrow> contents m k = None"
    and add_valid: "valid m \<Longrightarrow> valid (sync_fetch_and_add K r d m)"
    and add_lookup: "valid m \<Longrightarrow>
      bpf_map_lookup_elem K (sync_fetch_and_add K r d m) k = bpf_map_lookup_elem K m k"
    and add_live: "valid m \<Longrightarrow> bpf_map_lookup_elem K m k = Some r \<Longrightarrow> contents m k = Some v \<Longrightarrow>
      contents (sync_fetch_and_add K r d m) = (contents m)(k \<mapsto> v + d)"
    and add_stale: "valid m \<Longrightarrow>
      contents (sync_fetch_and_add K r d m) = contents m \<or>
      (\<exists>k v. contents m k = Some v \<and> contents (sync_fetch_and_add K r d m) = (contents m)(k \<mapsto> v + d))"
    and update_valid: "valid m \<Longrightarrow> valid (snd (bpf_map_update_elem K m k x BPF_ANY))"
    and update_fits: "valid m \<Longrightarrow>
      k \<in> dom (contents m) \<or> card (dom (contents m)) < max_entries ip_map \<Longrightarrow>
      contents (snd (bpf_map_update_elem K m k x BPF_ANY)) = (contents m)(k \<mapsto> packet_size x)"
    and update_full: "valid m \<Longrightarrow> k \<notin> dom (contents m) \<Longrightarrow>
      card (dom (contents m)) = max_entries ip_map \<Longrightarrow>
      contents (snd (bpf_map_update_elem K m k x BPF_ANY)) = contents m"

section \<open>A slotted hash map\<close>

type_synonym slots = "(ip_key \<times> u64) option list"

fun find_slot :: "ip_key \<Rightarrow> slots \<Rightarrow> nat option" where
  "find_slot k [] = None"
| "find_slot k (s # ss) =
     (if map_option fst s = Some k then Some 0 else map_option Suc (find_slot k ss))"

fun free_slot :: "slots \<Rightarrow> nat option" where
  "free_slot [] = None"
| "free_slot (s # ss) = (if s = None then Some 0 else map_option Suc (free_slot ss))"

definition slot_update :: "slots \<Rightarrow> ip_key \<Rightarrow> ip_value \<Rightarrow> u64 \<Rightarrow> int \<times> slots" where
  "slot_update ss k x flags =
     (case find_slot k ss of
        Some i \<Rightarrow> (0, ss[i := Some (k, packet_size x)])
      | None \<Rightarrow>
          (case free_slot ss of
             Some i \<Rightarrow> (0, ss[i := Some (k, packet_size x)])
           | None \<Rightarrow> (-7, ss)))"

definition slot_add :: "nat \<Rightarrow> u64 \<Rightarrow> slots \<Rightarrow> slots" where
  "slot_add i d ss =
     (if i < length ss then ss[i := map_option (\<lambda>(k, v). (k, v + d)) (ss ! i)] else ss)"

definition slot_keys :: "slots \<Rightarrow> ip_key list" where
  "slot_keys ss = map fst (List.map_filter id ss)"

definition slot_contents :: "slots \<Rightarrow> ip_key \<rightharpoonup> u64" where
  "slot_contents ss = map_of (List.map_filter id ss)"

definition slots_valid :: "slots \<Rightarrow> bool" where
  "slots_valid ss \<longleftrightarrow> length ss = max_entries ip_map \<and> distinct (slot_keys ss)"

definition empty_slots :: slots where
  "empty_slots = replicate (max_entries ip_map) None"

lemma map_filter_id [simp]:
  "List.map_filter id [] = []"
  "List.map_filter id (None # xs) = List.map_filter id xs"
  "List.map_filter id (Some x # xs) = x # List.map_filter id xs"
  "List.map_filter id (xs @ ys) = List.map_filter id xs @ List.map_filter id ys"
  by (simp_all add: List.map_filter_def)

lemma find_slot_SomeD:
  "find_slot k ss = Some i \<Longrightarrow> \<exists>pre v post. ss = pre @ Some (k, v) # post \<and> length pre = i"
proof (induction ss arbitrary: i)
  case (Cons s ss)
  show ?case
  proof (cases "map_option fst s = Some k")
    case True
    then obtain v where "s = Some (k, v)" by auto
    with Cons.prems True have "s # ss = [] @ Some (k, v) # ss \<and> length ([] :: slots) = i" by simp
    then show ?thesis by blast
  next
    case False
    with Cons.prems obtain j where j: "find_slot k ss = Some j" "i = Suc j" by auto
    from Cons.IH [OF j(1)] obtain pre v post where "ss = pre @ Some (k, v) # post" "length pre = j"
      by blast
    with j have "s # ss = (s # pre) @ Some (k, v) # post \<and> length (s # pre) = i" by simp
    then show ?thesis by blast
  qed
qed simp

lemma free_slot_SomeD: "free_slot ss = Some i \<Longrightarrow> \<exists>pre post. ss = pre @ None # post \<and> length pre = i"
proof (induction ss arbitrary: i)
  case (Cons s ss)
  show ?case
  proof (cases "s = None")
    case True
    with Cons.prems have "s # ss = [] @ None # ss \<and> length ([] :: slots) = i" by simp
    then show ?thesis by blast
  next
    case False
    with Cons.prems obtain j where j: "free_slot ss = Some j" "i = Suc j" by auto
    from Cons.IH [OF j(1)] obtain pre post where "ss = pre @ None # post" "length pre = j" by blast
    with j have "s # ss = (s # pre) @ None # post \<and> length (s # pre) = i" by simp
    then show ?thesis by blast
  qed
qed simp

lemma find_slot_None: "find_slot k ss = None \<longleftrightarrow> k \<notin> set (slot_keys ss)"
proof (induction ss)
  case (Cons s ss)
  then show ?case by (cases s) (auto simp: slot_keys_def)
qed (simp add: slot_keys_def)

lemma free_slot_None: "free_slot ss = None \<longleftrightarrow> length (slot_keys ss) = length ss"
proof (induction ss)
  case (Cons s ss)
  have "length (slot_keys ss) \<le> length ss" by (simp add: slot_keys_def List.map_filter_def)
  with Cons show ?case by (cases s) (auto simp: slot_keys_def)
qed (simp add: slot_keys_def)

lemma dom_slot_contents: "dom (slot_contents ss) = set (slot_keys ss)"
  by (simp add: slot_contents_def slot_keys_def dom_map_of_conv_image_fst)

lemma card_slots: "distinct (slot_keys ss) \<Longrightarrow> card (dom (slot_contents ss)) = length (slot_keys ss)"
  by (simp add: dom_slot_contents distinct_card)

lemma length_slot_keys: "length (slot_keys ss) \<le> length ss"
  by (simp add: slot_keys_def List.map_filter_def)


text \<open>Replacing one slot, seen through \<open>contents\<close>.\<close>

lemma slot_contents_append:
  "slot_contents (pre @ s # post)
    = slot_contents post ++ (case s of None \<Rightarrow> Map.empty | Some (k, v) \<Rightarrow> [k \<mapsto> v]) ++ slot_contents pre"
  by (cases s) (auto simp: slot_contents_def map_add_def fun_eq_iff split: option.splits)

lemma slot_keys_append:
  "slot_keys (pre @ s # post) = slot_keys pre @ (case s of None \<Rightarrow> [] | Some (k, v) \<Rightarrow> [k]) @ slot_keys post"
  by (cases s) (auto simp: slot_keys_def)

lemma replace_slot:
  assumes "distinct (slot_keys (pre @ s # post))"
    and "s = None \<and> k \<notin> set (slot_keys (pre @ s # post)) \<or> (\<exists>v. s = Some (k, v))"
  shows "slot_contents (pre @ Some (k, x) # post) = (slot_contents (pre @ s # post))(k \<mapsto> x)"
    and "distinct (slot_keys (pre @ Some (k, x) # post))"
proof -
  have "k \<notin> set (slot_keys pre)" using assms by (auto simp: slot_keys_append)
  then have "slot_contents pre k = None" using dom_slot_contents by blast
  then show "slot_contents (pre @ Some (k, x) # post) = (slot_contents (pre @ s # post))(k \<mapsto> x)"
    using assms(2) by (auto simp: slot_contents_append map_add_def fun_eq_iff split: option.splits)
  show "distinct (slot_keys (pre @ Some (k, x) # post))"
    using assms by (auto simp: slot_keys_append)
qed

lemma slot_update_fits:
  assumes "slots_valid ss" "k \<in> dom (slot_contents ss) \<or> card (dom (slot_contents ss)) < max_entries ip_map"
  shows "slot_contents (snd (slot_update ss k x f)) = (slot_contents ss)(k \<mapsto> packet_size x)
    \<and> slots_valid (snd (slot_update ss k x f))"
proof (cases "find_slot k ss")
  case (Some i)
  then obtain pre v post where ss: "ss = pre @ Some (k, v) # post" "length pre = i"
    using find_slot_SomeD by blast
  have up: "slot_update ss k x f = (0, pre @ Some (k, packet_size x) # post)"
    using Some ss(2) unfolding slot_update_def by (simp add: ss(1))
  have "distinct (slot_keys (pre @ Some (k, v) # post))" "length ss = max_entries ip_map"
    using assms(1) by (simp_all add: slots_valid_def ss(1))
  then show ?thesis using replace_slot [of pre "Some (k, v)" post k "packet_size x"]
    unfolding up slots_valid_def by (simp add: ss(1))
next
  case None
  then have k: "k \<notin> set (slot_keys ss)" by (simp add: find_slot_None)
  with assms have "length (slot_keys ss) \<noteq> length ss"
    by (auto simp: slots_valid_def distinct_card dom_slot_contents)
  then obtain i where i: "free_slot ss = Some i" using free_slot_None by blast
  then obtain pre post where ss: "ss = pre @ None # post" "length pre = i"
    using free_slot_SomeD by blast
  have up: "slot_update ss k x f = (0, pre @ Some (k, packet_size x) # post)"
    using None i ss(2) unfolding slot_update_def by (simp add: ss(1))
  have "distinct (slot_keys (pre @ None # post))" "length ss = max_entries ip_map"
    using assms(1) by (simp_all add: slots_valid_def ss(1))
  then show ?thesis using replace_slot [of pre None post k "packet_size x"] k
    unfolding up slots_valid_def by (simp add: ss(1))
qed

lemma slot_update_full:
  assumes "slots_valid ss" "k \<notin> dom (slot_contents ss)"
    "card (dom (slot_contents ss)) = max_entries ip_map"
  shows "slot_update ss k x f = (-7, ss)"
proof -
  have "find_slot k ss = None" using assms(2) by (simp add: find_slot_None dom_slot_contents)
  moreover have "free_slot ss = None"
    using assms(1,3) by (simp add: free_slot_None card_slots slots_valid_def)
  ultimately show ?thesis by (simp add: slot_update_def)
qed

lemma slot_update_valid: "slots_valid ss \<Longrightarrow> slots_valid (snd (slot_update ss k x f))"
proof (cases "k \<in> dom (slot_contents ss) \<or> card (dom (slot_contents ss)) < max_entries ip_map")
  case True
  assume "slots_valid ss"
  with True show ?thesis by (simp add: slot_update_fits)
next
  case False
  assume v: "slots_valid ss"
  then have "card (dom (slot_contents ss)) \<le> max_entries ip_map"
    using length_slot_keys [of ss] by (simp add: slots_valid_def card_slots)
  with False have "card (dom (slot_contents ss)) = max_entries ip_map" by simp
  with v False show ?thesis by (simp add: slot_update_full)
qed

lemma slot_add_at:
  assumes "slots_valid (pre @ s # post)" "length pre = i"
  shows "slots_valid (slot_add i d (pre @ s # post))"
    and "slot_contents (slot_add i d (pre @ s # post)) =
      (case s of None \<Rightarrow> slot_contents (pre @ s # post)
       | Some (k, v) \<Rightarrow> (slot_contents (pre @ s # post))(k \<mapsto> v + d))"
proof -
  have "slots_valid (slot_add i d (pre @ s # post)) \<and>
    slot_contents (slot_add i d (pre @ s # post)) =
      (case s of None \<Rightarrow> slot_contents (pre @ s # post)
       | Some (k, v) \<Rightarrow> (slot_contents (pre @ s # post))(k \<mapsto> v + d))"
  proof (cases s)
    case None
    with assms show ?thesis by (auto simp: slot_add_def)
  next
    case (Some kv)
    then obtain k v where s: "s = Some (k, v)" by (cases kv) auto
    with assms replace_slot [of pre s post k "v + d"] show ?thesis
      by (auto simp: slot_add_def slots_valid_def nth_append)
  qed
  then show "slots_valid (slot_add i d (pre @ s # post))"
    and "slot_contents (slot_add i d (pre @ s # post)) =
      (case s of None \<Rightarrow> slot_contents (pre @ s # post)
       | Some (k, v) \<Rightarrow> (slot_contents (pre @ s # post))(k \<mapsto> v + d))" by auto
qed

lemma slot_contents_nth: "slots_valid (pre @ Some (k, v) # post) \<Longrightarrow> slot_contents (pre @ Some (k, v) # post) k = Some v"
  using replace_slot(1) [of pre "Some (k, v)" post k v] by (metis fun_upd_same option.inject slots_valid_def)

lemma slot_add_result:
  assumes "slots_valid ss"
  shows "slots_valid (slot_add i d ss)" (is ?valid)
    and "slot_contents (slot_add i d ss) = slot_contents ss \<or>
      (\<exists>k v. slot_contents ss k = Some v \<and> slot_contents (slot_add i d ss) = (slot_contents ss)(k \<mapsto> v + d))"
      (is ?change)
proof -
  have "?valid \<and> ?change"
  proof (cases "i < length ss")
    case False
    with assms show ?thesis by (simp add: slot_add_def)
  next
    case True
    then have ss: "ss = take i ss @ ss ! i # drop (Suc i) ss" by (rule id_take_nth_drop)
    obtain pre s post where s: "ss = pre @ s # post" "length pre = i" using ss True by (metis length_take min.absorb4)
    note at = slot_add_at [of pre s post i d]
    show ?thesis
    proof (cases s)
      case None
      with s assms at show ?thesis by simp
    next
      case (Some kv)
      obtain k v where kv: "kv = (k, v)" by (cases kv)
      with Some s assms have "slot_contents ss k = Some v" by (simp add: slot_contents_nth)
      with Some kv s assms at show ?thesis by auto
    qed
  qed
  then show ?valid ?change by auto
qed

lemma find_slot_update:
  "map_option fst s' = map_option fst (ss ! i) \<Longrightarrow> find_slot k (ss[i := s']) = find_slot k ss"
proof (induction ss arbitrary: i)
  case (Cons s ss)
  then show ?case by (cases i) simp_all
qed simp

lemma find_slot_add: "find_slot k (slot_add i d ss) = find_slot k ss"
  by (simp add: slot_add_def find_slot_update option.map_comp comp_def split_def)

lemma slot_add_live:
  assumes "slots_valid ss" "find_slot k ss = Some i" "slot_contents ss k = Some v"
  shows "slot_contents (slot_add i d ss) = (slot_contents ss)(k \<mapsto> v + d)"
proof -
  obtain pre w post where ss: "ss = pre @ Some (k, w) # post" "length pre = i"
    using find_slot_SomeD [OF assms(2)] by blast
  with assms have "w = v" by (simp add: slot_contents_nth)
  with ss assms(1) slot_add_at(2) [of pre "Some (k, w)" post i d] show ?thesis by simp
qed

section \<open>A concrete kernel\<close>

record sim_skb =
  skb_protocol :: u16
  skb_packet :: "u8 list"

text \<open>The socket buffer's memory: only the protocol field is not zero.\<close>

definition sim_memory :: "sim_skb \<Rightarrow> u8 list" where
  "sim_memory skb = replicate 180 0 @ be16 (skb_protocol skb) @ replicate 50 0"

definition sim_slice :: "u8 list \<Rightarrow> u32 \<Rightarrow> nat \<Rightarrow> u8 list option" where
  "sim_slice p off n = (if unat off + n \<le> length p then Some (take n (drop (unat off) p)) else None)"

definition sim_ntohs :: "byte_order \<Rightarrow> u16 \<Rightarrow> u16" where
  "sim_ntohs e x = (case e of LE \<Rightarrow> load16 LE (be16 x) | BE \<Rightarrow> x)"

definition sim_kernel :: "byte_order \<Rightarrow> (sim_skb, u8 list, slots, nat) kernel" where
  "sim_kernel e = \<lparr>
     skb_memory = sim_memory,
     bpf_dynptr_from_skb = (\<lambda>skb flags. (if flags = 0 then 0 else -22, skb_packet skb)),
     bpf_dynptr_slice = sim_slice,
     bpf_ntohs = sim_ntohs e,
     bpf_map_lookup_elem = (\<lambda>ss k. find_slot k ss),
     bpf_map_update_elem = slot_update,
     sync_fetch_and_add = slot_add\<rparr>"

lemma sim_ntohs_load: "length bs = 2 \<Longrightarrow> sim_ntohs e (load16 e bs) = rd16 bs"
proof (cases e)
  case LE
  assume len: "length bs = 2"
  have "be16 (rd16 (rev bs)) = rev bs" using be16.enc_dec [of "rev bs"] len by simp
  with LE len show ?thesis by (simp add: sim_ntohs_def load16_def)
next
  case BE
  then show ?thesis by (simp add: sim_ntohs_def load16_def)
qed

interpretation sim: bpf_kernel e "sim_kernel e" skb_packet slot_contents slots_valid
proof
  fix skb :: sim_skb
  show "csize struct_sk_buff \<le> length (skb_memory (sim_kernel e) skb)"
    by (simp add: layout_struct_sk_buff sim_kernel_def sim_memory_def)
next
  fix bs :: "u8 list" assume "length bs = 2"
  then show "bpf_ntohs (sim_kernel e) (load16 e bs) = rd16 bs"
    by (simp add: sim_kernel_def sim_ntohs_load)
next
  fix m assume m: "slots_valid m"
  then show "finite (dom (slot_contents m)) \<and> card (dom (slot_contents m)) \<le> max_entries ip_map"
    using length_slot_keys [of m] card_slots [of m] dom_slot_contents [of m]
    by (simp add: slots_valid_def)
  fix k x
  show "slots_valid (snd (bpf_map_update_elem (sim_kernel e) m k x BPF_ANY))"
    using m by (simp add: sim_kernel_def slot_update_valid)
  show "(bpf_map_lookup_elem (sim_kernel e) m k = None) = (slot_contents m k = None)"
    using dom_slot_contents [of m] by (auto simp: sim_kernel_def find_slot_None domIff)
  fix r d
  show "slots_valid (sync_fetch_and_add (sim_kernel e) r d m)"
    using m by (simp add: sim_kernel_def slot_add_result)
qed (auto simp: sim_kernel_def sim_slice_def slot_add_live find_slot_add slot_add_result slot_update_fits
  slot_update_full split: if_splits)

lemma empty_slots_valid [simp]: "slots_valid empty_slots" "slot_contents empty_slots = Map.empty"
  by (simp_all add: empty_slots_def slots_valid_def slot_keys_def slot_contents_def List.map_filter_def)

end
