(* ===== verification/Bpf_Facts.thy ===== *)
theory Bpf_Facts
  imports Bpf_Kernel Ip_Convert Ledger
begin

text \<open>
  What the packet hook does, on any kernel that keeps the contract: which packets it counts,
  under which flow and for how many bytes, and that it never drops one. The specification
  reads the packet's bytes in network order, as the RFCs number them.
\<close>

section \<open>Specification\<close>

text \<open>The fields of an IPv4 header, and the ports that follow the header.\<close>

definition ip_src :: "u8 list \<Rightarrow> u32" where "ip_src p = rd32 (drop 12 p)"
definition ip_dst :: "u8 list \<Rightarrow> u32" where "ip_dst p = rd32 (drop 16 p)"
definition ip_total :: "u8 list \<Rightarrow> u16" where "ip_total p = rd16 (drop 2 p)"
definition ip_proto :: "u8 list \<Rightarrow> u8" where "ip_proto p = p ! 9"

text \<open>A 32-bit number in network order as the machine loads it.\<close>

definition native32 :: "byte_order \<Rightarrow> u32 \<Rightarrow> u32" where
  "native32 e x = load32 e (be32 x)"

definition header_length :: "byte_order \<Rightarrow> u8 list \<Rightarrow> nat" where
  "header_length e p = 4 * unat (load_bits8 e 0 4 (hd p))"

definition ports_of :: "byte_order \<Rightarrow> u8 list \<Rightarrow> u16 \<times> u16" where
  "ports_of e p =
     (let h = header_length e p
      in if (ip_proto p = 6 \<or> ip_proto p = 17) \<and> h + 4 \<le> length p
         then (rd16 (drop h p), rd16 (drop (h + 2) p)) else (0, 0))"

definition flow_of :: "byte_order \<Rightarrow> u8 list \<Rightarrow> ip_key" where
  "flow_of e p = \<lparr>src_ip = native32 e (ip_src p), dest_ip = native32 e (ip_dst p),
     src_port = fst (ports_of e p), dest_port = snd (ports_of e p)\<rparr>"

definition in_subnet :: "subnet \<Rightarrow> u32 \<Rightarrow> bool" where
  "in_subnet cfg ip \<longleftrightarrow> ip AND subnet_mask cfg = subnet_prefix cfg"

text \<open>What one socket buffer amounts to: nothing, or a flow and a number of bytes.\<close>

definition observed ::
    "byte_order \<Rightarrow> ('skb, 'ptr, 'map, 'r) kernel \<Rightarrow> ('skb \<Rightarrow> u8 list) \<Rightarrow> subnet \<Rightarrow> 'skb
      \<Rightarrow> (ip_key \<times> u64) option" where
  "observed e K pkt cfg skb =
     (let p = pkt skb
      in if rd16 (take 2 (drop 180 (skb_memory K skb))) = 0x0800 \<and>
            fst (bpf_dynptr_from_skb K skb 0) = 0 \<and> 20 \<le> length p \<and>
            in_subnet cfg (native32 e (ip_src p)) \<and> in_subnet cfg (native32 e (ip_dst p))
         then Some (flow_of e p, ucast (ip_total p)) else None)"

text \<open>Posting to a bounded map: a new key is lost when the map is full.\<close>

definition post_bounded :: "nat \<Rightarrow> ip_key \<Rightarrow> u64 \<Rightarrow> (ip_key \<rightharpoonup> u64) \<Rightarrow> (ip_key \<rightharpoonup> u64)" where
  "post_bounded cap k d m =
     (if k \<notin> dom m \<and> cap \<le> card (dom m) then m else bump k d m)"

section \<open>Loads of the header's fields\<close>

lemma ip_fields:
  assumes "20 \<le> length p"
  shows "load32 e (member_bytes struct_iphdr ''saddr'' (take 20 p)) = native32 e (ip_src p)"
    and "load32 e (member_bytes struct_iphdr ''daddr'' (take 20 p)) = native32 e (ip_dst p)"
    and "hd (member_bytes struct_iphdr ''protocol'' (take 20 p)) = ip_proto p"
    and "member_bytes struct_iphdr ''tot_len'' (take 20 p) = take 2 (drop 2 p)"
    and "rd16 (take 2 (drop 2 p)) = ip_total p"
    and "member_bits8 e struct_iphdr ''ihl'' (take 20 p) = load_bits8 e 0 4 (hd p)"
proof -
  have take4: "load32 e (take 4 bs) = native32 e (rd32 bs)" if "4 \<le> length bs" for bs
    using that by (simp add: native32_def be32.enc_dec)
  show "load32 e (member_bytes struct_iphdr ''saddr'' (take 20 p)) = native32 e (ip_src p)"
    and "load32 e (member_bytes struct_iphdr ''daddr'' (take 20 p)) = native32 e (ip_dst p)"
    using assms by (simp_all add: member_bytes_def ip_src_def ip_dst_def take4 drop_take)
  show "hd (member_bytes struct_iphdr ''protocol'' (take 20 p)) = ip_proto p"
    using assms by (simp add: member_bytes_def ip_proto_def drop_take hd_drop_conv_nth)
  show "member_bytes struct_iphdr ''tot_len'' (take 20 p) = take 2 (drop 2 p)"
    using assms by (simp add: member_bytes_def drop_take)
  show "rd16 (take 2 (drop 2 p)) = ip_total p"
    using assms by (simp add: rd16_def ip_total_def)
  show "member_bits8 e struct_iphdr ''ihl'' (take 20 p) = load_bits8 e 0 4 (hd p)"
    using assms by (cases p) (simp_all add: member_bits8_def)
qed

lemma header_length_small: "header_length e p \<le> 60"
proof -
  have "unat (load_bits8 e 0 4 b) < 2 ^ 4" for b
    by (simp add: load_bits8_def unsigned_take_bit_eq take_bit_nat_less_exp del: power_numeral)
  from this [of "hd p"] show ?thesis by (simp add: header_length_def)
qed

context bpf_kernel
begin

lemma packet_ports_eq:
  assumes "bpf_dynptr_from_skb K skb 0 = (0, ptr)" "20 \<le> length (pkt skb)"
  shows "packet_ports e K ptr (take 20 (pkt skb)) = ports_of e (pkt skb)"
proof -
  let ?p = "pkt skb"
  let ?b = "load_bits8 e 0 4 (hd ?p)"
  have "header_length e ?p < 2 ^ 32" using header_length_small [of e ?p] by simp
  moreover have "uint ?b * 4 = int (header_length e ?p)" by (simp add: header_length_def)
  ultimately have off: "unat (word_of_int (uint ?b * 4) :: u32) = header_length e ?p"
    by (simp only: of_int_of_nat_eq) (rule unat_of_nat_small, simp)
  have ports: "bpf_ntohs K (load16 e (take 4 (drop h ?p))) = rd16 (drop h ?p)"
    "bpf_ntohs K (load16 e (drop 2 (take 4 (drop h ?p)))) = rd16 (drop (h + 2) ?p)"
    if "h + 4 \<le> length ?p" for h
  proof -
    have cut: "load16 e bs = load16 e (take 2 bs)" if "2 \<le> length bs" for bs :: "u8 list"
      using that by (cases e) (simp_all add: load16_def rd16_def)
    have rd: "rd16 (take 2 bs) = rd16 bs" if "2 \<le> length bs" for bs :: "u8 list"
      using that by (simp add: rd16_def)
    show "bpf_ntohs K (load16 e (take 4 (drop h ?p))) = rd16 (drop h ?p)"
      using that by (subst cut) (simp_all add: ntohs rd)
    show "bpf_ntohs K (load16 e (drop 2 (take 4 (drop h ?p)))) = rd16 (drop (h + 2) ?p)"
      using that by (subst cut) (simp_all add: ntohs rd drop_take add.commute)
  qed
  show ?thesis
    using assms by (simp add: packet_ports_def ports_of_def Let_def ip_fields IPPROTO_TCP_def
        IPPROTO_UDP_def slice [OF assms(1)] off [simplified] ports)
qed

lemma count_packet_result:
  assumes "valid m"
  shows "contents (count_packet K k d m) = post_bounded (max_entries ip_map) k d (contents m)"
    and "valid (count_packet K k d m)"
proof -
  have "contents (count_packet K k d m) = post_bounded (max_entries ip_map) k d (contents m)
    \<and> valid (count_packet K k d m)"
  proof (cases "bpf_map_lookup_elem K m k")
    case (Some r)
    then obtain v where v: "contents m k = Some v" using lookup_miss [OF assms, of k] by auto
    then have "k \<in> dom (contents m)" by auto
    with Some v assms show ?thesis
      by (simp add: count_packet_def post_bounded_def add_live add_valid bump_def lookup0_def)
  next
    case None
    then have miss: "contents m k = None" using lookup_miss [OF assms, of k] by simp
    then have k: "k \<notin> dom (contents m)" by auto
    show ?thesis
    proof (cases "card (dom (contents m)) < max_entries ip_map")
      case True
      with None miss k assms show ?thesis
        by (simp add: count_packet_def post_bounded_def update_fits update_valid bump_def lookup0_def)
    next
      case False
      with bounded [OF assms] have "card (dom (contents m)) = max_entries ip_map" by simp
      with None k assms show ?thesis
        by (simp add: count_packet_def post_bounded_def update_full update_valid)
    qed
  qed
  then show "contents (count_packet K k d m) = post_bounded (max_entries ip_map) k d (contents m)"
    and "valid (count_packet K k d m)" by auto
qed

text \<open>The hook counts what \<open>observed\<close> says, and does nothing else.\<close>

lemma protocol_eq:
  "bpf_ntohs K (load16 e (member_bytes struct_sk_buff ''protocol'' (skb_memory K skb)))
     = rd16 (take 2 (drop 180 (skb_memory K skb)))"
  using skb_sized [of skb] by (simp add: member_bytes_def locate_ctx ntohs layout_struct_sk_buff)

lemma handle_v4_eq:
  "handle_v4 e K cfg skb m = (NF_ACCEPT,
     if fst (bpf_dynptr_from_skb K skb 0) = 0 \<and> 20 \<le> length (pkt skb) \<and>
        in_subnet cfg (native32 e (ip_src (pkt skb))) \<and> in_subnet cfg (native32 e (ip_dst (pkt skb)))
     then count_packet K (flow_of e (pkt skb)) (ucast (ip_total (pkt skb))) m else m)"
proof -
  obtain err ptr where d: "bpf_dynptr_from_skb K skb 0 = (err, ptr)" by (cases "bpf_dynptr_from_skb K skb 0")
  show ?thesis
  proof (cases "err = 0 \<and> 20 \<le> length (pkt skb)")
    case False
    with d show ?thesis using slice [of skb ptr 0 20] by (auto simp: handle_v4_def)
  next
    case True
    then have d0: "bpf_dynptr_from_skb K skb 0 = (0, ptr)" and len: "20 \<le> length (pkt skb)"
      using d by auto
    have sl: "bpf_dynptr_slice K ptr 0 20 = Some (take 20 (pkt skb))"
      using slice [OF d0, of 0 20] len by simp
    have tot: "bpf_ntohs K (load16 e (take 2 (drop 2 (pkt skb)))) = ip_total (pkt skb)"
      using len ip_fields(5) by (simp add: ntohs)
    show ?thesis
      unfolding handle_v4_def d0 sl Let_def prod.case option.case ip_fields [OF len] tot
        packet_ports_eq [OF d0 len] in_subnet_def flow_of_def
      by (simp add: len split_beta)
  qed
qed

lemma hook_eq:
  "nf_postrouting_hook e K cfg skb m = (NF_ACCEPT,
    case observed e K pkt cfg skb of None \<Rightarrow> m | Some (k, d) \<Rightarrow> count_packet K k d m)"
  by (simp add: nf_postrouting_hook_def protocol_eq handle_v4_eq observed_def ETH_P_IP_def Let_def)

lemma hook_contents:
  assumes "valid m"
  shows "contents (snd (nf_postrouting_hook e K cfg skb m)) =
      (case observed e K pkt cfg skb of None \<Rightarrow> contents m
       | Some (k, d) \<Rightarrow> post_bounded (max_entries ip_map) k d (contents m))
    \<and> valid (snd (nf_postrouting_hook e K cfg skb m))"
  using assms by (auto simp: hook_eq count_packet_result split: option.split)

end

section \<open>Runs of packets\<close>

definition hook_run ::
    "byte_order \<Rightarrow> ('skb, 'ptr, 'map, 'r) kernel \<Rightarrow> subnet \<Rightarrow> 'skb list \<Rightarrow> 'map \<Rightarrow> 'map" where
  "hook_run e K cfg = run (\<lambda>skb m. snd (nf_postrouting_hook e K cfg skb m))"

text \<open>The flows and sizes a run of packets amounts to.\<close>

definition postings ::
    "byte_order \<Rightarrow> ('skb, 'ptr, 'map, 'r) kernel \<Rightarrow> ('skb \<Rightarrow> u8 list) \<Rightarrow> subnet \<Rightarrow> 'skb list
      \<Rightarrow> (ip_key \<times> u64) list" where
  "postings e K pkt cfg skbs = List.map_filter (observed e K pkt cfg) skbs"

lemma postings_Cons [simp]:
  "postings e K pkt cfg [] = []"
  "postings e K pkt cfg (skb # skbs) = (case observed e K pkt cfg skb of None \<Rightarrow> postings e K pkt cfg skbs
    | Some p \<Rightarrow> p # postings e K pkt cfg skbs)"
  by (simp_all add: postings_def List.map_filter_def split: option.split)

lemma post_bounded_fits:
  "finite (dom m) \<Longrightarrow> insert k (dom m) \<subseteq> A \<Longrightarrow> finite A \<Longrightarrow> card A \<le> cap \<Longrightarrow>
   post_bounded cap k d m = bump k d m"
proof -
  assume a: "insert k (dom m) \<subseteq> A" "finite A" "card A \<le> cap" "finite (dom m)"
  then have "card (insert k (dom m)) \<le> cap" using card_mono le_trans by blast
  with a(4) have "k \<notin> dom m \<Longrightarrow> card (dom m) < cap" by (simp add: card_insert_disjoint)
  then show ?thesis unfolding post_bounded_def by (metis leD)
qed

context bpf_kernel
begin

lemma hook_run_valid: "valid m \<Longrightarrow> valid (hook_run e K cfg skbs m)"
  unfolding hook_run_def by (induction skbs arbitrary: m) (simp_all add: hook_contents)

lemma hook_run_contents:
  assumes "valid m"
    and "card (dom (contents m) \<union> fst ` set (postings e K pkt cfg skbs)) \<le> max_entries ip_map"
  shows "contents (hook_run e K cfg skbs m)
    = fold (\<lambda>(k, d). bump k d) (postings e K pkt cfg skbs) (contents m)"
  using assms
proof (induction skbs arbitrary: m)
  case Nil
  then show ?case by (simp add: hook_run_def)
next
  case (Cons skb skbs)
  let ?m = "snd (nf_postrouting_hook e K cfg skb m)"
  have step: "hook_run e K cfg (skb # skbs) m = hook_run e K cfg skbs ?m"
    by (simp add: hook_run_def)
  have v: "valid ?m" using hook_contents [OF Cons.prems(1)] by blast
  show ?case
  proof (cases "observed e K pkt cfg skb")
    case None
    then have "contents ?m = contents m" using hook_contents [OF Cons.prems(1), of cfg skb] by simp
    with None v Cons show ?thesis by (simp add: step)
  next
    case (Some p)
    obtain k d where p: "p = (k, d)" by (cases p)
    let ?A = "dom (contents m) \<union> fst ` set (postings e K pkt cfg (skb # skbs))"
    have fin: "finite (dom (contents m))" using bounded [OF Cons.prems(1)] by blast
    have "post_bounded (max_entries ip_map) k d (contents m) = bump k d (contents m)"
      using Some p Cons.prems(2) fin by (intro post_bounded_fits [of _ _ ?A]) auto
    then have c: "contents ?m = bump k d (contents m)"
      using hook_contents [OF Cons.prems(1), of cfg skb] Some p by simp
    with Some p Cons.prems have "card (dom (contents ?m) \<union> fst ` set (postings e K pkt cfg skbs)) \<le> max_entries ip_map"
      by (simp add: insert_commute)
    with Cons.IH [OF v] c Some p show ?thesis by (simp add: step)
  qed
qed

end

section \<open>Claims\<close>

text \<open>A packet for the witnesses: TCP from 10.0.0.1:443 to 10.0.0.2:80, 1500 bytes long.\<close>

definition sample_packet :: "u8 list" where
  "sample_packet = [0x45, 0, 0x05, 0xDC, 0, 0, 0, 0, 64, 6, 0, 0, 10, 0, 0, 1, 10, 0, 0, 2,
     0x01, 0xBB, 0x00, 0x50]"

definition sample_skb :: sim_skb where
  "sample_skb = \<lparr>skb_protocol = 0x0800, skb_packet = sample_packet\<rparr>"

definition sample_subnet :: subnet where
  "sample_subnet = \<lparr>subnet_prefix = 0x0000000A, subnet_mask = 0x00FFFFFF\<rparr>"

definition sample_flow :: ip_key where
  "sample_flow = \<lparr>src_ip = 0x0100000A, dest_ip = 0x0200000A, src_port = 443, dest_port = 80\<rparr>"

lemma observed_sample:
  "observed LE (sim_kernel LE) skb_packet sample_subnet sample_skb = Some (sample_flow, 1500)"
  by code_simp

text \<open>
  C5. The postrouting hook, on any kernel that keeps the helpers' contract, accepts the
  packet and counts exactly what it should: an IPv4 packet with a full header whose source
  and destination both match the configured subnet is posted to its flow (addresses as the
  machine loads them, ports of TCP and UDP, 0 otherwise) with the header's total length; a
  flow that is new while the map holds 1024 others is dropped; any other packet leaves the
  map alone.
\<close>

theorem hook_counts_packet:
  assumes "bpf_kernel e K pkt contents valid" "valid m"
  shows "fst (nf_postrouting_hook e K cfg skb m) = NF_ACCEPT
    \<and> contents (snd (nf_postrouting_hook e K cfg skb m)) =
        (case observed e K pkt cfg skb of
           None \<Rightarrow> contents m
         | Some (k, d) \<Rightarrow> post_bounded (max_entries ip_map) k d (contents m))"
  using bpf_kernel.hook_contents [OF assms] bpf_kernel.hook_eq [OF assms(1)] by simp

theorem hook_counts_packet_witness:
  "slot_contents (snd (nf_postrouting_hook LE (sim_kernel LE) sample_subnet sample_skb empty_slots))
    = [sample_flow \<mapsto> 1500]"
  using hook_counts_packet [OF sim.bpf_kernel_axioms [of LE] empty_slots_valid(1), of sample_subnet sample_skb]
  by (simp add: observed_sample post_bounded_def bump_def lookup0_def ip_map_def)

text \<open>
  Over a run of packets with at most 1024 flows in the map, every flow's counter
  increases by the sum of the sizes of its packets (modulo \<open>2 ^ 64\<close>): nothing is lost,
  nothing is counted twice, nothing is charged to another flow.
\<close>

lemma hook_run_accounts:
  assumes "bpf_kernel e K pkt contents valid" "valid m"
    and "card (dom (contents m) \<union> fst ` set (postings e K pkt cfg skbs)) \<le> max_entries ip_map"
  shows "lookup0 (contents (hook_run e K cfg skbs m)) k
    = lookup0 (contents m) k + (\<Sum>p\<leftarrow>filter (\<lambda>p. fst p = k) (postings e K pkt cfg skbs). snd p)"
  using bpf_kernel.hook_run_contents [OF assms] counters.balance_posts
  by simp

text \<open>
  The layout of the key that the map hashes: its four members fill 12 bytes without
  padding, so two keys are the same to the kernel exactly when their four fields agree, in
  either byte order.
\<close>

definition key_bytes :: "byte_order \<Rightarrow> ip_key \<Rightarrow> u8 list" where
  "key_bytes e k = store32 e (src_ip k) @ store32 e (dest_ip k)
     @ store16 e (src_port k) @ store16 e (dest_port k)"

lemma key_bytes_inject: "key_bytes e k = key_bytes e k' \<longleftrightarrow> k = k'"
proof
  assume "key_bytes e k = key_bytes e k'"
  then have s: "store32 e (src_ip k) = store32 e (src_ip k')" "store32 e (dest_ip k) = store32 e (dest_ip k')"
    "store16 e (src_port k) = store16 e (src_port k')" "store16 e (dest_port k) = store16 e (dest_port k')"
    by (simp_all add: key_bytes_def)
  show "k = k'"
    using arg_cong [OF s(1), of "load32 e"] arg_cong [OF s(2), of "load32 e"]
      arg_cong [OF s(3), of "load16 e"] arg_cong [OF s(4), of "load16 e"]
      load_store32 [of e _ "[]"] load_store16 [of e _ "[]"] by simp
qed simp

lemma ip_key_layout:
  "csize struct_ip_key = length (key_bytes e k)
    \<and> length (key_bytes e k) = 12
    \<and> member_bytes struct_ip_key ''src_ip'' (key_bytes e k) = store32 e (src_ip k)
    \<and> member_bytes struct_ip_key ''dest_ip'' (key_bytes e k) = store32 e (dest_ip k)
    \<and> member_bytes struct_ip_key ''src_port'' (key_bytes e k) = store16 e (src_port k)
    \<and> member_bytes struct_ip_key ''dest_port'' (key_bytes e k) = store16 e (dest_port k)
    \<and> (key_bytes e k = key_bytes e k' \<longleftrightarrow> k = k')"
  by (simp add: struct_ip_key_def align_up_def place_def member_bytes_def key_bytes_inject)
    (simp add: key_bytes_def)

end
