(* ===== verification/Bpf_Concurrent.thy ===== *)
theory Bpf_Concurrent
  imports Bpf_Facts
begin

text \<open>
  The hook runs on several CPUs at once and the agent empties the map meanwhile. The hook's
  map accesses are two kernel calls, so its step is split there: the lookup, which leaves a
  pending addition or a pending insertion, and the call that completes it. The ghost fields
  count the bytes of the packets the hook has looked at and the bytes the agent has drained.
\<close>

section \<open>Draining\<close>

text \<open>
  A batch lookup-and-delete returns some of the map's entries, each with its value, and
  removes exactly those. It leaves none behind that the buffers have room for.
\<close>

locale bpf_kernel_batch = bpf_kernel e K pkt contents valid
  for e :: byte_order
    and K :: "('skb, 'ptr, 'map, 'r) kernel"
    and pkt :: "'skb \<Rightarrow> u8 list"
    and contents :: "'map \<Rightarrow> ip_key \<rightharpoonup> u64"
    and valid :: "'map \<Rightarrow> bool" +
  fixes batch :: "nat \<Rightarrow> 'map \<Rightarrow> (ip_key \<times> u64) list \<times> 'map"
  assumes batch_entries: "valid m \<Longrightarrow> set (fst (batch n m)) \<subseteq> Map.graph (contents m)"
    and batch_distinct: "valid m \<Longrightarrow> distinct (map fst (fst (batch n m)))"
    and batch_length: "valid m \<Longrightarrow> length (fst (batch n m)) \<le> n"
    and batch_all: "valid m \<Longrightarrow> card (dom (contents m)) \<le> n \<Longrightarrow>
      set (fst (batch n m)) = Map.graph (contents m)"
    and batch_rest: "valid m \<Longrightarrow>
      contents (snd (batch n m)) = contents m |` (- fst ` set (fst (batch n m)))"
    and batch_valid: "valid m \<Longrightarrow> valid (snd (batch n m))"

text \<open>On the slotted map: collect from the front until the batch is full.\<close>

fun slot_batch :: "nat \<Rightarrow> slots \<Rightarrow> (ip_key \<times> u64) list \<times> slots" where
  "slot_batch n [] = ([], [])"
| "slot_batch n (None # ss) = (let (ps, ss') = slot_batch n ss in (ps, None # ss'))"
| "slot_batch 0 (Some p # ss) = ([], Some p # ss)"
| "slot_batch (Suc n) (Some p # ss) = (let (ps, ss') = slot_batch n ss in (p # ps, None # ss'))"

lemma slot_batch_split:
  "List.map_filter id ss = fst (slot_batch n ss) @ List.map_filter id (snd (slot_batch n ss))
    \<and> length (snd (slot_batch n ss)) = length ss \<and> length (fst (slot_batch n ss)) \<le> n"
  by (induction n ss rule: slot_batch.induct) (auto simp: split_beta)

lemma slot_batch_all:
  "length (List.map_filter id ss) \<le> n \<Longrightarrow> List.map_filter id (snd (slot_batch n ss)) = []"
  by (induction n ss rule: slot_batch.induct) (auto simp: split_beta)

lemma map_of_drop_prefix:
  "distinct (map fst (xs @ ys)) \<Longrightarrow> map_of ys = map_of (xs @ ys) |` (- fst ` set xs)"
proof
  fix k assume d: "distinct (map fst (xs @ ys))"
  show "map_of ys k = (map_of (xs @ ys) |` (- fst ` set xs)) k"
  proof (cases "k \<in> fst ` set xs")
    case True
    with d have "k \<notin> fst ` set ys" by auto
    with True show ?thesis by (simp add: map_of_eq_None_iff)
  next
    case False
    then have "map_of xs k = None" by (simp add: map_of_eq_None_iff)
    with False show ?thesis by (simp add: map_add_def)
  qed
qed

lemma graph_map_of: "distinct (map fst ps) \<Longrightarrow> Map.graph (map_of ps) = set ps"
  by (auto simp: Map.graph_def)

lemma slot_batch_result:
  assumes "slots_valid ss"
  shows "set (fst (slot_batch n ss)) \<subseteq> Map.graph (slot_contents ss)"
    and "card (dom (slot_contents ss)) \<le> n \<Longrightarrow>
      set (fst (slot_batch n ss)) = Map.graph (slot_contents ss)"
    and "distinct (map fst (fst (slot_batch n ss)))"
    and "slot_contents (snd (slot_batch n ss)) = slot_contents ss |` (- fst ` set (fst (slot_batch n ss)))"
    and "slots_valid (snd (slot_batch n ss))"
proof -
  note split = slot_batch_split [of ss n]
  have d: "distinct (map fst (List.map_filter id ss))"
    using assms by (simp add: slots_valid_def slot_keys_def)
  show "set (fst (slot_batch n ss)) \<subseteq> Map.graph (slot_contents ss)"
    unfolding slot_contents_def graph_map_of [OF d] using split by auto
  show "card (dom (slot_contents ss)) \<le> n \<Longrightarrow>
      set (fst (slot_batch n ss)) = Map.graph (slot_contents ss)"
  proof -
    assume "card (dom (slot_contents ss)) \<le> n"
    with assms have "length (List.map_filter id ss) \<le> n"
      by (simp add: slots_valid_def card_slots) (simp add: slot_keys_def)
    then show ?thesis unfolding slot_contents_def graph_map_of [OF d] using split slot_batch_all by auto
  qed
  show "distinct (map fst (fst (slot_batch n ss)))" using d split by auto
  show "slot_contents (snd (slot_batch n ss)) = slot_contents ss |` (- fst ` set (fst (slot_batch n ss)))"
    unfolding slot_contents_def using map_of_drop_prefix d split by metis
  show "slots_valid (snd (slot_batch n ss))"
    using d split assms by (auto simp: slots_valid_def slot_keys_def)
qed

interpretation sim_batch: bpf_kernel_batch e "sim_kernel e" skb_packet slot_contents slots_valid slot_batch
  by unfold_locales (use slot_batch_result slot_batch_split in auto)

section \<open>Interleaved steps\<close>

datatype 'r pending =
    Add 'r u64
  | Insert ip_key u64

fun pending_size :: "'r pending \<Rightarrow> nat" where
  "pending_size (Add r d) = unat d"
| "pending_size (Insert k d) = unat d"

record ('map, 'r) cpus =
  flow_map :: 'map
  inflight :: "'r pending multiset"
  seen_bytes :: nat
  drained_bytes :: nat

definition complete :: "('skb, 'ptr, 'map, 'r) kernel \<Rightarrow> 'r pending \<Rightarrow> 'map \<Rightarrow> 'map" where
  "complete K p m =
     (case p of
        Add r d \<Rightarrow> sync_fetch_and_add K r d m
      | Insert k d \<Rightarrow> snd (bpf_map_update_elem K m k \<lparr>packet_size = d\<rparr> BPF_ANY))"

definition begin_count :: "('skb, 'ptr, 'map, 'r) kernel \<Rightarrow> ip_key \<Rightarrow> u64 \<Rightarrow> 'map \<Rightarrow> 'r pending" where
  "begin_count K k d m = (case bpf_map_lookup_elem K m k of Some r \<Rightarrow> Add r d | None \<Rightarrow> Insert k d)"

lemma count_packet_split: "count_packet K k d m = complete K (begin_count K k d m) m"
  by (simp add: count_packet_def complete_def begin_count_def split: option.split)

inductive cpu_step ::
    "byte_order \<Rightarrow> ('skb, 'ptr, 'map, 'r) kernel \<Rightarrow> ('skb \<Rightarrow> u8 list) \<Rightarrow> subnet
      \<Rightarrow> (nat \<Rightarrow> 'map \<Rightarrow> (ip_key \<times> u64) list \<times> 'map)
      \<Rightarrow> ('map, 'r) cpus \<Rightarrow> ('map, 'r) cpus \<Rightarrow> bool"
  for e K pkt cfg batch where
  look: "observed e K pkt cfg skb = Some (k, d) \<Longrightarrow>
    cpu_step e K pkt cfg batch s
      (s\<lparr>inflight := add_mset (begin_count K k d (flow_map s)) (inflight s),
         seen_bytes := seen_bytes s + unat d\<rparr>)"
| finish: "inflight s = add_mset p rest \<Longrightarrow>
    cpu_step e K pkt cfg batch s
      (s\<lparr>flow_map := complete K p (flow_map s), inflight := rest\<rparr>)"
| drain: "batch n (flow_map s) = (ps, m') \<Longrightarrow>
    cpu_step e K pkt cfg batch s
      (s\<lparr>flow_map := m', drained_bytes := drained_bytes s + (\<Sum>p\<leftarrow>ps. unat (snd p))\<rparr>)"

inductive_simps cpu_step_simps: "cpu_step e K pkt cfg batch s s'"

definition start :: "'map \<Rightarrow> ('map, 'r) cpus" where
  "start m = \<lparr>flow_map = m, inflight = {#}, seen_bytes = 0, drained_bytes = 0\<rparr>"

definition map_bytes :: "(ip_key \<rightharpoonup> u64) \<Rightarrow> nat" where
  "map_bytes m = (\<Sum>k\<in>dom m. unat (the (m k)))"

section \<open>Bytes in the map\<close>

lemma map_bytes_val: "map_bytes m = map_val unat (\<lambda>_. True) m"
  by (simp add: map_bytes_def map_val_def)

lemma map_bytes_set: "finite (dom m) \<Longrightarrow> map_bytes (m(k \<mapsto> d)) \<le> map_bytes m + unat d"
  by (cases "m k") (simp_all add: map_bytes_val map_val_upd map_val_remove map_val_absent domIff)

lemma map_bytes_add:
  "finite (dom m) \<Longrightarrow> m k = Some v \<Longrightarrow> map_bytes (m(k \<mapsto> v + d)) \<le> map_bytes m + unat d"
  using map_val_bump(2) [of m "\<lambda>_. True" k d] by (simp add: map_bytes_val bump_def lookup0_def)

lemma map_bytes_batch:
  "finite (dom m) \<Longrightarrow> set ps \<subseteq> Map.graph m \<Longrightarrow> distinct (map fst ps) \<Longrightarrow>
   map_bytes (m |` (- fst ` set ps)) + (\<Sum>p\<leftarrow>ps. unat (snd p)) = map_bytes m"
  using map_val_batch [of m ps unat "\<lambda>_. True"] by (simp add: map_bytes_val list_val_def)

section \<open>No packet is counted twice\<close>

definition accounted :: "(ip_key \<rightharpoonup> u64) \<Rightarrow> ('map, 'r) cpus \<Rightarrow> nat" where
  "accounted m s = map_bytes m + drained_bytes s + (\<Sum>p\<in>#inflight s. pending_size p)"

context bpf_kernel_batch
begin

lemma complete_bytes:
  assumes "valid m"
  shows "valid (complete K p m) \<and> map_bytes (contents (complete K p m)) \<le> map_bytes (contents m) + pending_size p"
proof -
  have fin: "finite (dom (contents m))" using bounded [OF assms] by blast
  show ?thesis
  proof (cases p)
    case (Add r d)
    from add_stale [OF assms, of r d] fin show ?thesis
      by (auto simp: Add complete_def add_valid assms map_bytes_add)
  next
    case (Insert k d)
    show ?thesis
    proof (cases "k \<in> dom (contents m) \<or> card (dom (contents m)) < max_entries ip_map")
      case True
      with fin show ?thesis
        by (simp add: Insert complete_def update_valid assms update_fits map_bytes_set)
    next
      case False
      with bounded [OF assms] have "card (dom (contents m)) = max_entries ip_map" by simp
      with False show ?thesis
        by (simp add: Insert complete_def update_valid assms update_full)
    qed
  qed
qed

lemma cpu_step_accounted:
  assumes "cpu_step e K pkt cfg batch s s'" "valid (flow_map s)"
    and "accounted (contents (flow_map s)) s \<le> seen_bytes s"
  shows "valid (flow_map s') \<and> accounted (contents (flow_map s')) s' \<le> seen_bytes s'"
  using assms
proof (cases rule: cpu_step.cases)
  case (look skb k d)
  moreover have "pending_size (begin_count K k d (flow_map s)) = unat d"
    by (simp add: begin_count_def split: option.split)
  ultimately show ?thesis using assms(2,3) by (simp add: accounted_def)
next
  case (finish p rest)
  then show ?thesis using complete_bytes [OF assms(2), of p] assms(3) by (simp add: accounted_def)
next
  case (drain n ps m')
  have fin: "finite (dom (contents (flow_map s)))" using bounded [OF assms(2)] by blast
  have "map_bytes (contents m') + (\<Sum>p\<leftarrow>ps. unat (snd p)) = map_bytes (contents (flow_map s))"
    using map_bytes_batch [OF fin batch_entries [OF assms(2), of n] batch_distinct [OF assms(2), of n]]
      batch_rest [OF assms(2), of n] drain by simp
  moreover have "valid m'" using batch_valid [OF assms(2), of n] drain by simp
  ultimately show ?thesis using drain assms(3) by (simp add: accounted_def)
qed

lemma reachable_accounted:
  assumes "(cpu_step e K pkt cfg batch)\<^sup>*\<^sup>* (start m) s" "valid m" "contents m = Map.empty"
  shows "valid (flow_map s) \<and> accounted (contents (flow_map s)) s \<le> seen_bytes s"
  using assms(1)
proof (induction rule: rtranclp_induct)
  case base
  then show ?case using assms by (simp add: start_def accounted_def map_bytes_def)
next
  case (step s s')
  then show ?case using cpu_step_accounted by blast
qed

end

text \<open>
  C7. However the CPUs' lookups, insertions and additions interleave with each other and with
  the agent's drains, the bytes drained so far and the bytes in the map together never exceed
  the bytes of the packets seen: traffic is never over-reported, even through a pointer whose
  entry the agent has removed meanwhile.
\<close>

theorem never_over_counts:
  assumes "bpf_kernel_batch e K pkt contents valid batch" "valid m" "contents m = Map.empty"
    and "(cpu_step e K pkt cfg batch)\<^sup>*\<^sup>* (start m) s"
  shows "drained_bytes s + map_bytes (contents (flow_map s)) \<le> seen_bytes s"
  using bpf_kernel_batch.reachable_accounted [OF assms(1) assms(4,2,3)] by (simp add: accounted_def)

text \<open>Two packets of the sample flow on two CPUs, both looked up before either insertion.\<close>

definition raced :: "(slots, nat) cpus" where
  "raced = \<lparr>flow_map = complete (sim_kernel LE) (Insert sample_flow 1500)
       (complete (sim_kernel LE) (Insert sample_flow 1500) empty_slots),
     inflight = {#}, seen_bytes = 3000, drained_bytes = 0\<rparr>"

lemma begin_sample: "begin_count (sim_kernel e) k d empty_slots = Insert k d"
proof -
  have "find_slot k empty_slots = None"
    by (simp add: find_slot_None slot_keys_def empty_slots_def List.map_filter_def)
  then show ?thesis by (simp add: begin_count_def sim_kernel_def)
qed

lemma raced_reachable:
  "(cpu_step LE (sim_kernel LE) skb_packet sample_subnet slot_batch)\<^sup>*\<^sup>* (start empty_slots) raced"
proof -
  let ?step = "cpu_step LE (sim_kernel LE) skb_packet sample_subnet slot_batch"
  let ?p = "Insert sample_flow 1500 :: nat pending"
  let ?c = "complete (sim_kernel LE) ?p"
  define s1 :: "(slots, nat) cpus" where
    "s1 = \<lparr>flow_map = empty_slots, inflight = {#?p#}, seen_bytes = 1500, drained_bytes = 0\<rparr>"
  define s2 :: "(slots, nat) cpus" where
    "s2 = \<lparr>flow_map = empty_slots, inflight = {#?p, ?p#}, seen_bytes = 3000, drained_bytes = 0\<rparr>"
  define s3 :: "(slots, nat) cpus" where
    "s3 = \<lparr>flow_map = ?c empty_slots, inflight = {#?p#}, seen_bytes = 3000, drained_bytes = 0\<rparr>"
  have a: "?step (start empty_slots) s1"
    using cpu_step.look [OF observed_sample, of slot_batch "start empty_slots"]
    by (simp add: start_def begin_sample s1_def)
  have b: "?step s1 s2"
    using cpu_step.look [OF observed_sample, of slot_batch s1] by (simp add: s1_def s2_def begin_sample)
  have c: "?step s2 s3"
    using cpu_step.finish [of s2 ?p "{#?p#}"] by (simp add: s2_def s3_def)
  have d: "?step s3 raced"
    using cpu_step.finish [of s3 ?p "{#}"] by (simp add: s3_def raced_def)
  show ?thesis using a b c d by (meson converse_rtranclp_into_rtranclp rtranclp.rtrancl_refl)
qed

lemma raced_map: "slot_contents (flow_map raced) = [sample_flow \<mapsto> 1500]"
proof -
  have v: "slots_valid empty_slots" by simp
  let ?up = "\<lambda>m. snd (slot_update m sample_flow \<lparr>packet_size = 1500\<rparr> BPF_ANY)"
  have one: "slot_contents (?up empty_slots) = [sample_flow \<mapsto> 1500] \<and> slots_valid (?up empty_slots)"
    using slot_update_fits [OF v, of sample_flow] by (simp add: ip_map_def)
  then have "slot_contents (?up (?up empty_slots)) = [sample_flow \<mapsto> 1500]"
    using slot_update_fits [of "?up empty_slots" sample_flow] by simp
  then show ?thesis by (simp add: raced_def complete_def sim_kernel_def)
qed

lemma raced_ghost: "inflight raced = {#}" "seen_bytes raced = 3000" "drained_bytes raced = 0"
  by (simp_all add: raced_def)

theorem never_over_counts_witness:
  "drained_bytes raced + map_bytes (slot_contents (flow_map raced)) \<le> 3000"
  using never_over_counts [OF sim_batch.bpf_kernel_batch_axioms empty_slots_valid raced_reachable]
  by (simp add: raced_ghost)

text \<open>
  C24. But packets can be lost: when two CPUs see the first packets of a flow at the same
  time, both lookups miss and the second insertion overwrites the first, because it is made
  with \<open>BPF_ANY\<close>. All work is done, 3000 bytes were seen, and 1500 are in the map.
\<close>

theorem first_packets_race:
  "\<exists>s. (cpu_step LE (sim_kernel LE) skb_packet sample_subnet slot_batch)\<^sup>*\<^sup>* (start empty_slots) s
    \<and> inflight s = {#} \<and> seen_bytes s = 3000
    \<and> drained_bytes s = 0 \<and> slot_contents (flow_map s) = [sample_flow \<mapsto> 1500]"
  using raced_reachable raced_map by (intro exI [of _ raced]) (simp add: raced_ghost)

end
