(* ===== verification/Agent.thy ===== *)
theory Agent
  imports Payload Ip_Convert Kubernetes Bpf_Program
begin

text \<open>
  The agent (agent/agent.go, cmd/agent/main.go): checking the flags, computing the constants
  of the kernel program, and the flush loop that empties the flow map, keeps the flows of
  the host's own pods and posts them to the server. The map's batch operation, the informer's
  store and the HTTP client are not part of the repository: what they return is an argument.
\<close>

section \<open>Flags\<close>

record flags =
  subnet_cidr :: string
  flush_interval :: int
  server_url :: string
  node_name :: string
  debug :: bool
  send_data :: bool

text \<open>The error a wrong command line ends with; \<open>None\<close> calls \<open>agent.Run\<close>.\<close>

definition check_flags :: "flags \<Rightarrow> string option" where
  "check_flags f =
     (if subnet_cidr f = [] then Some ''Error: subnet CIDR cannot be empty''
      else if flush_interval f \<le> 0 then Some ''Error: flush interval must be greater than zero''
      else if server_url f = [] then Some ''Error: server must not be empty''
      else if node_name f = [] then Some ''Error: node name must not be empty''
      else None)"

section \<open>The constants of the kernel program\<close>

text \<open>\<open>None\<close> is the exit after an invalid CIDR.\<close>

definition program_constants :: "string \<Rightarrow> subnet option go" where
  "program_constants subnetCidr =
     (case ParseCIDR subnetCidr of
        None \<Rightarrow> Inr None
      | Some (ip, ipMask) \<Rightarrow>
          if ip = [] \<or> To4 ip = [] then Inr None
          else go_bind (agent_ipToUint32 ip) (\<lambda>ipUint.
            let maskUint = maskToUint32 ipMask
            in Inr (Some \<lparr>subnet_prefix = Htonl ipUint, subnet_mask = Htonl maskUint\<rparr>)))"

text \<open>Where the program is attached: protocol family IPv4, hook postrouting.\<close>

record netfilter_options =
  ProtocolFamily :: nat
  HookNumber :: nat

definition attach_options :: netfilter_options where
  "attach_options = \<lparr>ProtocolFamily = 2, HookNumber = 4\<rparr>"

section \<open>The host's pods\<close>

fun convertToPods :: "k8s_obj list \<Rightarrow> v1_Pod list \<Rightarrow> v1_Pod list go" where
  "convertToPods [] res = Inr res"
| "convertToPods (obj # objs) res =
     (case obj of
        PodObj pod \<Rightarrow> convertToPods objs (res @ [pod])
      | _ \<Rightarrow> Inl TypeAssertion)"

fun host_pod_ips :: "string list \<Rightarrow> (u32 \<rightharpoonup> unit) \<Rightarrow> (u32 \<rightharpoonup> unit) go" where
  "host_pod_ips [] ipsOnHost = Inr ipsOnHost"
| "host_pod_ips (podIP # podIPs) ipsOnHost =
     (let ip = ParseIP podIP
      in if ip = [] \<or> To4 ip = [] then host_pod_ips podIPs ipsOnHost
         else go_bind (agent_ipToUint32 ip) (\<lambda>n. host_pod_ips podIPs (ipsOnHost(n \<mapsto> ()))))"

fun host_ips :: "v1_Pod list \<Rightarrow> (u32 \<rightharpoonup> unit) \<Rightarrow> (u32 \<rightharpoonup> unit) go" where
  "host_ips [] ipsOnHost = Inr ipsOnHost"
| "host_ips (pod # pods) ipsOnHost =
     go_bind (host_pod_ips (pod_PodIPs pod) ipsOnHost) (host_ips pods)"

fun filter_loop ::
    "(u32 \<rightharpoonup> unit) \<Rightarrow> IPValue list \<Rightarrow> nat \<Rightarrow> IPKey list \<Rightarrow> IPKey list \<Rightarrow> IPValue list
      \<Rightarrow> (IPKey list \<times> IPValue list) go" where
  "filter_loop ipsOnHost values i [] resKeys resValues = Inr (resKeys, resValues)"
| "filter_loop ipsOnHost values i (key # keys) resKeys resValues =
     (if ipsOnHost (Ntohl (SrcIP key)) \<noteq> None
      then go_bind (go_index values i) (\<lambda>v.
             filter_loop ipsOnHost values (Suc i) keys (resKeys @ [key]) (resValues @ [v]))
      else filter_loop ipsOnHost values (Suc i) keys resKeys resValues)"

definition filterSrcIpOnCurrentHost ::
    "IPKey list \<Rightarrow> IPValue list \<Rightarrow> v1_Pod list \<Rightarrow> (IPKey list \<times> IPValue list) go" where
  "filterSrcIpOnCurrentHost keys values podsOnHost =
     go_bind (host_ips podsOnHost Map.empty) (\<lambda>ipsOnHost.
       filter_loop ipsOnHost values 0 keys [] [])"

section \<open>Sending\<close>

text \<open>
  The HTTP client: \<open>new_request\<close> and \<open>do_request\<close> fail with a message or succeed; a response
  is its status and its body, \<open>Inl\<close> when reading the body fails.
\<close>

record response =
  StatusCode :: int
  response_body :: "string + string"

record http_client =
  new_request :: "string \<Rightarrow> string option"
  do_request :: "string \<Rightarrow> u8 list \<Rightarrow> string + response"

datatype send_error =
    NewRequestError string
  | DoRequestError string
  | ReadResponseError string
  | WriteNotSuccessful string

text \<open>The messages the client put on the wire, and the error returned.\<close>

definition sendDataToServer ::
    "http_client \<Rightarrow> string \<Rightarrow> IPKey list \<Rightarrow> IPValue list \<Rightarrow> (u8 list list \<times> send_error option) go" where
  "sendDataToServer client server keys values =
     go_bind (Encode keys values) (\<lambda>content.
       case new_request client server of
         Some err \<Rightarrow> Inr ([], Some (NewRequestError err))
       | None \<Rightarrow>
           (case do_request client server content of
              Inl err \<Rightarrow> Inr ([content], Some (DoRequestError err))
            | Inr res \<Rightarrow>
                (case response_body res of
                   Inl err \<Rightarrow> Inr ([content], Some (ReadResponseError err))
                 | Inr respContent \<Rightarrow>
                     if StatusCode res \<noteq> 200 then Inr ([content], Some (WriteNotSuccessful respContent))
                     else Inr ([content], None))))"

section \<open>The flush loop\<close>

text \<open>
  What \<open>BatchLookupAndDelete\<close> leaves behind: the count and the error it returns, and the
  two buffers, which have the map's size.
\<close>

datatype batch_error = ErrKeyNotExist | OtherBatchError string

record batch_result =
  batch_count :: int
  batch_err :: "batch_error option"
  batch_keys :: "IPKey list"
  batch_values :: "IPValue list"

datatype tick_outcome =
    NoData
  | ReadFailed batch_error
  | NothingToSend
  | SendingDisabled
  | Sent "u8 list list" "send_error option"

definition flush_tick ::
    "flags \<Rightarrow> http_client \<Rightarrow> batch_result \<Rightarrow> k8s_obj list \<Rightarrow> tick_outcome go" where
  "flush_tick f client b store =
     (let n = batch_count b
      in if n \<le> 0 then Inr NoData
         else (case batch_err b of
             Some (OtherBatchError e) \<Rightarrow> Inr (ReadFailed (OtherBatchError e))
           | _ \<Rightarrow>
               if length (batch_keys b) < nat n \<or> length (batch_values b) < nat n
               then Inl SliceBounds
               else
                 (let keys = take (nat n) (batch_keys b); vals = take (nat n) (batch_values b)
                  in go_bind (convertToPods store []) (\<lambda>pods.
                     go_bind (filterSrcIpOnCurrentHost keys vals pods) (\<lambda>(finalKeys, finalValues).
                       if send_data f
                       then if 0 < length finalKeys
                            then go_bind (sendDataToServer client (server_url f) finalKeys finalValues)
                                   (\<lambda>(bodies, err). Inr (Sent bodies err))
                            else Inr NothingToSend
                       else Inr SendingDisabled)))))"

text \<open>
  The loop's events: a signal, a cancelled context, or a tick, with what the outside world
  returns during it. The result is the outcome of each tick, and how the loop ended:
  \<open>Running\<close> when the events run out first.
\<close>

datatype loop_event =
    Stop
  | CtxDone
  | Tick http_client batch_result "k8s_obj list"

datatype loop_end = Running | Stopped | Panicked panic

fun flush_loop :: "flags \<Rightarrow> loop_event list \<Rightarrow> tick_outcome list \<times> loop_end" where
  "flush_loop f [] = ([], Running)"
| "flush_loop f (Stop # es) = ([], Stopped)"
| "flush_loop f (CtxDone # es) = ([], Stopped)"
| "flush_loop f (Tick client b store # es) =
     (case flush_tick f client b store of
        Inl p \<Rightarrow> ([], Panicked p)
      | Inr out \<Rightarrow> (let (outs, fin) = flush_loop f es in (out # outs, fin)))"

section \<open>Debug output\<close>

text \<open>The lines a tick prints with the debug flag, one per kept flow.\<close>

fun decimal :: "nat \<Rightarrow> string" where
  "decimal n = (if n < 10 then [digit_char n] else decimal (n div 10) @ [digit_char (n mod 10)])"

declare decimal.simps [simp del]

definition debug_ip :: "u32 \<Rightarrow> string" where
  "debug_ip x = IP_String (v4_prefix @
     [ucast x, ucast (drop_bit 8 x), ucast (drop_bit 16 x), ucast (drop_bit 24 x)])"

definition debug_line :: "IPKey \<Rightarrow> IPValue \<Rightarrow> string" where
  "debug_line k v = debug_ip (SrcIP k) @ '':'' @ decimal (unat (SrcPort k)) @ '' -> ''
     @ debug_ip (DstIP k) @ '':'' @ decimal (unat (DstPort k)) @ '': '' @ decimal (unat (PacketSize v)) @ '' bytes''"

definition debug_output :: "flags \<Rightarrow> IPKey list \<Rightarrow> IPValue list \<Rightarrow> string list go" where
  "debug_output f finalKeys finalValues =
     (if \<not> debug f then Inr []
      else if length finalValues < length finalKeys then Inl IndexOutOfRange
      else Inr (map2 debug_line finalKeys finalValues))"

section \<open>Unused code\<close>

text \<open>
  A second way to attach the program, at an interface's egress, which nothing calls; the
  lookups in the kernel are parameters.
\<close>

datatype tcx_attach = AttachTCXEgress

record 'prog tcx_options =
  tcx_Program :: 'prog
  tcx_Attach :: tcx_attach
  tcx_Interface :: int

datatype interface_error =
    GetInterface string string
  | AttachTCXFailed string

definition attachToInterface ::
    "(string \<Rightarrow> string + int) \<Rightarrow> ('prog tcx_options \<Rightarrow> string + 'link) \<Rightarrow> string \<Rightarrow> 'prog
      \<Rightarrow> interface_error + 'link" where
  "attachToInterface InterfaceByName AttachTCX interfaceName prog =
     (case InterfaceByName interfaceName of
        Inl err \<Rightarrow> Inl (GetInterface interfaceName err)
      | Inr index \<Rightarrow>
          (case AttachTCX \<lparr>tcx_Program = prog, tcx_Attach = AttachTCXEgress, tcx_Interface = index\<rparr> of
             Inl err \<Rightarrow> Inl (AttachTCXFailed err)
           | Inr link \<Rightarrow> Inr link))"

record PacketInfo =
  pi_SrcIP :: u32
  pi_DestIP :: u32
  pi_PacketSize :: u32
  pi_Ifindex :: u32

end
