(* ===== verification/Agent_Facts.thy ===== *)
theory Agent_Facts
  imports Agent Bpf_Facts
begin

text \<open>
  What the agent computes: the configured subnet as a CIDR block, the flows it keeps, and
  the outcome of a flush in every case.
\<close>

section \<open>The host's addresses\<close>

definition host_addrs :: "v1_Pod list \<Rightarrow> u32 set" where
  "host_addrs pods = {a. \<exists>pod \<in> set pods. \<exists>t \<in> set (pod_PodIPs pod). addr_of t = Some a}"

lemma host_pod_ips_total:
  "host_pod_ips ts m = Inr (\<lambda>a. if \<exists>t \<in> set ts. addr_of t = Some a then Some () else m a)"
proof (induction ts m rule: host_pod_ips.induct)
  case (1 m)
  then show ?case by simp
next
  case (2 t ts m)
  show ?case
  proof (cases "To4 (ParseIP t) = []")
    case True
    with 2(1) [OF refl] show ?thesis by (simp add: addr_of_def Let_def cong: if_cong)
  next
    case False
    then have ne: "ParseIP t \<noteq> []" by auto
    have "host_pod_ips (t # ts) m = host_pod_ips ts (m(rd32 (To4 (ParseIP t)) \<mapsto> ()))"
      using False ne by (simp add: agent_ipToUint32_eq ipToUint32_v4 Let_def)
    also have "\<dots> = Inr (\<lambda>a. if \<exists>t \<in> set ts. addr_of t = Some a then Some ()
        else (m(rd32 (To4 (ParseIP t)) \<mapsto> ())) a)"
      using False ne by (intro 2(2) [OF refl, of "rd32 (To4 (ParseIP t))"]) (auto simp: agent_ipToUint32_eq ipToUint32_v4)
    finally show ?thesis using False by (auto simp: addr_of_def fun_eq_iff)
  qed
qed

lemma host_ips_total: "host_ips pods m = Inr (\<lambda>a. if a \<in> host_addrs pods then Some () else m a)"
proof (induction pods m rule: host_ips.induct)
  case (1 m)
  then show ?case by (simp add: host_addrs_def)
next
  case (2 pod pods m)
  then show ?case by (auto simp: host_pod_ips_total host_addrs_def fun_eq_iff)
qed

lemma addr_of_string4: "length b = 4 \<Longrightarrow> addr_of (string4 b) = Some (rd32 b)"
  by (auto simp: addr_of_def ParseIP_string4)

lemma string4_samples: "string4 [10, 0, 0, 1] = ''10.0.0.1''" "string4 [1, 0, 0, 0] = ''1.0.0.0''"
  by code_simp+

section \<open>The filter\<close>

definition own_flow :: "v1_Pod list \<Rightarrow> IPKey \<Rightarrow> bool" where
  "own_flow pods k \<longleftrightarrow> Ntohl (SrcIP k) \<in> host_addrs pods"

lemma filter_loop_eq:
  assumes "\<And>a. ips a \<noteq> None \<longleftrightarrow> a \<in> A" "i + length keys \<le> length values"
  shows "filter_loop ips values i keys ks vs =
    Inr (ks @ map fst (filter (\<lambda>p. Ntohl (SrcIP (fst p)) \<in> A) (zip keys (drop i values))),
         vs @ map snd (filter (\<lambda>p. Ntohl (SrcIP (fst p)) \<in> A) (zip keys (drop i values))))"
  using assms(2)
proof (induction keys arbitrary: i ks vs)
  case Nil
  then show ?case by simp
next
  case (Cons k keys)
  have "drop i values = values ! i # drop (Suc i) values"
    using Cons.prems by (simp add: Cons_nth_drop_Suc)
  with Cons assms(1) show ?case by (auto simp: go_simps)
qed

lemma filter_eq:
  assumes "length keys \<le> length values"
  shows "filterSrcIpOnCurrentHost keys values pods =
    Inr (map fst (filter (\<lambda>p. own_flow pods (fst p)) (zip keys values)),
         map snd (filter (\<lambda>p. own_flow pods (fst p)) (zip keys values)))"
proof -
  let ?ips = "\<lambda>a. if a \<in> host_addrs pods then Some () else Map.empty a"
  have "filter_loop ?ips values 0 keys [] [] =
    Inr ([] @ map fst (filter (\<lambda>p. Ntohl (SrcIP (fst p)) \<in> host_addrs pods) (zip keys (drop 0 values))),
         [] @ map snd (filter (\<lambda>p. Ntohl (SrcIP (fst p)) \<in> host_addrs pods) (zip keys (drop 0 values))))"
    using assms by (intro filter_loop_eq) auto
  then show ?thesis by (simp add: filterSrcIpOnCurrentHost_def host_ips_total own_flow_def)
qed

lemma convertToPods_eq: "convertToPods (map PodObj pods) res = Inr (res @ pods)"
  by (induction pods arbitrary: res) simp_all

lemma convertToPods_result:
  "convertToPods objs res =
     (if \<forall>obj \<in> set objs. \<exists>pod. obj = PodObj pod
      then Inr (res @ List.map_filter (\<lambda>obj. case obj of PodObj pod \<Rightarrow> Some pod | _ \<Rightarrow> None) objs)
      else Inl TypeAssertion)"
  by (induction objs res rule: convertToPods.induct)
    (auto simp: List.map_filter_def split: k8s_obj.splits)

text \<open>
  C26. The filter never panics on aligned lists, whatever texts the pods' status contains: it
  keeps, in order and with their values, exactly the flows whose source address is an IPv4
  address of one of the given pods.
\<close>

theorem filter_keeps_own_flows:
  assumes "length keys = length values"
  shows "\<exists>ks vs. filterSrcIpOnCurrentHost keys values pods = Inr (ks, vs)
    \<and> zip ks vs = filter (\<lambda>(k, v). Ntohl (SrcIP k) \<in> host_addrs pods) (zip keys values)
    \<and> length ks = length vs"
  using assms by (simp add: filter_eq zip_map_fst_snd own_flow_def split_def)

theorem filter_keeps_own_flows_witness:
  "\<exists>ks vs. filterSrcIpOnCurrentHost
      [\<lparr>SrcIP = 0x0100000A, DstIP = 0x0200000A, SrcPort = 80, DstPort = 443\<rparr>,
       \<lparr>SrcIP = 0x0200000A, DstIP = 0x0100000A, SrcPort = 443, DstPort = 80\<rparr>]
      [\<lparr>PacketSize = 1500\<rparr>, \<lparr>PacketSize = 40\<rparr>]
      [\<lparr>pod_Namespace = ''default'', pod_Name = ''web'', pod_NodeName = ''n1'',
         pod_HostIP = ''192.168.0.1'', pod_PodIPs = [''10.0.0.1'', '''']\<rparr>] = Inr (ks, vs)
    \<and> ks = [\<lparr>SrcIP = 0x0100000A, DstIP = 0x0200000A, SrcPort = 80, DstPort = 443\<rparr>]
    \<and> vs = [\<lparr>PacketSize = 1500\<rparr>]"
proof -
  let ?pod = "\<lparr>pod_Namespace = ''default'', pod_Name = ''web'', pod_NodeName = ''n1'',
         pod_HostIP = ''192.168.0.1'', pod_PodIPs = [''10.0.0.1'', '''']\<rparr>"
  let ?keys = "[\<lparr>SrcIP = 0x0100000A, DstIP = 0x0200000A, SrcPort = 80, DstPort = 443\<rparr>,
       \<lparr>SrcIP = 0x0200000A, DstIP = 0x0100000A, SrcPort = 443, DstPort = 80\<rparr>]"
  let ?vals = "[\<lparr>PacketSize = 1500\<rparr>, \<lparr>PacketSize = 40\<rparr>]"
  have addrs: "addr_of ''10.0.0.1'' = Some 0x0A000001" "addr_of '''' = None"
    using addr_of_string4 [of "[10, 0, 0, 1]"] by (simp_all add: string4_samples rd32_def addr_of_def)
  have host: "host_addrs [?pod] = {0x0A000001}" by (auto simp: host_addrs_def addrs)
  have "length ?keys = length ?vals" by simp
  from filter_keeps_own_flows [OF this, of "[?pod]"] obtain ks vs where
    r: "filterSrcIpOnCurrentHost ?keys ?vals [?pod] = Inr (ks, vs)"
      "zip ks vs = [(hd ?keys, hd ?vals)]" "length ks = length vs"
    by (auto simp: host Ntohl_def)
  from r(2,3) have "ks = [hd ?keys] \<and> vs = [hd ?vals]"
    by (cases ks; cases vs) auto
  with r(1) show ?thesis by simp
qed

text \<open>
  No flow is reported twice: agents on two hosts whose pods have no address in common
  never both keep a flow, so the server charges the traffic of a flow once although the
  packet passes the hook on both hosts.
\<close>

lemma flow_reported_by_one_agent:
  assumes "host_addrs pods \<inter> host_addrs pods' = {}"
    and "filterSrcIpOnCurrentHost keys values pods = Inr (ks, vs)" "length keys = length values"
    and "filterSrcIpOnCurrentHost keys' values' pods' = Inr (ks', vs')" "length keys' = length values'"
  shows "SrcIP ` set ks \<inter> SrcIP ` set ks' = {}"
proof -
  have mine: "Ntohl x \<in> host_addrs pods" if "x \<in> SrcIP ` set ks" for x
    using that assms(2,3) by (auto simp: filter_eq own_flow_def)
  have theirs: "Ntohl x \<in> host_addrs pods'" if "x \<in> SrcIP ` set ks'" for x
    using that assms(4,5) by (auto simp: filter_eq own_flow_def)
  show ?thesis
  proof (rule ccontr)
    assume "SrcIP ` set ks \<inter> SrcIP ` set ks' \<noteq> {}"
    then obtain x where "x \<in> SrcIP ` set ks" "x \<in> SrcIP ` set ks'" by blast
    with mine theirs have "Ntohl x \<in> host_addrs pods \<inter> host_addrs pods'" by blast
    with assms(1) show False by simp
  qed
qed

section \<open>A flush\<close>

text \<open>The pods among the informer's objects, and the pairs a batch holds.\<close>

definition store_ok :: "k8s_obj list \<Rightarrow> bool" where
  "store_ok objs \<longleftrightarrow> (\<forall>obj \<in> set objs. \<exists>pod. obj = PodObj pod)"

definition store_pods :: "k8s_obj list \<Rightarrow> v1_Pod list" where
  "store_pods objs = List.map_filter (\<lambda>obj. case obj of PodObj pod \<Rightarrow> Some pod | _ \<Rightarrow> None) objs"

definition batch_pairs :: "batch_result \<Rightarrow> (IPKey \<times> IPValue) list" where
  "batch_pairs b = zip (take (nat (batch_count b)) (batch_keys b)) (take (nat (batch_count b)) (batch_values b))"

definition kept :: "k8s_obj list \<Rightarrow> batch_result \<Rightarrow> (IPKey \<times> IPValue) list" where
  "kept objs b = filter (\<lambda>p. own_flow (store_pods objs) (fst p)) (batch_pairs b)"

text \<open>A batch whose buffers hold the entries it claims.\<close>

definition batch_ok :: "batch_result \<Rightarrow> bool" where
  "batch_ok b \<longleftrightarrow> nat (batch_count b) \<le> length (batch_keys b)
     \<and> nat (batch_count b) \<le> length (batch_values b)"

definition send_result :: "http_client \<Rightarrow> string \<Rightarrow> u8 list \<Rightarrow> u8 list list \<times> send_error option" where
  "send_result client server content =
     (case new_request client server of
        Some err \<Rightarrow> ([], Some (NewRequestError err))
      | None \<Rightarrow> ([content],
          case do_request client server content of
            Inl err \<Rightarrow> Some (DoRequestError err)
          | Inr res \<Rightarrow>
              (case response_body res of
                 Inl err \<Rightarrow> Some (ReadResponseError err)
               | Inr t \<Rightarrow> if StatusCode res = 200 then None else Some (WriteNotSuccessful t))))"

lemma sendDataToServer_eq:
  "length keys \<le> length values \<Longrightarrow>
   sendDataToServer client server keys values = Inr (send_result client server (wire keys values))"
  by (simp add: sendDataToServer_def Encode_ok send_result_def split: option.split sum.split)

lemma flush_tick_pieces:
  assumes "batch_ok b" "store_ok objs"
  shows "convertToPods objs [] = Inr (store_pods objs)"
    and "filterSrcIpOnCurrentHost (take (nat (batch_count b)) (batch_keys b))
        (take (nat (batch_count b)) (batch_values b)) (store_pods objs)
      = Inr (map fst (kept objs b), map snd (kept objs b))"
  using assms by (simp_all add: convertToPods_result store_ok_def store_pods_def filter_eq kept_def
      batch_pairs_def batch_ok_def)

lemma flush_tick_eq:
  assumes "batch_ok b" "store_ok objs"
  shows "flush_tick f client b objs = Inr (
    if batch_count b \<le> 0 then NoData
    else case batch_err b of
      Some (OtherBatchError e) \<Rightarrow> ReadFailed (OtherBatchError e)
    | _ \<Rightarrow>
        if \<not> send_data f then SendingDisabled
        else if kept objs b = [] then NothingToSend
        else case_prod Sent (send_result client (server_url f)
               (wire (map fst (kept objs b)) (map snd (kept objs b)))))"
  using assms(1) by (auto simp: flush_tick_def flush_tick_pieces [OF assms] sendDataToServer_eq
      batch_ok_def Let_def not_less split: option.splits batch_error.splits prod.splits)

lemma flush_tick_total: "batch_ok b \<Longrightarrow> store_ok objs \<Longrightarrow> \<exists>out. flush_tick f client b objs = Inr out"
  by (simp add: flush_tick_eq)

text \<open>
  C11. A flush in every case, for a batch that keeps its contract and a store of pods: no
  data and a failed read end it, the read error of an exhausted map does not; otherwise the
  kept flows are encoded into one message, which is posted at most once. Whatever the
  client answers, the outcome is only logged: there is no retry, and what the batch took
  out of the map is gone.
\<close>

theorem flush_tick_result:
  assumes "batch_ok b" "store_ok objs"
  shows "flush_tick f client b objs = Inr (
    if batch_count b \<le> 0 then NoData
    else case batch_err b of
      Some (OtherBatchError e) \<Rightarrow> ReadFailed (OtherBatchError e)
    | _ \<Rightarrow>
        if \<not> send_data f then SendingDisabled
        else if kept objs b = [] then NothingToSend
        else case_prod Sent (send_result client (server_url f)
               (wire (map fst (kept objs b)) (map snd (kept objs b)))))"
  using assms by (rule flush_tick_eq)

theorem flush_tick_result_witness:
  "flush_tick \<lparr>subnet_cidr = ''10.0.0.0/24'', flush_interval = 10, server_url = ''http://server'',
       node_name = ''n1'', debug = False, send_data = True\<rparr>
     \<lparr>new_request = \<lambda>_. None, do_request = \<lambda>_ _. Inl ''connection refused''\<rparr>
     \<lparr>batch_count = 1, batch_err = Some ErrKeyNotExist,
       batch_keys = [\<lparr>SrcIP = 1, DstIP = 2, SrcPort = 3, DstPort = 4\<rparr>],
       batch_values = [\<lparr>PacketSize = 1500\<rparr>]\<rparr>
     [PodObj \<lparr>pod_Namespace = ''default'', pod_Name = ''web'', pod_NodeName = ''n1'',
        pod_HostIP = ''192.168.0.1'', pod_PodIPs = [''1.0.0.0'']\<rparr>]
   = Inr (Sent [[0, 0, 0, 1, 0, 0, 0, 1, 0, 0, 0, 2, 0, 3, 0, 4, 0, 0, 0, 0, 0, 0, 5, 220]]
       (Some (DoRequestError ''connection refused'')))"
proof -
  let ?b = "\<lparr>batch_count = 1, batch_err = Some ErrKeyNotExist,
       batch_keys = [\<lparr>SrcIP = 1, DstIP = 2, SrcPort = 3, DstPort = 4\<rparr>],
       batch_values = [\<lparr>PacketSize = 1500\<rparr>]\<rparr>"
  let ?pod = "\<lparr>pod_Namespace = ''default'', pod_Name = ''web'', pod_NodeName = ''n1'',
        pod_HostIP = ''192.168.0.1'', pod_PodIPs = [''1.0.0.0'']\<rparr>"
  have addr: "addr_of ''1.0.0.0'' = Some 0x01000000"
    using addr_of_string4 [of "[1, 0, 0, 0]"] by (simp add: string4_samples rd32_def)
  have "kept [PodObj ?pod] ?b = [(\<lparr>SrcIP = 1, DstIP = 2, SrcPort = 3, DstPort = 4\<rparr>, \<lparr>PacketSize = 1500\<rparr>)]"
    by (simp add: kept_def batch_pairs_def store_pods_def List.map_filter_def own_flow_def
        host_addrs_def addr Ntohl_def)
  moreover have "wire [\<lparr>SrcIP = 1, DstIP = 2, SrcPort = 3, DstPort = 4\<rparr>] [\<lparr>PacketSize = 1500\<rparr>]
      = [0, 0, 0, 1, 0, 0, 0, 1, 0, 0, 0, 2, 0, 3, 0, 4, 0, 0, 0, 0, 0, 0, 5, 220]"
    by (simp add: wire_def entry_bytes_def be16_def be32_def be64_def)
  moreover have "batch_ok ?b" "store_ok [PodObj ?pod]" by (simp_all add: batch_ok_def store_ok_def)
  ultimately show ?thesis by (simp add: flush_tick_result send_result_def)
qed

section \<open>The configured subnet\<close>

definition prefix_mask :: "nat \<Rightarrow> u32" where
  "prefix_mask n = NOT (mask (32 - n))"

lemma maskToUint32_prefix: "n \<le> 32 \<Longrightarrow> maskToUint32 (CIDRMask n 32) = prefix_mask n"
  by (rule bit_word_eqI) (auto simp: bit_maskToUint32_32 prefix_mask_def bit_simps)

lemma native32_LE: "native32 LE x = Htonl x"
  using load32_LE [of "be32 x"] by (simp add: native32_def)

lemma native32_BE: "native32 BE x = x"
  by (simp add: native32_def load32_def)

lemma program_constants_string4:
  assumes "length b = 4" "n \<le> 32"
  shows "program_constants (string4 b @ CHR ''/'' # append_decimal n)
    = Inr (Some \<lparr>subnet_prefix = Htonl (rd32 b), subnet_mask = Htonl (prefix_mask n)\<rparr>)"
proof -
  have "v4_prefix @ b \<noteq> []" "b \<noteq> []" using assms(1) by auto
  with assms show ?thesis
    by (simp add: program_constants_def ParseCIDR_string4 agent_ipToUint32_eq ipToUint32_v4
        maskToUint32_prefix)
qed

lemma in_subnet_LE:
  "in_subnet \<lparr>subnet_prefix = Htonl p, subnet_mask = Htonl m\<rparr> (native32 LE x) \<longleftrightarrow> x AND m = p"
  by (simp add: in_subnet_def native32_LE Htonl_inject flip: Htonl_and)

text \<open>
  C27. On a little-endian machine the program counts the CIDR block it was given: from
  \<open>a.b.c.d/n\<close> with no host bits set, the agent computes constants that an address loaded
  from a packet matches exactly when its first \<open>n\<close> bits are those of \<open>a.b.c.d\<close>.
\<close>

theorem subnet_is_cidr_block:
  assumes "length b = 4" "n \<le> 32" "rd32 b AND NOT (prefix_mask n) = 0"
  shows "\<exists>cfg. program_constants (string4 b @ CHR ''/'' # append_decimal n) = Inr (Some cfg)
    \<and> (in_subnet cfg (native32 LE x)
         \<longleftrightarrow> (\<forall>k. 32 - n \<le> k \<longrightarrow> bit x k = bit (rd32 b) k))"
proof -
  have host: "\<not> bit (rd32 b) k" if "k < 32 - n" for k
  proof -
    from that have "k < 32" by simp
    with assms(3) that show ?thesis by (auto simp: prefix_mask_def bit_eq_iff bit_simps)
  qed
  have "x AND prefix_mask n = rd32 b \<longleftrightarrow> (\<forall>k. 32 - n \<le> k \<longrightarrow> bit x k = bit (rd32 b) k)"
  proof -
    have "x AND prefix_mask n = rd32 b
        \<longleftrightarrow> (\<forall>k<32. (bit x k \<and> 32 - n \<le> k) \<longleftrightarrow> bit (rd32 b) k)"
      by (simp add: prefix_mask_def bit_eq_iff bit_simps not_less)
    moreover have "bit (rd32 b) k \<Longrightarrow> k < 32" "bit x k \<Longrightarrow> k < 32" for k
      by (auto dest: bit_imp_le_length)
    ultimately show ?thesis using host by (metis not_less)
  qed
  then show ?thesis using program_constants_string4 [OF assms(1,2)] by (simp add: in_subnet_LE)
qed

lemma agent_ipToUint32_total: "To4 ip \<noteq> [] \<Longrightarrow> \<exists>x. agent_ipToUint32 ip = Inr x"
  by (simp add: agent_ipToUint32_eq ipToUint32_v4)

lemma program_constants_total: "\<exists>r. program_constants t = Inr r"
  using agent_ipToUint32_total by (fastforce simp: program_constants_def Let_def split: option.split)

lemma cidr_text: "string4 [10, 0, 0, 0] @ CHR ''/'' # append_decimal 24 = ''10.0.0.0/24''"
  "string4 [10, 0, 0, 5] @ CHR ''/'' # append_decimal 24 = ''10.0.0.5/24''"
  by code_simp+

lemma prefix_mask_24: "prefix_mask 24 = 0xFFFFFF00"
  by (simp add: prefix_mask_def mask_eq_exp_minus_1)

theorem subnet_is_cidr_block_witness:
  "\<exists>cfg. program_constants ''10.0.0.0/24'' = Inr (Some cfg)
    \<and> (in_subnet cfg (native32 LE 0x0A000007)
         \<longleftrightarrow> (\<forall>k. 8 \<le> k \<longrightarrow> bit (0x0A000007 :: u32) k = bit (0x0A000000 :: u32) k))"
  using subnet_is_cidr_block [of "[10, 0, 0, 0]" 24 "0x0A000007"]
  by (simp add: cidr_text prefix_mask_24 rd32_def)

text \<open>
  C28. A CIDR with host bits set silently turns the program off: \<open>net.ParseCIDR\<close> returns the
  address as written next to the network, the agent uses the former, and then no address
  matches, so the hook counts no packet at all.
\<close>

theorem host_bits_count_nothing:
  assumes "length b = 4" "n \<le> 32" "rd32 b AND NOT (prefix_mask n) \<noteq> 0"
  shows "\<exists>cfg. program_constants (string4 b @ CHR ''/'' # append_decimal n) = Inr (Some cfg)
    \<and> observed LE K pkt cfg skb = None"
proof -
  have "x AND prefix_mask n \<noteq> rd32 b" for x
    using assms(3) by (auto simp: bit_eq_iff bit_simps)
  then show ?thesis using program_constants_string4 [OF assms(1,2)]
    by (simp add: observed_def in_subnet_LE Let_def)
qed

theorem host_bits_count_nothing_witness:
  "\<exists>cfg. program_constants ''10.0.0.5/24'' = Inr (Some cfg)
    \<and> observed LE (sim_kernel LE) skb_packet cfg sample_skb = None"
  using host_bits_count_nothing [of "[10, 0, 0, 5]" 24]
  by (simp add: cidr_text prefix_mask_24 rd32_def)


section \<open>Debug output\<close>

text \<open>On a little-endian host the printed addresses are those of the packet.\<close>

lemma debug_ip_dotted: "debug_ip (native32 LE (rd32 b)) = string4 b" if "length b = 4"
proof -
  have bytes: "[ucast (Htonl x), ucast (drop_bit 8 (Htonl x)), ucast (drop_bit 16 (Htonl x)),
      ucast (drop_bit 24 (Htonl x))] = be32 x" for x
    using be32_Htonl [of x] by (simp add: be32_def)
  have "b \<noteq> []" using that by auto
  then show ?thesis
    using that by (simp add: debug_ip_def native32_LE bytes IP_String_v4 be32.enc_dec)
qed

end
