(* ===== verification/Pipeline.thy ===== *)
theory Pipeline
  imports Bpf_Concurrent Agent_Facts Server_Facts
begin

text \<open>
  The whole path of a byte count: packets through the hook into the map, the map through a
  batch into the agent, the agent's message over HTTP into the server's counters. On a
  little-endian host, with room in the map and no concurrent access, a flush adds to each
  counter exactly the sizes of the packets that the README promises to count.
\<close>

section \<open>From the map to the agent\<close>

text \<open>The Go value that the map library unmarshals from the bytes of a key.\<close>

definition unmarshal_key :: "byte_order \<Rightarrow> u8 list \<Rightarrow> IPKey" where
  "unmarshal_key e bs = \<lparr>SrcIP = load32 e bs, DstIP = load32 e (drop 4 bs),
     SrcPort = load16 e (drop 8 bs), DstPort = load16 e (drop 10 bs)\<rparr>"

lemma unmarshal_key_bytes:
  "unmarshal_key e (key_bytes e k) = \<lparr>SrcIP = src_ip k, DstIP = dest_ip k, SrcPort = src_port k,
     DstPort = dest_port k\<rparr>"
  using load_store16 [of e "dest_port k" "[]"] by (simp add: unmarshal_key_def key_bytes_def)

text \<open>
  What the agent gets for the entries of a batch: the count, the error of an exhausted map
  when there was room for more, and the two buffers, filled from the front.
\<close>

definition batch_result_of :: "byte_order \<Rightarrow> nat \<Rightarrow> (ip_key \<times> u64) list \<Rightarrow> batch_result" where
  "batch_result_of e cap ps =
     \<lparr>batch_count = int (length ps),
      batch_err = (if length ps < cap then Some ErrKeyNotExist else None),
      batch_keys = map (\<lambda>p. unmarshal_key e (key_bytes e (fst p))) ps
        @ replicate (cap - length ps) \<lparr>SrcIP = 0, DstIP = 0, SrcPort = 0, DstPort = 0\<rparr>,
      batch_values = map (\<lambda>p. \<lparr>PacketSize = snd p\<rparr>) ps @ replicate (cap - length ps) \<lparr>PacketSize = 0\<rparr>\<rparr>"

text \<open>What a flush does to the server: every message it posts is handled.\<close>

definition post_request :: "u8 list \<Rightarrow> http_request" where
  "post_request content = \<lparr>Method = ''POST'', Body = Some (full_slice content)\<rparr>"

fun deliver :: "tick_outcome \<Rightarrow> Server \<Rightarrow> Server" where
  "deliver (Sent bodies err) s = fold (\<lambda>b. after_request (post_request b)) bodies s"
| "deliver _ s = s"

lemma after_wire:
  assumes "length keys = length values" "fits (length keys)"
  shows "after_request (post_request (wire keys values)) s = charged (map2 entry_of keys values) s"
proof -
  have "Decode (full_slice (wire keys values)) = Inr (Inr (map2 entry_of keys values))"
    by (rule Decode_Encode_eq) (use assms in \<open>simp_all add: Encode_ok\<close>)
  then show ?thesis by (simp add: after_request_def handlePayload_eq post_request_def)
qed

lemma kept_batch:
  "kept objs (batch_result_of e cap ps)
    = map (\<lambda>p. (unmarshal_key e (key_bytes e (fst p)), \<lparr>PacketSize = snd p\<rparr>))
        (filter (\<lambda>p. Ntohl (src_ip (fst p)) \<in> host_addrs (store_pods objs)) ps)"
  by (simp add: kept_def batch_pairs_def batch_result_of_def zip_map1 zip_map2 zip_same_conv_map
      filter_map comp_def own_flow_def unmarshal_key_bytes split_def)

text \<open>The flush of a batch, seen from the server.\<close>

lemma deliver_flush:
  assumes "store_ok objs" "send_data f" "\<And>url. new_request client url = None"
    and "length ps \<le> cap" "fits cap"
    and "flush_tick f client (batch_result_of e cap ps) objs = Inr out"
  shows "deliver out s = charged (map (\<lambda>p. entry_of (unmarshal_key e (key_bytes e (fst p))) \<lparr>PacketSize = snd p\<rparr>)
    (filter (\<lambda>p. Ntohl (src_ip (fst p)) \<in> host_addrs (store_pods objs)) ps)) s"
proof -
  let ?b = "batch_result_of e cap ps"
  let ?own = "filter (\<lambda>p. Ntohl (src_ip (fst p)) \<in> host_addrs (store_pods objs)) ps"
  have ok: "batch_ok ?b" using assms(4) by (simp add: batch_ok_def batch_result_of_def)
  have none: "charged [] s = s" by (simp add: charged_def)
  have err: "batch_err ?b \<noteq> Some (OtherBatchError t)" for t by (simp add: batch_result_of_def)
  have "length ?own \<le> cap" using assms(4) le_trans length_filter_le by blast
  with assms(5) have fits: "fits (length ?own)" by (simp add: fits_def)
  have out: "out = (if ps = [] then NoData else if ?own = [] then NothingToSend
      else case_prod Sent (send_result client (server_url f)
        (wire (map fst (kept objs ?b)) (map snd (kept objs ?b)))))"
    using assms(2,6) err by (auto simp: flush_tick_eq [OF ok assms(1)] kept_batch
      split: option.splits batch_error.splits)
      (auto simp: batch_result_of_def)
  show ?thesis
  proof (cases "?own = []")
    case True
    then show ?thesis using none by (auto simp: out)
  next
    case False
    then have "deliver out s = after_request (post_request (wire (map fst (kept objs ?b)) (map snd (kept objs ?b)))) s"
      using assms(3) by (auto simp: out send_result_def)
    also have "\<dots> = charged (map2 entry_of (map fst (kept objs ?b)) (map snd (kept objs ?b))) s"
      using fits by (intro after_wire) (simp_all add: kept_batch)
    finally show ?thesis
      by (simp add: kept_batch zip_map1 zip_map2 zip_same_conv_map comp_def)
  qed
qed

section \<open>From the packets to the counters\<close>

text \<open>A packet that the flush charges to \<open>k\<close>, in terms of the packet's own bytes.\<close>

definition billed ::
    "('skb, 'ptr, 'map, 'r) kernel \<Rightarrow> ('skb \<Rightarrow> u8 list) \<Rightarrow> subnet \<Rightarrow> v1_Pod list \<Rightarrow> Server \<Rightarrow> podKey
      \<Rightarrow> 'skb \<Rightarrow> bool" where
  "billed K pkt cfg pods s k skb \<longleftrightarrow>
     observed LE K pkt cfg skb \<noteq> None \<and> ip_src (pkt skb) \<in> host_addrs pods \<and>
     (\<exists>z k' z'. resolve_source s (ip_src (pkt skb)) = Some (k, z) \<and>
        resolve_destination s (ip_dst (pkt skb)) = Some (k', z') \<and> z \<noteq> z')"

definition billed_flow :: "v1_Pod list \<Rightarrow> Server \<Rightarrow> podKey \<Rightarrow> ip_key \<Rightarrow> bool" where
  "billed_flow pods s k f \<longleftrightarrow>
     Ntohl (src_ip f) \<in> host_addrs pods \<and>
     (\<exists>z k' z'. resolve_source s (Ntohl (src_ip f)) = Some (k, z) \<and>
        resolve_destination s (Ntohl (dest_ip f)) = Some (k', z') \<and> z \<noteq> z')"

lemma observed_SomeD:
  "observed e K pkt cfg skb = Some p \<Longrightarrow> p = (flow_of e (pkt skb), ucast (ip_total (pkt skb)))"
  by (simp add: observed_def Let_def split: if_split_asm)

lemma billed_Some:
  "observed LE K pkt cfg skb = Some p \<Longrightarrow> billed K pkt cfg pods s k skb = billed_flow pods s k (fst p)"
proof -
  assume obs: "observed LE K pkt cfg skb = Some p"
  have "Ntohl (src_ip (fst p)) = ip_src (pkt skb)" "Ntohl (dest_ip (fst p)) = ip_dst (pkt skb)"
    by (simp_all add: observed_SomeD [OF obs] flow_of_def native32_LE)
  then show ?thesis unfolding billed_def billed_flow_def by (simp only: obs) simp
qed

lemma sum_postings:
  "sum_list (map snd (filter (\<lambda>q. billed_flow pods s k (fst q)) (postings LE K pkt cfg skbs)))
    = (\<Sum>skb\<leftarrow>filter (billed K pkt cfg pods s k) skbs. ucast (ip_total (pkt skb)))"
proof (induction skbs)
  case Nil
  then show ?case by simp
next
  case (Cons skb skbs)
  show ?case
  proof (cases "observed LE K pkt cfg skb")
    case None
    then have "\<not> billed K pkt cfg pods s k skb" by (simp add: billed_def)
    with None Cons.IH show ?thesis by simp
  next
    case (Some p)
    then have "snd p = ucast (ip_total (pkt skb))" using observed_SomeD by fastforce
    with Some billed_Some [OF Some, of pods s k] Cons.IH show ?thesis by simp
  qed
qed

lemma charge_iff:
  "(\<exists>v. charge (directory s) e = Some (k, v)) \<longleftrightarrow>
    (\<exists>z k' z'. resolve_source s (ESrcIP e) = Some (k, z)
      \<and> resolve_destination s (EDstIP e) = Some (k', z') \<and> z \<noteq> z')"
  by (auto simp: charge_def directory_def resolve_destination_eq split: option.splits prod.splits if_splits)

lemma lookup0_flushed:
  "lookup0 (statistics (charged (map (\<lambda>p. entry_of (unmarshal_key e (key_bytes e (fst p))) \<lparr>PacketSize = snd p\<rparr>)
      (filter (\<lambda>p. Ntohl (src_ip (fst p)) \<in> host_addrs pods) ps)) s)) k
    = lookup0 (statistics s) k + sum_list (map snd (filter (\<lambda>p. billed_flow pods s k (fst p)) ps))"
proof -
  let ?entry = "\<lambda>p. entry_of (unmarshal_key e (key_bytes e (fst p))) \<lparr>PacketSize = snd p\<rparr>"
  let ?own = "\<lambda>p. Ntohl (src_ip (fst p)) \<in> host_addrs pods"
  have one: "?own p \<and> (\<exists>v. charge (directory s) (?entry p) = Some (k, v)) \<longleftrightarrow> billed_flow pods s k (fst p)"
    for p :: "ip_key \<times> u64"
    unfolding charge_iff billed_flow_def by (simp add: entry_of_def unmarshal_key_bytes)
  have traffic: "Traffic \<circ> ?entry = snd" by (simp add: fun_eq_iff entry_of_def)
  have "map Traffic (filter (\<lambda>e. \<exists>v. charge (directory s) e = Some (k, v)) (map ?entry (filter ?own ps)))
      = map (Traffic \<circ> ?entry) (filter (\<lambda>p. ?own p \<and> (\<exists>v. charge (directory s) (?entry p) = Some (k, v))) ps)"
    by (simp only: filter_map filter_filter map_map comp_def)
  also have "\<dots> = map snd (filter (\<lambda>p. billed_flow pods s k (fst p)) ps)"
    by (simp only: one traffic)
  finally show ?thesis by (simp only: lookup0_charged)
qed

text \<open>
  C10. End to end. Start from an empty map on a little-endian host, let any packets pass the
  hook as long as their flows fit the map, and flush once: whatever the batch's order and
  the client's answer, the server's counter of each key has grown by exactly the IP total
  lengths of the packets that were counted, whose source is one of the host's own pods, and
  whose source resolves to that key in another zone than the destination's (modulo \<open>2 ^ 64\<close>).
\<close>

theorem packets_reach_counters:
  assumes "bpf_kernel_batch LE K pkt contents valid batch" "valid m" "contents m = Map.empty"
    and "card (fst ` set (postings LE K pkt cfg skbs)) \<le> max_entries ip_map"
    and "batch (max_entries ip_map) (hook_run LE K cfg skbs m) = (ps, m')"
    and "store_ok objs" "send_data f" "\<And>url. new_request client url = None"
    and "flush_tick f client (batch_result_of LE (max_entries ip_map) ps) objs = Inr out"
  shows "lookup0 (statistics (deliver out s)) k = lookup0 (statistics s) k
    + (\<Sum>skb\<leftarrow>filter (billed K pkt cfg (store_pods objs) s k) skbs. ucast (ip_total (pkt skb)))"
proof -
  let ?m = "hook_run LE K cfg skbs m"
  let ?cap = "max_entries ip_map"
  note kernel = bpf_kernel_batch.axioms(1) [OF assms(1)]
  have full: "contents ?m = fold (\<lambda>(k, d). bump k d) (postings LE K pkt cfg skbs) Map.empty"
    using bpf_kernel.hook_run_contents [OF kernel assms(2)] assms(3,4) by simp
  have v: "valid ?m" by (rule bpf_kernel.hook_run_valid [OF kernel assms(2)])
  have card: "card (dom (contents ?m)) \<le> ?cap" using assms(4) by (simp add: full dom_bumps)
  have graph: "set ps = Map.graph (fold (\<lambda>(k, d). bump k d) (postings LE K pkt cfg skbs) Map.empty)"
    using bpf_kernel_batch.batch_all [OF assms(1) v card] unfolding assms(5) full by simp
  have dist: "distinct (map fst ps)" and len: "length ps \<le> ?cap"
    using bpf_kernel_batch.batch_distinct [OF assms(1) v, of ?cap]
      bpf_kernel_batch.batch_length [OF assms(1) v, of ?cap] by (simp_all add: assms(5))
  have "fits ?cap" by (simp add: fits_def ip_map_def)
  from deliver_flush [OF assms(6,7,8) len this assms(9)] lookup0_flushed
  have "lookup0 (statistics (deliver out s)) k = lookup0 (statistics s) k
      + sum_list (map snd (filter (\<lambda>p. billed_flow (store_pods objs) s k (fst p)) ps))"
    by simp
  also have "sum_list (map snd (filter (\<lambda>p. billed_flow (store_pods objs) s k (fst p)) ps))
      = sum_list (map snd (filter (\<lambda>p. billed_flow (store_pods objs) s k (fst p)) (postings LE K pkt cfg skbs)))"
    by (rule sum_drained [OF graph dist])
  finally show ?thesis by (simp only: sum_postings)
qed

text \<open>
  The witness: two packets from 10.0.0.1 to 10.0.0.2, pods in different zones, add 3000 bytes
  to the sender's counter although the server answers with an error status.
\<close>

definition sample_flags :: flags where
  "sample_flags = \<lparr>subnet_cidr = ''10.0.0.0/24'', flush_interval = 10, server_url = ''http://server'',
     node_name = ''n1'', debug = False, send_data = True\<rparr>"

definition sample_client :: http_client where
  "sample_client = \<lparr>new_request = \<lambda>_. None,
     do_request = \<lambda>_ _. Inr \<lparr>StatusCode = 500, response_body = Inr ''busy''\<rparr>\<rparr>"

definition sample_store :: "k8s_obj list" where
  "sample_store = [PodObj \<lparr>pod_Namespace = ''default'', pod_Name = ''web'', pod_NodeName = ''n1'',
     pod_HostIP = ''192.168.0.1'', pod_PodIPs = [''10.0.0.1'']\<rparr>]"

definition sample_run :: "slots" where
  "sample_run = hook_run LE (sim_kernel LE) sample_subnet [sample_skb, sample_skb] empty_slots"

theorem packets_reach_counters_witness:
  "\<exists>out. flush_tick sample_flags sample_client
       (batch_result_of LE (max_entries ip_map) (fst (slot_batch (max_entries ip_map) sample_run)))
       sample_store = Inr out
    \<and> lookup0 (statistics (deliver out sample_server)) \<lparr>pk_namespace = ''default'', pk_name = ''web''\<rparr> = 3000"
proof -
  let ?ps = "fst (slot_batch (max_entries ip_map) sample_run)"
  let ?m' = "snd (slot_batch (max_entries ip_map) sample_run)"
  have batch: "slot_batch (max_entries ip_map) (hook_run LE (sim_kernel LE) sample_subnet
      [sample_skb, sample_skb] empty_slots) = (?ps, ?m')"
    by (simp add: sample_run_def)
  have card: "card (fst ` set (postings LE (sim_kernel LE) skb_packet sample_subnet [sample_skb, sample_skb]))
      \<le> max_entries ip_map"
    by (simp add: observed_sample ip_map_def)
  have len: "length ?ps \<le> max_entries ip_map" using slot_batch_split [of sample_run] by blast
  have ok: "batch_ok (batch_result_of LE (max_entries ip_map) ?ps)"
    using len by (simp add: batch_ok_def batch_result_of_def)
  have store: "store_ok sample_store" by (simp add: store_ok_def sample_store_def)
  obtain out where out: "flush_tick sample_flags sample_client
      (batch_result_of LE (max_entries ip_map) ?ps) sample_store = Inr out"
    using flush_tick_total [OF ok store] by blast
  have pods: "host_addrs (store_pods sample_store) = {0x0A000001}"
    using addr_of_string4 [of "[10, 0, 0, 1]"]
    by (simp add: host_addrs_def store_pods_def sample_store_def List.map_filter_def string4_samples rd32_def)
  have fields: "ip_src sample_packet = 0x0A000001" "ip_dst sample_packet = 0x0A000002"
    "ip_total sample_packet = 1500"
    by (simp_all add: ip_src_def ip_dst_def ip_total_def sample_packet_def rd32_def rd16_def)
  have "billed (sim_kernel LE) skb_packet sample_subnet (store_pods sample_store) sample_server
      \<lparr>pk_namespace = ''default'', pk_name = ''web''\<rparr> sample_skb"
    using resolve_sample observed_sample
    by (simp add: billed_def pods sample_skb_def fields resolve_destination_eq)
  moreover have "lookup0 (statistics sample_server) k = 0" for k
    by (simp add: sample_server_def init_server_def lookup0_def)
  ultimately show ?thesis
    using packets_reach_counters [OF sim_batch.bpf_kernel_batch_axioms empty_slots_valid card batch store
        _ _ out, of sample_server "\<lparr>pk_namespace = ''default'', pk_name = ''web''\<rparr>"] out
    by (simp add: sample_flags_def sample_client_def sample_skb_def fields)
qed

end
