(* ===== verification/Cluster.thy ===== *)
theory Cluster
  imports Pipeline Server_System
begin

text \<open>
  The whole system: the nodes with their flow maps, the messages between the agents and the
  server, and the server, moving in any order. Agents may lose a batch or restart, the network
  may lose and reorder messages, pods come and go. A packet is counted in one step here; what
  happens between the two kernel calls of that step is the subject of the concurrent hook.
\<close>

lemma map_val_post_bounded:
  assumes "finite (dom m)"
  shows "map_val unat P (post_bounded cap k d m) \<le> map_val unat P m + (if P k then unat d else 0)"
  using map_val_bump(2) [OF assms, of P k d] by (auto simp: post_bounded_def)

section \<open>Messages\<close>

text \<open>The entry a server reads for an entry of a node's map, and the entries of a message.\<close>

definition flow_entry :: "ip_key \<times> u64 \<Rightarrow> Entry" where
  "flow_entry p = entry_of (unmarshal_key LE (key_bytes LE (fst p))) \<lparr>PacketSize = snd p\<rparr>"

lemma flow_entry_simps [simp]:
  "ESrcIP (flow_entry p) = Ntohl (src_ip (fst p))" "EDstIP (flow_entry p) = Ntohl (dest_ip (fst p))"
  "Traffic (flow_entry p) = snd p"
  by (simp_all add: flow_entry_def entry_of_def unmarshal_key_bytes)

definition msg_entries :: "u8 list \<Rightarrow> Entry list" where
  "msg_entries b = (case Decode (full_slice b) of Inr (Inr es) \<Rightarrow> es | _ \<Rightarrow> [])"

lemma after_post: "after_request (post_request b) s = charged (msg_entries b) s"
proof -
  have "charged [] s = s" by (simp add: charged_def)
  then show ?thesis
    by (auto simp: after_request_def handlePayload_eq post_request_def msg_entries_def split: sum.splits)
qed

text \<open>What a flush puts on the wire.\<close>

fun bodies :: "tick_outcome \<Rightarrow> u8 list list" where
  "bodies (Sent bs err) = bs"
| "bodies _ = []"

definition own_entries :: "v1_Pod list \<Rightarrow> (ip_key \<times> u64) list \<Rightarrow> Entry list" where
  "own_entries pods ps = map flow_entry (filter (\<lambda>p. Ntohl (src_ip (fst p)) \<in> host_addrs pods) ps)"

lemma flush_bodies:
  assumes "store_ok objs" "length ps \<le> max_entries ip_map"
    and "flush_tick f client (batch_result_of LE (max_entries ip_map) ps) objs = Inr out"
  shows "concat (map msg_entries (bodies out)) \<in> {[], own_entries (store_pods objs) ps}"
    and "send_data f \<Longrightarrow> (\<And>url. new_request client url = None) \<Longrightarrow>
      concat (map msg_entries (bodies out)) = own_entries (store_pods objs) ps"
proof -
  let ?b = "batch_result_of LE (max_entries ip_map) ps"
  let ?ks = "map fst (kept objs ?b)" and ?vs = "map snd (kept objs ?b)"
  have ok: "batch_ok ?b" using assms(2) by (simp add: batch_ok_def batch_result_of_def)
  have err: "batch_err ?b \<noteq> Some (OtherBatchError t)" for t by (simp add: batch_result_of_def)
  have entries: "map2 entry_of ?ks ?vs = own_entries (store_pods objs) ps"
    by (simp add: own_entries_def kept_batch zip_map1 zip_map2 zip_same_conv_map comp_def flow_entry_def)
  have "length (kept objs ?b) \<le> max_entries ip_map"
    using assms(2) by (simp add: kept_batch) (meson le_trans length_filter_le)
  then have fits: "fits (length ?ks)" by (simp add: fits_def ip_map_def)
  have wire: "msg_entries (wire ?ks ?vs) = own_entries (store_pods objs) ps"
    using fits Decode_Encode_eq [of ?ks ?vs "full_slice (wire ?ks ?vs)"]
    by (simp add: msg_entries_def Encode_ok entries)
  have none: "own_entries (store_pods objs) ps = []" if "kept objs ?b = []"
    using entries that by simp
  have out: "out = (if ps = [] then NoData
      else if \<not> send_data f then SendingDisabled
      else if kept objs ?b = [] then NothingToSend
      else case_prod Sent (send_result client (server_url f) (wire ?ks ?vs)))"
    using assms(3) err by (auto simp: flush_tick_eq [OF ok assms(1)] split: option.splits batch_error.splits)
      (auto simp: batch_result_of_def)
  have sent: "bodies (case_prod Sent (send_result client (server_url f) (wire ?ks ?vs)))
      = (if new_request client (server_url f) = None then [wire ?ks ?vs] else [])"
    by (simp add: send_result_def split: option.split)
  show "concat (map msg_entries (bodies out)) \<in> {[], own_entries (store_pods objs) ps}"
    using wire by (simp add: out sent)
  show "concat (map msg_entries (bodies out)) = own_entries (store_pods objs) ps"
    if "send_data f" "\<And>url. new_request client url = None"
    using wire none that by (simp add: out sent own_entries_def)
qed

section \<open>The system\<close>

text \<open>
  The ghost field \<open>seen\<close> lists, for each node, the flows and sizes of the packets its hook was
  run on. A packet between two nodes passes the hooks of both.
\<close>

record ('n, 'map) world =
  node_map :: "'n \<Rightarrow> 'map"
  wire_bodies :: "u8 list multiset"
  server :: Server
  seen :: "'n \<Rightarrow> (ip_key \<times> u64) list"

definition boot :: "'map \<Rightarrow> ('n, 'map) world" where
  "boot fresh = \<lparr>node_map = \<lambda>_. fresh, wire_bodies = {#}, server = init_server, seen = \<lambda>_. []\<rparr>"

text \<open>
  \<open>Own k\<close> are the addresses a key ever has: watch events give a pod none but its own and its
  node's. Other requests than the agents' are left out.
\<close>

fun in_own :: "(podKey \<Rightarrow> u32 set) \<Rightarrow> server_event \<Rightarrow> bool" where
  "in_own Own (PodAdd (PodObj pod)) = (\<forall>ip \<in> set (pod_addrs pod).
     ip \<in> Own (if host_network pod ip then node_key (pod_NodeName pod) else pod_key pod))"
| "in_own Own (PodUpdate oldObj (PodObj pod)) = (\<forall>ip \<in> set (pod_addrs pod).
     ip \<in> Own (if host_network pod ip then node_key (pod_NodeName pod) else pod_key pod))"
| "in_own Own (Request r) = False"
| "in_own Own _ = True"

text \<open>
  \<open>Home n\<close> are the addresses of the pods that node \<open>n\<close>'s informer may report. A flush drains
  the node's map and posts what the agent makes of it; when the read fails or the agent is
  replaced, what the map held is gone. A server that is replaced starts from nothing, as
\<open>Run\<close> sets it up, and hears of the pods and nodes again.
\<close>

inductive world_step ::
    "('skb, 'ptr, 'map, 'r) kernel \<Rightarrow> ('skb \<Rightarrow> u8 list) \<Rightarrow> subnet
      \<Rightarrow> (nat \<Rightarrow> 'map \<Rightarrow> (ip_key \<times> u64) list \<times> 'map) \<Rightarrow> 'map \<Rightarrow> ('n \<Rightarrow> u32 set) \<Rightarrow> (podKey \<Rightarrow> u32 set)
      \<Rightarrow> ('n, 'map) world \<Rightarrow> ('n, 'map) world \<Rightarrow> bool"
  for K pkt cfg batch fresh Home Own where
  packet: "world_step K pkt cfg batch fresh Home Own w
    (w\<lparr>node_map := (node_map w)(n := snd (nf_postrouting_hook LE K cfg skb (node_map w n))),
       seen := (seen w)(n := seen w n @ postings LE K pkt cfg [skb])\<rparr>)"
| flush: "batch (max_entries ip_map) (node_map w n) = (ps, m') \<Longrightarrow>
    store_ok objs \<Longrightarrow> host_addrs (store_pods objs) \<subseteq> Home n \<Longrightarrow>
    flush_tick f client (batch_result_of LE (max_entries ip_map) ps) objs = Inr out \<Longrightarrow>
    world_step K pkt cfg batch fresh Home Own w
      (w\<lparr>node_map := (node_map w)(n := m'), wire_bodies := wire_bodies w + mset (bodies out)\<rparr>)"
| read_error: "batch (max_entries ip_map) (node_map w n) = (ps, m') \<Longrightarrow>
    world_step K pkt cfg batch fresh Home Own w (w\<lparr>node_map := (node_map w)(n := m')\<rparr>)"
| restart: "world_step K pkt cfg batch fresh Home Own w (w\<lparr>node_map := (node_map w)(n := fresh)\<rparr>)"
| lose: "wire_bodies w = add_mset b rest \<Longrightarrow>
    world_step K pkt cfg batch fresh Home Own w (w\<lparr>wire_bodies := rest\<rparr>)"
| handle: "wire_bodies w = add_mset b rest \<Longrightarrow>
    world_step K pkt cfg batch fresh Home Own w
      (w\<lparr>wire_bodies := rest, server := after_request (post_request b) (server w)\<rparr>)"
| watch: "server_step ev (server w) s' \<Longrightarrow> in_own Own ev \<Longrightarrow>
    world_step K pkt cfg batch fresh Home Own w (w\<lparr>server := s'\<rparr>)"
| server_restart: "world_step K pkt cfg batch fresh Home Own w (w\<lparr>server := init_server\<rparr>)"

section \<open>Accounting\<close>

text \<open>
  The flows of a node that are of interest: their source is at home there, and source and
  destination satisfy a predicate.
\<close>

definition homed :: "('n \<Rightarrow> u32 set) \<Rightarrow> (u32 \<Rightarrow> u32 \<Rightarrow> bool) \<Rightarrow> 'n \<Rightarrow> ip_key \<Rightarrow> bool" where
  "homed Home Q n f \<longleftrightarrow> Ntohl (src_ip f) \<in> Home n \<and> Q (Ntohl (src_ip f)) (Ntohl (dest_ip f))"

definition entries_val :: "(u64 \<Rightarrow> 'a::comm_monoid_add) \<Rightarrow> (u32 \<Rightarrow> u32 \<Rightarrow> bool) \<Rightarrow> Entry list \<Rightarrow> 'a" where
  "entries_val val Q es = (\<Sum>e\<leftarrow>es. if Q (ESrcIP e) (EDstIP e) then val (Traffic e) else 0)"

definition msg_val :: "(u64 \<Rightarrow> 'a::comm_monoid_add) \<Rightarrow> (u32 \<Rightarrow> u32 \<Rightarrow> bool) \<Rightarrow> u8 list \<Rightarrow> 'a" where
  "msg_val val Q b = entries_val val Q (msg_entries b)"

definition on_nodes ::
    "(u64 \<Rightarrow> 'a::comm_monoid_add) \<Rightarrow> ('map \<Rightarrow> ip_key \<rightharpoonup> u64) \<Rightarrow> ('n::finite \<Rightarrow> u32 set)
      \<Rightarrow> (u32 \<Rightarrow> u32 \<Rightarrow> bool) \<Rightarrow> ('n \<Rightarrow> 'map) \<Rightarrow> 'a" where
  "on_nodes val contents Home Q ms = (\<Sum>n\<in>UNIV. map_val val (homed Home Q n) (contents (ms n)))"

definition under_way ::
    "(u64 \<Rightarrow> 'a::comm_monoid_add) \<Rightarrow> ('map \<Rightarrow> ip_key \<rightharpoonup> u64) \<Rightarrow> ('n::finite \<Rightarrow> u32 set)
      \<Rightarrow> (u32 \<Rightarrow> u32 \<Rightarrow> bool) \<Rightarrow> ('n, 'map) world \<Rightarrow> 'a" where
  "under_way val contents Home Q w =
     (\<Sum>b\<in>#wire_bodies w. msg_val val Q b) + on_nodes val contents Home Q (node_map w)"

definition sent ::
    "(u64 \<Rightarrow> 'a::comm_monoid_add) \<Rightarrow> ('n::finite \<Rightarrow> u32 set) \<Rightarrow> (u32 \<Rightarrow> u32 \<Rightarrow> bool) \<Rightarrow> ('n, 'map) world \<Rightarrow> 'a" where
  "sent val Home Q w = (\<Sum>n\<in>UNIV. list_val val (homed Home Q n) (seen w n))"

lemma sum_fun_upd:
  "(\<Sum>i\<in>UNIV. F i ((g(n := x)) i)) = F n x + (\<Sum>i\<in>UNIV - {n}. F i (g i))" for n :: "'n::finite"
  by (subst sum.remove [of UNIV n]) (auto intro: sum.cong)

lemma sum_at: "(\<Sum>i\<in>UNIV. F i (g i)) = F n (g n) + (\<Sum>i\<in>UNIV - {n}. F i (g i))" for n :: "'n::finite"
  by (rule sum.remove) auto

lemma entries_val_append [simp]: "entries_val val Q (es @ es') = entries_val val Q es + entries_val val Q es'"
  by (simp add: entries_val_def)

lemma entries_val_Nil [simp]: "entries_val val Q [] = 0"
  by (simp add: entries_val_def)

lemma sum_bodies: "(\<Sum>b\<in>#mset bs. msg_val val Q b) = entries_val val Q (concat (map msg_entries bs))"
  by (induction bs) (simp_all add: msg_val_def)

lemma entries_val_own:
  "entries_val val Q (own_entries pods ps) =
     list_val val (\<lambda>f. Ntohl (src_ip f) \<in> host_addrs pods \<and> Q (Ntohl (src_ip f)) (Ntohl (dest_ip f))) ps"
  by (induction ps) (simp_all add: own_entries_def entries_val_def)

lemma list_val_mono: "(\<And>k. P k \<Longrightarrow> P' k) \<Longrightarrow> list_val unat P ps \<le> list_val unat P' ps"
  unfolding list_val_def by (intro sum_list_mono) auto

lemma on_nodes_upd:
  "on_nodes val contents Home Q (ms(n := m)) + map_val val (homed Home Q n) (contents (ms n))
    = on_nodes val contents Home Q ms + map_val val (homed Home Q n) (contents m)"
  unfolding on_nodes_def
  using sum_fun_upd [of "\<lambda>n m. map_val val (homed Home Q n) (contents m)" ms n m]
    sum_at [of "\<lambda>n m. map_val val (homed Home Q n) (contents m)" ms n]
  by (simp add: ac_simps)

lemma sent_upd:
  "sent val Home Q (w\<lparr>seen := (seen w)(n := seen w n @ ps)\<rparr>) = sent val Home Q w + list_val val (homed Home Q n) ps"
  unfolding sent_def
  using sum_fun_upd [of "\<lambda>n. list_val val (homed Home Q n)" "seen w" n "seen w n @ ps"]
    sum_at [of "\<lambda>n. list_val val (homed Home Q n)" "seen w" n]
  by (simp add: ac_simps)

lemma sent_frame [simp]:
  "sent val Home Q (w\<lparr>node_map := x\<rparr>) = sent val Home Q w"
  "sent val Home Q (w\<lparr>wire_bodies := y\<rparr>) = sent val Home Q w"
  "sent val Home Q (w\<lparr>server := z\<rparr>) = sent val Home Q w"
  by (simp_all add: sent_def)

lemma sent_counted:
  "sent val Home Q (w\<lparr>node_map := x, seen := (seen w)(n := seen w n @ ps)\<rparr>)
    = sent val Home Q w + list_val val (homed Home Q n) ps"
  using sent_upd [of val Home Q "w\<lparr>node_map := x\<rparr>" n ps] by simp

context bpf_kernel_batch
begin

lemma drain_val:
  assumes "valid m" "batch n m = (ps, m')"
  shows "map_val val P (contents m') + list_val val P ps = map_val val P (contents m)"
    and "valid m'" and "length ps \<le> n"
proof -
  have fin: "finite (dom (contents m))" using bounded [OF assms(1)] by blast
  show "map_val val P (contents m') + list_val val P ps = map_val val P (contents m)"
    using map_val_batch [OF fin batch_entries [OF assms(1), of n] batch_distinct [OF assms(1), of n], of val P]
      batch_rest [OF assms(1), of n] assms(2) by simp
  show "valid m'" "length ps \<le> n"
    using batch_valid [OF assms(1), of n] batch_length [OF assms(1), of n] assms(2) by simp_all
qed

lemma count_val:
  assumes "valid m"
  shows "map_val unat P (contents (snd (nf_postrouting_hook e K cfg skb m)))
    \<le> map_val unat P (contents m) + list_val unat P (postings e K pkt cfg [skb])"
proof -
  have fin: "finite (dom (contents m))" using bounded [OF assms] by blast
  show ?thesis
  proof (cases "observed e K pkt cfg skb")
    case None
    then show ?thesis using hook_contents [OF assms, of cfg skb] by simp
  next
    case (Some p)
    then show ?thesis
      using hook_contents [OF assms, of cfg skb] map_val_post_bounded [OF fin, of P _ "fst p" "snd p"]
      by (simp add: split_beta)
  qed
qed

end

section \<open>No pod is billed for more than it sent\<close>

text \<open>The server's indexes give a key none but its own addresses.\<close>

definition addressed :: "(podKey \<Rightarrow> u32 set) \<Rightarrow> Server \<Rightarrow> bool" where
  "addressed Own s \<longleftrightarrow> (\<forall>ip k. podIpIndex s ip = Some k \<longrightarrow> ip \<in> Own k)
    \<and> (\<forall>ip n. nodeIpIndex s ip = Some n \<longrightarrow> ip \<in> Own (node_key n))"

lemma addressed_effect: "in_own Own ev \<Longrightarrow> addressed Own s \<Longrightarrow> addressed Own (effect ev s)"
  by (induction ev s rule: effect.induct)
    (auto simp: addressed_def indexed_def unindexed_def split: if_splits)

lemma addressed_charged: "addressed Own s \<Longrightarrow> addressed Own (charged es s)"
  by (simp add: addressed_def)

lemma charge_in_own:
  "addressed Own s \<Longrightarrow> charge (directory s) e = Some (k, v) \<Longrightarrow> ESrcIP e \<in> Own k"
  by (auto simp: addressed_def charge_def directory_def resolve_source_def
      split: option.splits prod.splits if_splits)

lemma effect_counter:
  "in_own Own ev \<Longrightarrow> unat (lookup0 (statistics (effect ev s)) k) \<le> unat (lookup0 (statistics s) k)"
  by (induction ev s rule: effect.induct)
    (auto simp: indexed_def unindexed_def lookup0_def split: option.splits)

lemma charged_counter:
  assumes "addressed Own s"
  shows "unat (lookup0 (statistics (charged es s)) k)
    \<le> unat (lookup0 (statistics s) k) + entries_val unat (\<lambda>a _. a \<in> Own k) es"
proof -
  let ?mine = "filter (\<lambda>e. \<exists>v. charge (directory s) e = Some (k, v)) es"
  have "unat (lookup0 (statistics (charged es s)) k)
      \<le> unat (lookup0 (statistics s) k) + sum_list (map (\<lambda>e. unat (Traffic e)) ?mine)"
    using unat_sum_list_le [of _ "map Traffic ?mine"] by (simp add: lookup0_charged o_def)
  also have "sum_list (map (\<lambda>e. unat (Traffic e)) ?mine) \<le> entries_val unat (\<lambda>a _. a \<in> Own k) es"
    using charge_in_own [OF assms] by (induction es) (auto simp: entries_val_def intro: add_mono)
  finally show ?thesis by simp
qed

definition billing_inv ::
    "('map \<Rightarrow> bool) \<Rightarrow> ('map \<Rightarrow> ip_key \<rightharpoonup> u64) \<Rightarrow> ('n::finite \<Rightarrow> u32 set) \<Rightarrow> (podKey \<Rightarrow> u32 set) \<Rightarrow> podKey
      \<Rightarrow> ('n, 'map) world \<Rightarrow> bool" where
  "billing_inv valid contents Home Own k w \<longleftrightarrow>
     (\<forall>n. valid (node_map w n)) \<and> addressed Own (server w) \<and>
     unat (lookup0 (statistics (server w)) k) + under_way unat contents Home (\<lambda>a _. a \<in> Own k) w
       \<le> sent unat Home (\<lambda>a _. a \<in> Own k) w"

lemma world_step_billing:
  fixes w :: "('n::finite, 'map) world"
  assumes "bpf_kernel_batch LE K pkt contents valid batch" "valid fresh" "contents fresh = Map.empty"
    and "world_step K pkt cfg batch fresh Home Own w w'"
    and "billing_inv valid contents Home Own k w"
  shows "billing_inv valid contents Home Own k w'"
proof -
  let ?Q = "\<lambda>a _. a \<in> Own k"
  let ?mv = "\<lambda>n m. map_val unat (homed Home ?Q n) (contents m)"
  let ?nodes = "on_nodes unat contents Home ?Q"
  note kernel = bpf_kernel_batch.axioms(1) [OF assms(1)]
  note upd = on_nodes_upd [of unat contents Home ?Q "node_map w"]
  from assms(5) have valid: "valid (node_map w n)" for n by (simp add: billing_inv_def)
  from assms(5) have addr: "addressed Own (server w)" by (simp add: billing_inv_def)
  from assms(5) have bal: "unat (lookup0 (statistics (server w)) k)
      + ((\<Sum>b\<in>#wire_bodies w. msg_val unat ?Q b) + ?nodes (node_map w)) \<le> sent unat Home ?Q w"
    by (simp add: billing_inv_def under_way_def)
  from assms(4) show ?thesis
  proof (cases rule: world_step.cases)
    case (packet n skb)
    let ?m = "snd (nf_postrouting_hook LE K cfg skb (node_map w n))"
    have "valid ?m" using bpf_kernel.hook_contents [OF kernel valid] by blast
    moreover have "?mv n ?m \<le> ?mv n (node_map w n) + list_val unat (homed Home ?Q n) (postings LE K pkt cfg [skb])"
      by (rule bpf_kernel_batch.count_val [OF assms(1) valid])
    ultimately show ?thesis
      using valid addr bal upd [of n ?m] unfolding packet
      by (simp add: billing_inv_def under_way_def sent_counted del: postings_Cons)
  next
    case (flush n ps m' objs f client out)
    note drain = bpf_kernel_batch.drain_val [OF assms(1) valid flush(2)]
    have "entries_val unat ?Q (own_entries (store_pods objs) ps) \<le> list_val unat (homed Home ?Q n) ps"
      unfolding entries_val_own using flush(4) by (intro list_val_mono) (auto simp: homed_def)
    moreover have "concat (map msg_entries (bodies out)) = []
        \<or> concat (map msg_entries (bodies out)) = own_entries (store_pods objs) ps"
      using flush_bodies(1) [OF flush(3) drain(3) flush(5)] by blast
    ultimately have "(\<Sum>b\<in>#mset (bodies out). msg_val unat ?Q b) \<le> list_val unat (homed Home ?Q n) ps"
      unfolding sum_bodies by (elim disjE) (simp_all only: entries_val_Nil le0)
    then show ?thesis
      using valid drain(2) addr bal upd [of n m'] drain(1) [of unat "homed Home ?Q n"] unfolding flush(1)
      by (simp add: billing_inv_def under_way_def)
  next
    case (read_error n ps m')
    note drain = bpf_kernel_batch.drain_val [OF assms(1) valid read_error(2)]
    show ?thesis
      using valid drain(2) addr bal upd [of n m'] drain(1) [of unat "homed Home ?Q n"] unfolding read_error(1)
      by (simp add: billing_inv_def under_way_def)
  next
    case (restart n)
    show ?thesis
      using valid addr bal upd [of n fresh] assms(2,3) unfolding restart
      by (simp add: billing_inv_def under_way_def)
  next
    case (lose b rest)
    then show ?thesis using valid addr bal by (simp add: billing_inv_def under_way_def)
  next
    case (handle b rest)
    then show ?thesis
      using valid addr bal charged_counter [OF addr, of "msg_entries b" k]
      by (simp add: billing_inv_def under_way_def after_post addressed_charged msg_val_def)
  next
    case (watch ev s')
    then have "s' = effect ev (server w)" using server_step_effect by blast
    then show ?thesis
      using valid addr bal addressed_effect [OF watch(3)] effect_counter [OF watch(3), of "server w" k] watch(1)
      by (simp add: billing_inv_def under_way_def)
  next
    case server_restart
    then show ?thesis
      using valid bal by (simp add: billing_inv_def under_way_def addressed_def init_server_def lookup0_def)
  qed
qed


section \<open>Every byte is billed\<close>

text \<open>
  The steps of a system in which nothing goes wrong: there is room in the maps, the agents know
  exactly the pods at home and reach the server, and of what the server's informers and scrapes
  bring meanwhile nothing changes whom an address belongs to, or a counter.
\<close>

inductive smooth_step ::
    "('skb, 'ptr, 'map, 'r) kernel \<Rightarrow> ('skb \<Rightarrow> u8 list) \<Rightarrow> subnet \<Rightarrow> ('map \<Rightarrow> ip_key \<rightharpoonup> u64)
      \<Rightarrow> (nat \<Rightarrow> 'map \<Rightarrow> (ip_key \<times> u64) list \<times> 'map) \<Rightarrow> ('n \<Rightarrow> u32 set) \<Rightarrow> (podKey \<Rightarrow> u32 set)
      \<Rightarrow> ('n, 'map) world \<Rightarrow> ('n, 'map) world \<Rightarrow> bool"
  for K pkt cfg contents batch Home Own where
  packet: "card (dom (contents (node_map w n)) \<union> fst ` set (postings LE K pkt cfg [skb])) \<le> max_entries ip_map \<Longrightarrow>
    smooth_step K pkt cfg contents batch Home Own w
      (w\<lparr>node_map := (node_map w)(n := snd (nf_postrouting_hook LE K cfg skb (node_map w n))),
         seen := (seen w)(n := seen w n @ postings LE K pkt cfg [skb])\<rparr>)"
| flush: "batch (max_entries ip_map) (node_map w n) = (ps, m') \<Longrightarrow>
    store_ok objs \<Longrightarrow> host_addrs (store_pods objs) = Home n \<Longrightarrow>
    send_data f \<Longrightarrow> (\<And>url. new_request client url = None) \<Longrightarrow>
    flush_tick f client (batch_result_of LE (max_entries ip_map) ps) objs = Inr out \<Longrightarrow>
    smooth_step K pkt cfg contents batch Home Own w
      (w\<lparr>node_map := (node_map w)(n := m'), wire_bodies := wire_bodies w + mset (bodies out)\<rparr>)"
| handle: "wire_bodies w = add_mset b rest \<Longrightarrow>
    smooth_step K pkt cfg contents batch Home Own w
      (w\<lparr>wire_bodies := rest, server := after_request (post_request b) (server w)\<rparr>)"
| watch: "server_step ev (server w) s' \<Longrightarrow> in_own Own ev \<Longrightarrow>
    directory s' = directory (server w) \<Longrightarrow> statistics s' = statistics (server w) \<Longrightarrow>
    smooth_step K pkt cfg contents batch Home Own w (w\<lparr>server := s'\<rparr>)"

text \<open>From one address to another, the key that pays.\<close>

definition pays :: "(u32 \<rightharpoonup> podKey \<times> string) \<Rightarrow> podKey \<Rightarrow> u32 \<Rightarrow> u32 \<Rightarrow> bool" where
  "pays d k a b \<longleftrightarrow> (\<exists>z k' z'. d a = Some (k, z) \<and> d b = Some (k', z') \<and> z \<noteq> z')"

lemma charge_pays: "(\<exists>v. charge d e = Some (k, v)) \<longleftrightarrow> pays d k (ESrcIP e) (EDstIP e)"
  by (auto simp: charge_def pays_def split: option.splits prod.splits if_splits)

lemma charged_exact:
  "lookup0 (statistics (charged es s)) k
    = lookup0 (statistics s) k + entries_val id (pays (directory s) k) es"
proof -
  have "sum_list (map Traffic (filter (\<lambda>e. P e) es)) = (\<Sum>e\<leftarrow>es. if P e then Traffic e else 0)" for P
    by (induction es) auto
  then show ?thesis by (simp add: lookup0_charged charge_pays entries_val_def cong: if_cong)
qed

context bpf_kernel_batch
begin

lemma count_exact:
  assumes "valid m"
    and "card (dom (contents m) \<union> fst ` set (postings e K pkt cfg [skb])) \<le> max_entries ip_map"
  shows "map_val id P (contents (snd (nf_postrouting_hook e K cfg skb m)))
    = map_val id P (contents m) + list_val id P (postings e K pkt cfg [skb])"
proof -
  have fin: "finite (dom (contents m))" using bounded [OF assms(1)] by blast
  have "contents (snd (nf_postrouting_hook e K cfg skb m))
      = fold (\<lambda>(k, d). bump k d) (postings e K pkt cfg [skb]) (contents m)"
    using hook_run_contents [OF assms] by (simp add: hook_run_def)
  then show ?thesis
    using map_val_bump(1) [OF fin, of P] by (simp split: option.split prod.split)
qed

end

definition smooth_inv ::
    "('map \<Rightarrow> bool) \<Rightarrow> ('map \<Rightarrow> ip_key \<rightharpoonup> u64) \<Rightarrow> ('n::finite \<Rightarrow> u32 set) \<Rightarrow> Server \<Rightarrow> podKey
      \<Rightarrow> ('n, 'map) world \<Rightarrow> bool" where
  "smooth_inv valid contents Home s0 k w \<longleftrightarrow>
     (\<forall>n. valid (node_map w n)) \<and> directory (server w) = directory s0 \<and>
     lookup0 (statistics (server w)) k + under_way id contents Home (pays (directory s0) k) w
       = lookup0 (statistics s0) k + sent id Home (pays (directory s0) k) w"

lemma smooth_step_inv:
  fixes w :: "('n::finite, 'map) world"
  assumes "bpf_kernel_batch LE K pkt contents valid batch"
    and "smooth_step K pkt cfg contents batch Home Own w w'"
    and "smooth_inv valid contents Home s0 k w"
  shows "smooth_inv valid contents Home s0 k w'"
proof -
  let ?Q = "pays (directory s0) k"
  let ?mv = "\<lambda>n m. map_val id (homed Home ?Q n) (contents m)"
  let ?nodes = "on_nodes id contents Home ?Q"
  note kernel = bpf_kernel_batch.axioms(1) [OF assms(1)]
  from assms(3) have valid: "valid (node_map w n)" for n by (simp add: smooth_inv_def)
  from assms(3) have dir: "directory (server w) = directory s0" by (simp add: smooth_inv_def)
  from assms(3) have bal: "lookup0 (statistics (server w)) k
      + ((\<Sum>b\<in>#wire_bodies w. msg_val id ?Q b) + ?nodes (node_map w))
    = lookup0 (statistics s0) k + sent id Home ?Q w"
    by (simp add: smooth_inv_def under_way_def)
  have upd: "?nodes ((node_map w)(n := m)) = ?nodes (node_map w) + ?mv n m - ?mv n (node_map w n)" for n m
    using on_nodes_upd [of id contents Home ?Q "node_map w" n m] by (simp add: eq_diff_eq)
  from assms(2) show ?thesis
  proof (cases rule: smooth_step.cases)
    case (packet n skb)
    have "valid (snd (nf_postrouting_hook LE K cfg skb (node_map w n)))"
      using bpf_kernel.hook_contents [OF kernel valid] by blast
    with valid dir bal bpf_kernel_batch.count_exact [OF assms(1) valid packet(2), of "homed Home ?Q n"]
    show ?thesis unfolding packet(1)
      by (simp add: smooth_inv_def under_way_def sent_counted upd algebra_simps del: postings_Cons)
  next
    case (flush n ps m' objs f client out)
    note drain = bpf_kernel_batch.drain_val [OF assms(1) valid flush(2)]
    have "concat (map msg_entries (bodies out)) = own_entries (store_pods objs) ps"
      by (rule flush_bodies(2) [OF flush(3) drain(3) flush(7,5,6)])
    then have "(\<Sum>b\<in>#mset (bodies out). msg_val id ?Q b) = list_val id (homed Home ?Q n) ps"
      unfolding sum_bodies by (simp add: entries_val_own flush(4) homed_def [abs_def])
    with valid drain(2) dir bal drain(1) [of id "homed Home ?Q n", symmetric] show ?thesis unfolding flush(1)
      by (simp add: smooth_inv_def under_way_def upd algebra_simps)
  next
    case (handle b rest)
    then show ?thesis
      using valid dir bal charged_exact [of "msg_entries b" "server w" k]
      by (simp add: smooth_inv_def under_way_def after_post msg_val_def algebra_simps)
  next
    case (watch ev s')
    then show ?thesis using valid dir bal by (simp add: smooth_inv_def under_way_def)
  qed
qed

lemma smooth_reachable_inv:
  fixes w :: "('n::finite, 'map) world"
  assumes "bpf_kernel_batch LE K pkt contents valid batch"
    and "(smooth_step K pkt cfg contents batch Home Own)\<^sup>*\<^sup>* w0 w"
    and "smooth_inv valid contents Home s0 k w0"
  shows "smooth_inv valid contents Home s0 k w"
  using assms(2,3) by (induction rule: rtranclp_induct) (auto intro: smooth_step_inv [OF assms(1)])

lemma smooth_start:
  "(\<And>n. valid (node_map w0 n)) \<Longrightarrow> (\<And>n. contents (node_map w0 n) = Map.empty) \<Longrightarrow>
   (\<And>n. seen w0 n = []) \<Longrightarrow> wire_bodies w0 = {#} \<Longrightarrow> smooth_inv valid contents Home (server w0) k w0"
  by (simp add: smooth_inv_def under_way_def on_nodes_def sent_def)

text \<open>
  C2. While nothing goes wrong, everything is billed. From any state of the server and with
  empty maps, however packets, flushes and requests of all nodes interleave, with scrapes and
  with reports from the cluster that move no address: what has reached
  the counter of a key, what is on its way in messages and what is still in the maps add up to
  exactly the bytes of the packets that left the key's addresses, at home, for another zone
  (modulo \<open>2 ^ 64\<close>). Once the maps are drained and the messages handled, the counter is exact.
\<close>

theorem every_byte_billed:
  fixes w :: "('n::finite, 'map) world"
  assumes "bpf_kernel_batch LE K pkt contents valid batch"
    and "\<And>n. valid (node_map w0 n)" "\<And>n. contents (node_map w0 n) = Map.empty"
    and "\<And>n. seen w0 n = []" "wire_bodies w0 = {#}"
    and "(smooth_step K pkt cfg contents batch Home Own)\<^sup>*\<^sup>* w0 w"
  shows "lookup0 (statistics (server w)) k
      + under_way id contents Home (pays (directory (server w0)) k) w
    = lookup0 (statistics (server w0)) k + sent id Home (pays (directory (server w0)) k) w"
proof -
  have "smooth_inv valid contents Home (server w0) k w"
    using assms(1,6) smooth_start [where valid = valid and contents = contents, OF assms(2-5)] by (rule smooth_reachable_inv)
  then show ?thesis by (simp add: smooth_inv_def)
qed

section \<open>A sample cluster\<close>

text \<open>Two nodes with one pod each; node \<open>True\<close> is the sender's.\<close>

definition sample_home :: "bool \<Rightarrow> u32 set" where
  "sample_home n = (if n then {0x0A000001} else {0x0A000002})"

definition sample_own :: "podKey \<Rightarrow> u32 set" where
  "sample_own k = (if k = sample_key ''web'' then {0x0A000001}
     else if k = sample_key ''db'' then {0x0A000002} else {})"

definition sample_world :: "(bool, slots) world" where
  "sample_world = (boot empty_slots)\<lparr>server := sample_state\<rparr>"

abbreviation sample_smooth :: "(bool, slots) world \<Rightarrow> (bool, slots) world \<Rightarrow> bool" where
  "sample_smooth \<equiv> smooth_step (sim_kernel LE) skb_packet sample_subnet slot_contents slot_batch sample_home sample_own"

abbreviation sample_step :: "(bool, slots) world \<Rightarrow> (bool, slots) world \<Rightarrow> bool" where
  "sample_step \<equiv> world_step (sim_kernel LE) skb_packet sample_subnet slot_batch empty_slots sample_home sample_own"

lemma smooth_is_step:
  assumes "smooth_step K pkt cfg contents batch Home Own w w'"
  shows "world_step K pkt cfg batch fresh Home Own w w'"
  using assms
proof (cases rule: smooth_step.cases)
  case (packet n skb)
  show ?thesis unfolding packet(1) by (rule world_step.packet)
next
  case (flush n ps m' objs f client out)
  then show ?thesis using world_step.flush [of batch w n ps m' objs Home f client out] by auto
next
  case (handle b rest)
  then show ?thesis by (auto intro: world_step.handle)
next
  case (watch ev s')
  then show ?thesis by (auto intro: world_step.watch)
qed

lemma smooth_are_steps:
  "(smooth_step K pkt cfg contents batch Home Own)\<^sup>*\<^sup>* w w' \<Longrightarrow> (world_step K pkt cfg batch fresh Home Own)\<^sup>*\<^sup>* w w'"
  by (induction rule: rtranclp_induct) (auto dest: smooth_is_step intro: rtranclp.rtrancl_into_rtrancl)

lemma watch_run:
  "reachable (server w) \<Longrightarrow> list_all (in_own Own) es \<Longrightarrow>
   (world_step K pkt cfg batch fresh Home Own)\<^sup>*\<^sup>* w (w\<lparr>server := run effect es (server w)\<rparr>)"
proof (induction es arbitrary: w)
  case Nil
  then show ?case by simp
next
  case (Cons ev es)
  obtain s' where s': "server_step ev (server w) s'" using every_event_has_one_outcome [OF Cons.prems(1)] by blast
  then have eff: "s' = effect ev (server w)" by (rule server_step_effect)
  have "reachable s'" using Cons.prems(1) s' by (rule reachable.step)
  then have "(world_step K pkt cfg batch fresh Home Own)\<^sup>*\<^sup>* (w\<lparr>server := s'\<rparr>)
      (w\<lparr>server := run effect es s'\<rparr>)"
    using Cons.IH [of "w\<lparr>server := s'\<rparr>"] Cons.prems(2) by simp
  moreover have "world_step K pkt cfg batch fresh Home Own w (w\<lparr>server := s'\<rparr>)"
    using s' Cons.prems(2) by (intro world_step.watch [of ev]) simp_all
  ultimately show ?case by (simp add: eff converse_rtranclp_into_rtranclp)
qed

lemma all_handled:
  "\<exists>w'. (smooth_step K pkt cfg contents batch Home Own)\<^sup>*\<^sup>* w w' \<and> wire_bodies w' = {#}
     \<and> node_map w' = node_map w \<and> seen w' = seen w"
proof (induction "wire_bodies w" arbitrary: w)
  case empty
  then show ?case by (intro exI [of _ w]) simp
next
  case (add b rest)
  let ?w = "w\<lparr>wire_bodies := rest, server := after_request (post_request b) (server w)\<rparr>"
  have "smooth_step K pkt cfg contents batch Home Own w ?w" by (rule smooth_step.handle) (simp add: add.hyps(2))
  with add.hyps(1) [of ?w] show ?case by (auto intro: converse_rtranclp_into_rtranclp)
qed

lemma sample_world_reachable: "sample_step\<^sup>*\<^sup>* (boot empty_slots) sample_world"
proof -
  have "list_all (in_own sample_own) Server_System.sample_run"
    by (simp add: Server_System.sample_run_def sample_simps sample_own_def)
  from watch_run [OF _ this, of "boot empty_slots"] reachable.start show ?thesis
    by (simp add: boot_def sample_world_def sample_state_def)
qed

lemma sample_world_run:
  "\<exists>w. sample_smooth\<^sup>*\<^sup>* sample_world w \<and> wire_bodies w = {#}
     \<and> (\<forall>n. slot_contents (node_map w n) = Map.empty)
     \<and> seen w = (\<lambda>n. if n then [(sample_flow, 1500)] else [])"
proof -
  let ?m = "snd (nf_postrouting_hook LE (sim_kernel LE) sample_subnet sample_skb empty_slots)"
  have m: "slot_contents ?m = [sample_flow \<mapsto> 1500]" "slots_valid ?m"
    using sim.hook_contents [OF empty_slots_valid(1), of LE sample_subnet sample_skb]
    by (simp_all add: observed_sample post_bounded_def bump_def lookup0_def ip_map_def)
  let ?w1 = "sample_world\<lparr>node_map := (node_map sample_world)(True := ?m),
    seen := (seen sample_world)(True := [(sample_flow, 1500)])\<rparr>"
  have 1: "sample_smooth sample_world ?w1"
    using smooth_step.packet [of slot_contents sample_world True "sim_kernel LE" skb_packet sample_subnet
        sample_skb slot_batch sample_home]
    by (simp add: observed_sample sample_world_def boot_def ip_map_def)
  obtain ps m' where b: "slot_batch (max_entries ip_map) ?m = (ps, m')" by fastforce
  note drain = sim_batch.drain_val [OF m(2) b]
  have "set ps = Map.graph (slot_contents ?m)"
    and rest: "slot_contents m' = slot_contents ?m |` (- fst ` set ps)"
    using slot_batch_result(2,4) [OF m(2), of "max_entries ip_map"] b by (simp_all add: m(1) ip_map_def)
  then have "set ps = {(sample_flow, 1500)}" by (auto simp: m(1) Map.graph_def split: if_splits)
  then have empty: "slot_contents m' = Map.empty"
    unfolding rest m(1) by (simp add: restrict_map_def fun_eq_iff)
  have store: "store_ok sample_store" by (simp add: store_ok_def sample_store_def)
  have home: "host_addrs (store_pods sample_store) = sample_home True"
    using addr_of_string4 [of "[10, 0, 0, 1]"]
    by (simp add: host_addrs_def store_pods_def sample_store_def List.map_filter_def string4_samples
        rd32_def sample_home_def)
  have "batch_ok (batch_result_of LE (max_entries ip_map) ps)"
    using drain(3) by (simp add: batch_ok_def batch_result_of_def)
  from flush_tick_total [OF this store] obtain out where
    out: "flush_tick sample_flags sample_client (batch_result_of LE (max_entries ip_map) ps) sample_store = Inr out"
    by blast
  let ?w2 = "?w1\<lparr>node_map := (node_map ?w1)(True := m'), wire_bodies := wire_bodies ?w1 + mset (bodies out)\<rparr>"
  have b1: "slot_batch (max_entries ip_map) (node_map ?w1 True) = (ps, m')" by (simp add: b)
  have send: "send_data sample_flags" "\<And>url. new_request sample_client url = None"
    by (simp_all add: sample_flags_def sample_client_def)
  have 2: "sample_smooth ?w1 ?w2"
    by (rule smooth_step.flush [where f = sample_flags and client = sample_client and objs = sample_store
          and batch = slot_batch and ps = ps and n = True and Home = sample_home])
      (use b1 store home send out in simp_all)
  obtain w where w: "sample_smooth\<^sup>*\<^sup>* ?w2 w" "wire_bodies w = {#}" "node_map w = node_map ?w2" "seen w = seen ?w2"
    using all_handled by metis
  have path: "sample_smooth\<^sup>*\<^sup>* sample_world w"
    using 1 2 w(1) by (meson converse_rtranclp_into_rtranclp)
  have maps: "slot_contents (node_map w n) = Map.empty" for n
    using empty by (simp add: w(3) sample_world_def boot_def)
  have "seen w = (\<lambda>n. if n then [(sample_flow, 1500)] else [])"
    by (simp add: w(4) sample_world_def boot_def fun_eq_iff)
  with path w(2) maps show ?thesis by blast
qed

lemma sample_flow_addrs:
  "Ntohl (src_ip sample_flow) = 0x0A000001" "Ntohl (dest_ip sample_flow) = 0x0A000002"
  by (simp_all add: sample_flow_def Ntohl_def)

lemma sample_start:
  "slots_valid (node_map sample_world n)" "slot_contents (node_map sample_world n) = Map.empty"
  "seen sample_world n = []" "wire_bodies sample_world = {#}"
  "lookup0 (statistics (server sample_world)) k = 0"
  by (simp_all add: sample_world_def boot_def sample_state_eq init_server_def lookup0_def)

lemma sample_directory:
  "directory (server sample_world) 0x0A000001 = Some (sample_key ''web'', ''z1'')"
  "directory (server sample_world) 0x0A000002 = Some (sample_key ''db'', ''z2'')"
  by (simp_all add: sample_world_def sample_state_is_sample_server directory_def resolve_sample)

lemma sample_world_billed:
  "\<exists>w. sample_smooth\<^sup>*\<^sup>* sample_world w \<and> seen w = (\<lambda>n. if n then [(sample_flow, 1500)] else [])
    \<and> lookup0 (statistics (server w)) (sample_key ''web'') = 1500"
proof -
  obtain w where w: "sample_smooth\<^sup>*\<^sup>* sample_world w" "wire_bodies w = {#}"
    "\<And>n. slot_contents (node_map w n) = Map.empty" "seen w = (\<lambda>n. if n then [(sample_flow, 1500)] else [])"
    using sample_world_run by blast
  have "smooth_inv slots_valid slot_contents sample_home (server sample_world) (sample_key ''web'') w"
    using sim_batch.bpf_kernel_batch_axioms w(1) smooth_start [where valid = slots_valid and contents = slot_contents, OF sample_start(1-4)]
    by (rule smooth_reachable_inv)
  then have "lookup0 (statistics (server w)) (sample_key ''web'') = 1500"
    by (simp add: smooth_inv_def under_way_def on_nodes_def sent_def w(2-4) UNIV_bool homed_def
        sample_home_def sample_flow_addrs pays_def sample_directory sample_start(5))
  with w show ?thesis by blast
qed


theorem every_byte_billed_witness:
  "\<exists>w. sample_smooth\<^sup>*\<^sup>* sample_world w
    \<and> lookup0 (statistics (server w)) (sample_key ''web'') = 1500
    \<and> lookup0 (statistics (server w)) (sample_key ''db'') = 0"
proof -
  obtain w where w: "sample_smooth\<^sup>*\<^sup>* sample_world w" "wire_bodies w = {#}"
    "\<And>n. slot_contents (node_map w n) = Map.empty" "seen w = (\<lambda>n. if n then [(sample_flow, 1500)] else [])"
    using sample_world_run by blast
  note exact = every_byte_billed [OF sim_batch.bpf_kernel_batch_axioms sample_start(1-4) w(1)]
  have "under_way id slot_contents sample_home Q w = 0" for Q
    by (simp add: under_way_def on_nodes_def w(2,3))
  then have "lookup0 (statistics (server w)) k
      = sent id sample_home (pays (directory (server sample_world)) k) w" for k
    using exact [of k] by (simp add: sample_start(5))
  then show ?thesis
    using w(1) by (intro exI [of _ w])
      (simp add: sent_def w(4) UNIV_bool homed_def sample_home_def sample_flow_addrs pays_def sample_directory)
qed

end
