(* ===== verification/Cluster_Progress.thy ===== *)
theory Cluster_Progress
  imports Cluster
begin

text \<open>
  Progress of the whole system: whatever state a run without losses has come to, flushing every
  node once and handling the messages brings all counted bytes into the counters.
\<close>

section \<open>A store for a set of addresses\<close>

text \<open>Pods with given addresses, as an informer would hold them.\<close>

definition pod_at :: "u32 \<Rightarrow> v1_Pod" where
  "pod_at a = \<lparr>pod_Namespace = ''default'', pod_Name = ''pod'', pod_NodeName = ''node'',
     pod_HostIP = '''', pod_PodIPs = [string4 (be32 a)]\<rparr>"

definition store_of :: "u32 list \<Rightarrow> k8s_obj list" where
  "store_of as = map (\<lambda>a. PodObj (pod_at a)) as"

lemma addr_of_be32: "addr_of (string4 (be32 a)) = Some a"
  using rd32_be32 [of a "[]"] by (simp add: addr_of_string4)

lemma store_of_ok: "store_ok (store_of as)" "host_addrs (store_pods (store_of as)) = set as"
proof -
  show "store_ok (store_of as)" by (auto simp: store_ok_def store_of_def)
  have "store_pods (store_of as) = map pod_at as"
    by (induction as) (simp_all add: store_pods_def store_of_def List.map_filter_simps)
  then show "host_addrs (store_pods (store_of as)) = set as"
    by (auto simp: host_addrs_def pod_at_def addr_of_be32)
qed

lemma store_for: "finite A \<Longrightarrow> \<exists>objs. store_ok objs \<and> host_addrs (store_pods objs) = A"
  using finite_list store_of_ok by metis

section \<open>Draining\<close>

text \<open>One flush empties a node's map, since the batch has room for all of it.\<close>

lemma one_flush:
  fixes w :: "('n, 'map) world"
  assumes "bpf_kernel_batch LE K pkt contents valid batch" "valid (node_map w n)" "finite (Home n)"
  shows "\<exists>m' b. smooth_step K pkt cfg contents batch Home Own w
      (w\<lparr>node_map := (node_map w)(n := m'), wire_bodies := wire_bodies w + b\<rparr>)
    \<and> valid m' \<and> contents m' = Map.empty"
proof -
  let ?cap = "max_entries ip_map" and ?m = "node_map w n"
  obtain ps m' where b: "batch ?cap ?m = (ps, m')" by fastforce
  note drain = bpf_kernel_batch.drain_val [OF assms(1,2) b]
  have "card (dom (contents ?m)) \<le> ?cap"
    using bpf_kernel.bounded [OF bpf_kernel_batch.axioms(1) [OF assms(1)] assms(2)] by blast
  then have "set ps = Map.graph (contents ?m)" "contents m' = contents ?m |` (- fst ` set ps)"
    using bpf_kernel_batch.batch_all [OF assms(1,2), of ?cap]
      bpf_kernel_batch.batch_rest [OF assms(1,2), of ?cap] b by simp_all
  then have empty: "contents m' = Map.empty"
    by (force simp: restrict_map_def fun_eq_iff Map.graph_def image_iff)
  obtain objs where objs: "store_ok objs" "host_addrs (store_pods objs) = Home n"
    using store_for [OF assms(3)] by blast
  have "batch_ok (batch_result_of LE ?cap ps)"
    using drain(3) by (simp add: batch_ok_def batch_result_of_def)
  from flush_tick_total [OF this objs(1)] obtain out where
    out: "flush_tick sample_flags sample_client (batch_result_of LE ?cap ps) objs = Inr out"
    by blast
  have send: "send_data sample_flags" "\<And>url. new_request sample_client url = None"
    by (simp_all add: sample_flags_def sample_client_def)
  have "smooth_step K pkt cfg contents batch Home Own w
      (w\<lparr>node_map := (node_map w)(n := m'), wire_bodies := wire_bodies w + mset (bodies out)\<rparr>)"
    using b objs send out by (rule smooth_step.flush)
  with drain(2) empty show ?thesis by blast
qed

lemma all_flushed:
  fixes w :: "('n, 'map) world"
  assumes "bpf_kernel_batch LE K pkt contents valid batch" "\<And>n. valid (node_map w n)"
    and "\<And>n. finite (Home n)" "finite N"
  shows "\<exists>w'. (smooth_step K pkt cfg contents batch Home Own)\<^sup>*\<^sup>* w w' \<and> seen w' = seen w
    \<and> (\<forall>n. valid (node_map w' n)) \<and> (\<forall>n. n \<in> N \<longrightarrow> contents (node_map w' n) = Map.empty)"
  using assms(4)
proof (induction N)
  case empty
  show ?case using assms(2) by (intro exI [of _ w]) simp
next
  case (insert n N)
  then obtain w1 where w1: "(smooth_step K pkt cfg contents batch Home Own)\<^sup>*\<^sup>* w w1" "seen w1 = seen w"
    "\<And>n. valid (node_map w1 n)" "\<And>n. n \<in> N \<Longrightarrow> contents (node_map w1 n) = Map.empty"
    by blast
  obtain m' b where m': "smooth_step K pkt cfg contents batch Home Own w1
      (w1\<lparr>node_map := (node_map w1)(n := m'), wire_bodies := wire_bodies w1 + b\<rparr>)"
    "valid m'" "contents m' = Map.empty"
    using one_flush [where Home = Home and n = n, OF assms(1) w1(3) assms(3)] by blast
  have "(smooth_step K pkt cfg contents batch Home Own)\<^sup>*\<^sup>* w
      (w1\<lparr>node_map := (node_map w1)(n := m'), wire_bodies := wire_bodies w1 + b\<rparr>)"
    using w1(1) m'(1) by (rule rtranclp.rtrancl_into_rtrancl)
  then show ?case using w1(2-4) m'(2,3) by (intro exI) auto
qed

text \<open>
  C4. Every byte can still be billed. From any state that a run without losses has come to, with
  maps filled and messages on their way, the system can go on without a further packet until
  all maps are empty and all messages handled; each counter then has grown by exactly the bytes
  that had left the key's addresses for another zone (modulo \<open>2 ^ 64\<close>). No state is a dead end.
\<close>

theorem eventually_billed:
  fixes w :: "('n::finite, 'map) world"
  assumes "bpf_kernel_batch LE K pkt contents valid batch"
    and "\<And>n. valid (node_map w0 n)" "\<And>n. contents (node_map w0 n) = Map.empty"
    and "\<And>n. seen w0 n = []" "wire_bodies w0 = {#}" "\<And>n. finite (Home n)"
    and "(smooth_step K pkt cfg contents batch Home Own)\<^sup>*\<^sup>* w0 w"
  shows "\<exists>w'. (smooth_step K pkt cfg contents batch Home Own)\<^sup>*\<^sup>* w w' \<and> seen w' = seen w
    \<and> wire_bodies w' = {#} \<and> (\<forall>n. contents (node_map w' n) = Map.empty)
    \<and> (\<forall>k. lookup0 (statistics (server w')) k
        = lookup0 (statistics (server w0)) k + sent id Home (pays (directory (server w0)) k) w)"
proof -
  have start: "smooth_inv valid contents Home (server w0) k w0" for k
    using smooth_start [where valid = valid and contents = contents, OF assms(2-5)] .
  have inv: "smooth_inv valid contents Home (server w0) k w" for k
    using assms(1,7) start by (rule smooth_reachable_inv)
  then have "valid (node_map w n)" for n by (simp add: smooth_inv_def)
  from all_flushed [where Home = Home and cfg = cfg and Own = Own, OF assms(1) this assms(6) finite_class.finite_UNIV] obtain w1 where
    w1: "(smooth_step K pkt cfg contents batch Home Own)\<^sup>*\<^sup>* w w1" "seen w1 = seen w"
      "\<And>n. contents (node_map w1 n) = Map.empty"
    by auto
  obtain w' where w': "(smooth_step K pkt cfg contents batch Home Own)\<^sup>*\<^sup>* w1 w'" "wire_bodies w' = {#}"
      "node_map w' = node_map w1" "seen w' = seen w1"
    using all_handled by metis
  have path: "(smooth_step K pkt cfg contents batch Home Own)\<^sup>*\<^sup>* w w'"
    using w1(1) w'(1) by (rule rtranclp_trans)
  have "smooth_inv valid contents Home (server w0) k w'" for k
    using assms(1) path inv by (rule smooth_reachable_inv)
  then have "lookup0 (statistics (server w')) k
      = lookup0 (statistics (server w0)) k + sent id Home (pays (directory (server w0)) k) w" for k
    using w'(2-4) w1(2,3) by (simp add: smooth_inv_def under_way_def on_nodes_def sent_def)
  with path w' w1(2,3) show ?thesis by auto
qed

theorem eventually_billed_witness:
  "\<exists>w w'. sample_smooth sample_world w \<and> seen w True = [(sample_flow, 1500)]
    \<and> sample_smooth\<^sup>*\<^sup>* w w' \<and> lookup0 (statistics (server w')) (sample_key ''web'') = 1500"
proof -
  let ?w = "sample_world\<lparr>node_map := (node_map sample_world)(True :=
      snd (nf_postrouting_hook LE (sim_kernel LE) sample_subnet sample_skb empty_slots)),
    seen := (seen sample_world)(True := [(sample_flow, 1500)])\<rparr>"
  have 1: "sample_smooth sample_world ?w"
    using smooth_step.packet [of slot_contents sample_world True "sim_kernel LE" skb_packet sample_subnet
        sample_skb slot_batch sample_home]
    by (simp add: observed_sample sample_world_def boot_def ip_map_def)
  have fin: "finite (sample_home n)" for n by (simp add: sample_home_def)
  obtain w' where w': "sample_smooth\<^sup>*\<^sup>* ?w w'"
    "lookup0 (statistics (server w')) (sample_key ''web'') = lookup0 (statistics (server sample_world)) (sample_key ''web'')
      + sent id sample_home (pays (directory (server sample_world)) (sample_key ''web'')) ?w"
    using eventually_billed [OF sim_batch.bpf_kernel_batch_axioms sample_start(1-4) fin r_into_rtranclp [of sample_smooth, OF 1]]
    by blast
  have "sent id sample_home (pays (directory (server sample_world)) (sample_key ''web'')) ?w = 1500"
    by (simp add: sent_def UNIV_bool homed_def sample_home_def sample_flow_addrs pays_def sample_directory)
      (simp add: sample_world_def boot_def)
  with w' sample_start(5) 1 show ?thesis by (intro exI [of _ ?w] exI [of _ w']) simp
qed

end
