(* ===== verification/Cluster_Races.thy ===== *)
theory Cluster_Races
  imports Cluster
begin

text \<open>
  The whole system with nothing atomic but what the kernel makes so: every node's hook runs on
  several CPUs, whose lookups and additions interleave with each other, with the drains of the
  node's agent and with everything that happens on other nodes and in the server.
\<close>

section \<open>The system\<close>

record ('n, 'map, 'r) racing =
  node_cpus :: "'n \<Rightarrow> ('map, 'r) cpus"
  posted :: "u8 list multiset"
  billing :: Server

definition racing_boot :: "'map \<Rightarrow> ('n, 'map, 'r) racing" where
  "racing_boot fresh = \<lparr>node_cpus = \<lambda>_. start fresh, posted = {#}, billing = init_server\<rparr>"

text \<open>
  A step of a node's CPUs, or a drain whose result is lost, is a \<open>cpu_step\<close>. When the agent is
  replaced, its map goes away with the accesses still pending on it.
\<close>

inductive race_step ::
    "('skb, 'ptr, 'map, 'r) kernel \<Rightarrow> ('skb \<Rightarrow> u8 list) \<Rightarrow> subnet
      \<Rightarrow> (nat \<Rightarrow> 'map \<Rightarrow> (ip_key \<times> u64) list \<times> 'map) \<Rightarrow> 'map \<Rightarrow> ('n \<Rightarrow> u32 set) \<Rightarrow> (podKey \<Rightarrow> u32 set)
      \<Rightarrow> ('n, 'map, 'r) racing \<Rightarrow> ('n, 'map, 'r) racing \<Rightarrow> bool"
  for K pkt cfg batch fresh Home Own where
  cpu: "cpu_step LE K pkt cfg batch (node_cpus w n) c \<Longrightarrow>
    race_step K pkt cfg batch fresh Home Own w (w\<lparr>node_cpus := (node_cpus w)(n := c)\<rparr>)"
| flush: "batch (max_entries ip_map) (flow_map (node_cpus w n)) = (ps, m') \<Longrightarrow>
    store_ok objs \<Longrightarrow> host_addrs (store_pods objs) \<subseteq> Home n \<Longrightarrow>
    flush_tick f client (batch_result_of LE (max_entries ip_map) ps) objs = Inr out \<Longrightarrow>
    race_step K pkt cfg batch fresh Home Own w
      (w\<lparr>node_cpus := (node_cpus w)(n := (node_cpus w n)\<lparr>flow_map := m',
             drained_bytes := drained_bytes (node_cpus w n) + (\<Sum>p\<leftarrow>ps. unat (snd p))\<rparr>),
         posted := posted w + mset (bodies out)\<rparr>)"
| restart: "race_step K pkt cfg batch fresh Home Own w
    (w\<lparr>node_cpus := (node_cpus w)(n := (node_cpus w n)\<lparr>flow_map := fresh, inflight := {#}\<rparr>)\<rparr>)"
| lose: "posted w = add_mset b rest \<Longrightarrow>
    race_step K pkt cfg batch fresh Home Own w (w\<lparr>posted := rest\<rparr>)"
| handle: "posted w = add_mset b rest \<Longrightarrow>
    race_step K pkt cfg batch fresh Home Own w
      (w\<lparr>posted := rest, billing := after_request (post_request b) (billing w)\<rparr>)"
| watch: "server_step ev (billing w) s' \<Longrightarrow> in_own Own ev \<Longrightarrow>
    race_step K pkt cfg batch fresh Home Own w (w\<lparr>billing := s'\<rparr>)"
| server_restart: "race_step K pkt cfg batch fresh Home Own w (w\<lparr>billing := init_server\<rparr>)"

section \<open>The bill of a node\<close>

text \<open>The counters of the keys whose addresses are all at home on one node.\<close>

definition node_bill :: "('n \<Rightarrow> u32 set) \<Rightarrow> (podKey \<Rightarrow> u32 set) \<Rightarrow> 'n \<Rightarrow> Server \<Rightarrow> nat" where
  "node_bill Home Own n s = map_val unat (\<lambda>k. Own k \<subseteq> Home n) (statistics s)"

lemma map_val_bumps:
  "finite (dom m) \<Longrightarrow>
   map_val unat P (fold (\<lambda>(k, v). bump k v) ps m) \<le> map_val unat P m + list_val unat P ps"
proof (induction ps arbitrary: m)
  case Nil
  then show ?case by simp
next
  case (Cons p ps)
  obtain k v where p: "p = (k, v)" by (cases p)
  have "finite (dom (bump k v m))" using Cons.prems by simp
  from Cons.IH [OF this] map_val_bump(2) [OF Cons.prems, of P k v] show ?case by (auto simp: p)
qed

lemma charges_in_own:
  assumes "addressed Own s"
  shows "list_val unat (\<lambda>k. Own k \<subseteq> A) (charges (directory s) es) \<le> entries_val unat (\<lambda>a _. a \<in> A) es"
proof (induction es)
  case Nil
  then show ?case by simp
next
  case (Cons e es)
  show ?case
  proof (cases "charge (directory s) e")
    case None
    with Cons show ?thesis by (simp add: entries_val_def)
  next
    case (Some p)
    then have "ESrcIP e \<in> Own (fst p)" using charge_in_own [OF assms, of e "fst p" "snd p"] by simp
    moreover have "snd p = Traffic e"
      using Some by (auto simp: charge_def split: option.splits prod.splits if_splits)
    ultimately show ?thesis using Some Cons by (auto simp: entries_val_def)
  qed
qed

lemma node_bill_charged:
  assumes "addressed Own s" "finite_maps s"
  shows "node_bill Home Own n (charged es s)
    \<le> node_bill Home Own n s + entries_val unat (\<lambda>a _. a \<in> Home n) es"
proof -
  have "node_bill Home Own n (charged es s)
      \<le> node_bill Home Own n s + list_val unat (\<lambda>k. Own k \<subseteq> Home n) (charges (directory s) es)"
    using assms(2) map_val_bumps by (simp add: node_bill_def charged_def finite_maps_def)
  with charges_in_own [OF assms(1), of "Home n" es] show ?thesis by simp
qed

lemma map_val_less: "finite (dom m) \<Longrightarrow> map_val unat P (m(k := None)) \<le> map_val unat P m"
  by (cases "m k") (simp_all add: map_val_absent domIff map_val_remove)

lemma node_bill_effect:
  "in_own Own ev \<Longrightarrow> finite_maps s \<Longrightarrow> node_bill Home Own n (effect ev s) \<le> node_bill Home Own n s"
  by (induction ev s rule: effect.induct)
    (auto simp: node_bill_def indexed_def unindexed_def finite_maps_def map_val_less)

section \<open>Containment\<close>

definition contained ::
    "('map \<Rightarrow> bool) \<Rightarrow> ('map \<Rightarrow> ip_key \<rightharpoonup> u64) \<Rightarrow> ('n \<Rightarrow> u32 set) \<Rightarrow> (podKey \<Rightarrow> u32 set) \<Rightarrow> 'n
      \<Rightarrow> ('n, 'map, 'r) racing \<Rightarrow> bool" where
  "contained valid contents Home Own n w \<longleftrightarrow>
     (\<forall>i. valid (flow_map (node_cpus w i))) \<and> addressed Own (billing w) \<and> finite_maps (billing w) \<and>
     node_bill Home Own n (billing w) + (\<Sum>b\<in>#posted w. msg_val unat (\<lambda>a _. a \<in> Home n) b)
       + map_bytes (contents (flow_map (node_cpus w n)))
       + (\<Sum>p\<in>#inflight (node_cpus w n). pending_size p) \<le> seen_bytes (node_cpus w n)"

lemma entries_val_none:
  "A \<inter> B = {} \<Longrightarrow> host_addrs pods \<subseteq> B \<Longrightarrow> entries_val unat (\<lambda>a _. a \<in> A) (own_entries pods ps) = 0"
  unfolding entries_val_own by (induction ps) auto

lemma entries_val_of: "es = [] \<or> es = xs \<Longrightarrow> entries_val unat Q es \<le> entries_val unat Q xs"
  by auto

lemma entries_val_own_le: "entries_val unat Q (own_entries pods ps) \<le> (\<Sum>p\<leftarrow>ps. unat (snd p))"
  unfolding entries_val_own by (induction ps) auto

text \<open>What a step of the CPUs leaves to account for.\<close>

definition on_node :: "('map \<Rightarrow> ip_key \<rightharpoonup> u64) \<Rightarrow> ('map, 'r) cpus \<Rightarrow> nat" where
  "on_node contents c = map_bytes (contents (flow_map c)) + (\<Sum>p\<in>#inflight c. pending_size p)"

lemma cpu_step_on_node:
  assumes "bpf_kernel_batch e K pkt contents valid batch" "valid (flow_map c)"
    and "cpu_step e K pkt cfg batch c c'"
  shows "valid (flow_map c')"
    and "on_node contents c' + seen_bytes c \<le> on_node contents c + seen_bytes c'"
proof -
  have *: "valid (flow_map c') \<and> on_node contents c' + seen_bytes c \<le> on_node contents c + seen_bytes c'"
    using assms(3)
  proof (cases rule: cpu_step.cases)
    case (look skb k d)
    moreover have "pending_size (begin_count K k d (flow_map c)) = unat d"
      by (simp add: begin_count_def split: option.split)
    ultimately show ?thesis using assms(2) by (simp add: on_node_def)
  next
    case (finish p rest)
    then show ?thesis
      using bpf_kernel_batch.complete_bytes [OF assms(1,2), of p] by (simp add: on_node_def)
  next
    case (drain k ps m')
    then show ?thesis
      using bpf_kernel_batch.drain_val [OF assms(1,2) drain(2)] bpf_kernel_batch.drain_val(1) [OF assms(1,2) drain(2),
          of unat "\<lambda>_. True"] by (simp add: on_node_def map_bytes_val)
  qed
  then show "valid (flow_map c')"
    and "on_node contents c' + seen_bytes c \<le> on_node contents c + seen_bytes c'" by blast+
qed

lemma race_step_contained:
  assumes "bpf_kernel_batch LE K pkt contents valid batch" "valid fresh" "contents fresh = Map.empty"
    and "\<And>i. i \<noteq> n \<Longrightarrow> Home n \<inter> Home i = {}"
    and "race_step K pkt cfg batch fresh Home Own w w'"
    and "contained valid contents Home Own n w"
  shows "contained valid contents Home Own n w'"
proof -
  let ?Q = "\<lambda>a _. a \<in> Home n"
  let ?mail = "\<lambda>M. \<Sum>b\<in>#M. msg_val unat ?Q b"
  from assms(6) have valid: "valid (flow_map (node_cpus w i))" for i by (simp add: contained_def)
  from assms(6) have addr: "addressed Own (billing w)" and fin: "finite_maps (billing w)"
    by (simp_all add: contained_def)
  from assms(6) have bal: "node_bill Home Own n (billing w) + ?mail (posted w)
      + on_node contents (node_cpus w n) \<le> seen_bytes (node_cpus w n)"
    by (simp add: contained_def on_node_def)
  from assms(5) show ?thesis
  proof (cases rule: race_step.cases)
    case (cpu i c)
    show ?thesis
      using valid addr fin bal cpu_step_on_node [OF assms(1) valid cpu(2)] unfolding cpu(1)
      by (cases "i = n") (auto simp: contained_def on_node_def)
  next
    case (flush i ps m' objs f client out)
    note drain = bpf_kernel_batch.drain_val [OF assms(1) valid flush(2)]
    have total: "map_bytes (contents m') + (\<Sum>p\<leftarrow>ps. unat (snd p)) = map_bytes (contents (flow_map (node_cpus w i)))"
      using drain(1) [of unat "\<lambda>_. True"] by (simp add: map_bytes_val list_val_def)
    have "concat (map msg_entries (bodies out)) = []
        \<or> concat (map msg_entries (bodies out)) = own_entries (store_pods objs) ps"
      using flush_bodies(1) [OF flush(3) drain(3) flush(5)] by blast
    then have "?mail (mset (bodies out)) \<le> entries_val unat ?Q (own_entries (store_pods objs) ps)"
      unfolding sum_bodies by (rule entries_val_of)
    moreover define x where "x = ?mail (mset (bodies out))"
    ultimately have mail: "x \<le> (if i = n then \<Sum>p\<leftarrow>ps. unat (snd p) else 0)"
      using entries_val_own_le [of ?Q "store_pods objs" ps] entries_val_none [OF assms(4) flush(4), of ps]
      by auto
    show ?thesis
      using valid drain(2) addr fin bal total mail unfolding flush(1)
      by (cases "i = n") (auto simp: contained_def on_node_def simp flip: x_def)
  next
    case (restart i)
    show ?thesis
      using valid addr fin bal assms(2,3) unfolding restart
      by (cases "i = n") (auto simp: contained_def on_node_def map_bytes_def)
  next
    case (lose b rest)
    then show ?thesis using valid addr fin bal by (simp add: contained_def on_node_def)
  next
    case (handle b rest)
    then show ?thesis
      using valid addr fin bal node_bill_charged [OF addr fin, of Home n "msg_entries b"]
      by (simp add: contained_def on_node_def after_post addressed_charged finite_maps_def finite_charged
          msg_val_def)
  next
    case (watch ev s')
    then have "s' = effect ev (billing w)" using server_step_effect by blast
    then show ?thesis
      using valid addr fin bal addressed_effect [OF watch(3)] finite_maps_effect [OF fin]
        node_bill_effect [OF watch(3) fin, of Home n] watch(1)
      by (simp add: contained_def on_node_def)
  next
    case server_restart
    then show ?thesis
      using valid bal init_invariants(1)
      by (simp add: contained_def on_node_def addressed_def init_server_def node_bill_def)
  qed
qed

section \<open>The atomic system is a special case\<close>

text \<open>A state in which no access is pending, seen as a state of the system with atomic packets.\<close>

definition atomic_view :: "('n, 'map, 'r) racing \<Rightarrow> ('n, 'map) world \<Rightarrow> bool" where
  "atomic_view r w \<longleftrightarrow>
     (\<forall>n. flow_map (node_cpus r n) = node_map w n \<and> inflight (node_cpus r n) = {#}
        \<and> seen_bytes (node_cpus r n) = list_val unat (\<lambda>_. True) (seen w n))
     \<and> posted r = wire_bodies w \<and> billing r = server w"

lemma atomic_viewD:
  assumes "atomic_view r w"
  shows "flow_map (node_cpus r n) = node_map w n" "inflight (node_cpus r n) = {#}"
    "seen_bytes (node_cpus r n) = list_val unat (\<lambda>_. True) (seen w n)"
    "posted r = wire_bodies w" "billing r = server w"
  using assms by (simp_all add: atomic_view_def)

lemma packet_races:
  assumes "bpf_kernel LE K pkt contents valid" "atomic_view r w"
  shows "\<exists>r'. (race_step K pkt cfg batch fresh Home Own)\<^sup>*\<^sup>* r r' \<and> atomic_view r'
    (w\<lparr>node_map := (node_map w)(n := snd (nf_postrouting_hook LE K cfg skb (node_map w n))),
       seen := (seen w)(n := seen w n @ postings LE K pkt cfg [skb])\<rparr>)"
proof (cases "observed LE K pkt cfg skb")
  case None
  then show ?thesis
    using assms(2) by (intro exI [of _ r]) (simp add: atomic_view_def bpf_kernel.hook_eq [OF assms(1)])
next
  case (Some q)
  obtain k d where q: "q = (k, d)" by (cases q)
  with Some have obs: "observed LE K pkt cfg skb = Some (k, d)" by simp
  note view = atomic_viewD [OF assms(2)]
  let ?c = "node_cpus r n"
  let ?p = "begin_count K k d (node_map w n)"
  let ?c1 = "?c\<lparr>inflight := {#?p#}, seen_bytes := seen_bytes ?c + unat d\<rparr>"
  let ?c2 = "?c1\<lparr>flow_map := complete K ?p (node_map w n), inflight := {#}\<rparr>"
  let ?r1 = "r\<lparr>node_cpus := (node_cpus r)(n := ?c1)\<rparr>"
  let ?r2 = "?r1\<lparr>node_cpus := (node_cpus ?r1)(n := ?c2)\<rparr>"
  have "cpu_step LE K pkt cfg batch ?c ?c1"
    using cpu_step.look [OF obs, of batch ?c] view(1,2) [of n] by simp
  then have 1: "race_step K pkt cfg batch fresh Home Own r ?r1" by (rule race_step.cpu)
  have "cpu_step LE K pkt cfg batch (node_cpus ?r1 n) ?c2"
    using cpu_step.finish [of ?c1 ?p "{#}" LE K pkt cfg batch] view(1) [of n] by simp
  then have 2: "race_step K pkt cfg batch fresh Home Own ?r1 ?r2" by (rule race_step.cpu)
  have "(race_step K pkt cfg batch fresh Home Own)\<^sup>*\<^sup>* r ?r2"
    using 1 2 by (meson converse_rtranclp_into_rtranclp rtranclp.rtrancl_refl)
  moreover have "atomic_view ?r2
    (w\<lparr>node_map := (node_map w)(n := snd (nf_postrouting_hook LE K cfg skb (node_map w n))),
       seen := (seen w)(n := seen w n @ postings LE K pkt cfg [skb])\<rparr>)"
    using view by (simp add: atomic_view_def bpf_kernel.hook_eq [OF assms(1)] obs count_packet_split)
  ultimately show ?thesis by blast
qed

text \<open>Every step of the atomic system is made of steps of this one.\<close>

lemma world_step_races:
  assumes "bpf_kernel LE K pkt contents valid" "atomic_view r w"
    and "world_step K pkt cfg batch fresh Home Own w w'"
  shows "\<exists>r'. (race_step K pkt cfg batch fresh Home Own)\<^sup>*\<^sup>* r r' \<and> atomic_view r' w'"
proof -
  note view = atomic_viewD [OF assms(2)]
  have one: ?thesis if "race_step K pkt cfg batch fresh Home Own r r'" "atomic_view r' w'" for r'
    using that by blast
  from assms(3) show ?thesis
  proof (cases rule: world_step.cases)
    case (packet n skb)
    show ?thesis unfolding packet by (rule packet_races [OF assms(1,2)])
  next
    case (flush n ps m' objs f client out)
    have "batch (max_entries ip_map) (flow_map (node_cpus r n)) = (ps, m')"
      using flush(2) view(1) [of n] by simp
    from one [OF race_step.flush [where Home = Home and n = n and w = r and batch = batch, OF this flush(3-5)]]
    show ?thesis using flush(1) view by (simp add: atomic_view_def)
  next
    case (read_error n ps m')
    have "batch (max_entries ip_map) (flow_map (node_cpus r n)) = (ps, m')"
      using read_error(2) view(1) [of n] by simp
    from one [OF race_step.cpu [where w = r and n = n, OF cpu_step.drain [where batch = batch, OF this]]]
    show ?thesis using read_error(1) view by (simp add: atomic_view_def)
  next
    case (restart n)
    show ?thesis
      by (rule one [OF race_step.restart [of _ _ _ _ _ _ _ r n]]) (use restart view in \<open>simp add: atomic_view_def\<close>)
  next
    case (lose b rest)
    show ?thesis by (rule one [OF race_step.lose]) (use lose view in \<open>simp_all add: atomic_view_def\<close>)
  next
    case (handle b rest)
    show ?thesis by (rule one [OF race_step.handle]) (use handle view in \<open>simp_all add: atomic_view_def\<close>)
  next
    case (watch ev s')
    show ?thesis by (rule one [OF race_step.watch]) (use watch view in \<open>simp_all add: atomic_view_def\<close>)
  next
    case server_restart
    show ?thesis by (rule one [OF race_step.server_restart]) (use server_restart view in \<open>simp add: atomic_view_def\<close>)
  qed
qed

lemma races_include_atomic_runs:
  assumes "bpf_kernel LE K pkt contents valid"
    and "(world_step K pkt cfg batch fresh Home Own)\<^sup>*\<^sup>* (boot fresh) w"
  shows "\<exists>r. (race_step K pkt cfg batch fresh Home Own)\<^sup>*\<^sup>* (racing_boot fresh) r \<and> atomic_view r w"
  using assms(2)
proof (induction rule: rtranclp_induct)
  case base
  have "atomic_view (racing_boot fresh) (boot fresh)"
    by (simp add: atomic_view_def racing_boot_def boot_def start_def)
  then show ?case by blast
next
  case (step w w')
  then show ?case using world_step_races [OF assms(1)] by (meson rtranclp_trans)
qed

text \<open>
  C3. Races stay at home. With the hook's map accesses interleaved in every way, entries reused
  under a pending addition, batches, messages, agents and the server lost and restarted at any
  point, the counters of all keys at home on one node together never exceed the bytes that this
  node's own hook has seen. What goes wrong on one node can bill another pod of the same node,
  never a pod of another node.
\<close>

theorem races_stay_at_home:
  assumes "bpf_kernel_batch LE K pkt contents valid batch" "valid fresh" "contents fresh = Map.empty"
    and "\<And>i. i \<noteq> n \<Longrightarrow> Home n \<inter> Home i = {}"
    and "(race_step K pkt cfg batch fresh Home Own)\<^sup>*\<^sup>* (racing_boot fresh) w"
  shows "(\<Sum>k\<in>dom (statistics (billing w)). if Own k \<subseteq> Home n then unat (the (statistics (billing w) k)) else 0)
    \<le> seen_bytes (node_cpus w n)"
proof -
  have "contained valid contents Home Own n w"
    using assms(5)
  proof (induction rule: rtranclp_induct)
    case base
    show ?case using assms(2,3) init_invariants(1)
      by (simp add: contained_def racing_boot_def start_def addressed_def init_server_def node_bill_def
          map_bytes_def)
  next
    case (step w w')
    then show ?case using race_step_contained [where Home = Home, OF assms(1-4)] by blast
  qed
  then show ?thesis by (simp add: contained_def node_bill_def map_val_def)
qed

text \<open>The witness: the sample run, in which node \<open>True\<close> sees and bills 1500 bytes.\<close>

theorem races_stay_at_home_witness:
  "\<exists>w. (race_step (sim_kernel LE) skb_packet sample_subnet slot_batch empty_slots sample_home sample_own)\<^sup>*\<^sup>*
      (racing_boot empty_slots :: (bool, slots, nat) racing) w
    \<and> lookup0 (statistics (billing w)) (sample_key ''web'') = 1500
    \<and> (\<Sum>k\<in>dom (statistics (billing w)).
         if sample_own k \<subseteq> sample_home True then unat (the (statistics (billing w) k)) else 0) \<le> 1500"
proof -
  obtain v where v: "sample_smooth\<^sup>*\<^sup>* sample_world v" "seen v = (\<lambda>n. if n then [(sample_flow, 1500)] else [])"
    "lookup0 (statistics (server v)) (sample_key ''web'') = 1500"
    using sample_world_billed by blast
  have "sample_step\<^sup>*\<^sup>* (boot empty_slots) v"
    using sample_world_reachable smooth_are_steps [OF v(1)] by (rule rtranclp_trans)
  from races_include_atomic_runs [OF sim.bpf_kernel_axioms this] obtain w where
    w: "(race_step (sim_kernel LE) skb_packet sample_subnet slot_batch empty_slots sample_home sample_own)\<^sup>*\<^sup>*
      (racing_boot empty_slots) w" "atomic_view w v"
    by blast
  have "sample_home True \<inter> sample_home i = {}" if "i \<noteq> True" for i
    using that by (simp add: sample_home_def)
  from races_stay_at_home [where Home = sample_home, OF sim_batch.bpf_kernel_batch_axioms empty_slots_valid this w(1)]
  show ?thesis using w v(2,3) atomic_viewD(3,5) [OF w(2)] by (intro exI [of _ w]) simp
qed

end
