(* ===== verification/Bpf_Progress.thy ===== *)
theory Bpf_Progress
  imports Bpf_Concurrent
begin

text \<open>
  More on the concurrent hook. Additions to flows that the map already holds are exact under
  every interleaving: the CPUs together compute what one CPU would have. And the hook's work
  always ends: whatever is in flight can be completed, and a full drain leaves nothing behind.
\<close>

section \<open>Traces of the hook\<close>

text \<open>
  The packets looked at, in order, with completions anywhere in between. A packet that is not
  counted makes no map access.
\<close>

inductive hook_trace ::
    "byte_order \<Rightarrow> ('skb, 'ptr, 'map, 'r) kernel \<Rightarrow> ('skb \<Rightarrow> u8 list) \<Rightarrow> subnet \<Rightarrow> 'map
      \<Rightarrow> 'skb list \<Rightarrow> ('map, 'r) cpus \<Rightarrow> bool"
  for e K pkt cfg m where
  init: "hook_trace e K pkt cfg m [] (start m)"
| pass: "hook_trace e K pkt cfg m skbs s \<Longrightarrow> observed e K pkt cfg skb = None \<Longrightarrow>
    hook_trace e K pkt cfg m (skbs @ [skb]) s"
| look: "hook_trace e K pkt cfg m skbs s \<Longrightarrow> observed e K pkt cfg skb = Some (k, d) \<Longrightarrow>
    hook_trace e K pkt cfg m (skbs @ [skb])
      (s\<lparr>inflight := add_mset (begin_count K k d (flow_map s)) (inflight s),
         seen_bytes := seen_bytes s + unat d\<rparr>)"
| finish: "hook_trace e K pkt cfg m skbs s \<Longrightarrow> inflight s = add_mset p rest \<Longrightarrow>
    hook_trace e K pkt cfg m skbs (s\<lparr>flow_map := complete K p (flow_map s), inflight := rest\<rparr>)"

lemma hook_trace_steps:
  "hook_trace e K pkt cfg m skbs s \<Longrightarrow> (cpu_step e K pkt cfg batch)\<^sup>*\<^sup>* (start m) s"
proof (induction rule: hook_trace.induct)
  case init
  show ?case by simp
next
  case pass
  then show ?case by simp
next
  case (look skbs s skb k d)
  from look.IH cpu_step.look [OF look.hyps(2)] show ?case by (rule rtranclp.rtrancl_into_rtrancl)
next
  case (finish skbs s p rest)
  from finish.IH cpu_step.finish [OF finish.hyps(2)] show ?case by (rule rtranclp.rtrancl_into_rtrancl)
qed

lemma postings_append [simp]:
  "postings e K pkt cfg (xs @ ys) = postings e K pkt cfg xs @ postings e K pkt cfg ys"
  by (simp add: postings_def List.map_filter_def)

text \<open>What a pending access will add to flow \<open>k\<close>, for pointers into \<open>m\<close>.\<close>

fun due :: "('skb, 'ptr, 'map, 'r) kernel \<Rightarrow> 'map \<Rightarrow> ip_key \<Rightarrow> 'r pending \<Rightarrow> u64" where
  "due K m k (Add r d) = (if bpf_map_lookup_elem K m k = Some r then d else 0)"
| "due K m k (Insert k' d) = (if k = k' then d else 0)"

definition live :: "('skb, 'ptr, 'map, 'r) kernel \<Rightarrow> 'map \<Rightarrow> 'r pending \<Rightarrow> bool" where
  "live K m p \<longleftrightarrow> (\<exists>k r d. p = Add r d \<and> bpf_map_lookup_elem K m k = Some r)"

section \<open>Known flows\<close>

definition in_step ::
    "('skb, 'ptr, 'map, 'r) kernel \<Rightarrow> ('map \<Rightarrow> ip_key \<rightharpoonup> u64) \<Rightarrow> ('map \<Rightarrow> bool) \<Rightarrow> 'map
      \<Rightarrow> (ip_key \<times> u64) list \<Rightarrow> ('map, 'r) cpus \<Rightarrow> bool" where
  "in_step K contents valid m ps s \<longleftrightarrow>
     valid (flow_map s) \<and> dom (contents (flow_map s)) = dom (contents m)
     \<and> (\<forall>k. bpf_map_lookup_elem K (flow_map s) k = bpf_map_lookup_elem K m k)
     \<and> (\<forall>p \<in># inflight s. live K m p)
     \<and> (\<forall>k. lookup0 (contents (flow_map s)) k + (\<Sum>p\<in>#inflight s. due K m k p)
          = lookup0 (contents m) k + sum_list (map snd (filter (\<lambda>q. fst q = k) ps)))"

lemma in_stepD:
  assumes "in_step K contents valid m ps s"
  shows "valid (flow_map s)" "dom (contents (flow_map s)) = dom (contents m)"
    "bpf_map_lookup_elem K (flow_map s) k = bpf_map_lookup_elem K m k"
    "p \<in># inflight s \<Longrightarrow> live K m p"
    "lookup0 (contents (flow_map s)) k + (\<Sum>p\<in>#inflight s. due K m k p)
       = lookup0 (contents m) k + sum_list (map snd (filter (\<lambda>q. fst q = k) ps))"
  using assms by (simp_all add: in_step_def)

context bpf_kernel
begin

lemma lookup_inj:
  assumes "valid m" "bpf_map_lookup_elem K m k = Some r" "bpf_map_lookup_elem K m k' = Some r"
  shows "k = k'"
proof (rule ccontr)
  assume ne: "k \<noteq> k'"
  obtain v v' where v: "contents m k = Some v" "contents m k' = Some v'"
    using lookup_miss [OF assms(1)] assms(2,3) by (metis option.exhaust option.distinct(1))
  have "(contents m)(k \<mapsto> v + 1) = (contents m)(k' \<mapsto> v' + 1)"
    using add_live [OF assms(1,2) v(1), of 1] add_live [OF assms(1,3) v(2), of 1] by simp
  from fun_cong [OF this, of k] ne v show False by simp
qed

lemma due_at:
  assumes "valid m" "bpf_map_lookup_elem K m k = Some r"
  shows "due K m j (Add r d) = (if j = k then d else 0)"
proof (cases "j = k")
  case True
  with assms(2) show ?thesis by simp
next
  case False
  then have "bpf_map_lookup_elem K m j \<noteq> Some r" using lookup_inj [OF assms] by blast
  with False show ?thesis by simp
qed

lemma begin_known:
  assumes "valid m" "k \<in> dom (contents m)"
  obtains r where "begin_count K k d m = Add r d" "bpf_map_lookup_elem K m k = Some r"
proof -
  have "bpf_map_lookup_elem K m k \<noteq> None" using assms lookup_miss [OF assms(1), of k] by auto
  then obtain r where "bpf_map_lookup_elem K m k = Some r" by blast
  then show ?thesis by (intro that [of r]) (simp_all add: begin_count_def)
qed

lemma in_step_look:
  assumes "in_step K contents valid m ps s" "valid m" "k \<in> dom (contents m)"
  shows "in_step K contents valid m (ps @ [(k, d)])
    (s\<lparr>inflight := add_mset (begin_count K k d (flow_map s)) (inflight s), seen_bytes := n\<rparr>)"
proof -
  have v: "valid (flow_map s)" and dom: "k \<in> dom (contents (flow_map s))"
    using assms by (auto simp: in_step_def)
  obtain r where r: "begin_count K k d (flow_map s) = Add r d" "bpf_map_lookup_elem K (flow_map s) k = Some r"
    using begin_known [OF v dom] by blast
  with assms(1) have r': "bpf_map_lookup_elem K m k = Some r" by (simp add: in_step_def)
  have due: "due K m j (Add r d) = (if j = k then d else 0)" for j
    using due_at [OF assms(2) r'] .
  let ?s = "s\<lparr>inflight := add_mset (Add r d) (inflight s), seen_bytes := n\<rparr>"
  have "live K m (Add r d)" using r' by (auto simp: live_def)
  then have "\<forall>p \<in># inflight ?s. live K m p" using in_stepD(4) [OF assms(1)] by auto
  moreover have "lookup0 (contents (flow_map ?s)) j + (\<Sum>p\<in>#inflight ?s. due K m j p)
      = lookup0 (contents m) j + sum_list (map snd (filter (\<lambda>q. fst q = j) (ps @ [(k, d)])))" for j
  proof -
    have "lookup0 (contents (flow_map ?s)) j + (\<Sum>p\<in>#inflight ?s. due K m j p)
        = (lookup0 (contents (flow_map s)) j + (\<Sum>p\<in>#inflight s. due K m j p)) + due K m j (Add r d)"
      by (simp add: ac_simps del: due.simps)
    also have "\<dots> = (lookup0 (contents m) j + sum_list (map snd (filter (\<lambda>q. fst q = j) ps)))
        + (if j = k then d else 0)"
      by (simp only: in_stepD(5) [OF assms(1)] due)
    finally show ?thesis by (simp add: ac_simps)
  qed
  ultimately show ?thesis
    using in_stepD(1-3) [OF assms(1)] unfolding r(1) in_step_def by simp
qed

lemma in_step_finish:
  assumes "in_step K contents valid m ps s" "valid m" "inflight s = add_mset p rest"
  shows "in_step K contents valid m ps (s\<lparr>flow_map := complete K p (flow_map s), inflight := rest\<rparr>)"
proof -
  have v: "valid (flow_map s)" and "live K m p" using assms by (auto simp: in_step_def)
  then obtain k r d where p: "p = Add r d" "bpf_map_lookup_elem K m k = Some r"
    by (auto simp: live_def)
  with assms(1) have r: "bpf_map_lookup_elem K (flow_map s) k = Some r" by (simp add: in_step_def)
  obtain x where x: "contents (flow_map s) k = Some x" using lookup_miss [OF v, of k] r by auto
  have c: "contents (complete K p (flow_map s)) = (contents (flow_map s))(k \<mapsto> x + d)"
    using add_live [OF v r x] by (simp add: complete_def p)
  have due: "due K m j p = (if j = k then d else 0)" for j
    unfolding p(1) by (rule due_at [OF assms(2) p(2)])
  have l0: "lookup0 (contents (complete K p (flow_map s))) j
      = lookup0 (contents (flow_map s)) j + due K m j p" for j
    using x by (simp add: c due lookup0_def)
  let ?s = "s\<lparr>flow_map := complete K p (flow_map s), inflight := rest\<rparr>"
  have "valid (flow_map ?s)" "bpf_map_lookup_elem K (flow_map ?s) j = bpf_map_lookup_elem K m j" for j
    using in_stepD(3) [OF assms(1)] v by (simp_all add: complete_def p(1) add_valid add_lookup)
  moreover have "dom (contents (flow_map ?s)) = dom (contents m)"
    using in_stepD(2) [OF assms(1)] x by (auto simp: c)
  moreover have "\<forall>p \<in># inflight ?s. live K m p"
    using in_stepD(4) [OF assms(1)] by (simp add: assms(3))
  moreover have "lookup0 (contents (flow_map ?s)) j + (\<Sum>p\<in>#inflight ?s. due K m j p)
      = lookup0 (contents m) j + sum_list (map snd (filter (\<lambda>q. fst q = j) ps))" for j
    using in_stepD(5) [OF assms(1), of j] by (simp add: l0 assms(3) ac_simps)
  ultimately show ?thesis unfolding in_step_def by blast
qed

lemma hook_trace_in_step:
  assumes "hook_trace e K pkt cfg m skbs s" "valid m"
    and "fst ` set (postings e K pkt cfg skbs) \<subseteq> dom (contents m)"
  shows "in_step K contents valid m (postings e K pkt cfg skbs) s"
  using assms(1,3)
proof (induction rule: hook_trace.induct)
  case init
  show ?case using assms(2) by (simp add: in_step_def start_def)
next
  case (pass skbs s skb)
  then show ?case by simp
next
  case (look skbs s skb k d)
  then show ?case using in_step_look [OF _ assms(2), of "postings e K pkt cfg skbs" s k] by simp
next
  case (finish skbs s p rest)
  then show ?case using in_step_finish [OF _ assms(2)] by blast
qed

lemma known_flows_exact_aux:
  assumes "hook_trace e K pkt cfg m skbs s" "valid m" "inflight s = {#}"
    and "fst ` set (postings e K pkt cfg skbs) \<subseteq> dom (contents m)"
  shows "contents (flow_map s) = contents (hook_run e K cfg skbs m)"
proof -
  have inv: "in_step K contents valid m (postings e K pkt cfg skbs) s"
    by (rule hook_trace_in_step [OF assms(1,2,4)])
  have "dom (contents m) \<union> fst ` set (postings e K pkt cfg skbs) = dom (contents m)"
    using assms(4) by blast
  then have seq: "contents (hook_run e K cfg skbs m)
      = fold (\<lambda>(k, d). bump k d) (postings e K pkt cfg skbs) (contents m)"
    using hook_run_contents [OF assms(2)] bounded [OF assms(2)] by simp
  show ?thesis
  proof (rule map_eqI_lookup0)
    show "dom (contents (flow_map s)) = dom (contents (hook_run e K cfg skbs m))"
      using inv assms(4) by (auto simp: seq dom_bumps in_step_def)
    fix k
    show "lookup0 (contents (flow_map s)) k = lookup0 (contents (hook_run e K cfg skbs m)) k"
      using inv assms(3) by (simp add: seq counters.balance_posts in_step_def)
  qed
qed

end

text \<open>
  C15. For flows that the map already holds, concurrency is invisible: however the lookups and
  the atomic additions of several CPUs interleave, once they are done the map holds exactly
  what a single CPU would have left after the same packets one by one.
\<close>

theorem known_flows_exact:
  assumes "bpf_kernel e K pkt contents valid" "valid m"
    and "hook_trace e K pkt cfg m skbs s" "inflight s = {#}"
    and "fst ` set (postings e K pkt cfg skbs) \<subseteq> dom (contents m)"
  shows "contents (flow_map s) = contents (hook_run e K cfg skbs m)"
  by (rule bpf_kernel.known_flows_exact_aux [OF assms(1,3,2,4,5)])

text \<open>Two CPUs look up the sample flow before either adds to it.\<close>

definition one_flow :: slots where
  "one_flow = snd (slot_update empty_slots sample_flow \<lparr>packet_size = 1500\<rparr> BPF_ANY)"

lemma one_flow: "slots_valid one_flow" "slot_contents one_flow = [sample_flow \<mapsto> 1500]"
  using slot_update_fits [OF empty_slots_valid(1), of sample_flow]
  by (simp_all add: one_flow_def ip_map_def)

theorem known_flows_exact_witness:
  "\<exists>s. hook_trace LE (sim_kernel LE) skb_packet sample_subnet one_flow [sample_skb, sample_skb] s
    \<and> inflight s = {#}
    \<and> slot_contents (flow_map s) sample_flow = Some 4500"
proof -
  let ?K = "sim_kernel LE"
  let ?trace = "hook_trace LE ?K skb_packet sample_subnet one_flow"
  obtain r where r: "begin_count ?K sample_flow 1500 one_flow = Add r 1500"
    using sim.begin_known [OF one_flow(1), of sample_flow LE 1500] one_flow(2) by auto
  let ?p = "Add r 1500 :: nat pending"
  define s1 :: "(slots, nat) cpus" where
    "s1 = \<lparr>flow_map = one_flow, inflight = {#?p#}, seen_bytes = 1500, drained_bytes = 0\<rparr>"
  define s2 :: "(slots, nat) cpus" where
    "s2 = \<lparr>flow_map = one_flow, inflight = {#?p, ?p#}, seen_bytes = 3000, drained_bytes = 0\<rparr>"
  define s3 :: "(slots, nat) cpus" where
    "s3 = \<lparr>flow_map = complete ?K ?p one_flow, inflight = {#?p#}, seen_bytes = 3000, drained_bytes = 0\<rparr>"
  define s4 :: "(slots, nat) cpus" where
    "s4 = \<lparr>flow_map = complete ?K ?p (complete ?K ?p one_flow), inflight = {#}, seen_bytes = 3000,
       drained_bytes = 0\<rparr>"
  have a: "?trace [sample_skb] s1"
    using hook_trace.look [OF hook_trace.init observed_sample, of one_flow]
    by (simp add: start_def s1_def r)
  have b: "?trace [sample_skb, sample_skb] s2"
    using hook_trace.look [OF a observed_sample] by (simp add: s1_def s2_def r)
  have c: "?trace [sample_skb, sample_skb] s3"
    using hook_trace.finish [OF b, of ?p "{#?p#}"] by (simp add: s2_def s3_def)
  have d: "?trace [sample_skb, sample_skb] s4"
    using hook_trace.finish [OF c, of ?p "{#}"] by (simp add: s3_def s4_def)
  have q: "inflight s4 = {#}" by (simp add: s4_def)
  have known: "fst ` set (postings LE ?K skb_packet sample_subnet [sample_skb, sample_skb])
      \<subseteq> dom (slot_contents one_flow)"
    by (simp add: observed_sample one_flow(2))
  have "slot_contents (flow_map s4) = slot_contents (hook_run LE ?K sample_subnet [sample_skb, sample_skb] one_flow)"
    by (rule known_flows_exact [OF sim.bpf_kernel_axioms one_flow(1) d q known])
  also have "\<dots> = fold (\<lambda>(k, d). bump k d)
      (postings LE ?K skb_packet sample_subnet [sample_skb, sample_skb]) (slot_contents one_flow)"
    using sim.hook_run_contents [OF one_flow(1), where skbs = "[sample_skb, sample_skb]"] known
    by (simp add: observed_sample one_flow(2) ip_map_def)
  finally have "slot_contents (flow_map s4) sample_flow = Some 4500"
    by (simp add: observed_sample one_flow(2) bump_def lookup0_def)
  with d q show ?thesis by blast
qed

section \<open>Completion\<close>

context bpf_kernel_batch
begin

lemma completes:
  "valid (flow_map s) \<Longrightarrow>
   \<exists>s'. (cpu_step e K pkt cfg batch)\<^sup>*\<^sup>* s s' \<and> inflight s' = {#} \<and> valid (flow_map s')
     \<and> seen_bytes s' = seen_bytes s"
proof (induction "inflight s" arbitrary: s)
  case empty
  then show ?case by auto
next
  case (add p rest)
  let ?s = "s\<lparr>flow_map := complete K p (flow_map s), inflight := rest\<rparr>"
  have step: "cpu_step e K pkt cfg batch s ?s" by (rule cpu_step.finish) (simp add: add.hyps(2))
  have "valid (flow_map ?s)" using complete_bytes [OF add.prems, of p] by simp
  from add.hyps(1) [of ?s, OF _ this] step show ?case
    by (auto intro: converse_rtranclp_into_rtranclp)
qed

lemma drains:
  assumes "valid (flow_map s)"
  shows "\<exists>s'. cpu_step e K pkt cfg batch s s' \<and> inflight s' = inflight s
    \<and> contents (flow_map s') = Map.empty \<and> seen_bytes s' = seen_bytes s
    \<and> drained_bytes s' = drained_bytes s + map_bytes (contents (flow_map s))"
proof -
  obtain ps m' where b: "batch (max_entries ip_map) (flow_map s) = (ps, m')" by fastforce
  let ?s = "s\<lparr>flow_map := m', drained_bytes := drained_bytes s + (\<Sum>p\<leftarrow>ps. unat (snd p))\<rparr>"
  have fin: "finite (dom (contents (flow_map s)))" using bounded [OF assms] by blast
  have all: "set ps = Map.graph (contents (flow_map s))"
    using batch_all [OF assms, of "max_entries ip_map"] bounded [OF assms] b by simp
  have dom: "fst ` set ps = dom (contents (flow_map s))"
    unfolding all by (force simp: Map.graph_def)
  have rest: "contents m' = contents (flow_map s) |` (- fst ` set ps)"
    using batch_rest [OF assms, of "max_entries ip_map"] b by simp
  then have empty: "contents m' = Map.empty" by (auto simp: dom restrict_map_def fun_eq_iff)
  have "map_bytes (contents m') + (\<Sum>p\<leftarrow>ps. unat (snd p)) = map_bytes (contents (flow_map s))"
    using map_bytes_batch [OF fin batch_entries [OF assms] batch_distinct [OF assms], of "max_entries ip_map"] b rest by simp
  then have "(\<Sum>p\<leftarrow>ps. unat (snd p)) = map_bytes (contents (flow_map s))"
    by (simp add: empty map_bytes_def)
  moreover have "cpu_step e K pkt cfg batch s ?s" using b by (rule cpu_step.drain)
  ultimately show ?thesis using empty by (intro exI [of _ ?s]) simp
qed

end



end
