(* ===== verification/Bpf_Recycle.thy ===== *)
theory Bpf_Recycle
  imports Bpf_Progress
begin

text \<open>
  What the totals of the concurrent hook do not show: between the lookup and the addition the
  agent may remove the entry, and the kernel's hash map, whose elements are preallocated, may
  give its element to another flow. The addition then counts for that flow.
\<close>

section \<open>Traces with drains\<close>

text \<open>The states of the CPUs with the packets looked at and the entries drained so far.\<close>

inductive drain_trace ::
    "byte_order \<Rightarrow> ('skb, 'ptr, 'map, 'r) kernel \<Rightarrow> ('skb \<Rightarrow> u8 list) \<Rightarrow> subnet
      \<Rightarrow> (nat \<Rightarrow> 'map \<Rightarrow> (ip_key \<times> u64) list \<times> 'map) \<Rightarrow> 'map
      \<Rightarrow> 'skb list \<Rightarrow> (ip_key \<times> u64) list \<Rightarrow> ('map, 'r) cpus \<Rightarrow> bool"
  for e K pkt cfg batch m where
  init: "drain_trace e K pkt cfg batch m [] [] (start m)"
| look: "drain_trace e K pkt cfg batch m skbs ps s \<Longrightarrow> observed e K pkt cfg skb = Some (k, d) \<Longrightarrow>
    drain_trace e K pkt cfg batch m (skbs @ [skb]) ps
      (s\<lparr>inflight := add_mset (begin_count K k d (flow_map s)) (inflight s),
         seen_bytes := seen_bytes s + unat d\<rparr>)"
| finish: "drain_trace e K pkt cfg batch m skbs ps s \<Longrightarrow> inflight s = add_mset p rest \<Longrightarrow>
    drain_trace e K pkt cfg batch m skbs ps
      (s\<lparr>flow_map := complete K p (flow_map s), inflight := rest\<rparr>)"
| drain: "drain_trace e K pkt cfg batch m skbs ps s \<Longrightarrow> batch n (flow_map s) = (qs, m') \<Longrightarrow>
    drain_trace e K pkt cfg batch m skbs (ps @ qs)
      (s\<lparr>flow_map := m', drained_bytes := drained_bytes s + (\<Sum>p\<leftarrow>qs. unat (snd p))\<rparr>)"

lemma drain_trace_steps:
  "drain_trace e K pkt cfg batch m skbs ps s \<Longrightarrow> (cpu_step e K pkt cfg batch)\<^sup>*\<^sup>* (start m) s"
  by (induction rule: drain_trace.induct)
    (auto intro: rtranclp.rtrancl_into_rtrancl cpu_step.look cpu_step.finish cpu_step.drain)

section \<open>The first slot\<close>

abbreviation rest_slots :: slots where
  "rest_slots \<equiv> replicate 1023 None"

lemma empty_slots_split: "empty_slots = None # rest_slots"
  by (simp add: empty_slots_def ip_map_def numeral_eq_Suc)

lemma slot_batch_none: "slot_batch n (replicate i None) = ([], replicate i None)"
  by (induction i) auto

lemma find_slot_none: "find_slot k (replicate i None) = None"
  by (induction i) auto

lemma first_slot:
  "complete (sim_kernel LE) (Insert k d) (None # rest_slots) = Some (k, d) # rest_slots"
  "complete (sim_kernel LE) (Add 0 d) (Some (k, v) # rest_slots) = Some (k, v + d) # rest_slots"
  "begin_count (sim_kernel LE) k d (None # rest_slots) = Insert k d"
  "begin_count (sim_kernel LE) k d (Some (k, v) # rest_slots) = Add 0 d"
  "slot_batch 1024 (Some (k, v) # rest_slots) = ([(k, v)], None # rest_slots)"
  "slot_contents (Some (k, v) # rest_slots) = [k \<mapsto> v]"
  by (simp_all add: complete_def begin_count_def sim_kernel_def slot_update_def slot_add_def
      find_slot_none slot_batch_none slot_contents_def List.map_filter_def
      slot_batch.simps(4) [of 1023, simplified])

section \<open>The wrong flow\<close>

text \<open>A second packet: UDP from 10.0.0.3 to 10.0.0.2, 60 bytes long.\<close>

definition other_skb :: sim_skb where
  "other_skb = \<lparr>skb_protocol = 0x0800,
     skb_packet = [0x45, 0, 0, 60, 0, 0, 0, 0, 64, 17, 0, 0, 10, 0, 0, 3, 10, 0, 0, 2,
       0, 53, 0x01, 0xBB]\<rparr>"

definition other_flow :: ip_key where
  "other_flow = \<lparr>src_ip = 0x0300000A, dest_ip = 0x0200000A, src_port = 53, dest_port = 443\<rparr>"

lemma observed_other:
  "observed LE (sim_kernel LE) skb_packet sample_subnet other_skb = Some (other_flow, 60)"
  by code_simp

text \<open>
  C25. An addition can count for the wrong flow. A CPU finds the entry of its flow, the agent
  drains the map, another CPU inserts a new flow, which the kernel puts into the same element,
  and then the first CPU adds to it: of the 3000 bytes of the first flow only 1500 are reported,
  and the 60 bytes of the second, which belongs to another pod, have become 1560.
\<close>

theorem recycled_entry_misattributes:
  "\<exists>s. drain_trace LE (sim_kernel LE) skb_packet sample_subnet slot_batch empty_slots
       [sample_skb, sample_skb, other_skb] [(sample_flow, 1500)] s
    \<and> inflight s = {#} \<and> slot_contents (flow_map s) = [other_flow \<mapsto> 1560]
    \<and> postings LE (sim_kernel LE) skb_packet sample_subnet [sample_skb, sample_skb, other_skb]
      = [(sample_flow, 1500), (sample_flow, 1500), (other_flow, 60)]"
proof -
  let ?trace = "drain_trace LE (sim_kernel LE) skb_packet sample_subnet slot_batch empty_slots"
  let ?c = "\<lambda>m fl seen drained. \<lparr>flow_map = m, inflight = fl, seen_bytes = seen, drained_bytes = drained\<rparr>
    :: (slots, nat) cpus"
  let ?e = "None # rest_slots" and ?a = "Some (sample_flow, 1500) # rest_slots"
  let ?o = "Some (other_flow, 60) # rest_slots" and ?m = "Some (other_flow, 1560) # rest_slots"
  have 1: "?trace [sample_skb] [] (?c ?e {#Insert sample_flow 1500#} 1500 0)"
    using drain_trace.look [OF drain_trace.init observed_sample, of slot_batch empty_slots]
    by (simp add: start_def empty_slots_split first_slot)
  have 2: "?trace [sample_skb] [] (?c ?a {#} 1500 0)"
    using drain_trace.finish [OF 1, of "Insert sample_flow 1500" "{#}"] by (simp add: first_slot)
  have 3: "?trace [sample_skb, sample_skb] [] (?c ?a {#Add 0 1500#} 3000 0)"
    using drain_trace.look [OF 2 observed_sample] by (simp add: first_slot)
  have 4: "?trace [sample_skb, sample_skb] [(sample_flow, 1500)] (?c ?e {#Add 0 1500#} 3000 1500)"
    using drain_trace.drain [OF 3, of 1024 "[(sample_flow, 1500)]" ?e] by (simp add: first_slot)
  have 5: "?trace [sample_skb, sample_skb, other_skb] [(sample_flow, 1500)]
      (?c ?e {#Insert other_flow 60, Add 0 1500#} 3060 1500)"
    using drain_trace.look [OF 4 observed_other] by (simp add: first_slot)
  have 6: "?trace [sample_skb, sample_skb, other_skb] [(sample_flow, 1500)] (?c ?o {#Add 0 1500#} 3060 1500)"
    using drain_trace.finish [OF 5, of "Insert other_flow 60" "{#Add 0 1500#}"] by (simp add: first_slot)
  have 7: "?trace [sample_skb, sample_skb, other_skb] [(sample_flow, 1500)] (?c ?m {#} 3060 1500)"
    using drain_trace.finish [OF 6, of "Add 0 1500" "{#}"] by (simp add: first_slot)
  show ?thesis
    using 7 by (intro exI [of _ "?c ?m {#} 3060 1500"])
      (simp add: first_slot observed_sample observed_other)
qed

end
