(* ===== verification/Agent_Run.thy ===== *)
theory Agent_Run
  imports Agent_Facts
begin

text \<open>
  The agent's life cycle (agent/agent.go \<open>Run\<close>, cmd/agent/main.go \<open>main\<close>): what it sets up,
  in which order and with which early returns, the loop, and the deferred calls that undo the
  setup. The calls into the libraries that can fail are given by their results.
\<close>

section \<open>The environment and the effects\<close>

record run_env =
  in_cluster_config :: bool
  kubeconfig :: bool
  clientset :: bool
  memlock_err :: "string option"
  load_err :: "string option"
  rewrite_err :: "string option"
  assign_err :: "string option"
  attach_err :: "string option"
  events :: "loop_event list"

text \<open>
  What has to be released: the context that the informer runs under, the loaded objects with
  the constants they were given, the attached hook and the ticker.
\<close>

datatype resource =
    Context string
  | Objects subnet
  | Link netfilter_options
  | Ticker int

datatype effect =
    Acquire resource
  | Release resource
  | Flush tick_outcome

datatype run_outcome =
    ReturnNil
  | ReturnError string
  | RunPanic panic
  | ExitProcess nat
  | StillRunning

fun loop_outcome :: "loop_end \<Rightarrow> run_outcome" where
  "loop_outcome Running = StillRunning"
| "loop_outcome Stopped = ReturnNil"
| "loop_outcome (Panicked p) = RunPanic p"

text \<open>
  \<open>defer_release\<close> is a \<open>defer\<close> statement with the rest of the function: the release runs
  when the function returns or panics, not when the process exits.
\<close>

definition defer_release :: "resource \<Rightarrow> effect list \<times> run_outcome \<Rightarrow> effect list \<times> run_outcome" where
  "defer_release r = (\<lambda>(es, out).
     (Acquire r # es @ (case out of ExitProcess n \<Rightarrow> [] | StillRunning \<Rightarrow> [] | _ \<Rightarrow> [Release r]), out))"

section \<open>Run\<close>

text \<open>From the ticker on, from the attachment on, and the whole function.\<close>

definition run_ticker :: "flags \<Rightarrow> run_env \<Rightarrow> effect list \<times> run_outcome" where
  "run_ticker f env =
     (if flush_interval f \<le> 0 then ([], RunPanic NonPositiveTicker)
      else defer_release (Ticker (flush_interval f))
        (let (outs, fin) = flush_loop f (events env) in (map Flush outs, loop_outcome fin)))"

definition run_program :: "flags \<Rightarrow> run_env \<Rightarrow> subnet \<Rightarrow> effect list \<times> run_outcome" where
  "run_program f env cfg =
     (case memlock_err env of
        Some err \<Rightarrow> ([], ReturnError (''removing memlock: '' @ err))
      | None \<Rightarrow>
     (case load_err env of
        Some err \<Rightarrow> ([], ReturnError (''load eBPF program: '' @ err))
      | None \<Rightarrow>
     (case rewrite_err env of
        Some err \<Rightarrow> ([], ReturnError (''configure eBPF program: '' @ err))
      | None \<Rightarrow>
     (case assign_err env of
        Some err \<Rightarrow> ([], ReturnError (''load eBPF objects: '' @ err))
      | None \<Rightarrow>
          defer_release (Objects cfg)
            (case attach_err env of
               Some err \<Rightarrow> ([], ReturnError (''attach netfilter: '' @ err))
             | None \<Rightarrow> defer_release (Link attach_options) (run_ticker f env))))))"

definition Run :: "flags \<Rightarrow> run_env \<Rightarrow> effect list \<times> run_outcome" where
  "Run f env =
     defer_release (Context (node_name f))
       (if \<not> in_cluster_config env \<and> \<not> kubeconfig env then ([], ExitProcess 1)
        else if \<not> clientset env then ([], ExitProcess 1)
        else (case program_constants (subnet_cidr f) of
            Inl p \<Rightarrow> ([], RunPanic p)
          | Inr None \<Rightarrow> ([], ExitProcess 1)
          | Inr (Some cfg) \<Rightarrow> run_program f env cfg))"

text \<open>The process: its effects, and its exit status once it ends (2 after a panic).\<close>

definition agent_main :: "flags \<Rightarrow> run_env \<Rightarrow> effect list \<times> nat option" where
  "agent_main f env =
     (case check_flags f of
        Some msg \<Rightarrow> ([], Some 1)
      | None \<Rightarrow>
          (case Run f env of
             (es, ReturnNil) \<Rightarrow> (es, Some 0)
           | (es, ReturnError err) \<Rightarrow> (es, Some 1)
           | (es, RunPanic p) \<Rightarrow> (es, Some 2)
           | (es, ExitProcess n) \<Rightarrow> (es, Some n)
           | (es, StillRunning) \<Rightarrow> (es, None)))"

section \<open>Resources\<close>

text \<open>
  What is held after a list of effects, innermost first; \<open>None\<close> when something is released
  that is not the innermost thing held.
\<close>

fun held :: "effect list \<Rightarrow> resource list \<Rightarrow> resource list option" where
  "held [] rs = Some rs"
| "held (Acquire r # es) rs = held es (r # rs)"
| "held (Release r # es) rs =
     (case rs of [] \<Rightarrow> None | r' # rs' \<Rightarrow> if r = r' then held es rs' else None)"
| "held (Flush out # es) rs = held es rs"

lemma held_append: "held (es @ es') rs = (case held es rs of None \<Rightarrow> None | Some rs' \<Rightarrow> held es' rs')"
  by (induction es rs rule: held.induct) (auto split: list.splits)

lemma held_flushes [simp]: "held (map Flush outs) rs = Some rs"
  by (induction outs) simp_all

text \<open>
  A function body that leaves what it found when it returns, and only more on top of it when
  the process exits or goes on.
\<close>

definition balanced :: "effect list \<times> run_outcome \<Rightarrow> bool" where
  "balanced = (\<lambda>(es, out). \<forall>rs. \<exists>more. held es rs = Some (more @ rs)
     \<and> (out \<notin> {StillRunning} \<union> range ExitProcess \<longrightarrow> more = []))"

lemma balanced_defer: "balanced body \<Longrightarrow> balanced (defer_release r body)"
proof -
  assume bal: "balanced body"
  obtain es out where body: "body = (es, out)" by (cases body)
  show ?thesis
    unfolding balanced_def body defer_release_def prod.case
  proof (intro allI)
    fix rs
    obtain more where more: "held es (r # rs) = Some (more @ r # rs)"
      "out \<notin> {StillRunning} \<union> range ExitProcess \<longrightarrow> more = []"
      using bal unfolding balanced_def body prod.case by blast
    show "\<exists>more. held (Acquire r # es @ (case out of ExitProcess n \<Rightarrow> [] | StillRunning \<Rightarrow> [] | _ \<Rightarrow> [Release r])) rs
        = Some (more @ rs) \<and> (out \<notin> {StillRunning} \<union> range ExitProcess \<longrightarrow> more = [])"
      using more by (intro exI [of _ "case out of ExitProcess n \<Rightarrow> more @ [r] | StillRunning \<Rightarrow> more @ [r] | _ \<Rightarrow> []"])
        (auto simp: held_append split: run_outcome.splits)
  qed
qed

lemma balanced_empty [simp]: "balanced ([], out)"
  by (simp add: balanced_def)

lemma balanced_flushes: "balanced (map Flush outs, out)"
  by (simp add: balanced_def)

lemma balanced_run_ticker: "balanced (run_ticker f env)"
  by (auto simp: run_ticker_def split_beta intro: balanced_defer balanced_flushes)

lemma balanced_run_program: "balanced (run_program f env cfg)"
  by (auto simp: run_program_def balanced_run_ticker split: option.split intro!: balanced_defer)

lemma balanced_Run: "balanced (Run f env)"
  unfolding Run_def
  by (rule balanced_defer) (auto simp: balanced_run_program split: option.split sum.split)

section \<open>The ends of a run\<close>

text \<open>The resources in the order \<open>Run\<close> acquires them.\<close>

definition acquired :: "flags \<Rightarrow> subnet \<Rightarrow> resource list" where
  "acquired f cfg =
     [Context (node_name f), Objects cfg, Link attach_options, Ticker (flush_interval f)]"

lemma run_ticker_exit: "snd (run_ticker f env) \<noteq> ExitProcess n"
proof -
  have "loop_outcome e \<noteq> ExitProcess n" for e by (cases e) auto
  then show ?thesis by (simp add: run_ticker_def defer_release_def split_beta)
qed

lemma run_ticker_running:
  "snd (run_ticker f env) = StillRunning \<Longrightarrow>
   fst (run_ticker f env) = Acquire (Ticker (flush_interval f)) # map Flush (fst (flush_loop f (events env)))"
  by (auto simp: run_ticker_def defer_release_def split_beta split: if_splits)

lemma snd_defer_release [simp]: "snd (defer_release r body) = snd body"
  by (simp add: defer_release_def split_beta)

lemma fst_defer_release_exit: "snd body = ExitProcess n \<Longrightarrow> fst (defer_release r body) = Acquire r # fst body"
  by (simp add: defer_release_def split_beta)

lemma fst_defer_release_running: "snd body = StillRunning \<Longrightarrow> fst (defer_release r body) = Acquire r # fst body"
  by (simp add: defer_release_def split_beta)

lemma run_program_exit: "snd (run_program f env cfg) \<noteq> ExitProcess n"
  by (simp add: run_program_def run_ticker_exit split: option.split)

lemma run_program_running:
  "snd (run_program f env cfg) = StillRunning \<Longrightarrow>
   fst (run_program f env cfg) =
     map Acquire (tl (acquired f cfg)) @ map Flush (fst (flush_loop f (events env)))"
  by (auto simp: run_program_def acquired_def fst_defer_release_running run_ticker_running
      split: option.splits)

lemma Run_exit:
  assumes "snd (Run f env) = ExitProcess n"
  shows "fst (Run f env) = [Acquire (Context (node_name f))]"
proof -
  obtain r where "program_constants (subnet_cidr f) = Inr r"
    using program_constants_total by blast
  then show ?thesis
    using assms by (auto simp: Run_def fst_defer_release_exit run_program_exit split: option.splits if_splits)
qed

lemma Run_running:
  assumes "snd (Run f env) = StillRunning"
  shows "\<exists>cfg. program_constants (subnet_cidr f) = Inr (Some cfg) \<and>
    fst (Run f env) = map Acquire (acquired f cfg) @ map Flush (fst (flush_loop f (events env)))"
proof -
  obtain r where r: "program_constants (subnet_cidr f) = Inr r"
    using program_constants_total by blast
  then obtain cfg where cfg: "r = Some cfg"
    using assms by (auto simp: Run_def split: option.splits if_splits)
  have body: "snd (run_program f env cfg) = StillRunning"
    using assms by (auto simp: Run_def r cfg split: if_splits)
  have "fst (Run f env) = Acquire (Context (node_name f)) # fst (run_program f env cfg)"
    using assms by (auto simp: Run_def r cfg fst_defer_release_running split: if_splits)
  then show ?thesis
    using r cfg by (simp add: run_program_running [OF body] acquired_def)
qed

lemma Run_ended:
  assumes "snd (Run f env) \<noteq> StillRunning" "\<forall>n. snd (Run f env) \<noteq> ExitProcess n"
  shows "held (fst (Run f env)) [] = Some []"
proof -
  obtain es out where r: "Run f env = (es, out)" by (cases "Run f env")
  have out: "out \<notin> {StillRunning} \<union> range ExitProcess" using assms r by auto
  have "\<forall>rs. \<exists>more. held es rs = Some (more @ rs) \<and> (out \<notin> {StillRunning} \<union> range ExitProcess \<longrightarrow> more = [])"
    using balanced_Run [of f env] unfolding r balanced_def prod.case .
  then show ?thesis using out r by (metis append_Nil fst_conv)
qed


section \<open>Shutting down\<close>

fun lawful_tick :: "loop_event \<Rightarrow> bool" where
  "lawful_tick (Tick client b store) = (batch_ok b \<and> store_ok store)"
| "lawful_tick Stop = False"
| "lawful_tick CtxDone = False"

fun tick_result :: "flags \<Rightarrow> loop_event \<Rightarrow> tick_outcome go" where
  "tick_result f (Tick client b store) = flush_tick f client b store"
| "tick_result f Stop = Inr NoData"
| "tick_result f CtxDone = Inr NoData"

lemma flush_loop_stops:
  assumes "stop = Stop \<or> stop = CtxDone"
  shows "list_all lawful_tick ticks \<Longrightarrow>
    snd (flush_loop f (ticks @ stop # rest)) = Stopped \<and>
    map Inr (fst (flush_loop f (ticks @ stop # rest))) = map (tick_result f) ticks"
proof (induction ticks)
  case Nil
  then show ?case using assms by auto
next
  case (Cons e ticks)
  then obtain client b store where e: "e = Tick client b store" and ok: "batch_ok b" "store_ok store"
    by (cases e) auto
  obtain out where "flush_tick f client b store = Inr out" using flush_tick_total [OF ok] by blast
  then show ?case using Cons by (simp add: e split_beta)
qed



end
