(* ===== verification/Kernel_Net.thy ===== *)
theory Kernel_Net
  imports Kernel_ABI
begin

text \<open>
  The network objects that the hook's context points to (agent/vmlinux.h): the hook state, the
  devices, the routing entry and the socket, each with everything it contains by value. The
  layout lemma of a structure gives its alignment and its size in bytes.
\<close>

definition struct_nf_hook_state :: ctype where
  "struct_nf_hook_state = CStruct [
     Member ''hook'' (CInt 1), Member ''pf'' (CInt 1), Member ''in'' CPtr, Member ''out'' CPtr,
     Member ''sk'' CPtr, Member ''net'' CPtr, Member ''okfn'' CPtr]"

lemma layout_struct_nf_hook_state [simp]: "cwf struct_nf_hook_state" "calign struct_nf_hook_state = 8" "csize struct_nf_hook_state = 48"
  by (simp_all add: struct_nf_hook_state_def place_def align_up_def)

definition struct_netdev_tc_txq :: ctype where
  "struct_netdev_tc_txq = CStruct [
     Member ''count'' (CInt 2), Member ''offset'' (CInt 2)]"

lemma layout_struct_netdev_tc_txq [simp]: "cwf struct_netdev_tc_txq" "calign struct_netdev_tc_txq = 2" "csize struct_netdev_tc_txq = 4"
  by (simp_all add: struct_netdev_tc_txq_def place_def align_up_def)

definition type_possible_net_t :: ctype where
  "type_possible_net_t = CStruct [
     Member ''net'' CPtr]"

lemma layout_type_possible_net_t [simp]: "cwf type_possible_net_t" "calign type_possible_net_t = 8" "csize type_possible_net_t = 8"
  by (simp_all add: type_possible_net_t_def place_def align_up_def)

definition type_atomic64_t :: ctype where
  "type_atomic64_t = CStruct [
     Member ''counter'' (CInt 8)]"

lemma layout_type_atomic64_t [simp]: "cwf type_atomic64_t" "calign type_atomic64_t = 8" "csize type_atomic64_t = 8"
  by (simp_all add: type_atomic64_t_def place_def align_up_def)

definition struct_net_device_stats :: ctype where
  "struct_net_device_stats = CStruct [
     Member '''' (CUnion [
       Member ''rx_packets'' (CInt 8), Member ''__rx_packets'' type_atomic64_t]),
     Member '''' (CUnion [
       Member ''tx_packets'' (CInt 8), Member ''__tx_packets'' type_atomic64_t]),
     Member '''' (CUnion [
       Member ''rx_bytes'' (CInt 8), Member ''__rx_bytes'' type_atomic64_t]),
     Member '''' (CUnion [
       Member ''tx_bytes'' (CInt 8), Member ''__tx_bytes'' type_atomic64_t]),
     Member '''' (CUnion [
       Member ''rx_errors'' (CInt 8), Member ''__rx_errors'' type_atomic64_t]),
     Member '''' (CUnion [
       Member ''tx_errors'' (CInt 8), Member ''__tx_errors'' type_atomic64_t]),
     Member '''' (CUnion [
       Member ''rx_dropped'' (CInt 8), Member ''__rx_dropped'' type_atomic64_t]),
     Member '''' (CUnion [
       Member ''tx_dropped'' (CInt 8), Member ''__tx_dropped'' type_atomic64_t]),
     Member '''' (CUnion [
       Member ''multicast'' (CInt 8), Member ''__multicast'' type_atomic64_t]),
     Member '''' (CUnion [
       Member ''collisions'' (CInt 8), Member ''__collisions'' type_atomic64_t]),
     Member '''' (CUnion [
       Member ''rx_length_errors'' (CInt 8), Member ''__rx_length_errors'' type_atomic64_t]),
     Member '''' (CUnion [
       Member ''rx_over_errors'' (CInt 8), Member ''__rx_over_errors'' type_atomic64_t]),
     Member '''' (CUnion [
       Member ''rx_crc_errors'' (CInt 8), Member ''__rx_crc_errors'' type_atomic64_t]),
     Member '''' (CUnion [
       Member ''rx_frame_errors'' (CInt 8), Member ''__rx_frame_errors'' type_atomic64_t]),
     Member '''' (CUnion [
       Member ''rx_fifo_errors'' (CInt 8), Member ''__rx_fifo_errors'' type_atomic64_t]),
     Member '''' (CUnion [
       Member ''rx_missed_errors'' (CInt 8), Member ''__rx_missed_errors'' type_atomic64_t]),
     Member '''' (CUnion [
       Member ''tx_aborted_errors'' (CInt 8), Member ''__tx_aborted_errors'' type_atomic64_t]),
     Member '''' (CUnion [
       Member ''tx_carrier_errors'' (CInt 8), Member ''__tx_carrier_errors'' type_atomic64_t]),
     Member '''' (CUnion [
       Member ''tx_fifo_errors'' (CInt 8), Member ''__tx_fifo_errors'' type_atomic64_t]),
     Member '''' (CUnion [
       Member ''tx_heartbeat_errors'' (CInt 8), Member ''__tx_heartbeat_errors'' type_atomic64_t]),
     Member '''' (CUnion [
       Member ''tx_window_errors'' (CInt 8), Member ''__tx_window_errors'' type_atomic64_t]),
     Member '''' (CUnion [
       Member ''rx_compressed'' (CInt 8), Member ''__rx_compressed'' type_atomic64_t]),
     Member '''' (CUnion [
       Member ''tx_compressed'' (CInt 8), Member ''__tx_compressed'' type_atomic64_t])]"

lemma layout_struct_net_device_stats [simp]: "cwf struct_net_device_stats" "calign struct_net_device_stats = 8" "csize struct_net_device_stats = 184"
  by (simp_all add: struct_net_device_stats_def place_def align_up_def)

definition struct_qspinlock :: ctype where
  "struct_qspinlock = CStruct [
     Member '''' (CUnion [
       Member ''val'' type_atomic_t, Member '''' (CStruct [
         Member ''locked'' (CInt 1), Member ''pending'' (CInt 1)]), Member '''' (CStruct [
         Member ''locked_pending'' (CInt 2), Member ''tail'' (CInt 2)])])]"

lemma layout_struct_qspinlock [simp]: "cwf struct_qspinlock" "calign struct_qspinlock = 4" "csize struct_qspinlock = 4"
  by (simp_all add: struct_qspinlock_def place_def align_up_def)

definition struct_raw_spinlock :: ctype where
  "struct_raw_spinlock = CStruct [
     Member ''raw_lock'' struct_qspinlock]"

lemma layout_struct_raw_spinlock [simp]: "cwf struct_raw_spinlock" "calign struct_raw_spinlock = 4" "csize struct_raw_spinlock = 4"
  by (simp_all add: struct_raw_spinlock_def place_def align_up_def)

definition struct_spinlock :: ctype where
  "struct_spinlock = CStruct [
     Member '''' (CUnion [
       Member ''rlock'' struct_raw_spinlock])]"

lemma layout_struct_spinlock [simp]: "cwf struct_spinlock" "calign struct_spinlock = 4" "csize struct_spinlock = 4"
  by (simp_all add: struct_spinlock_def place_def align_up_def)

definition struct_rb_root :: ctype where
  "struct_rb_root = CStruct [
     Member ''rb_node'' CPtr]"

lemma layout_struct_rb_root [simp]: "cwf struct_rb_root" "calign struct_rb_root = 8" "csize struct_rb_root = 8"
  by (simp_all add: struct_rb_root_def place_def align_up_def)

definition struct_netdev_hw_addr_list :: ctype where
  "struct_netdev_hw_addr_list = CStruct [
     Member ''list'' struct_list_head, Member ''count'' (CInt 4), Member ''tree'' struct_rb_root]"

lemma layout_struct_netdev_hw_addr_list [simp]: "cwf struct_netdev_hw_addr_list" "calign struct_netdev_hw_addr_list = 8" "csize struct_netdev_hw_addr_list = 32"
  by (simp_all add: struct_netdev_hw_addr_list_def place_def align_up_def)

definition struct_hlist_node :: ctype where
  "struct_hlist_node = CStruct [
     Member ''next'' CPtr, Member ''pprev'' CPtr]"

lemma layout_struct_hlist_node [simp]: "cwf struct_hlist_node" "calign struct_hlist_node = 8" "csize struct_hlist_node = 16"
  by (simp_all add: struct_hlist_node_def place_def align_up_def)

definition struct_hlist_head :: ctype where
  "struct_hlist_head = CStruct [
     Member ''first'' CPtr]"

lemma layout_struct_hlist_head [simp]: "cwf struct_hlist_head" "calign struct_hlist_head = 8" "csize struct_hlist_head = 8"
  by (simp_all add: struct_hlist_head_def place_def align_up_def)

definition struct_timer_list :: ctype where
  "struct_timer_list = CStruct [
     Member ''entry'' struct_hlist_node, Member ''expires'' (CInt 8), Member ''function'' CPtr,
     Member ''flags'' (CInt 4)]"

lemma layout_struct_timer_list [simp]: "cwf struct_timer_list" "calign struct_timer_list = 8" "csize struct_timer_list = 40"
  by (simp_all add: struct_timer_list_def place_def align_up_def)

definition struct_ref_tracker_dir :: ctype where
  "struct_ref_tracker_dir = CStruct []"

lemma layout_struct_ref_tracker_dir [simp]: "cwf struct_ref_tracker_dir" "calign struct_ref_tracker_dir = 1" "csize struct_ref_tracker_dir = 0"
  by (simp_all add: struct_ref_tracker_dir_def place_def align_up_def)

definition struct_kref :: ctype where
  "struct_kref = CStruct [
     Member ''refcount'' struct_refcount_struct]"

lemma layout_struct_kref [simp]: "cwf struct_kref" "calign struct_kref = 4" "csize struct_kref = 4"
  by (simp_all add: struct_kref_def place_def align_up_def)

definition struct_kobject :: ctype where
  "struct_kobject = CStruct [
     Member ''name'' CPtr, Member ''entry'' struct_list_head, Member ''parent'' CPtr,
     Member ''kset'' CPtr, Member ''ktype'' CPtr, Member ''sd'' CPtr,
     Member ''kref'' struct_kref, Bits ''state_initialized'' 4 1, Bits ''state_in_sysfs'' 4 1,
     Bits ''state_add_uevent_sent'' 4 1, Bits ''state_remove_uevent_sent'' 4 1,
     Bits ''uevent_suppress'' 4 1]"

lemma layout_struct_kobject [simp]: "cwf struct_kobject" "calign struct_kobject = 8" "csize struct_kobject = 64"
  by (simp_all add: struct_kobject_def place_def align_up_def)

definition struct_optimistic_spin_queue :: ctype where
  "struct_optimistic_spin_queue = CStruct [
     Member ''tail'' type_atomic_t]"

lemma layout_struct_optimistic_spin_queue [simp]: "cwf struct_optimistic_spin_queue" "calign struct_optimistic_spin_queue = 4" "csize struct_optimistic_spin_queue = 4"
  by (simp_all add: struct_optimistic_spin_queue_def place_def align_up_def)

definition struct_mutex :: ctype where
  "struct_mutex = CStruct [
     Member ''owner'' type_atomic64_t, Member ''wait_lock'' struct_raw_spinlock,
     Member ''osq'' struct_optimistic_spin_queue, Member ''wait_list'' struct_list_head]"

lemma layout_struct_mutex [simp]: "cwf struct_mutex" "calign struct_mutex = 8" "csize struct_mutex = 32"
  by (simp_all add: struct_mutex_def place_def align_up_def)

definition struct_dev_links_info :: ctype where
  "struct_dev_links_info = CStruct [
     Member ''suppliers'' struct_list_head, Member ''consumers'' struct_list_head,
     Member ''defer_sync'' struct_list_head, Member ''status'' (CInt 4)]"

lemma layout_struct_dev_links_info [simp]: "cwf struct_dev_links_info" "calign struct_dev_links_info = 8" "csize struct_dev_links_info = 56"
  by (simp_all add: struct_dev_links_info_def place_def align_up_def)

definition struct_pm_message :: ctype where
  "struct_pm_message = CStruct [
     Member ''event'' (CInt 4)]"

lemma layout_struct_pm_message [simp]: "cwf struct_pm_message" "calign struct_pm_message = 4" "csize struct_pm_message = 4"
  by (simp_all add: struct_pm_message_def place_def align_up_def)

definition struct_swait_queue_head :: ctype where
  "struct_swait_queue_head = CStruct [
     Member ''lock'' struct_raw_spinlock, Member ''task_list'' struct_list_head]"

lemma layout_struct_swait_queue_head [simp]: "cwf struct_swait_queue_head" "calign struct_swait_queue_head = 8" "csize struct_swait_queue_head = 24"
  by (simp_all add: struct_swait_queue_head_def place_def align_up_def)

definition struct_completion :: ctype where
  "struct_completion = CStruct [
     Member ''done'' (CInt 4), Member ''wait'' struct_swait_queue_head]"

lemma layout_struct_completion [simp]: "cwf struct_completion" "calign struct_completion = 8" "csize struct_completion = 32"
  by (simp_all add: struct_completion_def place_def align_up_def)

definition struct_timerqueue_node :: ctype where
  "struct_timerqueue_node = CStruct [
     Member ''node'' struct_rb_node, Member ''expires'' (CInt 8)]"

lemma layout_struct_timerqueue_node [simp]: "cwf struct_timerqueue_node" "calign struct_timerqueue_node = 8" "csize struct_timerqueue_node = 32"
  by (simp_all add: struct_timerqueue_node_def place_def align_up_def)

definition struct_hrtimer :: ctype where
  "struct_hrtimer = CStruct [
     Member ''node'' struct_timerqueue_node, Member ''_softexpires'' (CInt 8),
     Member ''function'' CPtr, Member ''base'' CPtr, Member ''state'' (CInt 1),
     Member ''is_rel'' (CInt 1), Member ''is_soft'' (CInt 1), Member ''is_hard'' (CInt 1)]"

lemma layout_struct_hrtimer [simp]: "cwf struct_hrtimer" "calign struct_hrtimer = 8" "csize struct_hrtimer = 64"
  by (simp_all add: struct_hrtimer_def place_def align_up_def)

definition struct_work_struct :: ctype where
  "struct_work_struct = CStruct [
     Member ''data'' type_atomic64_t, Member ''entry'' struct_list_head, Member ''func'' CPtr]"

lemma layout_struct_work_struct [simp]: "cwf struct_work_struct" "calign struct_work_struct = 8" "csize struct_work_struct = 32"
  by (simp_all add: struct_work_struct_def place_def align_up_def)

definition struct_wait_queue_head :: ctype where
  "struct_wait_queue_head = CStruct [
     Member ''lock'' struct_spinlock, Member ''head'' struct_list_head]"

lemma layout_struct_wait_queue_head [simp]: "cwf struct_wait_queue_head" "calign struct_wait_queue_head = 8" "csize struct_wait_queue_head = 24"
  by (simp_all add: struct_wait_queue_head_def place_def align_up_def)

definition struct_dev_pm_info :: ctype where
  "struct_dev_pm_info = CStruct [
     Member ''power_state'' struct_pm_message, Bits ''can_wakeup'' 1 1,
     Bits ''async_suspend'' 1 1, Bits ''in_dpm_list'' 1 1, Bits ''is_prepared'' 1 1,
     Bits ''is_suspended'' 1 1, Bits ''is_noirq_suspended'' 1 1, Bits ''is_late_suspended'' 1 1,
     Bits ''no_pm'' 1 1, Bits ''early_init'' 1 1, Bits ''direct_complete'' 1 1,
     Member ''driver_flags'' (CInt 4), Member ''lock'' struct_spinlock,
     Member ''entry'' struct_list_head, Member ''completion'' struct_completion,
     Member ''wakeup'' CPtr, Bits ''wakeup_path'' 1 1, Bits ''syscore'' 1 1,
     Bits ''no_pm_callbacks'' 1 1, Bits ''async_in_progress'' 1 1, Bits ''must_resume'' 1 1,
     Bits ''may_skip_resume'' 1 1, Member ''suspend_timer'' struct_hrtimer,
     Member ''timer_expires'' (CInt 8), Member ''work'' struct_work_struct,
     Member ''wait_queue'' struct_wait_queue_head, Member ''wakeirq'' CPtr,
     Member ''usage_count'' type_atomic_t, Member ''child_count'' type_atomic_t,
     Bits ''disable_depth'' 4 3, Bits ''idle_notification'' 1 1, Bits ''request_pending'' 1 1,
     Bits ''deferred_resume'' 1 1, Bits ''needs_force_resume'' 1 1, Bits ''runtime_auto'' 1 1,
     Bits ''ignore_children'' 1 1, Bits ''no_callbacks'' 1 1, Bits ''irq_safe'' 1 1,
     Bits ''use_autosuspend'' 1 1, Bits ''timer_autosuspends'' 1 1, Bits ''memalloc_noio'' 1 1,
     Member ''links_count'' (CInt 4), Member ''request'' (CInt 4),
     Member ''runtime_status'' (CInt 4), Member ''last_status'' (CInt 4),
     Member ''runtime_error'' (CInt 4), Member ''autosuspend_delay'' (CInt 4),
     Member ''last_busy'' (CInt 8), Member ''active_time'' (CInt 8),
     Member ''suspended_time'' (CInt 8), Member ''accounting_timestamp'' (CInt 8),
     Member ''subsys_data'' CPtr, Member ''set_latency_tolerance'' CPtr, Member ''qos'' CPtr]"

lemma layout_struct_dev_pm_info [simp]: "cwf struct_dev_pm_info" "calign struct_dev_pm_info = 8" "csize struct_dev_pm_info = 312"
  by (simp_all add: struct_dev_pm_info_def place_def align_up_def)

definition struct_dev_msi_info :: ctype where
  "struct_dev_msi_info = CStruct [
     Member ''domain'' CPtr, Member ''data'' CPtr]"

lemma layout_struct_dev_msi_info [simp]: "cwf struct_dev_msi_info" "calign struct_dev_msi_info = 8" "csize struct_dev_msi_info = 16"
  by (simp_all add: struct_dev_msi_info_def place_def align_up_def)

definition struct_dev_archdata :: ctype where
  "struct_dev_archdata = CStruct []"

lemma layout_struct_dev_archdata [simp]: "cwf struct_dev_archdata" "calign struct_dev_archdata = 1" "csize struct_dev_archdata = 0"
  by (simp_all add: struct_dev_archdata_def place_def align_up_def)

definition struct_device :: ctype where
  "struct_device = CStruct [
     Member ''kobj'' struct_kobject, Member ''parent'' CPtr, Member ''p'' CPtr,
     Member ''init_name'' CPtr, Member ''type'' CPtr, Member ''bus'' CPtr,
     Member ''driver'' CPtr, Member ''platform_data'' CPtr, Member ''driver_data'' CPtr,
     Member ''mutex'' struct_mutex, Member ''links'' struct_dev_links_info,
     Member ''power'' struct_dev_pm_info, Member ''pm_domain'' CPtr, Member ''em_pd'' CPtr,
     Member ''pins'' CPtr, Member ''msi'' struct_dev_msi_info, Member ''dma_ops'' CPtr,
     Member ''dma_mask'' CPtr, Member ''coherent_dma_mask'' (CInt 8),
     Member ''bus_dma_limit'' (CInt 8), Member ''dma_range_map'' CPtr, Member ''dma_parms'' CPtr,
     Member ''dma_pools'' struct_list_head, Member ''cma_area'' CPtr,
     Member ''dma_io_tlb_mem'' CPtr, Member ''archdata'' struct_dev_archdata,
     Member ''of_node'' CPtr, Member ''fwnode'' CPtr, Member ''numa_node'' (CInt 4),
     Member ''devt'' (CInt 4), Member ''id'' (CInt 4), Member ''devres_lock'' struct_spinlock,
     Member ''devres_head'' struct_list_head, Member ''class'' CPtr, Member ''groups'' CPtr,
     Member ''release'' CPtr, Member ''iommu_group'' CPtr, Member ''iommu'' CPtr,
     Member ''physical_location'' CPtr, Member ''removable'' (CInt 4),
     Bits ''offline_disabled'' 1 1, Bits ''offline'' 1 1, Bits ''of_node_reused'' 1 1,
     Bits ''state_synced'' 1 1, Bits ''can_match'' 1 1, Bits ''dma_skip_sync'' 1 1]"

lemma layout_struct_device [simp]: "cwf struct_device" "calign struct_device = 8" "csize struct_device = 752"
  by (simp_all add: struct_device_def place_def align_up_def)

definition struct_bpf_xdp_entity :: ctype where
  "struct_bpf_xdp_entity = CStruct [
     Member ''prog'' CPtr, Member ''link'' CPtr]"

lemma layout_struct_bpf_xdp_entity [simp]: "cwf struct_bpf_xdp_entity" "calign struct_bpf_xdp_entity = 8" "csize struct_bpf_xdp_entity = 16"
  by (simp_all add: struct_bpf_xdp_entity_def place_def align_up_def)

definition type_netdevice_tracker :: ctype where
  "type_netdevice_tracker = CStruct []"

lemma layout_type_netdevice_tracker [simp]: "cwf type_netdevice_tracker" "calign type_netdevice_tracker = 1" "csize type_netdevice_tracker = 0"
  by (simp_all add: type_netdevice_tracker_def place_def align_up_def)

definition struct_net_device :: ctype where
  "struct_net_device = CStruct [
     Member ''__cacheline_group_begin__net_device_read_tx'' (CArray (CInt 1) 0),
     Member ''priv_flags'' (CInt 8), Member ''netdev_ops'' CPtr, Member ''header_ops'' CPtr,
     Member ''_tx'' CPtr, Member ''gso_partial_features'' (CInt 8),
     Member ''real_num_tx_queues'' (CInt 4), Member ''gso_max_size'' (CInt 4),
     Member ''gso_ipv4_max_size'' (CInt 4), Member ''gso_max_segs'' (CInt 2),
     Member ''num_tc'' (CInt 2), Member ''mtu'' (CInt 4), Member ''needed_headroom'' (CInt 2),
     Member ''tc_to_txq'' (CArray struct_netdev_tc_txq 16), Member ''xps_maps'' (CArray CPtr 2),
     Member ''nf_hooks_egress'' CPtr, Member ''tcx_egress'' CPtr,
     Member ''__cacheline_group_end__net_device_read_tx'' (CArray (CInt 1) 0),
     Member ''__cacheline_group_begin__net_device_read_txrx'' (CArray (CInt 1) 0),
     Member '''' (CUnion [
       Member ''lstats'' CPtr, Member ''tstats'' CPtr, Member ''dstats'' CPtr]),
     Member ''state'' (CInt 8), Member ''flags'' (CInt 4), Member ''hard_header_len'' (CInt 2),
     Member ''features'' (CInt 8), Member ''ip6_ptr'' CPtr,
     Member ''__cacheline_group_end__net_device_read_txrx'' (CArray (CInt 1) 0),
     Member ''__cacheline_group_begin__net_device_read_rx'' (CArray (CInt 1) 0),
     Member ''xdp_prog'' CPtr, Member ''ptype_specific'' struct_list_head,
     Member ''ifindex'' (CInt 4), Member ''real_num_rx_queues'' (CInt 4), Member ''_rx'' CPtr,
     Member ''gro_flush_timeout'' (CInt 8), Member ''napi_defer_hard_irqs'' (CInt 4),
     Member ''gro_max_size'' (CInt 4), Member ''gro_ipv4_max_size'' (CInt 4),
     Member ''rx_handler'' CPtr, Member ''rx_handler_data'' CPtr,
     Member ''nd_net'' type_possible_net_t, Member ''npinfo'' CPtr, Member ''tcx_ingress'' CPtr,
     Member ''__cacheline_group_end__net_device_read_rx'' (CArray (CInt 1) 0),
     Member ''name'' (CArray (CInt 1) 16), Member ''name_node'' CPtr, Member ''ifalias'' CPtr,
     Member ''mem_end'' (CInt 8), Member ''mem_start'' (CInt 8), Member ''base_addr'' (CInt 8),
     Member ''dev_list'' struct_list_head, Member ''napi_list'' struct_list_head,
     Member ''unreg_list'' struct_list_head, Member ''close_list'' struct_list_head,
     Member ''ptype_all'' struct_list_head, Member ''adj_list'' (CStruct [
       Member ''upper'' struct_list_head, Member ''lower'' struct_list_head]),
     Member ''xdp_features'' (CInt 4), Member ''xdp_metadata_ops'' CPtr,
     Member ''xsk_tx_metadata_ops'' CPtr, Member ''gflags'' (CInt 2),
     Member ''needed_tailroom'' (CInt 2), Member ''hw_features'' (CInt 8),
     Member ''wanted_features'' (CInt 8), Member ''vlan_features'' (CInt 8),
     Member ''hw_enc_features'' (CInt 8), Member ''mpls_features'' (CInt 8),
     Member ''min_mtu'' (CInt 4), Member ''max_mtu'' (CInt 4), Member ''type'' (CInt 2),
     Member ''min_header_len'' (CInt 1), Member ''name_assign_type'' (CInt 1),
     Member ''group'' (CInt 4), Member ''stats'' struct_net_device_stats,
     Member ''core_stats'' CPtr, Member ''carrier_up_count'' type_atomic_t,
     Member ''carrier_down_count'' type_atomic_t, Member ''wireless_handlers'' CPtr,
     Member ''wireless_data'' CPtr, Member ''ethtool_ops'' CPtr, Member ''l3mdev_ops'' CPtr,
     Member ''ndisc_ops'' CPtr, Member ''xfrmdev_ops'' CPtr, Member ''tlsdev_ops'' CPtr,
     Member ''operstate'' (CInt 4), Member ''link_mode'' (CInt 1), Member ''if_port'' (CInt 1),
     Member ''dma'' (CInt 1), Member ''perm_addr'' (CArray (CInt 1) 32),
     Member ''addr_assign_type'' (CInt 1), Member ''addr_len'' (CInt 1),
     Member ''upper_level'' (CInt 1), Member ''lower_level'' (CInt 1),
     Member ''neigh_priv_len'' (CInt 2), Member ''dev_id'' (CInt 2),
     Member ''dev_port'' (CInt 2), Member ''irq'' (CInt 4), Member ''priv_len'' (CInt 4),
     Member ''addr_list_lock'' struct_spinlock, Member ''uc'' struct_netdev_hw_addr_list,
     Member ''mc'' struct_netdev_hw_addr_list, Member ''dev_addrs'' struct_netdev_hw_addr_list,
     Member ''queues_kset'' CPtr, Member ''promiscuity'' (CInt 4), Member ''allmulti'' (CInt 4),
     Member ''uc_promisc'' (CInt 1), Member ''ip_ptr'' CPtr, Member ''vlan_info'' CPtr,
     Member ''dsa_ptr'' CPtr, Member ''tipc_ptr'' CPtr, Member ''atalk_ptr'' CPtr,
     Member ''ieee80211_ptr'' CPtr, Member ''ieee802154_ptr'' CPtr, Member ''mpls_ptr'' CPtr,
     Member ''dev_addr'' CPtr, Member ''num_rx_queues'' (CInt 4),
     Member ''xdp_zc_max_segs'' (CInt 4), Member ''ingress_queue'' CPtr,
     Member ''nf_hooks_ingress'' CPtr, Member ''broadcast'' (CArray (CInt 1) 32),
     Member ''rx_cpu_rmap'' CPtr, Member ''index_hlist'' struct_hlist_node,
     Member ''num_tx_queues'' (CInt 4), Member ''qdisc'' CPtr, Member ''tx_queue_len'' (CInt 4),
     Member ''tx_global_lock'' struct_spinlock, Member ''xdp_bulkq'' CPtr,
     Member ''qdisc_hash'' (CArray struct_hlist_head 16),
     Member ''watchdog_timer'' struct_timer_list, Member ''watchdog_timeo'' (CInt 4),
     Member ''proto_down_reason'' (CInt 4), Member ''todo_list'' struct_list_head,
     Member ''pcpu_refcnt'' CPtr, Member ''refcnt_tracker'' struct_ref_tracker_dir,
     Member ''link_watch_list'' struct_list_head, Member ''reg_state'' (CInt 1),
     Member ''dismantle'' (CInt 1), Bits ''rtnl_link_state'' 4 16,
     Member ''needs_free_netdev'' (CInt 1), Member ''priv_destructor'' CPtr,
     Member ''ml_priv'' CPtr, Member ''ml_priv_type'' (CInt 4), Bits ''pcpu_stat_type'' 4 8,
     Member ''dm_private'' CPtr, Member ''dev'' struct_device,
     Member ''sysfs_groups'' (CArray CPtr 4), Member ''sysfs_rx_queue_group'' CPtr,
     Member ''rtnl_link_ops'' CPtr, Member ''stat_ops'' CPtr, Member ''queue_mgmt_ops'' CPtr,
     Member ''tso_max_size'' (CInt 4), Member ''tso_max_segs'' (CInt 2),
     Member ''dcbnl_ops'' CPtr, Member ''prio_tc_map'' (CArray (CInt 1) 16),
     Member ''fcoe_ddp_xid'' (CInt 4), Member ''priomap'' CPtr, Member ''phydev'' CPtr,
     Member ''sfp_bus'' CPtr, Member ''qdisc_tx_busylock'' CPtr, Member ''proto_down'' (CInt 1),
     Member ''threaded'' (CInt 1), Member ''net_notifier_list'' struct_list_head,
     Member ''macsec_ops'' CPtr, Member ''udp_tunnel_nic_info'' CPtr,
     Member ''udp_tunnel_nic'' CPtr, Member ''ethtool'' CPtr,
     Member ''xdp_state'' (CArray struct_bpf_xdp_entity 3),
     Member ''dev_addr_shadow'' (CArray (CInt 1) 32),
     Member ''linkwatch_dev_tracker'' type_netdevice_tracker,
     Member ''watchdog_dev_tracker'' type_netdevice_tracker,
     Member ''dev_registered_tracker'' type_netdevice_tracker, Member ''offload_xstats_l3'' CPtr,
     Member ''devlink_port'' CPtr, Member ''dpll_pin'' CPtr,
     Member ''page_pools'' struct_hlist_head, Member ''irq_moder'' CPtr, Bits '''' 8 64,
     Bits '''' 8 64, Bits '''' 8 64, Bits '''' 8 64, Bits '''' 8 64, Bits '''' 8 64,
     Bits '''' 8 64, Member ''priv'' (CArray (CInt 1) 0)]"

lemma layout_struct_net_device [simp]: "cwf struct_net_device" "calign struct_net_device = 8" "csize struct_net_device = 2560"
  by (simp_all add: struct_net_device_def place_def align_up_def)

definition struct_dql :: ctype where
  "struct_dql = CStruct [
     Member ''num_queued'' (CInt 4), Member ''adj_limit'' (CInt 4),
     Member ''last_obj_cnt'' (CInt 4), Member ''stall_thrs'' (CInt 2),
     Member ''history_head'' (CInt 8), Member ''history'' (CArray (CInt 8) 4), Bits '''' 8 64,
     Member ''limit'' (CInt 4), Member ''num_completed'' (CInt 4),
     Member ''prev_ovlimit'' (CInt 4), Member ''prev_num_queued'' (CInt 4),
     Member ''prev_last_obj_cnt'' (CInt 4), Member ''lowest_slack'' (CInt 4),
     Member ''slack_start_time'' (CInt 8), Member ''max_limit'' (CInt 4),
     Member ''min_limit'' (CInt 4), Member ''slack_hold_time'' (CInt 4),
     Member ''stall_max'' (CInt 2), Member ''last_reap'' (CInt 8), Member ''stall_cnt'' (CInt 8)]"

lemma layout_struct_dql [simp]: "cwf struct_dql" "calign struct_dql = 8" "csize struct_dql = 128"
  by (simp_all add: struct_dql_def place_def align_up_def)

definition struct_netdev_queue :: ctype where
  "struct_netdev_queue = CStruct [
     Member ''dev'' CPtr, Member ''dev_tracker'' type_netdevice_tracker, Member ''qdisc'' CPtr,
     Member ''qdisc_sleeping'' CPtr, Member ''kobj'' struct_kobject,
     Member ''numa_node'' (CInt 4), Member ''tx_maxrate'' (CInt 8),
     Member ''trans_timeout'' type_atomic64_t, Member ''sb_dev'' CPtr, Member ''pool'' CPtr,
     Member ''napi'' CPtr, Bits '''' 8 64, Bits '''' 8 64, Bits '''' 8 64, Bits '''' 8 64,
     Bits '''' 8 64, Bits '''' 8 64, Bits '''' 8 64, Member ''_xmit_lock'' struct_spinlock,
     Member ''xmit_lock_owner'' (CInt 4), Member ''trans_start'' (CInt 8),
     Member ''state'' (CInt 8), Bits '''' 8 64, Bits '''' 8 64, Bits '''' 8 64, Bits '''' 8 64,
     Bits '''' 8 64, Member ''dql'' struct_dql]"

lemma layout_struct_netdev_queue [simp]: "cwf struct_netdev_queue" "calign struct_netdev_queue = 8" "csize struct_netdev_queue = 384"
  by (simp_all add: struct_netdev_queue_def place_def align_up_def)

definition struct_net_device_ops :: ctype where
  "struct_net_device_ops = CStruct [
     Member ''ndo_init'' CPtr, Member ''ndo_uninit'' CPtr, Member ''ndo_open'' CPtr,
     Member ''ndo_stop'' CPtr, Member ''ndo_start_xmit'' CPtr,
     Member ''ndo_features_check'' CPtr, Member ''ndo_select_queue'' CPtr,
     Member ''ndo_change_rx_flags'' CPtr, Member ''ndo_set_rx_mode'' CPtr,
     Member ''ndo_set_mac_address'' CPtr, Member ''ndo_validate_addr'' CPtr,
     Member ''ndo_do_ioctl'' CPtr, Member ''ndo_eth_ioctl'' CPtr, Member ''ndo_siocbond'' CPtr,
     Member ''ndo_siocwandev'' CPtr, Member ''ndo_siocdevprivate'' CPtr,
     Member ''ndo_set_config'' CPtr, Member ''ndo_change_mtu'' CPtr,
     Member ''ndo_neigh_setup'' CPtr, Member ''ndo_tx_timeout'' CPtr,
     Member ''ndo_get_stats64'' CPtr, Member ''ndo_has_offload_stats'' CPtr,
     Member ''ndo_get_offload_stats'' CPtr, Member ''ndo_get_stats'' CPtr,
     Member ''ndo_vlan_rx_add_vid'' CPtr, Member ''ndo_vlan_rx_kill_vid'' CPtr,
     Member ''ndo_poll_controller'' CPtr, Member ''ndo_netpoll_setup'' CPtr,
     Member ''ndo_netpoll_cleanup'' CPtr, Member ''ndo_set_vf_mac'' CPtr,
     Member ''ndo_set_vf_vlan'' CPtr, Member ''ndo_set_vf_rate'' CPtr,
     Member ''ndo_set_vf_spoofchk'' CPtr, Member ''ndo_set_vf_trust'' CPtr,
     Member ''ndo_get_vf_config'' CPtr, Member ''ndo_set_vf_link_state'' CPtr,
     Member ''ndo_get_vf_stats'' CPtr, Member ''ndo_set_vf_port'' CPtr,
     Member ''ndo_get_vf_port'' CPtr, Member ''ndo_get_vf_guid'' CPtr,
     Member ''ndo_set_vf_guid'' CPtr, Member ''ndo_set_vf_rss_query_en'' CPtr,
     Member ''ndo_setup_tc'' CPtr, Member ''ndo_fcoe_enable'' CPtr,
     Member ''ndo_fcoe_disable'' CPtr, Member ''ndo_fcoe_ddp_setup'' CPtr,
     Member ''ndo_fcoe_ddp_done'' CPtr, Member ''ndo_fcoe_ddp_target'' CPtr,
     Member ''ndo_fcoe_get_hbainfo'' CPtr, Member ''ndo_fcoe_get_wwn'' CPtr,
     Member ''ndo_rx_flow_steer'' CPtr, Member ''ndo_add_slave'' CPtr,
     Member ''ndo_del_slave'' CPtr, Member ''ndo_get_xmit_slave'' CPtr,
     Member ''ndo_sk_get_lower_dev'' CPtr, Member ''ndo_fix_features'' CPtr,
     Member ''ndo_set_features'' CPtr, Member ''ndo_neigh_construct'' CPtr,
     Member ''ndo_neigh_destroy'' CPtr, Member ''ndo_fdb_add'' CPtr, Member ''ndo_fdb_del'' CPtr,
     Member ''ndo_fdb_del_bulk'' CPtr, Member ''ndo_fdb_dump'' CPtr, Member ''ndo_fdb_get'' CPtr,
     Member ''ndo_mdb_add'' CPtr, Member ''ndo_mdb_del'' CPtr, Member ''ndo_mdb_del_bulk'' CPtr,
     Member ''ndo_mdb_dump'' CPtr, Member ''ndo_mdb_get'' CPtr,
     Member ''ndo_bridge_setlink'' CPtr, Member ''ndo_bridge_getlink'' CPtr,
     Member ''ndo_bridge_dellink'' CPtr, Member ''ndo_change_carrier'' CPtr,
     Member ''ndo_get_phys_port_id'' CPtr, Member ''ndo_get_port_parent_id'' CPtr,
     Member ''ndo_get_phys_port_name'' CPtr, Member ''ndo_dfwd_add_station'' CPtr,
     Member ''ndo_dfwd_del_station'' CPtr, Member ''ndo_set_tx_maxrate'' CPtr,
     Member ''ndo_get_iflink'' CPtr, Member ''ndo_fill_metadata_dst'' CPtr,
     Member ''ndo_set_rx_headroom'' CPtr, Member ''ndo_bpf'' CPtr, Member ''ndo_xdp_xmit'' CPtr,
     Member ''ndo_xdp_get_xmit_slave'' CPtr, Member ''ndo_xsk_wakeup'' CPtr,
     Member ''ndo_tunnel_ctl'' CPtr, Member ''ndo_get_peer_dev'' CPtr,
     Member ''ndo_fill_forward_path'' CPtr, Member ''ndo_get_tstamp'' CPtr,
     Member ''ndo_hwtstamp_get'' CPtr, Member ''ndo_hwtstamp_set'' CPtr]"

lemma layout_struct_net_device_ops [simp]: "cwf struct_net_device_ops" "calign struct_net_device_ops = 8" "csize struct_net_device_ops = 736"
  by (simp_all add: struct_net_device_ops_def place_def align_up_def)

definition type_rcuref_t :: ctype where
  "type_rcuref_t = CStruct [
     Member ''refcnt'' type_atomic_t]"

lemma layout_type_rcuref_t [simp]: "cwf type_rcuref_t" "calign type_rcuref_t = 4" "csize type_rcuref_t = 4"
  by (simp_all add: type_rcuref_t_def place_def align_up_def)

definition struct_callback_head :: ctype where
  "struct_callback_head = CStruct [
     Member ''next'' CPtr, Member ''func'' CPtr]"

lemma layout_struct_callback_head [simp]: "cwf struct_callback_head" "calign struct_callback_head = 8" "csize struct_callback_head = 16"
  by (simp_all add: struct_callback_head_def place_def align_up_def)

definition struct_dst_entry :: ctype where
  "struct_dst_entry = CStruct [
     Member ''dev'' CPtr, Member ''ops'' CPtr, Member ''_metrics'' (CInt 8),
     Member ''expires'' (CInt 8), Member ''xfrm'' CPtr, Member ''input'' CPtr,
     Member ''output'' CPtr, Member ''flags'' (CInt 2), Member ''obsolete'' (CInt 2),
     Member ''header_len'' (CInt 2), Member ''trailer_len'' (CInt 2),
     Member ''__rcuref'' type_rcuref_t, Member ''__use'' (CInt 4), Member ''lastuse'' (CInt 8),
     Member ''callback_head'' struct_callback_head, Member ''error'' (CInt 2),
     Member ''__pad'' (CInt 2), Member ''tclassid'' (CInt 4),
     Member ''dev_tracker'' type_netdevice_tracker, Member ''rt_uncached'' struct_list_head,
     Member ''rt_uncached_list'' CPtr, Member ''lwtstate'' CPtr]"

lemma layout_struct_dst_entry [simp]: "cwf struct_dst_entry" "calign struct_dst_entry = 8" "csize struct_dst_entry = 136"
  by (simp_all add: struct_dst_entry_def place_def align_up_def)

definition struct_qrwlock :: ctype where
  "struct_qrwlock = CStruct [
     Member '''' (CUnion [
       Member ''cnts'' type_atomic_t, Member '''' (CStruct [
         Member ''wlocked'' (CInt 1), Member ''__lstate'' (CArray (CInt 1) 3)])]),
     Member ''wait_lock'' struct_qspinlock]"

lemma layout_struct_qrwlock [simp]: "cwf struct_qrwlock" "calign struct_qrwlock = 4" "csize struct_qrwlock = 8"
  by (simp_all add: struct_qrwlock_def place_def align_up_def)

definition type_rwlock_t :: ctype where
  "type_rwlock_t = CStruct [
     Member ''raw_lock'' struct_qrwlock]"

lemma layout_type_rwlock_t [simp]: "cwf type_rwlock_t" "calign type_rwlock_t = 4" "csize type_rwlock_t = 8"
  by (simp_all add: type_rwlock_t_def place_def align_up_def)

definition struct_sk_buff_list :: ctype where
  "struct_sk_buff_list = CStruct [
     Member ''next'' CPtr, Member ''prev'' CPtr]"

lemma layout_struct_sk_buff_list [simp]: "cwf struct_sk_buff_list" "calign struct_sk_buff_list = 8" "csize struct_sk_buff_list = 16"
  by (simp_all add: struct_sk_buff_list_def place_def align_up_def)

definition struct_sk_buff_head :: ctype where
  "struct_sk_buff_head = CStruct [
     Member '''' (CUnion [
       Member '''' (CStruct [
         Member ''next'' CPtr, Member ''prev'' CPtr]), Member ''list'' struct_sk_buff_list]),
     Member ''qlen'' (CInt 4), Member ''lock'' struct_spinlock]"

lemma layout_struct_sk_buff_head [simp]: "cwf struct_sk_buff_head" "calign struct_sk_buff_head = 8" "csize struct_sk_buff_head = 24"
  by (simp_all add: struct_sk_buff_head_def place_def align_up_def)

definition struct_seqcount :: ctype where
  "struct_seqcount = CStruct [
     Member ''sequence'' (CInt 4)]"

lemma layout_struct_seqcount [simp]: "cwf struct_seqcount" "calign struct_seqcount = 4" "csize struct_seqcount = 4"
  by (simp_all add: struct_seqcount_def place_def align_up_def)

definition struct_seqcount_spinlock :: ctype where
  "struct_seqcount_spinlock = CStruct [
     Member ''seqcount'' struct_seqcount]"

lemma layout_struct_seqcount_spinlock [simp]: "cwf struct_seqcount_spinlock" "calign struct_seqcount_spinlock = 4" "csize struct_seqcount_spinlock = 4"
  by (simp_all add: struct_seqcount_spinlock_def place_def align_up_def)

definition type_seqlock_t :: ctype where
  "type_seqlock_t = CStruct [
     Member ''seqcount'' struct_seqcount_spinlock, Member ''lock'' struct_spinlock]"

lemma layout_type_seqlock_t [simp]: "cwf type_seqlock_t" "calign type_seqlock_t = 4" "csize type_seqlock_t = 8"
  by (simp_all add: type_seqlock_t_def place_def align_up_def)

definition struct_hh_cache :: ctype where
  "struct_hh_cache = CStruct [
     Member ''hh_len'' (CInt 4), Member ''hh_lock'' type_seqlock_t,
     Member ''hh_data'' (CArray (CInt 8) 16)]"

lemma layout_struct_hh_cache [simp]: "cwf struct_hh_cache" "calign struct_hh_cache = 8" "csize struct_hh_cache = 144"
  by (simp_all add: struct_hh_cache_def place_def align_up_def)

definition struct_neighbour :: ctype where
  "struct_neighbour = CStruct [
     Member ''next'' CPtr, Member ''tbl'' CPtr, Member ''parms'' CPtr,
     Member ''confirmed'' (CInt 8), Member ''updated'' (CInt 8), Member ''lock'' type_rwlock_t,
     Member ''refcnt'' struct_refcount_struct, Member ''arp_queue_len_bytes'' (CInt 4),
     Member ''arp_queue'' struct_sk_buff_head, Member ''timer'' struct_timer_list,
     Member ''used'' (CInt 8), Member ''probes'' type_atomic_t, Member ''nud_state'' (CInt 1),
     Member ''type'' (CInt 1), Member ''dead'' (CInt 1), Member ''protocol'' (CInt 1),
     Member ''flags'' (CInt 4), Member ''ha_lock'' type_seqlock_t, Bits '''' 8 0,
     Member ''ha'' (CArray (CInt 1) 32), Member ''hh'' struct_hh_cache, Member ''output'' CPtr,
     Member ''ops'' CPtr, Member ''gc_list'' struct_list_head,
     Member ''managed_list'' struct_list_head, Member ''rcu'' struct_callback_head,
     Member ''dev'' CPtr, Member ''dev_tracker'' type_netdevice_tracker,
     Member ''primary_key'' (CArray (CInt 1) 0)]"

lemma layout_struct_neighbour [simp]: "cwf struct_neighbour" "calign struct_neighbour = 8" "csize struct_neighbour = 400"
  by (simp_all add: struct_neighbour_def place_def align_up_def)

definition struct_in6_addr :: ctype where
  "struct_in6_addr = CStruct [
     Member ''in6_u'' (CUnion [
       Member ''u6_addr8'' (CArray (CInt 1) 16), Member ''u6_addr16'' (CArray (CInt 2) 8),
       Member ''u6_addr32'' (CArray (CInt 4) 4)])]"

lemma layout_struct_in6_addr [simp]: "cwf struct_in6_addr" "calign struct_in6_addr = 4" "csize struct_in6_addr = 16"
  by (simp_all add: struct_in6_addr_def place_def align_up_def)

definition struct_rtable :: ctype where
  "struct_rtable = CStruct [
     Member ''dst'' struct_dst_entry, Member ''rt_genid'' (CInt 4), Member ''rt_flags'' (CInt 4),
     Member ''rt_type'' (CInt 2), Member ''rt_is_input'' (CInt 1),
     Member ''rt_uses_gateway'' (CInt 1), Member ''rt_iif'' (CInt 4),
     Member ''rt_gw_family'' (CInt 1), Member '''' (CUnion [
       Member ''rt_gw4'' (CInt 4), Member ''rt_gw6'' struct_in6_addr]),
     Bits ''rt_mtu_locked'' 4 1, Bits ''rt_pmtu'' 4 31]"

lemma layout_struct_rtable [simp]: "cwf struct_rtable" "calign struct_rtable = 8" "csize struct_rtable = 176"
  by (simp_all add: struct_rtable_def place_def align_up_def)

definition struct_ipv4_devconf :: ctype where
  "struct_ipv4_devconf = CStruct [
     Member ''sysctl'' CPtr, Member ''data'' (CArray (CInt 4) 33),
     Member ''state'' (CArray (CInt 8) 1)]"

lemma layout_struct_ipv4_devconf [simp]: "cwf struct_ipv4_devconf" "calign struct_ipv4_devconf = 8" "csize struct_ipv4_devconf = 152"
  by (simp_all add: struct_ipv4_devconf_def place_def align_up_def)

definition struct_in_device :: ctype where
  "struct_in_device = CStruct [
     Member ''dev'' CPtr, Member ''dev_tracker'' type_netdevice_tracker,
     Member ''refcnt'' struct_refcount_struct, Member ''dead'' (CInt 4),
     Member ''ifa_list'' CPtr, Member ''mc_list'' CPtr, Member ''mc_hash'' CPtr,
     Member ''mc_count'' (CInt 4), Member ''mc_tomb_lock'' struct_spinlock,
     Member ''mc_tomb'' CPtr, Member ''mr_v1_seen'' (CInt 8), Member ''mr_v2_seen'' (CInt 8),
     Member ''mr_maxdelay'' (CInt 8), Member ''mr_qi'' (CInt 8), Member ''mr_qri'' (CInt 8),
     Member ''mr_qrv'' (CInt 1), Member ''mr_gq_running'' (CInt 1),
     Member ''mr_ifc_count'' (CInt 4), Member ''mr_gq_timer'' struct_timer_list,
     Member ''mr_ifc_timer'' struct_timer_list, Member ''arp_parms'' CPtr,
     Member ''cnf'' struct_ipv4_devconf, Member ''callback_head'' struct_callback_head]"

lemma layout_struct_in_device [simp]: "cwf struct_in_device" "calign struct_in_device = 8" "csize struct_in_device = 360"
  by (simp_all add: struct_in_device_def place_def align_up_def)

definition struct_hlist_nulls_node :: ctype where
  "struct_hlist_nulls_node = CStruct [
     Member ''next'' CPtr, Member ''pprev'' CPtr]"

lemma layout_struct_hlist_nulls_node [simp]: "cwf struct_hlist_nulls_node" "calign struct_hlist_nulls_node = 8" "csize struct_hlist_nulls_node = 16"
  by (simp_all add: struct_hlist_nulls_node_def place_def align_up_def)

definition struct_sock_common :: ctype where
  "struct_sock_common = CStruct [
     Member '''' (CUnion [
       Member ''skc_addrpair'' (CInt 8), Member '''' (CStruct [
         Member ''skc_daddr'' (CInt 4), Member ''skc_rcv_saddr'' (CInt 4)])]),
     Member '''' (CUnion [
       Member ''skc_hash'' (CInt 4), Member ''skc_u16hashes'' (CArray (CInt 2) 2)]),
     Member '''' (CUnion [
       Member ''skc_portpair'' (CInt 4), Member '''' (CStruct [
         Member ''skc_dport'' (CInt 2), Member ''skc_num'' (CInt 2)])]),
     Member ''skc_family'' (CInt 2), Member ''skc_state'' (CInt 1), Bits ''skc_reuse'' 1 4,
     Bits ''skc_reuseport'' 1 1, Bits ''skc_ipv6only'' 1 1, Bits ''skc_net_refcnt'' 1 1,
     Member ''skc_bound_dev_if'' (CInt 4), Member '''' (CUnion [
       Member ''skc_bind_node'' struct_hlist_node, Member ''skc_portaddr_node'' struct_hlist_node]),
     Member ''skc_prot'' CPtr, Member ''skc_net'' type_possible_net_t,
     Member ''skc_v6_daddr'' struct_in6_addr, Member ''skc_v6_rcv_saddr'' struct_in6_addr,
     Member ''skc_cookie'' type_atomic64_t, Member '''' (CUnion [
       Member ''skc_flags'' (CInt 8), Member ''skc_listener'' CPtr, Member ''skc_tw_dr'' CPtr]),
     Member ''skc_dontcopy_begin'' (CArray (CInt 4) 0), Member '''' (CUnion [
       Member ''skc_node'' struct_hlist_node, Member ''skc_nulls_node'' struct_hlist_nulls_node]),
     Member ''skc_tx_queue_mapping'' (CInt 2), Member ''skc_rx_queue_mapping'' (CInt 2),
     Member '''' (CUnion [
       Member ''skc_incoming_cpu'' (CInt 4), Member ''skc_rcv_wnd'' (CInt 4),
       Member ''skc_tw_rcv_nxt'' (CInt 4)]), Member ''skc_refcnt'' struct_refcount_struct,
     Member ''skc_dontcopy_end'' (CArray (CInt 4) 0), Member '''' (CUnion [
       Member ''skc_rxhash'' (CInt 4), Member ''skc_window_clamp'' (CInt 4),
       Member ''skc_tw_snd_nxt'' (CInt 4)])]"

lemma layout_struct_sock_common [simp]: "cwf struct_sock_common" "calign struct_sock_common = 8" "csize struct_sock_common = 136"
  by (simp_all add: struct_sock_common_def place_def align_up_def)

definition type_socket_lock_t :: ctype where
  "type_socket_lock_t = CStruct [
     Member ''slock'' struct_spinlock, Member ''owned'' (CInt 4),
     Member ''wq'' struct_wait_queue_head]"

lemma layout_type_socket_lock_t [simp]: "cwf type_socket_lock_t" "calign type_socket_lock_t = 8" "csize type_socket_lock_t = 32"
  by (simp_all add: type_socket_lock_t_def place_def align_up_def)

definition struct_page_frag :: ctype where
  "struct_page_frag = CStruct [
     Member ''page'' CPtr, Member ''offset'' (CInt 4), Member ''size'' (CInt 4)]"

lemma layout_struct_page_frag [simp]: "cwf struct_page_frag" "calign struct_page_frag = 8" "csize struct_page_frag = 16"
  by (simp_all add: struct_page_frag_def place_def align_up_def)

definition type_kuid_t :: ctype where
  "type_kuid_t = CStruct [
     Member ''val'' (CInt 4)]"

lemma layout_type_kuid_t [simp]: "cwf type_kuid_t" "calign type_kuid_t = 4" "csize type_kuid_t = 4"
  by (simp_all add: type_kuid_t_def place_def align_up_def)

definition struct_sock_cgroup_data :: ctype where
  "struct_sock_cgroup_data = CStruct [
     Member ''cgroup'' CPtr, Member ''classid'' (CInt 4), Member ''prioidx'' (CInt 2)]"

lemma layout_struct_sock_cgroup_data [simp]: "cwf struct_sock_cgroup_data" "calign struct_sock_cgroup_data = 8" "csize struct_sock_cgroup_data = 16"
  by (simp_all add: struct_sock_cgroup_data_def place_def align_up_def)

definition type_netns_tracker :: ctype where
  "type_netns_tracker = CStruct []"

lemma layout_type_netns_tracker [simp]: "cwf type_netns_tracker" "calign type_netns_tracker = 1" "csize type_netns_tracker = 0"
  by (simp_all add: type_netns_tracker_def place_def align_up_def)

definition struct_sock :: ctype where
  "struct_sock = CStruct [
     Member ''__sk_common'' struct_sock_common,
     Member ''__cacheline_group_begin__sock_write_rx'' (CArray (CInt 1) 0),
     Member ''sk_drops'' type_atomic_t, Member ''sk_peek_off'' (CInt 4),
     Member ''sk_error_queue'' struct_sk_buff_head,
     Member ''sk_receive_queue'' struct_sk_buff_head, Member ''sk_backlog'' (CStruct [
       Member ''rmem_alloc'' type_atomic_t, Member ''len'' (CInt 4), Member ''head'' CPtr,
       Member ''tail'' CPtr]),
     Member ''__cacheline_group_end__sock_write_rx'' (CArray (CInt 1) 0),
     Member ''__cacheline_group_begin__sock_read_rx'' (CArray (CInt 1) 0),
     Member ''sk_rx_dst'' CPtr, Member ''sk_rx_dst_ifindex'' (CInt 4),
     Member ''sk_rx_dst_cookie'' (CInt 4), Member ''sk_ll_usec'' (CInt 4),
     Member ''sk_napi_id'' (CInt 4), Member ''sk_busy_poll_budget'' (CInt 2),
     Member ''sk_prefer_busy_poll'' (CInt 1), Member ''sk_userlocks'' (CInt 1),
     Member ''sk_rcvbuf'' (CInt 4), Member ''sk_filter'' CPtr, Member '''' (CUnion [
       Member ''sk_wq'' CPtr, Member ''sk_wq_raw'' CPtr]), Member ''sk_data_ready'' CPtr,
     Member ''sk_rcvtimeo'' (CInt 8), Member ''sk_rcvlowat'' (CInt 4),
     Member ''__cacheline_group_end__sock_read_rx'' (CArray (CInt 1) 0),
     Member ''__cacheline_group_begin__sock_read_rxtx'' (CArray (CInt 1) 0),
     Member ''sk_err'' (CInt 4), Member ''sk_socket'' CPtr, Member ''sk_memcg'' CPtr,
     Member ''sk_policy'' (CArray CPtr 2),
     Member ''__cacheline_group_end__sock_read_rxtx'' (CArray (CInt 1) 0),
     Member ''__cacheline_group_begin__sock_write_rxtx'' (CArray (CInt 1) 0),
     Member ''sk_lock'' type_socket_lock_t, Member ''sk_reserved_mem'' (CInt 4),
     Member ''sk_forward_alloc'' (CInt 4), Member ''sk_tsflags'' (CInt 4),
     Member ''__cacheline_group_end__sock_write_rxtx'' (CArray (CInt 1) 0),
     Member ''__cacheline_group_begin__sock_write_tx'' (CArray (CInt 1) 0),
     Member ''sk_write_pending'' (CInt 4), Member ''sk_omem_alloc'' type_atomic_t,
     Member ''sk_sndbuf'' (CInt 4), Member ''sk_wmem_queued'' (CInt 4),
     Member ''sk_wmem_alloc'' struct_refcount_struct, Member ''sk_tsq_flags'' (CInt 8),
     Member '''' (CUnion [
       Member ''sk_send_head'' CPtr, Member ''tcp_rtx_queue'' struct_rb_root]),
     Member ''sk_write_queue'' struct_sk_buff_head, Member ''sk_dst_pending_confirm'' (CInt 4),
     Member ''sk_pacing_status'' (CInt 4), Member ''sk_frag'' struct_page_frag,
     Member ''sk_timer'' struct_timer_list, Member ''sk_pacing_rate'' (CInt 8),
     Member ''sk_zckey'' type_atomic_t, Member ''sk_tskey'' type_atomic_t,
     Member ''__cacheline_group_end__sock_write_tx'' (CArray (CInt 1) 0),
     Member ''__cacheline_group_begin__sock_read_tx'' (CArray (CInt 1) 0),
     Member ''sk_max_pacing_rate'' (CInt 8), Member ''sk_sndtimeo'' (CInt 8),
     Member ''sk_priority'' (CInt 4), Member ''sk_mark'' (CInt 4), Member ''sk_dst_cache'' CPtr,
     Member ''sk_route_caps'' (CInt 8), Member ''sk_validate_xmit_skb'' CPtr,
     Member ''sk_gso_type'' (CInt 2), Member ''sk_gso_max_segs'' (CInt 2),
     Member ''sk_gso_max_size'' (CInt 4), Member ''sk_allocation'' (CInt 4),
     Member ''sk_txhash'' (CInt 4), Member ''sk_pacing_shift'' (CInt 1),
     Member ''sk_use_task_frag'' (CInt 1),
     Member ''__cacheline_group_end__sock_read_tx'' (CArray (CInt 1) 0),
     Bits ''sk_gso_disabled'' 1 1, Bits ''sk_kern_sock'' 1 1, Bits ''sk_no_check_tx'' 1 1,
     Bits ''sk_no_check_rx'' 1 1, Member ''sk_shutdown'' (CInt 1), Member ''sk_type'' (CInt 2),
     Member ''sk_protocol'' (CInt 2), Member ''sk_lingertime'' (CInt 8),
     Member ''sk_prot_creator'' CPtr, Member ''sk_callback_lock'' type_rwlock_t,
     Member ''sk_err_soft'' (CInt 4), Member ''sk_ack_backlog'' (CInt 4),
     Member ''sk_max_ack_backlog'' (CInt 4), Member ''sk_uid'' type_kuid_t,
     Member ''sk_peer_lock'' struct_spinlock, Member ''sk_bind_phc'' (CInt 4),
     Member ''sk_peer_pid'' CPtr, Member ''sk_peer_cred'' CPtr, Member ''sk_stamp'' (CInt 8),
     Member ''sk_disconnects'' (CInt 4), Member ''sk_txrehash'' (CInt 1),
     Member ''sk_clockid'' (CInt 1), Bits ''sk_txtime_deadline_mode'' 1 1,
     Bits ''sk_txtime_report_errors'' 1 1, Bits ''sk_txtime_unused'' 1 6,
     Member ''sk_user_data'' CPtr, Member ''sk_security'' CPtr,
     Member ''sk_cgrp_data'' struct_sock_cgroup_data, Member ''sk_state_change'' CPtr,
     Member ''sk_write_space'' CPtr, Member ''sk_error_report'' CPtr,
     Member ''sk_backlog_rcv'' CPtr, Member ''sk_destruct'' CPtr,
     Member ''sk_reuseport_cb'' CPtr, Member ''sk_bpf_storage'' CPtr,
     Member ''sk_rcu'' struct_callback_head, Member ''ns_tracker'' type_netns_tracker]"

lemma layout_struct_sock [simp]: "cwf struct_sock" "calign struct_sock = 8" "csize struct_sock = 760"
  by (simp_all add: struct_sock_def place_def align_up_def)

definition struct_socket_wq :: ctype where
  "struct_socket_wq = CStruct [
     Member ''wait'' struct_wait_queue_head, Member ''fasync_list'' CPtr,
     Member ''flags'' (CInt 8), Member ''rcu'' struct_callback_head, Bits '''' 8 64]"

lemma layout_struct_socket_wq [simp]: "cwf struct_socket_wq" "calign struct_socket_wq = 8" "csize struct_socket_wq = 64"
  by (simp_all add: struct_socket_wq_def place_def align_up_def)

definition struct_socket :: ctype where
  "struct_socket = CStruct [
     Member ''state'' (CInt 4), Member ''type'' (CInt 2), Member ''flags'' (CInt 8),
     Member ''file'' CPtr, Member ''sk'' CPtr, Member ''ops'' CPtr, Bits '''' 8 64,
     Bits '''' 8 64, Bits '''' 8 64, Member ''wq'' struct_socket_wq]"

lemma layout_struct_socket [simp]: "cwf struct_socket" "calign struct_socket = 8" "csize struct_socket = 128"
  by (simp_all add: struct_socket_def place_def align_up_def)

definition struct_inet_cork :: ctype where
  "struct_inet_cork = CStruct [
     Member ''flags'' (CInt 4), Member ''addr'' (CInt 4), Member ''opt'' CPtr,
     Member ''fragsize'' (CInt 4), Member ''length'' (CInt 4), Member ''dst'' CPtr,
     Member ''tx_flags'' (CInt 1), Member ''ttl'' (CInt 1), Member ''tos'' (CInt 2),
     Member ''priority'' (CInt 1), Member ''gso_size'' (CInt 2),
     Member ''transmit_time'' (CInt 8), Member ''mark'' (CInt 4)]"

lemma layout_struct_inet_cork [simp]: "cwf struct_inet_cork" "calign struct_inet_cork = 8" "csize struct_inet_cork = 56"
  by (simp_all add: struct_inet_cork_def place_def align_up_def)

definition struct_flowi_tunnel :: ctype where
  "struct_flowi_tunnel = CStruct [
     Member ''tun_id'' (CInt 8)]"

lemma layout_struct_flowi_tunnel [simp]: "cwf struct_flowi_tunnel" "calign struct_flowi_tunnel = 8" "csize struct_flowi_tunnel = 8"
  by (simp_all add: struct_flowi_tunnel_def place_def align_up_def)

definition struct_flowi_common :: ctype where
  "struct_flowi_common = CStruct [
     Member ''flowic_oif'' (CInt 4), Member ''flowic_iif'' (CInt 4),
     Member ''flowic_l3mdev'' (CInt 4), Member ''flowic_mark'' (CInt 4),
     Member ''flowic_tos'' (CInt 1), Member ''flowic_scope'' (CInt 1),
     Member ''flowic_proto'' (CInt 1), Member ''flowic_flags'' (CInt 1),
     Member ''flowic_secid'' (CInt 4), Member ''flowic_uid'' type_kuid_t,
     Member ''flowic_multipath_hash'' (CInt 4), Member ''flowic_tun_key'' struct_flowi_tunnel]"

lemma layout_struct_flowi_common [simp]: "cwf struct_flowi_common" "calign struct_flowi_common = 8" "csize struct_flowi_common = 40"
  by (simp_all add: struct_flowi_common_def place_def align_up_def)

definition union_flowi_uli :: ctype where
  "union_flowi_uli = CUnion [
     Member ''ports'' (CStruct [
       Member ''dport'' (CInt 2), Member ''sport'' (CInt 2)]), Member ''icmpt'' (CStruct [
       Member ''type'' (CInt 1), Member ''code'' (CInt 1)]), Member ''gre_key'' (CInt 4),
     Member ''mht'' (CStruct [
       Member ''type'' (CInt 1)])]"

lemma layout_union_flowi_uli [simp]: "cwf union_flowi_uli" "calign union_flowi_uli = 4" "csize union_flowi_uli = 4"
  by (simp_all add: union_flowi_uli_def place_def align_up_def)

definition struct_flowi4 :: ctype where
  "struct_flowi4 = CStruct [
     Member ''__fl_common'' struct_flowi_common, Member ''saddr'' (CInt 4),
     Member ''daddr'' (CInt 4), Member ''uli'' union_flowi_uli]"

lemma layout_struct_flowi4 [simp]: "cwf struct_flowi4" "calign struct_flowi4 = 8" "csize struct_flowi4 = 56"
  by (simp_all add: struct_flowi4_def place_def align_up_def)

definition struct_flowi6 :: ctype where
  "struct_flowi6 = CStruct [
     Member ''__fl_common'' struct_flowi_common, Member ''daddr'' struct_in6_addr,
     Member ''saddr'' struct_in6_addr, Member ''flowlabel'' (CInt 4),
     Member ''uli'' union_flowi_uli, Member ''mp_hash'' (CInt 4)]"

lemma layout_struct_flowi6 [simp]: "cwf struct_flowi6" "calign struct_flowi6 = 8" "csize struct_flowi6 = 88"
  by (simp_all add: struct_flowi6_def place_def align_up_def)

definition struct_flowi :: ctype where
  "struct_flowi = CStruct [
     Member ''u'' (CUnion [
       Member ''__fl_common'' struct_flowi_common, Member ''ip4'' struct_flowi4,
       Member ''ip6'' struct_flowi6])]"

lemma layout_struct_flowi [simp]: "cwf struct_flowi" "calign struct_flowi = 8" "csize struct_flowi = 88"
  by (simp_all add: struct_flowi_def place_def align_up_def)

definition struct_inet_cork_full :: ctype where
  "struct_inet_cork_full = CStruct [
     Member ''base'' struct_inet_cork, Member ''fl'' struct_flowi]"

lemma layout_struct_inet_cork_full [simp]: "cwf struct_inet_cork_full" "calign struct_inet_cork_full = 8" "csize struct_inet_cork_full = 144"
  by (simp_all add: struct_inet_cork_full_def place_def align_up_def)

definition struct_inet_sock :: ctype where
  "struct_inet_sock = CStruct [
     Member ''sk'' struct_sock, Member ''pinet6'' CPtr, Member ''inet_flags'' (CInt 8),
     Member ''inet_saddr'' (CInt 4), Member ''uc_ttl'' (CInt 2), Member ''inet_sport'' (CInt 2),
     Member ''inet_opt'' CPtr, Member ''inet_id'' type_atomic_t, Member ''tos'' (CInt 1),
     Member ''min_ttl'' (CInt 1), Member ''mc_ttl'' (CInt 1), Member ''pmtudisc'' (CInt 1),
     Member ''rcv_tos'' (CInt 1), Member ''convert_csum'' (CInt 1), Member ''uc_index'' (CInt 4),
     Member ''mc_index'' (CInt 4), Member ''mc_addr'' (CInt 4),
     Member ''local_port_range'' (CInt 4), Member ''mc_list'' CPtr,
     Member ''cork'' struct_inet_cork_full]"

lemma layout_struct_inet_sock [simp]: "cwf struct_inet_sock" "calign struct_inet_sock = 8" "csize struct_inet_sock = 976"
  by (simp_all add: struct_inet_sock_def place_def align_up_def)

definition struct_fastopen_queue :: ctype where
  "struct_fastopen_queue = CStruct [
     Member ''rskq_rst_head'' CPtr, Member ''rskq_rst_tail'' CPtr,
     Member ''lock'' struct_spinlock, Member ''qlen'' (CInt 4), Member ''max_qlen'' (CInt 4),
     Member ''ctx'' CPtr]"

lemma layout_struct_fastopen_queue [simp]: "cwf struct_fastopen_queue" "calign struct_fastopen_queue = 8" "csize struct_fastopen_queue = 40"
  by (simp_all add: struct_fastopen_queue_def place_def align_up_def)

definition struct_request_sock_queue :: ctype where
  "struct_request_sock_queue = CStruct [
     Member ''rskq_lock'' struct_spinlock, Member ''rskq_defer_accept'' (CInt 1),
     Member ''synflood_warned'' (CInt 4), Member ''qlen'' type_atomic_t,
     Member ''young'' type_atomic_t, Member ''rskq_accept_head'' CPtr,
     Member ''rskq_accept_tail'' CPtr, Member ''fastopenq'' struct_fastopen_queue]"

lemma layout_struct_request_sock_queue [simp]: "cwf struct_request_sock_queue" "calign struct_request_sock_queue = 8" "csize struct_request_sock_queue = 80"
  by (simp_all add: struct_request_sock_queue_def place_def align_up_def)

definition struct_inet_connection_sock :: ctype where
  "struct_inet_connection_sock = CStruct [
     Member ''icsk_inet'' struct_inet_sock,
     Member ''icsk_accept_queue'' struct_request_sock_queue, Member ''icsk_bind_hash'' CPtr,
     Member ''icsk_bind2_hash'' CPtr, Member ''icsk_timeout'' (CInt 8),
     Member ''icsk_retransmit_timer'' struct_timer_list,
     Member ''icsk_delack_timer'' struct_timer_list, Member ''icsk_rto'' (CInt 4),
     Member ''icsk_rto_min'' (CInt 4), Member ''icsk_delack_max'' (CInt 4),
     Member ''icsk_pmtu_cookie'' (CInt 4), Member ''icsk_ca_ops'' CPtr,
     Member ''icsk_af_ops'' CPtr, Member ''icsk_ulp_ops'' CPtr, Member ''icsk_ulp_data'' CPtr,
     Member ''icsk_clean_acked'' CPtr, Member ''icsk_sync_mss'' CPtr, Bits ''icsk_ca_state'' 1 5,
     Bits ''icsk_ca_initialized'' 1 1, Bits ''icsk_ca_setsockopt'' 1 1,
     Bits ''icsk_ca_dst_locked'' 1 1, Member ''icsk_retransmits'' (CInt 1),
     Member ''icsk_pending'' (CInt 1), Member ''icsk_backoff'' (CInt 1),
     Member ''icsk_syn_retries'' (CInt 1), Member ''icsk_probes_out'' (CInt 1),
     Member ''icsk_ext_hdr_len'' (CInt 2), Member ''icsk_ack'' (CStruct [
       Member ''pending'' (CInt 1), Member ''quick'' (CInt 1), Member ''pingpong'' (CInt 1),
       Member ''retry'' (CInt 1), Bits ''ato'' 4 8, Bits ''lrcv_flowlabel'' 4 20,
       Bits ''unused'' 4 4, Member ''timeout'' (CInt 8), Member ''lrcvtime'' (CInt 4),
       Member ''last_seg_size'' (CInt 2), Member ''rcv_mss'' (CInt 2)]),
     Member ''icsk_mtup'' (CStruct [
       Member ''search_high'' (CInt 4), Member ''search_low'' (CInt 4), Bits ''probe_size'' 4 31,
       Bits ''enabled'' 4 1, Member ''probe_timestamp'' (CInt 4)]),
     Member ''icsk_probes_tstamp'' (CInt 4), Member ''icsk_user_timeout'' (CInt 4),
     Member ''icsk_ca_priv'' (CArray (CInt 8) 13)]"

lemma layout_struct_inet_connection_sock [simp]: "cwf struct_inet_connection_sock" "calign struct_inet_connection_sock = 8" "csize struct_inet_connection_sock = 1384"
  by (simp_all add: struct_inet_connection_sock_def place_def align_up_def)

definition struct_minmax_sample :: ctype where
  "struct_minmax_sample = CStruct [
     Member ''t'' (CInt 4), Member ''v'' (CInt 4)]"

lemma layout_struct_minmax_sample [simp]: "cwf struct_minmax_sample" "calign struct_minmax_sample = 4" "csize struct_minmax_sample = 8"
  by (simp_all add: struct_minmax_sample_def place_def align_up_def)

definition struct_minmax :: ctype where
  "struct_minmax = CStruct [
     Member ''s'' (CArray struct_minmax_sample 3)]"

lemma layout_struct_minmax [simp]: "cwf struct_minmax" "calign struct_minmax = 4" "csize struct_minmax = 24"
  by (simp_all add: struct_minmax_def place_def align_up_def)

definition struct_tcp_options_received :: ctype where
  "struct_tcp_options_received = CStruct [
     Member ''ts_recent_stamp'' (CInt 4), Member ''ts_recent'' (CInt 4),
     Member ''rcv_tsval'' (CInt 4), Member ''rcv_tsecr'' (CInt 4), Bits ''saw_tstamp'' 2 1,
     Bits ''tstamp_ok'' 2 1, Bits ''dsack'' 2 1, Bits ''wscale_ok'' 2 1, Bits ''sack_ok'' 2 3,
     Bits ''smc_ok'' 2 1, Bits ''snd_wscale'' 2 4, Bits ''rcv_wscale'' 2 4,
     Bits ''saw_unknown'' 1 1, Bits ''unused'' 1 7, Member ''num_sacks'' (CInt 1),
     Member ''user_mss'' (CInt 2), Member ''mss_clamp'' (CInt 2)]"

lemma layout_struct_tcp_options_received [simp]: "cwf struct_tcp_options_received" "calign struct_tcp_options_received = 4" "csize struct_tcp_options_received = 24"
  by (simp_all add: struct_tcp_options_received_def place_def align_up_def)

definition struct_tcp_rack :: ctype where
  "struct_tcp_rack = CStruct [
     Member ''mstamp'' (CInt 8), Member ''rtt_us'' (CInt 4), Member ''end_seq'' (CInt 4),
     Member ''last_delivered'' (CInt 4), Member ''reo_wnd_steps'' (CInt 1),
     Bits ''reo_wnd_persist'' 1 5, Bits ''dsack_seen'' 1 1, Bits ''advanced'' 1 1]"

lemma layout_struct_tcp_rack [simp]: "cwf struct_tcp_rack" "calign struct_tcp_rack = 8" "csize struct_tcp_rack = 24"
  by (simp_all add: struct_tcp_rack_def place_def align_up_def)

definition struct_tcp_sack_block :: ctype where
  "struct_tcp_sack_block = CStruct [
     Member ''start_seq'' (CInt 4), Member ''end_seq'' (CInt 4)]"

lemma layout_struct_tcp_sack_block [simp]: "cwf struct_tcp_sack_block" "calign struct_tcp_sack_block = 4" "csize struct_tcp_sack_block = 8"
  by (simp_all add: struct_tcp_sack_block_def place_def align_up_def)

definition struct_tcp_sock :: ctype where
  "struct_tcp_sock = CStruct [
     Member ''inet_conn'' struct_inet_connection_sock,
     Member ''__cacheline_group_begin__tcp_sock_read_tx'' (CArray (CInt 1) 0),
     Member ''max_window'' (CInt 4), Member ''rcv_ssthresh'' (CInt 4),
     Member ''reordering'' (CInt 4), Member ''notsent_lowat'' (CInt 4),
     Member ''gso_segs'' (CInt 2), Member ''lost_skb_hint'' CPtr,
     Member ''retransmit_skb_hint'' CPtr,
     Member ''__cacheline_group_end__tcp_sock_read_tx'' (CArray (CInt 1) 0),
     Member ''__cacheline_group_begin__tcp_sock_read_txrx'' (CArray (CInt 1) 0),
     Member ''tsoffset'' (CInt 4), Member ''snd_wnd'' (CInt 4), Member ''mss_cache'' (CInt 4),
     Member ''snd_cwnd'' (CInt 4), Member ''prr_out'' (CInt 4), Member ''lost_out'' (CInt 4),
     Member ''sacked_out'' (CInt 4), Member ''tcp_header_len'' (CInt 2),
     Member ''scaling_ratio'' (CInt 1), Bits ''chrono_type'' 1 2, Bits ''repair'' 1 1,
     Bits ''tcp_usec_ts'' 1 1, Bits ''is_sack_reneg'' 1 1, Bits ''is_cwnd_limited'' 1 1,
     Member ''__cacheline_group_end__tcp_sock_read_txrx'' (CArray (CInt 1) 0),
     Member ''__cacheline_group_begin__tcp_sock_read_rx'' (CArray (CInt 1) 0),
     Member ''copied_seq'' (CInt 4), Member ''rcv_tstamp'' (CInt 4), Member ''snd_wl1'' (CInt 4),
     Member ''tlp_high_seq'' (CInt 4), Member ''rttvar_us'' (CInt 4),
     Member ''retrans_out'' (CInt 4), Member ''advmss'' (CInt 2), Member ''urg_data'' (CInt 2),
     Member ''lost'' (CInt 4), Member ''rtt_min'' struct_minmax,
     Member ''out_of_order_queue'' struct_rb_root, Member ''snd_ssthresh'' (CInt 4),
     Bits ''recvmsg_inq'' 1 1,
     Member ''__cacheline_group_end__tcp_sock_read_rx'' (CArray (CInt 1) 0), Bits '''' 8 64,
     Member ''__cacheline_group_begin__tcp_sock_write_tx'' (CArray (CInt 1) 0),
     Member ''segs_out'' (CInt 4), Member ''data_segs_out'' (CInt 4),
     Member ''bytes_sent'' (CInt 8), Member ''snd_sml'' (CInt 4),
     Member ''chrono_start'' (CInt 4), Member ''chrono_stat'' (CArray (CInt 4) 3),
     Member ''write_seq'' (CInt 4), Member ''pushed_seq'' (CInt 4), Member ''lsndtime'' (CInt 4),
     Member ''mdev_us'' (CInt 4), Member ''rtt_seq'' (CInt 4), Member ''tcp_wstamp_ns'' (CInt 8),
     Member ''tsorted_sent_queue'' struct_list_head, Member ''highest_sack'' CPtr,
     Member ''ecn_flags'' (CInt 1),
     Member ''__cacheline_group_end__tcp_sock_write_tx'' (CArray (CInt 1) 0),
     Member ''__cacheline_group_begin__tcp_sock_write_txrx'' (CArray (CInt 1) 0),
     Member ''pred_flags'' (CInt 4), Member ''tcp_clock_cache'' (CInt 8),
     Member ''tcp_mstamp'' (CInt 8), Member ''rcv_nxt'' (CInt 4), Member ''snd_nxt'' (CInt 4),
     Member ''snd_una'' (CInt 4), Member ''window_clamp'' (CInt 4), Member ''srtt_us'' (CInt 4),
     Member ''packets_out'' (CInt 4), Member ''snd_up'' (CInt 4), Member ''delivered'' (CInt 4),
     Member ''delivered_ce'' (CInt 4), Member ''app_limited'' (CInt 4),
     Member ''rcv_wnd'' (CInt 4), Member ''rx_opt'' struct_tcp_options_received,
     Bits ''nonagle'' 1 4, Bits ''rate_app_limited'' 1 1,
     Member ''__cacheline_group_end__tcp_sock_write_txrx'' (CArray (CInt 1) 0), Bits '''' 8 0,
     Member ''__cacheline_group_begin__tcp_sock_write_rx'' (CArray (CInt 1) 0),
     Member ''bytes_received'' (CInt 8), Member ''segs_in'' (CInt 4),
     Member ''data_segs_in'' (CInt 4), Member ''rcv_wup'' (CInt 4),
     Member ''max_packets_out'' (CInt 4), Member ''cwnd_usage_seq'' (CInt 4),
     Member ''rate_delivered'' (CInt 4), Member ''rate_interval_us'' (CInt 4),
     Member ''rcv_rtt_last_tsecr'' (CInt 4), Member ''first_tx_mstamp'' (CInt 8),
     Member ''delivered_mstamp'' (CInt 8), Member ''bytes_acked'' (CInt 8),
     Member ''rcv_rtt_est'' (CStruct [
       Member ''rtt_us'' (CInt 4), Member ''seq'' (CInt 4), Member ''time'' (CInt 8)]),
     Member ''rcvq_space'' (CStruct [
       Member ''space'' (CInt 4), Member ''seq'' (CInt 4), Member ''time'' (CInt 8)]),
     Member ''__cacheline_group_end__tcp_sock_write_rx'' (CArray (CInt 1) 0),
     Member ''dsack_dups'' (CInt 4), Member ''compressed_ack_rcv_nxt'' (CInt 4),
     Member ''tsq_node'' struct_list_head, Member ''rack'' struct_tcp_rack,
     Member ''compressed_ack'' (CInt 1), Bits ''dup_ack_counter'' 1 2, Bits ''tlp_retrans'' 1 1,
     Bits ''unused'' 1 5, Bits ''thin_lto'' 1 1, Bits ''fastopen_connect'' 1 1,
     Bits ''fastopen_no_cookie'' 1 1, Bits ''fastopen_client_fail'' 1 2, Bits ''frto'' 1 1,
     Member ''repair_queue'' (CInt 1), Bits ''save_syn'' 1 2, Bits ''syn_data'' 1 1,
     Bits ''syn_fastopen'' 1 1, Bits ''syn_fastopen_exp'' 1 1, Bits ''syn_fastopen_ch'' 1 1,
     Bits ''syn_data_acked'' 1 1, Member ''keepalive_probes'' (CInt 1),
     Member ''tcp_tx_delay'' (CInt 4), Member ''mdev_max_us'' (CInt 4),
     Member ''reord_seen'' (CInt 4), Member ''snd_cwnd_cnt'' (CInt 4),
     Member ''snd_cwnd_clamp'' (CInt 4), Member ''snd_cwnd_used'' (CInt 4),
     Member ''snd_cwnd_stamp'' (CInt 4), Member ''prior_cwnd'' (CInt 4),
     Member ''prr_delivered'' (CInt 4), Member ''last_oow_ack_time'' (CInt 4),
     Member ''pacing_timer'' struct_hrtimer, Member ''compressed_ack_timer'' struct_hrtimer,
     Member ''ooo_last_skb'' CPtr, Member ''duplicate_sack'' (CArray struct_tcp_sack_block 1),
     Member ''selective_acks'' (CArray struct_tcp_sack_block 4),
     Member ''recv_sack_cache'' (CArray struct_tcp_sack_block 4),
     Member ''lost_cnt_hint'' (CInt 4), Member ''prior_ssthresh'' (CInt 4),
     Member ''high_seq'' (CInt 4), Member ''retrans_stamp'' (CInt 4),
     Member ''undo_marker'' (CInt 4), Member ''undo_retrans'' (CInt 4),
     Member ''bytes_retrans'' (CInt 8), Member ''total_retrans'' (CInt 4),
     Member ''rto_stamp'' (CInt 4), Member ''total_rto'' (CInt 2),
     Member ''total_rto_recoveries'' (CInt 2), Member ''total_rto_time'' (CInt 4),
     Member ''urg_seq'' (CInt 4), Member ''keepalive_time'' (CInt 4),
     Member ''keepalive_intvl'' (CInt 4), Member ''linger2'' (CInt 4),
     Member ''bpf_sock_ops_cb_flags'' (CInt 1), Bits ''bpf_chg_cc_inprogress'' 1 1,
     Member ''timeout_rehash'' (CInt 2), Member ''rcv_ooopack'' (CInt 4),
     Member ''mtu_probe'' (CStruct [
       Member ''probe_seq_start'' (CInt 4), Member ''probe_seq_end'' (CInt 4)]),
     Member ''plb_rehash'' (CInt 4), Member ''mtu_info'' (CInt 4), Member ''is_mptcp'' (CInt 1),
     Member ''syn_smc'' (CInt 1), Member ''smc_hs_congested'' CPtr, Member ''af_specific'' CPtr,
     Member ''md5sig_info'' CPtr, Member ''fastopen_req'' CPtr, Member ''fastopen_rsk'' CPtr,
     Member ''saved_syn'' CPtr, Bits '''' 8 64, Bits '''' 8 64, Bits '''' 8 64, Bits '''' 8 64,
     Bits '''' 8 64]"

lemma layout_struct_tcp_sock [simp]: "cwf struct_tcp_sock" "calign struct_tcp_sock = 8" "csize struct_tcp_sock = 2304"
  by (simp_all add: struct_tcp_sock_def place_def align_up_def)

definition struct_udp_sock :: ctype where
  "struct_udp_sock = CStruct [
     Member ''inet'' struct_inet_sock, Member ''udp_flags'' (CInt 8),
     Member ''pending'' (CInt 4), Member ''encap_type'' (CInt 1), Member ''len'' (CInt 2),
     Member ''gso_size'' (CInt 2), Member ''pcslen'' (CInt 2), Member ''pcrlen'' (CInt 2),
     Member ''encap_rcv'' CPtr, Member ''encap_err_rcv'' CPtr, Member ''encap_err_lookup'' CPtr,
     Member ''encap_destroy'' CPtr, Member ''gro_receive'' CPtr, Member ''gro_complete'' CPtr,
     Bits '''' 8 64, Bits '''' 8 64, Bits '''' 8 64, Bits '''' 8 64, Bits '''' 8 64,
     Member ''reader_queue'' struct_sk_buff_head, Member ''forward_deficit'' (CInt 4),
     Member ''forward_threshold'' (CInt 4), Member ''peeking_with_offset'' (CInt 1),
     Bits '''' 8 64, Bits '''' 8 64, Bits '''' 8 64]"

lemma layout_struct_udp_sock [simp]: "cwf struct_udp_sock" "calign struct_udp_sock = 8" "csize struct_udp_sock = 1152"
  by (simp_all add: struct_udp_sock_def place_def align_up_def)

definition struct_proto :: ctype where
  "struct_proto = CStruct [
     Member ''close'' CPtr, Member ''pre_connect'' CPtr, Member ''connect'' CPtr,
     Member ''disconnect'' CPtr, Member ''accept'' CPtr, Member ''ioctl'' CPtr,
     Member ''init'' CPtr, Member ''destroy'' CPtr, Member ''shutdown'' CPtr,
     Member ''setsockopt'' CPtr, Member ''getsockopt'' CPtr, Member ''keepalive'' CPtr,
     Member ''compat_ioctl'' CPtr, Member ''sendmsg'' CPtr, Member ''recvmsg'' CPtr,
     Member ''splice_eof'' CPtr, Member ''bind'' CPtr, Member ''bind_add'' CPtr,
     Member ''backlog_rcv'' CPtr, Member ''bpf_bypass_getsockopt'' CPtr,
     Member ''release_cb'' CPtr, Member ''hash'' CPtr, Member ''unhash'' CPtr,
     Member ''rehash'' CPtr, Member ''get_port'' CPtr, Member ''put_port'' CPtr,
     Member ''psock_update_sk_prot'' CPtr, Member ''inuse_idx'' (CInt 4),
     Member ''forward_alloc_get'' CPtr, Member ''stream_memory_free'' CPtr,
     Member ''sock_is_readable'' CPtr, Member ''enter_memory_pressure'' CPtr,
     Member ''leave_memory_pressure'' CPtr, Member ''memory_allocated'' CPtr,
     Member ''per_cpu_fw_alloc'' CPtr, Member ''sockets_allocated'' CPtr,
     Member ''memory_pressure'' CPtr, Member ''sysctl_mem'' CPtr, Member ''sysctl_wmem'' CPtr,
     Member ''sysctl_rmem'' CPtr, Member ''sysctl_wmem_offset'' (CInt 4),
     Member ''sysctl_rmem_offset'' (CInt 4), Member ''max_header'' (CInt 4),
     Member ''no_autobind'' (CInt 1), Member ''slab'' CPtr, Member ''obj_size'' (CInt 4),
     Member ''ipv6_pinfo_offset'' (CInt 4), Member ''slab_flags'' (CInt 4),
     Member ''useroffset'' (CInt 4), Member ''usersize'' (CInt 4), Member ''orphan_count'' CPtr,
     Member ''rsk_prot'' CPtr, Member ''twsk_prot'' CPtr, Member ''h'' (CUnion [
       Member ''hashinfo'' CPtr, Member ''udp_table'' CPtr, Member ''raw_hash'' CPtr,
       Member ''smc_hash'' CPtr]), Member ''owner'' CPtr, Member ''name'' (CArray (CInt 1) 32),
     Member ''node'' struct_list_head, Member ''diag_destroy'' CPtr]"

lemma layout_struct_proto [simp]: "cwf struct_proto" "calign struct_proto = 8" "csize struct_proto = 464"
  by (simp_all add: struct_proto_def place_def align_up_def)

definition struct_proto_ops :: ctype where
  "struct_proto_ops = CStruct [
     Member ''family'' (CInt 4), Member ''owner'' CPtr, Member ''release'' CPtr,
     Member ''bind'' CPtr, Member ''connect'' CPtr, Member ''socketpair'' CPtr,
     Member ''accept'' CPtr, Member ''getname'' CPtr, Member ''poll'' CPtr,
     Member ''ioctl'' CPtr, Member ''compat_ioctl'' CPtr, Member ''gettstamp'' CPtr,
     Member ''listen'' CPtr, Member ''shutdown'' CPtr, Member ''setsockopt'' CPtr,
     Member ''getsockopt'' CPtr, Member ''show_fdinfo'' CPtr, Member ''sendmsg'' CPtr,
     Member ''recvmsg'' CPtr, Member ''mmap'' CPtr, Member ''splice_read'' CPtr,
     Member ''splice_eof'' CPtr, Member ''set_peek_off'' CPtr, Member ''peek_len'' CPtr,
     Member ''read_sock'' CPtr, Member ''read_skb'' CPtr, Member ''sendmsg_locked'' CPtr,
     Member ''set_rcvlowat'' CPtr]"

lemma layout_struct_proto_ops [simp]: "cwf struct_proto_ops" "calign struct_proto_ops = 8" "csize struct_proto_ops = 224"
  by (simp_all add: struct_proto_ops_def place_def align_up_def)

text \<open>Every structure of this theory, by name.\<close>

definition net_types :: "(string \<times> ctype) list" where
  "net_types = [
     (''struct_nf_hook_state'', struct_nf_hook_state),
     (''struct_netdev_tc_txq'', struct_netdev_tc_txq),
     (''type_possible_net_t'', type_possible_net_t), (''type_atomic64_t'', type_atomic64_t),
     (''struct_net_device_stats'', struct_net_device_stats),
     (''struct_qspinlock'', struct_qspinlock), (''struct_raw_spinlock'', struct_raw_spinlock),
     (''struct_spinlock'', struct_spinlock), (''struct_rb_root'', struct_rb_root),
     (''struct_netdev_hw_addr_list'', struct_netdev_hw_addr_list),
     (''struct_hlist_node'', struct_hlist_node), (''struct_hlist_head'', struct_hlist_head),
     (''struct_timer_list'', struct_timer_list),
     (''struct_ref_tracker_dir'', struct_ref_tracker_dir), (''struct_kref'', struct_kref),
     (''struct_kobject'', struct_kobject),
     (''struct_optimistic_spin_queue'', struct_optimistic_spin_queue),
     (''struct_mutex'', struct_mutex), (''struct_dev_links_info'', struct_dev_links_info),
     (''struct_pm_message'', struct_pm_message),
     (''struct_swait_queue_head'', struct_swait_queue_head),
     (''struct_completion'', struct_completion),
     (''struct_timerqueue_node'', struct_timerqueue_node), (''struct_hrtimer'', struct_hrtimer),
     (''struct_work_struct'', struct_work_struct),
     (''struct_wait_queue_head'', struct_wait_queue_head),
     (''struct_dev_pm_info'', struct_dev_pm_info),
     (''struct_dev_msi_info'', struct_dev_msi_info),
     (''struct_dev_archdata'', struct_dev_archdata), (''struct_device'', struct_device),
     (''struct_bpf_xdp_entity'', struct_bpf_xdp_entity),
     (''type_netdevice_tracker'', type_netdevice_tracker),
     (''struct_net_device'', struct_net_device), (''struct_dql'', struct_dql),
     (''struct_netdev_queue'', struct_netdev_queue),
     (''struct_net_device_ops'', struct_net_device_ops), (''type_rcuref_t'', type_rcuref_t),
     (''struct_callback_head'', struct_callback_head), (''struct_dst_entry'', struct_dst_entry),
     (''struct_qrwlock'', struct_qrwlock), (''type_rwlock_t'', type_rwlock_t),
     (''struct_sk_buff_list'', struct_sk_buff_list),
     (''struct_sk_buff_head'', struct_sk_buff_head), (''struct_seqcount'', struct_seqcount),
     (''struct_seqcount_spinlock'', struct_seqcount_spinlock),
     (''type_seqlock_t'', type_seqlock_t), (''struct_hh_cache'', struct_hh_cache),
     (''struct_neighbour'', struct_neighbour), (''struct_in6_addr'', struct_in6_addr),
     (''struct_rtable'', struct_rtable), (''struct_ipv4_devconf'', struct_ipv4_devconf),
     (''struct_in_device'', struct_in_device),
     (''struct_hlist_nulls_node'', struct_hlist_nulls_node),
     (''struct_sock_common'', struct_sock_common), (''type_socket_lock_t'', type_socket_lock_t),
     (''struct_page_frag'', struct_page_frag), (''type_kuid_t'', type_kuid_t),
     (''struct_sock_cgroup_data'', struct_sock_cgroup_data),
     (''type_netns_tracker'', type_netns_tracker), (''struct_sock'', struct_sock),
     (''struct_socket_wq'', struct_socket_wq), (''struct_socket'', struct_socket),
     (''struct_inet_cork'', struct_inet_cork), (''struct_flowi_tunnel'', struct_flowi_tunnel),
     (''struct_flowi_common'', struct_flowi_common), (''union_flowi_uli'', union_flowi_uli),
     (''struct_flowi4'', struct_flowi4), (''struct_flowi6'', struct_flowi6),
     (''struct_flowi'', struct_flowi), (''struct_inet_cork_full'', struct_inet_cork_full),
     (''struct_inet_sock'', struct_inet_sock),
     (''struct_fastopen_queue'', struct_fastopen_queue),
     (''struct_request_sock_queue'', struct_request_sock_queue),
     (''struct_inet_connection_sock'', struct_inet_connection_sock),
     (''struct_minmax_sample'', struct_minmax_sample), (''struct_minmax'', struct_minmax),
     (''struct_tcp_options_received'', struct_tcp_options_received),
     (''struct_tcp_rack'', struct_tcp_rack), (''struct_tcp_sack_block'', struct_tcp_sack_block),
     (''struct_tcp_sock'', struct_tcp_sock), (''struct_udp_sock'', struct_udp_sock),
     (''struct_proto'', struct_proto), (''struct_proto_ops'', struct_proto_ops)]"

lemma net_types_wf: "list_all (\<lambda>(x, t). cwf t) net_types"
  by (simp add: net_types_def)

end
