(* ===== verification/Kernel_Netns.thy ===== *)
theory Kernel_Netns
  imports Kernel_Net
begin

text \<open>
  The network namespace that a hook state points to, the connection-tracking entry, and the
  extensions and shared area of a socket buffer (agent/vmlinux.h), with everything they
  contain by value.
\<close>

definition struct_xarray :: ctype where
  "struct_xarray = CStruct [
     Member ''xa_lock'' struct_spinlock, Member ''xa_flags'' (CInt 4), Member ''xa_head'' CPtr]"

lemma layout_struct_xarray [simp]: "cwf struct_xarray" "calign struct_xarray = 8" "csize struct_xarray = 16"
  by (simp_all add: struct_xarray_def place_def align_up_def)

definition struct_idr :: ctype where
  "struct_idr = CStruct [
     Member ''idr_rt'' struct_xarray, Member ''idr_base'' (CInt 4), Member ''idr_next'' (CInt 4)]"

lemma layout_struct_idr [simp]: "cwf struct_idr" "calign struct_idr = 8" "csize struct_idr = 24"
  by (simp_all add: struct_idr_def place_def align_up_def)

definition struct_ns_common :: ctype where
  "struct_ns_common = CStruct [
     Member ''stashed'' CPtr, Member ''ops'' CPtr, Member ''inum'' (CInt 4),
     Member ''count'' struct_refcount_struct]"

lemma layout_struct_ns_common [simp]: "cwf struct_ns_common" "calign struct_ns_common = 8" "csize struct_ns_common = 24"
  by (simp_all add: struct_ns_common_def place_def align_up_def)

definition struct_ctl_table_header :: ctype where
  "struct_ctl_table_header = CStruct [
     Member '''' (CUnion [
       Member '''' (CStruct [
         Member ''ctl_table'' CPtr, Member ''ctl_table_size'' (CInt 4), Member ''used'' (CInt 4),
         Member ''count'' (CInt 4), Member ''nreg'' (CInt 4)]),
       Member ''rcu'' struct_callback_head]), Member ''unregistering'' CPtr,
     Member ''ctl_table_arg'' CPtr, Member ''root'' CPtr, Member ''set'' CPtr,
     Member ''parent'' CPtr, Member ''node'' CPtr, Member ''inodes'' struct_hlist_head,
     Member ''type'' (CInt 4)]"

lemma layout_struct_ctl_table_header [simp]: "cwf struct_ctl_table_header" "calign struct_ctl_table_header = 8" "csize struct_ctl_table_header = 88"
  by (simp_all add: struct_ctl_table_header_def place_def align_up_def)

definition struct_ctl_dir :: ctype where
  "struct_ctl_dir = CStruct [
     Member ''header'' struct_ctl_table_header, Member ''root'' struct_rb_root]"

lemma layout_struct_ctl_dir [simp]: "cwf struct_ctl_dir" "calign struct_ctl_dir = 8" "csize struct_ctl_dir = 96"
  by (simp_all add: struct_ctl_dir_def place_def align_up_def)

definition struct_ctl_table_set :: ctype where
  "struct_ctl_table_set = CStruct [
     Member ''is_seen'' CPtr, Member ''dir'' struct_ctl_dir]"

lemma layout_struct_ctl_table_set [simp]: "cwf struct_ctl_table_set" "calign struct_ctl_table_set = 8" "csize struct_ctl_table_set = 104"
  by (simp_all add: struct_ctl_table_set_def place_def align_up_def)

definition struct_raw_notifier_head :: ctype where
  "struct_raw_notifier_head = CStruct [
     Member ''head'' CPtr]"

lemma layout_struct_raw_notifier_head [simp]: "cwf struct_raw_notifier_head" "calign struct_raw_notifier_head = 8" "csize struct_raw_notifier_head = 8"
  by (simp_all add: struct_raw_notifier_head_def place_def align_up_def)

definition struct_netns_core :: ctype where
  "struct_netns_core = CStruct [
     Member ''sysctl_hdr'' CPtr, Member ''sysctl_somaxconn'' (CInt 4),
     Member ''sysctl_optmem_max'' (CInt 4), Member ''sysctl_txrehash'' (CInt 1),
     Member ''prot_inuse'' CPtr, Member ''rps_default_mask'' CPtr]"

lemma layout_struct_netns_core [simp]: "cwf struct_netns_core" "calign struct_netns_core = 8" "csize struct_netns_core = 40"
  by (simp_all add: struct_netns_core_def place_def align_up_def)

definition struct_netns_mib :: ctype where
  "struct_netns_mib = CStruct [
     Member ''ip_statistics'' CPtr, Member ''ipv6_statistics'' CPtr,
     Member ''tcp_statistics'' CPtr, Member ''net_statistics'' CPtr,
     Member ''udp_statistics'' CPtr, Member ''udp_stats_in6'' CPtr,
     Member ''tls_statistics'' CPtr, Member ''mptcp_statistics'' CPtr,
     Member ''udplite_statistics'' CPtr, Member ''udplite_stats_in6'' CPtr,
     Member ''icmp_statistics'' CPtr, Member ''icmpmsg_statistics'' CPtr,
     Member ''icmpv6_statistics'' CPtr, Member ''icmpv6msg_statistics'' CPtr,
     Member ''proc_net_devsnmp6'' CPtr]"

lemma layout_struct_netns_mib [simp]: "cwf struct_netns_mib" "calign struct_netns_mib = 8" "csize struct_netns_mib = 120"
  by (simp_all add: struct_netns_mib_def place_def align_up_def)

definition struct_netns_packet :: ctype where
  "struct_netns_packet = CStruct [
     Member ''sklist_lock'' struct_mutex, Member ''sklist'' struct_hlist_head]"

lemma layout_struct_netns_packet [simp]: "cwf struct_netns_packet" "calign struct_netns_packet = 8" "csize struct_netns_packet = 40"
  by (simp_all add: struct_netns_packet_def place_def align_up_def)

definition struct_unix_table :: ctype where
  "struct_unix_table = CStruct [
     Member ''locks'' CPtr, Member ''buckets'' CPtr]"

lemma layout_struct_unix_table [simp]: "cwf struct_unix_table" "calign struct_unix_table = 8" "csize struct_unix_table = 16"
  by (simp_all add: struct_unix_table_def place_def align_up_def)

definition struct_netns_unix :: ctype where
  "struct_netns_unix = CStruct [
     Member ''table'' struct_unix_table, Member ''sysctl_max_dgram_qlen'' (CInt 4),
     Member ''ctl'' CPtr]"

lemma layout_struct_netns_unix [simp]: "cwf struct_netns_unix" "calign struct_netns_unix = 8" "csize struct_netns_unix = 32"
  by (simp_all add: struct_netns_unix_def place_def align_up_def)

definition struct_rw_semaphore :: ctype where
  "struct_rw_semaphore = CStruct [
     Member ''count'' type_atomic64_t, Member ''owner'' type_atomic64_t,
     Member ''osq'' struct_optimistic_spin_queue, Member ''wait_lock'' struct_raw_spinlock,
     Member ''wait_list'' struct_list_head]"

lemma layout_struct_rw_semaphore [simp]: "cwf struct_rw_semaphore" "calign struct_rw_semaphore = 8" "csize struct_rw_semaphore = 40"
  by (simp_all add: struct_rw_semaphore_def place_def align_up_def)

definition struct_blocking_notifier_head :: ctype where
  "struct_blocking_notifier_head = CStruct [
     Member ''rwsem'' struct_rw_semaphore, Member ''head'' CPtr]"

lemma layout_struct_blocking_notifier_head [simp]: "cwf struct_blocking_notifier_head" "calign struct_blocking_notifier_head = 8" "csize struct_blocking_notifier_head = 48"
  by (simp_all add: struct_blocking_notifier_head_def place_def align_up_def)

definition struct_netns_nexthop :: ctype where
  "struct_netns_nexthop = CStruct [
     Member ''rb_root'' struct_rb_root, Member ''devhash'' CPtr, Member ''seq'' (CInt 4),
     Member ''last_id_allocated'' (CInt 4),
     Member ''notifier_chain'' struct_blocking_notifier_head]"

lemma layout_struct_netns_nexthop [simp]: "cwf struct_netns_nexthop" "calign struct_netns_nexthop = 8" "csize struct_netns_nexthop = 72"
  by (simp_all add: struct_netns_nexthop_def place_def align_up_def)

definition struct_inet_timewait_death_row :: ctype where
  "struct_inet_timewait_death_row = CStruct [
     Member ''tw_refcount'' struct_refcount_struct, Bits '''' 8 64, Bits '''' 8 64,
     Bits '''' 8 64, Bits '''' 8 64, Bits '''' 8 64, Bits '''' 8 64, Bits '''' 8 64,
     Member ''hashinfo'' CPtr, Member ''sysctl_max_tw_buckets'' (CInt 4), Bits '''' 8 64,
     Bits '''' 8 64, Bits '''' 8 64, Bits '''' 8 64, Bits '''' 8 64, Bits '''' 8 64]"

lemma layout_struct_inet_timewait_death_row [simp]: "cwf struct_inet_timewait_death_row" "calign struct_inet_timewait_death_row = 8" "csize struct_inet_timewait_death_row = 128"
  by (simp_all add: struct_inet_timewait_death_row_def place_def align_up_def)

definition struct_local_ports :: ctype where
  "struct_local_ports = CStruct [
     Member ''range'' (CInt 4), Member ''warned'' (CInt 1)]"

lemma layout_struct_local_ports [simp]: "cwf struct_local_ports" "calign struct_local_ports = 4" "csize struct_local_ports = 8"
  by (simp_all add: struct_local_ports_def place_def align_up_def)

definition type_kgid_t :: ctype where
  "type_kgid_t = CStruct [
     Member ''val'' (CInt 4)]"

lemma layout_type_kgid_t [simp]: "cwf type_kgid_t" "calign type_kgid_t = 4" "csize type_kgid_t = 4"
  by (simp_all add: type_kgid_t_def place_def align_up_def)

definition struct_ping_group_range :: ctype where
  "struct_ping_group_range = CStruct [
     Member ''lock'' type_seqlock_t, Member ''range'' (CArray type_kgid_t 2)]"

lemma layout_struct_ping_group_range [simp]: "cwf struct_ping_group_range" "calign struct_ping_group_range = 4" "csize struct_ping_group_range = 16"
  by (simp_all add: struct_ping_group_range_def place_def align_up_def)

definition struct_sysctl_fib_multipath_hash_seed :: ctype where
  "struct_sysctl_fib_multipath_hash_seed = CStruct [
     Member ''user_seed'' (CInt 4), Member ''mp_seed'' (CInt 4)]"

lemma layout_struct_sysctl_fib_multipath_hash_seed [simp]: "cwf struct_sysctl_fib_multipath_hash_seed" "calign struct_sysctl_fib_multipath_hash_seed = 4" "csize struct_sysctl_fib_multipath_hash_seed = 8"
  by (simp_all add: struct_sysctl_fib_multipath_hash_seed_def place_def align_up_def)

definition type_siphash_key_t :: ctype where
  "type_siphash_key_t = CStruct [
     Member ''key'' (CArray (CInt 8) 2)]"

lemma layout_type_siphash_key_t [simp]: "cwf type_siphash_key_t" "calign type_siphash_key_t = 8" "csize type_siphash_key_t = 16"
  by (simp_all add: type_siphash_key_t_def place_def align_up_def)

definition struct_netns_ipv4 :: ctype where
  "struct_netns_ipv4 = CStruct [
     Member ''__cacheline_group_begin__netns_ipv4_read_tx'' (CArray (CInt 1) 0),
     Member ''sysctl_tcp_early_retrans'' (CInt 1),
     Member ''sysctl_tcp_tso_win_divisor'' (CInt 1), Member ''sysctl_tcp_tso_rtt_log'' (CInt 1),
     Member ''sysctl_tcp_autocorking'' (CInt 1), Member ''sysctl_tcp_min_snd_mss'' (CInt 4),
     Member ''sysctl_tcp_notsent_lowat'' (CInt 4),
     Member ''sysctl_tcp_limit_output_bytes'' (CInt 4),
     Member ''sysctl_tcp_min_rtt_wlen'' (CInt 4), Member ''sysctl_tcp_wmem'' (CArray (CInt 4) 3),
     Member ''sysctl_ip_fwd_use_pmtu'' (CInt 1),
     Member ''__cacheline_group_end__netns_ipv4_read_tx'' (CArray (CInt 1) 0),
     Member ''__cacheline_group_begin__netns_ipv4_read_txrx'' (CArray (CInt 1) 0),
     Member ''sysctl_tcp_moderate_rcvbuf'' (CInt 1),
     Member ''__cacheline_group_end__netns_ipv4_read_txrx'' (CArray (CInt 1) 0),
     Member ''__cacheline_group_begin__netns_ipv4_read_rx'' (CArray (CInt 1) 0),
     Member ''sysctl_ip_early_demux'' (CInt 1), Member ''sysctl_tcp_early_demux'' (CInt 1),
     Member ''sysctl_tcp_reordering'' (CInt 4), Member ''sysctl_tcp_rmem'' (CArray (CInt 4) 3),
     Member ''__cacheline_group_end__netns_ipv4_read_rx'' (CArray (CInt 1) 0), Bits '''' 8 64,
     Member ''tcp_death_row'' struct_inet_timewait_death_row, Member ''udp_table'' CPtr,
     Member ''forw_hdr'' CPtr, Member ''frags_hdr'' CPtr, Member ''ipv4_hdr'' CPtr,
     Member ''route_hdr'' CPtr, Member ''xfrm4_hdr'' CPtr, Member ''devconf_all'' CPtr,
     Member ''devconf_dflt'' CPtr, Member ''ra_chain'' CPtr, Member ''ra_mutex'' struct_mutex,
     Member ''rules_ops'' CPtr, Member ''fib_main'' CPtr, Member ''fib_default'' CPtr,
     Member ''fib_rules_require_fldissect'' (CInt 4), Member ''fib_has_custom_rules'' (CInt 1),
     Member ''fib_has_custom_local_routes'' (CInt 1), Member ''fib_offload_disabled'' (CInt 1),
     Member ''sysctl_tcp_shrink_window'' (CInt 1),
     Member ''fib_num_tclassid_users'' type_atomic_t, Member ''fib_table_hash'' CPtr,
     Member ''fibnl'' CPtr, Member ''mc_autojoin_sk'' CPtr, Member ''peers'' CPtr,
     Member ''fqdir'' CPtr, Member ''sysctl_icmp_echo_ignore_all'' (CInt 1),
     Member ''sysctl_icmp_echo_enable_probe'' (CInt 1),
     Member ''sysctl_icmp_echo_ignore_broadcasts'' (CInt 1),
     Member ''sysctl_icmp_ignore_bogus_error_responses'' (CInt 1),
     Member ''sysctl_icmp_errors_use_inbound_ifaddr'' (CInt 1),
     Member ''sysctl_icmp_ratelimit'' (CInt 4), Member ''sysctl_icmp_ratemask'' (CInt 4),
     Member ''ip_rt_min_pmtu'' (CInt 4), Member ''ip_rt_mtu_expires'' (CInt 4),
     Member ''ip_rt_min_advmss'' (CInt 4), Member ''ip_local_ports'' struct_local_ports,
     Member ''sysctl_tcp_ecn'' (CInt 1), Member ''sysctl_tcp_ecn_fallback'' (CInt 1),
     Member ''sysctl_ip_default_ttl'' (CInt 1), Member ''sysctl_ip_no_pmtu_disc'' (CInt 1),
     Member ''sysctl_ip_fwd_update_priority'' (CInt 1),
     Member ''sysctl_ip_nonlocal_bind'' (CInt 1), Member ''sysctl_ip_autobind_reuse'' (CInt 1),
     Member ''sysctl_ip_dynaddr'' (CInt 1), Member ''sysctl_raw_l3mdev_accept'' (CInt 1),
     Member ''sysctl_udp_early_demux'' (CInt 1), Member ''sysctl_nexthop_compat_mode'' (CInt 1),
     Member ''sysctl_fwmark_reflect'' (CInt 1), Member ''sysctl_tcp_fwmark_accept'' (CInt 1),
     Member ''sysctl_tcp_l3mdev_accept'' (CInt 1), Member ''sysctl_tcp_mtu_probing'' (CInt 1),
     Member ''sysctl_tcp_mtu_probe_floor'' (CInt 4), Member ''sysctl_tcp_base_mss'' (CInt 4),
     Member ''sysctl_tcp_probe_threshold'' (CInt 4),
     Member ''sysctl_tcp_probe_interval'' (CInt 4),
     Member ''sysctl_tcp_keepalive_time'' (CInt 4),
     Member ''sysctl_tcp_keepalive_intvl'' (CInt 4),
     Member ''sysctl_tcp_keepalive_probes'' (CInt 1), Member ''sysctl_tcp_syn_retries'' (CInt 1),
     Member ''sysctl_tcp_synack_retries'' (CInt 1), Member ''sysctl_tcp_syncookies'' (CInt 1),
     Member ''sysctl_tcp_migrate_req'' (CInt 1), Member ''sysctl_tcp_comp_sack_nr'' (CInt 1),
     Member ''sysctl_tcp_backlog_ack_defer'' (CInt 1),
     Member ''sysctl_tcp_pingpong_thresh'' (CInt 1), Member ''sysctl_tcp_retries1'' (CInt 1),
     Member ''sysctl_tcp_retries2'' (CInt 1), Member ''sysctl_tcp_orphan_retries'' (CInt 1),
     Member ''sysctl_tcp_tw_reuse'' (CInt 1), Member ''sysctl_tcp_fin_timeout'' (CInt 4),
     Member ''sysctl_tcp_sack'' (CInt 1), Member ''sysctl_tcp_window_scaling'' (CInt 1),
     Member ''sysctl_tcp_timestamps'' (CInt 1), Member ''sysctl_tcp_rto_min_us'' (CInt 4),
     Member ''sysctl_tcp_recovery'' (CInt 1),
     Member ''sysctl_tcp_thin_linear_timeouts'' (CInt 1),
     Member ''sysctl_tcp_slow_start_after_idle'' (CInt 1),
     Member ''sysctl_tcp_retrans_collapse'' (CInt 1), Member ''sysctl_tcp_stdurg'' (CInt 1),
     Member ''sysctl_tcp_rfc1337'' (CInt 1), Member ''sysctl_tcp_abort_on_overflow'' (CInt 1),
     Member ''sysctl_tcp_fack'' (CInt 1), Member ''sysctl_tcp_max_reordering'' (CInt 4),
     Member ''sysctl_tcp_adv_win_scale'' (CInt 4), Member ''sysctl_tcp_dsack'' (CInt 1),
     Member ''sysctl_tcp_app_win'' (CInt 1), Member ''sysctl_tcp_frto'' (CInt 1),
     Member ''sysctl_tcp_nometrics_save'' (CInt 1),
     Member ''sysctl_tcp_no_ssthresh_metrics_save'' (CInt 1),
     Member ''sysctl_tcp_workaround_signed_windows'' (CInt 1),
     Member ''sysctl_tcp_challenge_ack_limit'' (CInt 4),
     Member ''sysctl_tcp_min_tso_segs'' (CInt 1), Member ''sysctl_tcp_reflect_tos'' (CInt 1),
     Member ''sysctl_tcp_invalid_ratelimit'' (CInt 4),
     Member ''sysctl_tcp_pacing_ss_ratio'' (CInt 4),
     Member ''sysctl_tcp_pacing_ca_ratio'' (CInt 4),
     Member ''sysctl_tcp_child_ehash_entries'' (CInt 4),
     Member ''sysctl_tcp_comp_sack_delay_ns'' (CInt 8),
     Member ''sysctl_tcp_comp_sack_slack_ns'' (CInt 8),
     Member ''sysctl_max_syn_backlog'' (CInt 4), Member ''sysctl_tcp_fastopen'' (CInt 4),
     Member ''tcp_congestion_control'' CPtr, Member ''tcp_fastopen_ctx'' CPtr,
     Member ''sysctl_tcp_fastopen_blackhole_timeout'' (CInt 4),
     Member ''tfo_active_disable_times'' type_atomic_t,
     Member ''tfo_active_disable_stamp'' (CInt 8), Member ''tcp_challenge_timestamp'' (CInt 4),
     Member ''tcp_challenge_count'' (CInt 4), Member ''sysctl_tcp_plb_enabled'' (CInt 1),
     Member ''sysctl_tcp_plb_idle_rehash_rounds'' (CInt 1),
     Member ''sysctl_tcp_plb_rehash_rounds'' (CInt 1),
     Member ''sysctl_tcp_plb_suspend_rto_sec'' (CInt 1),
     Member ''sysctl_tcp_plb_cong_thresh'' (CInt 4), Member ''sysctl_udp_wmem_min'' (CInt 4),
     Member ''sysctl_udp_rmem_min'' (CInt 4),
     Member ''sysctl_fib_notify_on_flag_change'' (CInt 1),
     Member ''sysctl_tcp_syn_linear_timeouts'' (CInt 1),
     Member ''sysctl_udp_l3mdev_accept'' (CInt 1), Member ''sysctl_igmp_llm_reports'' (CInt 1),
     Member ''sysctl_igmp_max_memberships'' (CInt 4), Member ''sysctl_igmp_max_msf'' (CInt 4),
     Member ''sysctl_igmp_qrv'' (CInt 4), Member ''ping_group_range'' struct_ping_group_range,
     Member ''dev_addr_genid'' type_atomic_t, Member ''sysctl_udp_child_hash_entries'' (CInt 4),
     Member ''sysctl_local_reserved_ports'' CPtr, Member ''sysctl_ip_prot_sock'' (CInt 4),
     Member ''mr_tables'' struct_list_head, Member ''mr_rules_ops'' CPtr,
     Member ''sysctl_fib_multipath_hash_seed'' struct_sysctl_fib_multipath_hash_seed,
     Member ''sysctl_fib_multipath_hash_fields'' (CInt 4),
     Member ''sysctl_fib_multipath_use_neigh'' (CInt 1),
     Member ''sysctl_fib_multipath_hash_policy'' (CInt 1), Member ''notifier_ops'' CPtr,
     Member ''fib_seq'' (CInt 4), Member ''ipmr_notifier_ops'' CPtr,
     Member ''ipmr_seq'' (CInt 4), Member ''rt_genid'' type_atomic_t,
     Member ''ip_id_key'' type_siphash_key_t, Bits '''' 8 64, Bits '''' 8 64]"

lemma layout_struct_netns_ipv4 [simp]: "cwf struct_netns_ipv4" "calign struct_netns_ipv4 = 8" "csize struct_netns_ipv4 = 768"
  by (simp_all add: struct_netns_ipv4_def place_def align_up_def)

definition struct_percpu_counter :: ctype where
  "struct_percpu_counter = CStruct [
     Member ''lock'' struct_raw_spinlock, Member ''count'' (CInt 8),
     Member ''list'' struct_list_head, Member ''counters'' CPtr]"

lemma layout_struct_percpu_counter [simp]: "cwf struct_percpu_counter" "calign struct_percpu_counter = 8" "csize struct_percpu_counter = 40"
  by (simp_all add: struct_percpu_counter_def place_def align_up_def)

definition struct_dst_ops :: ctype where
  "struct_dst_ops = CStruct [
     Member ''family'' (CInt 2), Member ''gc_thresh'' (CInt 4), Member ''gc'' CPtr,
     Member ''check'' CPtr, Member ''default_advmss'' CPtr, Member ''mtu'' CPtr,
     Member ''cow_metrics'' CPtr, Member ''destroy'' CPtr, Member ''ifdown'' CPtr,
     Member ''negative_advice'' CPtr, Member ''link_failure'' CPtr, Member ''update_pmtu'' CPtr,
     Member ''redirect'' CPtr, Member ''local_out'' CPtr, Member ''neigh_lookup'' CPtr,
     Member ''confirm_neigh'' CPtr, Member ''kmem_cachep'' CPtr,
     Member ''pcpuc_entries'' struct_percpu_counter, Bits '''' 8 64, Bits '''' 8 64,
     Bits '''' 8 64]"

lemma layout_struct_dst_ops [simp]: "cwf struct_dst_ops" "calign struct_dst_ops = 8" "csize struct_dst_ops = 192"
  by (simp_all add: struct_dst_ops_def place_def align_up_def)

definition struct_netns_sysctl_ipv6 :: ctype where
  "struct_netns_sysctl_ipv6 = CStruct [
     Member ''hdr'' CPtr, Member ''route_hdr'' CPtr, Member ''icmp_hdr'' CPtr,
     Member ''frags_hdr'' CPtr, Member ''xfrm6_hdr'' CPtr, Member ''flush_delay'' (CInt 4),
     Member ''ip6_rt_max_size'' (CInt 4), Member ''ip6_rt_gc_min_interval'' (CInt 4),
     Member ''ip6_rt_gc_timeout'' (CInt 4), Member ''ip6_rt_gc_interval'' (CInt 4),
     Member ''ip6_rt_gc_elasticity'' (CInt 4), Member ''ip6_rt_mtu_expires'' (CInt 4),
     Member ''ip6_rt_min_advmss'' (CInt 4), Member ''multipath_hash_fields'' (CInt 4),
     Member ''multipath_hash_policy'' (CInt 1), Member ''bindv6only'' (CInt 1),
     Member ''flowlabel_consistency'' (CInt 1), Member ''auto_flowlabels'' (CInt 1),
     Member ''icmpv6_time'' (CInt 4), Member ''icmpv6_echo_ignore_all'' (CInt 1),
     Member ''icmpv6_echo_ignore_multicast'' (CInt 1),
     Member ''icmpv6_echo_ignore_anycast'' (CInt 1),
     Member ''icmpv6_ratemask'' (CArray (CInt 8) 4), Member ''icmpv6_ratemask_ptr'' CPtr,
     Member ''anycast_src_echo_reply'' (CInt 1), Member ''ip_nonlocal_bind'' (CInt 1),
     Member ''fwmark_reflect'' (CInt 1), Member ''flowlabel_state_ranges'' (CInt 1),
     Member ''idgen_retries'' (CInt 4), Member ''idgen_delay'' (CInt 4),
     Member ''flowlabel_reflect'' (CInt 4), Member ''max_dst_opts_cnt'' (CInt 4),
     Member ''max_hbh_opts_cnt'' (CInt 4), Member ''max_dst_opts_len'' (CInt 4),
     Member ''max_hbh_opts_len'' (CInt 4), Member ''seg6_flowlabel'' (CInt 4),
     Member ''ioam6_id'' (CInt 4), Member ''ioam6_id_wide'' (CInt 8),
     Member ''skip_notify_on_dev_down'' (CInt 1), Member ''fib_notify_on_flag_change'' (CInt 1),
     Member ''icmpv6_error_anycast_as_unicast'' (CInt 1)]"

lemma layout_struct_netns_sysctl_ipv6 [simp]: "cwf struct_netns_sysctl_ipv6" "calign struct_netns_sysctl_ipv6 = 8" "csize struct_netns_sysctl_ipv6 = 184"
  by (simp_all add: struct_netns_sysctl_ipv6_def place_def align_up_def)

definition struct_delayed_work :: ctype where
  "struct_delayed_work = CStruct [
     Member ''work'' struct_work_struct, Member ''timer'' struct_timer_list, Member ''wq'' CPtr,
     Member ''cpu'' (CInt 4)]"

lemma layout_struct_delayed_work [simp]: "cwf struct_delayed_work" "calign struct_delayed_work = 8" "csize struct_delayed_work = 88"
  by (simp_all add: struct_delayed_work_def place_def align_up_def)

definition struct_netns_ipv6 :: ctype where
  "struct_netns_ipv6 = CStruct [
     Member ''ip6_dst_ops'' struct_dst_ops, Member ''sysctl'' struct_netns_sysctl_ipv6,
     Member ''devconf_all'' CPtr, Member ''devconf_dflt'' CPtr, Member ''peers'' CPtr,
     Member ''fqdir'' CPtr, Member ''fib6_null_entry'' CPtr, Member ''ip6_null_entry'' CPtr,
     Member ''rt6_stats'' CPtr, Member ''ip6_fib_timer'' struct_timer_list,
     Member ''fib_table_hash'' CPtr, Member ''fib6_main_tbl'' CPtr,
     Member ''fib6_walkers'' struct_list_head, Member ''fib6_walker_lock'' type_rwlock_t,
     Member ''fib6_gc_lock'' struct_spinlock, Member ''ip6_rt_gc_expire'' type_atomic_t,
     Member ''ip6_rt_last_gc'' (CInt 8), Member ''flowlabel_has_excl'' (CInt 1),
     Member ''fib6_has_custom_rules'' (CInt 1), Member ''fib6_rules_require_fldissect'' (CInt 4),
     Member ''fib6_routes_require_src'' (CInt 4), Member ''ip6_prohibit_entry'' CPtr,
     Member ''ip6_blk_hole_entry'' CPtr, Member ''fib6_local_tbl'' CPtr,
     Member ''fib6_rules_ops'' CPtr, Member ''ndisc_sk'' CPtr, Member ''tcp_sk'' CPtr,
     Member ''igmp_sk'' CPtr, Member ''mc_autojoin_sk'' CPtr, Member ''inet6_addr_lst'' CPtr,
     Member ''addrconf_hash_lock'' struct_spinlock, Member ''addr_chk_work'' struct_delayed_work,
     Member ''mr6_tables'' struct_list_head, Member ''mr6_rules_ops'' CPtr,
     Member ''dev_addr_genid'' type_atomic_t, Member ''fib6_sernum'' type_atomic_t,
     Member ''seg6_data'' CPtr, Member ''notifier_ops'' CPtr, Member ''ip6mr_notifier_ops'' CPtr,
     Member ''ipmr_seq'' (CInt 4), Member ''ip6addrlbl_table'' (CStruct [
       Member ''head'' struct_hlist_head, Member ''lock'' struct_spinlock,
       Member ''seq'' (CInt 4)]), Member ''ioam6_data'' CPtr, Bits '''' 8 64, Bits '''' 8 64,
     Bits '''' 8 64, Bits '''' 8 64]"

lemma layout_struct_netns_ipv6 [simp]: "cwf struct_netns_ipv6" "calign struct_netns_ipv6 = 8" "csize struct_netns_ipv6 = 832"
  by (simp_all add: struct_netns_ipv6_def place_def align_up_def)

definition struct_netns_sysctl_lowpan :: ctype where
  "struct_netns_sysctl_lowpan = CStruct [
     Member ''frags_hdr'' CPtr]"

lemma layout_struct_netns_sysctl_lowpan [simp]: "cwf struct_netns_sysctl_lowpan" "calign struct_netns_sysctl_lowpan = 8" "csize struct_netns_sysctl_lowpan = 8"
  by (simp_all add: struct_netns_sysctl_lowpan_def place_def align_up_def)

definition struct_netns_ieee802154_lowpan :: ctype where
  "struct_netns_ieee802154_lowpan = CStruct [
     Member ''sysctl'' struct_netns_sysctl_lowpan, Member ''fqdir'' CPtr]"

lemma layout_struct_netns_ieee802154_lowpan [simp]: "cwf struct_netns_ieee802154_lowpan" "calign struct_netns_ieee802154_lowpan = 8" "csize struct_netns_ieee802154_lowpan = 16"
  by (simp_all add: struct_netns_ieee802154_lowpan_def place_def align_up_def)

definition struct_netns_sctp :: ctype where
  "struct_netns_sctp = CStruct [
     Member ''sctp_statistics'' CPtr, Member ''proc_net_sctp'' CPtr,
     Member ''sysctl_header'' CPtr, Member ''ctl_sock'' CPtr, Member ''udp4_sock'' CPtr,
     Member ''udp6_sock'' CPtr, Member ''udp_port'' (CInt 4), Member ''encap_port'' (CInt 4),
     Member ''local_addr_list'' struct_list_head, Member ''addr_waitq'' struct_list_head,
     Member ''addr_wq_timer'' struct_timer_list, Member ''auto_asconf_splist'' struct_list_head,
     Member ''addr_wq_lock'' struct_spinlock, Member ''local_addr_lock'' struct_spinlock,
     Member ''rto_initial'' (CInt 4), Member ''rto_min'' (CInt 4), Member ''rto_max'' (CInt 4),
     Member ''rto_alpha'' (CInt 4), Member ''rto_beta'' (CInt 4), Member ''max_burst'' (CInt 4),
     Member ''cookie_preserve_enable'' (CInt 4), Member ''sctp_hmac_alg'' CPtr,
     Member ''valid_cookie_life'' (CInt 4), Member ''sack_timeout'' (CInt 4),
     Member ''hb_interval'' (CInt 4), Member ''probe_interval'' (CInt 4),
     Member ''max_retrans_association'' (CInt 4), Member ''max_retrans_path'' (CInt 4),
     Member ''max_retrans_init'' (CInt 4), Member ''pf_retrans'' (CInt 4),
     Member ''ps_retrans'' (CInt 4), Member ''pf_enable'' (CInt 4),
     Member ''pf_expose'' (CInt 4), Member ''sndbuf_policy'' (CInt 4),
     Member ''rcvbuf_policy'' (CInt 4), Member ''default_auto_asconf'' (CInt 4),
     Member ''addip_enable'' (CInt 4), Member ''addip_noauth'' (CInt 4),
     Member ''prsctp_enable'' (CInt 4), Member ''reconf_enable'' (CInt 4),
     Member ''auth_enable'' (CInt 4), Member ''intl_enable'' (CInt 4),
     Member ''ecn_enable'' (CInt 4), Member ''scope_policy'' (CInt 4),
     Member ''rwnd_upd_shift'' (CInt 4), Member ''max_autoclose'' (CInt 8),
     Member ''l3mdev_accept'' (CInt 4)]"

lemma layout_struct_netns_sctp [simp]: "cwf struct_netns_sctp" "calign struct_netns_sctp = 8" "csize struct_netns_sctp = 304"
  by (simp_all add: struct_netns_sctp_def place_def align_up_def)

definition struct_netns_nf :: ctype where
  "struct_netns_nf = CStruct [
     Member ''proc_netfilter'' CPtr, Member ''nf_loggers'' (CArray CPtr 11),
     Member ''nf_log_dir_header'' CPtr, Member ''nf_lwtnl_dir_header'' CPtr,
     Member ''hooks_ipv4'' (CArray CPtr 5), Member ''hooks_ipv6'' (CArray CPtr 5),
     Member ''hooks_arp'' (CArray CPtr 3), Member ''hooks_bridge'' (CArray CPtr 5),
     Member ''defrag_ipv4_users'' (CInt 4), Member ''defrag_ipv6_users'' (CInt 4)]"

lemma layout_struct_netns_nf [simp]: "cwf struct_netns_nf" "calign struct_netns_nf = 8" "csize struct_netns_nf = 264"
  by (simp_all add: struct_netns_nf_def place_def align_up_def)

definition struct_nf_generic_net :: ctype where
  "struct_nf_generic_net = CStruct [
     Member ''timeout'' (CInt 4)]"

lemma layout_struct_nf_generic_net [simp]: "cwf struct_nf_generic_net" "calign struct_nf_generic_net = 4" "csize struct_nf_generic_net = 4"
  by (simp_all add: struct_nf_generic_net_def place_def align_up_def)

definition struct_nf_tcp_net :: ctype where
  "struct_nf_tcp_net = CStruct [
     Member ''timeouts'' (CArray (CInt 4) 14), Member ''tcp_loose'' (CInt 1),
     Member ''tcp_be_liberal'' (CInt 1), Member ''tcp_max_retrans'' (CInt 1),
     Member ''tcp_ignore_invalid_rst'' (CInt 1), Member ''offload_timeout'' (CInt 4)]"

lemma layout_struct_nf_tcp_net [simp]: "cwf struct_nf_tcp_net" "calign struct_nf_tcp_net = 4" "csize struct_nf_tcp_net = 64"
  by (simp_all add: struct_nf_tcp_net_def place_def align_up_def)

definition struct_nf_udp_net :: ctype where
  "struct_nf_udp_net = CStruct [
     Member ''timeouts'' (CArray (CInt 4) 2), Member ''offload_timeout'' (CInt 4)]"

lemma layout_struct_nf_udp_net [simp]: "cwf struct_nf_udp_net" "calign struct_nf_udp_net = 4" "csize struct_nf_udp_net = 12"
  by (simp_all add: struct_nf_udp_net_def place_def align_up_def)

definition struct_nf_icmp_net :: ctype where
  "struct_nf_icmp_net = CStruct [
     Member ''timeout'' (CInt 4)]"

lemma layout_struct_nf_icmp_net [simp]: "cwf struct_nf_icmp_net" "calign struct_nf_icmp_net = 4" "csize struct_nf_icmp_net = 4"
  by (simp_all add: struct_nf_icmp_net_def place_def align_up_def)

definition struct_nf_dccp_net :: ctype where
  "struct_nf_dccp_net = CStruct [
     Member ''dccp_loose'' (CInt 1), Member ''dccp_timeout'' (CArray (CInt 4) 10)]"

lemma layout_struct_nf_dccp_net [simp]: "cwf struct_nf_dccp_net" "calign struct_nf_dccp_net = 4" "csize struct_nf_dccp_net = 44"
  by (simp_all add: struct_nf_dccp_net_def place_def align_up_def)

definition struct_nf_sctp_net :: ctype where
  "struct_nf_sctp_net = CStruct [
     Member ''timeouts'' (CArray (CInt 4) 10)]"

lemma layout_struct_nf_sctp_net [simp]: "cwf struct_nf_sctp_net" "calign struct_nf_sctp_net = 4" "csize struct_nf_sctp_net = 40"
  by (simp_all add: struct_nf_sctp_net_def place_def align_up_def)

definition struct_nf_gre_net :: ctype where
  "struct_nf_gre_net = CStruct [
     Member ''keymap_list'' struct_list_head, Member ''timeouts'' (CArray (CInt 4) 2)]"

lemma layout_struct_nf_gre_net [simp]: "cwf struct_nf_gre_net" "calign struct_nf_gre_net = 8" "csize struct_nf_gre_net = 24"
  by (simp_all add: struct_nf_gre_net_def place_def align_up_def)

definition struct_nf_ip_net :: ctype where
  "struct_nf_ip_net = CStruct [
     Member ''generic'' struct_nf_generic_net, Member ''tcp'' struct_nf_tcp_net,
     Member ''udp'' struct_nf_udp_net, Member ''icmp'' struct_nf_icmp_net,
     Member ''icmpv6'' struct_nf_icmp_net, Member ''dccp'' struct_nf_dccp_net,
     Member ''sctp'' struct_nf_sctp_net, Member ''gre'' struct_nf_gre_net]"

lemma layout_struct_nf_ip_net [simp]: "cwf struct_nf_ip_net" "calign struct_nf_ip_net = 8" "csize struct_nf_ip_net = 200"
  by (simp_all add: struct_nf_ip_net_def place_def align_up_def)

definition struct_netns_ct :: ctype where
  "struct_netns_ct = CStruct [
     Member ''ecache_dwork_pending'' (CInt 1), Member ''sysctl_log_invalid'' (CInt 1),
     Member ''sysctl_events'' (CInt 1), Member ''sysctl_acct'' (CInt 1),
     Member ''sysctl_tstamp'' (CInt 1), Member ''sysctl_checksum'' (CInt 1),
     Member ''stat'' CPtr, Member ''nf_conntrack_event_cb'' CPtr,
     Member ''nf_ct_proto'' struct_nf_ip_net, Member ''labels_used'' type_atomic_t]"

lemma layout_struct_netns_ct [simp]: "cwf struct_netns_ct" "calign struct_netns_ct = 8" "csize struct_netns_ct = 232"
  by (simp_all add: struct_netns_ct_def place_def align_up_def)

definition struct_netns_nftables :: ctype where
  "struct_netns_nftables = CStruct [
     Member ''gencursor'' (CInt 1)]"

lemma layout_struct_netns_nftables [simp]: "cwf struct_netns_nftables" "calign struct_netns_nftables = 1" "csize struct_netns_nftables = 1"
  by (simp_all add: struct_netns_nftables_def place_def align_up_def)

definition struct_netns_ft :: ctype where
  "struct_netns_ft = CStruct [
     Member ''stat'' CPtr]"

lemma layout_struct_netns_ft [simp]: "cwf struct_netns_ft" "calign struct_netns_ft = 8" "csize struct_netns_ft = 8"
  by (simp_all add: struct_netns_ft_def place_def align_up_def)

definition struct_netns_bpf :: ctype where
  "struct_netns_bpf = CStruct [
     Member ''run_array'' (CArray CPtr 2), Member ''progs'' (CArray CPtr 2),
     Member ''links'' (CArray struct_list_head 2)]"

lemma layout_struct_netns_bpf [simp]: "cwf struct_netns_bpf" "calign struct_netns_bpf = 8" "csize struct_netns_bpf = 64"
  by (simp_all add: struct_netns_bpf_def place_def align_up_def)

definition struct_xfrm_policy_hash :: ctype where
  "struct_xfrm_policy_hash = CStruct [
     Member ''table'' CPtr, Member ''hmask'' (CInt 4), Member ''dbits4'' (CInt 1),
     Member ''sbits4'' (CInt 1), Member ''dbits6'' (CInt 1), Member ''sbits6'' (CInt 1)]"

lemma layout_struct_xfrm_policy_hash [simp]: "cwf struct_xfrm_policy_hash" "calign struct_xfrm_policy_hash = 8" "csize struct_xfrm_policy_hash = 16"
  by (simp_all add: struct_xfrm_policy_hash_def place_def align_up_def)

definition struct_xfrm_policy_hthresh :: ctype where
  "struct_xfrm_policy_hthresh = CStruct [
     Member ''work'' struct_work_struct, Member ''lock'' type_seqlock_t,
     Member ''lbits4'' (CInt 1), Member ''rbits4'' (CInt 1), Member ''lbits6'' (CInt 1),
     Member ''rbits6'' (CInt 1)]"

lemma layout_struct_xfrm_policy_hthresh [simp]: "cwf struct_xfrm_policy_hthresh" "calign struct_xfrm_policy_hthresh = 8" "csize struct_xfrm_policy_hthresh = 48"
  by (simp_all add: struct_xfrm_policy_hthresh_def place_def align_up_def)

definition struct_netns_xfrm :: ctype where
  "struct_netns_xfrm = CStruct [
     Member ''state_all'' struct_list_head, Member ''state_bydst'' CPtr,
     Member ''state_bysrc'' CPtr, Member ''state_byspi'' CPtr, Member ''state_byseq'' CPtr,
     Member ''state_hmask'' (CInt 4), Member ''state_num'' (CInt 4),
     Member ''state_hash_work'' struct_work_struct, Member ''policy_all'' struct_list_head,
     Member ''policy_byidx'' CPtr, Member ''policy_idx_hmask'' (CInt 4),
     Member ''idx_generator'' (CInt 4), Member ''policy_inexact'' (CArray struct_hlist_head 3),
     Member ''policy_bydst'' (CArray struct_xfrm_policy_hash 3),
     Member ''policy_count'' (CArray (CInt 4) 6), Member ''policy_hash_work'' struct_work_struct,
     Member ''policy_hthresh'' struct_xfrm_policy_hthresh,
     Member ''inexact_bins'' struct_list_head, Member ''nlsk'' CPtr, Member ''nlsk_stash'' CPtr,
     Member ''sysctl_aevent_etime'' (CInt 4), Member ''sysctl_aevent_rseqth'' (CInt 4),
     Member ''sysctl_larval_drop'' (CInt 4), Member ''sysctl_acq_expires'' (CInt 4),
     Member ''policy_default'' (CArray (CInt 1) 3), Member ''sysctl_hdr'' CPtr, Bits '''' 8 64,
     Bits '''' 8 64, Bits '''' 8 64, Member ''xfrm4_dst_ops'' struct_dst_ops,
     Member ''xfrm6_dst_ops'' struct_dst_ops, Member ''xfrm_state_lock'' struct_spinlock,
     Member ''xfrm_state_hash_generation'' struct_seqcount_spinlock,
     Member ''xfrm_policy_hash_generation'' struct_seqcount_spinlock,
     Member ''xfrm_policy_lock'' struct_spinlock, Member ''xfrm_cfg_mutex'' struct_mutex,
     Member ''nat_keepalive_work'' struct_delayed_work, Bits '''' 8 64, Bits '''' 8 64,
     Bits '''' 8 64, Bits '''' 8 64, Bits '''' 8 64, Bits '''' 8 64, Bits '''' 8 64]"

lemma layout_struct_netns_xfrm [simp]: "cwf struct_netns_xfrm" "calign struct_netns_xfrm = 8" "csize struct_netns_xfrm = 960"
  by (simp_all add: struct_netns_xfrm_def place_def align_up_def)

definition struct_netns_mpls :: ctype where
  "struct_netns_mpls = CStruct [
     Member ''ip_ttl_propagate'' (CInt 4), Member ''default_ttl'' (CInt 4),
     Member ''platform_labels'' (CInt 8), Member ''platform_label'' CPtr, Member ''ctl'' CPtr]"

lemma layout_struct_netns_mpls [simp]: "cwf struct_netns_mpls" "calign struct_netns_mpls = 8" "csize struct_netns_mpls = 32"
  by (simp_all add: struct_netns_mpls_def place_def align_up_def)

definition struct_netns_can :: ctype where
  "struct_netns_can = CStruct [
     Member ''proc_dir'' CPtr, Member ''pde_stats'' CPtr, Member ''pde_reset_stats'' CPtr,
     Member ''pde_rcvlist_all'' CPtr, Member ''pde_rcvlist_fil'' CPtr,
     Member ''pde_rcvlist_inv'' CPtr, Member ''pde_rcvlist_sff'' CPtr,
     Member ''pde_rcvlist_eff'' CPtr, Member ''pde_rcvlist_err'' CPtr,
     Member ''bcmproc_dir'' CPtr, Member ''rx_alldev_list'' CPtr,
     Member ''rcvlists_lock'' struct_spinlock, Member ''stattimer'' struct_timer_list,
     Member ''pkg_stats'' CPtr, Member ''rcv_lists_stats'' CPtr,
     Member ''cgw_list'' struct_hlist_head]"

lemma layout_struct_netns_can [simp]: "cwf struct_netns_can" "calign struct_netns_can = 8" "csize struct_netns_can = 160"
  by (simp_all add: struct_netns_can_def place_def align_up_def)

definition struct_netns_xdp :: ctype where
  "struct_netns_xdp = CStruct [
     Member ''lock'' struct_mutex, Member ''list'' struct_hlist_head]"

lemma layout_struct_netns_xdp [simp]: "cwf struct_netns_xdp" "calign struct_netns_xdp = 8" "csize struct_netns_xdp = 40"
  by (simp_all add: struct_netns_xdp_def place_def align_up_def)

definition struct_netns_smc :: ctype where
  "struct_netns_smc = CStruct [
     Member ''smc_stats'' CPtr, Member ''mutex_fback_rsn'' struct_mutex,
     Member ''fback_rsn'' CPtr, Member ''limit_smc_hs'' (CInt 1), Member ''smc_hdr'' CPtr,
     Member ''sysctl_autocorking_size'' (CInt 4), Member ''sysctl_smcr_buf_type'' (CInt 4),
     Member ''sysctl_smcr_testlink_time'' (CInt 4), Member ''sysctl_wmem'' (CInt 4),
     Member ''sysctl_rmem'' (CInt 4), Member ''sysctl_max_links_per_lgr'' (CInt 4),
     Member ''sysctl_max_conns_per_lgr'' (CInt 4)]"

lemma layout_struct_netns_smc [simp]: "cwf struct_netns_smc" "calign struct_netns_smc = 8" "csize struct_netns_smc = 96"
  by (simp_all add: struct_netns_smc_def place_def align_up_def)

definition struct_net :: ctype where
  "struct_net = CStruct [
     Member ''passive'' struct_refcount_struct, Member ''rules_mod_lock'' struct_spinlock,
     Member ''dev_base_seq'' (CInt 4), Member ''ifindex'' (CInt 4),
     Member ''nsid_lock'' struct_spinlock, Member ''fnhe_genid'' type_atomic_t,
     Member ''list'' struct_list_head, Member ''exit_list'' struct_list_head,
     Member ''cleanup_list'' struct_llist_node, Member ''key_domain'' CPtr,
     Member ''user_ns'' CPtr, Member ''ucounts'' CPtr, Member ''netns_ids'' struct_idr,
     Member ''ns'' struct_ns_common, Member ''refcnt_tracker'' struct_ref_tracker_dir,
     Member ''notrefcnt_tracker'' struct_ref_tracker_dir,
     Member ''dev_base_head'' struct_list_head, Member ''proc_net'' CPtr,
     Member ''proc_net_stat'' CPtr, Member ''sysctls'' struct_ctl_table_set,
     Member ''rtnl'' CPtr, Member ''genl_sock'' CPtr, Member ''uevent_sock'' CPtr,
     Member ''dev_name_head'' CPtr, Member ''dev_index_head'' CPtr,
     Member ''dev_by_index'' struct_xarray, Member ''netdev_chain'' struct_raw_notifier_head,
     Member ''hash_mix'' (CInt 4), Member ''loopback_dev'' CPtr,
     Member ''rules_ops'' struct_list_head, Member ''core'' struct_netns_core,
     Member ''mib'' struct_netns_mib, Member ''packet'' struct_netns_packet,
     Member ''unx'' struct_netns_unix, Member ''nexthop'' struct_netns_nexthop, Bits '''' 8 64,
     Bits '''' 8 64, Bits '''' 8 64, Bits '''' 8 64, Member ''ipv4'' struct_netns_ipv4,
     Member ''ipv6'' struct_netns_ipv6,
     Member ''ieee802154_lowpan'' struct_netns_ieee802154_lowpan,
     Member ''sctp'' struct_netns_sctp, Member ''nf'' struct_netns_nf,
     Member ''ct'' struct_netns_ct, Member ''nft'' struct_netns_nftables,
     Member ''ft'' struct_netns_ft, Member ''wext_nlevents'' struct_sk_buff_head,
     Member ''gen'' CPtr, Member ''bpf'' struct_netns_bpf, Bits '''' 8 64, Bits '''' 8 64,
     Bits '''' 8 64, Bits '''' 8 64, Member ''xfrm'' struct_netns_xfrm,
     Member ''net_cookie'' (CInt 8), Member ''ipvs'' CPtr, Member ''mpls'' struct_netns_mpls,
     Member ''can'' struct_netns_can, Member ''xdp'' struct_netns_xdp,
     Member ''crypto_nlsk'' CPtr, Member ''diag_nlsk'' CPtr, Member ''smc'' struct_netns_smc,
     Bits '''' 8 64, Bits '''' 8 64, Bits '''' 8 64]"

lemma layout_struct_net [simp]: "cwf struct_net" "calign struct_net = 8" "csize struct_net = 4608"
  by (simp_all add: struct_net_def place_def align_up_def)

definition struct_nf_hook_entry :: ctype where
  "struct_nf_hook_entry = CStruct [
     Member ''hook'' CPtr, Member ''priv'' CPtr]"

lemma layout_struct_nf_hook_entry [simp]: "cwf struct_nf_hook_entry" "calign struct_nf_hook_entry = 8" "csize struct_nf_hook_entry = 16"
  by (simp_all add: struct_nf_hook_entry_def place_def align_up_def)

definition struct_nf_hook_entries :: ctype where
  "struct_nf_hook_entries = CStruct [
     Member ''num_hook_entries'' (CInt 2), Member ''hooks'' (CArray struct_nf_hook_entry 0)]"

lemma layout_struct_nf_hook_entries [simp]: "cwf struct_nf_hook_entries" "calign struct_nf_hook_entries = 8" "csize struct_nf_hook_entries = 8"
  by (simp_all add: struct_nf_hook_entries_def place_def align_up_def)

definition struct_nf_conntrack :: ctype where
  "struct_nf_conntrack = CStruct [
     Member ''use'' struct_refcount_struct]"

lemma layout_struct_nf_conntrack [simp]: "cwf struct_nf_conntrack" "calign struct_nf_conntrack = 4" "csize struct_nf_conntrack = 4"
  by (simp_all add: struct_nf_conntrack_def place_def align_up_def)

definition struct_nf_conntrack_zone :: ctype where
  "struct_nf_conntrack_zone = CStruct [
     Member ''id'' (CInt 2), Member ''flags'' (CInt 1), Member ''dir'' (CInt 1)]"

lemma layout_struct_nf_conntrack_zone [simp]: "cwf struct_nf_conntrack_zone" "calign struct_nf_conntrack_zone = 2" "csize struct_nf_conntrack_zone = 4"
  by (simp_all add: struct_nf_conntrack_zone_def place_def align_up_def)

definition struct_in_addr :: ctype where
  "struct_in_addr = CStruct [
     Member ''s_addr'' (CInt 4)]"

lemma layout_struct_in_addr [simp]: "cwf struct_in_addr" "calign struct_in_addr = 4" "csize struct_in_addr = 4"
  by (simp_all add: struct_in_addr_def place_def align_up_def)

definition union_nf_inet_addr :: ctype where
  "union_nf_inet_addr = CUnion [
     Member ''all'' (CArray (CInt 4) 4), Member ''ip'' (CInt 4),
     Member ''ip6'' (CArray (CInt 4) 4), Member ''in'' struct_in_addr,
     Member ''in6'' struct_in6_addr]"

lemma layout_union_nf_inet_addr [simp]: "cwf union_nf_inet_addr" "calign union_nf_inet_addr = 4" "csize union_nf_inet_addr = 16"
  by (simp_all add: union_nf_inet_addr_def place_def align_up_def)

definition union_nf_conntrack_man_proto :: ctype where
  "union_nf_conntrack_man_proto = CUnion [
     Member ''all'' (CInt 2), Member ''tcp'' (CStruct [
       Member ''port'' (CInt 2)]), Member ''udp'' (CStruct [
       Member ''port'' (CInt 2)]), Member ''icmp'' (CStruct [
       Member ''id'' (CInt 2)]), Member ''dccp'' (CStruct [
       Member ''port'' (CInt 2)]), Member ''sctp'' (CStruct [
       Member ''port'' (CInt 2)]), Member ''gre'' (CStruct [
       Member ''key'' (CInt 2)])]"

lemma layout_union_nf_conntrack_man_proto [simp]: "cwf union_nf_conntrack_man_proto" "calign union_nf_conntrack_man_proto = 2" "csize union_nf_conntrack_man_proto = 2"
  by (simp_all add: union_nf_conntrack_man_proto_def place_def align_up_def)

definition struct_nf_conntrack_man :: ctype where
  "struct_nf_conntrack_man = CStruct [
     Member ''u3'' union_nf_inet_addr, Member ''u'' union_nf_conntrack_man_proto,
     Member ''l3num'' (CInt 2)]"

lemma layout_struct_nf_conntrack_man [simp]: "cwf struct_nf_conntrack_man" "calign struct_nf_conntrack_man = 4" "csize struct_nf_conntrack_man = 20"
  by (simp_all add: struct_nf_conntrack_man_def place_def align_up_def)

definition struct_nf_conntrack_tuple :: ctype where
  "struct_nf_conntrack_tuple = CStruct [
     Member ''src'' struct_nf_conntrack_man, Member ''dst'' (CStruct [
       Member ''u3'' union_nf_inet_addr, Member ''u'' (CUnion [
         Member ''all'' (CInt 2), Member ''tcp'' (CStruct [
           Member ''port'' (CInt 2)]), Member ''udp'' (CStruct [
           Member ''port'' (CInt 2)]), Member ''icmp'' (CStruct [
           Member ''type'' (CInt 1), Member ''code'' (CInt 1)]), Member ''dccp'' (CStruct [
           Member ''port'' (CInt 2)]), Member ''sctp'' (CStruct [
           Member ''port'' (CInt 2)]), Member ''gre'' (CStruct [
           Member ''key'' (CInt 2)])]), Member ''protonum'' (CInt 1),
       Member ''__nfct_hash_offsetend'' (CStruct []), Member ''dir'' (CInt 1)])]"

lemma layout_struct_nf_conntrack_tuple [simp]: "cwf struct_nf_conntrack_tuple" "calign struct_nf_conntrack_tuple = 4" "csize struct_nf_conntrack_tuple = 40"
  by (simp_all add: struct_nf_conntrack_tuple_def place_def align_up_def)

definition struct_nf_conntrack_tuple_hash :: ctype where
  "struct_nf_conntrack_tuple_hash = CStruct [
     Member ''hnnode'' struct_hlist_nulls_node, Member ''tuple'' struct_nf_conntrack_tuple]"

lemma layout_struct_nf_conntrack_tuple_hash [simp]: "cwf struct_nf_conntrack_tuple_hash" "calign struct_nf_conntrack_tuple_hash = 8" "csize struct_nf_conntrack_tuple_hash = 56"
  by (simp_all add: struct_nf_conntrack_tuple_hash_def place_def align_up_def)

definition struct_nf_ct_dccp :: ctype where
  "struct_nf_ct_dccp = CStruct [
     Member ''role'' (CArray (CInt 1) 2), Member ''state'' (CInt 1),
     Member ''last_pkt'' (CInt 1), Member ''last_dir'' (CInt 1),
     Member ''handshake_seq'' (CInt 8)]"

lemma layout_struct_nf_ct_dccp [simp]: "cwf struct_nf_ct_dccp" "calign struct_nf_ct_dccp = 8" "csize struct_nf_ct_dccp = 16"
  by (simp_all add: struct_nf_ct_dccp_def place_def align_up_def)

definition struct_ip_ct_sctp :: ctype where
  "struct_ip_ct_sctp = CStruct [
     Member ''state'' (CInt 4), Member ''vtag'' (CArray (CInt 4) 2),
     Member ''init'' (CArray (CInt 1) 2), Member ''last_dir'' (CInt 1), Member ''flags'' (CInt 1)]"

lemma layout_struct_ip_ct_sctp [simp]: "cwf struct_ip_ct_sctp" "calign struct_ip_ct_sctp = 4" "csize struct_ip_ct_sctp = 16"
  by (simp_all add: struct_ip_ct_sctp_def place_def align_up_def)

definition struct_ip_ct_tcp_state :: ctype where
  "struct_ip_ct_tcp_state = CStruct [
     Member ''td_end'' (CInt 4), Member ''td_maxend'' (CInt 4), Member ''td_maxwin'' (CInt 4),
     Member ''td_maxack'' (CInt 4), Member ''td_scale'' (CInt 1), Member ''flags'' (CInt 1)]"

lemma layout_struct_ip_ct_tcp_state [simp]: "cwf struct_ip_ct_tcp_state" "calign struct_ip_ct_tcp_state = 4" "csize struct_ip_ct_tcp_state = 20"
  by (simp_all add: struct_ip_ct_tcp_state_def place_def align_up_def)

definition struct_ip_ct_tcp :: ctype where
  "struct_ip_ct_tcp = CStruct [
     Member ''seen'' (CArray struct_ip_ct_tcp_state 2), Member ''state'' (CInt 1),
     Member ''last_dir'' (CInt 1), Member ''retrans'' (CInt 1), Member ''last_index'' (CInt 1),
     Member ''last_seq'' (CInt 4), Member ''last_ack'' (CInt 4), Member ''last_end'' (CInt 4),
     Member ''last_win'' (CInt 2), Member ''last_wscale'' (CInt 1),
     Member ''last_flags'' (CInt 1)]"

lemma layout_struct_ip_ct_tcp [simp]: "cwf struct_ip_ct_tcp" "calign struct_ip_ct_tcp = 4" "csize struct_ip_ct_tcp = 60"
  by (simp_all add: struct_ip_ct_tcp_def place_def align_up_def)

definition struct_nf_ct_udp :: ctype where
  "struct_nf_ct_udp = CStruct [
     Member ''stream_ts'' (CInt 8)]"

lemma layout_struct_nf_ct_udp [simp]: "cwf struct_nf_ct_udp" "calign struct_nf_ct_udp = 8" "csize struct_nf_ct_udp = 8"
  by (simp_all add: struct_nf_ct_udp_def place_def align_up_def)

definition struct_nf_ct_gre :: ctype where
  "struct_nf_ct_gre = CStruct [
     Member ''stream_timeout'' (CInt 4), Member ''timeout'' (CInt 4)]"

lemma layout_struct_nf_ct_gre [simp]: "cwf struct_nf_ct_gre" "calign struct_nf_ct_gre = 4" "csize struct_nf_ct_gre = 8"
  by (simp_all add: struct_nf_ct_gre_def place_def align_up_def)

definition union_nf_conntrack_proto :: ctype where
  "union_nf_conntrack_proto = CUnion [
     Member ''dccp'' struct_nf_ct_dccp, Member ''sctp'' struct_ip_ct_sctp,
     Member ''tcp'' struct_ip_ct_tcp, Member ''udp'' struct_nf_ct_udp,
     Member ''gre'' struct_nf_ct_gre, Member ''tmpl_padto'' (CInt 4)]"

lemma layout_union_nf_conntrack_proto [simp]: "cwf union_nf_conntrack_proto" "calign union_nf_conntrack_proto = 8" "csize union_nf_conntrack_proto = 64"
  by (simp_all add: union_nf_conntrack_proto_def place_def align_up_def)

definition struct_nf_conn :: ctype where
  "struct_nf_conn = CStruct [
     Member ''ct_general'' struct_nf_conntrack, Member ''lock'' struct_spinlock,
     Member ''timeout'' (CInt 4), Member ''zone'' struct_nf_conntrack_zone,
     Member ''tuplehash'' (CArray struct_nf_conntrack_tuple_hash 2), Member ''status'' (CInt 8),
     Member ''ct_net'' type_possible_net_t, Member ''nat_bysource'' struct_hlist_node,
     Member ''__nfct_init_offset'' (CStruct []), Member ''master'' CPtr,
     Member ''mark'' (CInt 4), Member ''secmark'' (CInt 4), Member ''ext'' CPtr,
     Member ''proto'' union_nf_conntrack_proto]"

lemma layout_struct_nf_conn [simp]: "cwf struct_nf_conn" "calign struct_nf_conn = 8" "csize struct_nf_conn = 248"
  by (simp_all add: struct_nf_conn_def place_def align_up_def)

definition struct_skb_ext :: ctype where
  "struct_skb_ext = CStruct [
     Member ''refcnt'' struct_refcount_struct, Member ''offset'' (CArray (CInt 1) 3),
     Member ''chunks'' (CInt 1), Member ''data'' (CArray (CInt 1) 0)]"

lemma layout_struct_skb_ext [simp]: "cwf struct_skb_ext" "calign struct_skb_ext = 4" "csize struct_skb_ext = 8"
  by (simp_all add: struct_skb_ext_def place_def align_up_def)

definition struct_skb_shared_hwtstamps :: ctype where
  "struct_skb_shared_hwtstamps = CStruct [
     Member '''' (CUnion [
       Member ''hwtstamp'' (CInt 8), Member ''netdev_data'' CPtr])]"

lemma layout_struct_skb_shared_hwtstamps [simp]: "cwf struct_skb_shared_hwtstamps" "calign struct_skb_shared_hwtstamps = 8" "csize struct_skb_shared_hwtstamps = 8"
  by (simp_all add: struct_skb_shared_hwtstamps_def place_def align_up_def)

definition struct_xsk_tx_metadata_compl :: ctype where
  "struct_xsk_tx_metadata_compl = CStruct [
     Member ''tx_timestamp'' CPtr]"

lemma layout_struct_xsk_tx_metadata_compl [simp]: "cwf struct_xsk_tx_metadata_compl" "calign struct_xsk_tx_metadata_compl = 8" "csize struct_xsk_tx_metadata_compl = 8"
  by (simp_all add: struct_xsk_tx_metadata_compl_def place_def align_up_def)

definition struct_skb_frag :: ctype where
  "struct_skb_frag = CStruct [
     Member ''netmem'' (CInt 8), Member ''len'' (CInt 4), Member ''offset'' (CInt 4)]"

lemma layout_struct_skb_frag [simp]: "cwf struct_skb_frag" "calign struct_skb_frag = 8" "csize struct_skb_frag = 16"
  by (simp_all add: struct_skb_frag_def place_def align_up_def)

definition struct_skb_shared_info :: ctype where
  "struct_skb_shared_info = CStruct [
     Member ''flags'' (CInt 1), Member ''meta_len'' (CInt 1), Member ''nr_frags'' (CInt 1),
     Member ''tx_flags'' (CInt 1), Member ''gso_size'' (CInt 2), Member ''gso_segs'' (CInt 2),
     Member ''frag_list'' CPtr, Member '''' (CUnion [
       Member ''hwtstamps'' struct_skb_shared_hwtstamps,
       Member ''xsk_meta'' struct_xsk_tx_metadata_compl]), Member ''gso_type'' (CInt 4),
     Member ''tskey'' (CInt 4), Member ''dataref'' type_atomic_t,
     Member ''xdp_frags_size'' (CInt 4), Member ''destructor_arg'' CPtr,
     Member ''frags'' (CArray struct_skb_frag 17)]"

lemma layout_struct_skb_shared_info [simp]: "cwf struct_skb_shared_info" "calign struct_skb_shared_info = 8" "csize struct_skb_shared_info = 320"
  by (simp_all add: struct_skb_shared_info_def place_def align_up_def)

text \<open>Every structure of this theory, by name.\<close>

definition netns_types :: "(string \<times> ctype) list" where
  "netns_types = [
     (''struct_xarray'', struct_xarray), (''struct_idr'', struct_idr),
     (''struct_ns_common'', struct_ns_common),
     (''struct_ctl_table_header'', struct_ctl_table_header),
     (''struct_ctl_dir'', struct_ctl_dir), (''struct_ctl_table_set'', struct_ctl_table_set),
     (''struct_raw_notifier_head'', struct_raw_notifier_head),
     (''struct_netns_core'', struct_netns_core), (''struct_netns_mib'', struct_netns_mib),
     (''struct_netns_packet'', struct_netns_packet), (''struct_unix_table'', struct_unix_table),
     (''struct_netns_unix'', struct_netns_unix), (''struct_rw_semaphore'', struct_rw_semaphore),
     (''struct_blocking_notifier_head'', struct_blocking_notifier_head),
     (''struct_netns_nexthop'', struct_netns_nexthop),
     (''struct_inet_timewait_death_row'', struct_inet_timewait_death_row),
     (''struct_local_ports'', struct_local_ports), (''type_kgid_t'', type_kgid_t),
     (''struct_ping_group_range'', struct_ping_group_range),
     (''struct_sysctl_fib_multipath_hash_seed'', struct_sysctl_fib_multipath_hash_seed),
     (''type_siphash_key_t'', type_siphash_key_t), (''struct_netns_ipv4'', struct_netns_ipv4),
     (''struct_percpu_counter'', struct_percpu_counter), (''struct_dst_ops'', struct_dst_ops),
     (''struct_netns_sysctl_ipv6'', struct_netns_sysctl_ipv6),
     (''struct_delayed_work'', struct_delayed_work), (''struct_netns_ipv6'', struct_netns_ipv6),
     (''struct_netns_sysctl_lowpan'', struct_netns_sysctl_lowpan),
     (''struct_netns_ieee802154_lowpan'', struct_netns_ieee802154_lowpan),
     (''struct_netns_sctp'', struct_netns_sctp), (''struct_netns_nf'', struct_netns_nf),
     (''struct_nf_generic_net'', struct_nf_generic_net),
     (''struct_nf_tcp_net'', struct_nf_tcp_net), (''struct_nf_udp_net'', struct_nf_udp_net),
     (''struct_nf_icmp_net'', struct_nf_icmp_net), (''struct_nf_dccp_net'', struct_nf_dccp_net),
     (''struct_nf_sctp_net'', struct_nf_sctp_net), (''struct_nf_gre_net'', struct_nf_gre_net),
     (''struct_nf_ip_net'', struct_nf_ip_net), (''struct_netns_ct'', struct_netns_ct),
     (''struct_netns_nftables'', struct_netns_nftables), (''struct_netns_ft'', struct_netns_ft),
     (''struct_netns_bpf'', struct_netns_bpf),
     (''struct_xfrm_policy_hash'', struct_xfrm_policy_hash),
     (''struct_xfrm_policy_hthresh'', struct_xfrm_policy_hthresh),
     (''struct_netns_xfrm'', struct_netns_xfrm), (''struct_netns_mpls'', struct_netns_mpls),
     (''struct_netns_can'', struct_netns_can), (''struct_netns_xdp'', struct_netns_xdp),
     (''struct_netns_smc'', struct_netns_smc), (''struct_net'', struct_net),
     (''struct_nf_hook_entry'', struct_nf_hook_entry),
     (''struct_nf_hook_entries'', struct_nf_hook_entries),
     (''struct_nf_conntrack'', struct_nf_conntrack),
     (''struct_nf_conntrack_zone'', struct_nf_conntrack_zone),
     (''struct_in_addr'', struct_in_addr), (''union_nf_inet_addr'', union_nf_inet_addr),
     (''union_nf_conntrack_man_proto'', union_nf_conntrack_man_proto),
     (''struct_nf_conntrack_man'', struct_nf_conntrack_man),
     (''struct_nf_conntrack_tuple'', struct_nf_conntrack_tuple),
     (''struct_nf_conntrack_tuple_hash'', struct_nf_conntrack_tuple_hash),
     (''struct_nf_ct_dccp'', struct_nf_ct_dccp), (''struct_ip_ct_sctp'', struct_ip_ct_sctp),
     (''struct_ip_ct_tcp_state'', struct_ip_ct_tcp_state),
     (''struct_ip_ct_tcp'', struct_ip_ct_tcp), (''struct_nf_ct_udp'', struct_nf_ct_udp),
     (''struct_nf_ct_gre'', struct_nf_ct_gre),
     (''union_nf_conntrack_proto'', union_nf_conntrack_proto),
     (''struct_nf_conn'', struct_nf_conn), (''struct_skb_ext'', struct_skb_ext),
     (''struct_skb_shared_hwtstamps'', struct_skb_shared_hwtstamps),
     (''struct_xsk_tx_metadata_compl'', struct_xsk_tx_metadata_compl),
     (''struct_skb_frag'', struct_skb_frag), (''struct_skb_shared_info'', struct_skb_shared_info)]"

lemma netns_types_wf: "list_all (\<lambda>(x, t). cwf t) netns_types"
  by (simp add: netns_types_def)

end
