(* ===== verification/Kernel_Bpf.thy ===== *)
theory Kernel_Bpf
  imports Kernel_Netns
begin

text \<open>
  The kernel's side of the objects that the agent creates (agent/vmlinux.h): the hash map and
  its elements, the program, the netfilter link, and the argument of the \<open>bpf\<close> system call.
\<close>

definition struct___sk_buff :: ctype where
  "struct___sk_buff = CStruct [
     Member ''len'' (CInt 4), Member ''pkt_type'' (CInt 4), Member ''mark'' (CInt 4),
     Member ''queue_mapping'' (CInt 4), Member ''protocol'' (CInt 4),
     Member ''vlan_present'' (CInt 4), Member ''vlan_tci'' (CInt 4),
     Member ''vlan_proto'' (CInt 4), Member ''priority'' (CInt 4),
     Member ''ingress_ifindex'' (CInt 4), Member ''ifindex'' (CInt 4),
     Member ''tc_index'' (CInt 4), Member ''cb'' (CArray (CInt 4) 5), Member ''hash'' (CInt 4),
     Member ''tc_classid'' (CInt 4), Member ''data'' (CInt 4), Member ''data_end'' (CInt 4),
     Member ''napi_id'' (CInt 4), Member ''family'' (CInt 4), Member ''remote_ip4'' (CInt 4),
     Member ''local_ip4'' (CInt 4), Member ''remote_ip6'' (CArray (CInt 4) 4),
     Member ''local_ip6'' (CArray (CInt 4) 4), Member ''remote_port'' (CInt 4),
     Member ''local_port'' (CInt 4), Member ''data_meta'' (CInt 4), Member '''' (CUnion [
       Member ''flow_keys'' CPtr]), Member ''tstamp'' (CInt 8), Member ''wire_len'' (CInt 4),
     Member ''gso_segs'' (CInt 4), Member '''' (CUnion [
       Member ''sk'' CPtr]), Member ''gso_size'' (CInt 4), Member ''tstamp_type'' (CInt 1),
     Member ''hwtstamp'' (CInt 8)]"

lemma layout_struct___sk_buff [simp]: "cwf struct___sk_buff" "calign struct___sk_buff = 8" "csize struct___sk_buff = 192"
  by (simp_all add: struct___sk_buff_def place_def align_up_def)

definition struct_bpf_dynptr :: ctype where
  "struct_bpf_dynptr = CStruct [
     Member ''__opaque'' (CArray (CInt 8) 2)]"

lemma layout_struct_bpf_dynptr [simp]: "cwf struct_bpf_dynptr" "calign struct_bpf_dynptr = 8" "csize struct_bpf_dynptr = 16"
  by (simp_all add: struct_bpf_dynptr_def place_def align_up_def)

definition struct_bpf_dynptr_kern :: ctype where
  "struct_bpf_dynptr_kern = CStruct [
     Member ''data'' CPtr, Member ''size'' (CInt 4), Member ''offset'' (CInt 4)]"

lemma layout_struct_bpf_dynptr_kern [simp]: "cwf struct_bpf_dynptr_kern" "calign struct_bpf_dynptr_kern = 8" "csize struct_bpf_dynptr_kern = 16"
  by (simp_all add: struct_bpf_dynptr_kern_def place_def align_up_def)

definition struct_bpf_insn :: ctype where
  "struct_bpf_insn = CStruct [
     Member ''code'' (CInt 1), Bits ''dst_reg'' 1 4, Bits ''src_reg'' 1 4,
     Member ''off'' (CInt 2), Member ''imm'' (CInt 4)]"

lemma layout_struct_bpf_insn [simp]: "cwf struct_bpf_insn" "calign struct_bpf_insn = 4" "csize struct_bpf_insn = 8"
  by (simp_all add: struct_bpf_insn_def place_def align_up_def)

definition struct_bpf_map :: ctype where
  "struct_bpf_map = CStruct [
     Member ''ops'' CPtr, Member ''inner_map_meta'' CPtr, Member ''security'' CPtr,
     Member ''map_type'' (CInt 4), Member ''key_size'' (CInt 4), Member ''value_size'' (CInt 4),
     Member ''max_entries'' (CInt 4), Member ''map_extra'' (CInt 8),
     Member ''map_flags'' (CInt 4), Member ''id'' (CInt 4), Member ''record'' CPtr,
     Member ''numa_node'' (CInt 4), Member ''btf_key_type_id'' (CInt 4),
     Member ''btf_value_type_id'' (CInt 4), Member ''btf_vmlinux_value_type_id'' (CInt 4),
     Member ''btf'' CPtr, Member ''objcg'' CPtr, Member ''name'' (CArray (CInt 1) 16),
     Member ''freeze_mutex'' struct_mutex, Member ''refcnt'' type_atomic64_t,
     Member ''usercnt'' type_atomic64_t, Member '''' (CUnion [
       Member ''work'' struct_work_struct, Member ''rcu'' struct_callback_head]),
     Member ''writecnt'' type_atomic64_t, Member ''owner'' (CStruct [
       Member ''attach_func_proto'' CPtr, Member ''lock'' struct_spinlock,
       Member ''type'' (CInt 4), Member ''jited'' (CInt 1), Member ''xdp_has_frags'' (CInt 1)]),
     Member ''bypass_spec_v1'' (CInt 1), Member ''frozen'' (CInt 1),
     Member ''free_after_mult_rcu_gp'' (CInt 1), Member ''free_after_rcu_gp'' (CInt 1),
     Member ''sleepable_refcnt'' type_atomic64_t, Member ''elem_count'' CPtr]"

lemma layout_struct_bpf_map [simp]: "cwf struct_bpf_map" "calign struct_bpf_map = 8" "csize struct_bpf_map = 248"
  by (simp_all add: struct_bpf_map_def place_def align_up_def)

definition struct_bpf_mem_alloc :: ctype where
  "struct_bpf_mem_alloc = CStruct [
     Member ''caches'' CPtr, Member ''cache'' CPtr, Member ''objcg'' CPtr,
     Member ''percpu'' (CInt 1), Member ''work'' struct_work_struct]"

lemma layout_struct_bpf_mem_alloc [simp]: "cwf struct_bpf_mem_alloc" "calign struct_bpf_mem_alloc = 8" "csize struct_bpf_mem_alloc = 64"
  by (simp_all add: struct_bpf_mem_alloc_def place_def align_up_def)

definition struct_pcpu_freelist_head :: ctype where
  "struct_pcpu_freelist_head = CStruct [
     Member ''first'' CPtr, Member ''lock'' struct_raw_spinlock]"

lemma layout_struct_pcpu_freelist_head [simp]: "cwf struct_pcpu_freelist_head" "calign struct_pcpu_freelist_head = 8" "csize struct_pcpu_freelist_head = 16"
  by (simp_all add: struct_pcpu_freelist_head_def place_def align_up_def)

definition struct_pcpu_freelist :: ctype where
  "struct_pcpu_freelist = CStruct [
     Member ''freelist'' CPtr, Member ''extralist'' struct_pcpu_freelist_head]"

lemma layout_struct_pcpu_freelist [simp]: "cwf struct_pcpu_freelist" "calign struct_pcpu_freelist = 8" "csize struct_pcpu_freelist = 24"
  by (simp_all add: struct_pcpu_freelist_def place_def align_up_def)

definition struct_bpf_lru_list :: ctype where
  "struct_bpf_lru_list = CStruct [
     Member ''lists'' (CArray struct_list_head 3), Member ''counts'' (CArray (CInt 4) 2),
     Member ''next_inactive_rotation'' CPtr, Member ''lock'' struct_raw_spinlock, Bits '''' 8 64,
     Bits '''' 8 64, Bits '''' 8 64, Bits '''' 8 64, Bits '''' 8 64, Bits '''' 8 64,
     Bits '''' 8 64]"

lemma layout_struct_bpf_lru_list [simp]: "cwf struct_bpf_lru_list" "calign struct_bpf_lru_list = 8" "csize struct_bpf_lru_list = 128"
  by (simp_all add: struct_bpf_lru_list_def place_def align_up_def)

definition struct_bpf_common_lru :: ctype where
  "struct_bpf_common_lru = CStruct [
     Member ''lru_list'' struct_bpf_lru_list, Member ''local_list'' CPtr, Bits '''' 8 64,
     Bits '''' 8 64, Bits '''' 8 64, Bits '''' 8 64, Bits '''' 8 64, Bits '''' 8 64,
     Bits '''' 8 64]"

lemma layout_struct_bpf_common_lru [simp]: "cwf struct_bpf_common_lru" "calign struct_bpf_common_lru = 8" "csize struct_bpf_common_lru = 192"
  by (simp_all add: struct_bpf_common_lru_def place_def align_up_def)

definition struct_bpf_lru :: ctype where
  "struct_bpf_lru = CStruct [
     Member '''' (CUnion [
       Member ''common_lru'' struct_bpf_common_lru, Member ''percpu_lru'' CPtr]),
     Member ''del_from_htab'' CPtr, Member ''del_arg'' CPtr, Member ''hash_offset'' (CInt 4),
     Member ''nr_scans'' (CInt 4), Member ''percpu'' (CInt 1), Bits '''' 8 64, Bits '''' 8 64,
     Bits '''' 8 64, Bits '''' 8 64]"

lemma layout_struct_bpf_lru [simp]: "cwf struct_bpf_lru" "calign struct_bpf_lru = 8" "csize struct_bpf_lru = 256"
  by (simp_all add: struct_bpf_lru_def place_def align_up_def)

definition struct_lock_class_key :: ctype where
  "struct_lock_class_key = CStruct []"

lemma layout_struct_lock_class_key [simp]: "cwf struct_lock_class_key" "calign struct_lock_class_key = 1" "csize struct_lock_class_key = 0"
  by (simp_all add: struct_lock_class_key_def place_def align_up_def)

definition struct_bpf_htab :: ctype where
  "struct_bpf_htab = CStruct [
     Member ''map'' struct_bpf_map, Member ''ma'' struct_bpf_mem_alloc,
     Member ''pcpu_ma'' struct_bpf_mem_alloc, Member ''buckets'' CPtr, Member ''elems'' CPtr,
     Bits '''' 8 64, Bits '''' 8 64, Bits '''' 8 64, Bits '''' 8 64, Bits '''' 8 64,
     Bits '''' 8 64, Bits '''' 8 64, Member '''' (CUnion [
       Member ''freelist'' struct_pcpu_freelist, Member ''lru'' struct_bpf_lru]),
     Member ''extra_elems'' CPtr, Member ''pcount'' struct_percpu_counter,
     Member ''count'' type_atomic_t, Member ''use_percpu_counter'' (CInt 1),
     Member ''n_buckets'' (CInt 4), Member ''elem_size'' (CInt 4), Member ''hashrnd'' (CInt 4),
     Member ''lockdep_key'' struct_lock_class_key, Member ''map_locked'' (CArray CPtr 8),
     Bits '''' 8 64, Bits '''' 8 64, Bits '''' 8 64, Bits '''' 8 64, Bits '''' 8 64,
     Bits '''' 8 64, Bits '''' 8 64]"

lemma layout_struct_bpf_htab [simp]: "cwf struct_bpf_htab" "calign struct_bpf_htab = 8" "csize struct_bpf_htab = 896"
  by (simp_all add: struct_bpf_htab_def place_def align_up_def)

definition struct_pcpu_freelist_node :: ctype where
  "struct_pcpu_freelist_node = CStruct [
     Member ''next'' CPtr]"

lemma layout_struct_pcpu_freelist_node [simp]: "cwf struct_pcpu_freelist_node" "calign struct_pcpu_freelist_node = 8" "csize struct_pcpu_freelist_node = 8"
  by (simp_all add: struct_pcpu_freelist_node_def place_def align_up_def)

definition struct_bpf_lru_node :: ctype where
  "struct_bpf_lru_node = CStruct [
     Member ''list'' struct_list_head, Member ''cpu'' (CInt 2), Member ''type'' (CInt 1),
     Member ''ref'' (CInt 1)]"

lemma layout_struct_bpf_lru_node [simp]: "cwf struct_bpf_lru_node" "calign struct_bpf_lru_node = 8" "csize struct_bpf_lru_node = 24"
  by (simp_all add: struct_bpf_lru_node_def place_def align_up_def)

definition struct_htab_elem :: ctype where
  "struct_htab_elem = CStruct [
     Member '''' (CUnion [
       Member ''hash_node'' struct_hlist_nulls_node, Member '''' (CStruct [
         Member ''padding'' CPtr, Member '''' (CUnion [
           Member ''fnode'' struct_pcpu_freelist_node, Member ''batch_flink'' CPtr])])]),
     Member '''' (CUnion [
       Member ''ptr_to_pptr'' CPtr, Member ''lru_node'' struct_bpf_lru_node]),
     Member ''hash'' (CInt 4), Bits '''' 8 0, Member ''key'' (CArray (CInt 1) 0)]"

lemma layout_struct_htab_elem [simp]: "cwf struct_htab_elem" "calign struct_htab_elem = 8" "csize struct_htab_elem = 48"
  by (simp_all add: struct_htab_elem_def place_def align_up_def)

definition struct_bpf_map_ops :: ctype where
  "struct_bpf_map_ops = CStruct [
     Member ''map_alloc_check'' CPtr, Member ''map_alloc'' CPtr, Member ''map_release'' CPtr,
     Member ''map_free'' CPtr, Member ''map_get_next_key'' CPtr,
     Member ''map_release_uref'' CPtr, Member ''map_lookup_elem_sys_only'' CPtr,
     Member ''map_lookup_batch'' CPtr, Member ''map_lookup_and_delete_elem'' CPtr,
     Member ''map_lookup_and_delete_batch'' CPtr, Member ''map_update_batch'' CPtr,
     Member ''map_delete_batch'' CPtr, Member ''map_lookup_elem'' CPtr,
     Member ''map_update_elem'' CPtr, Member ''map_delete_elem'' CPtr,
     Member ''map_push_elem'' CPtr, Member ''map_pop_elem'' CPtr, Member ''map_peek_elem'' CPtr,
     Member ''map_lookup_percpu_elem'' CPtr, Member ''map_fd_get_ptr'' CPtr,
     Member ''map_fd_put_ptr'' CPtr, Member ''map_gen_lookup'' CPtr,
     Member ''map_fd_sys_lookup_elem'' CPtr, Member ''map_seq_show_elem'' CPtr,
     Member ''map_check_btf'' CPtr, Member ''map_poke_track'' CPtr,
     Member ''map_poke_untrack'' CPtr, Member ''map_poke_run'' CPtr,
     Member ''map_direct_value_addr'' CPtr, Member ''map_direct_value_meta'' CPtr,
     Member ''map_mmap'' CPtr, Member ''map_poll'' CPtr, Member ''map_get_unmapped_area'' CPtr,
     Member ''map_local_storage_charge'' CPtr, Member ''map_local_storage_uncharge'' CPtr,
     Member ''map_owner_storage_ptr'' CPtr, Member ''map_redirect'' CPtr,
     Member ''map_meta_equal'' CPtr, Member ''map_set_for_each_callback_args'' CPtr,
     Member ''map_for_each_callback'' CPtr, Member ''map_mem_usage'' CPtr,
     Member ''map_btf_id'' CPtr, Member ''iter_seq_info'' CPtr]"

lemma layout_struct_bpf_map_ops [simp]: "cwf struct_bpf_map_ops" "calign struct_bpf_map_ops = 8" "csize struct_bpf_map_ops = 344"
  by (simp_all add: struct_bpf_map_ops_def place_def align_up_def)

definition struct_sock_filter :: ctype where
  "struct_sock_filter = CStruct [
     Member ''code'' (CInt 2), Member ''jt'' (CInt 1), Member ''jf'' (CInt 1),
     Member ''k'' (CInt 4)]"

lemma layout_struct_sock_filter [simp]: "cwf struct_sock_filter" "calign struct_sock_filter = 4" "csize struct_sock_filter = 8"
  by (simp_all add: struct_sock_filter_def place_def align_up_def)

definition struct_bpf_prog :: ctype where
  "struct_bpf_prog = CStruct [
     Member ''pages'' (CInt 2), Bits ''jited'' 2 1, Bits ''jit_requested'' 2 1,
     Bits ''gpl_compatible'' 2 1, Bits ''cb_access'' 2 1, Bits ''dst_needed'' 2 1,
     Bits ''blinding_requested'' 2 1, Bits ''blinded'' 2 1, Bits ''is_func'' 2 1,
     Bits ''kprobe_override'' 2 1, Bits ''has_callchain_buf'' 2 1,
     Bits ''enforce_expected_attach_type'' 2 1, Bits ''call_get_stack'' 2 1,
     Bits ''call_get_func_ip'' 2 1, Bits ''tstamp_type_access'' 2 1, Bits ''sleepable'' 2 1,
     Member ''type'' (CInt 4), Member ''expected_attach_type'' (CInt 4), Member ''len'' (CInt 4),
     Member ''jited_len'' (CInt 4), Member ''tag'' (CArray (CInt 1) 8), Member ''stats'' CPtr,
     Member ''active'' CPtr, Member ''bpf_func'' CPtr, Member ''aux'' CPtr,
     Member ''orig_prog'' CPtr, Member '''' (CUnion [
       Member '''' (CStruct [
         Member ''__empty_insns'' (CStruct []), Member ''insns'' (CArray struct_sock_filter 0)]),
       Member '''' (CStruct [
         Member ''__empty_insnsi'' (CStruct []), Member ''insnsi'' (CArray struct_bpf_insn 0)])])]"

lemma layout_struct_bpf_prog [simp]: "cwf struct_bpf_prog" "calign struct_bpf_prog = 8" "csize struct_bpf_prog = 72"
  by (simp_all add: struct_bpf_prog_def place_def align_up_def)

definition struct_latch_tree_node :: ctype where
  "struct_latch_tree_node = CStruct [
     Member ''node'' (CArray struct_rb_node 2)]"

lemma layout_struct_latch_tree_node [simp]: "cwf struct_latch_tree_node" "calign struct_latch_tree_node = 8" "csize struct_latch_tree_node = 48"
  by (simp_all add: struct_latch_tree_node_def place_def align_up_def)

definition struct_bpf_ksym :: ctype where
  "struct_bpf_ksym = CStruct [
     Member ''start'' (CInt 8), Member ''end'' (CInt 8), Member ''name'' (CArray (CInt 1) 512),
     Member ''lnode'' struct_list_head, Member ''tnode'' struct_latch_tree_node,
     Member ''prog'' (CInt 1)]"

lemma layout_struct_bpf_ksym [simp]: "cwf struct_bpf_ksym" "calign struct_bpf_ksym = 8" "csize struct_bpf_ksym = 600"
  by (simp_all add: struct_bpf_ksym_def place_def align_up_def)

definition struct_bpf_prog_aux :: ctype where
  "struct_bpf_prog_aux = CStruct [
     Member ''refcnt'' type_atomic64_t, Member ''used_map_cnt'' (CInt 4),
     Member ''used_btf_cnt'' (CInt 4), Member ''max_ctx_offset'' (CInt 4),
     Member ''max_pkt_offset'' (CInt 4), Member ''max_tp_access'' (CInt 4),
     Member ''stack_depth'' (CInt 4), Member ''id'' (CInt 4), Member ''func_cnt'' (CInt 4),
     Member ''real_func_cnt'' (CInt 4), Member ''func_idx'' (CInt 4),
     Member ''attach_btf_id'' (CInt 4), Member ''ctx_arg_info_size'' (CInt 4),
     Member ''max_rdonly_access'' (CInt 4), Member ''max_rdwr_access'' (CInt 4),
     Member ''attach_btf'' CPtr, Member ''ctx_arg_info'' CPtr, Member ''dst_mutex'' struct_mutex,
     Member ''dst_prog'' CPtr, Member ''dst_trampoline'' CPtr,
     Member ''saved_dst_prog_type'' (CInt 4), Member ''saved_dst_attach_type'' (CInt 4),
     Member ''verifier_zext'' (CInt 1), Member ''dev_bound'' (CInt 1),
     Member ''offload_requested'' (CInt 1), Member ''attach_btf_trace'' (CInt 1),
     Member ''attach_tracing_prog'' (CInt 1), Member ''func_proto_unreliable'' (CInt 1),
     Member ''tail_call_reachable'' (CInt 1), Member ''xdp_has_frags'' (CInt 1),
     Member ''exception_cb'' (CInt 1), Member ''exception_boundary'' (CInt 1),
     Member ''arena'' CPtr, Member ''attach_func_proto'' CPtr, Member ''attach_func_name'' CPtr,
     Member ''func'' CPtr, Member ''jit_data'' CPtr, Member ''poke_tab'' CPtr,
     Member ''kfunc_tab'' CPtr, Member ''kfunc_btf_tab'' CPtr, Member ''size_poke_tab'' (CInt 4),
     Member ''ksym'' struct_bpf_ksym, Member ''ops'' CPtr, Member ''used_maps'' CPtr,
     Member ''used_maps_mutex'' struct_mutex, Member ''used_btfs'' CPtr, Member ''prog'' CPtr,
     Member ''user'' CPtr, Member ''load_time'' (CInt 8), Member ''verified_insns'' (CInt 4),
     Member ''cgroup_atype'' (CInt 4), Member ''cgroup_storage'' (CArray CPtr 2),
     Member ''name'' (CArray (CInt 1) 16), Member ''bpf_exception_cb'' CPtr,
     Member ''security'' CPtr, Member ''token'' CPtr, Member ''offload'' CPtr,
     Member ''btf'' CPtr, Member ''func_info'' CPtr, Member ''func_info_aux'' CPtr,
     Member ''linfo'' CPtr, Member ''jited_linfo'' CPtr, Member ''func_info_cnt'' (CInt 4),
     Member ''nr_linfo'' (CInt 4), Member ''linfo_idx'' (CInt 4), Member ''mod'' CPtr,
     Member ''num_exentries'' (CInt 4), Member ''extable'' CPtr, Member '''' (CUnion [
       Member ''work'' struct_work_struct, Member ''rcu'' struct_callback_head])]"

lemma layout_struct_bpf_prog_aux [simp]: "cwf struct_bpf_prog_aux" "calign struct_bpf_prog_aux = 8" "csize struct_bpf_prog_aux = 1088"
  by (simp_all add: struct_bpf_prog_aux_def place_def align_up_def)

definition struct_bpf_prog_ops :: ctype where
  "struct_bpf_prog_ops = CStruct [
     Member ''test_run'' CPtr]"

lemma layout_struct_bpf_prog_ops [simp]: "cwf struct_bpf_prog_ops" "calign struct_bpf_prog_ops = 8" "csize struct_bpf_prog_ops = 8"
  by (simp_all add: struct_bpf_prog_ops_def place_def align_up_def)

definition struct_bpf_verifier_ops :: ctype where
  "struct_bpf_verifier_ops = CStruct [
     Member ''get_func_proto'' CPtr, Member ''is_valid_access'' CPtr,
     Member ''gen_prologue'' CPtr, Member ''gen_ld_abs'' CPtr,
     Member ''convert_ctx_access'' CPtr, Member ''btf_struct_access'' CPtr]"

lemma layout_struct_bpf_verifier_ops [simp]: "cwf struct_bpf_verifier_ops" "calign struct_bpf_verifier_ops = 8" "csize struct_bpf_verifier_ops = 48"
  by (simp_all add: struct_bpf_verifier_ops_def place_def align_up_def)

definition struct_bpf_link :: ctype where
  "struct_bpf_link = CStruct [
     Member ''refcnt'' type_atomic64_t, Member ''id'' (CInt 4), Member ''type'' (CInt 4),
     Member ''ops'' CPtr, Member ''prog'' CPtr, Member '''' (CUnion [
       Member ''rcu'' struct_callback_head, Member ''work'' struct_work_struct])]"

lemma layout_struct_bpf_link [simp]: "cwf struct_bpf_link" "calign struct_bpf_link = 8" "csize struct_bpf_link = 64"
  by (simp_all add: struct_bpf_link_def place_def align_up_def)

definition struct_bpf_link_ops :: ctype where
  "struct_bpf_link_ops = CStruct [
     Member ''release'' CPtr, Member ''dealloc'' CPtr, Member ''dealloc_deferred'' CPtr,
     Member ''detach'' CPtr, Member ''update_prog'' CPtr, Member ''show_fdinfo'' CPtr,
     Member ''fill_link_info'' CPtr, Member ''update_map'' CPtr, Member ''poll'' CPtr]"

lemma layout_struct_bpf_link_ops [simp]: "cwf struct_bpf_link_ops" "calign struct_bpf_link_ops = 8" "csize struct_bpf_link_ops = 72"
  by (simp_all add: struct_bpf_link_ops_def place_def align_up_def)

definition struct_nf_hook_ops :: ctype where
  "struct_nf_hook_ops = CStruct [
     Member ''hook'' CPtr, Member ''dev'' CPtr, Member ''priv'' CPtr, Member ''pf'' (CInt 1),
     Bits ''hook_ops_type'' 4 8, Member ''hooknum'' (CInt 4), Member ''priority'' (CInt 4)]"

lemma layout_struct_nf_hook_ops [simp]: "cwf struct_nf_hook_ops" "calign struct_nf_hook_ops = 8" "csize struct_nf_hook_ops = 40"
  by (simp_all add: struct_nf_hook_ops_def place_def align_up_def)

definition struct_bpf_nf_link :: ctype where
  "struct_bpf_nf_link = CStruct [
     Member ''link'' struct_bpf_link, Member ''hook_ops'' struct_nf_hook_ops,
     Member ''ns_tracker'' type_netns_tracker, Member ''net'' CPtr, Member ''dead'' (CInt 4),
     Member ''defrag_hook'' CPtr]"

lemma layout_struct_bpf_nf_link [simp]: "cwf struct_bpf_nf_link" "calign struct_bpf_nf_link = 8" "csize struct_bpf_nf_link = 128"
  by (simp_all add: struct_bpf_nf_link_def place_def align_up_def)

definition struct_btf_header :: ctype where
  "struct_btf_header = CStruct [
     Member ''magic'' (CInt 2), Member ''version'' (CInt 1), Member ''flags'' (CInt 1),
     Member ''hdr_len'' (CInt 4), Member ''type_off'' (CInt 4), Member ''type_len'' (CInt 4),
     Member ''str_off'' (CInt 4), Member ''str_len'' (CInt 4)]"

lemma layout_struct_btf_header [simp]: "cwf struct_btf_header" "calign struct_btf_header = 4" "csize struct_btf_header = 24"
  by (simp_all add: struct_btf_header_def place_def align_up_def)

definition struct_btf :: ctype where
  "struct_btf = CStruct [
     Member ''data'' CPtr, Member ''types'' CPtr, Member ''resolved_ids'' CPtr,
     Member ''resolved_sizes'' CPtr, Member ''strings'' CPtr, Member ''nohdr_data'' CPtr,
     Member ''hdr'' struct_btf_header, Member ''nr_types'' (CInt 4),
     Member ''types_size'' (CInt 4), Member ''data_size'' (CInt 4),
     Member ''refcnt'' struct_refcount_struct, Member ''id'' (CInt 4),
     Member ''rcu'' struct_callback_head, Member ''kfunc_set_tab'' CPtr,
     Member ''dtor_kfunc_tab'' CPtr, Member ''struct_meta_tab'' CPtr,
     Member ''struct_ops_tab'' CPtr, Member ''base_btf'' CPtr, Member ''start_id'' (CInt 4),
     Member ''start_str_off'' (CInt 4), Member ''name'' (CArray (CInt 1) 56),
     Member ''kernel_btf'' (CInt 1), Member ''base_id_map'' CPtr]"

lemma layout_struct_btf [simp]: "cwf struct_btf" "calign struct_btf = 8" "csize struct_btf = 232"
  by (simp_all add: struct_btf_def place_def align_up_def)

definition union_bpf_attr :: ctype where
  "union_bpf_attr = CUnion [
     Member '''' (CStruct [
       Member ''map_type'' (CInt 4), Member ''key_size'' (CInt 4),
       Member ''value_size'' (CInt 4), Member ''max_entries'' (CInt 4),
       Member ''map_flags'' (CInt 4), Member ''inner_map_fd'' (CInt 4),
       Member ''numa_node'' (CInt 4), Member ''map_name'' (CArray (CInt 1) 16),
       Member ''map_ifindex'' (CInt 4), Member ''btf_fd'' (CInt 4),
       Member ''btf_key_type_id'' (CInt 4), Member ''btf_value_type_id'' (CInt 4),
       Member ''btf_vmlinux_value_type_id'' (CInt 4), Member ''map_extra'' (CInt 8),
       Member ''value_type_btf_obj_fd'' (CInt 4), Member ''map_token_fd'' (CInt 4)]),
     Member '''' (CStruct [
       Member ''map_fd'' (CInt 4), Member ''key'' (CInt 8), Member '''' (CUnion [
         Member ''value'' (CInt 8), Member ''next_key'' (CInt 8)]), Member ''flags'' (CInt 8)]),
     Member ''batch'' (CStruct [
       Member ''in_batch'' (CInt 8), Member ''out_batch'' (CInt 8), Member ''keys'' (CInt 8),
       Member ''values'' (CInt 8), Member ''count'' (CInt 4), Member ''map_fd'' (CInt 4),
       Member ''elem_flags'' (CInt 8), Member ''flags'' (CInt 8)]), Member '''' (CStruct [
       Member ''prog_type'' (CInt 4), Member ''insn_cnt'' (CInt 4), Member ''insns'' (CInt 8),
       Member ''license'' (CInt 8), Member ''log_level'' (CInt 4), Member ''log_size'' (CInt 4),
       Member ''log_buf'' (CInt 8), Member ''kern_version'' (CInt 4),
       Member ''prog_flags'' (CInt 4), Member ''prog_name'' (CArray (CInt 1) 16),
       Member ''prog_ifindex'' (CInt 4), Member ''expected_attach_type'' (CInt 4),
       Member ''prog_btf_fd'' (CInt 4), Member ''func_info_rec_size'' (CInt 4),
       Member ''func_info'' (CInt 8), Member ''func_info_cnt'' (CInt 4),
       Member ''line_info_rec_size'' (CInt 4), Member ''line_info'' (CInt 8),
       Member ''line_info_cnt'' (CInt 4), Member ''attach_btf_id'' (CInt 4),
       Member '''' (CUnion [
         Member ''attach_prog_fd'' (CInt 4), Member ''attach_btf_obj_fd'' (CInt 4)]),
       Member ''core_relo_cnt'' (CInt 4), Member ''fd_array'' (CInt 8),
       Member ''core_relos'' (CInt 8), Member ''core_relo_rec_size'' (CInt 4),
       Member ''log_true_size'' (CInt 4), Member ''prog_token_fd'' (CInt 4)]),
     Member '''' (CStruct [
       Member ''pathname'' (CInt 8), Member ''bpf_fd'' (CInt 4), Member ''file_flags'' (CInt 4),
       Member ''path_fd'' (CInt 4)]), Member '''' (CStruct [
       Member '''' (CUnion [
         Member ''target_fd'' (CInt 4), Member ''target_ifindex'' (CInt 4)]),
       Member ''attach_bpf_fd'' (CInt 4), Member ''attach_type'' (CInt 4),
       Member ''attach_flags'' (CInt 4), Member ''replace_bpf_fd'' (CInt 4),
       Member '''' (CUnion [
         Member ''relative_fd'' (CInt 4), Member ''relative_id'' (CInt 4)]),
       Member ''expected_revision'' (CInt 8)]), Member ''test'' (CStruct [
       Member ''prog_fd'' (CInt 4), Member ''retval'' (CInt 4), Member ''data_size_in'' (CInt 4),
       Member ''data_size_out'' (CInt 4), Member ''data_in'' (CInt 8),
       Member ''data_out'' (CInt 8), Member ''repeat'' (CInt 4), Member ''duration'' (CInt 4),
       Member ''ctx_size_in'' (CInt 4), Member ''ctx_size_out'' (CInt 4),
       Member ''ctx_in'' (CInt 8), Member ''ctx_out'' (CInt 8), Member ''flags'' (CInt 4),
       Member ''cpu'' (CInt 4), Member ''batch_size'' (CInt 4)]), Member '''' (CStruct [
       Member '''' (CUnion [
         Member ''start_id'' (CInt 4), Member ''prog_id'' (CInt 4), Member ''map_id'' (CInt 4),
         Member ''btf_id'' (CInt 4), Member ''link_id'' (CInt 4)]), Member ''next_id'' (CInt 4),
       Member ''open_flags'' (CInt 4)]), Member ''info'' (CStruct [
       Member ''bpf_fd'' (CInt 4), Member ''info_len'' (CInt 4), Member ''info'' (CInt 8)]),
     Member ''query'' (CStruct [
       Member '''' (CUnion [
         Member ''target_fd'' (CInt 4), Member ''target_ifindex'' (CInt 4)]),
       Member ''attach_type'' (CInt 4), Member ''query_flags'' (CInt 4),
       Member ''attach_flags'' (CInt 4), Member ''prog_ids'' (CInt 8), Member '''' (CUnion [
         Member ''prog_cnt'' (CInt 4), Member ''count'' (CInt 4)]),
       Member ''prog_attach_flags'' (CInt 8), Member ''link_ids'' (CInt 8),
       Member ''link_attach_flags'' (CInt 8), Member ''revision'' (CInt 8)]),
     Member ''raw_tracepoint'' (CStruct [
       Member ''name'' (CInt 8), Member ''prog_fd'' (CInt 4), Member ''cookie'' (CInt 8)]),
     Member '''' (CStruct [
       Member ''btf'' (CInt 8), Member ''btf_log_buf'' (CInt 8), Member ''btf_size'' (CInt 4),
       Member ''btf_log_size'' (CInt 4), Member ''btf_log_level'' (CInt 4),
       Member ''btf_log_true_size'' (CInt 4), Member ''btf_flags'' (CInt 4),
       Member ''btf_token_fd'' (CInt 4)]), Member ''task_fd_query'' (CStruct [
       Member ''pid'' (CInt 4), Member ''fd'' (CInt 4), Member ''flags'' (CInt 4),
       Member ''buf_len'' (CInt 4), Member ''buf'' (CInt 8), Member ''prog_id'' (CInt 4),
       Member ''fd_type'' (CInt 4), Member ''probe_offset'' (CInt 8),
       Member ''probe_addr'' (CInt 8)]), Member ''link_create'' (CStruct [
       Member '''' (CUnion [
         Member ''prog_fd'' (CInt 4), Member ''map_fd'' (CInt 4)]), Member '''' (CUnion [
         Member ''target_fd'' (CInt 4), Member ''target_ifindex'' (CInt 4)]),
       Member ''attach_type'' (CInt 4), Member ''flags'' (CInt 4), Member '''' (CUnion [
         Member ''target_btf_id'' (CInt 4), Member '''' (CStruct [
           Member ''iter_info'' (CInt 8), Member ''iter_info_len'' (CInt 4)]),
         Member ''perf_event'' (CStruct [
           Member ''bpf_cookie'' (CInt 8)]), Member ''kprobe_multi'' (CStruct [
           Member ''flags'' (CInt 4), Member ''cnt'' (CInt 4), Member ''syms'' (CInt 8),
           Member ''addrs'' (CInt 8), Member ''cookies'' (CInt 8)]),
         Member ''tracing'' (CStruct [
           Member ''target_btf_id'' (CInt 4), Member ''cookie'' (CInt 8)]),
         Member ''netfilter'' (CStruct [
           Member ''pf'' (CInt 4), Member ''hooknum'' (CInt 4), Member ''priority'' (CInt 4),
           Member ''flags'' (CInt 4)]), Member ''tcx'' (CStruct [
           Member '''' (CUnion [
             Member ''relative_fd'' (CInt 4), Member ''relative_id'' (CInt 4)]),
           Member ''expected_revision'' (CInt 8)]), Member ''uprobe_multi'' (CStruct [
           Member ''path'' (CInt 8), Member ''offsets'' (CInt 8),
           Member ''ref_ctr_offsets'' (CInt 8), Member ''cookies'' (CInt 8),
           Member ''cnt'' (CInt 4), Member ''flags'' (CInt 4), Member ''pid'' (CInt 4)]),
         Member ''netkit'' (CStruct [
           Member '''' (CUnion [
             Member ''relative_fd'' (CInt 4), Member ''relative_id'' (CInt 4)]),
           Member ''expected_revision'' (CInt 8)])])]), Member ''link_update'' (CStruct [
       Member ''link_fd'' (CInt 4), Member '''' (CUnion [
         Member ''new_prog_fd'' (CInt 4), Member ''new_map_fd'' (CInt 4)]),
       Member ''flags'' (CInt 4), Member '''' (CUnion [
         Member ''old_prog_fd'' (CInt 4), Member ''old_map_fd'' (CInt 4)])]),
     Member ''link_detach'' (CStruct [
       Member ''link_fd'' (CInt 4)]), Member ''enable_stats'' (CStruct [
       Member ''type'' (CInt 4)]), Member ''iter_create'' (CStruct [
       Member ''link_fd'' (CInt 4), Member ''flags'' (CInt 4)]),
     Member ''prog_bind_map'' (CStruct [
       Member ''prog_fd'' (CInt 4), Member ''map_fd'' (CInt 4), Member ''flags'' (CInt 4)]),
     Member ''token_create'' (CStruct [
       Member ''flags'' (CInt 4), Member ''bpffs_fd'' (CInt 4)])]"

lemma layout_union_bpf_attr [simp]: "cwf union_bpf_attr" "calign union_bpf_attr = 8" "csize union_bpf_attr = 152"
  by (simp_all add: union_bpf_attr_def place_def align_up_def)

text \<open>Every structure of this theory, by name.\<close>

definition bpf_types :: "(string \<times> ctype) list" where
  "bpf_types = [
     (''struct___sk_buff'', struct___sk_buff), (''struct_bpf_dynptr'', struct_bpf_dynptr),
     (''struct_bpf_dynptr_kern'', struct_bpf_dynptr_kern),
     (''struct_bpf_insn'', struct_bpf_insn), (''struct_bpf_map'', struct_bpf_map),
     (''struct_bpf_mem_alloc'', struct_bpf_mem_alloc),
     (''struct_pcpu_freelist_head'', struct_pcpu_freelist_head),
     (''struct_pcpu_freelist'', struct_pcpu_freelist),
     (''struct_bpf_lru_list'', struct_bpf_lru_list),
     (''struct_bpf_common_lru'', struct_bpf_common_lru), (''struct_bpf_lru'', struct_bpf_lru),
     (''struct_lock_class_key'', struct_lock_class_key), (''struct_bpf_htab'', struct_bpf_htab),
     (''struct_pcpu_freelist_node'', struct_pcpu_freelist_node),
     (''struct_bpf_lru_node'', struct_bpf_lru_node), (''struct_htab_elem'', struct_htab_elem),
     (''struct_bpf_map_ops'', struct_bpf_map_ops), (''struct_sock_filter'', struct_sock_filter),
     (''struct_bpf_prog'', struct_bpf_prog),
     (''struct_latch_tree_node'', struct_latch_tree_node),
     (''struct_bpf_ksym'', struct_bpf_ksym), (''struct_bpf_prog_aux'', struct_bpf_prog_aux),
     (''struct_bpf_prog_ops'', struct_bpf_prog_ops),
     (''struct_bpf_verifier_ops'', struct_bpf_verifier_ops),
     (''struct_bpf_link'', struct_bpf_link), (''struct_bpf_link_ops'', struct_bpf_link_ops),
     (''struct_nf_hook_ops'', struct_nf_hook_ops), (''struct_bpf_nf_link'', struct_bpf_nf_link),
     (''struct_btf_header'', struct_btf_header), (''struct_btf'', struct_btf),
     (''union_bpf_attr'', union_bpf_attr)]"

lemma bpf_types_wf: "list_all (\<lambda>(x, t). cwf t) bpf_types"
  by (simp add: bpf_types_def)

end
