(* ===== verification/Kernel_Verifier.thy ===== *)
theory Kernel_Verifier
  imports Kernel_Bpf
begin

text \<open>
  Loading a program (agent/vmlinux.h): the verifier's state, the prototypes of the helpers it
  checks calls against, what the system call reports about programs, maps and links, the ELF
  headers of the object file, and the credentials and namespaces the loader runs under.
\<close>

definition struct_btf_mod_pair :: ctype where
  "struct_btf_mod_pair = CStruct [
     Member ''btf'' CPtr, Member ''module'' CPtr]"

lemma layout_struct_btf_mod_pair [simp]: "cwf struct_btf_mod_pair" "calign struct_btf_mod_pair = 8" "csize struct_btf_mod_pair = 16"
  by (simp_all add: struct_btf_mod_pair_def place_def align_up_def)

definition struct_bpf_verifier_log :: ctype where
  "struct_bpf_verifier_log = CStruct [
     Member ''start_pos'' (CInt 8), Member ''end_pos'' (CInt 8), Member ''ubuf'' CPtr,
     Member ''level'' (CInt 4), Member ''len_total'' (CInt 4), Member ''len_max'' (CInt 4),
     Member ''kbuf'' (CArray (CInt 1) 1024)]"

lemma layout_struct_bpf_verifier_log [simp]: "cwf struct_bpf_verifier_log" "calign struct_bpf_verifier_log = 8" "csize struct_bpf_verifier_log = 1064"
  by (simp_all add: struct_bpf_verifier_log_def place_def align_up_def)

definition struct_bpf_subprog_arg_info :: ctype where
  "struct_bpf_subprog_arg_info = CStruct [
     Member ''arg_type'' (CInt 4), Member '''' (CUnion [
       Member ''mem_size'' (CInt 4), Member ''btf_id'' (CInt 4)])]"

lemma layout_struct_bpf_subprog_arg_info [simp]: "cwf struct_bpf_subprog_arg_info" "calign struct_bpf_subprog_arg_info = 4" "csize struct_bpf_subprog_arg_info = 8"
  by (simp_all add: struct_bpf_subprog_arg_info_def place_def align_up_def)

definition struct_bpf_subprog_info :: ctype where
  "struct_bpf_subprog_info = CStruct [
     Member ''start'' (CInt 4), Member ''linfo_idx'' (CInt 4), Member ''stack_depth'' (CInt 2),
     Member ''stack_extra'' (CInt 2), Bits ''has_tail_call'' 1 1,
     Bits ''tail_call_reachable'' 1 1, Bits ''has_ld_abs'' 1 1, Bits ''is_cb'' 1 1,
     Bits ''is_async_cb'' 1 1, Bits ''is_exception_cb'' 1 1, Bits ''args_cached'' 1 1,
     Member ''arg_cnt'' (CInt 1), Member ''args'' (CArray struct_bpf_subprog_arg_info 5)]"

lemma layout_struct_bpf_subprog_info [simp]: "cwf struct_bpf_subprog_info" "calign struct_bpf_subprog_info = 4" "csize struct_bpf_subprog_info = 56"
  by (simp_all add: struct_bpf_subprog_info_def place_def align_up_def)

definition struct_bpf_id_pair :: ctype where
  "struct_bpf_id_pair = CStruct [
     Member ''old'' (CInt 4), Member ''cur'' (CInt 4)]"

lemma layout_struct_bpf_id_pair [simp]: "cwf struct_bpf_id_pair" "calign struct_bpf_id_pair = 4" "csize struct_bpf_id_pair = 8"
  by (simp_all add: struct_bpf_id_pair_def place_def align_up_def)

definition struct_bpf_idmap :: ctype where
  "struct_bpf_idmap = CStruct [
     Member ''tmp_id_gen'' (CInt 4), Member ''map'' (CArray struct_bpf_id_pair 600)]"

lemma layout_struct_bpf_idmap [simp]: "cwf struct_bpf_idmap" "calign struct_bpf_idmap = 4" "csize struct_bpf_idmap = 4804"
  by (simp_all add: struct_bpf_idmap_def place_def align_up_def)

definition struct_bpf_idset :: ctype where
  "struct_bpf_idset = CStruct [
     Member ''count'' (CInt 4), Member ''ids'' (CArray (CInt 4) 600)]"

lemma layout_struct_bpf_idset [simp]: "cwf struct_bpf_idset" "calign struct_bpf_idset = 4" "csize struct_bpf_idset = 2404"
  by (simp_all add: struct_bpf_idset_def place_def align_up_def)

definition struct_backtrack_state :: ctype where
  "struct_backtrack_state = CStruct [
     Member ''env'' CPtr, Member ''frame'' (CInt 4), Member ''reg_masks'' (CArray (CInt 4) 8),
     Member ''stack_masks'' (CArray (CInt 8) 8)]"

lemma layout_struct_backtrack_state [simp]: "cwf struct_backtrack_state" "calign struct_backtrack_state = 8" "csize struct_backtrack_state = 112"
  by (simp_all add: struct_backtrack_state_def place_def align_up_def)

definition type_sockptr_t :: ctype where
  "type_sockptr_t = CStruct [
     Member '''' (CUnion [
       Member ''kernel'' CPtr, Member ''user'' CPtr]), Bits ''is_kernel'' 1 1]"

lemma layout_type_sockptr_t [simp]: "cwf type_sockptr_t" "calign type_sockptr_t = 8" "csize type_sockptr_t = 16"
  by (simp_all add: type_sockptr_t_def place_def align_up_def)

definition struct_tnum :: ctype where
  "struct_tnum = CStruct [
     Member ''value'' (CInt 8), Member ''mask'' (CInt 8)]"

lemma layout_struct_tnum [simp]: "cwf struct_tnum" "calign struct_tnum = 8" "csize struct_tnum = 16"
  by (simp_all add: struct_tnum_def place_def align_up_def)

definition struct_bpf_reg_state :: ctype where
  "struct_bpf_reg_state = CStruct [
     Member ''type'' (CInt 4), Member ''off'' (CInt 4), Member '''' (CUnion [
       Member ''range'' (CInt 4), Member '''' (CStruct [
         Member ''map_ptr'' CPtr, Member ''map_uid'' (CInt 4)]), Member '''' (CStruct [
         Member ''btf'' CPtr, Member ''btf_id'' (CInt 4)]), Member '''' (CStruct [
         Member ''mem_size'' (CInt 4), Member ''dynptr_id'' (CInt 4)]),
       Member ''dynptr'' (CStruct [
         Member ''type'' (CInt 4), Member ''first_slot'' (CInt 1)]), Member ''iter'' (CStruct [
         Member ''btf'' CPtr, Member ''btf_id'' (CInt 4), Bits ''state'' 4 2, Bits ''depth'' 4 30]),
       Member ''raw'' (CStruct [
         Member ''raw1'' (CInt 8), Member ''raw2'' (CInt 8)]), Member ''subprogno'' (CInt 4)]),
     Member ''var_off'' struct_tnum, Member ''smin_value'' (CInt 8),
     Member ''smax_value'' (CInt 8), Member ''umin_value'' (CInt 8),
     Member ''umax_value'' (CInt 8), Member ''s32_min_value'' (CInt 4),
     Member ''s32_max_value'' (CInt 4), Member ''u32_min_value'' (CInt 4),
     Member ''u32_max_value'' (CInt 4), Member ''id'' (CInt 4), Member ''ref_obj_id'' (CInt 4),
     Member ''parent'' CPtr, Member ''frameno'' (CInt 4), Member ''subreg_def'' (CInt 4),
     Member ''live'' (CInt 4), Member ''precise'' (CInt 1)]"

lemma layout_struct_bpf_reg_state [simp]: "cwf struct_bpf_reg_state" "calign struct_bpf_reg_state = 8" "csize struct_bpf_reg_state = 120"
  by (simp_all add: struct_bpf_reg_state_def place_def align_up_def)

definition struct_bpf_verifier_env :: ctype where
  "struct_bpf_verifier_env = CStruct [
     Member ''insn_idx'' (CInt 4), Member ''prev_insn_idx'' (CInt 4), Member ''prog'' CPtr,
     Member ''ops'' CPtr, Member ''attach_btf_mod'' CPtr, Member ''head'' CPtr,
     Member ''stack_size'' (CInt 4), Member ''strict_alignment'' (CInt 1),
     Member ''test_state_freq'' (CInt 1), Member ''test_reg_invariants'' (CInt 1),
     Member ''cur_state'' CPtr, Member ''explored_states'' CPtr, Member ''free_list'' CPtr,
     Member ''used_maps'' (CArray CPtr 64), Member ''used_btfs'' (CArray struct_btf_mod_pair 64),
     Member ''used_map_cnt'' (CInt 4), Member ''used_btf_cnt'' (CInt 4),
     Member ''id_gen'' (CInt 4), Member ''hidden_subprog_cnt'' (CInt 4),
     Member ''exception_callback_subprog'' (CInt 4), Member ''explore_alu_limits'' (CInt 1),
     Member ''allow_ptr_leaks'' (CInt 1), Member ''allow_uninit_stack'' (CInt 1),
     Member ''bpf_capable'' (CInt 1), Member ''bypass_spec_v1'' (CInt 1),
     Member ''bypass_spec_v4'' (CInt 1), Member ''seen_direct_write'' (CInt 1),
     Member ''seen_exception'' (CInt 1), Member ''insn_aux_data'' CPtr,
     Member ''prev_linfo'' CPtr, Member ''log'' struct_bpf_verifier_log,
     Member ''subprog_info'' (CArray struct_bpf_subprog_info 258), Member '''' (CUnion [
       Member ''idmap_scratch'' struct_bpf_idmap, Member ''idset_scratch'' struct_bpf_idset]),
     Member ''cfg'' (CStruct [
       Member ''insn_state'' CPtr, Member ''insn_stack'' CPtr, Member ''cur_stack'' (CInt 4)]),
     Member ''bt'' struct_backtrack_state, Member ''cur_hist_ent'' CPtr,
     Member ''pass_cnt'' (CInt 4), Member ''subprog_cnt'' (CInt 4),
     Member ''prev_insn_processed'' (CInt 4), Member ''insn_processed'' (CInt 4),
     Member ''prev_jmps_processed'' (CInt 4), Member ''jmps_processed'' (CInt 4),
     Member ''verification_time'' (CInt 8), Member ''max_states_per_insn'' (CInt 4),
     Member ''total_states'' (CInt 4), Member ''peak_states'' (CInt 4),
     Member ''longest_mark_read_walk'' (CInt 4), Member ''fd_array'' type_sockptr_t,
     Member ''scratched_regs'' (CInt 4), Member ''scratched_stack_slots'' (CInt 8),
     Member ''prev_log_pos'' (CInt 8), Member ''prev_insn_print_pos'' (CInt 8),
     Member ''fake_reg'' (CArray struct_bpf_reg_state 2),
     Member ''tmp_str_buf'' (CArray (CInt 1) 320)]"

lemma layout_struct_bpf_verifier_env [simp]: "cwf struct_bpf_verifier_env" "calign struct_bpf_verifier_env = 8" "csize struct_bpf_verifier_env = 22776"
  by (simp_all add: struct_bpf_verifier_env_def place_def align_up_def)

definition struct_bpf_func_proto :: ctype where
  "struct_bpf_func_proto = CStruct [
     Member ''func'' CPtr, Member ''gpl_only'' (CInt 1), Member ''pkt_access'' (CInt 1),
     Member ''might_sleep'' (CInt 1), Member ''ret_type'' (CInt 4), Member '''' (CUnion [
       Member '''' (CStruct [
         Member ''arg1_type'' (CInt 4), Member ''arg2_type'' (CInt 4),
         Member ''arg3_type'' (CInt 4), Member ''arg4_type'' (CInt 4),
         Member ''arg5_type'' (CInt 4)]), Member ''arg_type'' (CArray (CInt 4) 5)]),
     Member '''' (CUnion [
       Member '''' (CStruct [
         Member ''arg1_btf_id'' CPtr, Member ''arg2_btf_id'' CPtr, Member ''arg3_btf_id'' CPtr,
         Member ''arg4_btf_id'' CPtr, Member ''arg5_btf_id'' CPtr]),
       Member ''arg_btf_id'' (CArray CPtr 5), Member '''' (CStruct [
         Member ''arg1_size'' (CInt 8), Member ''arg2_size'' (CInt 8),
         Member ''arg3_size'' (CInt 8), Member ''arg4_size'' (CInt 8),
         Member ''arg5_size'' (CInt 8)]), Member ''arg_size'' (CArray (CInt 8) 5)]),
     Member ''ret_btf_id'' CPtr, Member ''allowed'' CPtr]"

lemma layout_struct_bpf_func_proto [simp]: "cwf struct_bpf_func_proto" "calign struct_bpf_func_proto = 8" "csize struct_bpf_func_proto = 96"
  by (simp_all add: struct_bpf_func_proto_def place_def align_up_def)

definition struct_bpf_prog_info :: ctype where
  "struct_bpf_prog_info = CStruct [
     Member ''type'' (CInt 4), Member ''id'' (CInt 4), Member ''tag'' (CArray (CInt 1) 8),
     Member ''jited_prog_len'' (CInt 4), Member ''xlated_prog_len'' (CInt 4),
     Member ''jited_prog_insns'' (CInt 8), Member ''xlated_prog_insns'' (CInt 8),
     Member ''load_time'' (CInt 8), Member ''created_by_uid'' (CInt 4),
     Member ''nr_map_ids'' (CInt 4), Member ''map_ids'' (CInt 8),
     Member ''name'' (CArray (CInt 1) 16), Member ''ifindex'' (CInt 4),
     Bits ''gpl_compatible'' 4 1, Member ''netns_dev'' (CInt 8), Member ''netns_ino'' (CInt 8),
     Member ''nr_jited_ksyms'' (CInt 4), Member ''nr_jited_func_lens'' (CInt 4),
     Member ''jited_ksyms'' (CInt 8), Member ''jited_func_lens'' (CInt 8),
     Member ''btf_id'' (CInt 4), Member ''func_info_rec_size'' (CInt 4),
     Member ''func_info'' (CInt 8), Member ''nr_func_info'' (CInt 4),
     Member ''nr_line_info'' (CInt 4), Member ''line_info'' (CInt 8),
     Member ''jited_line_info'' (CInt 8), Member ''nr_jited_line_info'' (CInt 4),
     Member ''line_info_rec_size'' (CInt 4), Member ''jited_line_info_rec_size'' (CInt 4),
     Member ''nr_prog_tags'' (CInt 4), Member ''prog_tags'' (CInt 8),
     Member ''run_time_ns'' (CInt 8), Member ''run_cnt'' (CInt 8),
     Member ''recursion_misses'' (CInt 8), Member ''verified_insns'' (CInt 4),
     Member ''attach_btf_obj_id'' (CInt 4), Member ''attach_btf_id'' (CInt 4)]"

lemma layout_struct_bpf_prog_info [simp]: "cwf struct_bpf_prog_info" "calign struct_bpf_prog_info = 8" "csize struct_bpf_prog_info = 232"
  by (simp_all add: struct_bpf_prog_info_def place_def align_up_def)

definition struct_bpf_map_info :: ctype where
  "struct_bpf_map_info = CStruct [
     Member ''type'' (CInt 4), Member ''id'' (CInt 4), Member ''key_size'' (CInt 4),
     Member ''value_size'' (CInt 4), Member ''max_entries'' (CInt 4),
     Member ''map_flags'' (CInt 4), Member ''name'' (CArray (CInt 1) 16),
     Member ''ifindex'' (CInt 4), Member ''btf_vmlinux_value_type_id'' (CInt 4),
     Member ''netns_dev'' (CInt 8), Member ''netns_ino'' (CInt 8), Member ''btf_id'' (CInt 4),
     Member ''btf_key_type_id'' (CInt 4), Member ''btf_value_type_id'' (CInt 4),
     Member ''btf_vmlinux_id'' (CInt 4), Member ''map_extra'' (CInt 8)]"

lemma layout_struct_bpf_map_info [simp]: "cwf struct_bpf_map_info" "calign struct_bpf_map_info = 8" "csize struct_bpf_map_info = 88"
  by (simp_all add: struct_bpf_map_info_def place_def align_up_def)

definition struct_bpf_link_info :: ctype where
  "struct_bpf_link_info = CStruct [
     Member ''type'' (CInt 4), Member ''id'' (CInt 4), Member ''prog_id'' (CInt 4),
     Member '''' (CUnion [
       Member ''raw_tracepoint'' (CStruct [
         Member ''tp_name'' (CInt 8), Member ''tp_name_len'' (CInt 4)]),
       Member ''tracing'' (CStruct [
         Member ''attach_type'' (CInt 4), Member ''target_obj_id'' (CInt 4),
         Member ''target_btf_id'' (CInt 4)]), Member ''cgroup'' (CStruct [
         Member ''cgroup_id'' (CInt 8), Member ''attach_type'' (CInt 4)]),
       Member ''iter'' (CStruct [
         Member ''target_name'' (CInt 8), Member ''target_name_len'' (CInt 4),
         Member '''' (CUnion [
           Member ''map'' (CStruct [
             Member ''map_id'' (CInt 4)])]), Member '''' (CUnion [
           Member ''cgroup'' (CStruct [
             Member ''cgroup_id'' (CInt 8), Member ''order'' (CInt 4)]),
           Member ''task'' (CStruct [
             Member ''tid'' (CInt 4), Member ''pid'' (CInt 4)])])]), Member ''netns'' (CStruct [
         Member ''netns_ino'' (CInt 4), Member ''attach_type'' (CInt 4)]),
       Member ''xdp'' (CStruct [
         Member ''ifindex'' (CInt 4)]), Member ''struct_ops'' (CStruct [
         Member ''map_id'' (CInt 4)]), Member ''netfilter'' (CStruct [
         Member ''pf'' (CInt 4), Member ''hooknum'' (CInt 4), Member ''priority'' (CInt 4),
         Member ''flags'' (CInt 4)]), Member ''kprobe_multi'' (CStruct [
         Member ''addrs'' (CInt 8), Member ''count'' (CInt 4), Member ''flags'' (CInt 4),
         Member ''missed'' (CInt 8), Member ''cookies'' (CInt 8)]),
       Member ''uprobe_multi'' (CStruct [
         Member ''path'' (CInt 8), Member ''offsets'' (CInt 8),
         Member ''ref_ctr_offsets'' (CInt 8), Member ''cookies'' (CInt 8),
         Member ''path_size'' (CInt 4), Member ''count'' (CInt 4), Member ''flags'' (CInt 4),
         Member ''pid'' (CInt 4)]), Member ''perf_event'' (CStruct [
         Member ''type'' (CInt 4), Member '''' (CUnion [
           Member ''uprobe'' (CStruct [
             Member ''file_name'' (CInt 8), Member ''name_len'' (CInt 4),
             Member ''offset'' (CInt 4), Member ''cookie'' (CInt 8)]),
           Member ''kprobe'' (CStruct [
             Member ''func_name'' (CInt 8), Member ''name_len'' (CInt 4),
             Member ''offset'' (CInt 4), Member ''addr'' (CInt 8), Member ''missed'' (CInt 8),
             Member ''cookie'' (CInt 8)]), Member ''tracepoint'' (CStruct [
             Member ''tp_name'' (CInt 8), Member ''name_len'' (CInt 4),
             Member ''cookie'' (CInt 8)]), Member ''event'' (CStruct [
             Member ''config'' (CInt 8), Member ''type'' (CInt 4), Member ''cookie'' (CInt 8)])])]),
       Member ''tcx'' (CStruct [
         Member ''ifindex'' (CInt 4), Member ''attach_type'' (CInt 4)]),
       Member ''netkit'' (CStruct [
         Member ''ifindex'' (CInt 4), Member ''attach_type'' (CInt 4)]),
       Member ''sockmap'' (CStruct [
         Member ''map_id'' (CInt 4), Member ''attach_type'' (CInt 4)])])]"

lemma layout_struct_bpf_link_info [simp]: "cwf struct_bpf_link_info" "calign struct_bpf_link_info = 8" "csize struct_bpf_link_info = 64"
  by (simp_all add: struct_bpf_link_info_def place_def align_up_def)

definition struct_bpf_array :: ctype where
  "struct_bpf_array = CStruct [
     Member ''map'' struct_bpf_map, Member ''elem_size'' (CInt 4),
     Member ''index_mask'' (CInt 4), Member ''aux'' CPtr, Member '''' (CUnion [
       Member '''' (CStruct [
         Member ''__empty_value'' (CStruct []), Member ''value'' (CArray (CInt 1) 0)]),
       Member '''' (CStruct [
         Member ''__empty_ptrs'' (CStruct []), Member ''ptrs'' (CArray CPtr 0)]),
       Member '''' (CStruct [
         Member ''__empty_pptrs'' (CStruct []), Member ''pptrs'' (CArray CPtr 0)])])]"

lemma layout_struct_bpf_array [simp]: "cwf struct_bpf_array" "calign struct_bpf_array = 8" "csize struct_bpf_array = 264"
  by (simp_all add: struct_bpf_array_def place_def align_up_def)

definition struct_bpf_ringbuf_map :: ctype where
  "struct_bpf_ringbuf_map = CStruct [
     Member ''map'' struct_bpf_map, Member ''rb'' CPtr]"

lemma layout_struct_bpf_ringbuf_map [simp]: "cwf struct_bpf_ringbuf_map" "calign struct_bpf_ringbuf_map = 8" "csize struct_bpf_ringbuf_map = 256"
  by (simp_all add: struct_bpf_ringbuf_map_def place_def align_up_def)

definition struct_btf_func_model :: ctype where
  "struct_btf_func_model = CStruct [
     Member ''ret_size'' (CInt 1), Member ''ret_flags'' (CInt 1), Member ''nr_args'' (CInt 1),
     Member ''arg_size'' (CArray (CInt 1) 12), Member ''arg_flags'' (CArray (CInt 1) 12)]"

lemma layout_struct_btf_func_model [simp]: "cwf struct_btf_func_model" "calign struct_btf_func_model = 1" "csize struct_btf_func_model = 27"
  by (simp_all add: struct_btf_func_model_def place_def align_up_def)

definition struct_bpf_trampoline :: ctype where
  "struct_bpf_trampoline = CStruct [
     Member ''hlist'' struct_hlist_node, Member ''fops'' CPtr, Member ''mutex'' struct_mutex,
     Member ''refcnt'' struct_refcount_struct, Member ''flags'' (CInt 4),
     Member ''key'' (CInt 8), Member ''func'' (CStruct [
       Member ''model'' struct_btf_func_model, Member ''addr'' CPtr,
       Member ''ftrace_managed'' (CInt 1)]), Member ''extension_prog'' CPtr,
     Member ''progs_hlist'' (CArray struct_hlist_head 3),
     Member ''progs_cnt'' (CArray (CInt 4) 3), Member ''cur_image'' CPtr]"

lemma layout_struct_bpf_trampoline [simp]: "cwf struct_bpf_trampoline" "calign struct_bpf_trampoline = 8" "csize struct_bpf_trampoline = 176"
  by (simp_all add: struct_bpf_trampoline_def place_def align_up_def)

definition struct_percpu_ref :: ctype where
  "struct_percpu_ref = CStruct [
     Member ''percpu_count_ptr'' (CInt 8), Member ''data'' CPtr]"

lemma layout_struct_percpu_ref [simp]: "cwf struct_percpu_ref" "calign struct_percpu_ref = 8" "csize struct_percpu_ref = 16"
  by (simp_all add: struct_percpu_ref_def place_def align_up_def)

definition struct_cgroup_bpf :: ctype where
  "struct_cgroup_bpf = CStruct [
     Member ''effective'' (CArray CPtr 38), Member ''progs'' (CArray struct_hlist_head 38),
     Member ''flags'' (CArray (CInt 1) 38), Member ''storages'' struct_list_head,
     Member ''inactive'' CPtr, Member ''refcnt'' struct_percpu_ref,
     Member ''release_work'' struct_work_struct]"

lemma layout_struct_cgroup_bpf [simp]: "cwf struct_cgroup_bpf" "calign struct_cgroup_bpf = 8" "csize struct_cgroup_bpf = 720"
  by (simp_all add: struct_cgroup_bpf_def place_def align_up_def)

definition struct_bpf_attach_target_info :: ctype where
  "struct_bpf_attach_target_info = CStruct [
     Member ''fmodel'' struct_btf_func_model, Member ''tgt_addr'' (CInt 8),
     Member ''tgt_mod'' CPtr, Member ''tgt_name'' CPtr, Member ''tgt_type'' CPtr]"

lemma layout_struct_bpf_attach_target_info [simp]: "cwf struct_bpf_attach_target_info" "calign struct_bpf_attach_target_info = 8" "csize struct_bpf_attach_target_info = 64"
  by (simp_all add: struct_bpf_attach_target_info_def place_def align_up_def)

definition struct_bpf_ctx_arg_aux :: ctype where
  "struct_bpf_ctx_arg_aux = CStruct [
     Member ''offset'' (CInt 4), Member ''reg_type'' (CInt 4), Member ''btf'' CPtr,
     Member ''btf_id'' (CInt 4)]"

lemma layout_struct_bpf_ctx_arg_aux [simp]: "cwf struct_bpf_ctx_arg_aux" "calign struct_bpf_ctx_arg_aux = 8" "csize struct_bpf_ctx_arg_aux = 24"
  by (simp_all add: struct_bpf_ctx_arg_aux_def place_def align_up_def)

definition struct_bpf_iter_reg :: ctype where
  "struct_bpf_iter_reg = CStruct [
     Member ''target'' CPtr, Member ''attach_target'' CPtr, Member ''detach_target'' CPtr,
     Member ''show_fdinfo'' CPtr, Member ''fill_link_info'' CPtr, Member ''get_func_proto'' CPtr,
     Member ''ctx_arg_info_size'' (CInt 4), Member ''feature'' (CInt 4),
     Member ''ctx_arg_info'' (CArray struct_bpf_ctx_arg_aux 2), Member ''seq_info'' CPtr]"

lemma layout_struct_bpf_iter_reg [simp]: "cwf struct_bpf_iter_reg" "calign struct_bpf_iter_reg = 8" "csize struct_bpf_iter_reg = 112"
  by (simp_all add: struct_bpf_iter_reg_def place_def align_up_def)

definition struct_bpf_kfunc_desc :: ctype where
  "struct_bpf_kfunc_desc = CStruct [
     Member ''func_model'' struct_btf_func_model, Member ''func_id'' (CInt 4),
     Member ''imm'' (CInt 4), Member ''offset'' (CInt 2), Member ''addr'' (CInt 8)]"

lemma layout_struct_bpf_kfunc_desc [simp]: "cwf struct_bpf_kfunc_desc" "calign struct_bpf_kfunc_desc = 8" "csize struct_bpf_kfunc_desc = 48"
  by (simp_all add: struct_bpf_kfunc_desc_def place_def align_up_def)

definition struct_bpf_kfunc_desc_tab :: ctype where
  "struct_bpf_kfunc_desc_tab = CStruct [
     Member ''descs'' (CArray struct_bpf_kfunc_desc 256), Member ''nr_descs'' (CInt 4)]"

lemma layout_struct_bpf_kfunc_desc_tab [simp]: "cwf struct_bpf_kfunc_desc_tab" "calign struct_bpf_kfunc_desc_tab = 8" "csize struct_bpf_kfunc_desc_tab = 12296"
  by (simp_all add: struct_bpf_kfunc_desc_tab_def place_def align_up_def)

definition type_local_t :: ctype where
  "type_local_t = CStruct [
     Member ''a'' type_atomic64_t]"

lemma layout_type_local_t [simp]: "cwf type_local_t" "calign type_local_t = 8" "csize type_local_t = 8"
  by (simp_all add: type_local_t_def place_def align_up_def)

definition type_local64_t :: ctype where
  "type_local64_t = CStruct [
     Member ''a'' type_local_t]"

lemma layout_type_local64_t [simp]: "cwf type_local64_t" "calign type_local64_t = 8" "csize type_local64_t = 8"
  by (simp_all add: type_local64_t_def place_def align_up_def)

definition type_u64_stats_t :: ctype where
  "type_u64_stats_t = CStruct [
     Member ''v'' type_local64_t]"

lemma layout_type_u64_stats_t [simp]: "cwf type_u64_stats_t" "calign type_u64_stats_t = 8" "csize type_u64_stats_t = 8"
  by (simp_all add: type_u64_stats_t_def place_def align_up_def)

definition struct_u64_stats_sync :: ctype where
  "struct_u64_stats_sync = CStruct []"

lemma layout_struct_u64_stats_sync [simp]: "cwf struct_u64_stats_sync" "calign struct_u64_stats_sync = 1" "csize struct_u64_stats_sync = 0"
  by (simp_all add: struct_u64_stats_sync_def place_def align_up_def)

definition struct_bpf_prog_stats :: ctype where
  "struct_bpf_prog_stats = CStruct [
     Member ''cnt'' type_u64_stats_t, Member ''nsecs'' type_u64_stats_t,
     Member ''misses'' type_u64_stats_t, Member ''syncp'' struct_u64_stats_sync, Bits '''' 8 64]"

lemma layout_struct_bpf_prog_stats [simp]: "cwf struct_bpf_prog_stats" "calign struct_bpf_prog_stats = 8" "csize struct_bpf_prog_stats = 32"
  by (simp_all add: struct_bpf_prog_stats_def place_def align_up_def)

definition struct_bpf_iter_seq_info :: ctype where
  "struct_bpf_iter_seq_info = CStruct [
     Member ''seq_ops'' CPtr, Member ''init_seq_private'' CPtr, Member ''fini_seq_private'' CPtr,
     Member ''seq_priv_size'' (CInt 4)]"

lemma layout_struct_bpf_iter_seq_info [simp]: "cwf struct_bpf_iter_seq_info" "calign struct_bpf_iter_seq_info = 8" "csize struct_bpf_iter_seq_info = 32"
  by (simp_all add: struct_bpf_iter_seq_info_def place_def align_up_def)

definition struct_btf_type :: ctype where
  "struct_btf_type = CStruct [
     Member ''name_off'' (CInt 4), Member ''info'' (CInt 4), Member '''' (CUnion [
       Member ''size'' (CInt 4), Member ''type'' (CInt 4)])]"

lemma layout_struct_btf_type [simp]: "cwf struct_btf_type" "calign struct_btf_type = 4" "csize struct_btf_type = 12"
  by (simp_all add: struct_btf_type_def place_def align_up_def)

definition struct_elf64_hdr :: ctype where
  "struct_elf64_hdr = CStruct [
     Member ''e_ident'' (CArray (CInt 1) 16), Member ''e_type'' (CInt 2),
     Member ''e_machine'' (CInt 2), Member ''e_version'' (CInt 4), Member ''e_entry'' (CInt 8),
     Member ''e_phoff'' (CInt 8), Member ''e_shoff'' (CInt 8), Member ''e_flags'' (CInt 4),
     Member ''e_ehsize'' (CInt 2), Member ''e_phentsize'' (CInt 2), Member ''e_phnum'' (CInt 2),
     Member ''e_shentsize'' (CInt 2), Member ''e_shnum'' (CInt 2), Member ''e_shstrndx'' (CInt 2)]"

lemma layout_struct_elf64_hdr [simp]: "cwf struct_elf64_hdr" "calign struct_elf64_hdr = 8" "csize struct_elf64_hdr = 64"
  by (simp_all add: struct_elf64_hdr_def place_def align_up_def)

definition struct_elf64_shdr :: ctype where
  "struct_elf64_shdr = CStruct [
     Member ''sh_name'' (CInt 4), Member ''sh_type'' (CInt 4), Member ''sh_flags'' (CInt 8),
     Member ''sh_addr'' (CInt 8), Member ''sh_offset'' (CInt 8), Member ''sh_size'' (CInt 8),
     Member ''sh_link'' (CInt 4), Member ''sh_info'' (CInt 4), Member ''sh_addralign'' (CInt 8),
     Member ''sh_entsize'' (CInt 8)]"

lemma layout_struct_elf64_shdr [simp]: "cwf struct_elf64_shdr" "calign struct_elf64_shdr = 8" "csize struct_elf64_shdr = 64"
  by (simp_all add: struct_elf64_shdr_def place_def align_up_def)

definition type_kernel_cap_t :: ctype where
  "type_kernel_cap_t = CStruct [
     Member ''val'' (CInt 8)]"

lemma layout_type_kernel_cap_t [simp]: "cwf type_kernel_cap_t" "calign type_kernel_cap_t = 8" "csize type_kernel_cap_t = 8"
  by (simp_all add: type_kernel_cap_t_def place_def align_up_def)

definition struct_cred :: ctype where
  "struct_cred = CStruct [
     Member ''usage'' type_atomic64_t, Member ''uid'' type_kuid_t, Member ''gid'' type_kgid_t,
     Member ''suid'' type_kuid_t, Member ''sgid'' type_kgid_t, Member ''euid'' type_kuid_t,
     Member ''egid'' type_kgid_t, Member ''fsuid'' type_kuid_t, Member ''fsgid'' type_kgid_t,
     Member ''securebits'' (CInt 4), Member ''cap_inheritable'' type_kernel_cap_t,
     Member ''cap_permitted'' type_kernel_cap_t, Member ''cap_effective'' type_kernel_cap_t,
     Member ''cap_bset'' type_kernel_cap_t, Member ''cap_ambient'' type_kernel_cap_t,
     Member ''jit_keyring'' (CInt 1), Member ''session_keyring'' CPtr,
     Member ''process_keyring'' CPtr, Member ''thread_keyring'' CPtr,
     Member ''request_key_auth'' CPtr, Member ''security'' CPtr, Member ''user'' CPtr,
     Member ''user_ns'' CPtr, Member ''ucounts'' CPtr, Member ''group_info'' CPtr,
     Member '''' (CUnion [
       Member ''non_rcu'' (CInt 4), Member ''rcu'' struct_callback_head])]"

lemma layout_struct_cred [simp]: "cwf struct_cred" "calign struct_cred = 8" "csize struct_cred = 184"
  by (simp_all add: struct_cred_def place_def align_up_def)

definition struct_uid_gid_extent :: ctype where
  "struct_uid_gid_extent = CStruct [
     Member ''first'' (CInt 4), Member ''lower_first'' (CInt 4), Member ''count'' (CInt 4)]"

lemma layout_struct_uid_gid_extent [simp]: "cwf struct_uid_gid_extent" "calign struct_uid_gid_extent = 4" "csize struct_uid_gid_extent = 12"
  by (simp_all add: struct_uid_gid_extent_def place_def align_up_def)

definition struct_uid_gid_map :: ctype where
  "struct_uid_gid_map = CStruct [
     Member ''nr_extents'' (CInt 4), Member '''' (CUnion [
       Member ''extent'' (CArray struct_uid_gid_extent 5), Member '''' (CStruct [
         Member ''forward'' CPtr, Member ''reverse'' CPtr])])]"

lemma layout_struct_uid_gid_map [simp]: "cwf struct_uid_gid_map" "calign struct_uid_gid_map = 8" "csize struct_uid_gid_map = 72"
  by (simp_all add: struct_uid_gid_map_def place_def align_up_def)

definition struct_user_namespace :: ctype where
  "struct_user_namespace = CStruct [
     Member ''uid_map'' struct_uid_gid_map, Member ''gid_map'' struct_uid_gid_map,
     Member ''projid_map'' struct_uid_gid_map, Member ''parent'' CPtr, Member ''level'' (CInt 4),
     Member ''owner'' type_kuid_t, Member ''group'' type_kgid_t, Member ''ns'' struct_ns_common,
     Member ''flags'' (CInt 8), Member ''parent_could_setfcap'' (CInt 1),
     Member ''keyring_name_list'' struct_list_head, Member ''user_keyring_register'' CPtr,
     Member ''keyring_sem'' struct_rw_semaphore, Member ''persistent_keyring_register'' CPtr,
     Member ''work'' struct_work_struct, Member ''set'' struct_ctl_table_set,
     Member ''sysctls'' CPtr, Member ''ucounts'' CPtr,
     Member ''ucount_max'' (CArray (CInt 8) 12), Member ''rlimit_max'' (CArray (CInt 8) 4),
     Member ''binfmt_misc'' CPtr]"

lemma layout_struct_user_namespace [simp]: "cwf struct_user_namespace" "calign struct_user_namespace = 8" "csize struct_user_namespace = 640"
  by (simp_all add: struct_user_namespace_def place_def align_up_def)

definition struct_nsproxy :: ctype where
  "struct_nsproxy = CStruct [
     Member ''count'' struct_refcount_struct, Member ''uts_ns'' CPtr, Member ''ipc_ns'' CPtr,
     Member ''mnt_ns'' CPtr, Member ''pid_ns_for_children'' CPtr, Member ''net_ns'' CPtr,
     Member ''time_ns'' CPtr, Member ''time_ns_for_children'' CPtr, Member ''cgroup_ns'' CPtr]"

lemma layout_struct_nsproxy [simp]: "cwf struct_nsproxy" "calign struct_nsproxy = 8" "csize struct_nsproxy = 72"
  by (simp_all add: struct_nsproxy_def place_def align_up_def)

definition struct_module_kobject :: ctype where
  "struct_module_kobject = CStruct [
     Member ''kobj'' struct_kobject, Member ''mod'' CPtr, Member ''drivers_dir'' CPtr,
     Member ''mp'' CPtr, Member ''kobj_completion'' CPtr]"

lemma layout_struct_module_kobject [simp]: "cwf struct_module_kobject" "calign struct_module_kobject = 8" "csize struct_module_kobject = 96"
  by (simp_all add: struct_module_kobject_def place_def align_up_def)

definition struct_mod_tree_node :: ctype where
  "struct_mod_tree_node = CStruct [
     Member ''mod'' CPtr, Member ''node'' struct_latch_tree_node]"

lemma layout_struct_mod_tree_node [simp]: "cwf struct_mod_tree_node" "calign struct_mod_tree_node = 8" "csize struct_mod_tree_node = 56"
  by (simp_all add: struct_mod_tree_node_def place_def align_up_def)

definition struct_module_memory :: ctype where
  "struct_module_memory = CStruct [
     Member ''base'' CPtr, Member ''size'' (CInt 4), Member ''mtn'' struct_mod_tree_node]"

lemma layout_struct_module_memory [simp]: "cwf struct_module_memory" "calign struct_module_memory = 8" "csize struct_module_memory = 72"
  by (simp_all add: struct_module_memory_def place_def align_up_def)

definition struct_mod_arch_specific :: ctype where
  "struct_mod_arch_specific = CStruct [
     Member ''num_orcs'' (CInt 4), Member ''orc_unwind_ip'' CPtr, Member ''orc_unwind'' CPtr]"

lemma layout_struct_mod_arch_specific [simp]: "cwf struct_mod_arch_specific" "calign struct_mod_arch_specific = 8" "csize struct_mod_arch_specific = 24"
  by (simp_all add: struct_mod_arch_specific_def place_def align_up_def)

definition struct_mod_kallsyms :: ctype where
  "struct_mod_kallsyms = CStruct [
     Member ''symtab'' CPtr, Member ''num_symtab'' (CInt 4), Member ''strtab'' CPtr,
     Member ''typetab'' CPtr]"

lemma layout_struct_mod_kallsyms [simp]: "cwf struct_mod_kallsyms" "calign struct_mod_kallsyms = 8" "csize struct_mod_kallsyms = 32"
  by (simp_all add: struct_mod_kallsyms_def place_def align_up_def)

definition struct__ddebug_info :: ctype where
  "struct__ddebug_info = CStruct [
     Member ''descs'' CPtr, Member ''classes'' CPtr, Member ''num_descs'' (CInt 4),
     Member ''num_classes'' (CInt 4)]"

lemma layout_struct__ddebug_info [simp]: "cwf struct__ddebug_info" "calign struct__ddebug_info = 8" "csize struct__ddebug_info = 24"
  by (simp_all add: struct__ddebug_info_def place_def align_up_def)

definition struct_module :: ctype where
  "struct_module = CStruct [
     Member ''state'' (CInt 4), Member ''list'' struct_list_head,
     Member ''name'' (CArray (CInt 1) 56), Member ''mkobj'' struct_module_kobject,
     Member ''modinfo_attrs'' CPtr, Member ''version'' CPtr, Member ''srcversion'' CPtr,
     Member ''holders_dir'' CPtr, Member ''syms'' CPtr, Member ''crcs'' CPtr,
     Member ''num_syms'' (CInt 4), Member ''param_lock'' struct_mutex, Member ''kp'' CPtr,
     Member ''num_kp'' (CInt 4), Member ''num_gpl_syms'' (CInt 4), Member ''gpl_syms'' CPtr,
     Member ''gpl_crcs'' CPtr, Member ''using_gplonly_symbols'' (CInt 1),
     Member ''async_probe_requested'' (CInt 1), Member ''num_exentries'' (CInt 4),
     Member ''extable'' CPtr, Member ''init'' CPtr,
     Member ''mem'' (CArray struct_module_memory 7), Member ''arch'' struct_mod_arch_specific,
     Member ''taints'' (CInt 8), Member ''num_bugs'' (CInt 4),
     Member ''bug_list'' struct_list_head, Member ''bug_table'' CPtr, Member ''kallsyms'' CPtr,
     Member ''core_kallsyms'' struct_mod_kallsyms, Member ''sect_attrs'' CPtr,
     Member ''notes_attrs'' CPtr, Member ''args'' CPtr, Member ''percpu'' CPtr,
     Member ''percpu_size'' (CInt 4), Member ''noinstr_text_start'' CPtr,
     Member ''noinstr_text_size'' (CInt 4), Member ''num_tracepoints'' (CInt 4),
     Member ''tracepoints_ptrs'' CPtr, Member ''num_srcu_structs'' (CInt 4),
     Member ''srcu_struct_ptrs'' CPtr, Member ''num_bpf_raw_events'' (CInt 4),
     Member ''bpf_raw_events'' CPtr, Member ''btf_data_size'' (CInt 4),
     Member ''btf_base_data_size'' (CInt 4), Member ''btf_data'' CPtr,
     Member ''btf_base_data'' CPtr, Member ''jump_entries'' CPtr,
     Member ''num_jump_entries'' (CInt 4), Member ''num_trace_bprintk_fmt'' (CInt 4),
     Member ''trace_bprintk_fmt_start'' CPtr, Member ''trace_events'' CPtr,
     Member ''num_trace_events'' (CInt 4), Member ''trace_evals'' CPtr,
     Member ''num_trace_evals'' (CInt 4), Member ''num_ftrace_callsites'' (CInt 4),
     Member ''ftrace_callsites'' CPtr, Member ''kprobes_text_start'' CPtr,
     Member ''kprobes_text_size'' (CInt 4), Member ''kprobe_blacklist'' CPtr,
     Member ''num_kprobe_blacklist'' (CInt 4), Member ''num_static_call_sites'' (CInt 4),
     Member ''static_call_sites'' CPtr, Member ''printk_index_size'' (CInt 4),
     Member ''printk_index_start'' CPtr, Member ''source_list'' struct_list_head,
     Member ''target_list'' struct_list_head, Member ''exit'' CPtr,
     Member ''refcnt'' type_atomic_t, Member ''dyndbg_info'' struct__ddebug_info, Bits '''' 8 64,
     Bits '''' 8 64, Bits '''' 8 64, Bits '''' 8 64, Bits '''' 8 64]"

lemma layout_struct_module [simp]: "cwf struct_module" "calign struct_module = 8" "csize struct_module = 1280"
  by (simp_all add: struct_module_def place_def align_up_def)

text \<open>Every structure of this theory, by name.\<close>

definition verifier_types :: "(string \<times> ctype) list" where
  "verifier_types = [
     (''struct_btf_mod_pair'', struct_btf_mod_pair),
     (''struct_bpf_verifier_log'', struct_bpf_verifier_log),
     (''struct_bpf_subprog_arg_info'', struct_bpf_subprog_arg_info),
     (''struct_bpf_subprog_info'', struct_bpf_subprog_info),
     (''struct_bpf_id_pair'', struct_bpf_id_pair), (''struct_bpf_idmap'', struct_bpf_idmap),
     (''struct_bpf_idset'', struct_bpf_idset),
     (''struct_backtrack_state'', struct_backtrack_state), (''type_sockptr_t'', type_sockptr_t),
     (''struct_tnum'', struct_tnum), (''struct_bpf_reg_state'', struct_bpf_reg_state),
     (''struct_bpf_verifier_env'', struct_bpf_verifier_env),
     (''struct_bpf_func_proto'', struct_bpf_func_proto),
     (''struct_bpf_prog_info'', struct_bpf_prog_info),
     (''struct_bpf_map_info'', struct_bpf_map_info),
     (''struct_bpf_link_info'', struct_bpf_link_info), (''struct_bpf_array'', struct_bpf_array),
     (''struct_bpf_ringbuf_map'', struct_bpf_ringbuf_map),
     (''struct_btf_func_model'', struct_btf_func_model),
     (''struct_bpf_trampoline'', struct_bpf_trampoline),
     (''struct_percpu_ref'', struct_percpu_ref), (''struct_cgroup_bpf'', struct_cgroup_bpf),
     (''struct_bpf_attach_target_info'', struct_bpf_attach_target_info),
     (''struct_bpf_ctx_arg_aux'', struct_bpf_ctx_arg_aux),
     (''struct_bpf_iter_reg'', struct_bpf_iter_reg),
     (''struct_bpf_kfunc_desc'', struct_bpf_kfunc_desc),
     (''struct_bpf_kfunc_desc_tab'', struct_bpf_kfunc_desc_tab),
     (''type_local_t'', type_local_t), (''type_local64_t'', type_local64_t),
     (''type_u64_stats_t'', type_u64_stats_t),
     (''struct_u64_stats_sync'', struct_u64_stats_sync),
     (''struct_bpf_prog_stats'', struct_bpf_prog_stats),
     (''struct_bpf_iter_seq_info'', struct_bpf_iter_seq_info),
     (''struct_btf_type'', struct_btf_type), (''struct_elf64_hdr'', struct_elf64_hdr),
     (''struct_elf64_shdr'', struct_elf64_shdr), (''type_kernel_cap_t'', type_kernel_cap_t),
     (''struct_cred'', struct_cred), (''struct_uid_gid_extent'', struct_uid_gid_extent),
     (''struct_uid_gid_map'', struct_uid_gid_map),
     (''struct_user_namespace'', struct_user_namespace), (''struct_nsproxy'', struct_nsproxy),
     (''struct_module_kobject'', struct_module_kobject),
     (''struct_mod_tree_node'', struct_mod_tree_node),
     (''struct_module_memory'', struct_module_memory),
     (''struct_mod_arch_specific'', struct_mod_arch_specific),
     (''struct_mod_kallsyms'', struct_mod_kallsyms),
     (''struct__ddebug_info'', struct__ddebug_info), (''struct_module'', struct_module)]"

lemma verifier_types_wf: "list_all (\<lambda>(x, t). cwf t) verifier_types"
  by (simp add: verifier_types_def)

end
