(* ===== verification/Kernel_Packet.thy ===== *)
theory Kernel_Packet
  imports Kernel_Verifier
begin

text \<open>
  The path of a packet around the hook (agent/vmlinux.h): the other headers it may carry, the
  queues, neighbour and routing tables it passes, and the socket views of the helpers.
\<close>

definition struct_ipv6hdr :: ctype where
  "struct_ipv6hdr = CStruct [
     Bits ''priority'' 1 4, Bits ''version'' 1 4, Member ''flow_lbl'' (CArray (CInt 1) 3),
     Member ''payload_len'' (CInt 2), Member ''nexthdr'' (CInt 1), Member ''hop_limit'' (CInt 1),
     Member '''' (CUnion [
       Member '''' (CStruct [
         Member ''saddr'' struct_in6_addr, Member ''daddr'' struct_in6_addr]),
       Member ''addrs'' (CStruct [
         Member ''saddr'' struct_in6_addr, Member ''daddr'' struct_in6_addr])])]"

lemma layout_struct_ipv6hdr [simp]: "cwf struct_ipv6hdr" "calign struct_ipv6hdr = 4" "csize struct_ipv6hdr = 40"
  by (simp_all add: struct_ipv6hdr_def place_def align_up_def)

definition struct_icmphdr :: ctype where
  "struct_icmphdr = CStruct [
     Member ''type'' (CInt 1), Member ''code'' (CInt 1), Member ''checksum'' (CInt 2),
     Member ''un'' (CUnion [
       Member ''echo'' (CStruct [
         Member ''id'' (CInt 2), Member ''sequence'' (CInt 2)]), Member ''gateway'' (CInt 4),
       Member ''frag'' (CStruct [
         Member ''__unused'' (CInt 2), Member ''mtu'' (CInt 2)]),
       Member ''reserved'' (CArray (CInt 1) 4)])]"

lemma layout_struct_icmphdr [simp]: "cwf struct_icmphdr" "calign struct_icmphdr = 4" "csize struct_icmphdr = 8"
  by (simp_all add: struct_icmphdr_def place_def align_up_def)

definition struct_sk_filter :: ctype where
  "struct_sk_filter = CStruct [
     Member ''refcnt'' struct_refcount_struct, Member ''rcu'' struct_callback_head,
     Member ''prog'' CPtr]"

lemma layout_struct_sk_filter [simp]: "cwf struct_sk_filter" "calign struct_sk_filter = 8" "csize struct_sk_filter = 32"
  by (simp_all add: struct_sk_filter_def place_def align_up_def)

definition struct_bpf_sock :: ctype where
  "struct_bpf_sock = CStruct [
     Member ''bound_dev_if'' (CInt 4), Member ''family'' (CInt 4), Member ''type'' (CInt 4),
     Member ''protocol'' (CInt 4), Member ''mark'' (CInt 4), Member ''priority'' (CInt 4),
     Member ''src_ip4'' (CInt 4), Member ''src_ip6'' (CArray (CInt 4) 4),
     Member ''src_port'' (CInt 4), Member ''dst_port'' (CInt 2), Member ''dst_ip4'' (CInt 4),
     Member ''dst_ip6'' (CArray (CInt 4) 4), Member ''state'' (CInt 4),
     Member ''rx_queue_mapping'' (CInt 4)]"

lemma layout_struct_bpf_sock [simp]: "cwf struct_bpf_sock" "calign struct_bpf_sock = 4" "csize struct_bpf_sock = 80"
  by (simp_all add: struct_bpf_sock_def place_def align_up_def)

definition struct_bpf_sock_tuple :: ctype where
  "struct_bpf_sock_tuple = CStruct [
     Member '''' (CUnion [
       Member ''ipv4'' (CStruct [
         Member ''saddr'' (CInt 4), Member ''daddr'' (CInt 4), Member ''sport'' (CInt 2),
         Member ''dport'' (CInt 2)]), Member ''ipv6'' (CStruct [
         Member ''saddr'' (CArray (CInt 4) 4), Member ''daddr'' (CArray (CInt 4) 4),
         Member ''sport'' (CInt 2), Member ''dport'' (CInt 2)])])]"

lemma layout_struct_bpf_sock_tuple [simp]: "cwf struct_bpf_sock_tuple" "calign struct_bpf_sock_tuple = 4" "csize struct_bpf_sock_tuple = 36"
  by (simp_all add: struct_bpf_sock_tuple_def place_def align_up_def)

definition struct_bpf_tcp_sock :: ctype where
  "struct_bpf_tcp_sock = CStruct [
     Member ''snd_cwnd'' (CInt 4), Member ''srtt_us'' (CInt 4), Member ''rtt_min'' (CInt 4),
     Member ''snd_ssthresh'' (CInt 4), Member ''rcv_nxt'' (CInt 4), Member ''snd_nxt'' (CInt 4),
     Member ''snd_una'' (CInt 4), Member ''mss_cache'' (CInt 4), Member ''ecn_flags'' (CInt 4),
     Member ''rate_delivered'' (CInt 4), Member ''rate_interval_us'' (CInt 4),
     Member ''packets_out'' (CInt 4), Member ''retrans_out'' (CInt 4),
     Member ''total_retrans'' (CInt 4), Member ''segs_in'' (CInt 4),
     Member ''data_segs_in'' (CInt 4), Member ''segs_out'' (CInt 4),
     Member ''data_segs_out'' (CInt 4), Member ''lost_out'' (CInt 4),
     Member ''sacked_out'' (CInt 4), Member ''bytes_received'' (CInt 8),
     Member ''bytes_acked'' (CInt 8), Member ''dsack_dups'' (CInt 4),
     Member ''delivered'' (CInt 4), Member ''delivered_ce'' (CInt 4),
     Member ''icsk_retransmits'' (CInt 4)]"

lemma layout_struct_bpf_tcp_sock [simp]: "cwf struct_bpf_tcp_sock" "calign struct_bpf_tcp_sock = 8" "csize struct_bpf_tcp_sock = 112"
  by (simp_all add: struct_bpf_tcp_sock_def place_def align_up_def)

definition struct_bpf_xdp_sock :: ctype where
  "struct_bpf_xdp_sock = CStruct [
     Member ''queue_id'' (CInt 4)]"

lemma layout_struct_bpf_xdp_sock [simp]: "cwf struct_bpf_xdp_sock" "calign struct_bpf_xdp_sock = 4" "csize struct_bpf_xdp_sock = 4"
  by (simp_all add: struct_bpf_xdp_sock_def place_def align_up_def)

definition struct_bpf_fib_lookup :: ctype where
  "struct_bpf_fib_lookup = CStruct [
     Member ''family'' (CInt 1), Member ''l4_protocol'' (CInt 1), Member ''sport'' (CInt 2),
     Member ''dport'' (CInt 2), Member '''' (CUnion [
       Member ''tot_len'' (CInt 2), Member ''mtu_result'' (CInt 2)]),
     Member ''ifindex'' (CInt 4), Member '''' (CUnion [
       Member ''tos'' (CInt 1), Member ''flowinfo'' (CInt 4), Member ''rt_metric'' (CInt 4)]),
     Member '''' (CUnion [
       Member ''ipv4_src'' (CInt 4), Member ''ipv6_src'' (CArray (CInt 4) 4)]),
     Member '''' (CUnion [
       Member ''ipv4_dst'' (CInt 4), Member ''ipv6_dst'' (CArray (CInt 4) 4)]),
     Member '''' (CUnion [
       Member '''' (CStruct [
         Member ''h_vlan_proto'' (CInt 2), Member ''h_vlan_TCI'' (CInt 2)]),
       Member ''tbid'' (CInt 4)]), Member '''' (CUnion [
       Member '''' (CStruct [
         Member ''mark'' (CInt 4)]), Member '''' (CStruct [
         Member ''smac'' (CArray (CInt 1) 6), Member ''dmac'' (CArray (CInt 1) 6)])])]"

lemma layout_struct_bpf_fib_lookup [simp]: "cwf struct_bpf_fib_lookup" "calign struct_bpf_fib_lookup = 4" "csize struct_bpf_fib_lookup = 64"
  by (simp_all add: struct_bpf_fib_lookup_def place_def align_up_def)

definition struct_bpf_tunnel_key :: ctype where
  "struct_bpf_tunnel_key = CStruct [
     Member ''tunnel_id'' (CInt 4), Member '''' (CUnion [
       Member ''remote_ipv4'' (CInt 4), Member ''remote_ipv6'' (CArray (CInt 4) 4)]),
     Member ''tunnel_tos'' (CInt 1), Member ''tunnel_ttl'' (CInt 1), Member '''' (CUnion [
       Member ''tunnel_ext'' (CInt 2), Member ''tunnel_flags'' (CInt 2)]),
     Member ''tunnel_label'' (CInt 4), Member '''' (CUnion [
       Member ''local_ipv4'' (CInt 4), Member ''local_ipv6'' (CArray (CInt 4) 4)])]"

lemma layout_struct_bpf_tunnel_key [simp]: "cwf struct_bpf_tunnel_key" "calign struct_bpf_tunnel_key = 4" "csize struct_bpf_tunnel_key = 44"
  by (simp_all add: struct_bpf_tunnel_key_def place_def align_up_def)

definition struct_xdp_buff :: ctype where
  "struct_xdp_buff = CStruct [
     Member ''data'' CPtr, Member ''data_end'' CPtr, Member ''data_meta'' CPtr,
     Member ''data_hard_start'' CPtr, Member ''rxq'' CPtr, Member ''txq'' CPtr,
     Member ''frame_sz'' (CInt 4), Member ''flags'' (CInt 4)]"

lemma layout_struct_xdp_buff [simp]: "cwf struct_xdp_buff" "calign struct_xdp_buff = 8" "csize struct_xdp_buff = 56"
  by (simp_all add: struct_xdp_buff_def place_def align_up_def)

definition struct_xdp_md :: ctype where
  "struct_xdp_md = CStruct [
     Member ''data'' (CInt 4), Member ''data_end'' (CInt 4), Member ''data_meta'' (CInt 4),
     Member ''ingress_ifindex'' (CInt 4), Member ''rx_queue_index'' (CInt 4),
     Member ''egress_ifindex'' (CInt 4)]"

lemma layout_struct_xdp_md [simp]: "cwf struct_xdp_md" "calign struct_xdp_md = 4" "csize struct_xdp_md = 24"
  by (simp_all add: struct_xdp_md_def place_def align_up_def)

definition struct_qdisc_skb_head :: ctype where
  "struct_qdisc_skb_head = CStruct [
     Member ''head'' CPtr, Member ''tail'' CPtr, Member ''qlen'' (CInt 4),
     Member ''lock'' struct_spinlock]"

lemma layout_struct_qdisc_skb_head [simp]: "cwf struct_qdisc_skb_head" "calign struct_qdisc_skb_head = 8" "csize struct_qdisc_skb_head = 24"
  by (simp_all add: struct_qdisc_skb_head_def place_def align_up_def)

definition struct_gnet_stats_basic_sync :: ctype where
  "struct_gnet_stats_basic_sync = CStruct [
     Member ''bytes'' type_u64_stats_t, Member ''packets'' type_u64_stats_t,
     Member ''syncp'' struct_u64_stats_sync]"

lemma layout_struct_gnet_stats_basic_sync [simp]: "cwf struct_gnet_stats_basic_sync" "calign struct_gnet_stats_basic_sync = 8" "csize struct_gnet_stats_basic_sync = 16"
  by (simp_all add: struct_gnet_stats_basic_sync_def place_def align_up_def)

definition struct_gnet_stats_queue :: ctype where
  "struct_gnet_stats_queue = CStruct [
     Member ''qlen'' (CInt 4), Member ''backlog'' (CInt 4), Member ''drops'' (CInt 4),
     Member ''requeues'' (CInt 4), Member ''overlimits'' (CInt 4)]"

lemma layout_struct_gnet_stats_queue [simp]: "cwf struct_gnet_stats_queue" "calign struct_gnet_stats_queue = 4" "csize struct_gnet_stats_queue = 20"
  by (simp_all add: struct_gnet_stats_queue_def place_def align_up_def)

definition struct_Qdisc :: ctype where
  "struct_Qdisc = CStruct [
     Member ''enqueue'' CPtr, Member ''dequeue'' CPtr, Member ''flags'' (CInt 4),
     Member ''limit'' (CInt 4), Member ''ops'' CPtr, Member ''stab'' CPtr,
     Member ''hash'' struct_hlist_node, Member ''handle'' (CInt 4), Member ''parent'' (CInt 4),
     Member ''dev_queue'' CPtr, Member ''rate_est'' CPtr, Member ''cpu_bstats'' CPtr,
     Member ''cpu_qstats'' CPtr, Member ''pad'' (CInt 4),
     Member ''refcnt'' struct_refcount_struct, Bits '''' 8 64, Bits '''' 8 64, Bits '''' 8 64,
     Member ''gso_skb'' struct_sk_buff_head, Member ''q'' struct_qdisc_skb_head,
     Member ''bstats'' struct_gnet_stats_basic_sync, Member ''qstats'' struct_gnet_stats_queue,
     Member ''owner'' (CInt 4), Member ''state'' (CInt 8), Member ''state2'' (CInt 8),
     Member ''next_sched'' CPtr, Member ''skb_bad_txq'' struct_sk_buff_head, Bits '''' 8 64,
     Bits '''' 8 64, Bits '''' 8 64, Bits '''' 8 64, Bits '''' 8 64, Bits '''' 8 64,
     Bits '''' 8 64, Member ''busylock'' struct_spinlock, Member ''seqlock'' struct_spinlock,
     Member ''rcu'' struct_callback_head, Member ''dev_tracker'' type_netdevice_tracker,
     Member ''root_lock_key'' struct_lock_class_key, Bits '''' 8 64, Bits '''' 8 64,
     Bits '''' 8 64, Bits '''' 8 64, Bits '''' 8 64, Member ''privdata'' (CArray (CInt 8) 0)]"

lemma layout_struct_Qdisc [simp]: "cwf struct_Qdisc" "calign struct_Qdisc = 8" "csize struct_Qdisc = 384"
  by (simp_all add: struct_Qdisc_def place_def align_up_def)

definition struct_Qdisc_ops :: ctype where
  "struct_Qdisc_ops = CStruct [
     Member ''next'' CPtr, Member ''cl_ops'' CPtr, Member ''id'' (CArray (CInt 1) 16),
     Member ''priv_size'' (CInt 4), Member ''static_flags'' (CInt 4), Member ''enqueue'' CPtr,
     Member ''dequeue'' CPtr, Member ''peek'' CPtr, Member ''init'' CPtr, Member ''reset'' CPtr,
     Member ''destroy'' CPtr, Member ''change'' CPtr, Member ''attach'' CPtr,
     Member ''change_tx_queue_len'' CPtr, Member ''change_real_num_tx'' CPtr,
     Member ''dump'' CPtr, Member ''dump_stats'' CPtr, Member ''ingress_block_set'' CPtr,
     Member ''egress_block_set'' CPtr, Member ''ingress_block_get'' CPtr,
     Member ''egress_block_get'' CPtr, Member ''owner'' CPtr]"

lemma layout_struct_Qdisc_ops [simp]: "cwf struct_Qdisc_ops" "calign struct_Qdisc_ops = 8" "csize struct_Qdisc_ops = 176"
  by (simp_all add: struct_Qdisc_ops_def place_def align_up_def)

definition struct_xdp_mem_info :: ctype where
  "struct_xdp_mem_info = CStruct [
     Member ''type'' (CInt 4), Member ''id'' (CInt 4)]"

lemma layout_struct_xdp_mem_info [simp]: "cwf struct_xdp_mem_info" "calign struct_xdp_mem_info = 4" "csize struct_xdp_mem_info = 8"
  by (simp_all add: struct_xdp_mem_info_def place_def align_up_def)

definition struct_xdp_rxq_info :: ctype where
  "struct_xdp_rxq_info = CStruct [
     Member ''dev'' CPtr, Member ''queue_index'' (CInt 4), Member ''reg_state'' (CInt 4),
     Member ''mem'' struct_xdp_mem_info, Member ''napi_id'' (CInt 4),
     Member ''frag_size'' (CInt 4), Bits '''' 8 64, Bits '''' 8 64, Bits '''' 8 64,
     Bits '''' 8 64]"

lemma layout_struct_xdp_rxq_info [simp]: "cwf struct_xdp_rxq_info" "calign struct_xdp_rxq_info = 8" "csize struct_xdp_rxq_info = 64"
  by (simp_all add: struct_xdp_rxq_info_def place_def align_up_def)

definition struct_netdev_rx_queue :: ctype where
  "struct_netdev_rx_queue = CStruct [
     Member ''xdp_rxq'' struct_xdp_rxq_info, Member ''rps_map'' CPtr,
     Member ''rps_flow_table'' CPtr, Member ''kobj'' struct_kobject, Member ''dev'' CPtr,
     Member ''dev_tracker'' type_netdevice_tracker, Member ''pool'' CPtr, Member ''napi'' CPtr,
     Bits '''' 8 64, Bits '''' 8 64, Bits '''' 8 64]"

lemma layout_struct_netdev_rx_queue [simp]: "cwf struct_netdev_rx_queue" "calign struct_netdev_rx_queue = 8" "csize struct_netdev_rx_queue = 192"
  by (simp_all add: struct_netdev_rx_queue_def place_def align_up_def)

definition struct_gro_list :: ctype where
  "struct_gro_list = CStruct [
     Member ''list'' struct_list_head, Member ''count'' (CInt 4)]"

lemma layout_struct_gro_list [simp]: "cwf struct_gro_list" "calign struct_gro_list = 8" "csize struct_gro_list = 24"
  by (simp_all add: struct_gro_list_def place_def align_up_def)

definition struct_napi_struct :: ctype where
  "struct_napi_struct = CStruct [
     Member ''poll_list'' struct_list_head, Member ''state'' (CInt 8),
     Member ''weight'' (CInt 4), Member ''defer_hard_irqs_count'' (CInt 4),
     Member ''gro_bitmask'' (CInt 8), Member ''poll'' CPtr, Member ''poll_owner'' (CInt 4),
     Member ''list_owner'' (CInt 4), Member ''dev'' CPtr,
     Member ''gro_hash'' (CArray struct_gro_list 8), Member ''skb'' CPtr,
     Member ''rx_list'' struct_list_head, Member ''rx_count'' (CInt 4),
     Member ''napi_id'' (CInt 4), Member ''timer'' struct_hrtimer, Member ''thread'' CPtr,
     Member ''dev_list'' struct_list_head, Member ''napi_hash_node'' struct_hlist_node,
     Member ''irq'' (CInt 4)]"

lemma layout_struct_napi_struct [simp]: "cwf struct_napi_struct" "calign struct_napi_struct = 8" "csize struct_napi_struct = 400"
  by (simp_all add: struct_napi_struct_def place_def align_up_def)

definition type_local_lock_t :: ctype where
  "type_local_lock_t = CStruct []"

lemma layout_type_local_lock_t [simp]: "cwf type_local_lock_t" "calign type_local_lock_t = 1" "csize type_local_lock_t = 0"
  by (simp_all add: type_local_lock_t_def place_def align_up_def)

definition struct_netdev_xmit :: ctype where
  "struct_netdev_xmit = CStruct [
     Member ''recursion'' (CInt 2), Member ''more'' (CInt 1), Member ''skip_txqueue'' (CInt 1)]"

lemma layout_struct_netdev_xmit [simp]: "cwf struct_netdev_xmit" "calign struct_netdev_xmit = 2" "csize struct_netdev_xmit = 4"
  by (simp_all add: struct_netdev_xmit_def place_def align_up_def)

definition struct___call_single_node :: ctype where
  "struct___call_single_node = CStruct [
     Member ''llist'' struct_llist_node, Member '''' (CUnion [
       Member ''u_flags'' (CInt 4), Member ''a_flags'' type_atomic_t]), Member ''src'' (CInt 2),
     Member ''dst'' (CInt 2)]"

lemma layout_struct___call_single_node [simp]: "cwf struct___call_single_node" "calign struct___call_single_node = 8" "csize struct___call_single_node = 16"
  by (simp_all add: struct___call_single_node_def place_def align_up_def)

definition struct___call_single_data :: ctype where
  "struct___call_single_data = CStruct [
     Member ''node'' struct___call_single_node, Member ''func'' CPtr, Member ''info'' CPtr]"

lemma layout_struct___call_single_data [simp]: "cwf struct___call_single_data" "calign struct___call_single_data = 8" "csize struct___call_single_data = 32"
  by (simp_all add: struct___call_single_data_def place_def align_up_def)

definition struct_softnet_data :: ctype where
  "struct_softnet_data = CStruct [
     Member ''poll_list'' struct_list_head, Member ''process_queue'' struct_sk_buff_head,
     Member ''process_queue_bh_lock'' type_local_lock_t, Member ''processed'' (CInt 4),
     Member ''time_squeeze'' (CInt 4), Member ''rps_ipi_list'' CPtr,
     Member ''received_rps'' (CInt 4), Member ''in_net_rx_action'' (CInt 1),
     Member ''in_napi_threaded_poll'' (CInt 1), Member ''flow_limit'' CPtr,
     Member ''output_queue'' CPtr, Member ''output_queue_tailp'' CPtr,
     Member ''completion_queue'' CPtr, Member ''xfrm_backlog'' struct_sk_buff_head,
     Member ''xmit'' struct_netdev_xmit, Bits '''' 8 0, Member ''input_queue_head'' (CInt 4),
     Bits '''' 8 64, Bits '''' 8 64, Bits '''' 8 64, Bits '''' 8 64, Bits '''' 8 64,
     Bits '''' 8 64, Bits '''' 8 64, Member ''csd'' struct___call_single_data,
     Member ''rps_ipi_next'' CPtr, Member ''cpu'' (CInt 4), Member ''input_queue_tail'' (CInt 4),
     Member ''input_pkt_queue'' struct_sk_buff_head, Member ''backlog'' struct_napi_struct,
     Bits '''' 8 64, Bits '''' 8 64, Bits '''' 8 64, Bits '''' 8 64, Bits '''' 8 64,
     Member ''dropped'' type_atomic_t, Bits '''' 8 64, Bits '''' 8 64, Bits '''' 8 64,
     Bits '''' 8 64, Bits '''' 8 64, Bits '''' 8 64, Bits '''' 8 64,
     Member ''defer_lock'' struct_spinlock, Member ''defer_count'' (CInt 4),
     Member ''defer_ipi_scheduled'' (CInt 4), Member ''defer_list'' CPtr, Bits '''' 8 64,
     Member ''defer_csd'' struct___call_single_data]"

lemma layout_struct_softnet_data [simp]: "cwf struct_softnet_data" "calign struct_softnet_data = 8" "csize struct_softnet_data = 832"
  by (simp_all add: struct_softnet_data_def place_def align_up_def)

definition struct_neigh_parms :: ctype where
  "struct_neigh_parms = CStruct [
     Member ''net'' type_possible_net_t, Member ''dev'' CPtr,
     Member ''dev_tracker'' type_netdevice_tracker, Member ''list'' struct_list_head,
     Member ''neigh_setup'' CPtr, Member ''tbl'' CPtr, Member ''sysctl_table'' CPtr,
     Member ''dead'' (CInt 4), Member ''refcnt'' struct_refcount_struct,
     Member ''callback_head'' struct_callback_head, Member ''reachable_time'' (CInt 4),
     Member ''qlen'' (CInt 4), Member ''data'' (CArray (CInt 4) 14),
     Member ''data_state'' (CArray (CInt 8) 1)]"

lemma layout_struct_neigh_parms [simp]: "cwf struct_neigh_parms" "calign struct_neigh_parms = 8" "csize struct_neigh_parms = 152"
  by (simp_all add: struct_neigh_parms_def place_def align_up_def)

definition struct_neigh_table :: ctype where
  "struct_neigh_table = CStruct [
     Member ''family'' (CInt 4), Member ''entry_size'' (CInt 4), Member ''key_len'' (CInt 4),
     Member ''protocol'' (CInt 2), Member ''hash'' CPtr, Member ''key_eq'' CPtr,
     Member ''constructor'' CPtr, Member ''pconstructor'' CPtr, Member ''pdestructor'' CPtr,
     Member ''proxy_redo'' CPtr, Member ''is_multicast'' CPtr, Member ''allow_add'' CPtr,
     Member ''id'' CPtr, Member ''parms'' struct_neigh_parms,
     Member ''parms_list'' struct_list_head, Member ''gc_interval'' (CInt 4),
     Member ''gc_thresh1'' (CInt 4), Member ''gc_thresh2'' (CInt 4),
     Member ''gc_thresh3'' (CInt 4), Member ''last_flush'' (CInt 8),
     Member ''gc_work'' struct_delayed_work, Member ''managed_work'' struct_delayed_work,
     Member ''proxy_timer'' struct_timer_list, Member ''proxy_queue'' struct_sk_buff_head,
     Member ''entries'' type_atomic_t, Member ''gc_entries'' type_atomic_t,
     Member ''gc_list'' struct_list_head, Member ''managed_list'' struct_list_head,
     Member ''lock'' type_rwlock_t, Member ''last_rand'' (CInt 8), Member ''stats'' CPtr,
     Member ''nht'' CPtr, Member ''phash_buckets'' CPtr]"

lemma layout_struct_neigh_table [simp]: "cwf struct_neigh_table" "calign struct_neigh_table = 8" "csize struct_neigh_table = 600"
  by (simp_all add: struct_neigh_table_def place_def align_up_def)

definition struct_fib_nh_common :: ctype where
  "struct_fib_nh_common = CStruct [
     Member ''nhc_dev'' CPtr, Member ''nhc_dev_tracker'' type_netdevice_tracker,
     Member ''nhc_oif'' (CInt 4), Member ''nhc_scope'' (CInt 1), Member ''nhc_family'' (CInt 1),
     Member ''nhc_gw_family'' (CInt 1), Member ''nhc_flags'' (CInt 1),
     Member ''nhc_lwtstate'' CPtr, Member ''nhc_gw'' (CUnion [
       Member ''ipv4'' (CInt 4), Member ''ipv6'' struct_in6_addr]),
     Member ''nhc_weight'' (CInt 4), Member ''nhc_upper_bound'' type_atomic_t,
     Member ''nhc_pcpu_rth_output'' CPtr, Member ''nhc_rth_input'' CPtr,
     Member ''nhc_exceptions'' CPtr]"

lemma layout_struct_fib_nh_common [simp]: "cwf struct_fib_nh_common" "calign struct_fib_nh_common = 8" "csize struct_fib_nh_common = 72"
  by (simp_all add: struct_fib_nh_common_def place_def align_up_def)

definition struct_fib_nh :: ctype where
  "struct_fib_nh = CStruct [
     Member ''nh_common'' struct_fib_nh_common, Member ''nh_hash'' struct_hlist_node,
     Member ''nh_parent'' CPtr, Member ''nh_tclassid'' (CInt 4), Member ''nh_saddr'' (CInt 4),
     Member ''nh_saddr_genid'' (CInt 4)]"

lemma layout_struct_fib_nh [simp]: "cwf struct_fib_nh" "calign struct_fib_nh = 8" "csize struct_fib_nh = 112"
  by (simp_all add: struct_fib_nh_def place_def align_up_def)

definition struct_fib_info :: ctype where
  "struct_fib_info = CStruct [
     Member ''fib_hash'' struct_hlist_node, Member ''fib_lhash'' struct_hlist_node,
     Member ''nh_list'' struct_list_head, Member ''fib_net'' CPtr,
     Member ''fib_treeref'' struct_refcount_struct,
     Member ''fib_clntref'' struct_refcount_struct, Member ''fib_flags'' (CInt 4),
     Member ''fib_dead'' (CInt 1), Member ''fib_protocol'' (CInt 1),
     Member ''fib_scope'' (CInt 1), Member ''fib_type'' (CInt 1),
     Member ''fib_prefsrc'' (CInt 4), Member ''fib_tb_id'' (CInt 4),
     Member ''fib_priority'' (CInt 4), Member ''fib_metrics'' CPtr, Member ''fib_nhs'' (CInt 4),
     Member ''fib_nh_is_v6'' (CInt 1), Member ''nh_updated'' (CInt 1),
     Member ''pfsrc_removed'' (CInt 1), Member ''nh'' CPtr, Member ''rcu'' struct_callback_head,
     Member ''fib_nh'' (CArray struct_fib_nh 0)]"

lemma layout_struct_fib_info [simp]: "cwf struct_fib_info" "calign struct_fib_info = 8" "csize struct_fib_info = 128"
  by (simp_all add: struct_fib_info_def place_def align_up_def)

definition struct_ipv6_stable_secret :: ctype where
  "struct_ipv6_stable_secret = CStruct [
     Member ''initialized'' (CInt 1), Member ''secret'' struct_in6_addr]"

lemma layout_struct_ipv6_stable_secret [simp]: "cwf struct_ipv6_stable_secret" "calign struct_ipv6_stable_secret = 4" "csize struct_ipv6_stable_secret = 20"
  by (simp_all add: struct_ipv6_stable_secret_def place_def align_up_def)

definition struct_ipv6_devconf :: ctype where
  "struct_ipv6_devconf = CStruct [
     Member ''__cacheline_group_begin__ipv6_devconf_read_txrx'' (CArray (CInt 1) 0),
     Member ''disable_ipv6'' (CInt 4), Member ''hop_limit'' (CInt 4), Member ''mtu6'' (CInt 4),
     Member ''forwarding'' (CInt 4), Member ''disable_policy'' (CInt 4),
     Member ''proxy_ndp'' (CInt 4),
     Member ''__cacheline_group_end__ipv6_devconf_read_txrx'' (CArray (CInt 1) 0),
     Member ''accept_ra'' (CInt 4), Member ''accept_redirects'' (CInt 4),
     Member ''autoconf'' (CInt 4), Member ''dad_transmits'' (CInt 4),
     Member ''rtr_solicits'' (CInt 4), Member ''rtr_solicit_interval'' (CInt 4),
     Member ''rtr_solicit_max_interval'' (CInt 4), Member ''rtr_solicit_delay'' (CInt 4),
     Member ''force_mld_version'' (CInt 4),
     Member ''mldv1_unsolicited_report_interval'' (CInt 4),
     Member ''mldv2_unsolicited_report_interval'' (CInt 4), Member ''use_tempaddr'' (CInt 4),
     Member ''temp_valid_lft'' (CInt 4), Member ''temp_prefered_lft'' (CInt 4),
     Member ''regen_min_advance'' (CInt 4), Member ''regen_max_retry'' (CInt 4),
     Member ''max_desync_factor'' (CInt 4), Member ''max_addresses'' (CInt 4),
     Member ''accept_ra_defrtr'' (CInt 4), Member ''ra_defrtr_metric'' (CInt 4),
     Member ''accept_ra_min_hop_limit'' (CInt 4), Member ''accept_ra_min_lft'' (CInt 4),
     Member ''accept_ra_pinfo'' (CInt 4), Member ''ignore_routes_with_linkdown'' (CInt 4),
     Member ''accept_ra_rtr_pref'' (CInt 4), Member ''rtr_probe_interval'' (CInt 4),
     Member ''accept_ra_rt_info_min_plen'' (CInt 4),
     Member ''accept_ra_rt_info_max_plen'' (CInt 4), Member ''accept_source_route'' (CInt 4),
     Member ''accept_ra_from_local'' (CInt 4), Member ''optimistic_dad'' (CInt 4),
     Member ''use_optimistic'' (CInt 4), Member ''mc_forwarding'' type_atomic_t,
     Member ''drop_unicast_in_l2_multicast'' (CInt 4), Member ''accept_dad'' (CInt 4),
     Member ''force_tllao'' (CInt 4), Member ''ndisc_notify'' (CInt 4),
     Member ''suppress_frag_ndisc'' (CInt 4), Member ''accept_ra_mtu'' (CInt 4),
     Member ''drop_unsolicited_na'' (CInt 4), Member ''accept_untracked_na'' (CInt 4),
     Member ''stable_secret'' struct_ipv6_stable_secret, Member ''use_oif_addrs_only'' (CInt 4),
     Member ''keep_addr_on_down'' (CInt 4), Member ''seg6_enabled'' (CInt 4),
     Member ''seg6_require_hmac'' (CInt 4), Member ''enhanced_dad'' (CInt 4),
     Member ''addr_gen_mode'' (CInt 4), Member ''ndisc_tclass'' (CInt 4),
     Member ''rpl_seg_enabled'' (CInt 4), Member ''ioam6_id'' (CInt 4),
     Member ''ioam6_id_wide'' (CInt 4), Member ''ioam6_enabled'' (CInt 1),
     Member ''ndisc_evict_nocarrier'' (CInt 1), Member ''ra_honor_pio_life'' (CInt 1),
     Member ''sysctl_header'' CPtr]"

lemma layout_struct_ipv6_devconf [simp]: "cwf struct_ipv6_devconf" "calign struct_ipv6_devconf = 8" "csize struct_ipv6_devconf = 264"
  by (simp_all add: struct_ipv6_devconf_def place_def align_up_def)

definition struct_ipv6_devstat :: ctype where
  "struct_ipv6_devstat = CStruct [
     Member ''proc_dir_entry'' CPtr, Member ''ipv6'' CPtr, Member ''icmpv6dev'' CPtr,
     Member ''icmpv6msgdev'' CPtr]"

lemma layout_struct_ipv6_devstat [simp]: "cwf struct_ipv6_devstat" "calign struct_ipv6_devstat = 8" "csize struct_ipv6_devstat = 32"
  by (simp_all add: struct_ipv6_devstat_def place_def align_up_def)

definition struct_inet6_dev :: ctype where
  "struct_inet6_dev = CStruct [
     Member ''dev'' CPtr, Member ''dev_tracker'' type_netdevice_tracker,
     Member ''addr_list'' struct_list_head, Member ''mc_list'' CPtr, Member ''mc_tomb'' CPtr,
     Member ''mc_qrv'' (CInt 1), Member ''mc_gq_running'' (CInt 1),
     Member ''mc_ifc_count'' (CInt 1), Member ''mc_dad_count'' (CInt 1),
     Member ''mc_v1_seen'' (CInt 8), Member ''mc_qi'' (CInt 8), Member ''mc_qri'' (CInt 8),
     Member ''mc_maxdelay'' (CInt 8), Member ''mc_gq_work'' struct_delayed_work,
     Member ''mc_ifc_work'' struct_delayed_work, Member ''mc_dad_work'' struct_delayed_work,
     Member ''mc_query_work'' struct_delayed_work, Member ''mc_report_work'' struct_delayed_work,
     Member ''mc_query_queue'' struct_sk_buff_head,
     Member ''mc_report_queue'' struct_sk_buff_head, Member ''mc_query_lock'' struct_spinlock,
     Member ''mc_report_lock'' struct_spinlock, Member ''mc_lock'' struct_mutex,
     Member ''ac_list'' CPtr, Member ''lock'' type_rwlock_t,
     Member ''refcnt'' struct_refcount_struct, Member ''if_flags'' (CInt 4),
     Member ''dead'' (CInt 4), Member ''desync_factor'' (CInt 4),
     Member ''tempaddr_list'' struct_list_head, Member ''token'' struct_in6_addr,
     Member ''nd_parms'' CPtr, Member ''cnf'' struct_ipv6_devconf,
     Member ''stats'' struct_ipv6_devstat, Member ''rs_timer'' struct_timer_list,
     Member ''rs_interval'' (CInt 4), Member ''rs_probes'' (CInt 1), Member ''tstamp'' (CInt 8),
     Member ''rcu'' struct_callback_head, Member ''ra_mtu'' (CInt 4)]"

lemma layout_struct_inet6_dev [simp]: "cwf struct_inet6_dev" "calign struct_inet6_dev = 8" "csize struct_inet6_dev = 1056"
  by (simp_all add: struct_inet6_dev_def place_def align_up_def)

definition struct_rtnl_link_ops :: ctype where
  "struct_rtnl_link_ops = CStruct [
     Member ''list'' struct_list_head, Member ''kind'' CPtr, Member ''priv_size'' (CInt 8),
     Member ''alloc'' CPtr, Member ''setup'' CPtr, Member ''netns_refund'' (CInt 1),
     Member ''maxtype'' (CInt 4), Member ''policy'' CPtr, Member ''validate'' CPtr,
     Member ''newlink'' CPtr, Member ''changelink'' CPtr, Member ''dellink'' CPtr,
     Member ''get_size'' CPtr, Member ''fill_info'' CPtr, Member ''get_xstats_size'' CPtr,
     Member ''fill_xstats'' CPtr, Member ''get_num_tx_queues'' CPtr,
     Member ''get_num_rx_queues'' CPtr, Member ''slave_maxtype'' (CInt 4),
     Member ''slave_policy'' CPtr, Member ''slave_changelink'' CPtr,
     Member ''get_slave_size'' CPtr, Member ''fill_slave_info'' CPtr,
     Member ''get_link_net'' CPtr, Member ''get_linkxstats_size'' CPtr,
     Member ''fill_linkxstats'' CPtr]"

lemma layout_struct_rtnl_link_ops [simp]: "cwf struct_rtnl_link_ops" "calign struct_rtnl_link_ops = 8" "csize struct_rtnl_link_ops = 208"
  by (simp_all add: struct_rtnl_link_ops_def place_def align_up_def)

definition struct_ethtool_ops :: ctype where
  "struct_ethtool_ops = CStruct [
     Bits ''cap_link_lanes_supported'' 4 1, Bits ''cap_rss_ctx_supported'' 4 1,
     Bits ''cap_rss_sym_xor_supported'' 4 1, Member ''rxfh_indir_space'' (CInt 4),
     Member ''rxfh_key_space'' (CInt 2), Member ''rxfh_priv_size'' (CInt 2),
     Member ''rxfh_max_num_contexts'' (CInt 4), Member ''supported_coalesce_params'' (CInt 4),
     Member ''supported_ring_params'' (CInt 4), Member ''get_drvinfo'' CPtr,
     Member ''get_regs_len'' CPtr, Member ''get_regs'' CPtr, Member ''get_wol'' CPtr,
     Member ''set_wol'' CPtr, Member ''get_msglevel'' CPtr, Member ''set_msglevel'' CPtr,
     Member ''nway_reset'' CPtr, Member ''get_link'' CPtr, Member ''get_link_ext_state'' CPtr,
     Member ''get_link_ext_stats'' CPtr, Member ''get_eeprom_len'' CPtr,
     Member ''get_eeprom'' CPtr, Member ''set_eeprom'' CPtr, Member ''get_coalesce'' CPtr,
     Member ''set_coalesce'' CPtr, Member ''get_ringparam'' CPtr, Member ''set_ringparam'' CPtr,
     Member ''get_pause_stats'' CPtr, Member ''get_pauseparam'' CPtr,
     Member ''set_pauseparam'' CPtr, Member ''self_test'' CPtr, Member ''get_strings'' CPtr,
     Member ''set_phys_id'' CPtr, Member ''get_ethtool_stats'' CPtr, Member ''begin'' CPtr,
     Member ''complete'' CPtr, Member ''get_priv_flags'' CPtr, Member ''set_priv_flags'' CPtr,
     Member ''get_sset_count'' CPtr, Member ''get_rxnfc'' CPtr, Member ''set_rxnfc'' CPtr,
     Member ''flash_device'' CPtr, Member ''reset'' CPtr, Member ''get_rxfh_key_size'' CPtr,
     Member ''get_rxfh_indir_size'' CPtr, Member ''get_rxfh'' CPtr, Member ''set_rxfh'' CPtr,
     Member ''create_rxfh_context'' CPtr, Member ''modify_rxfh_context'' CPtr,
     Member ''remove_rxfh_context'' CPtr, Member ''get_channels'' CPtr,
     Member ''set_channels'' CPtr, Member ''get_dump_flag'' CPtr, Member ''get_dump_data'' CPtr,
     Member ''set_dump'' CPtr, Member ''get_ts_info'' CPtr, Member ''get_ts_stats'' CPtr,
     Member ''get_module_info'' CPtr, Member ''get_module_eeprom'' CPtr, Member ''get_eee'' CPtr,
     Member ''set_eee'' CPtr, Member ''get_tunable'' CPtr, Member ''set_tunable'' CPtr,
     Member ''get_per_queue_coalesce'' CPtr, Member ''set_per_queue_coalesce'' CPtr,
     Member ''get_link_ksettings'' CPtr, Member ''set_link_ksettings'' CPtr,
     Member ''get_fec_stats'' CPtr, Member ''get_fecparam'' CPtr, Member ''set_fecparam'' CPtr,
     Member ''get_ethtool_phy_stats'' CPtr, Member ''get_phy_tunable'' CPtr,
     Member ''set_phy_tunable'' CPtr, Member ''get_module_eeprom_by_page'' CPtr,
     Member ''set_module_eeprom_by_page'' CPtr, Member ''get_eth_phy_stats'' CPtr,
     Member ''get_eth_mac_stats'' CPtr, Member ''get_eth_ctrl_stats'' CPtr,
     Member ''get_rmon_stats'' CPtr, Member ''get_module_power_mode'' CPtr,
     Member ''set_module_power_mode'' CPtr, Member ''get_mm'' CPtr, Member ''set_mm'' CPtr,
     Member ''get_mm_stats'' CPtr]"

lemma layout_struct_ethtool_ops [simp]: "cwf struct_ethtool_ops" "calign struct_ethtool_ops = 8" "csize struct_ethtool_ops = 624"
  by (simp_all add: struct_ethtool_ops_def place_def align_up_def)

definition struct_request_sock :: ctype where
  "struct_request_sock = CStruct [
     Member ''__req_common'' struct_sock_common, Member ''dl_next'' CPtr,
     Member ''mss'' (CInt 2), Member ''num_retrans'' (CInt 1), Bits ''syncookie'' 1 1,
     Bits ''num_timeout'' 1 7, Member ''ts_recent'' (CInt 4),
     Member ''rsk_timer'' struct_timer_list, Member ''rsk_ops'' CPtr, Member ''sk'' CPtr,
     Member ''saved_syn'' CPtr, Member ''secid'' (CInt 4), Member ''peer_secid'' (CInt 4),
     Member ''timeout'' (CInt 4)]"

lemma layout_struct_request_sock [simp]: "cwf struct_request_sock" "calign struct_request_sock = 8" "csize struct_request_sock = 232"
  by (simp_all add: struct_request_sock_def place_def align_up_def)

definition struct_inet_timewait_sock :: ctype where
  "struct_inet_timewait_sock = CStruct [
     Member ''__tw_common'' struct_sock_common, Member ''tw_mark'' (CInt 4),
     Member ''tw_substate'' (CInt 1), Member ''tw_rcv_wscale'' (CInt 1),
     Member ''tw_sport'' (CInt 2), Bits ''tw_transparent'' 4 1, Bits ''tw_flowlabel'' 4 20,
     Bits ''tw_usec_ts'' 4 1, Bits ''tw_pad'' 4 2, Bits ''tw_tos'' 4 8,
     Member ''tw_txhash'' (CInt 4), Member ''tw_priority'' (CInt 4),
     Member ''tw_timer'' struct_timer_list, Member ''tw_tb'' CPtr, Member ''tw_tb2'' CPtr]"

lemma layout_struct_inet_timewait_sock [simp]: "cwf struct_inet_timewait_sock" "calign struct_inet_timewait_sock = 8" "csize struct_inet_timewait_sock = 216"
  by (simp_all add: struct_inet_timewait_sock_def place_def align_up_def)

definition struct_inet_request_sock :: ctype where
  "struct_inet_request_sock = CStruct [
     Member ''req'' struct_request_sock, Bits ''snd_wscale'' 2 4, Bits ''rcv_wscale'' 2 4,
     Bits ''tstamp_ok'' 2 1, Bits ''sack_ok'' 2 1, Bits ''wscale_ok'' 2 1, Bits ''ecn_ok'' 2 1,
     Bits ''acked'' 2 1, Bits ''no_srccheck'' 2 1, Bits ''smc_ok'' 2 1,
     Member ''ir_mark'' (CInt 4), Member '''' (CUnion [
       Member ''ireq_opt'' CPtr, Member '''' (CStruct [
         Member ''ipv6_opt'' CPtr, Member ''pktopts'' CPtr])])]"

lemma layout_struct_inet_request_sock [simp]: "cwf struct_inet_request_sock" "calign struct_inet_request_sock = 8" "csize struct_inet_request_sock = 256"
  by (simp_all add: struct_inet_request_sock_def place_def align_up_def)

definition struct_tcp_request_sock :: ctype where
  "struct_tcp_request_sock = CStruct [
     Member ''req'' struct_inet_request_sock, Member ''af_specific'' CPtr,
     Member ''snt_synack'' (CInt 8), Member ''tfo_listener'' (CInt 1),
     Member ''is_mptcp'' (CInt 1), Member ''req_usec_ts'' (CInt 1), Member ''drop_req'' (CInt 1),
     Member ''txhash'' (CInt 4), Member ''rcv_isn'' (CInt 4), Member ''snt_isn'' (CInt 4),
     Member ''ts_off'' (CInt 4), Member ''last_oow_ack_time'' (CInt 4),
     Member ''rcv_nxt'' (CInt 4), Member ''syn_tos'' (CInt 1)]"

lemma layout_struct_tcp_request_sock [simp]: "cwf struct_tcp_request_sock" "calign struct_tcp_request_sock = 8" "csize struct_tcp_request_sock = 304"
  by (simp_all add: struct_tcp_request_sock_def place_def align_up_def)

definition struct_inet_connection_sock_af_ops :: ctype where
  "struct_inet_connection_sock_af_ops = CStruct [
     Member ''queue_xmit'' CPtr, Member ''send_check'' CPtr, Member ''rebuild_header'' CPtr,
     Member ''sk_rx_dst_set'' CPtr, Member ''conn_request'' CPtr, Member ''syn_recv_sock'' CPtr,
     Member ''net_header_len'' (CInt 2), Member ''sockaddr_len'' (CInt 2),
     Member ''setsockopt'' CPtr, Member ''getsockopt'' CPtr, Member ''addr2sockaddr'' CPtr,
     Member ''mtu_reduced'' CPtr]"

lemma layout_struct_inet_connection_sock_af_ops [simp]: "cwf struct_inet_connection_sock_af_ops" "calign struct_inet_connection_sock_af_ops = 8" "csize struct_inet_connection_sock_af_ops = 88"
  by (simp_all add: struct_inet_connection_sock_af_ops_def place_def align_up_def)

definition struct_netlink_callback :: ctype where
  "struct_netlink_callback = CStruct [
     Member ''skb'' CPtr, Member ''nlh'' CPtr, Member ''dump'' CPtr, Member ''done'' CPtr,
     Member ''data'' CPtr, Member ''module'' CPtr, Member ''extack'' CPtr,
     Member ''family'' (CInt 2), Member ''answer_flags'' (CInt 2),
     Member ''min_dump_alloc'' (CInt 4), Member ''prev_seq'' (CInt 4), Member ''seq'' (CInt 4),
     Member ''flags'' (CInt 4), Member ''strict_check'' (CInt 1), Member '''' (CUnion [
       Member ''ctx'' (CArray (CInt 1) 48), Member ''args'' (CArray (CInt 8) 6)])]"

lemma layout_struct_netlink_callback [simp]: "cwf struct_netlink_callback" "calign struct_netlink_callback = 8" "csize struct_netlink_callback = 128"
  by (simp_all add: struct_netlink_callback_def place_def align_up_def)

definition struct_rhash_head :: ctype where
  "struct_rhash_head = CStruct [
     Member ''next'' CPtr]"

lemma layout_struct_rhash_head [simp]: "cwf struct_rhash_head" "calign struct_rhash_head = 8" "csize struct_rhash_head = 8"
  by (simp_all add: struct_rhash_head_def place_def align_up_def)

definition struct_netlink_sock :: ctype where
  "struct_netlink_sock = CStruct [
     Member ''sk'' struct_sock, Member ''flags'' (CInt 8), Member ''portid'' (CInt 4),
     Member ''dst_portid'' (CInt 4), Member ''dst_group'' (CInt 4),
     Member ''subscriptions'' (CInt 4), Member ''ngroups'' (CInt 4), Member ''groups'' CPtr,
     Member ''state'' (CInt 8), Member ''max_recvmsg_len'' (CInt 8),
     Member ''wait'' struct_wait_queue_head, Member ''bound'' (CInt 1),
     Member ''cb_running'' (CInt 1), Member ''dump_done_errno'' (CInt 4),
     Member ''cb'' struct_netlink_callback, Member ''nl_cb_mutex'' struct_mutex,
     Member ''dump_cb_mutex'' CPtr, Member ''netlink_rcv'' CPtr, Member ''netlink_bind'' CPtr,
     Member ''netlink_unbind'' CPtr, Member ''netlink_release'' CPtr, Member ''module'' CPtr,
     Member ''node'' struct_rhash_head, Member ''rcu'' struct_callback_head,
     Member ''work'' struct_work_struct]"

lemma layout_struct_netlink_sock [simp]: "cwf struct_netlink_sock" "calign struct_netlink_sock = 8" "csize struct_netlink_sock = 1112"
  by (simp_all add: struct_netlink_sock_def place_def align_up_def)

text \<open>Every structure of this theory, by name.\<close>

definition packet_types :: "(string \<times> ctype) list" where
  "packet_types = [
     (''struct_ipv6hdr'', struct_ipv6hdr), (''struct_icmphdr'', struct_icmphdr),
     (''struct_sk_filter'', struct_sk_filter), (''struct_bpf_sock'', struct_bpf_sock),
     (''struct_bpf_sock_tuple'', struct_bpf_sock_tuple),
     (''struct_bpf_tcp_sock'', struct_bpf_tcp_sock),
     (''struct_bpf_xdp_sock'', struct_bpf_xdp_sock),
     (''struct_bpf_fib_lookup'', struct_bpf_fib_lookup),
     (''struct_bpf_tunnel_key'', struct_bpf_tunnel_key), (''struct_xdp_buff'', struct_xdp_buff),
     (''struct_xdp_md'', struct_xdp_md), (''struct_qdisc_skb_head'', struct_qdisc_skb_head),
     (''struct_gnet_stats_basic_sync'', struct_gnet_stats_basic_sync),
     (''struct_gnet_stats_queue'', struct_gnet_stats_queue), (''struct_Qdisc'', struct_Qdisc),
     (''struct_Qdisc_ops'', struct_Qdisc_ops), (''struct_xdp_mem_info'', struct_xdp_mem_info),
     (''struct_xdp_rxq_info'', struct_xdp_rxq_info),
     (''struct_netdev_rx_queue'', struct_netdev_rx_queue),
     (''struct_gro_list'', struct_gro_list), (''struct_napi_struct'', struct_napi_struct),
     (''type_local_lock_t'', type_local_lock_t), (''struct_netdev_xmit'', struct_netdev_xmit),
     (''struct___call_single_node'', struct___call_single_node),
     (''struct___call_single_data'', struct___call_single_data),
     (''struct_softnet_data'', struct_softnet_data),
     (''struct_neigh_parms'', struct_neigh_parms), (''struct_neigh_table'', struct_neigh_table),
     (''struct_fib_nh_common'', struct_fib_nh_common), (''struct_fib_nh'', struct_fib_nh),
     (''struct_fib_info'', struct_fib_info),
     (''struct_ipv6_stable_secret'', struct_ipv6_stable_secret),
     (''struct_ipv6_devconf'', struct_ipv6_devconf),
     (''struct_ipv6_devstat'', struct_ipv6_devstat), (''struct_inet6_dev'', struct_inet6_dev),
     (''struct_rtnl_link_ops'', struct_rtnl_link_ops),
     (''struct_ethtool_ops'', struct_ethtool_ops),
     (''struct_request_sock'', struct_request_sock),
     (''struct_inet_timewait_sock'', struct_inet_timewait_sock),
     (''struct_inet_request_sock'', struct_inet_request_sock),
     (''struct_tcp_request_sock'', struct_tcp_request_sock),
     (''struct_inet_connection_sock_af_ops'', struct_inet_connection_sock_af_ops),
     (''struct_netlink_callback'', struct_netlink_callback),
     (''struct_rhash_head'', struct_rhash_head), (''struct_netlink_sock'', struct_netlink_sock)]"

lemma packet_types_wf: "list_all (\<lambda>(x, t). cwf t) packet_types"
  by (simp add: packet_types_def)

end
