(* ===== verification/Kernel_Task.thy ===== *)
theory Kernel_Task
  imports Kernel_Packet
begin

text \<open>
  Where programs and the hook run (agent/vmlinux.h): the task with its memory, signals, files
  and control groups, the run queues and timers of a CPU, and the read-copy-update state that
  decides when an element removed from a map may be reused.
\<close>

definition struct_thread_info :: ctype where
  "struct_thread_info = CStruct [
     Member ''flags'' (CInt 8), Member ''syscall_work'' (CInt 8), Member ''status'' (CInt 4),
     Member ''cpu'' (CInt 4)]"

lemma layout_struct_thread_info [simp]: "cwf struct_thread_info" "calign struct_thread_info = 8" "csize struct_thread_info = 24"
  by (simp_all add: struct_thread_info_def place_def align_up_def)

definition struct_load_weight :: ctype where
  "struct_load_weight = CStruct [
     Member ''weight'' (CInt 8), Member ''inv_weight'' (CInt 4)]"

lemma layout_struct_load_weight [simp]: "cwf struct_load_weight" "calign struct_load_weight = 8" "csize struct_load_weight = 16"
  by (simp_all add: struct_load_weight_def place_def align_up_def)

definition struct_sched_avg :: ctype where
  "struct_sched_avg = CStruct [
     Member ''last_update_time'' (CInt 8), Member ''load_sum'' (CInt 8),
     Member ''runnable_sum'' (CInt 8), Member ''util_sum'' (CInt 4),
     Member ''period_contrib'' (CInt 4), Member ''load_avg'' (CInt 8),
     Member ''runnable_avg'' (CInt 8), Member ''util_avg'' (CInt 8), Member ''util_est'' (CInt 4)]"

lemma layout_struct_sched_avg [simp]: "cwf struct_sched_avg" "calign struct_sched_avg = 8" "csize struct_sched_avg = 64"
  by (simp_all add: struct_sched_avg_def place_def align_up_def)

definition struct_sched_entity :: ctype where
  "struct_sched_entity = CStruct [
     Member ''load'' struct_load_weight, Member ''run_node'' struct_rb_node,
     Member ''deadline'' (CInt 8), Member ''min_vruntime'' (CInt 8),
     Member ''group_node'' struct_list_head, Member ''on_rq'' (CInt 4),
     Member ''exec_start'' (CInt 8), Member ''sum_exec_runtime'' (CInt 8),
     Member ''prev_sum_exec_runtime'' (CInt 8), Member ''vruntime'' (CInt 8),
     Member ''vlag'' (CInt 8), Member ''slice'' (CInt 8), Member ''nr_migrations'' (CInt 8),
     Member ''depth'' (CInt 4), Member ''parent'' CPtr, Member ''cfs_rq'' CPtr,
     Member ''my_q'' CPtr, Member ''runnable_weight'' (CInt 8), Bits '''' 8 64, Bits '''' 8 64,
     Member ''avg'' struct_sched_avg]"

lemma layout_struct_sched_entity [simp]: "cwf struct_sched_entity" "calign struct_sched_entity = 8" "csize struct_sched_entity = 256"
  by (simp_all add: struct_sched_entity_def place_def align_up_def)

definition struct_sched_rt_entity :: ctype where
  "struct_sched_rt_entity = CStruct [
     Member ''run_list'' struct_list_head, Member ''timeout'' (CInt 8),
     Member ''watchdog_stamp'' (CInt 8), Member ''time_slice'' (CInt 4),
     Member ''on_rq'' (CInt 2), Member ''on_list'' (CInt 2), Member ''back'' CPtr]"

lemma layout_struct_sched_rt_entity [simp]: "cwf struct_sched_rt_entity" "calign struct_sched_rt_entity = 8" "csize struct_sched_rt_entity = 48"
  by (simp_all add: struct_sched_rt_entity_def place_def align_up_def)

definition struct_sched_dl_entity :: ctype where
  "struct_sched_dl_entity = CStruct [
     Member ''rb_node'' struct_rb_node, Member ''dl_runtime'' (CInt 8),
     Member ''dl_deadline'' (CInt 8), Member ''dl_period'' (CInt 8), Member ''dl_bw'' (CInt 8),
     Member ''dl_density'' (CInt 8), Member ''runtime'' (CInt 8), Member ''deadline'' (CInt 8),
     Member ''flags'' (CInt 4), Bits ''dl_throttled'' 4 1, Bits ''dl_yielded'' 4 1,
     Bits ''dl_non_contending'' 4 1, Bits ''dl_overrun'' 4 1, Bits ''dl_server'' 4 1,
     Member ''dl_timer'' struct_hrtimer, Member ''inactive_timer'' struct_hrtimer,
     Member ''rq'' CPtr, Member ''server_has_tasks'' CPtr, Member ''server_pick'' CPtr,
     Member ''pi_se'' CPtr]"

lemma layout_struct_sched_dl_entity [simp]: "cwf struct_sched_dl_entity" "calign struct_sched_dl_entity = 8" "csize struct_sched_dl_entity = 248"
  by (simp_all add: struct_sched_dl_entity_def place_def align_up_def)

definition struct_uclamp_se :: ctype where
  "struct_uclamp_se = CStruct [
     Bits ''value'' 4 11, Bits ''bucket_id'' 4 3, Bits ''active'' 4 1, Bits ''user_defined'' 4 1]"

lemma layout_struct_uclamp_se [simp]: "cwf struct_uclamp_se" "calign struct_uclamp_se = 4" "csize struct_uclamp_se = 4"
  by (simp_all add: struct_uclamp_se_def place_def align_up_def)

definition struct_sched_statistics :: ctype where
  "struct_sched_statistics = CStruct [
     Member ''wait_start'' (CInt 8), Member ''wait_max'' (CInt 8),
     Member ''wait_count'' (CInt 8), Member ''wait_sum'' (CInt 8),
     Member ''iowait_count'' (CInt 8), Member ''iowait_sum'' (CInt 8),
     Member ''sleep_start'' (CInt 8), Member ''sleep_max'' (CInt 8),
     Member ''sum_sleep_runtime'' (CInt 8), Member ''block_start'' (CInt 8),
     Member ''block_max'' (CInt 8), Member ''sum_block_runtime'' (CInt 8),
     Member ''exec_max'' (CInt 8), Member ''slice_max'' (CInt 8),
     Member ''nr_migrations_cold'' (CInt 8), Member ''nr_failed_migrations_affine'' (CInt 8),
     Member ''nr_failed_migrations_running'' (CInt 8),
     Member ''nr_failed_migrations_hot'' (CInt 8), Member ''nr_forced_migrations'' (CInt 8),
     Member ''nr_wakeups'' (CInt 8), Member ''nr_wakeups_sync'' (CInt 8),
     Member ''nr_wakeups_migrate'' (CInt 8), Member ''nr_wakeups_local'' (CInt 8),
     Member ''nr_wakeups_remote'' (CInt 8), Member ''nr_wakeups_affine'' (CInt 8),
     Member ''nr_wakeups_affine_attempts'' (CInt 8), Member ''nr_wakeups_passive'' (CInt 8),
     Member ''nr_wakeups_idle'' (CInt 8), Member ''core_forceidle_sum'' (CInt 8), Bits '''' 8 64,
     Bits '''' 8 64, Bits '''' 8 64]"

lemma layout_struct_sched_statistics [simp]: "cwf struct_sched_statistics" "calign struct_sched_statistics = 8" "csize struct_sched_statistics = 256"
  by (simp_all add: struct_sched_statistics_def place_def align_up_def)

definition struct_cpumask :: ctype where
  "struct_cpumask = CStruct [
     Member ''bits'' (CArray (CInt 8) 6)]"

lemma layout_struct_cpumask [simp]: "cwf struct_cpumask" "calign struct_cpumask = 8" "csize struct_cpumask = 48"
  by (simp_all add: struct_cpumask_def place_def align_up_def)

definition union_rcu_special :: ctype where
  "union_rcu_special = CUnion [
     Member ''b'' (CStruct [
       Member ''blocked'' (CInt 1), Member ''need_qs'' (CInt 1), Member ''exp_hint'' (CInt 1),
       Member ''need_mb'' (CInt 1)]), Member ''s'' (CInt 4)]"

lemma layout_union_rcu_special [simp]: "cwf union_rcu_special" "calign union_rcu_special = 4" "csize union_rcu_special = 4"
  by (simp_all add: union_rcu_special_def place_def align_up_def)

definition struct_sched_info :: ctype where
  "struct_sched_info = CStruct [
     Member ''pcount'' (CInt 8), Member ''run_delay'' (CInt 8), Member ''last_arrival'' (CInt 8),
     Member ''last_queued'' (CInt 8)]"

lemma layout_struct_sched_info [simp]: "cwf struct_sched_info" "calign struct_sched_info = 8" "csize struct_sched_info = 32"
  by (simp_all add: struct_sched_info_def place_def align_up_def)

definition struct_plist_node :: ctype where
  "struct_plist_node = CStruct [
     Member ''prio'' (CInt 4), Member ''prio_list'' struct_list_head,
     Member ''node_list'' struct_list_head]"

lemma layout_struct_plist_node [simp]: "cwf struct_plist_node" "calign struct_plist_node = 8" "csize struct_plist_node = 40"
  by (simp_all add: struct_plist_node_def place_def align_up_def)

definition struct_restart_block :: ctype where
  "struct_restart_block = CStruct [
     Member ''arch_data'' (CInt 8), Member ''fn'' CPtr, Member '''' (CUnion [
       Member ''futex'' (CStruct [
         Member ''uaddr'' CPtr, Member ''val'' (CInt 4), Member ''flags'' (CInt 4),
         Member ''bitset'' (CInt 4), Member ''time'' (CInt 8), Member ''uaddr2'' CPtr]),
       Member ''nanosleep'' (CStruct [
         Member ''clockid'' (CInt 4), Member ''type'' (CInt 4), Member '''' (CUnion [
           Member ''rmtp'' CPtr, Member ''compat_rmtp'' CPtr]), Member ''expires'' (CInt 8)]),
       Member ''poll'' (CStruct [
         Member ''ufds'' CPtr, Member ''nfds'' (CInt 4), Member ''has_timeout'' (CInt 4),
         Member ''tv_sec'' (CInt 8), Member ''tv_nsec'' (CInt 8)])])]"

lemma layout_struct_restart_block [simp]: "cwf struct_restart_block" "calign struct_restart_block = 8" "csize struct_restart_block = 56"
  by (simp_all add: struct_restart_block_def place_def align_up_def)

definition struct_prev_cputime :: ctype where
  "struct_prev_cputime = CStruct [
     Member ''utime'' (CInt 8), Member ''stime'' (CInt 8), Member ''lock'' struct_raw_spinlock]"

lemma layout_struct_prev_cputime [simp]: "cwf struct_prev_cputime" "calign struct_prev_cputime = 8" "csize struct_prev_cputime = 24"
  by (simp_all add: struct_prev_cputime_def place_def align_up_def)

definition struct_vtime :: ctype where
  "struct_vtime = CStruct [
     Member ''seqcount'' struct_seqcount, Member ''starttime'' (CInt 8),
     Member ''state'' (CInt 4), Member ''cpu'' (CInt 4), Member ''utime'' (CInt 8),
     Member ''stime'' (CInt 8), Member ''gtime'' (CInt 8)]"

lemma layout_struct_vtime [simp]: "cwf struct_vtime" "calign struct_vtime = 8" "csize struct_vtime = 48"
  by (simp_all add: struct_vtime_def place_def align_up_def)

definition struct_rb_root_cached :: ctype where
  "struct_rb_root_cached = CStruct [
     Member ''rb_root'' struct_rb_root, Member ''rb_leftmost'' CPtr]"

lemma layout_struct_rb_root_cached [simp]: "cwf struct_rb_root_cached" "calign struct_rb_root_cached = 8" "csize struct_rb_root_cached = 16"
  by (simp_all add: struct_rb_root_cached_def place_def align_up_def)

definition struct_timerqueue_head :: ctype where
  "struct_timerqueue_head = CStruct [
     Member ''rb_root'' struct_rb_root_cached]"

lemma layout_struct_timerqueue_head [simp]: "cwf struct_timerqueue_head" "calign struct_timerqueue_head = 8" "csize struct_timerqueue_head = 16"
  by (simp_all add: struct_timerqueue_head_def place_def align_up_def)

definition struct_posix_cputimer_base :: ctype where
  "struct_posix_cputimer_base = CStruct [
     Member ''nextevt'' (CInt 8), Member ''tqhead'' struct_timerqueue_head]"

lemma layout_struct_posix_cputimer_base [simp]: "cwf struct_posix_cputimer_base" "calign struct_posix_cputimer_base = 8" "csize struct_posix_cputimer_base = 24"
  by (simp_all add: struct_posix_cputimer_base_def place_def align_up_def)

definition struct_posix_cputimers :: ctype where
  "struct_posix_cputimers = CStruct [
     Member ''bases'' (CArray struct_posix_cputimer_base 3), Member ''timers_active'' (CInt 4),
     Member ''expiry_active'' (CInt 4)]"

lemma layout_struct_posix_cputimers [simp]: "cwf struct_posix_cputimers" "calign struct_posix_cputimers = 8" "csize struct_posix_cputimers = 80"
  by (simp_all add: struct_posix_cputimers_def place_def align_up_def)

definition struct_posix_cputimers_work :: ctype where
  "struct_posix_cputimers_work = CStruct [
     Member ''work'' struct_callback_head, Member ''mutex'' struct_mutex,
     Member ''scheduled'' (CInt 4)]"

lemma layout_struct_posix_cputimers_work [simp]: "cwf struct_posix_cputimers_work" "calign struct_posix_cputimers_work = 8" "csize struct_posix_cputimers_work = 56"
  by (simp_all add: struct_posix_cputimers_work_def place_def align_up_def)

definition struct_sysv_sem :: ctype where
  "struct_sysv_sem = CStruct [
     Member ''undo_list'' CPtr]"

lemma layout_struct_sysv_sem [simp]: "cwf struct_sysv_sem" "calign struct_sysv_sem = 8" "csize struct_sysv_sem = 8"
  by (simp_all add: struct_sysv_sem_def place_def align_up_def)

definition struct_sysv_shm :: ctype where
  "struct_sysv_shm = CStruct [
     Member ''shm_clist'' struct_list_head]"

lemma layout_struct_sysv_shm [simp]: "cwf struct_sysv_shm" "calign struct_sysv_shm = 8" "csize struct_sysv_shm = 16"
  by (simp_all add: struct_sysv_shm_def place_def align_up_def)

definition type_sigset_t :: ctype where
  "type_sigset_t = CStruct [
     Member ''sig'' (CArray (CInt 8) 1)]"

lemma layout_type_sigset_t [simp]: "cwf type_sigset_t" "calign type_sigset_t = 8" "csize type_sigset_t = 8"
  by (simp_all add: type_sigset_t_def place_def align_up_def)

definition struct_sigpending :: ctype where
  "struct_sigpending = CStruct [
     Member ''list'' struct_list_head, Member ''signal'' type_sigset_t]"

lemma layout_struct_sigpending [simp]: "cwf struct_sigpending" "calign struct_sigpending = 8" "csize struct_sigpending = 24"
  by (simp_all add: struct_sigpending_def place_def align_up_def)

definition struct_seccomp :: ctype where
  "struct_seccomp = CStruct [
     Member ''mode'' (CInt 4), Member ''filter_count'' type_atomic_t, Member ''filter'' CPtr]"

lemma layout_struct_seccomp [simp]: "cwf struct_seccomp" "calign struct_seccomp = 8" "csize struct_seccomp = 16"
  by (simp_all add: struct_seccomp_def place_def align_up_def)

definition struct_syscall_user_dispatch :: ctype where
  "struct_syscall_user_dispatch = CStruct [
     Member ''selector'' CPtr, Member ''offset'' (CInt 8), Member ''len'' (CInt 8),
     Member ''on_dispatch'' (CInt 1)]"

lemma layout_struct_syscall_user_dispatch [simp]: "cwf struct_syscall_user_dispatch" "calign struct_syscall_user_dispatch = 8" "csize struct_syscall_user_dispatch = 32"
  by (simp_all add: struct_syscall_user_dispatch_def place_def align_up_def)

definition struct_wake_q_node :: ctype where
  "struct_wake_q_node = CStruct [
     Member ''next'' CPtr]"

lemma layout_struct_wake_q_node [simp]: "cwf struct_wake_q_node" "calign struct_wake_q_node = 8" "csize struct_wake_q_node = 8"
  by (simp_all add: struct_wake_q_node_def place_def align_up_def)

definition struct_task_io_accounting :: ctype where
  "struct_task_io_accounting = CStruct [
     Member ''rchar'' (CInt 8), Member ''wchar'' (CInt 8), Member ''syscr'' (CInt 8),
     Member ''syscw'' (CInt 8), Member ''read_bytes'' (CInt 8), Member ''write_bytes'' (CInt 8),
     Member ''cancelled_write_bytes'' (CInt 8)]"

lemma layout_struct_task_io_accounting [simp]: "cwf struct_task_io_accounting" "calign struct_task_io_accounting = 8" "csize struct_task_io_accounting = 56"
  by (simp_all add: struct_task_io_accounting_def place_def align_up_def)

definition type_nodemask_t :: ctype where
  "type_nodemask_t = CStruct [
     Member ''bits'' (CArray (CInt 8) 1)]"

lemma layout_type_nodemask_t [simp]: "cwf type_nodemask_t" "calign type_nodemask_t = 8" "csize type_nodemask_t = 8"
  by (simp_all add: type_nodemask_t_def place_def align_up_def)

definition struct_arch_tlbflush_unmap_batch :: ctype where
  "struct_arch_tlbflush_unmap_batch = CStruct [
     Member ''cpumask'' struct_cpumask]"

lemma layout_struct_arch_tlbflush_unmap_batch [simp]: "cwf struct_arch_tlbflush_unmap_batch" "calign struct_arch_tlbflush_unmap_batch = 8" "csize struct_arch_tlbflush_unmap_batch = 48"
  by (simp_all add: struct_arch_tlbflush_unmap_batch_def place_def align_up_def)

definition struct_tlbflush_unmap_batch :: ctype where
  "struct_tlbflush_unmap_batch = CStruct [
     Member ''arch'' struct_arch_tlbflush_unmap_batch, Member ''flush_required'' (CInt 1),
     Member ''writable'' (CInt 1)]"

lemma layout_struct_tlbflush_unmap_batch [simp]: "cwf struct_tlbflush_unmap_batch" "calign struct_tlbflush_unmap_batch = 8" "csize struct_tlbflush_unmap_batch = 56"
  by (simp_all add: struct_tlbflush_unmap_batch_def place_def align_up_def)

definition struct_kmap_ctrl :: ctype where
  "struct_kmap_ctrl = CStruct []"

lemma layout_struct_kmap_ctrl [simp]: "cwf struct_kmap_ctrl" "calign struct_kmap_ctrl = 1" "csize struct_kmap_ctrl = 0"
  by (simp_all add: struct_kmap_ctrl_def place_def align_up_def)

definition struct_llist_head :: ctype where
  "struct_llist_head = CStruct [
     Member ''first'' CPtr]"

lemma layout_struct_llist_head [simp]: "cwf struct_llist_head" "calign struct_llist_head = 8" "csize struct_llist_head = 8"
  by (simp_all add: struct_llist_head_def place_def align_up_def)

definition struct_desc_struct :: ctype where
  "struct_desc_struct = CStruct [
     Member ''limit0'' (CInt 2), Member ''base0'' (CInt 2), Bits ''base1'' 2 8,
     Bits ''type'' 2 4, Bits ''s'' 2 1, Bits ''dpl'' 2 2, Bits ''p'' 2 1, Bits ''limit1'' 2 4,
     Bits ''avl'' 2 1, Bits ''l'' 2 1, Bits ''d'' 2 1, Bits ''g'' 2 1, Bits ''base2'' 2 8]"

lemma layout_struct_desc_struct [simp]: "cwf struct_desc_struct" "calign struct_desc_struct = 2" "csize struct_desc_struct = 8"
  by (simp_all add: struct_desc_struct_def place_def align_up_def)

definition struct_thread_shstk :: ctype where
  "struct_thread_shstk = CStruct [
     Member ''base'' (CInt 8), Member ''size'' (CInt 8)]"

lemma layout_struct_thread_shstk [simp]: "cwf struct_thread_shstk" "calign struct_thread_shstk = 8" "csize struct_thread_shstk = 16"
  by (simp_all add: struct_thread_shstk_def place_def align_up_def)

definition struct_fpu_state_perm :: ctype where
  "struct_fpu_state_perm = CStruct [
     Member ''__state_perm'' (CInt 8), Member ''__state_size'' (CInt 4),
     Member ''__user_state_size'' (CInt 4)]"

lemma layout_struct_fpu_state_perm [simp]: "cwf struct_fpu_state_perm" "calign struct_fpu_state_perm = 8" "csize struct_fpu_state_perm = 16"
  by (simp_all add: struct_fpu_state_perm_def place_def align_up_def)

definition struct_fregs_state :: ctype where
  "struct_fregs_state = CStruct [
     Member ''cwd'' (CInt 4), Member ''swd'' (CInt 4), Member ''twd'' (CInt 4),
     Member ''fip'' (CInt 4), Member ''fcs'' (CInt 4), Member ''foo'' (CInt 4),
     Member ''fos'' (CInt 4), Member ''st_space'' (CArray (CInt 4) 20),
     Member ''status'' (CInt 4)]"

lemma layout_struct_fregs_state [simp]: "cwf struct_fregs_state" "calign struct_fregs_state = 4" "csize struct_fregs_state = 112"
  by (simp_all add: struct_fregs_state_def place_def align_up_def)

definition struct_fxregs_state :: ctype where
  "struct_fxregs_state = CStruct [
     Member ''cwd'' (CInt 2), Member ''swd'' (CInt 2), Member ''twd'' (CInt 2),
     Member ''fop'' (CInt 2), Member '''' (CUnion [
       Member '''' (CStruct [
         Member ''rip'' (CInt 8), Member ''rdp'' (CInt 8)]), Member '''' (CStruct [
         Member ''fip'' (CInt 4), Member ''fcs'' (CInt 4), Member ''foo'' (CInt 4),
         Member ''fos'' (CInt 4)])]), Member ''mxcsr'' (CInt 4), Member ''mxcsr_mask'' (CInt 4),
     Member ''st_space'' (CArray (CInt 4) 32), Member ''xmm_space'' (CArray (CInt 4) 64),
     Member ''padding'' (CArray (CInt 4) 12), Member '''' (CUnion [
       Member ''padding1'' (CArray (CInt 4) 12), Member ''sw_reserved'' (CArray (CInt 4) 12)])]"

lemma layout_struct_fxregs_state [simp]: "cwf struct_fxregs_state" "calign struct_fxregs_state = 8" "csize struct_fxregs_state = 512"
  by (simp_all add: struct_fxregs_state_def place_def align_up_def)

definition struct_swregs_state :: ctype where
  "struct_swregs_state = CStruct [
     Member ''cwd'' (CInt 4), Member ''swd'' (CInt 4), Member ''twd'' (CInt 4),
     Member ''fip'' (CInt 4), Member ''fcs'' (CInt 4), Member ''foo'' (CInt 4),
     Member ''fos'' (CInt 4), Member ''st_space'' (CArray (CInt 4) 20), Member ''ftop'' (CInt 1),
     Member ''changed'' (CInt 1), Member ''lookahead'' (CInt 1), Member ''no_update'' (CInt 1),
     Member ''rm'' (CInt 1), Member ''alimit'' (CInt 1), Member ''info'' CPtr,
     Member ''entry_eip'' (CInt 4)]"

lemma layout_struct_swregs_state [simp]: "cwf struct_swregs_state" "calign struct_swregs_state = 8" "csize struct_swregs_state = 136"
  by (simp_all add: struct_swregs_state_def place_def align_up_def)

definition struct_xstate_header :: ctype where
  "struct_xstate_header = CStruct [
     Member ''xfeatures'' (CInt 8), Member ''xcomp_bv'' (CInt 8),
     Member ''reserved'' (CArray (CInt 8) 6)]"

lemma layout_struct_xstate_header [simp]: "cwf struct_xstate_header" "calign struct_xstate_header = 8" "csize struct_xstate_header = 64"
  by (simp_all add: struct_xstate_header_def place_def align_up_def)

definition struct_xregs_state :: ctype where
  "struct_xregs_state = CStruct [
     Member ''i387'' struct_fxregs_state, Member ''header'' struct_xstate_header,
     Member ''extended_state_area'' (CArray (CInt 1) 0)]"

lemma layout_struct_xregs_state [simp]: "cwf struct_xregs_state" "calign struct_xregs_state = 8" "csize struct_xregs_state = 576"
  by (simp_all add: struct_xregs_state_def place_def align_up_def)

definition union_fpregs_state :: ctype where
  "union_fpregs_state = CUnion [
     Member ''fsave'' struct_fregs_state, Member ''fxsave'' struct_fxregs_state,
     Member ''soft'' struct_swregs_state, Member ''xsave'' struct_xregs_state,
     Member ''__padding'' (CArray (CInt 1) 4096)]"

lemma layout_union_fpregs_state [simp]: "cwf union_fpregs_state" "calign union_fpregs_state = 8" "csize union_fpregs_state = 4096"
  by (simp_all add: union_fpregs_state_def place_def align_up_def)

definition struct_fpstate :: ctype where
  "struct_fpstate = CStruct [
     Member ''size'' (CInt 4), Member ''user_size'' (CInt 4), Member ''xfeatures'' (CInt 8),
     Member ''user_xfeatures'' (CInt 8), Member ''xfd'' (CInt 8), Bits ''is_valloc'' 4 1,
     Bits ''is_guest'' 4 1, Bits ''is_confidential'' 4 1, Bits ''in_use'' 4 1, Bits '''' 8 64,
     Bits '''' 8 64, Bits '''' 8 64, Member ''regs'' union_fpregs_state]"

lemma layout_struct_fpstate [simp]: "cwf struct_fpstate" "calign struct_fpstate = 8" "csize struct_fpstate = 4160"
  by (simp_all add: struct_fpstate_def place_def align_up_def)

definition struct_fpu :: ctype where
  "struct_fpu = CStruct [
     Member ''last_cpu'' (CInt 4), Member ''avx512_timestamp'' (CInt 8), Member ''fpstate'' CPtr,
     Member ''__task_fpstate'' CPtr, Member ''perm'' struct_fpu_state_perm,
     Member ''guest_perm'' struct_fpu_state_perm, Member ''__fpstate'' struct_fpstate]"

lemma layout_struct_fpu [simp]: "cwf struct_fpu" "calign struct_fpu = 8" "csize struct_fpu = 4224"
  by (simp_all add: struct_fpu_def place_def align_up_def)

definition struct_thread_struct :: ctype where
  "struct_thread_struct = CStruct [
     Member ''tls_array'' (CArray struct_desc_struct 3), Member ''sp'' (CInt 8),
     Member ''es'' (CInt 2), Member ''ds'' (CInt 2), Member ''fsindex'' (CInt 2),
     Member ''gsindex'' (CInt 2), Member ''fsbase'' (CInt 8), Member ''gsbase'' (CInt 8),
     Member ''ptrace_bps'' (CArray CPtr 4), Member ''virtual_dr6'' (CInt 8),
     Member ''ptrace_dr7'' (CInt 8), Member ''cr2'' (CInt 8), Member ''trap_nr'' (CInt 8),
     Member ''error_code'' (CInt 8), Member ''io_bitmap'' CPtr, Member ''iopl_emul'' (CInt 8),
     Bits ''iopl_warn'' 4 1, Member ''pkru'' (CInt 4), Member ''features'' (CInt 8),
     Member ''features_locked'' (CInt 8), Member ''shstk'' struct_thread_shstk, Bits '''' 8 64,
     Member ''fpu'' struct_fpu]"

lemma layout_struct_thread_struct [simp]: "cwf struct_thread_struct" "calign struct_thread_struct = 8" "csize struct_thread_struct = 4416"
  by (simp_all add: struct_thread_struct_def place_def align_up_def)

definition struct_task_struct :: ctype where
  "struct_task_struct = CStruct [
     Member ''thread_info'' struct_thread_info, Member ''__state'' (CInt 4),
     Member ''saved_state'' (CInt 4), Member ''stack'' CPtr,
     Member ''usage'' struct_refcount_struct, Member ''flags'' (CInt 4),
     Member ''ptrace'' (CInt 4), Member ''on_cpu'' (CInt 4),
     Member ''wake_entry'' struct___call_single_node, Member ''wakee_flips'' (CInt 4),
     Member ''wakee_flip_decay_ts'' (CInt 8), Member ''last_wakee'' CPtr,
     Member ''recent_used_cpu'' (CInt 4), Member ''wake_cpu'' (CInt 4),
     Member ''on_rq'' (CInt 4), Member ''prio'' (CInt 4), Member ''static_prio'' (CInt 4),
     Member ''normal_prio'' (CInt 4), Member ''rt_priority'' (CInt 4),
     Member ''se'' struct_sched_entity, Member ''rt'' struct_sched_rt_entity,
     Member ''dl'' struct_sched_dl_entity, Member ''dl_server'' CPtr,
     Member ''sched_class'' CPtr, Member ''core_node'' struct_rb_node,
     Member ''core_cookie'' (CInt 8), Member ''core_occupation'' (CInt 4),
     Member ''sched_task_group'' CPtr, Member ''uclamp_req'' (CArray struct_uclamp_se 2),
     Member ''uclamp'' (CArray struct_uclamp_se 2), Bits '''' 8 64,
     Member ''stats'' struct_sched_statistics, Member ''preempt_notifiers'' struct_hlist_head,
     Member ''btrace_seq'' (CInt 4), Member ''policy'' (CInt 4),
     Member ''max_allowed_capacity'' (CInt 8), Member ''nr_cpus_allowed'' (CInt 4),
     Member ''cpus_ptr'' CPtr, Member ''user_cpus_ptr'' CPtr,
     Member ''cpus_mask'' struct_cpumask, Member ''migration_pending'' CPtr,
     Member ''migration_disabled'' (CInt 2), Member ''migration_flags'' (CInt 2),
     Member ''rcu_read_lock_nesting'' (CInt 4),
     Member ''rcu_read_unlock_special'' union_rcu_special,
     Member ''rcu_node_entry'' struct_list_head, Member ''rcu_blocked_node'' CPtr,
     Member ''rcu_tasks_nvcsw'' (CInt 8), Member ''rcu_tasks_holdout'' (CInt 1),
     Member ''rcu_tasks_idx'' (CInt 1), Member ''rcu_tasks_idle_cpu'' (CInt 4),
     Member ''rcu_tasks_holdout_list'' struct_list_head, Member ''rcu_tasks_exit_cpu'' (CInt 4),
     Member ''rcu_tasks_exit_list'' struct_list_head, Member ''trc_reader_nesting'' (CInt 4),
     Member ''trc_ipi_to_cpu'' (CInt 4), Member ''trc_reader_special'' union_rcu_special,
     Member ''trc_holdout_list'' struct_list_head, Member ''trc_blkd_node'' struct_list_head,
     Member ''trc_blkd_cpu'' (CInt 4), Member ''sched_info'' struct_sched_info,
     Member ''tasks'' struct_list_head, Member ''pushable_tasks'' struct_plist_node,
     Member ''pushable_dl_tasks'' struct_rb_node, Member ''mm'' CPtr, Member ''active_mm'' CPtr,
     Member ''faults_disabled_mapping'' CPtr, Member ''exit_state'' (CInt 4),
     Member ''exit_code'' (CInt 4), Member ''exit_signal'' (CInt 4),
     Member ''pdeath_signal'' (CInt 4), Member ''jobctl'' (CInt 8),
     Member ''personality'' (CInt 4), Bits ''sched_reset_on_fork'' 4 1,
     Bits ''sched_contributes_to_load'' 4 1, Bits ''sched_migrated'' 4 1, Bits '''' 8 29,
     Bits ''sched_remote_wakeup'' 4 1, Bits ''sched_rt_mutex'' 4 1, Bits ''in_execve'' 4 1,
     Bits ''in_iowait'' 4 1, Bits ''restore_sigmask'' 4 1, Bits ''in_lru_fault'' 4 1,
     Bits ''no_cgroup_migration'' 4 1, Bits ''frozen'' 4 1, Bits ''use_memdelay'' 4 1,
     Bits ''in_memstall'' 4 1, Bits ''in_eventfd'' 4 1, Bits ''pasid_activated'' 4 1,
     Bits ''reported_split_lock'' 4 1, Bits ''in_thrashing'' 4 1,
     Member ''atomic_flags'' (CInt 8), Member ''restart_block'' struct_restart_block,
     Member ''pid'' (CInt 4), Member ''tgid'' (CInt 4), Member ''stack_canary'' (CInt 8),
     Member ''real_parent'' CPtr, Member ''parent'' CPtr, Member ''children'' struct_list_head,
     Member ''sibling'' struct_list_head, Member ''group_leader'' CPtr,
     Member ''ptraced'' struct_list_head, Member ''ptrace_entry'' struct_list_head,
     Member ''thread_pid'' CPtr, Member ''pid_links'' (CArray struct_hlist_node 4),
     Member ''thread_node'' struct_list_head, Member ''vfork_done'' CPtr,
     Member ''set_child_tid'' CPtr, Member ''clear_child_tid'' CPtr,
     Member ''worker_private'' CPtr, Member ''utime'' (CInt 8), Member ''stime'' (CInt 8),
     Member ''gtime'' (CInt 8), Member ''prev_cputime'' struct_prev_cputime,
     Member ''vtime'' struct_vtime, Member ''tick_dep_mask'' type_atomic_t,
     Member ''nvcsw'' (CInt 8), Member ''nivcsw'' (CInt 8), Member ''start_time'' (CInt 8),
     Member ''start_boottime'' (CInt 8), Member ''min_flt'' (CInt 8),
     Member ''maj_flt'' (CInt 8), Member ''posix_cputimers'' struct_posix_cputimers,
     Member ''posix_cputimers_work'' struct_posix_cputimers_work, Member ''ptracer_cred'' CPtr,
     Member ''real_cred'' CPtr, Member ''cred'' CPtr, Member ''cached_requested_key'' CPtr,
     Member ''comm'' (CArray (CInt 1) 16), Member ''nameidata'' CPtr,
     Member ''sysvsem'' struct_sysv_sem, Member ''sysvshm'' struct_sysv_shm,
     Member ''last_switch_count'' (CInt 8), Member ''last_switch_time'' (CInt 8),
     Member ''fs'' CPtr, Member ''files'' CPtr, Member ''io_uring'' CPtr,
     Member ''nsproxy'' CPtr, Member ''signal'' CPtr, Member ''sighand'' CPtr,
     Member ''blocked'' type_sigset_t, Member ''real_blocked'' type_sigset_t,
     Member ''saved_sigmask'' type_sigset_t, Member ''pending'' struct_sigpending,
     Member ''sas_ss_sp'' (CInt 8), Member ''sas_ss_size'' (CInt 8),
     Member ''sas_ss_flags'' (CInt 4), Member ''task_works'' CPtr, Member ''audit_context'' CPtr,
     Member ''loginuid'' type_kuid_t, Member ''sessionid'' (CInt 4),
     Member ''seccomp'' struct_seccomp, Member ''syscall_dispatch'' struct_syscall_user_dispatch,
     Member ''parent_exec_id'' (CInt 8), Member ''self_exec_id'' (CInt 8),
     Member ''alloc_lock'' struct_spinlock, Member ''pi_lock'' struct_raw_spinlock,
     Member ''wake_q'' struct_wake_q_node, Member ''pi_waiters'' struct_rb_root_cached,
     Member ''pi_top_task'' CPtr, Member ''pi_blocked_on'' CPtr, Member ''journal_info'' CPtr,
     Member ''bio_list'' CPtr, Member ''plug'' CPtr, Member ''reclaim_state'' CPtr,
     Member ''io_context'' CPtr, Member ''capture_control'' CPtr,
     Member ''ptrace_message'' (CInt 8), Member ''last_siginfo'' CPtr,
     Member ''ioac'' struct_task_io_accounting, Member ''psi_flags'' (CInt 4),
     Member ''acct_rss_mem1'' (CInt 8), Member ''acct_vm_mem1'' (CInt 8),
     Member ''acct_timexpd'' (CInt 8), Member ''mems_allowed'' type_nodemask_t,
     Member ''mems_allowed_seq'' struct_seqcount_spinlock,
     Member ''cpuset_mem_spread_rotor'' (CInt 4), Member ''cpuset_slab_spread_rotor'' (CInt 4),
     Member ''cgroups'' CPtr, Member ''cg_list'' struct_list_head, Member ''closid'' (CInt 4),
     Member ''rmid'' (CInt 4), Member ''robust_list'' CPtr, Member ''compat_robust_list'' CPtr,
     Member ''pi_state_list'' struct_list_head, Member ''pi_state_cache'' CPtr,
     Member ''futex_exit_mutex'' struct_mutex, Member ''futex_state'' (CInt 4),
     Member ''perf_recursion'' (CArray (CInt 1) 4), Member ''perf_event_ctxp'' CPtr,
     Member ''perf_event_mutex'' struct_mutex, Member ''perf_event_list'' struct_list_head,
     Member ''mempolicy'' CPtr, Member ''il_prev'' (CInt 2), Member ''il_weight'' (CInt 1),
     Member ''pref_node_fork'' (CInt 2), Member ''numa_scan_seq'' (CInt 4),
     Member ''numa_scan_period'' (CInt 4), Member ''numa_scan_period_max'' (CInt 4),
     Member ''numa_preferred_nid'' (CInt 4), Member ''numa_migrate_retry'' (CInt 8),
     Member ''node_stamp'' (CInt 8), Member ''last_task_numa_placement'' (CInt 8),
     Member ''last_sum_exec_runtime'' (CInt 8), Member ''numa_work'' struct_callback_head,
     Member ''numa_group'' CPtr, Member ''numa_faults'' CPtr,
     Member ''total_numa_faults'' (CInt 8), Member ''numa_faults_locality'' (CArray (CInt 8) 3),
     Member ''numa_pages_migrated'' (CInt 8), Member ''rseq'' CPtr, Member ''rseq_len'' (CInt 4),
     Member ''rseq_sig'' (CInt 4), Member ''rseq_event_mask'' (CInt 8),
     Member ''mm_cid'' (CInt 4), Member ''last_mm_cid'' (CInt 4),
     Member ''migrate_from_cpu'' (CInt 4), Member ''mm_cid_active'' (CInt 4),
     Member ''cid_work'' struct_callback_head, Member ''tlb_ubc'' struct_tlbflush_unmap_batch,
     Member ''splice_pipe'' CPtr, Member ''task_frag'' struct_page_frag, Member ''delays'' CPtr,
     Member ''nr_dirtied'' (CInt 4), Member ''nr_dirtied_pause'' (CInt 4),
     Member ''dirty_paused_when'' (CInt 8), Member ''timer_slack_ns'' (CInt 8),
     Member ''default_timer_slack_ns'' (CInt 8), Member ''curr_ret_stack'' (CInt 4),
     Member ''curr_ret_depth'' (CInt 4), Member ''ret_stack'' CPtr,
     Member ''ftrace_timestamp'' (CInt 8), Member ''trace_overrun'' type_atomic_t,
     Member ''tracing_graph_pause'' type_atomic_t, Member ''trace_recursion'' (CInt 8),
     Member ''memcg_nr_pages_over_high'' (CInt 4), Member ''active_memcg'' CPtr,
     Member ''objcg'' CPtr, Member ''throttle_disk'' CPtr, Member ''utask'' CPtr,
     Member ''sequential_io'' (CInt 4), Member ''sequential_io_avg'' (CInt 4),
     Member ''kmap_ctrl'' struct_kmap_ctrl, Member ''rcu'' struct_callback_head,
     Member ''rcu_users'' struct_refcount_struct, Member ''pagefault_disabled'' (CInt 4),
     Member ''oom_reaper_list'' CPtr, Member ''oom_reaper_timer'' struct_timer_list,
     Member ''stack_vm_area'' CPtr, Member ''stack_refcount'' struct_refcount_struct,
     Member ''security'' CPtr, Member ''bpf_storage'' CPtr, Member ''bpf_ctx'' CPtr,
     Member ''bpf_net_context'' CPtr, Member ''mce_vaddr'' CPtr, Member ''mce_kflags'' (CInt 8),
     Member ''mce_addr'' (CInt 8), Bits ''mce_ripv'' 8 1, Bits ''mce_whole_page'' 8 1,
     Bits ''__mce_reserved'' 8 62, Member ''mce_kill_me'' struct_callback_head,
     Member ''mce_count'' (CInt 4), Member ''kretprobe_instances'' struct_llist_head,
     Member ''rethooks'' struct_llist_head, Member ''l1d_flush_kill'' struct_callback_head,
     Bits '''' 8 64, Bits '''' 8 64, Bits '''' 8 64, Bits '''' 8 64, Bits '''' 8 64,
     Bits '''' 8 64, Bits '''' 8 64, Member ''thread'' struct_thread_struct]"

lemma layout_struct_task_struct [simp]: "cwf struct_task_struct" "calign struct_task_struct = 8" "csize struct_task_struct = 7808"
  by (simp_all add: struct_task_struct_def place_def align_up_def)

definition type_lockdep_map_p :: ctype where
  "type_lockdep_map_p = CStruct []"

lemma layout_type_lockdep_map_p [simp]: "cwf type_lockdep_map_p" "calign type_lockdep_map_p = 1" "csize type_lockdep_map_p = 0"
  by (simp_all add: type_lockdep_map_p_def place_def align_up_def)

definition struct_maple_tree :: ctype where
  "struct_maple_tree = CStruct [
     Member '''' (CUnion [
       Member ''ma_lock'' struct_spinlock, Member ''ma_external_lock'' type_lockdep_map_p]),
     Member ''ma_flags'' (CInt 4), Member ''ma_root'' CPtr]"

lemma layout_struct_maple_tree [simp]: "cwf struct_maple_tree" "calign struct_maple_tree = 8" "csize struct_maple_tree = 16"
  by (simp_all add: struct_maple_tree_def place_def align_up_def)

definition type_mm_context_t :: ctype where
  "type_mm_context_t = CStruct [
     Member ''ctx_id'' (CInt 8), Member ''tlb_gen'' type_atomic64_t,
     Member ''ldt_usr_sem'' struct_rw_semaphore, Member ''ldt'' CPtr, Member ''flags'' (CInt 8),
     Member ''lock'' struct_mutex, Member ''vdso'' CPtr, Member ''vdso_image'' CPtr,
     Member ''perf_rdpmc_allowed'' type_atomic_t, Member ''pkey_allocation_map'' (CInt 2),
     Member ''execute_only_pkey'' (CInt 2)]"

lemma layout_type_mm_context_t [simp]: "cwf type_mm_context_t" "calign type_mm_context_t = 8" "csize type_mm_context_t = 128"
  by (simp_all add: type_mm_context_t_def place_def align_up_def)

definition struct_uprobes_state :: ctype where
  "struct_uprobes_state = CStruct [
     Member ''xol_area'' CPtr]"

lemma layout_struct_uprobes_state [simp]: "cwf struct_uprobes_state" "calign struct_uprobes_state = 8" "csize struct_uprobes_state = 8"
  by (simp_all add: struct_uprobes_state_def place_def align_up_def)

definition struct_mm_struct :: ctype where
  "struct_mm_struct = CStruct [
     Member '''' (CStruct [
       Member '''' (CStruct [
         Member ''mm_count'' type_atomic_t, Bits '''' 8 64, Bits '''' 8 64, Bits '''' 8 64,
         Bits '''' 8 64, Bits '''' 8 64, Bits '''' 8 64, Bits '''' 8 64]),
       Member ''mm_mt'' struct_maple_tree, Member ''mmap_base'' (CInt 8),
       Member ''mmap_legacy_base'' (CInt 8), Member ''mmap_compat_base'' (CInt 8),
       Member ''mmap_compat_legacy_base'' (CInt 8), Member ''task_size'' (CInt 8),
       Member ''pgd'' CPtr, Member ''membarrier_state'' type_atomic_t,
       Member ''mm_users'' type_atomic_t, Member ''pcpu_cid'' CPtr,
       Member ''mm_cid_next_scan'' (CInt 8), Member ''pgtables_bytes'' type_atomic64_t,
       Member ''map_count'' (CInt 4), Member ''page_table_lock'' struct_spinlock,
       Member ''mmap_lock'' struct_rw_semaphore, Member ''mmlist'' struct_list_head,
       Member ''mm_lock_seq'' (CInt 4), Member ''hiwater_rss'' (CInt 8),
       Member ''hiwater_vm'' (CInt 8), Member ''total_vm'' (CInt 8),
       Member ''locked_vm'' (CInt 8), Member ''pinned_vm'' type_atomic64_t,
       Member ''data_vm'' (CInt 8), Member ''exec_vm'' (CInt 8), Member ''stack_vm'' (CInt 8),
       Member ''def_flags'' (CInt 8), Member ''write_protect_seq'' struct_seqcount,
       Member ''arg_lock'' struct_spinlock, Member ''start_code'' (CInt 8),
       Member ''end_code'' (CInt 8), Member ''start_data'' (CInt 8),
       Member ''end_data'' (CInt 8), Member ''start_brk'' (CInt 8), Member ''brk'' (CInt 8),
       Member ''start_stack'' (CInt 8), Member ''arg_start'' (CInt 8),
       Member ''arg_end'' (CInt 8), Member ''env_start'' (CInt 8), Member ''env_end'' (CInt 8),
       Member ''saved_auxv'' (CArray (CInt 8) 52),
       Member ''rss_stat'' (CArray struct_percpu_counter 4), Member ''binfmt'' CPtr,
       Member ''context'' type_mm_context_t, Member ''flags'' (CInt 8),
       Member ''ioctx_lock'' struct_spinlock, Member ''ioctx_table'' CPtr, Member ''owner'' CPtr,
       Member ''user_ns'' CPtr, Member ''exe_file'' CPtr, Member ''notifier_subscriptions'' CPtr,
       Member ''numa_next_scan'' (CInt 8), Member ''numa_scan_offset'' (CInt 8),
       Member ''numa_scan_seq'' (CInt 4), Member ''tlb_flush_pending'' type_atomic_t,
       Member ''tlb_flush_batched'' type_atomic_t, Member ''uprobes_state'' struct_uprobes_state,
       Member ''hugetlb_usage'' type_atomic64_t, Member ''async_put_work'' struct_work_struct,
       Member ''iommu_mm'' CPtr, Member ''ksm_merging_pages'' (CInt 8),
       Member ''ksm_rmap_items'' (CInt 8), Member ''ksm_zero_pages'' type_atomic64_t,
       Member ''lru_gen'' (CStruct [
         Member ''list'' struct_list_head, Member ''bitmap'' (CInt 8), Member ''memcg'' CPtr]),
       Bits '''' 8 64, Bits '''' 8 64, Bits '''' 8 64, Bits '''' 8 64]),
     Member ''cpu_bitmap'' (CArray (CInt 8) 0)]"

lemma layout_struct_mm_struct [simp]: "cwf struct_mm_struct" "calign struct_mm_struct = 8" "csize struct_mm_struct = 1344"
  by (simp_all add: struct_mm_struct_def place_def align_up_def)

definition struct_pgprot :: ctype where
  "struct_pgprot = CStruct [
     Member ''pgprot'' (CInt 8)]"

lemma layout_struct_pgprot [simp]: "cwf struct_pgprot" "calign struct_pgprot = 8" "csize struct_pgprot = 8"
  by (simp_all add: struct_pgprot_def place_def align_up_def)

definition struct_vm_userfaultfd_ctx :: ctype where
  "struct_vm_userfaultfd_ctx = CStruct [
     Member ''ctx'' CPtr]"

lemma layout_struct_vm_userfaultfd_ctx [simp]: "cwf struct_vm_userfaultfd_ctx" "calign struct_vm_userfaultfd_ctx = 8" "csize struct_vm_userfaultfd_ctx = 8"
  by (simp_all add: struct_vm_userfaultfd_ctx_def place_def align_up_def)

definition struct_vm_area_struct :: ctype where
  "struct_vm_area_struct = CStruct [
     Member '''' (CUnion [
       Member '''' (CStruct [
         Member ''vm_start'' (CInt 8), Member ''vm_end'' (CInt 8)]),
       Member ''vm_rcu'' struct_callback_head]), Member ''vm_mm'' CPtr,
     Member ''vm_page_prot'' struct_pgprot, Member '''' (CUnion [
       Member ''vm_flags'' (CInt 8), Member ''__vm_flags'' (CInt 8)]),
     Member ''detached'' (CInt 1), Member ''vm_lock_seq'' (CInt 4), Member ''vm_lock'' CPtr,
     Member ''shared'' (CStruct [
       Member ''rb'' struct_rb_node, Member ''rb_subtree_last'' (CInt 8)]),
     Member ''anon_vma_chain'' struct_list_head, Member ''anon_vma'' CPtr,
     Member ''vm_ops'' CPtr, Member ''vm_pgoff'' (CInt 8), Member ''vm_file'' CPtr,
     Member ''vm_private_data'' CPtr, Member ''swap_readahead_info'' type_atomic64_t,
     Member ''vm_policy'' CPtr, Member ''numab_state'' CPtr,
     Member ''vm_userfaultfd_ctx'' struct_vm_userfaultfd_ctx]"

lemma layout_struct_vm_area_struct [simp]: "cwf struct_vm_area_struct" "calign struct_vm_area_struct = 8" "csize struct_vm_area_struct = 176"
  by (simp_all add: struct_vm_area_struct_def place_def align_up_def)

definition struct_cpu_itimer :: ctype where
  "struct_cpu_itimer = CStruct [
     Member ''expires'' (CInt 8), Member ''incr'' (CInt 8)]"

lemma layout_struct_cpu_itimer [simp]: "cwf struct_cpu_itimer" "calign struct_cpu_itimer = 8" "csize struct_cpu_itimer = 16"
  by (simp_all add: struct_cpu_itimer_def place_def align_up_def)

definition struct_task_cputime_atomic :: ctype where
  "struct_task_cputime_atomic = CStruct [
     Member ''utime'' type_atomic64_t, Member ''stime'' type_atomic64_t,
     Member ''sum_exec_runtime'' type_atomic64_t]"

lemma layout_struct_task_cputime_atomic [simp]: "cwf struct_task_cputime_atomic" "calign struct_task_cputime_atomic = 8" "csize struct_task_cputime_atomic = 24"
  by (simp_all add: struct_task_cputime_atomic_def place_def align_up_def)

definition struct_thread_group_cputimer :: ctype where
  "struct_thread_group_cputimer = CStruct [
     Member ''cputime_atomic'' struct_task_cputime_atomic]"

lemma layout_struct_thread_group_cputimer [simp]: "cwf struct_thread_group_cputimer" "calign struct_thread_group_cputimer = 8" "csize struct_thread_group_cputimer = 24"
  by (simp_all add: struct_thread_group_cputimer_def place_def align_up_def)

definition struct_rlimit :: ctype where
  "struct_rlimit = CStruct [
     Member ''rlim_cur'' (CInt 8), Member ''rlim_max'' (CInt 8)]"

lemma layout_struct_rlimit [simp]: "cwf struct_rlimit" "calign struct_rlimit = 8" "csize struct_rlimit = 16"
  by (simp_all add: struct_rlimit_def place_def align_up_def)

definition struct_pacct_struct :: ctype where
  "struct_pacct_struct = CStruct [
     Member ''ac_flag'' (CInt 4), Member ''ac_exitcode'' (CInt 8), Member ''ac_mem'' (CInt 8),
     Member ''ac_utime'' (CInt 8), Member ''ac_stime'' (CInt 8), Member ''ac_minflt'' (CInt 8),
     Member ''ac_majflt'' (CInt 8)]"

lemma layout_struct_pacct_struct [simp]: "cwf struct_pacct_struct" "calign struct_pacct_struct = 8" "csize struct_pacct_struct = 56"
  by (simp_all add: struct_pacct_struct_def place_def align_up_def)

definition struct_signal_struct :: ctype where
  "struct_signal_struct = CStruct [
     Member ''sigcnt'' struct_refcount_struct, Member ''live'' type_atomic_t,
     Member ''nr_threads'' (CInt 4), Member ''quick_threads'' (CInt 4),
     Member ''thread_head'' struct_list_head, Member ''wait_chldexit'' struct_wait_queue_head,
     Member ''curr_target'' CPtr, Member ''shared_pending'' struct_sigpending,
     Member ''multiprocess'' struct_hlist_head, Member ''group_exit_code'' (CInt 4),
     Member ''notify_count'' (CInt 4), Member ''group_exec_task'' CPtr,
     Member ''group_stop_count'' (CInt 4), Member ''flags'' (CInt 4), Member ''core_state'' CPtr,
     Bits ''is_child_subreaper'' 4 1, Bits ''has_child_subreaper'' 4 1,
     Member ''next_posix_timer_id'' (CInt 4), Member ''posix_timers'' struct_list_head,
     Member ''real_timer'' struct_hrtimer, Member ''it_real_incr'' (CInt 8),
     Member ''it'' (CArray struct_cpu_itimer 2),
     Member ''cputimer'' struct_thread_group_cputimer,
     Member ''posix_cputimers'' struct_posix_cputimers, Member ''pids'' (CArray CPtr 4),
     Member ''tick_dep_mask'' type_atomic_t, Member ''tty_old_pgrp'' CPtr,
     Member ''leader'' (CInt 4), Member ''tty'' CPtr, Member ''autogroup'' CPtr,
     Member ''stats_lock'' type_seqlock_t, Member ''utime'' (CInt 8), Member ''stime'' (CInt 8),
     Member ''cutime'' (CInt 8), Member ''cstime'' (CInt 8), Member ''gtime'' (CInt 8),
     Member ''cgtime'' (CInt 8), Member ''prev_cputime'' struct_prev_cputime,
     Member ''nvcsw'' (CInt 8), Member ''nivcsw'' (CInt 8), Member ''cnvcsw'' (CInt 8),
     Member ''cnivcsw'' (CInt 8), Member ''min_flt'' (CInt 8), Member ''maj_flt'' (CInt 8),
     Member ''cmin_flt'' (CInt 8), Member ''cmaj_flt'' (CInt 8), Member ''inblock'' (CInt 8),
     Member ''oublock'' (CInt 8), Member ''cinblock'' (CInt 8), Member ''coublock'' (CInt 8),
     Member ''maxrss'' (CInt 8), Member ''cmaxrss'' (CInt 8),
     Member ''ioac'' struct_task_io_accounting, Member ''sum_sched_runtime'' (CInt 8),
     Member ''rlim'' (CArray struct_rlimit 16), Member ''pacct'' struct_pacct_struct,
     Member ''stats'' CPtr, Member ''audit_tty'' (CInt 4), Member ''tty_audit_buf'' CPtr,
     Member ''oom_flag_origin'' (CInt 1), Member ''oom_score_adj'' (CInt 2),
     Member ''oom_score_adj_min'' (CInt 2), Member ''oom_mm'' CPtr,
     Member ''cred_guard_mutex'' struct_mutex, Member ''exec_update_lock'' struct_rw_semaphore]"

lemma layout_struct_signal_struct [simp]: "cwf struct_signal_struct" "calign struct_signal_struct = 8" "csize struct_signal_struct = 1112"
  by (simp_all add: struct_signal_struct_def place_def align_up_def)

definition struct_sigaction :: ctype where
  "struct_sigaction = CStruct [
     Member ''sa_handler'' CPtr, Member ''sa_flags'' (CInt 8), Member ''sa_restorer'' CPtr,
     Member ''sa_mask'' type_sigset_t]"

lemma layout_struct_sigaction [simp]: "cwf struct_sigaction" "calign struct_sigaction = 8" "csize struct_sigaction = 32"
  by (simp_all add: struct_sigaction_def place_def align_up_def)

definition struct_k_sigaction :: ctype where
  "struct_k_sigaction = CStruct [
     Member ''sa'' struct_sigaction]"

lemma layout_struct_k_sigaction [simp]: "cwf struct_k_sigaction" "calign struct_k_sigaction = 8" "csize struct_k_sigaction = 32"
  by (simp_all add: struct_k_sigaction_def place_def align_up_def)

definition struct_sighand_struct :: ctype where
  "struct_sighand_struct = CStruct [
     Member ''siglock'' struct_spinlock, Member ''count'' struct_refcount_struct,
     Member ''signalfd_wqh'' struct_wait_queue_head,
     Member ''action'' (CArray struct_k_sigaction 64)]"

lemma layout_struct_sighand_struct [simp]: "cwf struct_sighand_struct" "calign struct_sighand_struct = 8" "csize struct_sighand_struct = 2080"
  by (simp_all add: struct_sighand_struct_def place_def align_up_def)

definition struct_fdtable :: ctype where
  "struct_fdtable = CStruct [
     Member ''max_fds'' (CInt 4), Member ''fd'' CPtr, Member ''close_on_exec'' CPtr,
     Member ''open_fds'' CPtr, Member ''full_fds_bits'' CPtr, Member ''rcu'' struct_callback_head]"

lemma layout_struct_fdtable [simp]: "cwf struct_fdtable" "calign struct_fdtable = 8" "csize struct_fdtable = 56"
  by (simp_all add: struct_fdtable_def place_def align_up_def)

definition struct_files_struct :: ctype where
  "struct_files_struct = CStruct [
     Member ''count'' type_atomic_t, Member ''resize_in_progress'' (CInt 1),
     Member ''resize_wait'' struct_wait_queue_head, Member ''fdt'' CPtr,
     Member ''fdtab'' struct_fdtable, Bits '''' 8 64, Bits '''' 8 64, Bits '''' 8 64,
     Bits '''' 8 64, Member ''file_lock'' struct_spinlock, Member ''next_fd'' (CInt 4),
     Member ''close_on_exec_init'' (CArray (CInt 8) 1),
     Member ''open_fds_init'' (CArray (CInt 8) 1),
     Member ''full_fds_bits_init'' (CArray (CInt 8) 1), Member ''fd_array'' (CArray CPtr 64),
     Bits '''' 8 64, Bits '''' 8 64, Bits '''' 8 64, Bits '''' 8 64]"

lemma layout_struct_files_struct [simp]: "cwf struct_files_struct" "calign struct_files_struct = 8" "csize struct_files_struct = 704"
  by (simp_all add: struct_files_struct_def place_def align_up_def)

definition struct_path :: ctype where
  "struct_path = CStruct [
     Member ''mnt'' CPtr, Member ''dentry'' CPtr]"

lemma layout_struct_path [simp]: "cwf struct_path" "calign struct_path = 8" "csize struct_path = 16"
  by (simp_all add: struct_path_def place_def align_up_def)

definition struct_fs_struct :: ctype where
  "struct_fs_struct = CStruct [
     Member ''users'' (CInt 4), Member ''lock'' struct_spinlock,
     Member ''seq'' struct_seqcount_spinlock, Member ''umask'' (CInt 4),
     Member ''in_exec'' (CInt 4), Member ''root'' struct_path, Member ''pwd'' struct_path]"

lemma layout_struct_fs_struct [simp]: "cwf struct_fs_struct" "calign struct_fs_struct = 8" "csize struct_fs_struct = 56"
  by (simp_all add: struct_fs_struct_def place_def align_up_def)

definition struct_upid :: ctype where
  "struct_upid = CStruct [
     Member ''nr'' (CInt 4), Member ''ns'' CPtr]"

lemma layout_struct_upid [simp]: "cwf struct_upid" "calign struct_upid = 8" "csize struct_upid = 16"
  by (simp_all add: struct_upid_def place_def align_up_def)

definition struct_pid :: ctype where
  "struct_pid = CStruct [
     Member ''count'' struct_refcount_struct, Member ''level'' (CInt 4),
     Member ''lock'' struct_spinlock, Member ''stashed'' CPtr, Member ''ino'' (CInt 8),
     Member ''tasks'' (CArray struct_hlist_head 4), Member ''inodes'' struct_hlist_head,
     Member ''wait_pidfd'' struct_wait_queue_head, Member ''rcu'' struct_callback_head,
     Member ''numbers'' (CArray struct_upid 0)]"

lemma layout_struct_pid [simp]: "cwf struct_pid" "calign struct_pid = 8" "csize struct_pid = 112"
  by (simp_all add: struct_pid_def place_def align_up_def)

definition struct_pid_namespace :: ctype where
  "struct_pid_namespace = CStruct [
     Member ''idr'' struct_idr, Member ''rcu'' struct_callback_head,
     Member ''pid_allocated'' (CInt 4), Member ''child_reaper'' CPtr, Member ''pid_cachep'' CPtr,
     Member ''level'' (CInt 4), Member ''parent'' CPtr, Member ''bacct'' CPtr,
     Member ''user_ns'' CPtr, Member ''ucounts'' CPtr, Member ''reboot'' (CInt 4),
     Member ''ns'' struct_ns_common, Member ''memfd_noexec_scope'' (CInt 4)]"

lemma layout_struct_pid_namespace [simp]: "cwf struct_pid_namespace" "calign struct_pid_namespace = 8" "csize struct_pid_namespace = 144"
  by (simp_all add: struct_pid_namespace_def place_def align_up_def)

definition struct_rcu_work :: ctype where
  "struct_rcu_work = CStruct [
     Member ''work'' struct_work_struct, Member ''rcu'' struct_callback_head, Member ''wq'' CPtr]"

lemma layout_struct_rcu_work [simp]: "cwf struct_rcu_work" "calign struct_rcu_work = 8" "csize struct_rcu_work = 56"
  by (simp_all add: struct_rcu_work_def place_def align_up_def)

definition struct_cgroup_subsys_state :: ctype where
  "struct_cgroup_subsys_state = CStruct [
     Member ''cgroup'' CPtr, Member ''ss'' CPtr, Member ''refcnt'' struct_percpu_ref,
     Member ''sibling'' struct_list_head, Member ''children'' struct_list_head,
     Member ''rstat_css_node'' struct_list_head, Member ''id'' (CInt 4),
     Member ''flags'' (CInt 4), Member ''serial_nr'' (CInt 8),
     Member ''online_cnt'' type_atomic_t, Member ''destroy_work'' struct_work_struct,
     Member ''destroy_rwork'' struct_rcu_work, Member ''parent'' CPtr]"

lemma layout_struct_cgroup_subsys_state [simp]: "cwf struct_cgroup_subsys_state" "calign struct_cgroup_subsys_state = 8" "csize struct_cgroup_subsys_state = 200"
  by (simp_all add: struct_cgroup_subsys_state_def place_def align_up_def)

definition struct_cgroup_file :: ctype where
  "struct_cgroup_file = CStruct [
     Member ''kn'' CPtr, Member ''notified_at'' (CInt 8),
     Member ''notify_timer'' struct_timer_list]"

lemma layout_struct_cgroup_file [simp]: "cwf struct_cgroup_file" "calign struct_cgroup_file = 8" "csize struct_cgroup_file = 56"
  by (simp_all add: struct_cgroup_file_def place_def align_up_def)

definition struct_cacheline_padding :: ctype where
  "struct_cacheline_padding = CStruct [
     Member ''x'' (CArray (CInt 1) 0)]"

lemma layout_struct_cacheline_padding [simp]: "cwf struct_cacheline_padding" "calign struct_cacheline_padding = 1" "csize struct_cacheline_padding = 0"
  by (simp_all add: struct_cacheline_padding_def place_def align_up_def)

definition struct_task_cputime :: ctype where
  "struct_task_cputime = CStruct [
     Member ''stime'' (CInt 8), Member ''utime'' (CInt 8), Member ''sum_exec_runtime'' (CInt 8)]"

lemma layout_struct_task_cputime [simp]: "cwf struct_task_cputime" "calign struct_task_cputime = 8" "csize struct_task_cputime = 24"
  by (simp_all add: struct_task_cputime_def place_def align_up_def)

definition struct_cgroup_base_stat :: ctype where
  "struct_cgroup_base_stat = CStruct [
     Member ''cputime'' struct_task_cputime, Member ''forceidle_sum'' (CInt 8)]"

lemma layout_struct_cgroup_base_stat [simp]: "cwf struct_cgroup_base_stat" "calign struct_cgroup_base_stat = 8" "csize struct_cgroup_base_stat = 32"
  by (simp_all add: struct_cgroup_base_stat_def place_def align_up_def)

definition struct_cgroup_freezer_state :: ctype where
  "struct_cgroup_freezer_state = CStruct [
     Member ''freeze'' (CInt 1), Member ''e_freeze'' (CInt 4),
     Member ''nr_frozen_descendants'' (CInt 4), Member ''nr_frozen_tasks'' (CInt 4)]"

lemma layout_struct_cgroup_freezer_state [simp]: "cwf struct_cgroup_freezer_state" "calign struct_cgroup_freezer_state = 4" "csize struct_cgroup_freezer_state = 16"
  by (simp_all add: struct_cgroup_freezer_state_def place_def align_up_def)

definition struct_cgroup :: ctype where
  "struct_cgroup = CStruct [
     Member ''self'' struct_cgroup_subsys_state, Member ''flags'' (CInt 8),
     Member ''level'' (CInt 4), Member ''max_depth'' (CInt 4),
     Member ''nr_descendants'' (CInt 4), Member ''nr_dying_descendants'' (CInt 4),
     Member ''max_descendants'' (CInt 4), Member ''nr_populated_csets'' (CInt 4),
     Member ''nr_populated_domain_children'' (CInt 4),
     Member ''nr_populated_threaded_children'' (CInt 4),
     Member ''nr_threaded_children'' (CInt 4), Member ''kn'' CPtr,
     Member ''procs_file'' struct_cgroup_file, Member ''events_file'' struct_cgroup_file,
     Member ''psi_files'' (CArray struct_cgroup_file 4), Member ''subtree_control'' (CInt 2),
     Member ''subtree_ss_mask'' (CInt 2), Member ''old_subtree_control'' (CInt 2),
     Member ''old_subtree_ss_mask'' (CInt 2), Member ''subsys'' (CArray CPtr 15),
     Member ''root'' CPtr, Member ''cset_links'' struct_list_head,
     Member ''e_csets'' (CArray struct_list_head 15), Member ''dom_cgrp'' CPtr,
     Member ''old_dom_cgrp'' CPtr, Member ''rstat_cpu'' CPtr,
     Member ''rstat_css_list'' struct_list_head, Member ''_pad_'' struct_cacheline_padding,
     Member ''rstat_flush_next'' CPtr, Member ''last_bstat'' struct_cgroup_base_stat,
     Member ''bstat'' struct_cgroup_base_stat, Member ''prev_cputime'' struct_prev_cputime,
     Member ''pidlists'' struct_list_head, Member ''pidlist_mutex'' struct_mutex,
     Member ''offline_waitq'' struct_wait_queue_head,
     Member ''release_agent_work'' struct_work_struct, Member ''psi'' CPtr,
     Member ''bpf'' struct_cgroup_bpf, Member ''freezer'' struct_cgroup_freezer_state,
     Member ''bpf_cgrp_storage'' CPtr, Member ''ancestors'' (CArray CPtr 0), Bits '''' 8 64]"

lemma layout_struct_cgroup [simp]: "cwf struct_cgroup" "calign struct_cgroup = 8" "csize struct_cgroup = 1984"
  by (simp_all add: struct_cgroup_def place_def align_up_def)

definition struct_css_set :: ctype where
  "struct_css_set = CStruct [
     Member ''subsys'' (CArray CPtr 15), Member ''refcount'' struct_refcount_struct,
     Member ''dom_cset'' CPtr, Member ''dfl_cgrp'' CPtr, Member ''nr_tasks'' (CInt 4),
     Member ''tasks'' struct_list_head, Member ''mg_tasks'' struct_list_head,
     Member ''dying_tasks'' struct_list_head, Member ''task_iters'' struct_list_head,
     Member ''e_cset_node'' (CArray struct_list_head 15),
     Member ''threaded_csets'' struct_list_head, Member ''threaded_csets_node'' struct_list_head,
     Member ''hlist'' struct_hlist_node, Member ''cgrp_links'' struct_list_head,
     Member ''mg_src_preload_node'' struct_list_head,
     Member ''mg_dst_preload_node'' struct_list_head, Member ''mg_node'' struct_list_head,
     Member ''mg_src_cgrp'' CPtr, Member ''mg_dst_cgrp'' CPtr, Member ''mg_dst_cset'' CPtr,
     Member ''dead'' (CInt 1), Member ''callback_head'' struct_callback_head]"

lemma layout_struct_css_set [simp]: "cwf struct_css_set" "calign struct_css_set = 8" "csize struct_css_set = 616"
  by (simp_all add: struct_css_set_def place_def align_up_def)

definition struct_cgroup_subsys :: ctype where
  "struct_cgroup_subsys = CStruct [
     Member ''css_alloc'' CPtr, Member ''css_online'' CPtr, Member ''css_offline'' CPtr,
     Member ''css_released'' CPtr, Member ''css_free'' CPtr, Member ''css_reset'' CPtr,
     Member ''css_rstat_flush'' CPtr, Member ''css_extra_stat_show'' CPtr,
     Member ''css_local_stat_show'' CPtr, Member ''can_attach'' CPtr,
     Member ''cancel_attach'' CPtr, Member ''attach'' CPtr, Member ''post_attach'' CPtr,
     Member ''can_fork'' CPtr, Member ''cancel_fork'' CPtr, Member ''fork'' CPtr,
     Member ''exit'' CPtr, Member ''release'' CPtr, Member ''bind'' CPtr,
     Bits ''early_init'' 1 1, Bits ''implicit_on_dfl'' 1 1, Bits ''threaded'' 1 1,
     Member ''id'' (CInt 4), Member ''name'' CPtr, Member ''legacy_name'' CPtr,
     Member ''root'' CPtr, Member ''css_idr'' struct_idr, Member ''cfts'' struct_list_head,
     Member ''dfl_cftypes'' CPtr, Member ''legacy_cftypes'' CPtr, Member ''depends_on'' (CInt 4)]"

lemma layout_struct_cgroup_subsys [simp]: "cwf struct_cgroup_subsys" "calign struct_cgroup_subsys = 8" "csize struct_cgroup_subsys = 248"
  by (simp_all add: struct_cgroup_subsys_def place_def align_up_def)

definition struct_mem_cgroup_id :: ctype where
  "struct_mem_cgroup_id = CStruct [
     Member ''id'' (CInt 4), Member ''ref'' struct_refcount_struct]"

lemma layout_struct_mem_cgroup_id [simp]: "cwf struct_mem_cgroup_id" "calign struct_mem_cgroup_id = 4" "csize struct_mem_cgroup_id = 8"
  by (simp_all add: struct_mem_cgroup_id_def place_def align_up_def)

definition struct_page_counter :: ctype where
  "struct_page_counter = CStruct [
     Member ''usage'' type_atomic64_t, Bits '''' 8 64, Bits '''' 8 64, Bits '''' 8 64,
     Bits '''' 8 64, Bits '''' 8 64, Bits '''' 8 64, Bits '''' 8 64,
     Member ''_pad1_'' struct_cacheline_padding, Member ''emin'' (CInt 8),
     Member ''min_usage'' type_atomic64_t, Member ''children_min_usage'' type_atomic64_t,
     Member ''elow'' (CInt 8), Member ''low_usage'' type_atomic64_t,
     Member ''children_low_usage'' type_atomic64_t, Member ''watermark'' (CInt 8),
     Member ''failcnt'' (CInt 8), Member ''_pad2_'' struct_cacheline_padding,
     Member ''min'' (CInt 8), Member ''low'' (CInt 8), Member ''high'' (CInt 8),
     Member ''max'' (CInt 8), Member ''parent'' CPtr, Bits '''' 8 64, Bits '''' 8 64,
     Bits '''' 8 64]"

lemma layout_struct_page_counter [simp]: "cwf struct_page_counter" "calign struct_page_counter = 8" "csize struct_page_counter = 192"
  by (simp_all add: struct_page_counter_def place_def align_up_def)

definition struct_vmpressure :: ctype where
  "struct_vmpressure = CStruct [
     Member ''scanned'' (CInt 8), Member ''reclaimed'' (CInt 8),
     Member ''tree_scanned'' (CInt 8), Member ''tree_reclaimed'' (CInt 8),
     Member ''sr_lock'' struct_spinlock, Member ''events'' struct_list_head,
     Member ''events_lock'' struct_mutex, Member ''work'' struct_work_struct]"

lemma layout_struct_vmpressure [simp]: "cwf struct_vmpressure" "calign struct_vmpressure = 8" "csize struct_vmpressure = 120"
  by (simp_all add: struct_vmpressure_def place_def align_up_def)

definition struct_fprop_global :: ctype where
  "struct_fprop_global = CStruct [
     Member ''events'' struct_percpu_counter, Member ''period'' (CInt 4),
     Member ''sequence'' struct_seqcount]"

lemma layout_struct_fprop_global [simp]: "cwf struct_fprop_global" "calign struct_fprop_global = 8" "csize struct_fprop_global = 48"
  by (simp_all add: struct_fprop_global_def place_def align_up_def)

definition struct_wb_domain :: ctype where
  "struct_wb_domain = CStruct [
     Member ''lock'' struct_spinlock, Member ''completions'' struct_fprop_global,
     Member ''period_timer'' struct_timer_list, Member ''period_time'' (CInt 8),
     Member ''dirty_limit_tstamp'' (CInt 8), Member ''dirty_limit'' (CInt 8)]"

lemma layout_struct_wb_domain [simp]: "cwf struct_wb_domain" "calign struct_wb_domain = 8" "csize struct_wb_domain = 120"
  by (simp_all add: struct_wb_domain_def place_def align_up_def)

definition struct_wb_completion :: ctype where
  "struct_wb_completion = CStruct [
     Member ''cnt'' type_atomic_t, Member ''waitq'' CPtr]"

lemma layout_struct_wb_completion [simp]: "cwf struct_wb_completion" "calign struct_wb_completion = 8" "csize struct_wb_completion = 16"
  by (simp_all add: struct_wb_completion_def place_def align_up_def)

definition struct_memcg_cgwb_frn :: ctype where
  "struct_memcg_cgwb_frn = CStruct [
     Member ''bdi_id'' (CInt 8), Member ''memcg_id'' (CInt 4), Member ''at'' (CInt 8),
     Member ''done'' struct_wb_completion]"

lemma layout_struct_memcg_cgwb_frn [simp]: "cwf struct_memcg_cgwb_frn" "calign struct_memcg_cgwb_frn = 8" "csize struct_memcg_cgwb_frn = 40"
  by (simp_all add: struct_memcg_cgwb_frn_def place_def align_up_def)

definition struct_deferred_split :: ctype where
  "struct_deferred_split = CStruct [
     Member ''split_queue_lock'' struct_spinlock, Member ''split_queue'' struct_list_head,
     Member ''split_queue_len'' (CInt 8)]"

lemma layout_struct_deferred_split [simp]: "cwf struct_deferred_split" "calign struct_deferred_split = 8" "csize struct_deferred_split = 32"
  by (simp_all add: struct_deferred_split_def place_def align_up_def)

definition struct_lru_gen_mm_list :: ctype where
  "struct_lru_gen_mm_list = CStruct [
     Member ''fifo'' struct_list_head, Member ''lock'' struct_spinlock]"

lemma layout_struct_lru_gen_mm_list [simp]: "cwf struct_lru_gen_mm_list" "calign struct_lru_gen_mm_list = 8" "csize struct_lru_gen_mm_list = 24"
  by (simp_all add: struct_lru_gen_mm_list_def place_def align_up_def)

definition struct_mem_cgroup :: ctype where
  "struct_mem_cgroup = CStruct [
     Member ''css'' struct_cgroup_subsys_state, Member ''id'' struct_mem_cgroup_id,
     Bits '''' 8 64, Bits '''' 8 64, Bits '''' 8 64, Bits '''' 8 64, Bits '''' 8 64,
     Bits '''' 8 64, Member ''memory'' struct_page_counter, Member '''' (CUnion [
       Member ''swap'' struct_page_counter, Member ''memsw'' struct_page_counter]),
     Member ''high_work'' struct_work_struct, Member ''zswap_max'' (CInt 8),
     Member ''zswap_writeback'' (CInt 1), Member ''vmpressure'' struct_vmpressure,
     Member ''oom_group'' (CInt 1), Member ''swappiness'' (CInt 4),
     Member ''events_file'' struct_cgroup_file, Member ''events_local_file'' struct_cgroup_file,
     Member ''swap_events_file'' struct_cgroup_file, Member ''vmstats'' CPtr,
     Member ''memory_events'' (CArray type_atomic64_t 9),
     Member ''memory_events_local'' (CArray type_atomic64_t 9),
     Member ''socket_pressure'' (CInt 8), Member ''kmemcg_id'' (CInt 4), Member ''objcg'' CPtr,
     Member ''orig_objcg'' CPtr, Member ''objcg_list'' struct_list_head,
     Member ''vmstats_percpu'' CPtr, Member ''cgwb_list'' struct_list_head,
     Member ''cgwb_domain'' struct_wb_domain,
     Member ''cgwb_frn'' (CArray struct_memcg_cgwb_frn 4),
     Member ''deferred_split_queue'' struct_deferred_split,
     Member ''mm_list'' struct_lru_gen_mm_list, Member ''nodeinfo'' (CArray CPtr 0),
     Bits '''' 8 64, Bits '''' 8 64, Bits '''' 8 64, Bits '''' 8 64, Bits '''' 8 64,
     Bits '''' 8 64, Bits '''' 8 64]"

lemma layout_struct_mem_cgroup [simp]: "cwf struct_mem_cgroup" "calign struct_mem_cgroup = 8" "csize struct_mem_cgroup = 1600"
  by (simp_all add: struct_mem_cgroup_def place_def align_up_def)

definition struct_uclamp_bucket :: ctype where
  "struct_uclamp_bucket = CStruct [
     Bits ''value'' 8 11, Bits ''tasks'' 8 53]"

lemma layout_struct_uclamp_bucket [simp]: "cwf struct_uclamp_bucket" "calign struct_uclamp_bucket = 8" "csize struct_uclamp_bucket = 8"
  by (simp_all add: struct_uclamp_bucket_def place_def align_up_def)

definition struct_uclamp_rq :: ctype where
  "struct_uclamp_rq = CStruct [
     Member ''value'' (CInt 4), Member ''bucket'' (CArray struct_uclamp_bucket 5)]"

lemma layout_struct_uclamp_rq [simp]: "cwf struct_uclamp_rq" "calign struct_uclamp_rq = 8" "csize struct_uclamp_rq = 48"
  by (simp_all add: struct_uclamp_rq_def place_def align_up_def)

definition struct_cfs_rq :: ctype where
  "struct_cfs_rq = CStruct [
     Member ''load'' struct_load_weight, Member ''nr_running'' (CInt 4),
     Member ''h_nr_running'' (CInt 4), Member ''idle_nr_running'' (CInt 4),
     Member ''idle_h_nr_running'' (CInt 4), Member ''avg_vruntime'' (CInt 8),
     Member ''avg_load'' (CInt 8), Member ''exec_clock'' (CInt 8),
     Member ''min_vruntime'' (CInt 8), Member ''forceidle_seq'' (CInt 4),
     Member ''min_vruntime_fi'' (CInt 8), Member ''tasks_timeline'' struct_rb_root_cached,
     Member ''curr'' CPtr, Member ''next'' CPtr, Member ''nr_spread_over'' (CInt 4),
     Bits '''' 8 64, Member ''avg'' struct_sched_avg, Member ''removed'' (CStruct [
       Member ''lock'' struct_raw_spinlock, Member ''nr'' (CInt 4), Member ''load_avg'' (CInt 8),
       Member ''util_avg'' (CInt 8), Member ''runnable_avg'' (CInt 8), Bits '''' 8 64,
       Bits '''' 8 64, Bits '''' 8 64, Bits '''' 8 64]),
     Member ''last_update_tg_load_avg'' (CInt 8), Member ''tg_load_avg_contrib'' (CInt 8),
     Member ''propagate'' (CInt 8), Member ''prop_runnable_sum'' (CInt 8),
     Member ''h_load'' (CInt 8), Member ''last_h_load_update'' (CInt 8),
     Member ''h_load_next'' CPtr, Member ''rq'' CPtr, Member ''on_list'' (CInt 4),
     Member ''leaf_cfs_rq_list'' struct_list_head, Member ''tg'' CPtr, Member ''idle'' (CInt 4),
     Member ''runtime_enabled'' (CInt 4), Member ''runtime_remaining'' (CInt 8),
     Member ''throttled_pelt_idle'' (CInt 8), Member ''throttled_clock'' (CInt 8),
     Member ''throttled_clock_pelt'' (CInt 8), Member ''throttled_clock_pelt_time'' (CInt 8),
     Member ''throttled_clock_self'' (CInt 8), Member ''throttled_clock_self_time'' (CInt 8),
     Member ''throttled'' (CInt 4), Member ''throttle_count'' (CInt 4),
     Member ''throttled_list'' struct_list_head, Member ''throttled_csd_list'' struct_list_head,
     Bits '''' 8 64, Bits '''' 8 64, Bits '''' 8 64, Bits '''' 8 64, Bits '''' 8 64,
     Bits '''' 8 64, Bits '''' 8 64]"

lemma layout_struct_cfs_rq [simp]: "cwf struct_cfs_rq" "calign struct_cfs_rq = 8" "csize struct_cfs_rq = 512"
  by (simp_all add: struct_cfs_rq_def place_def align_up_def)

definition struct_rt_prio_array :: ctype where
  "struct_rt_prio_array = CStruct [
     Member ''bitmap'' (CArray (CInt 8) 2), Member ''queue'' (CArray struct_list_head 100)]"

lemma layout_struct_rt_prio_array [simp]: "cwf struct_rt_prio_array" "calign struct_rt_prio_array = 8" "csize struct_rt_prio_array = 1616"
  by (simp_all add: struct_rt_prio_array_def place_def align_up_def)

definition struct_plist_head :: ctype where
  "struct_plist_head = CStruct [
     Member ''node_list'' struct_list_head]"

lemma layout_struct_plist_head [simp]: "cwf struct_plist_head" "calign struct_plist_head = 8" "csize struct_plist_head = 16"
  by (simp_all add: struct_plist_head_def place_def align_up_def)

definition struct_rt_rq :: ctype where
  "struct_rt_rq = CStruct [
     Member ''active'' struct_rt_prio_array, Member ''rt_nr_running'' (CInt 4),
     Member ''rr_nr_running'' (CInt 4), Member ''highest_prio'' (CStruct [
       Member ''curr'' (CInt 4), Member ''next'' (CInt 4)]), Member ''overloaded'' (CInt 1),
     Member ''pushable_tasks'' struct_plist_head, Member ''rt_queued'' (CInt 4),
     Member ''rt_throttled'' (CInt 4), Member ''rt_time'' (CInt 8),
     Member ''rt_runtime'' (CInt 8), Member ''rt_runtime_lock'' struct_raw_spinlock]"

lemma layout_struct_rt_rq [simp]: "cwf struct_rt_rq" "calign struct_rt_rq = 8" "csize struct_rt_rq = 1688"
  by (simp_all add: struct_rt_rq_def place_def align_up_def)

definition struct_dl_rq :: ctype where
  "struct_dl_rq = CStruct [
     Member ''root'' struct_rb_root_cached, Member ''dl_nr_running'' (CInt 4),
     Member ''earliest_dl'' (CStruct [
       Member ''curr'' (CInt 8), Member ''next'' (CInt 8)]), Member ''overloaded'' (CInt 1),
     Member ''pushable_dl_tasks_root'' struct_rb_root_cached, Member ''running_bw'' (CInt 8),
     Member ''this_bw'' (CInt 8), Member ''extra_bw'' (CInt 8), Member ''max_bw'' (CInt 8),
     Member ''bw_ratio'' (CInt 8)]"

lemma layout_struct_dl_rq [simp]: "cwf struct_dl_rq" "calign struct_dl_rq = 8" "csize struct_dl_rq = 104"
  by (simp_all add: struct_dl_rq_def place_def align_up_def)

definition struct_cpu_stop_work :: ctype where
  "struct_cpu_stop_work = CStruct [
     Member ''list'' struct_list_head, Member ''fn'' CPtr, Member ''caller'' (CInt 8),
     Member ''arg'' CPtr, Member ''done'' CPtr]"

lemma layout_struct_cpu_stop_work [simp]: "cwf struct_cpu_stop_work" "calign struct_cpu_stop_work = 8" "csize struct_cpu_stop_work = 48"
  by (simp_all add: struct_cpu_stop_work_def place_def align_up_def)

definition struct_rcuwait :: ctype where
  "struct_rcuwait = CStruct [
     Member ''task'' CPtr]"

lemma layout_struct_rcuwait [simp]: "cwf struct_rcuwait" "calign struct_rcuwait = 8" "csize struct_rcuwait = 8"
  by (simp_all add: struct_rcuwait_def place_def align_up_def)

definition struct_rq :: ctype where
  "struct_rq = CStruct [
     Member ''__lock'' struct_raw_spinlock, Member ''nr_running'' (CInt 4),
     Member ''nr_numa_running'' (CInt 4), Member ''nr_preferred_running'' (CInt 4),
     Member ''numa_migrate_on'' (CInt 4), Member ''last_blocked_load_update_tick'' (CInt 8),
     Member ''has_blocked_load'' (CInt 4), Bits '''' 8 64, Bits '''' 8 64, Bits '''' 8 64,
     Member ''nohz_csd'' struct___call_single_data, Member ''nohz_tick_stopped'' (CInt 4),
     Member ''nohz_flags'' type_atomic_t, Member ''ttwu_pending'' (CInt 4),
     Member ''nr_switches'' (CInt 8), Bits '''' 8 64,
     Member ''uclamp'' (CArray struct_uclamp_rq 2), Member ''uclamp_flags'' (CInt 4),
     Bits '''' 8 64, Bits '''' 8 64, Bits '''' 8 64, Member ''cfs'' struct_cfs_rq,
     Member ''rt'' struct_rt_rq, Member ''dl'' struct_dl_rq,
     Member ''leaf_cfs_rq_list'' struct_list_head, Member ''tmp_alone_branch'' CPtr,
     Member ''nr_uninterruptible'' (CInt 4), Member ''curr'' CPtr, Member ''idle'' CPtr,
     Member ''stop'' CPtr, Member ''next_balance'' (CInt 8), Member ''prev_mm'' CPtr,
     Member ''clock_update_flags'' (CInt 4), Member ''clock'' (CInt 8), Bits '''' 8 64,
     Bits '''' 8 64, Bits '''' 8 64, Bits '''' 8 64, Bits '''' 8 64,
     Member ''clock_task'' (CInt 8), Member ''clock_pelt'' (CInt 8),
     Member ''lost_idle_time'' (CInt 8), Member ''clock_pelt_idle'' (CInt 8),
     Member ''clock_idle'' (CInt 8), Member ''nr_iowait'' type_atomic_t,
     Member ''last_seen_need_resched_ns'' (CInt 8), Member ''ticks_without_resched'' (CInt 4),
     Member ''membarrier_state'' (CInt 4), Member ''rd'' CPtr, Member ''sd'' CPtr,
     Member ''cpu_capacity'' (CInt 8), Member ''balance_callback'' CPtr,
     Member ''nohz_idle_balance'' (CInt 1), Member ''idle_balance'' (CInt 1),
     Member ''misfit_task_load'' (CInt 8), Member ''active_balance'' (CInt 4),
     Member ''push_cpu'' (CInt 4), Member ''active_balance_work'' struct_cpu_stop_work,
     Member ''cpu'' (CInt 4), Member ''online'' (CInt 4), Member ''cfs_tasks'' struct_list_head,
     Member ''avg_rt'' struct_sched_avg, Member ''avg_dl'' struct_sched_avg,
     Member ''avg_irq'' struct_sched_avg, Member ''idle_stamp'' (CInt 8),
     Member ''avg_idle'' (CInt 8), Member ''max_idle_balance_cost'' (CInt 8),
     Member ''hotplug_wait'' struct_rcuwait, Member ''prev_irq_time'' (CInt 8),
     Member ''psi_irq_time'' (CInt 8), Member ''prev_steal_time'' (CInt 8),
     Member ''prev_steal_time_rq'' (CInt 8), Member ''calc_load_update'' (CInt 8),
     Member ''calc_load_active'' (CInt 8), Bits '''' 8 64, Bits '''' 8 64,
     Member ''hrtick_csd'' struct___call_single_data, Member ''hrtick_timer'' struct_hrtimer,
     Member ''hrtick_time'' (CInt 8), Member ''rq_sched_info'' struct_sched_info,
     Member ''rq_cpu_time'' (CInt 8), Member ''yld_count'' (CInt 4),
     Member ''sched_count'' (CInt 4), Member ''sched_goidle'' (CInt 4),
     Member ''ttwu_count'' (CInt 4), Member ''ttwu_local'' (CInt 4), Member ''idle_state'' CPtr,
     Member ''nr_pinned'' (CInt 4), Member ''push_busy'' (CInt 4),
     Member ''push_work'' struct_cpu_stop_work, Member ''core'' CPtr, Member ''core_pick'' CPtr,
     Member ''core_enabled'' (CInt 4), Member ''core_sched_seq'' (CInt 4),
     Member ''core_tree'' struct_rb_root, Member ''core_task_seq'' (CInt 4),
     Member ''core_pick_seq'' (CInt 4), Member ''core_cookie'' (CInt 8),
     Member ''core_forceidle_count'' (CInt 4), Member ''core_forceidle_seq'' (CInt 4),
     Member ''core_forceidle_occupation'' (CInt 4), Member ''core_forceidle_start'' (CInt 8),
     Member ''scratch_mask'' (CArray struct_cpumask 1),
     Member ''cfsb_csd'' struct___call_single_data, Member ''cfsb_csd_list'' struct_list_head,
     Bits '''' 8 64, Bits '''' 8 64]"

lemma layout_struct_rq [simp]: "cwf struct_rq" "calign struct_rq = 8" "csize struct_rq = 3584"
  by (simp_all add: struct_rq_def place_def align_up_def)

definition struct_sched_class :: ctype where
  "struct_sched_class = CStruct [
     Member ''uclamp_enabled'' (CInt 4), Member ''enqueue_task'' CPtr,
     Member ''dequeue_task'' CPtr, Member ''yield_task'' CPtr, Member ''yield_to_task'' CPtr,
     Member ''wakeup_preempt'' CPtr, Member ''pick_next_task'' CPtr,
     Member ''put_prev_task'' CPtr, Member ''set_next_task'' CPtr, Member ''balance'' CPtr,
     Member ''select_task_rq'' CPtr, Member ''pick_task'' CPtr, Member ''migrate_task_rq'' CPtr,
     Member ''task_woken'' CPtr, Member ''set_cpus_allowed'' CPtr, Member ''rq_online'' CPtr,
     Member ''rq_offline'' CPtr, Member ''find_lock_rq'' CPtr, Member ''task_tick'' CPtr,
     Member ''task_fork'' CPtr, Member ''task_dead'' CPtr, Member ''switched_from'' CPtr,
     Member ''switched_to'' CPtr, Member ''prio_changed'' CPtr, Member ''get_rr_interval'' CPtr,
     Member ''update_curr'' CPtr, Member ''task_change_group'' CPtr,
     Member ''task_is_throttled'' CPtr]"

lemma layout_struct_sched_class [simp]: "cwf struct_sched_class" "calign struct_sched_class = 8" "csize struct_sched_class = 224"
  by (simp_all add: struct_sched_class_def place_def align_up_def)

definition struct_cfs_bandwidth :: ctype where
  "struct_cfs_bandwidth = CStruct [
     Member ''lock'' struct_raw_spinlock, Member ''period'' (CInt 8), Member ''quota'' (CInt 8),
     Member ''runtime'' (CInt 8), Member ''burst'' (CInt 8), Member ''runtime_snap'' (CInt 8),
     Member ''hierarchical_quota'' (CInt 8), Member ''idle'' (CInt 1),
     Member ''period_active'' (CInt 1), Member ''slack_started'' (CInt 1),
     Member ''period_timer'' struct_hrtimer, Member ''slack_timer'' struct_hrtimer,
     Member ''throttled_cfs_rq'' struct_list_head, Member ''nr_periods'' (CInt 4),
     Member ''nr_throttled'' (CInt 4), Member ''nr_burst'' (CInt 4),
     Member ''throttled_time'' (CInt 8), Member ''burst_time'' (CInt 8)]"

lemma layout_struct_cfs_bandwidth [simp]: "cwf struct_cfs_bandwidth" "calign struct_cfs_bandwidth = 8" "csize struct_cfs_bandwidth = 240"
  by (simp_all add: struct_cfs_bandwidth_def place_def align_up_def)

definition struct_task_group :: ctype where
  "struct_task_group = CStruct [
     Member ''css'' struct_cgroup_subsys_state, Member ''se'' CPtr, Member ''cfs_rq'' CPtr,
     Member ''shares'' (CInt 8), Member ''idle'' (CInt 4), Bits '''' 8 64, Bits '''' 8 64,
     Bits '''' 8 64, Member ''load_avg'' type_atomic64_t, Member ''rcu'' struct_callback_head,
     Member ''list'' struct_list_head, Member ''parent'' CPtr,
     Member ''siblings'' struct_list_head, Member ''children'' struct_list_head,
     Member ''autogroup'' CPtr, Member ''cfs_bandwidth'' struct_cfs_bandwidth,
     Member ''uclamp_pct'' (CArray (CInt 4) 2),
     Member ''uclamp_req'' (CArray struct_uclamp_se 2),
     Member ''uclamp'' (CArray struct_uclamp_se 2), Bits '''' 8 64, Bits '''' 8 64,
     Bits '''' 8 64, Bits '''' 8 64]"

lemma layout_struct_task_group [simp]: "cwf struct_task_group" "calign struct_task_group = 8" "csize struct_task_group = 640"
  by (simp_all add: struct_task_group_def place_def align_up_def)

definition struct_dl_bw :: ctype where
  "struct_dl_bw = CStruct [
     Member ''lock'' struct_raw_spinlock, Member ''bw'' (CInt 8), Member ''total_bw'' (CInt 8)]"

lemma layout_struct_dl_bw [simp]: "cwf struct_dl_bw" "calign struct_dl_bw = 8" "csize struct_dl_bw = 24"
  by (simp_all add: struct_dl_bw_def place_def align_up_def)

definition struct_cpudl :: ctype where
  "struct_cpudl = CStruct [
     Member ''lock'' struct_raw_spinlock, Member ''size'' (CInt 4),
     Member ''free_cpus'' (CArray struct_cpumask 1), Member ''elements'' CPtr]"

lemma layout_struct_cpudl [simp]: "cwf struct_cpudl" "calign struct_cpudl = 8" "csize struct_cpudl = 64"
  by (simp_all add: struct_cpudl_def place_def align_up_def)

definition struct_irq_work :: ctype where
  "struct_irq_work = CStruct [
     Member ''node'' struct___call_single_node, Member ''func'' CPtr,
     Member ''irqwait'' struct_rcuwait]"

lemma layout_struct_irq_work [simp]: "cwf struct_irq_work" "calign struct_irq_work = 8" "csize struct_irq_work = 32"
  by (simp_all add: struct_irq_work_def place_def align_up_def)

definition struct_cpupri_vec :: ctype where
  "struct_cpupri_vec = CStruct [
     Member ''count'' type_atomic_t, Member ''mask'' (CArray struct_cpumask 1)]"

lemma layout_struct_cpupri_vec [simp]: "cwf struct_cpupri_vec" "calign struct_cpupri_vec = 8" "csize struct_cpupri_vec = 56"
  by (simp_all add: struct_cpupri_vec_def place_def align_up_def)

definition struct_cpupri :: ctype where
  "struct_cpupri = CStruct [
     Member ''pri_to_cpu'' (CArray struct_cpupri_vec 101), Member ''cpu_to_pri'' CPtr]"

lemma layout_struct_cpupri [simp]: "cwf struct_cpupri" "calign struct_cpupri = 8" "csize struct_cpupri = 5664"
  by (simp_all add: struct_cpupri_def place_def align_up_def)

definition struct_root_domain :: ctype where
  "struct_root_domain = CStruct [
     Member ''refcount'' type_atomic_t, Member ''rto_count'' type_atomic_t,
     Member ''rcu'' struct_callback_head, Member ''span'' (CArray struct_cpumask 1),
     Member ''online'' (CArray struct_cpumask 1), Member ''overloaded'' (CInt 1),
     Member ''overutilized'' (CInt 1), Member ''dlo_mask'' (CArray struct_cpumask 1),
     Member ''dlo_count'' type_atomic_t, Member ''dl_bw'' struct_dl_bw,
     Member ''cpudl'' struct_cpudl, Member ''visit_gen'' (CInt 8),
     Member ''rto_push_work'' struct_irq_work, Member ''rto_lock'' struct_raw_spinlock,
     Member ''rto_loop'' (CInt 4), Member ''rto_cpu'' (CInt 4),
     Member ''rto_loop_next'' type_atomic_t, Member ''rto_loop_start'' type_atomic_t,
     Member ''rto_mask'' (CArray struct_cpumask 1), Member ''cpupri'' struct_cpupri,
     Member ''pd'' CPtr]"

lemma layout_struct_root_domain [simp]: "cwf struct_root_domain" "calign struct_root_domain = 8" "csize struct_root_domain = 6056"
  by (simp_all add: struct_root_domain_def place_def align_up_def)

definition union_rcu_noqs :: ctype where
  "union_rcu_noqs = CUnion [
     Member ''b'' (CStruct [
       Member ''norm'' (CInt 1), Member ''exp'' (CInt 1)]), Member ''s'' (CInt 2)]"

lemma layout_union_rcu_noqs [simp]: "cwf union_rcu_noqs" "calign union_rcu_noqs = 2" "csize union_rcu_noqs = 2"
  by (simp_all add: union_rcu_noqs_def place_def align_up_def)

definition struct_rcu_segcblist :: ctype where
  "struct_rcu_segcblist = CStruct [
     Member ''head'' CPtr, Member ''tails'' (CArray CPtr 4),
     Member ''gp_seq'' (CArray (CInt 8) 4), Member ''len'' type_atomic64_t,
     Member ''seglen'' (CArray (CInt 8) 4), Member ''flags'' (CInt 1)]"

lemma layout_struct_rcu_segcblist [simp]: "cwf struct_rcu_segcblist" "calign struct_rcu_segcblist = 8" "csize struct_rcu_segcblist = 120"
  by (simp_all add: struct_rcu_segcblist_def place_def align_up_def)

definition struct_rcu_cblist :: ctype where
  "struct_rcu_cblist = CStruct [
     Member ''head'' CPtr, Member ''tail'' CPtr, Member ''len'' (CInt 8)]"

lemma layout_struct_rcu_cblist [simp]: "cwf struct_rcu_cblist" "calign struct_rcu_cblist = 8" "csize struct_rcu_cblist = 24"
  by (simp_all add: struct_rcu_cblist_def place_def align_up_def)

definition struct_rcu_snap_record :: ctype where
  "struct_rcu_snap_record = CStruct [
     Member ''gp_seq'' (CInt 8), Member ''cputime_irq'' (CInt 8),
     Member ''cputime_softirq'' (CInt 8), Member ''cputime_system'' (CInt 8),
     Member ''nr_hardirqs'' (CInt 8), Member ''nr_softirqs'' (CInt 4),
     Member ''nr_csw'' (CInt 8), Member ''jiffies'' (CInt 8)]"

lemma layout_struct_rcu_snap_record [simp]: "cwf struct_rcu_snap_record" "calign struct_rcu_snap_record = 8" "csize struct_rcu_snap_record = 64"
  by (simp_all add: struct_rcu_snap_record_def place_def align_up_def)

definition struct_rcu_data :: ctype where
  "struct_rcu_data = CStruct [
     Member ''gp_seq'' (CInt 8), Member ''gp_seq_needed'' (CInt 8),
     Member ''cpu_no_qs'' union_rcu_noqs, Member ''core_needs_qs'' (CInt 1),
     Member ''beenonline'' (CInt 1), Member ''gpwrap'' (CInt 1), Member ''cpu_started'' (CInt 1),
     Member ''mynode'' CPtr, Member ''grpmask'' (CInt 8), Member ''ticks_this_gp'' (CInt 8),
     Member ''defer_qs_iw'' struct_irq_work, Member ''defer_qs_iw_pending'' (CInt 1),
     Member ''strict_work'' struct_work_struct, Member ''cblist'' struct_rcu_segcblist,
     Member ''qlen_last_fqs_check'' (CInt 8), Member ''n_cbs_invoked'' (CInt 8),
     Member ''n_force_qs_snap'' (CInt 8), Member ''blimit'' (CInt 8),
     Member ''dynticks_snap'' (CInt 4), Member ''rcu_need_heavy_qs'' (CInt 1),
     Member ''rcu_urgent_qs'' (CInt 1), Member ''rcu_forced_tick'' (CInt 1),
     Member ''rcu_forced_tick_exp'' (CInt 1), Member ''barrier_seq_snap'' (CInt 8),
     Member ''barrier_head'' struct_callback_head, Member ''exp_dynticks_snap'' (CInt 4),
     Member ''nocb_cb_wq'' struct_swait_queue_head,
     Member ''nocb_state_wq'' struct_swait_queue_head, Member ''nocb_gp_kthread'' CPtr,
     Member ''nocb_lock'' struct_raw_spinlock, Member ''nocb_defer_wakeup'' (CInt 4),
     Member ''nocb_timer'' struct_timer_list, Member ''nocb_gp_adv_time'' (CInt 8),
     Member ''nocb_gp_kthread_mutex'' struct_mutex, Bits '''' 8 64, Bits '''' 8 64,
     Bits '''' 8 64, Bits '''' 8 64, Bits '''' 8 64, Bits '''' 8 64, Bits '''' 8 64,
     Member ''nocb_bypass_lock'' struct_raw_spinlock, Member ''nocb_bypass'' struct_rcu_cblist,
     Member ''nocb_bypass_first'' (CInt 8), Member ''nocb_nobypass_last'' (CInt 8),
     Member ''nocb_nobypass_count'' (CInt 4), Bits '''' 8 64,
     Member ''nocb_gp_lock'' struct_raw_spinlock, Member ''nocb_gp_sleep'' (CInt 1),
     Member ''nocb_gp_bypass'' (CInt 1), Member ''nocb_gp_gp'' (CInt 1),
     Member ''nocb_gp_seq'' (CInt 8), Member ''nocb_gp_loops'' (CInt 8),
     Member ''nocb_gp_wq'' struct_swait_queue_head, Member ''nocb_cb_sleep'' (CInt 1),
     Member ''nocb_cb_kthread'' CPtr, Member ''nocb_head_rdp'' struct_list_head,
     Member ''nocb_entry_rdp'' struct_list_head, Member ''nocb_toggling_rdp'' CPtr,
     Bits '''' 8 64, Bits '''' 8 64, Bits '''' 8 64, Member ''nocb_gp_rdp'' CPtr,
     Member ''rcu_cpu_kthread_task'' CPtr, Member ''rcu_cpu_kthread_status'' (CInt 4),
     Member ''rcu_cpu_has_work'' (CInt 1), Member ''rcuc_activity'' (CInt 8),
     Member ''softirq_snap'' (CInt 4), Member ''rcu_iw'' struct_irq_work,
     Member ''rcu_iw_pending'' (CInt 1), Member ''rcu_iw_gp_seq'' (CInt 8),
     Member ''rcu_ofl_gp_seq'' (CInt 8), Member ''rcu_ofl_gp_state'' (CInt 2),
     Member ''rcu_onl_gp_seq'' (CInt 8), Member ''rcu_onl_gp_state'' (CInt 2),
     Member ''last_fqs_resched'' (CInt 8), Member ''last_sched_clock'' (CInt 8),
     Member ''snap_record'' struct_rcu_snap_record, Member ''lazy_len'' (CInt 8),
     Member ''cpu'' (CInt 4), Bits '''' 8 64, Bits '''' 8 64, Bits '''' 8 64, Bits '''' 8 64,
     Bits '''' 8 64]"

lemma layout_struct_rcu_data [simp]: "cwf struct_rcu_data" "calign struct_rcu_data = 8" "csize struct_rcu_data = 960"
  by (simp_all add: struct_rcu_data_def place_def align_up_def)

definition struct_rt_mutex_base :: ctype where
  "struct_rt_mutex_base = CStruct [
     Member ''wait_lock'' struct_raw_spinlock, Member ''waiters'' struct_rb_root_cached,
     Member ''owner'' CPtr]"

lemma layout_struct_rt_mutex_base [simp]: "cwf struct_rt_mutex_base" "calign struct_rt_mutex_base = 8" "csize struct_rt_mutex_base = 32"
  by (simp_all add: struct_rt_mutex_base_def place_def align_up_def)

definition struct_rt_mutex :: ctype where
  "struct_rt_mutex = CStruct [
     Member ''rtmutex'' struct_rt_mutex_base]"

lemma layout_struct_rt_mutex [simp]: "cwf struct_rt_mutex" "calign struct_rt_mutex = 8" "csize struct_rt_mutex = 32"
  by (simp_all add: struct_rt_mutex_def place_def align_up_def)

definition struct_kthread_work :: ctype where
  "struct_kthread_work = CStruct [
     Member ''node'' struct_list_head, Member ''func'' CPtr, Member ''worker'' CPtr,
     Member ''canceling'' (CInt 4)]"

lemma layout_struct_kthread_work [simp]: "cwf struct_kthread_work" "calign struct_kthread_work = 8" "csize struct_kthread_work = 40"
  by (simp_all add: struct_kthread_work_def place_def align_up_def)

definition struct_rcu_exp_work :: ctype where
  "struct_rcu_exp_work = CStruct [
     Member ''rew_s'' (CInt 8), Member ''rew_work'' struct_kthread_work]"

lemma layout_struct_rcu_exp_work [simp]: "cwf struct_rcu_exp_work" "calign struct_rcu_exp_work = 8" "csize struct_rcu_exp_work = 48"
  by (simp_all add: struct_rcu_exp_work_def place_def align_up_def)

definition struct_rcu_node :: ctype where
  "struct_rcu_node = CStruct [
     Member ''lock'' struct_raw_spinlock, Member ''gp_seq'' (CInt 8),
     Member ''gp_seq_needed'' (CInt 8), Member ''completedqs'' (CInt 8),
     Member ''qsmask'' (CInt 8), Member ''rcu_gp_init_mask'' (CInt 8),
     Member ''qsmaskinit'' (CInt 8), Member ''qsmaskinitnext'' (CInt 8),
     Member ''expmask'' (CInt 8), Member ''expmaskinit'' (CInt 8),
     Member ''expmaskinitnext'' (CInt 8), Member ''exp_kworker'' CPtr,
     Member ''cbovldmask'' (CInt 8), Member ''ffmask'' (CInt 8), Member ''grpmask'' (CInt 8),
     Member ''grplo'' (CInt 4), Member ''grphi'' (CInt 4), Member ''grpnum'' (CInt 1),
     Member ''level'' (CInt 1), Member ''wait_blkd_tasks'' (CInt 1), Member ''parent'' CPtr,
     Member ''blkd_tasks'' struct_list_head, Member ''gp_tasks'' CPtr, Member ''exp_tasks'' CPtr,
     Member ''boost_tasks'' CPtr, Member ''boost_mtx'' struct_rt_mutex,
     Member ''boost_time'' (CInt 8), Member ''kthread_mutex'' struct_mutex,
     Member ''boost_kthread_task'' CPtr, Member ''boost_kthread_status'' (CInt 4),
     Member ''n_boosts'' (CInt 8), Member ''nocb_gp_wq'' (CArray struct_swait_queue_head 2),
     Bits '''' 8 64, Bits '''' 8 64, Bits '''' 8 64, Bits '''' 8 64, Bits '''' 8 64,
     Bits '''' 8 64, Bits '''' 8 64, Member ''fqslock'' struct_raw_spinlock, Bits '''' 8 64,
     Bits '''' 8 64, Bits '''' 8 64, Bits '''' 8 64, Bits '''' 8 64, Bits '''' 8 64,
     Bits '''' 8 64, Member ''exp_lock'' struct_spinlock, Member ''exp_seq_rq'' (CInt 8),
     Member ''exp_wq'' (CArray struct_wait_queue_head 4), Member ''rew'' struct_rcu_exp_work,
     Member ''exp_need_flush'' (CInt 1), Member ''exp_poll_lock'' struct_raw_spinlock,
     Member ''exp_seq_poll_rq'' (CInt 8), Member ''exp_poll_wq'' struct_work_struct,
     Bits '''' 8 64, Bits '''' 8 64, Bits '''' 8 64, Bits '''' 8 64, Bits '''' 8 64,
     Bits '''' 8 64]"

lemma layout_struct_rcu_node [simp]: "cwf struct_rcu_node" "calign struct_rcu_node = 8" "csize struct_rcu_node = 704"
  by (simp_all add: struct_rcu_node_def place_def align_up_def)

definition struct_sr_wait_node :: ctype where
  "struct_sr_wait_node = CStruct [
     Member ''inuse'' type_atomic_t, Member ''node'' struct_llist_node]"

lemma layout_struct_sr_wait_node [simp]: "cwf struct_sr_wait_node" "calign struct_sr_wait_node = 8" "csize struct_sr_wait_node = 16"
  by (simp_all add: struct_sr_wait_node_def place_def align_up_def)

definition struct_rcu_state :: ctype where
  "struct_rcu_state = CStruct [
     Member ''node'' (CArray struct_rcu_node 25), Member ''level'' (CArray CPtr 3),
     Member ''ncpus'' (CInt 4), Member ''n_online_cpus'' (CInt 4), Bits '''' 8 64,
     Bits '''' 8 64, Bits '''' 8 64, Bits '''' 8 64, Member ''gp_seq'' (CInt 8),
     Member ''gp_max'' (CInt 8), Member ''gp_kthread'' CPtr,
     Member ''gp_wq'' struct_swait_queue_head, Member ''gp_flags'' (CInt 2),
     Member ''gp_state'' (CInt 2), Member ''gp_wake_time'' (CInt 8),
     Member ''gp_wake_seq'' (CInt 8), Member ''gp_seq_polled'' (CInt 8),
     Member ''gp_seq_polled_snap'' (CInt 8), Member ''gp_seq_polled_exp_snap'' (CInt 8),
     Member ''barrier_mutex'' struct_mutex, Member ''barrier_cpu_count'' type_atomic_t,
     Member ''barrier_completion'' struct_completion, Member ''barrier_sequence'' (CInt 8),
     Member ''barrier_lock'' struct_raw_spinlock, Member ''exp_mutex'' struct_mutex,
     Member ''exp_wake_mutex'' struct_mutex, Member ''expedited_sequence'' (CInt 8),
     Member ''expedited_need_qs'' type_atomic_t, Member ''expedited_wq'' struct_swait_queue_head,
     Member ''ncpus_snap'' (CInt 4), Member ''cbovld'' (CInt 1), Member ''cbovldnext'' (CInt 1),
     Member ''jiffies_force_qs'' (CInt 8), Member ''jiffies_kick_kthreads'' (CInt 8),
     Member ''n_force_qs'' (CInt 8), Member ''gp_start'' (CInt 8), Member ''gp_end'' (CInt 8),
     Member ''gp_activity'' (CInt 8), Member ''gp_req_activity'' (CInt 8),
     Member ''jiffies_stall'' (CInt 8), Member ''nr_fqs_jiffies_stall'' (CInt 4),
     Member ''jiffies_resched'' (CInt 8), Member ''n_force_qs_gpstart'' (CInt 8),
     Member ''name'' CPtr, Member ''abbr'' (CInt 1), Bits '''' 8 64, Bits '''' 8 64,
     Bits '''' 8 64, Bits '''' 8 64, Bits '''' 8 64, Bits '''' 8 64,
     Member ''ofl_lock'' struct_qspinlock, Member ''nocb_is_setup'' (CInt 4),
     Member ''srs_next'' struct_llist_head, Member ''srs_wait_tail'' CPtr,
     Member ''srs_done_tail'' CPtr, Member ''srs_wait_nodes'' (CArray struct_sr_wait_node 5),
     Member ''srs_cleanup_work'' struct_work_struct,
     Member ''srs_cleanups_pending'' type_atomic_t, Bits '''' 8 64, Bits '''' 8 64,
     Bits '''' 8 64, Bits '''' 8 64, Bits '''' 8 64]"

lemma layout_struct_rcu_state [simp]: "cwf struct_rcu_state" "calign struct_rcu_state = 8" "csize struct_rcu_state = 18304"
  by (simp_all add: struct_rcu_state_def place_def align_up_def)

definition struct_lockdep_map :: ctype where
  "struct_lockdep_map = CStruct []"

lemma layout_struct_lockdep_map [simp]: "cwf struct_lockdep_map" "calign struct_lockdep_map = 1" "csize struct_lockdep_map = 0"
  by (simp_all add: struct_lockdep_map_def place_def align_up_def)

definition struct_srcu_struct :: ctype where
  "struct_srcu_struct = CStruct [
     Member ''srcu_idx'' (CInt 4), Member ''sda'' CPtr, Member ''dep_map'' struct_lockdep_map,
     Member ''srcu_sup'' CPtr]"

lemma layout_struct_srcu_struct [simp]: "cwf struct_srcu_struct" "calign struct_srcu_struct = 8" "csize struct_srcu_struct = 24"
  by (simp_all add: struct_srcu_struct_def place_def align_up_def)

definition struct_seqcount_raw_spinlock :: ctype where
  "struct_seqcount_raw_spinlock = CStruct [
     Member ''seqcount'' struct_seqcount]"

lemma layout_struct_seqcount_raw_spinlock [simp]: "cwf struct_seqcount_raw_spinlock" "calign struct_seqcount_raw_spinlock = 4" "csize struct_seqcount_raw_spinlock = 4"
  by (simp_all add: struct_seqcount_raw_spinlock_def place_def align_up_def)

definition struct_hrtimer_clock_base :: ctype where
  "struct_hrtimer_clock_base = CStruct [
     Member ''cpu_base'' CPtr, Member ''index'' (CInt 4), Member ''clockid'' (CInt 4),
     Member ''seq'' struct_seqcount_raw_spinlock, Member ''running'' CPtr,
     Member ''active'' struct_timerqueue_head, Member ''get_time'' CPtr,
     Member ''offset'' (CInt 8)]"

lemma layout_struct_hrtimer_clock_base [simp]: "cwf struct_hrtimer_clock_base" "calign struct_hrtimer_clock_base = 8" "csize struct_hrtimer_clock_base = 64"
  by (simp_all add: struct_hrtimer_clock_base_def place_def align_up_def)

definition struct_hrtimer_cpu_base :: ctype where
  "struct_hrtimer_cpu_base = CStruct [
     Member ''lock'' struct_raw_spinlock, Member ''cpu'' (CInt 4),
     Member ''active_bases'' (CInt 4), Member ''clock_was_set_seq'' (CInt 4),
     Bits ''hres_active'' 4 1, Bits ''in_hrtirq'' 4 1, Bits ''hang_detected'' 4 1,
     Bits ''softirq_activated'' 4 1, Bits ''online'' 4 1, Member ''nr_events'' (CInt 4),
     Member ''nr_retries'' (CInt 2), Member ''nr_hangs'' (CInt 2),
     Member ''max_hang_time'' (CInt 4), Member ''expires_next'' (CInt 8),
     Member ''next_timer'' CPtr, Member ''softirq_expires_next'' (CInt 8),
     Member ''softirq_next_timer'' CPtr,
     Member ''clock_base'' (CArray struct_hrtimer_clock_base 8)]"

lemma layout_struct_hrtimer_cpu_base [simp]: "cwf struct_hrtimer_cpu_base" "calign struct_hrtimer_cpu_base = 8" "csize struct_hrtimer_cpu_base = 576"
  by (simp_all add: struct_hrtimer_cpu_base_def place_def align_up_def)

definition struct_timer_base :: ctype where
  "struct_timer_base = CStruct [
     Member ''lock'' struct_raw_spinlock, Member ''running_timer'' CPtr, Member ''clk'' (CInt 8),
     Member ''next_expiry'' (CInt 8), Member ''cpu'' (CInt 4),
     Member ''next_expiry_recalc'' (CInt 1), Member ''is_idle'' (CInt 1),
     Member ''timers_pending'' (CInt 1), Member ''pending_map'' (CArray (CInt 8) 9),
     Member ''vectors'' (CArray struct_hlist_head 576), Bits '''' 8 64, Bits '''' 8 64]"

lemma layout_struct_timer_base [simp]: "cwf struct_timer_base" "calign struct_timer_base = 8" "csize struct_timer_base = 4736"
  by (simp_all add: struct_timer_base_def place_def align_up_def)

definition struct_tk_read_base :: ctype where
  "struct_tk_read_base = CStruct [
     Member ''clock'' CPtr, Member ''mask'' (CInt 8), Member ''cycle_last'' (CInt 8),
     Member ''mult'' (CInt 4), Member ''shift'' (CInt 4), Member ''xtime_nsec'' (CInt 8),
     Member ''base'' (CInt 8), Member ''base_real'' (CInt 8)]"

lemma layout_struct_tk_read_base [simp]: "cwf struct_tk_read_base" "calign struct_tk_read_base = 8" "csize struct_tk_read_base = 56"
  by (simp_all add: struct_tk_read_base_def place_def align_up_def)

definition struct_timespec64 :: ctype where
  "struct_timespec64 = CStruct [
     Member ''tv_sec'' (CInt 8), Member ''tv_nsec'' (CInt 8)]"

lemma layout_struct_timespec64 [simp]: "cwf struct_timespec64" "calign struct_timespec64 = 8" "csize struct_timespec64 = 16"
  by (simp_all add: struct_timespec64_def place_def align_up_def)

definition struct_timekeeper :: ctype where
  "struct_timekeeper = CStruct [
     Member ''tkr_mono'' struct_tk_read_base, Member ''tkr_raw'' struct_tk_read_base,
     Member ''xtime_sec'' (CInt 8), Member ''ktime_sec'' (CInt 8),
     Member ''wall_to_monotonic'' struct_timespec64, Member ''offs_real'' (CInt 8),
     Member ''offs_boot'' (CInt 8), Member ''offs_tai'' (CInt 8), Member ''tai_offset'' (CInt 4),
     Member ''clock_was_set_seq'' (CInt 4), Member ''cs_was_changed_seq'' (CInt 1),
     Member ''next_leap_ktime'' (CInt 8), Member ''raw_sec'' (CInt 8),
     Member ''monotonic_to_boot'' struct_timespec64, Member ''cycle_interval'' (CInt 8),
     Member ''xtime_interval'' (CInt 8), Member ''xtime_remainder'' (CInt 8),
     Member ''raw_interval'' (CInt 8), Member ''ntp_tick'' (CInt 8),
     Member ''ntp_error'' (CInt 8), Member ''ntp_error_shift'' (CInt 4),
     Member ''ntp_err_mult'' (CInt 4), Member ''skip_second_overflow'' (CInt 4)]"

lemma layout_struct_timekeeper [simp]: "cwf struct_timekeeper" "calign struct_timekeeper = 8" "csize struct_timekeeper = 280"
  by (simp_all add: struct_timekeeper_def place_def align_up_def)

definition struct_workqueue_struct :: ctype where
  "struct_workqueue_struct = CStruct [
     Member ''pwqs'' struct_list_head, Member ''list'' struct_list_head,
     Member ''mutex'' struct_mutex, Member ''work_color'' (CInt 4),
     Member ''flush_color'' (CInt 4), Member ''nr_pwqs_to_flush'' type_atomic_t,
     Member ''first_flusher'' CPtr, Member ''flusher_queue'' struct_list_head,
     Member ''flusher_overflow'' struct_list_head, Member ''maydays'' struct_list_head,
     Member ''rescuer'' CPtr, Member ''nr_drainers'' (CInt 4), Member ''max_active'' (CInt 4),
     Member ''min_active'' (CInt 4), Member ''saved_max_active'' (CInt 4),
     Member ''saved_min_active'' (CInt 4), Member ''unbound_attrs'' CPtr,
     Member ''dfl_pwq'' CPtr, Member ''wq_dev'' CPtr, Member ''name'' (CArray (CInt 1) 32),
     Member ''rcu'' struct_callback_head, Bits '''' 8 64, Bits '''' 8 64,
     Member ''flags'' (CInt 4), Member ''cpu_pwq'' CPtr,
     Member ''node_nr_active'' (CArray CPtr 0), Bits '''' 8 64, Bits '''' 8 64, Bits '''' 8 64,
     Bits '''' 8 64, Bits '''' 8 64, Bits '''' 8 64]"

lemma layout_struct_workqueue_struct [simp]: "cwf struct_workqueue_struct" "calign struct_workqueue_struct = 8" "csize struct_workqueue_struct = 320"
  by (simp_all add: struct_workqueue_struct_def place_def align_up_def)

definition struct_ratelimit_state :: ctype where
  "struct_ratelimit_state = CStruct [
     Member ''lock'' struct_raw_spinlock, Member ''interval'' (CInt 4),
     Member ''burst'' (CInt 4), Member ''printed'' (CInt 4), Member ''missed'' (CInt 4),
     Member ''begin'' (CInt 8), Member ''flags'' (CInt 8)]"

lemma layout_struct_ratelimit_state [simp]: "cwf struct_ratelimit_state" "calign struct_ratelimit_state = 8" "csize struct_ratelimit_state = 40"
  by (simp_all add: struct_ratelimit_state_def place_def align_up_def)

definition struct_user_struct :: ctype where
  "struct_user_struct = CStruct [
     Member ''__count'' struct_refcount_struct, Member ''epoll_watches'' struct_percpu_counter,
     Member ''unix_inflight'' (CInt 8), Member ''pipe_bufs'' type_atomic64_t,
     Member ''uidhash_node'' struct_hlist_node, Member ''uid'' type_kuid_t,
     Member ''locked_vm'' type_atomic64_t, Member ''nr_watches'' type_atomic_t,
     Member ''ratelimit'' struct_ratelimit_state]"

lemma layout_struct_user_struct [simp]: "cwf struct_user_struct" "calign struct_user_struct = 8" "csize struct_user_struct = 144"
  by (simp_all add: struct_user_struct_def place_def align_up_def)

definition struct_keyring_index_key :: ctype where
  "struct_keyring_index_key = CStruct [
     Member ''hash'' (CInt 8), Member '''' (CUnion [
       Member '''' (CStruct [
         Member ''desc_len'' (CInt 2), Member ''desc'' (CArray (CInt 1) 6)]),
       Member ''x'' (CInt 8)]), Member ''type'' CPtr, Member ''domain_tag'' CPtr,
     Member ''description'' CPtr]"

lemma layout_struct_keyring_index_key [simp]: "cwf struct_keyring_index_key" "calign struct_keyring_index_key = 8" "csize struct_keyring_index_key = 40"
  by (simp_all add: struct_keyring_index_key_def place_def align_up_def)

definition union_key_payload :: ctype where
  "union_key_payload = CUnion [
     Member ''rcu_data0'' CPtr, Member ''data'' (CArray CPtr 4)]"

lemma layout_union_key_payload [simp]: "cwf union_key_payload" "calign union_key_payload = 8" "csize union_key_payload = 32"
  by (simp_all add: union_key_payload_def place_def align_up_def)

definition struct_assoc_array :: ctype where
  "struct_assoc_array = CStruct [
     Member ''root'' CPtr, Member ''nr_leaves_on_tree'' (CInt 8)]"

lemma layout_struct_assoc_array [simp]: "cwf struct_assoc_array" "calign struct_assoc_array = 8" "csize struct_assoc_array = 16"
  by (simp_all add: struct_assoc_array_def place_def align_up_def)

definition struct_key :: ctype where
  "struct_key = CStruct [
     Member ''usage'' struct_refcount_struct, Member ''serial'' (CInt 4), Member '''' (CUnion [
       Member ''graveyard_link'' struct_list_head, Member ''serial_node'' struct_rb_node]),
     Member ''sem'' struct_rw_semaphore, Member ''user'' CPtr, Member ''security'' CPtr,
     Member '''' (CUnion [
       Member ''expiry'' (CInt 8), Member ''revoked_at'' (CInt 8)]),
     Member ''last_used_at'' (CInt 8), Member ''uid'' type_kuid_t, Member ''gid'' type_kgid_t,
     Member ''perm'' (CInt 4), Member ''quotalen'' (CInt 2), Member ''datalen'' (CInt 2),
     Member ''state'' (CInt 2), Member ''flags'' (CInt 8), Member '''' (CUnion [
       Member ''index_key'' struct_keyring_index_key, Member '''' (CStruct [
         Member ''hash'' (CInt 8), Member ''len_desc'' (CInt 8), Member ''type'' CPtr,
         Member ''domain_tag'' CPtr, Member ''description'' CPtr])]), Member '''' (CUnion [
       Member ''payload'' union_key_payload, Member '''' (CStruct [
         Member ''name_link'' struct_list_head, Member ''keys'' struct_assoc_array])]),
     Member ''restrict_link'' CPtr]"

lemma layout_struct_key [simp]: "cwf struct_key" "calign struct_key = 8" "csize struct_key = 216"
  by (simp_all add: struct_key_def place_def align_up_def)

definition struct_perf_event_attr :: ctype where
  "struct_perf_event_attr = CStruct [
     Member ''type'' (CInt 4), Member ''size'' (CInt 4), Member ''config'' (CInt 8),
     Member '''' (CUnion [
       Member ''sample_period'' (CInt 8), Member ''sample_freq'' (CInt 8)]),
     Member ''sample_type'' (CInt 8), Member ''read_format'' (CInt 8), Bits ''disabled'' 8 1,
     Bits ''inherit'' 8 1, Bits ''pinned'' 8 1, Bits ''exclusive'' 8 1,
     Bits ''exclude_user'' 8 1, Bits ''exclude_kernel'' 8 1, Bits ''exclude_hv'' 8 1,
     Bits ''exclude_idle'' 8 1, Bits ''mmap'' 8 1, Bits ''comm'' 8 1, Bits ''freq'' 8 1,
     Bits ''inherit_stat'' 8 1, Bits ''enable_on_exec'' 8 1, Bits ''task'' 8 1,
     Bits ''watermark'' 8 1, Bits ''precise_ip'' 8 2, Bits ''mmap_data'' 8 1,
     Bits ''sample_id_all'' 8 1, Bits ''exclude_host'' 8 1, Bits ''exclude_guest'' 8 1,
     Bits ''exclude_callchain_kernel'' 8 1, Bits ''exclude_callchain_user'' 8 1,
     Bits ''mmap2'' 8 1, Bits ''comm_exec'' 8 1, Bits ''use_clockid'' 8 1,
     Bits ''context_switch'' 8 1, Bits ''write_backward'' 8 1, Bits ''namespaces'' 8 1,
     Bits ''ksymbol'' 8 1, Bits ''bpf_event'' 8 1, Bits ''aux_output'' 8 1, Bits ''cgroup'' 8 1,
     Bits ''text_poke'' 8 1, Bits ''build_id'' 8 1, Bits ''inherit_thread'' 8 1,
     Bits ''remove_on_exec'' 8 1, Bits ''sigtrap'' 8 1, Bits ''__reserved_1'' 8 26,
     Member '''' (CUnion [
       Member ''wakeup_events'' (CInt 4), Member ''wakeup_watermark'' (CInt 4)]),
     Member ''bp_type'' (CInt 4), Member '''' (CUnion [
       Member ''bp_addr'' (CInt 8), Member ''kprobe_func'' (CInt 8),
       Member ''uprobe_path'' (CInt 8), Member ''config1'' (CInt 8)]), Member '''' (CUnion [
       Member ''bp_len'' (CInt 8), Member ''kprobe_addr'' (CInt 8),
       Member ''probe_offset'' (CInt 8), Member ''config2'' (CInt 8)]),
     Member ''branch_sample_type'' (CInt 8), Member ''sample_regs_user'' (CInt 8),
     Member ''sample_stack_user'' (CInt 4), Member ''clockid'' (CInt 4),
     Member ''sample_regs_intr'' (CInt 8), Member ''aux_watermark'' (CInt 4),
     Member ''sample_max_stack'' (CInt 2), Member ''__reserved_2'' (CInt 2),
     Member ''aux_sample_size'' (CInt 4), Member ''__reserved_3'' (CInt 4),
     Member ''sig_data'' (CInt 8), Member ''config3'' (CInt 8)]"

lemma layout_struct_perf_event_attr [simp]: "cwf struct_perf_event_attr" "calign struct_perf_event_attr = 8" "csize struct_perf_event_attr = 136"
  by (simp_all add: struct_perf_event_attr_def place_def align_up_def)

definition struct_hw_perf_event_extra :: ctype where
  "struct_hw_perf_event_extra = CStruct [
     Member ''config'' (CInt 8), Member ''reg'' (CInt 4), Member ''alloc'' (CInt 4),
     Member ''idx'' (CInt 4)]"

lemma layout_struct_hw_perf_event_extra [simp]: "cwf struct_hw_perf_event_extra" "calign struct_hw_perf_event_extra = 8" "csize struct_hw_perf_event_extra = 24"
  by (simp_all add: struct_hw_perf_event_extra_def place_def align_up_def)

definition struct_arch_hw_breakpoint :: ctype where
  "struct_arch_hw_breakpoint = CStruct [
     Member ''address'' (CInt 8), Member ''mask'' (CInt 8), Member ''len'' (CInt 1),
     Member ''type'' (CInt 1)]"

lemma layout_struct_arch_hw_breakpoint [simp]: "cwf struct_arch_hw_breakpoint" "calign struct_arch_hw_breakpoint = 8" "csize struct_arch_hw_breakpoint = 24"
  by (simp_all add: struct_arch_hw_breakpoint_def place_def align_up_def)

definition struct_rhlist_head :: ctype where
  "struct_rhlist_head = CStruct [
     Member ''rhead'' struct_rhash_head, Member ''next'' CPtr]"

lemma layout_struct_rhlist_head [simp]: "cwf struct_rhlist_head" "calign struct_rhlist_head = 8" "csize struct_rhlist_head = 16"
  by (simp_all add: struct_rhlist_head_def place_def align_up_def)

definition struct_hw_perf_event :: ctype where
  "struct_hw_perf_event = CStruct [
     Member '''' (CUnion [
       Member '''' (CStruct [
         Member ''config'' (CInt 8), Member ''last_tag'' (CInt 8),
         Member ''config_base'' (CInt 8), Member ''event_base'' (CInt 8),
         Member ''event_base_rdpmc'' (CInt 4), Member ''idx'' (CInt 4),
         Member ''last_cpu'' (CInt 4), Member ''flags'' (CInt 4),
         Member ''extra_reg'' struct_hw_perf_event_extra,
         Member ''branch_reg'' struct_hw_perf_event_extra]), Member '''' (CStruct [
         Member ''hrtimer'' struct_hrtimer]), Member '''' (CStruct [
         Member ''tp_list'' struct_list_head]), Member '''' (CStruct [
         Member ''pwr_acc'' (CInt 8), Member ''ptsc'' (CInt 8)]), Member '''' (CStruct [
         Member ''info'' struct_arch_hw_breakpoint, Member ''bp_list'' struct_rhlist_head]),
       Member '''' (CStruct [
         Member ''iommu_bank'' (CInt 1), Member ''iommu_cntr'' (CInt 1),
         Member ''padding'' (CInt 2), Member ''conf'' (CInt 8), Member ''conf1'' (CInt 8)])]),
     Member ''target'' CPtr, Member ''addr_filters'' CPtr, Member ''addr_filters_gen'' (CInt 8),
     Member ''state'' (CInt 4), Member ''prev_count'' type_local64_t,
     Member ''sample_period'' (CInt 8), Member '''' (CUnion [
       Member '''' (CStruct [
         Member ''last_period'' (CInt 8), Member ''period_left'' type_local64_t]),
       Member '''' (CStruct [
         Member ''saved_metric'' (CInt 8), Member ''saved_slots'' (CInt 8)])]),
     Member ''interrupts_seq'' (CInt 8), Member ''interrupts'' (CInt 8),
     Member ''freq_time_stamp'' (CInt 8), Member ''freq_count_stamp'' (CInt 8)]"

lemma layout_struct_hw_perf_event [simp]: "cwf struct_hw_perf_event" "calign struct_hw_perf_event = 8" "csize struct_hw_perf_event = 192"
  by (simp_all add: struct_hw_perf_event_def place_def align_up_def)

definition struct_perf_addr_filters_head :: ctype where
  "struct_perf_addr_filters_head = CStruct [
     Member ''list'' struct_list_head, Member ''lock'' struct_raw_spinlock,
     Member ''nr_file_filters'' (CInt 4)]"

lemma layout_struct_perf_addr_filters_head [simp]: "cwf struct_perf_addr_filters_head" "calign struct_perf_addr_filters_head = 8" "csize struct_perf_addr_filters_head = 24"
  by (simp_all add: struct_perf_addr_filters_head_def place_def align_up_def)

definition struct_ftrace_ops_hash :: ctype where
  "struct_ftrace_ops_hash = CStruct [
     Member ''notrace_hash'' CPtr, Member ''filter_hash'' CPtr,
     Member ''regex_lock'' struct_mutex]"

lemma layout_struct_ftrace_ops_hash [simp]: "cwf struct_ftrace_ops_hash" "calign struct_ftrace_ops_hash = 8" "csize struct_ftrace_ops_hash = 48"
  by (simp_all add: struct_ftrace_ops_hash_def place_def align_up_def)

definition struct_ftrace_ops :: ctype where
  "struct_ftrace_ops = CStruct [
     Member ''func'' CPtr, Member ''next'' CPtr, Member ''flags'' (CInt 8),
     Member ''private'' CPtr, Member ''saved_func'' CPtr,
     Member ''local_hash'' struct_ftrace_ops_hash, Member ''func_hash'' CPtr,
     Member ''old_hash'' struct_ftrace_ops_hash, Member ''trampoline'' (CInt 8),
     Member ''trampoline_size'' (CInt 8), Member ''list'' struct_list_head,
     Member ''subop_list'' struct_list_head, Member ''ops_func'' CPtr, Member ''managed'' CPtr,
     Member ''direct_call'' (CInt 8)]"

lemma layout_struct_ftrace_ops [simp]: "cwf struct_ftrace_ops" "calign struct_ftrace_ops = 8" "csize struct_ftrace_ops = 216"
  by (simp_all add: struct_ftrace_ops_def place_def align_up_def)

definition struct_perf_event :: ctype where
  "struct_perf_event = CStruct [
     Member ''event_entry'' struct_list_head, Member ''sibling_list'' struct_list_head,
     Member ''active_list'' struct_list_head, Member ''group_node'' struct_rb_node,
     Member ''group_index'' (CInt 8), Member ''migrate_entry'' struct_list_head,
     Member ''hlist_entry'' struct_hlist_node, Member ''active_entry'' struct_list_head,
     Member ''nr_siblings'' (CInt 4), Member ''event_caps'' (CInt 4),
     Member ''group_caps'' (CInt 4), Member ''group_generation'' (CInt 4),
     Member ''group_leader'' CPtr, Member ''pmu'' CPtr, Member ''pmu_private'' CPtr,
     Member ''state'' (CInt 4), Member ''attach_state'' (CInt 4),
     Member ''count'' type_local64_t, Member ''child_count'' type_atomic64_t,
     Member ''total_time_enabled'' (CInt 8), Member ''total_time_running'' (CInt 8),
     Member ''tstamp'' (CInt 8), Member ''attr'' struct_perf_event_attr,
     Member ''header_size'' (CInt 2), Member ''id_header_size'' (CInt 2),
     Member ''read_size'' (CInt 2), Member ''hw'' struct_hw_perf_event, Member ''ctx'' CPtr,
     Member ''pmu_ctx'' CPtr, Member ''refcount'' type_atomic64_t,
     Member ''child_total_time_enabled'' type_atomic64_t,
     Member ''child_total_time_running'' type_atomic64_t, Member ''child_mutex'' struct_mutex,
     Member ''child_list'' struct_list_head, Member ''parent'' CPtr, Member ''oncpu'' (CInt 4),
     Member ''cpu'' (CInt 4), Member ''owner_entry'' struct_list_head, Member ''owner'' CPtr,
     Member ''mmap_mutex'' struct_mutex, Member ''mmap_count'' type_atomic_t, Member ''rb'' CPtr,
     Member ''rb_entry'' struct_list_head, Member ''rcu_batches'' (CInt 8),
     Member ''rcu_pending'' (CInt 4), Member ''waitq'' struct_wait_queue_head,
     Member ''fasync'' CPtr, Member ''pending_wakeup'' (CInt 4),
     Member ''pending_kill'' (CInt 4), Member ''pending_disable'' (CInt 4),
     Member ''pending_addr'' (CInt 8), Member ''pending_irq'' struct_irq_work,
     Member ''pending_disable_irq'' struct_irq_work,
     Member ''pending_task'' struct_callback_head, Member ''pending_work'' (CInt 4),
     Member ''pending_work_wait'' struct_rcuwait, Member ''event_limit'' type_atomic_t,
     Member ''addr_filters'' struct_perf_addr_filters_head, Member ''addr_filter_ranges'' CPtr,
     Member ''addr_filters_gen'' (CInt 8), Member ''aux_event'' CPtr, Member ''destroy'' CPtr,
     Member ''callback_head'' struct_callback_head, Member ''ns'' CPtr, Member ''id'' (CInt 8),
     Member ''lost_samples'' type_atomic64_t, Member ''clock'' CPtr,
     Member ''overflow_handler'' CPtr, Member ''overflow_handler_context'' CPtr,
     Member ''prog'' CPtr, Member ''bpf_cookie'' (CInt 8), Member ''tp_event'' CPtr,
     Member ''filter'' CPtr, Member ''ftrace_ops'' struct_ftrace_ops, Member ''cgrp'' CPtr,
     Member ''security'' CPtr, Member ''sb_list'' struct_list_head, Member ''orig_type'' (CInt 4)]"

lemma layout_struct_perf_event [simp]: "cwf struct_perf_event" "calign struct_perf_event = 8" "csize struct_perf_event = 1328"
  by (simp_all add: struct_perf_event_def place_def align_up_def)

definition struct_pmu :: ctype where
  "struct_pmu = CStruct [
     Member ''entry'' struct_list_head, Member ''module'' CPtr, Member ''dev'' CPtr,
     Member ''parent'' CPtr, Member ''attr_groups'' CPtr, Member ''attr_update'' CPtr,
     Member ''name'' CPtr, Member ''type'' (CInt 4), Member ''capabilities'' (CInt 4),
     Member ''pmu_disable_count'' CPtr, Member ''cpu_pmu_context'' CPtr,
     Member ''exclusive_cnt'' type_atomic_t, Member ''task_ctx_nr'' (CInt 4),
     Member ''hrtimer_interval_ms'' (CInt 4), Member ''nr_addr_filters'' (CInt 4),
     Member ''pmu_enable'' CPtr, Member ''pmu_disable'' CPtr, Member ''event_init'' CPtr,
     Member ''event_mapped'' CPtr, Member ''event_unmapped'' CPtr, Member ''add'' CPtr,
     Member ''del'' CPtr, Member ''start'' CPtr, Member ''stop'' CPtr, Member ''read'' CPtr,
     Member ''start_txn'' CPtr, Member ''commit_txn'' CPtr, Member ''cancel_txn'' CPtr,
     Member ''event_idx'' CPtr, Member ''sched_task'' CPtr, Member ''task_ctx_cache'' CPtr,
     Member ''swap_task_ctx'' CPtr, Member ''setup_aux'' CPtr, Member ''free_aux'' CPtr,
     Member ''snapshot_aux'' CPtr, Member ''addr_filters_validate'' CPtr,
     Member ''addr_filters_sync'' CPtr, Member ''aux_output_match'' CPtr, Member ''filter'' CPtr,
     Member ''check_period'' CPtr]"

lemma layout_struct_pmu [simp]: "cwf struct_pmu" "calign struct_pmu = 8" "csize struct_pmu = 304"
  by (simp_all add: struct_pmu_def place_def align_up_def)

text \<open>Every structure of this theory, by name.\<close>

definition task_types :: "(string \<times> ctype) list" where
  "task_types = [
     (''struct_thread_info'', struct_thread_info), (''struct_load_weight'', struct_load_weight),
     (''struct_sched_avg'', struct_sched_avg), (''struct_sched_entity'', struct_sched_entity),
     (''struct_sched_rt_entity'', struct_sched_rt_entity),
     (''struct_sched_dl_entity'', struct_sched_dl_entity),
     (''struct_uclamp_se'', struct_uclamp_se),
     (''struct_sched_statistics'', struct_sched_statistics),
     (''struct_cpumask'', struct_cpumask), (''union_rcu_special'', union_rcu_special),
     (''struct_sched_info'', struct_sched_info), (''struct_plist_node'', struct_plist_node),
     (''struct_restart_block'', struct_restart_block),
     (''struct_prev_cputime'', struct_prev_cputime), (''struct_vtime'', struct_vtime),
     (''struct_rb_root_cached'', struct_rb_root_cached),
     (''struct_timerqueue_head'', struct_timerqueue_head),
     (''struct_posix_cputimer_base'', struct_posix_cputimer_base),
     (''struct_posix_cputimers'', struct_posix_cputimers),
     (''struct_posix_cputimers_work'', struct_posix_cputimers_work),
     (''struct_sysv_sem'', struct_sysv_sem), (''struct_sysv_shm'', struct_sysv_shm),
     (''type_sigset_t'', type_sigset_t), (''struct_sigpending'', struct_sigpending),
     (''struct_seccomp'', struct_seccomp),
     (''struct_syscall_user_dispatch'', struct_syscall_user_dispatch),
     (''struct_wake_q_node'', struct_wake_q_node),
     (''struct_task_io_accounting'', struct_task_io_accounting),
     (''type_nodemask_t'', type_nodemask_t),
     (''struct_arch_tlbflush_unmap_batch'', struct_arch_tlbflush_unmap_batch),
     (''struct_tlbflush_unmap_batch'', struct_tlbflush_unmap_batch),
     (''struct_kmap_ctrl'', struct_kmap_ctrl), (''struct_llist_head'', struct_llist_head),
     (''struct_desc_struct'', struct_desc_struct),
     (''struct_thread_shstk'', struct_thread_shstk),
     (''struct_fpu_state_perm'', struct_fpu_state_perm),
     (''struct_fregs_state'', struct_fregs_state),
     (''struct_fxregs_state'', struct_fxregs_state),
     (''struct_swregs_state'', struct_swregs_state),
     (''struct_xstate_header'', struct_xstate_header),
     (''struct_xregs_state'', struct_xregs_state), (''union_fpregs_state'', union_fpregs_state),
     (''struct_fpstate'', struct_fpstate), (''struct_fpu'', struct_fpu),
     (''struct_thread_struct'', struct_thread_struct),
     (''struct_task_struct'', struct_task_struct), (''type_lockdep_map_p'', type_lockdep_map_p),
     (''struct_maple_tree'', struct_maple_tree), (''type_mm_context_t'', type_mm_context_t),
     (''struct_uprobes_state'', struct_uprobes_state), (''struct_mm_struct'', struct_mm_struct),
     (''struct_pgprot'', struct_pgprot),
     (''struct_vm_userfaultfd_ctx'', struct_vm_userfaultfd_ctx),
     (''struct_vm_area_struct'', struct_vm_area_struct),
     (''struct_cpu_itimer'', struct_cpu_itimer),
     (''struct_task_cputime_atomic'', struct_task_cputime_atomic),
     (''struct_thread_group_cputimer'', struct_thread_group_cputimer),
     (''struct_rlimit'', struct_rlimit), (''struct_pacct_struct'', struct_pacct_struct),
     (''struct_signal_struct'', struct_signal_struct), (''struct_sigaction'', struct_sigaction),
     (''struct_k_sigaction'', struct_k_sigaction),
     (''struct_sighand_struct'', struct_sighand_struct), (''struct_fdtable'', struct_fdtable),
     (''struct_files_struct'', struct_files_struct), (''struct_path'', struct_path),
     (''struct_fs_struct'', struct_fs_struct), (''struct_upid'', struct_upid),
     (''struct_pid'', struct_pid), (''struct_pid_namespace'', struct_pid_namespace),
     (''struct_rcu_work'', struct_rcu_work),
     (''struct_cgroup_subsys_state'', struct_cgroup_subsys_state),
     (''struct_cgroup_file'', struct_cgroup_file),
     (''struct_cacheline_padding'', struct_cacheline_padding),
     (''struct_task_cputime'', struct_task_cputime),
     (''struct_cgroup_base_stat'', struct_cgroup_base_stat),
     (''struct_cgroup_freezer_state'', struct_cgroup_freezer_state),
     (''struct_cgroup'', struct_cgroup), (''struct_css_set'', struct_css_set),
     (''struct_cgroup_subsys'', struct_cgroup_subsys),
     (''struct_mem_cgroup_id'', struct_mem_cgroup_id),
     (''struct_page_counter'', struct_page_counter), (''struct_vmpressure'', struct_vmpressure),
     (''struct_fprop_global'', struct_fprop_global), (''struct_wb_domain'', struct_wb_domain),
     (''struct_wb_completion'', struct_wb_completion),
     (''struct_memcg_cgwb_frn'', struct_memcg_cgwb_frn),
     (''struct_deferred_split'', struct_deferred_split),
     (''struct_lru_gen_mm_list'', struct_lru_gen_mm_list),
     (''struct_mem_cgroup'', struct_mem_cgroup),
     (''struct_uclamp_bucket'', struct_uclamp_bucket), (''struct_uclamp_rq'', struct_uclamp_rq),
     (''struct_cfs_rq'', struct_cfs_rq), (''struct_rt_prio_array'', struct_rt_prio_array),
     (''struct_plist_head'', struct_plist_head), (''struct_rt_rq'', struct_rt_rq),
     (''struct_dl_rq'', struct_dl_rq), (''struct_cpu_stop_work'', struct_cpu_stop_work),
     (''struct_rcuwait'', struct_rcuwait), (''struct_rq'', struct_rq),
     (''struct_sched_class'', struct_sched_class),
     (''struct_cfs_bandwidth'', struct_cfs_bandwidth),
     (''struct_task_group'', struct_task_group), (''struct_dl_bw'', struct_dl_bw),
     (''struct_cpudl'', struct_cpudl), (''struct_irq_work'', struct_irq_work),
     (''struct_cpupri_vec'', struct_cpupri_vec), (''struct_cpupri'', struct_cpupri),
     (''struct_root_domain'', struct_root_domain), (''union_rcu_noqs'', union_rcu_noqs),
     (''struct_rcu_segcblist'', struct_rcu_segcblist),
     (''struct_rcu_cblist'', struct_rcu_cblist),
     (''struct_rcu_snap_record'', struct_rcu_snap_record),
     (''struct_rcu_data'', struct_rcu_data), (''struct_rt_mutex_base'', struct_rt_mutex_base),
     (''struct_rt_mutex'', struct_rt_mutex), (''struct_kthread_work'', struct_kthread_work),
     (''struct_rcu_exp_work'', struct_rcu_exp_work), (''struct_rcu_node'', struct_rcu_node),
     (''struct_sr_wait_node'', struct_sr_wait_node), (''struct_rcu_state'', struct_rcu_state),
     (''struct_lockdep_map'', struct_lockdep_map), (''struct_srcu_struct'', struct_srcu_struct),
     (''struct_seqcount_raw_spinlock'', struct_seqcount_raw_spinlock),
     (''struct_hrtimer_clock_base'', struct_hrtimer_clock_base),
     (''struct_hrtimer_cpu_base'', struct_hrtimer_cpu_base),
     (''struct_timer_base'', struct_timer_base), (''struct_tk_read_base'', struct_tk_read_base),
     (''struct_timespec64'', struct_timespec64), (''struct_timekeeper'', struct_timekeeper),
     (''struct_workqueue_struct'', struct_workqueue_struct),
     (''struct_ratelimit_state'', struct_ratelimit_state),
     (''struct_user_struct'', struct_user_struct),
     (''struct_keyring_index_key'', struct_keyring_index_key),
     (''union_key_payload'', union_key_payload), (''struct_assoc_array'', struct_assoc_array),
     (''struct_key'', struct_key), (''struct_perf_event_attr'', struct_perf_event_attr),
     (''struct_hw_perf_event_extra'', struct_hw_perf_event_extra),
     (''struct_arch_hw_breakpoint'', struct_arch_hw_breakpoint),
     (''struct_rhlist_head'', struct_rhlist_head),
     (''struct_hw_perf_event'', struct_hw_perf_event),
     (''struct_perf_addr_filters_head'', struct_perf_addr_filters_head),
     (''struct_ftrace_ops_hash'', struct_ftrace_ops_hash),
     (''struct_ftrace_ops'', struct_ftrace_ops), (''struct_perf_event'', struct_perf_event),
     (''struct_pmu'', struct_pmu)]"

lemma task_types_wf: "list_all (\<lambda>(x, t). cwf t) task_types"
  by (simp add: task_types_def)

end
