(* ===== verification/Kernel_Files.thy ===== *)
theory Kernel_Files
  imports Kernel_Task
begin

text \<open>
  What holds the objects that the agent gets file descriptors for (agent/vmlinux.h): pages and
  caches, inodes, files and file systems, the driver model, and further sockets and tables of
  the network stack.
\<close>

definition struct_page :: ctype where
  "struct_page = CStruct [
     Member ''flags'' (CInt 8), Member '''' (CUnion [
       Member '''' (CStruct [
         Member '''' (CUnion [
           Member ''lru'' struct_list_head, Member '''' (CStruct [
             Member ''__filler'' CPtr, Member ''mlock_count'' (CInt 4)]),
           Member ''buddy_list'' struct_list_head, Member ''pcp_list'' struct_list_head]),
         Member ''mapping'' CPtr, Member '''' (CUnion [
           Member ''index'' (CInt 8), Member ''share'' (CInt 8)]), Member ''private'' (CInt 8)]),
       Member '''' (CStruct [
         Member ''pp_magic'' (CInt 8), Member ''pp'' CPtr, Member ''_pp_mapping_pad'' (CInt 8),
         Member ''dma_addr'' (CInt 8), Member ''pp_ref_count'' type_atomic64_t]),
       Member '''' (CStruct [
         Member ''compound_head'' (CInt 8)]), Member '''' (CStruct [
         Member ''pgmap'' CPtr, Member ''zone_device_data'' CPtr]),
       Member ''callback_head'' struct_callback_head]), Member '''' (CUnion [
       Member ''page_type'' (CInt 4), Member ''_mapcount'' type_atomic_t]),
     Member ''_refcount'' type_atomic_t, Member ''memcg_data'' (CInt 8)]"

lemma layout_struct_page [simp]: "cwf struct_page" "calign struct_page = 8" "csize struct_page = 64"
  by (simp_all add: struct_page_def place_def align_up_def)

definition type_swp_entry_t :: ctype where
  "type_swp_entry_t = CStruct [
     Member ''val'' (CInt 8)]"

lemma layout_type_swp_entry_t [simp]: "cwf type_swp_entry_t" "calign type_swp_entry_t = 8" "csize type_swp_entry_t = 8"
  by (simp_all add: type_swp_entry_t_def place_def align_up_def)

definition struct_folio :: ctype where
  "struct_folio = CStruct [
     Member '''' (CUnion [
       Member '''' (CStruct [
         Member ''flags'' (CInt 8), Member '''' (CUnion [
           Member ''lru'' struct_list_head, Member '''' (CStruct [
             Member ''__filler'' CPtr, Member ''mlock_count'' (CInt 4)])]),
         Member ''mapping'' CPtr, Member ''index'' (CInt 8), Member '''' (CUnion [
           Member ''private'' CPtr, Member ''swap'' type_swp_entry_t]),
         Member ''_mapcount'' type_atomic_t, Member ''_refcount'' type_atomic_t,
         Member ''memcg_data'' (CInt 8)]), Member ''page'' struct_page]), Member '''' (CUnion [
       Member '''' (CStruct [
         Member ''_flags_1'' (CInt 8), Member ''_head_1'' (CInt 8),
         Member ''_large_mapcount'' type_atomic_t, Member ''_entire_mapcount'' type_atomic_t,
         Member ''_nr_pages_mapped'' type_atomic_t, Member ''_pincount'' type_atomic_t,
         Member ''_folio_nr_pages'' (CInt 4)]), Member ''__page_1'' struct_page]),
     Member '''' (CUnion [
       Member '''' (CStruct [
         Member ''_flags_2'' (CInt 8), Member ''_head_2'' (CInt 8),
         Member ''_hugetlb_subpool'' CPtr, Member ''_hugetlb_cgroup'' CPtr,
         Member ''_hugetlb_cgroup_rsvd'' CPtr, Member ''_hugetlb_hwpoison'' CPtr]),
       Member '''' (CStruct [
         Member ''_flags_2a'' (CInt 8), Member ''_head_2a'' (CInt 8),
         Member ''_deferred_list'' struct_list_head]), Member ''__page_2'' struct_page])]"

lemma layout_struct_folio [simp]: "cwf struct_folio" "calign struct_folio = 8" "csize struct_folio = 192"
  by (simp_all add: struct_folio_def place_def align_up_def)

definition struct_address_space :: ctype where
  "struct_address_space = CStruct [
     Member ''host'' CPtr, Member ''i_pages'' struct_xarray,
     Member ''invalidate_lock'' struct_rw_semaphore, Member ''gfp_mask'' (CInt 4),
     Member ''i_mmap_writable'' type_atomic_t, Member ''i_mmap'' struct_rb_root_cached,
     Member ''nrpages'' (CInt 8), Member ''writeback_index'' (CInt 8), Member ''a_ops'' CPtr,
     Member ''flags'' (CInt 8), Member ''wb_err'' (CInt 4),
     Member ''i_private_lock'' struct_spinlock, Member ''i_private_list'' struct_list_head,
     Member ''i_mmap_rwsem'' struct_rw_semaphore, Member ''i_private_data'' CPtr]"

lemma layout_struct_address_space [simp]: "cwf struct_address_space" "calign struct_address_space = 8" "csize struct_address_space = 192"
  by (simp_all add: struct_address_space_def place_def align_up_def)

definition struct_inode :: ctype where
  "struct_inode = CStruct [
     Member ''i_mode'' (CInt 2), Member ''i_opflags'' (CInt 2), Member ''i_uid'' type_kuid_t,
     Member ''i_gid'' type_kgid_t, Member ''i_flags'' (CInt 4), Member ''i_acl'' CPtr,
     Member ''i_default_acl'' CPtr, Member ''i_op'' CPtr, Member ''i_sb'' CPtr,
     Member ''i_mapping'' CPtr, Member ''i_security'' CPtr, Member ''i_ino'' (CInt 8),
     Member '''' (CUnion [
       Member ''i_nlink'' (CInt 4), Member ''__i_nlink'' (CInt 4)]), Member ''i_rdev'' (CInt 4),
     Member ''i_size'' (CInt 8), Member ''i_atime_sec'' (CInt 8),
     Member ''i_mtime_sec'' (CInt 8), Member ''i_ctime_sec'' (CInt 8),
     Member ''i_atime_nsec'' (CInt 4), Member ''i_mtime_nsec'' (CInt 4),
     Member ''i_ctime_nsec'' (CInt 4), Member ''i_generation'' (CInt 4),
     Member ''i_lock'' struct_spinlock, Member ''i_bytes'' (CInt 2),
     Member ''i_blkbits'' (CInt 1), Member ''i_write_hint'' (CInt 4),
     Member ''i_blocks'' (CInt 8), Member ''i_state'' (CInt 8),
     Member ''i_rwsem'' struct_rw_semaphore, Member ''dirtied_when'' (CInt 8),
     Member ''dirtied_time_when'' (CInt 8), Member ''i_hash'' struct_hlist_node,
     Member ''i_io_list'' struct_list_head, Member ''i_wb'' CPtr,
     Member ''i_wb_frn_winner'' (CInt 4), Member ''i_wb_frn_avg_time'' (CInt 2),
     Member ''i_wb_frn_history'' (CInt 2), Member ''i_lru'' struct_list_head,
     Member ''i_sb_list'' struct_list_head, Member ''i_wb_list'' struct_list_head,
     Member '''' (CUnion [
       Member ''i_dentry'' struct_hlist_head, Member ''i_rcu'' struct_callback_head]),
     Member ''i_version'' type_atomic64_t, Member ''i_sequence'' type_atomic64_t,
     Member ''i_count'' type_atomic_t, Member ''i_dio_count'' type_atomic_t,
     Member ''i_writecount'' type_atomic_t, Member ''i_readcount'' type_atomic_t,
     Member '''' (CUnion [
       Member ''i_fop'' CPtr, Member ''free_inode'' CPtr]), Member ''i_flctx'' CPtr,
     Member ''i_data'' struct_address_space, Member ''i_devices'' struct_list_head,
     Member '''' (CUnion [
       Member ''i_pipe'' CPtr, Member ''i_cdev'' CPtr, Member ''i_link'' CPtr,
       Member ''i_dir_seq'' (CInt 4)]), Member ''i_fsnotify_mask'' (CInt 4),
     Member ''i_fsnotify_marks'' CPtr, Member ''i_crypt_info'' CPtr, Member ''i_private'' CPtr]"

lemma layout_struct_inode [simp]: "cwf struct_inode" "calign struct_inode = 8" "csize struct_inode = 624"
  by (simp_all add: struct_inode_def place_def align_up_def)

definition struct_hlist_bl_node :: ctype where
  "struct_hlist_bl_node = CStruct [
     Member ''next'' CPtr, Member ''pprev'' CPtr]"

lemma layout_struct_hlist_bl_node [simp]: "cwf struct_hlist_bl_node" "calign struct_hlist_bl_node = 8" "csize struct_hlist_bl_node = 16"
  by (simp_all add: struct_hlist_bl_node_def place_def align_up_def)

definition struct_qstr :: ctype where
  "struct_qstr = CStruct [
     Member '''' (CUnion [
       Member '''' (CStruct [
         Member ''hash'' (CInt 4), Member ''len'' (CInt 4)]), Member ''hash_len'' (CInt 8)]),
     Member ''name'' CPtr]"

lemma layout_struct_qstr [simp]: "cwf struct_qstr" "calign struct_qstr = 8" "csize struct_qstr = 16"
  by (simp_all add: struct_qstr_def place_def align_up_def)

definition struct_lockref :: ctype where
  "struct_lockref = CStruct [
     Member '''' (CUnion [
       Member ''lock_count'' (CInt 8), Member '''' (CStruct [
         Member ''lock'' struct_spinlock, Member ''count'' (CInt 4)])])]"

lemma layout_struct_lockref [simp]: "cwf struct_lockref" "calign struct_lockref = 8" "csize struct_lockref = 8"
  by (simp_all add: struct_lockref_def place_def align_up_def)

definition struct_dentry :: ctype where
  "struct_dentry = CStruct [
     Member ''d_flags'' (CInt 4), Member ''d_seq'' struct_seqcount_spinlock,
     Member ''d_hash'' struct_hlist_bl_node, Member ''d_parent'' CPtr,
     Member ''d_name'' struct_qstr, Member ''d_inode'' CPtr,
     Member ''d_iname'' (CArray (CInt 1) 40), Member ''d_op'' CPtr, Member ''d_sb'' CPtr,
     Member ''d_time'' (CInt 8), Member ''d_fsdata'' CPtr, Member ''d_lockref'' struct_lockref,
     Member '''' (CUnion [
       Member ''d_lru'' struct_list_head, Member ''d_wait'' CPtr]),
     Member ''d_sib'' struct_hlist_node, Member ''d_children'' struct_hlist_head,
     Member ''d_u'' (CUnion [
       Member ''d_alias'' struct_hlist_node, Member ''d_in_lookup_hash'' struct_hlist_bl_node,
       Member ''d_rcu'' struct_callback_head])]"

lemma layout_struct_dentry [simp]: "cwf struct_dentry" "calign struct_dentry = 8" "csize struct_dentry = 192"
  by (simp_all add: struct_dentry_def place_def align_up_def)

definition struct_hlist_bl_head :: ctype where
  "struct_hlist_bl_head = CStruct [
     Member ''first'' CPtr]"

lemma layout_struct_hlist_bl_head [simp]: "cwf struct_hlist_bl_head" "calign struct_hlist_bl_head = 8" "csize struct_hlist_bl_head = 8"
  by (simp_all add: struct_hlist_bl_head_def place_def align_up_def)

definition struct_mem_dqinfo :: ctype where
  "struct_mem_dqinfo = CStruct [
     Member ''dqi_format'' CPtr, Member ''dqi_fmt_id'' (CInt 4),
     Member ''dqi_dirty_list'' struct_list_head, Member ''dqi_flags'' (CInt 8),
     Member ''dqi_bgrace'' (CInt 4), Member ''dqi_igrace'' (CInt 4),
     Member ''dqi_max_spc_limit'' (CInt 8), Member ''dqi_max_ino_limit'' (CInt 8),
     Member ''dqi_priv'' CPtr]"

lemma layout_struct_mem_dqinfo [simp]: "cwf struct_mem_dqinfo" "calign struct_mem_dqinfo = 8" "csize struct_mem_dqinfo = 72"
  by (simp_all add: struct_mem_dqinfo_def place_def align_up_def)

definition struct_quota_info :: ctype where
  "struct_quota_info = CStruct [
     Member ''flags'' (CInt 4), Member ''dqio_sem'' struct_rw_semaphore,
     Member ''files'' (CArray CPtr 3), Member ''info'' (CArray struct_mem_dqinfo 3),
     Member ''ops'' (CArray CPtr 3)]"

lemma layout_struct_quota_info [simp]: "cwf struct_quota_info" "calign struct_quota_info = 8" "csize struct_quota_info = 312"
  by (simp_all add: struct_quota_info_def place_def align_up_def)

definition struct_rcu_sync :: ctype where
  "struct_rcu_sync = CStruct [
     Member ''gp_state'' (CInt 4), Member ''gp_count'' (CInt 4),
     Member ''gp_wait'' struct_wait_queue_head, Member ''cb_head'' struct_callback_head]"

lemma layout_struct_rcu_sync [simp]: "cwf struct_rcu_sync" "calign struct_rcu_sync = 8" "csize struct_rcu_sync = 48"
  by (simp_all add: struct_rcu_sync_def place_def align_up_def)

definition struct_percpu_rw_semaphore :: ctype where
  "struct_percpu_rw_semaphore = CStruct [
     Member ''rss'' struct_rcu_sync, Member ''read_count'' CPtr,
     Member ''writer'' struct_rcuwait, Member ''waiters'' struct_wait_queue_head,
     Member ''block'' type_atomic_t]"

lemma layout_struct_percpu_rw_semaphore [simp]: "cwf struct_percpu_rw_semaphore" "calign struct_percpu_rw_semaphore = 8" "csize struct_percpu_rw_semaphore = 96"
  by (simp_all add: struct_percpu_rw_semaphore_def place_def align_up_def)

definition struct_sb_writers :: ctype where
  "struct_sb_writers = CStruct [
     Member ''frozen'' (CInt 2), Member ''freeze_kcount'' (CInt 4),
     Member ''freeze_ucount'' (CInt 4), Member ''rw_sem'' (CArray struct_percpu_rw_semaphore 3)]"

lemma layout_struct_sb_writers [simp]: "cwf struct_sb_writers" "calign struct_sb_writers = 8" "csize struct_sb_writers = 304"
  by (simp_all add: struct_sb_writers_def place_def align_up_def)

definition type_uuid_t :: ctype where
  "type_uuid_t = CStruct [
     Member ''b'' (CArray (CInt 1) 16)]"

lemma layout_type_uuid_t [simp]: "cwf type_uuid_t" "calign type_uuid_t = 1" "csize type_uuid_t = 16"
  by (simp_all add: type_uuid_t_def place_def align_up_def)

definition struct_list_lru :: ctype where
  "struct_list_lru = CStruct [
     Member ''node'' CPtr, Member ''list'' struct_list_head, Member ''shrinker_id'' (CInt 4),
     Member ''memcg_aware'' (CInt 1), Member ''xa'' struct_xarray]"

lemma layout_struct_list_lru [simp]: "cwf struct_list_lru" "calign struct_list_lru = 8" "csize struct_list_lru = 48"
  by (simp_all add: struct_list_lru_def place_def align_up_def)

definition struct_super_block :: ctype where
  "struct_super_block = CStruct [
     Member ''s_list'' struct_list_head, Member ''s_dev'' (CInt 4),
     Member ''s_blocksize_bits'' (CInt 1), Member ''s_blocksize'' (CInt 8),
     Member ''s_maxbytes'' (CInt 8), Member ''s_type'' CPtr, Member ''s_op'' CPtr,
     Member ''dq_op'' CPtr, Member ''s_qcop'' CPtr, Member ''s_export_op'' CPtr,
     Member ''s_flags'' (CInt 8), Member ''s_iflags'' (CInt 8), Member ''s_magic'' (CInt 8),
     Member ''s_root'' CPtr, Member ''s_umount'' struct_rw_semaphore,
     Member ''s_count'' (CInt 4), Member ''s_active'' type_atomic_t, Member ''s_security'' CPtr,
     Member ''s_xattr'' CPtr, Member ''s_cop'' CPtr, Member ''s_master_keys'' CPtr,
     Member ''s_encoding'' CPtr, Member ''s_encoding_flags'' (CInt 2),
     Member ''s_roots'' struct_hlist_bl_head, Member ''s_mounts'' struct_list_head,
     Member ''s_bdev'' CPtr, Member ''s_bdev_file'' CPtr, Member ''s_bdi'' CPtr,
     Member ''s_mtd'' CPtr, Member ''s_instances'' struct_hlist_node,
     Member ''s_quota_types'' (CInt 4), Member ''s_dquot'' struct_quota_info,
     Member ''s_writers'' struct_sb_writers, Member ''s_fs_info'' CPtr,
     Member ''s_time_gran'' (CInt 4), Member ''s_time_min'' (CInt 8),
     Member ''s_time_max'' (CInt 8), Member ''s_fsnotify_mask'' (CInt 4),
     Member ''s_fsnotify_info'' CPtr, Member ''s_id'' (CArray (CInt 1) 32),
     Member ''s_uuid'' type_uuid_t, Member ''s_uuid_len'' (CInt 1),
     Member ''s_sysfs_name'' (CArray (CInt 1) 37), Member ''s_max_links'' (CInt 4),
     Member ''s_vfs_rename_mutex'' struct_mutex, Member ''s_subtype'' CPtr,
     Member ''s_d_op'' CPtr, Member ''s_shrink'' CPtr, Member ''s_remove_count'' type_atomic64_t,
     Member ''s_readonly_remount'' (CInt 4), Member ''s_wb_err'' (CInt 4),
     Member ''s_dio_done_wq'' CPtr, Member ''s_pins'' struct_hlist_head,
     Member ''s_user_ns'' CPtr, Member ''s_dentry_lru'' struct_list_lru,
     Member ''s_inode_lru'' struct_list_lru, Member ''rcu'' struct_callback_head,
     Member ''destroy_work'' struct_work_struct, Member ''s_sync_lock'' struct_mutex,
     Member ''s_stack_depth'' (CInt 4), Bits '''' 8 64, Bits '''' 8 64,
     Member ''s_inode_list_lock'' struct_spinlock, Member ''s_inodes'' struct_list_head,
     Member ''s_inode_wblist_lock'' struct_spinlock, Member ''s_inodes_wb'' struct_list_head,
     Bits '''' 8 64, Bits '''' 8 64]"

lemma layout_struct_super_block [simp]: "cwf struct_super_block" "calign struct_super_block = 8" "csize struct_super_block = 1408"
  by (simp_all add: struct_super_block_def place_def align_up_def)

definition struct_fown_struct :: ctype where
  "struct_fown_struct = CStruct [
     Member ''lock'' type_rwlock_t, Member ''pid'' CPtr, Member ''pid_type'' (CInt 4),
     Member ''uid'' type_kuid_t, Member ''euid'' type_kuid_t, Member ''signum'' (CInt 4)]"

lemma layout_struct_fown_struct [simp]: "cwf struct_fown_struct" "calign struct_fown_struct = 8" "csize struct_fown_struct = 32"
  by (simp_all add: struct_fown_struct_def place_def align_up_def)

definition struct_file_ra_state :: ctype where
  "struct_file_ra_state = CStruct [
     Member ''start'' (CInt 8), Member ''size'' (CInt 4), Member ''async_size'' (CInt 4),
     Member ''ra_pages'' (CInt 4), Member ''mmap_miss'' (CInt 4), Member ''prev_pos'' (CInt 8)]"

lemma layout_struct_file_ra_state [simp]: "cwf struct_file_ra_state" "calign struct_file_ra_state = 8" "csize struct_file_ra_state = 32"
  by (simp_all add: struct_file_ra_state_def place_def align_up_def)

definition struct_file :: ctype where
  "struct_file = CStruct [
     Member '''' (CUnion [
       Member ''f_task_work'' struct_callback_head, Member ''f_llist'' struct_llist_node,
       Member ''f_iocb_flags'' (CInt 4)]), Member ''f_lock'' struct_spinlock,
     Member ''f_mode'' (CInt 4), Member ''f_count'' type_atomic64_t,
     Member ''f_pos_lock'' struct_mutex, Member ''f_pos'' (CInt 8), Member ''f_flags'' (CInt 4),
     Member ''f_owner'' struct_fown_struct, Member ''f_cred'' CPtr,
     Member ''f_ra'' struct_file_ra_state, Member ''f_path'' struct_path,
     Member ''f_inode'' CPtr, Member ''f_op'' CPtr, Member ''f_version'' (CInt 8),
     Member ''f_security'' CPtr, Member ''private_data'' CPtr, Member ''f_ep'' CPtr,
     Member ''f_mapping'' CPtr, Member ''f_wb_err'' (CInt 4), Member ''f_sb_err'' (CInt 4)]"

lemma layout_struct_file [simp]: "cwf struct_file" "calign struct_file = 8" "csize struct_file = 232"
  by (simp_all add: struct_file_def place_def align_up_def)

definition struct_file_operations :: ctype where
  "struct_file_operations = CStruct [
     Member ''owner'' CPtr, Member ''fop_flags'' (CInt 4), Member ''llseek'' CPtr,
     Member ''read'' CPtr, Member ''write'' CPtr, Member ''read_iter'' CPtr,
     Member ''write_iter'' CPtr, Member ''iopoll'' CPtr, Member ''iterate_shared'' CPtr,
     Member ''poll'' CPtr, Member ''unlocked_ioctl'' CPtr, Member ''compat_ioctl'' CPtr,
     Member ''mmap'' CPtr, Member ''open'' CPtr, Member ''flush'' CPtr, Member ''release'' CPtr,
     Member ''fsync'' CPtr, Member ''fasync'' CPtr, Member ''lock'' CPtr,
     Member ''get_unmapped_area'' CPtr, Member ''check_flags'' CPtr, Member ''flock'' CPtr,
     Member ''splice_write'' CPtr, Member ''splice_read'' CPtr, Member ''splice_eof'' CPtr,
     Member ''setlease'' CPtr, Member ''fallocate'' CPtr, Member ''show_fdinfo'' CPtr,
     Member ''copy_file_range'' CPtr, Member ''remap_file_range'' CPtr, Member ''fadvise'' CPtr,
     Member ''uring_cmd'' CPtr, Member ''uring_cmd_iopoll'' CPtr]"

lemma layout_struct_file_operations [simp]: "cwf struct_file_operations" "calign struct_file_operations = 8" "csize struct_file_operations = 264"
  by (simp_all add: struct_file_operations_def place_def align_up_def)

definition struct_inode_operations :: ctype where
  "struct_inode_operations = CStruct [
     Member ''lookup'' CPtr, Member ''get_link'' CPtr, Member ''permission'' CPtr,
     Member ''get_inode_acl'' CPtr, Member ''readlink'' CPtr, Member ''create'' CPtr,
     Member ''link'' CPtr, Member ''unlink'' CPtr, Member ''symlink'' CPtr,
     Member ''mkdir'' CPtr, Member ''rmdir'' CPtr, Member ''mknod'' CPtr, Member ''rename'' CPtr,
     Member ''setattr'' CPtr, Member ''getattr'' CPtr, Member ''listxattr'' CPtr,
     Member ''fiemap'' CPtr, Member ''update_time'' CPtr, Member ''atomic_open'' CPtr,
     Member ''tmpfile'' CPtr, Member ''get_acl'' CPtr, Member ''set_acl'' CPtr,
     Member ''fileattr_set'' CPtr, Member ''fileattr_get'' CPtr, Member ''get_offset_ctx'' CPtr,
     Bits '''' 8 64, Bits '''' 8 64, Bits '''' 8 64, Bits '''' 8 64, Bits '''' 8 64,
     Bits '''' 8 64, Bits '''' 8 64]"

lemma layout_struct_inode_operations [simp]: "cwf struct_inode_operations" "calign struct_inode_operations = 8" "csize struct_inode_operations = 256"
  by (simp_all add: struct_inode_operations_def place_def align_up_def)

definition struct_super_operations :: ctype where
  "struct_super_operations = CStruct [
     Member ''alloc_inode'' CPtr, Member ''destroy_inode'' CPtr, Member ''free_inode'' CPtr,
     Member ''dirty_inode'' CPtr, Member ''write_inode'' CPtr, Member ''drop_inode'' CPtr,
     Member ''evict_inode'' CPtr, Member ''put_super'' CPtr, Member ''sync_fs'' CPtr,
     Member ''freeze_super'' CPtr, Member ''freeze_fs'' CPtr, Member ''thaw_super'' CPtr,
     Member ''unfreeze_fs'' CPtr, Member ''statfs'' CPtr, Member ''remount_fs'' CPtr,
     Member ''umount_begin'' CPtr, Member ''show_options'' CPtr, Member ''show_devname'' CPtr,
     Member ''show_path'' CPtr, Member ''show_stats'' CPtr, Member ''quota_read'' CPtr,
     Member ''quota_write'' CPtr, Member ''get_dquots'' CPtr, Member ''nr_cached_objects'' CPtr,
     Member ''free_cached_objects'' CPtr, Member ''shutdown'' CPtr]"

lemma layout_struct_super_operations [simp]: "cwf struct_super_operations" "calign struct_super_operations = 8" "csize struct_super_operations = 208"
  by (simp_all add: struct_super_operations_def place_def align_up_def)

definition struct_dentry_operations :: ctype where
  "struct_dentry_operations = CStruct [
     Member ''d_revalidate'' CPtr, Member ''d_weak_revalidate'' CPtr, Member ''d_hash'' CPtr,
     Member ''d_compare'' CPtr, Member ''d_delete'' CPtr, Member ''d_init'' CPtr,
     Member ''d_release'' CPtr, Member ''d_prune'' CPtr, Member ''d_iput'' CPtr,
     Member ''d_dname'' CPtr, Member ''d_automount'' CPtr, Member ''d_manage'' CPtr,
     Member ''d_real'' CPtr, Bits '''' 8 64, Bits '''' 8 64, Bits '''' 8 64]"

lemma layout_struct_dentry_operations [simp]: "cwf struct_dentry_operations" "calign struct_dentry_operations = 8" "csize struct_dentry_operations = 128"
  by (simp_all add: struct_dentry_operations_def place_def align_up_def)

definition struct_address_space_operations :: ctype where
  "struct_address_space_operations = CStruct [
     Member ''writepage'' CPtr, Member ''read_folio'' CPtr, Member ''writepages'' CPtr,
     Member ''dirty_folio'' CPtr, Member ''readahead'' CPtr, Member ''write_begin'' CPtr,
     Member ''write_end'' CPtr, Member ''bmap'' CPtr, Member ''invalidate_folio'' CPtr,
     Member ''release_folio'' CPtr, Member ''free_folio'' CPtr, Member ''direct_IO'' CPtr,
     Member ''migrate_folio'' CPtr, Member ''launder_folio'' CPtr,
     Member ''is_partially_uptodate'' CPtr, Member ''is_dirty_writeback'' CPtr,
     Member ''error_remove_folio'' CPtr, Member ''swap_activate'' CPtr,
     Member ''swap_deactivate'' CPtr, Member ''swap_rw'' CPtr]"

lemma layout_struct_address_space_operations [simp]: "cwf struct_address_space_operations" "calign struct_address_space_operations = 8" "csize struct_address_space_operations = 160"
  by (simp_all add: struct_address_space_operations_def place_def align_up_def)

definition struct_vfsmount :: ctype where
  "struct_vfsmount = CStruct [
     Member ''mnt_root'' CPtr, Member ''mnt_sb'' CPtr, Member ''mnt_flags'' (CInt 4),
     Member ''mnt_idmap'' CPtr]"

lemma layout_struct_vfsmount [simp]: "cwf struct_vfsmount" "calign struct_vfsmount = 8" "csize struct_vfsmount = 32"
  by (simp_all add: struct_vfsmount_def place_def align_up_def)

definition struct_mount :: ctype where
  "struct_mount = CStruct [
     Member ''mnt_hash'' struct_hlist_node, Member ''mnt_parent'' CPtr,
     Member ''mnt_mountpoint'' CPtr, Member ''mnt'' struct_vfsmount, Member '''' (CUnion [
       Member ''mnt_rcu'' struct_callback_head, Member ''mnt_llist'' struct_llist_node]),
     Member ''mnt_pcp'' CPtr, Member ''mnt_mounts'' struct_list_head,
     Member ''mnt_child'' struct_list_head, Member ''mnt_instance'' struct_list_head,
     Member ''mnt_devname'' CPtr, Member '''' (CUnion [
       Member ''mnt_node'' struct_rb_node, Member ''mnt_list'' struct_list_head]),
     Member ''mnt_expire'' struct_list_head, Member ''mnt_share'' struct_list_head,
     Member ''mnt_slave_list'' struct_list_head, Member ''mnt_slave'' struct_list_head,
     Member ''mnt_master'' CPtr, Member ''mnt_ns'' CPtr, Member ''mnt_mp'' CPtr,
     Member '''' (CUnion [
       Member ''mnt_mp_list'' struct_hlist_node, Member ''mnt_umount'' struct_hlist_node]),
     Member ''mnt_umounting'' struct_list_head, Member ''mnt_fsnotify_marks'' CPtr,
     Member ''mnt_fsnotify_mask'' (CInt 4), Member ''mnt_id'' (CInt 4),
     Member ''mnt_id_unique'' (CInt 8), Member ''mnt_group_id'' (CInt 4),
     Member ''mnt_expiry_mark'' (CInt 4), Member ''mnt_pins'' struct_hlist_head,
     Member ''mnt_stuck_children'' struct_hlist_head]"

lemma layout_struct_mount [simp]: "cwf struct_mount" "calign struct_mount = 8" "csize struct_mount = 336"
  by (simp_all add: struct_mount_def place_def align_up_def)

definition struct_reciprocal_value :: ctype where
  "struct_reciprocal_value = CStruct [
     Member ''m'' (CInt 4), Member ''sh1'' (CInt 1), Member ''sh2'' (CInt 1)]"

lemma layout_struct_reciprocal_value [simp]: "cwf struct_reciprocal_value" "calign struct_reciprocal_value = 4" "csize struct_reciprocal_value = 8"
  by (simp_all add: struct_reciprocal_value_def place_def align_up_def)

definition struct_kmem_cache_order_objects :: ctype where
  "struct_kmem_cache_order_objects = CStruct [
     Member ''x'' (CInt 4)]"

lemma layout_struct_kmem_cache_order_objects [simp]: "cwf struct_kmem_cache_order_objects" "calign struct_kmem_cache_order_objects = 4" "csize struct_kmem_cache_order_objects = 4"
  by (simp_all add: struct_kmem_cache_order_objects_def place_def align_up_def)

definition struct_kmem_cache :: ctype where
  "struct_kmem_cache = CStruct [
     Member ''cpu_slab'' CPtr, Member ''flags'' (CInt 4), Member ''min_partial'' (CInt 8),
     Member ''size'' (CInt 4), Member ''object_size'' (CInt 4),
     Member ''reciprocal_size'' struct_reciprocal_value, Member ''offset'' (CInt 4),
     Member ''cpu_partial'' (CInt 4), Member ''cpu_partial_slabs'' (CInt 4),
     Member ''oo'' struct_kmem_cache_order_objects,
     Member ''min'' struct_kmem_cache_order_objects, Member ''allocflags'' (CInt 4),
     Member ''refcount'' (CInt 4), Member ''ctor'' CPtr, Member ''inuse'' (CInt 4),
     Member ''align'' (CInt 4), Member ''red_left_pad'' (CInt 4), Member ''name'' CPtr,
     Member ''list'' struct_list_head, Member ''kobj'' struct_kobject,
     Member ''random'' (CInt 8), Member ''remote_node_defrag_ratio'' (CInt 4),
     Member ''random_seq'' CPtr, Member ''useroffset'' (CInt 4), Member ''usersize'' (CInt 4),
     Member ''node'' (CArray CPtr 64)]"

lemma layout_struct_kmem_cache [simp]: "cwf struct_kmem_cache" "calign struct_kmem_cache = 8" "csize struct_kmem_cache = 728"
  by (simp_all add: struct_kmem_cache_def place_def align_up_def)

definition struct_free_area :: ctype where
  "struct_free_area = CStruct [
     Member ''free_list'' (CArray struct_list_head 6), Member ''nr_free'' (CInt 8)]"

lemma layout_struct_free_area [simp]: "cwf struct_free_area" "calign struct_free_area = 8" "csize struct_free_area = 104"
  by (simp_all add: struct_free_area_def place_def align_up_def)

definition struct_zone :: ctype where
  "struct_zone = CStruct [
     Member ''_watermark'' (CArray (CInt 8) 4), Member ''watermark_boost'' (CInt 8),
     Member ''nr_reserved_highatomic'' (CInt 8), Member ''lowmem_reserve'' (CArray (CInt 8) 5),
     Member ''node'' (CInt 4), Member ''zone_pgdat'' CPtr, Member ''per_cpu_pageset'' CPtr,
     Member ''per_cpu_zonestats'' CPtr, Member ''pageset_high_min'' (CInt 4),
     Member ''pageset_high_max'' (CInt 4), Member ''pageset_batch'' (CInt 4),
     Member ''zone_start_pfn'' (CInt 8), Member ''managed_pages'' type_atomic64_t,
     Member ''spanned_pages'' (CInt 8), Member ''present_pages'' (CInt 8),
     Member ''present_early_pages'' (CInt 8), Member ''cma_pages'' (CInt 8),
     Member ''name'' CPtr, Member ''nr_isolate_pageblock'' (CInt 8),
     Member ''span_seqlock'' type_seqlock_t, Member ''initialized'' (CInt 4), Bits '''' 8 64,
     Bits '''' 8 64, Bits '''' 8 64, Bits '''' 8 64, Bits '''' 8 64,
     Member ''_pad1_'' struct_cacheline_padding,
     Member ''free_area'' (CArray struct_free_area 11),
     Member ''unaccepted_pages'' struct_list_head, Member ''flags'' (CInt 8),
     Member ''lock'' struct_spinlock, Bits '''' 8 64, Bits '''' 8 64, Bits '''' 8 64,
     Bits '''' 8 64, Bits '''' 8 64, Member ''_pad2_'' struct_cacheline_padding,
     Member ''percpu_drift_mark'' (CInt 8), Member ''compact_cached_free_pfn'' (CInt 8),
     Member ''compact_cached_migrate_pfn'' (CArray (CInt 8) 2),
     Member ''compact_init_migrate_pfn'' (CInt 8), Member ''compact_init_free_pfn'' (CInt 8),
     Member ''compact_considered'' (CInt 4), Member ''compact_defer_shift'' (CInt 4),
     Member ''compact_order_failed'' (CInt 4), Member ''compact_blockskip_flush'' (CInt 1),
     Member ''contiguous'' (CInt 1), Bits '''' 8 0, Member ''_pad3_'' struct_cacheline_padding,
     Member ''vm_stat'' (CArray type_atomic64_t 12),
     Member ''vm_numa_event'' (CArray type_atomic64_t 6), Bits '''' 8 64, Bits '''' 8 64,
     Bits '''' 8 64, Bits '''' 8 64, Bits '''' 8 64, Bits '''' 8 64]"

lemma layout_struct_zone [simp]: "cwf struct_zone" "calign struct_zone = 8" "csize struct_zone = 1728"
  by (simp_all add: struct_zone_def place_def align_up_def)

definition struct_zoneref :: ctype where
  "struct_zoneref = CStruct [
     Member ''zone'' CPtr, Member ''zone_idx'' (CInt 4)]"

lemma layout_struct_zoneref [simp]: "cwf struct_zoneref" "calign struct_zoneref = 8" "csize struct_zoneref = 16"
  by (simp_all add: struct_zoneref_def place_def align_up_def)

definition struct_zonelist :: ctype where
  "struct_zonelist = CStruct [
     Member ''_zonerefs'' (CArray struct_zoneref 321)]"

lemma layout_struct_zonelist [simp]: "cwf struct_zonelist" "calign struct_zonelist = 8" "csize struct_zonelist = 5136"
  by (simp_all add: struct_zonelist_def place_def align_up_def)

definition struct_lru_gen_folio :: ctype where
  "struct_lru_gen_folio = CStruct [
     Member ''max_seq'' (CInt 8), Member ''min_seq'' (CArray (CInt 8) 2),
     Member ''timestamps'' (CArray (CInt 8) 4), Member ''folios'' (CArray struct_list_head 40),
     Member ''nr_pages'' (CArray (CInt 8) 40), Member ''avg_refaulted'' (CArray (CInt 8) 8),
     Member ''avg_total'' (CArray (CInt 8) 8), Member ''protected'' (CArray (CInt 8) 6),
     Member ''evicted'' (CArray type_atomic64_t 8),
     Member ''refaulted'' (CArray type_atomic64_t 8), Member ''enabled'' (CInt 1),
     Member ''gen'' (CInt 1), Member ''seg'' (CInt 1), Member ''list'' struct_hlist_nulls_node]"

lemma layout_struct_lru_gen_folio [simp]: "cwf struct_lru_gen_folio" "calign struct_lru_gen_folio = 8" "csize struct_lru_gen_folio = 1344"
  by (simp_all add: struct_lru_gen_folio_def place_def align_up_def)

definition struct_lru_gen_mm_state :: ctype where
  "struct_lru_gen_mm_state = CStruct [
     Member ''seq'' (CInt 8), Member ''head'' CPtr, Member ''tail'' CPtr,
     Member ''filters'' (CArray CPtr 2), Member ''stats'' (CArray (CInt 8) 6)]"

lemma layout_struct_lru_gen_mm_state [simp]: "cwf struct_lru_gen_mm_state" "calign struct_lru_gen_mm_state = 8" "csize struct_lru_gen_mm_state = 88"
  by (simp_all add: struct_lru_gen_mm_state_def place_def align_up_def)

definition struct_zswap_lruvec_state :: ctype where
  "struct_zswap_lruvec_state = CStruct [
     Member ''nr_zswap_protected'' type_atomic64_t]"

lemma layout_struct_zswap_lruvec_state [simp]: "cwf struct_zswap_lruvec_state" "calign struct_zswap_lruvec_state = 8" "csize struct_zswap_lruvec_state = 8"
  by (simp_all add: struct_zswap_lruvec_state_def place_def align_up_def)

definition struct_lruvec :: ctype where
  "struct_lruvec = CStruct [
     Member ''lists'' (CArray struct_list_head 5), Member ''lru_lock'' struct_spinlock,
     Member ''anon_cost'' (CInt 8), Member ''file_cost'' (CInt 8),
     Member ''nonresident_age'' type_atomic64_t, Member ''refaults'' (CArray (CInt 8) 2),
     Member ''flags'' (CInt 8), Member ''lrugen'' struct_lru_gen_folio,
     Member ''mm_state'' struct_lru_gen_mm_state, Member ''pgdat'' CPtr,
     Member ''zswap_lruvec_state'' struct_zswap_lruvec_state]"

lemma layout_struct_lruvec [simp]: "cwf struct_lruvec" "calign struct_lruvec = 8" "csize struct_lruvec = 1584"
  by (simp_all add: struct_lruvec_def place_def align_up_def)

definition struct_lru_gen_mm_walk :: ctype where
  "struct_lru_gen_mm_walk = CStruct [
     Member ''lruvec'' CPtr, Member ''seq'' (CInt 8), Member ''next_addr'' (CInt 8),
     Member ''nr_pages'' (CArray (CInt 4) 40), Member ''mm_stats'' (CArray (CInt 4) 6),
     Member ''batched'' (CInt 4), Member ''can_swap'' (CInt 1), Member ''force_scan'' (CInt 1)]"

lemma layout_struct_lru_gen_mm_walk [simp]: "cwf struct_lru_gen_mm_walk" "calign struct_lru_gen_mm_walk = 8" "csize struct_lru_gen_mm_walk = 216"
  by (simp_all add: struct_lru_gen_mm_walk_def place_def align_up_def)

definition struct_hlist_nulls_head :: ctype where
  "struct_hlist_nulls_head = CStruct [
     Member ''first'' CPtr]"

lemma layout_struct_hlist_nulls_head [simp]: "cwf struct_hlist_nulls_head" "calign struct_hlist_nulls_head = 8" "csize struct_hlist_nulls_head = 8"
  by (simp_all add: struct_hlist_nulls_head_def place_def align_up_def)

definition struct_lru_gen_memcg :: ctype where
  "struct_lru_gen_memcg = CStruct [
     Member ''seq'' (CInt 8), Member ''nr_memcgs'' (CArray (CInt 8) 3),
     Member ''fifo'' (CArray struct_hlist_nulls_head 24), Member ''lock'' struct_spinlock]"

lemma layout_struct_lru_gen_memcg [simp]: "cwf struct_lru_gen_memcg" "calign struct_lru_gen_memcg = 8" "csize struct_lru_gen_memcg = 232"
  by (simp_all add: struct_lru_gen_memcg_def place_def align_up_def)

definition struct_memory_failure_stats :: ctype where
  "struct_memory_failure_stats = CStruct [
     Member ''total'' (CInt 8), Member ''ignored'' (CInt 8), Member ''failed'' (CInt 8),
     Member ''delayed'' (CInt 8), Member ''recovered'' (CInt 8)]"

lemma layout_struct_memory_failure_stats [simp]: "cwf struct_memory_failure_stats" "calign struct_memory_failure_stats = 8" "csize struct_memory_failure_stats = 40"
  by (simp_all add: struct_memory_failure_stats_def place_def align_up_def)

definition struct_pglist_data :: ctype where
  "struct_pglist_data = CStruct [
     Member ''node_zones'' (CArray struct_zone 5),
     Member ''node_zonelists'' (CArray struct_zonelist 2), Member ''nr_zones'' (CInt 4),
     Member ''node_size_lock'' struct_spinlock, Member ''node_start_pfn'' (CInt 8),
     Member ''node_present_pages'' (CInt 8), Member ''node_spanned_pages'' (CInt 8),
     Member ''node_id'' (CInt 4), Member ''kswapd_wait'' struct_wait_queue_head,
     Member ''pfmemalloc_wait'' struct_wait_queue_head,
     Member ''reclaim_wait'' (CArray struct_wait_queue_head 4),
     Member ''nr_writeback_throttled'' type_atomic_t, Member ''nr_reclaim_start'' (CInt 8),
     Member ''kswapd_lock'' struct_mutex, Member ''kswapd'' CPtr,
     Member ''kswapd_order'' (CInt 4), Member ''kswapd_highest_zoneidx'' (CInt 4),
     Member ''kswapd_failures'' (CInt 4), Member ''kcompactd_max_order'' (CInt 4),
     Member ''kcompactd_highest_zoneidx'' (CInt 4),
     Member ''kcompactd_wait'' struct_wait_queue_head, Member ''kcompactd'' CPtr,
     Member ''proactive_compact_trigger'' (CInt 1), Member ''totalreserve_pages'' (CInt 8),
     Member ''min_unmapped_pages'' (CInt 8), Member ''min_slab_pages'' (CInt 8), Bits '''' 8 64,
     Bits '''' 8 64, Bits '''' 8 64, Member ''_pad1_'' struct_cacheline_padding,
     Member ''deferred_split_queue'' struct_deferred_split, Member ''nbp_rl_start'' (CInt 4),
     Member ''nbp_rl_nr_cand'' (CInt 8), Member ''nbp_threshold'' (CInt 4),
     Member ''nbp_th_start'' (CInt 4), Member ''nbp_th_nr_cand'' (CInt 8),
     Member ''__lruvec'' struct_lruvec, Member ''flags'' (CInt 8),
     Member ''mm_walk'' struct_lru_gen_mm_walk, Member ''memcg_lru'' struct_lru_gen_memcg,
     Bits '''' 8 64, Member ''_pad2_'' struct_cacheline_padding,
     Member ''per_cpu_nodestats'' CPtr, Member ''vm_stat'' (CArray type_atomic64_t 47),
     Member ''memtier'' CPtr, Member ''mf_stats'' struct_memory_failure_stats, Bits '''' 8 64,
     Bits '''' 8 64]"

lemma layout_struct_pglist_data [simp]: "cwf struct_pglist_data" "calign struct_pglist_data = 8" "csize struct_pglist_data = 21824"
  by (simp_all add: struct_pglist_data_def place_def align_up_def)

definition struct_seq_file :: ctype where
  "struct_seq_file = CStruct [
     Member ''buf'' CPtr, Member ''size'' (CInt 8), Member ''from'' (CInt 8),
     Member ''count'' (CInt 8), Member ''pad_until'' (CInt 8), Member ''index'' (CInt 8),
     Member ''read_pos'' (CInt 8), Member ''lock'' struct_mutex, Member ''op'' CPtr,
     Member ''poll_event'' (CInt 4), Member ''file'' CPtr, Member ''private'' CPtr]"

lemma layout_struct_seq_file [simp]: "cwf struct_seq_file" "calign struct_seq_file = 8" "csize struct_seq_file = 120"
  by (simp_all add: struct_seq_file_def place_def align_up_def)

definition struct_bpf_mount_opts :: ctype where
  "struct_bpf_mount_opts = CStruct [
     Member ''uid'' type_kuid_t, Member ''gid'' type_kgid_t, Member ''mode'' (CInt 2),
     Member ''delegate_cmds'' (CInt 8), Member ''delegate_maps'' (CInt 8),
     Member ''delegate_progs'' (CInt 8), Member ''delegate_attachs'' (CInt 8)]"

lemma layout_struct_bpf_mount_opts [simp]: "cwf struct_bpf_mount_opts" "calign struct_bpf_mount_opts = 8" "csize struct_bpf_mount_opts = 48"
  by (simp_all add: struct_bpf_mount_opts_def place_def align_up_def)

definition struct_kset :: ctype where
  "struct_kset = CStruct [
     Member ''list'' struct_list_head, Member ''list_lock'' struct_spinlock,
     Member ''kobj'' struct_kobject, Member ''uevent_ops'' CPtr]"

lemma layout_struct_kset [simp]: "cwf struct_kset" "calign struct_kset = 8" "csize struct_kset = 96"
  by (simp_all add: struct_kset_def place_def align_up_def)

definition struct_kobj_type :: ctype where
  "struct_kobj_type = CStruct [
     Member ''release'' CPtr, Member ''sysfs_ops'' CPtr, Member ''default_groups'' CPtr,
     Member ''child_ns_type'' CPtr, Member ''namespace'' CPtr, Member ''get_ownership'' CPtr]"

lemma layout_struct_kobj_type [simp]: "cwf struct_kobj_type" "calign struct_kobj_type = 8" "csize struct_kobj_type = 48"
  by (simp_all add: struct_kobj_type_def place_def align_up_def)

definition struct_device_driver :: ctype where
  "struct_device_driver = CStruct [
     Member ''name'' CPtr, Member ''bus'' CPtr, Member ''owner'' CPtr, Member ''mod_name'' CPtr,
     Member ''suppress_bind_attrs'' (CInt 1), Member ''probe_type'' (CInt 4),
     Member ''of_match_table'' CPtr, Member ''acpi_match_table'' CPtr, Member ''probe'' CPtr,
     Member ''sync_state'' CPtr, Member ''remove'' CPtr, Member ''shutdown'' CPtr,
     Member ''suspend'' CPtr, Member ''resume'' CPtr, Member ''groups'' CPtr,
     Member ''dev_groups'' CPtr, Member ''pm'' CPtr, Member ''coredump'' CPtr, Member ''p'' CPtr]"

lemma layout_struct_device_driver [simp]: "cwf struct_device_driver" "calign struct_device_driver = 8" "csize struct_device_driver = 144"
  by (simp_all add: struct_device_driver_def place_def align_up_def)

definition struct_bus_type :: ctype where
  "struct_bus_type = CStruct [
     Member ''name'' CPtr, Member ''dev_name'' CPtr, Member ''bus_groups'' CPtr,
     Member ''dev_groups'' CPtr, Member ''drv_groups'' CPtr, Member ''match'' CPtr,
     Member ''uevent'' CPtr, Member ''probe'' CPtr, Member ''sync_state'' CPtr,
     Member ''remove'' CPtr, Member ''shutdown'' CPtr, Member ''online'' CPtr,
     Member ''offline'' CPtr, Member ''suspend'' CPtr, Member ''resume'' CPtr,
     Member ''num_vf'' CPtr, Member ''dma_configure'' CPtr, Member ''dma_cleanup'' CPtr,
     Member ''pm'' CPtr, Member ''need_parent_lock'' (CInt 1)]"

lemma layout_struct_bus_type [simp]: "cwf struct_bus_type" "calign struct_bus_type = 8" "csize struct_bus_type = 160"
  by (simp_all add: struct_bus_type_def place_def align_up_def)

definition struct_class :: ctype where
  "struct_class = CStruct [
     Member ''name'' CPtr, Member ''class_groups'' CPtr, Member ''dev_groups'' CPtr,
     Member ''dev_uevent'' CPtr, Member ''devnode'' CPtr, Member ''class_release'' CPtr,
     Member ''dev_release'' CPtr, Member ''shutdown_pre'' CPtr, Member ''ns_type'' CPtr,
     Member ''namespace'' CPtr, Member ''get_ownership'' CPtr, Member ''pm'' CPtr]"

lemma layout_struct_class [simp]: "cwf struct_class" "calign struct_class = 8" "csize struct_class = 96"
  by (simp_all add: struct_class_def place_def align_up_def)

definition struct_trace_event :: ctype where
  "struct_trace_event = CStruct [
     Member ''node'' struct_hlist_node, Member ''type'' (CInt 4), Member ''funcs'' CPtr]"

lemma layout_struct_trace_event [simp]: "cwf struct_trace_event" "calign struct_trace_event = 8" "csize struct_trace_event = 32"
  by (simp_all add: struct_trace_event_def place_def align_up_def)

definition struct_trace_event_call :: ctype where
  "struct_trace_event_call = CStruct [
     Member ''list'' struct_list_head, Member ''class'' CPtr, Member '''' (CUnion [
       Member ''name'' CPtr, Member ''tp'' CPtr]), Member ''event'' struct_trace_event,
     Member ''print_fmt'' CPtr, Member ''filter'' CPtr, Member '''' (CUnion [
       Member ''module'' CPtr, Member ''refcnt'' type_atomic_t]), Member ''data'' CPtr,
     Member ''flags'' (CInt 4), Member ''perf_refcount'' (CInt 4), Member ''perf_events'' CPtr,
     Member ''prog_array'' CPtr, Member ''perf_perm'' CPtr]"

lemma layout_struct_trace_event_call [simp]: "cwf struct_trace_event_call" "calign struct_trace_event_call = 8" "csize struct_trace_event_call = 128"
  by (simp_all add: struct_trace_event_call_def place_def align_up_def)

definition struct_arch_specific_insn :: ctype where
  "struct_arch_specific_insn = CStruct [
     Member ''insn'' CPtr, Bits ''boostable'' 4 1, Member ''size'' (CInt 1),
     Member '''' (CUnion [
       Member ''opcode'' (CInt 1), Member ''jcc'' (CStruct [
         Member ''type'' (CInt 1)]), Member ''loop'' (CStruct [
         Member ''type'' (CInt 1), Member ''asize'' (CInt 1)]), Member ''indirect'' (CStruct [
         Member ''reg'' (CInt 1)])]), Member ''rel32'' (CInt 4), Member ''emulate_op'' CPtr,
     Member ''tp_len'' (CInt 4)]"

lemma layout_struct_arch_specific_insn [simp]: "cwf struct_arch_specific_insn" "calign struct_arch_specific_insn = 8" "csize struct_arch_specific_insn = 32"
  by (simp_all add: struct_arch_specific_insn_def place_def align_up_def)

definition struct_kprobe :: ctype where
  "struct_kprobe = CStruct [
     Member ''hlist'' struct_hlist_node, Member ''list'' struct_list_head,
     Member ''nmissed'' (CInt 8), Member ''addr'' CPtr, Member ''symbol_name'' CPtr,
     Member ''offset'' (CInt 4), Member ''pre_handler'' CPtr, Member ''post_handler'' CPtr,
     Member ''opcode'' (CInt 1), Member ''ainsn'' struct_arch_specific_insn,
     Member ''flags'' (CInt 4)]"

lemma layout_struct_kprobe [simp]: "cwf struct_kprobe" "calign struct_kprobe = 8" "csize struct_kprobe = 128"
  by (simp_all add: struct_kprobe_def place_def align_up_def)

definition struct_arch_uprobe :: ctype where
  "struct_arch_uprobe = CStruct [
     Member '''' (CUnion [
       Member ''insn'' (CArray (CInt 1) 16), Member ''ixol'' (CArray (CInt 1) 16)]),
     Member ''ops'' CPtr, Member '''' (CUnion [
       Member ''branch'' (CStruct [
         Member ''offs'' (CInt 4), Member ''ilen'' (CInt 1), Member ''opc1'' (CInt 1)]),
       Member ''defparam'' (CStruct [
         Member ''fixups'' (CInt 1), Member ''ilen'' (CInt 1)]), Member ''push'' (CStruct [
         Member ''reg_offset'' (CInt 1), Member ''ilen'' (CInt 1)])])]"

lemma layout_struct_arch_uprobe [simp]: "cwf struct_arch_uprobe" "calign struct_arch_uprobe = 8" "csize struct_arch_uprobe = 32"
  by (simp_all add: struct_arch_uprobe_def place_def align_up_def)

definition struct_uprobe :: ctype where
  "struct_uprobe = CStruct [
     Member ''rb_node'' struct_rb_node, Member ''ref'' struct_refcount_struct,
     Member ''register_rwsem'' struct_rw_semaphore,
     Member ''consumer_rwsem'' struct_rw_semaphore, Member ''pending_list'' struct_list_head,
     Member ''consumers'' CPtr, Member ''inode'' CPtr, Member ''offset'' (CInt 8),
     Member ''ref_ctr_offset'' (CInt 8), Member ''flags'' (CInt 8),
     Member ''arch'' struct_arch_uprobe]"

lemma layout_struct_uprobe [simp]: "cwf struct_uprobe" "calign struct_uprobe = 8" "csize struct_uprobe = 200"
  by (simp_all add: struct_uprobe_def place_def align_up_def)

definition struct_linux_binprm :: ctype where
  "struct_linux_binprm = CStruct [
     Member ''vma'' CPtr, Member ''vma_pages'' (CInt 8), Member ''argmin'' (CInt 8),
     Member ''mm'' CPtr, Member ''p'' (CInt 8), Bits ''have_execfd'' 4 1,
     Bits ''execfd_creds'' 4 1, Bits ''secureexec'' 4 1, Bits ''point_of_no_return'' 4 1,
     Member ''executable'' CPtr, Member ''interpreter'' CPtr, Member ''file'' CPtr,
     Member ''cred'' CPtr, Member ''unsafe'' (CInt 4), Member ''per_clear'' (CInt 4),
     Member ''argc'' (CInt 4), Member ''envc'' (CInt 4), Member ''filename'' CPtr,
     Member ''interp'' CPtr, Member ''fdpath'' CPtr, Member ''interp_flags'' (CInt 4),
     Member ''execfd'' (CInt 4), Member ''loader'' (CInt 8), Member ''exec'' (CInt 8),
     Member ''rlim_stack'' struct_rlimit, Member ''buf'' (CArray (CInt 1) 256)]"

lemma layout_struct_linux_binprm [simp]: "cwf struct_linux_binprm" "calign struct_linux_binprm = 8" "csize struct_linux_binprm = 416"
  by (simp_all add: struct_linux_binprm_def place_def align_up_def)

definition struct_linux_binfmt :: ctype where
  "struct_linux_binfmt = CStruct [
     Member ''lh'' struct_list_head, Member ''module'' CPtr, Member ''load_binary'' CPtr,
     Member ''load_shlib'' CPtr, Member ''core_dump'' CPtr, Member ''min_coredump'' (CInt 8)]"

lemma layout_struct_linux_binfmt [simp]: "cwf struct_linux_binfmt" "calign struct_linux_binfmt = 8" "csize struct_linux_binfmt = 56"
  by (simp_all add: struct_linux_binfmt_def place_def align_up_def)

definition struct_irq_common_data :: ctype where
  "struct_irq_common_data = CStruct [
     Member ''state_use_accessors'' (CInt 4), Member ''node'' (CInt 4),
     Member ''handler_data'' CPtr, Member ''msi_desc'' CPtr,
     Member ''affinity'' (CArray struct_cpumask 1),
     Member ''effective_affinity'' (CArray struct_cpumask 1)]"

lemma layout_struct_irq_common_data [simp]: "cwf struct_irq_common_data" "calign struct_irq_common_data = 8" "csize struct_irq_common_data = 120"
  by (simp_all add: struct_irq_common_data_def place_def align_up_def)

definition struct_irq_data :: ctype where
  "struct_irq_data = CStruct [
     Member ''mask'' (CInt 4), Member ''irq'' (CInt 4), Member ''hwirq'' (CInt 8),
     Member ''common'' CPtr, Member ''chip'' CPtr, Member ''domain'' CPtr,
     Member ''parent_data'' CPtr, Member ''chip_data'' CPtr]"

lemma layout_struct_irq_data [simp]: "cwf struct_irq_data" "calign struct_irq_data = 8" "csize struct_irq_data = 56"
  by (simp_all add: struct_irq_data_def place_def align_up_def)

definition struct_irq_desc :: ctype where
  "struct_irq_desc = CStruct [
     Member ''irq_common_data'' struct_irq_common_data, Member ''irq_data'' struct_irq_data,
     Member ''kstat_irqs'' CPtr, Member ''handle_irq'' CPtr, Member ''action'' CPtr,
     Member ''status_use_accessors'' (CInt 4),
     Member ''core_internal_state__do_not_mess_with_it'' (CInt 4), Member ''depth'' (CInt 4),
     Member ''wake_depth'' (CInt 4), Member ''tot_count'' (CInt 4),
     Member ''irq_count'' (CInt 4), Member ''last_unhandled'' (CInt 8),
     Member ''irqs_unhandled'' (CInt 4), Member ''threads_handled'' type_atomic_t,
     Member ''threads_handled_last'' (CInt 4), Member ''lock'' struct_raw_spinlock,
     Member ''percpu_enabled'' CPtr, Member ''percpu_affinity'' CPtr,
     Member ''affinity_hint'' CPtr, Member ''affinity_notify'' CPtr,
     Member ''pending_mask'' (CArray struct_cpumask 1), Member ''threads_oneshot'' (CInt 8),
     Member ''threads_active'' type_atomic_t, Member ''wait_for_threads'' struct_wait_queue_head,
     Member ''nr_actions'' (CInt 4), Member ''no_suspend_depth'' (CInt 4),
     Member ''cond_suspend_depth'' (CInt 4), Member ''force_resume_depth'' (CInt 4),
     Member ''dir'' CPtr, Member ''rcu'' struct_callback_head, Member ''kobj'' struct_kobject,
     Member ''request_mutex'' struct_mutex, Member ''parent_irq'' (CInt 4),
     Member ''owner'' CPtr, Member ''name'' CPtr, Member ''resend_node'' struct_hlist_node,
     Bits '''' 8 64, Bits '''' 8 64, Bits '''' 8 64, Bits '''' 8 64]"

lemma layout_struct_irq_desc [simp]: "cwf struct_irq_desc" "calign struct_irq_desc = 8" "csize struct_irq_desc = 576"
  by (simp_all add: struct_irq_desc_def place_def align_up_def)

definition struct_rt6key :: ctype where
  "struct_rt6key = CStruct [
     Member ''addr'' struct_in6_addr, Member ''plen'' (CInt 4)]"

lemma layout_struct_rt6key [simp]: "cwf struct_rt6key" "calign struct_rt6key = 4" "csize struct_rt6key = 20"
  by (simp_all add: struct_rt6key_def place_def align_up_def)

definition struct_fib6_nh :: ctype where
  "struct_fib6_nh = CStruct [
     Member ''nh_common'' struct_fib_nh_common, Member ''last_probe'' (CInt 8),
     Member ''rt6i_pcpu'' CPtr, Member ''rt6i_exception_bucket'' CPtr]"

lemma layout_struct_fib6_nh [simp]: "cwf struct_fib6_nh" "calign struct_fib6_nh = 8" "csize struct_fib6_nh = 96"
  by (simp_all add: struct_fib6_nh_def place_def align_up_def)

definition struct_fib6_info :: ctype where
  "struct_fib6_info = CStruct [
     Member ''fib6_table'' CPtr, Member ''fib6_next'' CPtr, Member ''fib6_node'' CPtr,
     Member '''' (CUnion [
       Member ''fib6_siblings'' struct_list_head, Member ''nh_list'' struct_list_head]),
     Member ''fib6_nsiblings'' (CInt 4), Member ''fib6_ref'' struct_refcount_struct,
     Member ''expires'' (CInt 8), Member ''gc_link'' struct_hlist_node,
     Member ''fib6_metrics'' CPtr, Member ''fib6_dst'' struct_rt6key,
     Member ''fib6_flags'' (CInt 4), Member ''fib6_src'' struct_rt6key,
     Member ''fib6_prefsrc'' struct_rt6key, Member ''fib6_metric'' (CInt 4),
     Member ''fib6_protocol'' (CInt 1), Member ''fib6_type'' (CInt 1),
     Member ''offload'' (CInt 1), Member ''trap'' (CInt 1), Member ''offload_failed'' (CInt 1),
     Bits ''should_flush'' 1 1, Bits ''dst_nocount'' 1 1, Bits ''dst_nopolicy'' 1 1,
     Bits ''fib6_destroying'' 1 1, Bits ''unused'' 1 4, Member ''rcu'' struct_callback_head,
     Member ''nh'' CPtr, Member ''fib6_nh'' (CArray struct_fib6_nh 0)]"

lemma layout_struct_fib6_info [simp]: "cwf struct_fib6_info" "calign struct_fib6_info = 8" "csize struct_fib6_info = 184"
  by (simp_all add: struct_fib6_info_def place_def align_up_def)

definition struct_rt6_info :: ctype where
  "struct_rt6_info = CStruct [
     Member ''dst'' struct_dst_entry, Member ''from'' CPtr, Member ''sernum'' (CInt 4),
     Member ''rt6i_dst'' struct_rt6key, Member ''rt6i_src'' struct_rt6key,
     Member ''rt6i_gateway'' struct_in6_addr, Member ''rt6i_idev'' CPtr,
     Member ''rt6i_flags'' (CInt 4), Member ''rt6i_nfheader_len'' (CInt 2)]"

lemma layout_struct_rt6_info [simp]: "cwf struct_rt6_info" "calign struct_rt6_info = 8" "csize struct_rt6_info = 224"
  by (simp_all add: struct_rt6_info_def place_def align_up_def)

definition struct_in6_pktinfo :: ctype where
  "struct_in6_pktinfo = CStruct [
     Member ''ipi6_addr'' struct_in6_addr, Member ''ipi6_ifindex'' (CInt 4)]"

lemma layout_struct_in6_pktinfo [simp]: "cwf struct_in6_pktinfo" "calign struct_in6_pktinfo = 4" "csize struct_in6_pktinfo = 20"
  by (simp_all add: struct_in6_pktinfo_def place_def align_up_def)

definition struct_inet6_cork :: ctype where
  "struct_inet6_cork = CStruct [
     Member ''opt'' CPtr, Member ''hop_limit'' (CInt 1), Member ''tclass'' (CInt 1)]"

lemma layout_struct_inet6_cork [simp]: "cwf struct_inet6_cork" "calign struct_inet6_cork = 8" "csize struct_inet6_cork = 16"
  by (simp_all add: struct_inet6_cork_def place_def align_up_def)

definition struct_ipv6_pinfo :: ctype where
  "struct_ipv6_pinfo = CStruct [
     Member ''saddr'' struct_in6_addr, Member ''sticky_pktinfo'' struct_in6_pktinfo,
     Member ''daddr_cache'' CPtr, Member ''saddr_cache'' CPtr, Member ''flow_label'' (CInt 4),
     Member ''frag_size'' (CInt 4), Member ''hop_limit'' (CInt 2),
     Member ''mcast_hops'' (CInt 1), Member ''ucast_oif'' (CInt 4),
     Member ''mcast_oif'' (CInt 4), Member ''rxopt'' (CUnion [
       Member ''bits'' (CStruct [
         Bits ''srcrt'' 2 1, Bits ''osrcrt'' 2 1, Bits ''rxinfo'' 2 1, Bits ''rxoinfo'' 2 1,
         Bits ''rxhlim'' 2 1, Bits ''rxohlim'' 2 1, Bits ''hopopts'' 2 1, Bits ''ohopopts'' 2 1,
         Bits ''dstopts'' 2 1, Bits ''odstopts'' 2 1, Bits ''rxflow'' 2 1, Bits ''rxtclass'' 2 1,
         Bits ''rxpmtu'' 2 1, Bits ''rxorigdstaddr'' 2 1, Bits ''recvfragsize'' 2 1]),
       Member ''all'' (CInt 2)]), Member ''srcprefs'' (CInt 1), Member ''pmtudisc'' (CInt 1),
     Member ''min_hopcount'' (CInt 1), Member ''tclass'' (CInt 1),
     Member ''rcv_flowinfo'' (CInt 4), Member ''dst_cookie'' (CInt 4),
     Member ''ipv6_mc_list'' CPtr, Member ''ipv6_ac_list'' CPtr, Member ''ipv6_fl_list'' CPtr,
     Member ''opt'' CPtr, Member ''pktoptions'' CPtr, Member ''rxpmtu'' CPtr,
     Member ''cork'' struct_inet6_cork]"

lemma layout_struct_ipv6_pinfo [simp]: "cwf struct_ipv6_pinfo" "calign struct_ipv6_pinfo = 8" "csize struct_ipv6_pinfo = 160"
  by (simp_all add: struct_ipv6_pinfo_def place_def align_up_def)

definition struct_icmp_filter :: ctype where
  "struct_icmp_filter = CStruct [
     Member ''data'' (CInt 4)]"

lemma layout_struct_icmp_filter [simp]: "cwf struct_icmp_filter" "calign struct_icmp_filter = 4" "csize struct_icmp_filter = 4"
  by (simp_all add: struct_icmp_filter_def place_def align_up_def)

definition struct_raw_sock :: ctype where
  "struct_raw_sock = CStruct [
     Member ''inet'' struct_inet_sock, Member ''filter'' struct_icmp_filter,
     Member ''ipmr_table'' (CInt 4)]"

lemma layout_struct_raw_sock [simp]: "cwf struct_raw_sock" "calign struct_raw_sock = 8" "csize struct_raw_sock = 984"
  by (simp_all add: struct_raw_sock_def place_def align_up_def)

definition struct_wait_queue_entry :: ctype where
  "struct_wait_queue_entry = CStruct [
     Member ''flags'' (CInt 4), Member ''private'' CPtr, Member ''func'' CPtr,
     Member ''entry'' struct_list_head]"

lemma layout_struct_wait_queue_entry [simp]: "cwf struct_wait_queue_entry" "calign struct_wait_queue_entry = 8" "csize struct_wait_queue_entry = 40"
  by (simp_all add: struct_wait_queue_entry_def place_def align_up_def)

definition struct_scm_stat :: ctype where
  "struct_scm_stat = CStruct [
     Member ''nr_fds'' type_atomic_t, Member ''nr_unix_fds'' (CInt 8)]"

lemma layout_struct_scm_stat [simp]: "cwf struct_scm_stat" "calign struct_scm_stat = 8" "csize struct_scm_stat = 16"
  by (simp_all add: struct_scm_stat_def place_def align_up_def)

definition struct_unix_sock :: ctype where
  "struct_unix_sock = CStruct [
     Member ''sk'' struct_sock, Member ''addr'' CPtr, Member ''path'' struct_path,
     Member ''iolock'' struct_mutex, Member ''bindlock'' struct_mutex, Member ''peer'' CPtr,
     Member ''listener'' CPtr, Member ''vertex'' CPtr, Member ''lock'' struct_spinlock,
     Bits '''' 8 64, Bits '''' 8 64, Member ''peer_wq'' struct_socket_wq,
     Member ''peer_wake'' struct_wait_queue_entry, Member ''scm_stat'' struct_scm_stat,
     Member ''oob_skb'' CPtr]"

lemma layout_struct_unix_sock [simp]: "cwf struct_unix_sock" "calign struct_unix_sock = 8" "csize struct_unix_sock = 1024"
  by (simp_all add: struct_unix_sock_def place_def align_up_def)

definition struct_tcp_congestion_ops :: ctype where
  "struct_tcp_congestion_ops = CStruct [
     Member ''ssthresh'' CPtr, Member ''cong_avoid'' CPtr, Member ''set_state'' CPtr,
     Member ''cwnd_event'' CPtr, Member ''in_ack_event'' CPtr, Member ''pkts_acked'' CPtr,
     Member ''min_tso_segs'' CPtr, Member ''cong_control'' CPtr, Member ''undo_cwnd'' CPtr,
     Member ''sndbuf_expand'' CPtr, Member ''get_info'' CPtr,
     Member ''name'' (CArray (CInt 1) 16), Member ''owner'' CPtr,
     Member ''list'' struct_list_head, Member ''key'' (CInt 4), Member ''flags'' (CInt 4),
     Member ''init'' CPtr, Member ''release'' CPtr, Bits '''' 8 64, Bits '''' 8 64,
     Bits '''' 8 64, Bits '''' 8 64, Bits '''' 8 64]"

lemma layout_struct_tcp_congestion_ops [simp]: "cwf struct_tcp_congestion_ops" "calign struct_tcp_congestion_ops = 8" "csize struct_tcp_congestion_ops = 192"
  by (simp_all add: struct_tcp_congestion_ops_def place_def align_up_def)

definition struct_ubuf_info :: ctype where
  "struct_ubuf_info = CStruct [
     Member ''ops'' CPtr, Member ''refcnt'' struct_refcount_struct, Member ''flags'' (CInt 1)]"

lemma layout_struct_ubuf_info [simp]: "cwf struct_ubuf_info" "calign struct_ubuf_info = 8" "csize struct_ubuf_info = 16"
  by (simp_all add: struct_ubuf_info_def place_def align_up_def)

definition struct_page_pool_params_fast :: ctype where
  "struct_page_pool_params_fast = CStruct [
     Member ''order'' (CInt 4), Member ''pool_size'' (CInt 4), Member ''nid'' (CInt 4),
     Member ''dev'' CPtr, Member ''napi'' CPtr, Member ''dma_dir'' (CInt 4),
     Member ''max_len'' (CInt 4), Member ''offset'' (CInt 4)]"

lemma layout_struct_page_pool_params_fast [simp]: "cwf struct_page_pool_params_fast" "calign struct_page_pool_params_fast = 8" "csize struct_page_pool_params_fast = 48"
  by (simp_all add: struct_page_pool_params_fast_def place_def align_up_def)

definition struct_pp_alloc_cache :: ctype where
  "struct_pp_alloc_cache = CStruct [
     Member ''count'' (CInt 4), Member ''cache'' (CArray (CInt 8) 128)]"

lemma layout_struct_pp_alloc_cache [simp]: "cwf struct_pp_alloc_cache" "calign struct_pp_alloc_cache = 8" "csize struct_pp_alloc_cache = 1032"
  by (simp_all add: struct_pp_alloc_cache_def place_def align_up_def)

definition struct_ptr_ring :: ctype where
  "struct_ptr_ring = CStruct [
     Member ''producer'' (CInt 4), Member ''producer_lock'' struct_spinlock, Bits '''' 8 64,
     Bits '''' 8 64, Bits '''' 8 64, Bits '''' 8 64, Bits '''' 8 64, Bits '''' 8 64,
     Bits '''' 8 64, Member ''consumer_head'' (CInt 4), Member ''consumer_tail'' (CInt 4),
     Member ''consumer_lock'' struct_spinlock, Bits '''' 8 64, Bits '''' 8 64, Bits '''' 8 64,
     Bits '''' 8 64, Bits '''' 8 64, Bits '''' 8 64, Member ''size'' (CInt 4),
     Member ''batch'' (CInt 4), Member ''queue'' CPtr, Bits '''' 8 64, Bits '''' 8 64,
     Bits '''' 8 64, Bits '''' 8 64, Bits '''' 8 64, Bits '''' 8 64]"

lemma layout_struct_ptr_ring [simp]: "cwf struct_ptr_ring" "calign struct_ptr_ring = 8" "csize struct_ptr_ring = 192"
  by (simp_all add: struct_ptr_ring_def place_def align_up_def)

definition struct_page_pool_params_slow :: ctype where
  "struct_page_pool_params_slow = CStruct [
     Member ''netdev'' CPtr, Member ''flags'' (CInt 4), Member ''init_callback'' CPtr,
     Member ''init_arg'' CPtr]"

lemma layout_struct_page_pool_params_slow [simp]: "cwf struct_page_pool_params_slow" "calign struct_page_pool_params_slow = 8" "csize struct_page_pool_params_slow = 32"
  by (simp_all add: struct_page_pool_params_slow_def place_def align_up_def)

definition struct_page_pool :: ctype where
  "struct_page_pool = CStruct [
     Member ''p'' struct_page_pool_params_fast, Member ''cpuid'' (CInt 4),
     Member ''pages_state_hold_cnt'' (CInt 4), Bits ''has_init_callback'' 1 1,
     Bits ''dma_map'' 1 1, Bits ''dma_sync'' 1 1, Bits '''' 8 0,
     Member ''__cacheline_group_begin__frag'' (CArray (CInt 1) 0),
     Member ''frag_users'' (CInt 8), Member ''frag_page'' (CInt 8),
     Member ''frag_offset'' (CInt 4), Bits '''' 8 0,
     Member ''__cacheline_group_end__frag'' (CArray (CInt 1) 0), Bits '''' 8 64,
     Member ''__cacheline_group_pad__frag'' (CStruct []),
     Member ''release_dw'' struct_delayed_work, Member ''disconnect'' CPtr,
     Member ''defer_start'' (CInt 8), Member ''defer_warn'' (CInt 8),
     Member ''xdp_mem_id'' (CInt 4), Bits '''' 8 64, Bits '''' 8 64, Bits '''' 8 64,
     Bits '''' 8 64, Bits '''' 8 64, Member ''alloc'' struct_pp_alloc_cache, Bits '''' 8 64,
     Bits '''' 8 64, Bits '''' 8 64, Bits '''' 8 64, Bits '''' 8 64, Bits '''' 8 64,
     Bits '''' 8 64, Member ''ring'' struct_ptr_ring,
     Member ''pages_state_release_cnt'' type_atomic_t,
     Member ''user_cnt'' struct_refcount_struct, Member ''destroy_cnt'' (CInt 8),
     Member ''slow'' struct_page_pool_params_slow, Member ''user'' (CStruct [
       Member ''list'' struct_hlist_node, Member ''detach_time'' (CInt 8),
       Member ''napi_id'' (CInt 4), Member ''id'' (CInt 4)]), Bits '''' 8 64, Bits '''' 8 64,
     Bits '''' 8 64, Bits '''' 8 64, Bits '''' 8 64, Bits '''' 8 64]"

lemma layout_struct_page_pool [simp]: "cwf struct_page_pool" "calign struct_page_pool = 8" "csize struct_page_pool = 1664"
  by (simp_all add: struct_page_pool_def place_def align_up_def)

definition struct_xdp_frame :: ctype where
  "struct_xdp_frame = CStruct [
     Member ''data'' CPtr, Member ''len'' (CInt 2), Member ''headroom'' (CInt 2),
     Member ''metasize'' (CInt 4), Member ''mem'' struct_xdp_mem_info, Member ''dev_rx'' CPtr,
     Member ''frame_sz'' (CInt 4), Member ''flags'' (CInt 4)]"

lemma layout_struct_xdp_frame [simp]: "cwf struct_xdp_frame" "calign struct_xdp_frame = 8" "csize struct_xdp_frame = 40"
  by (simp_all add: struct_xdp_frame_def place_def align_up_def)

definition struct_rhashtable_params :: ctype where
  "struct_rhashtable_params = CStruct [
     Member ''nelem_hint'' (CInt 2), Member ''key_len'' (CInt 2), Member ''key_offset'' (CInt 2),
     Member ''head_offset'' (CInt 2), Member ''max_size'' (CInt 4), Member ''min_size'' (CInt 2),
     Member ''automatic_shrinking'' (CInt 1), Member ''hashfn'' CPtr, Member ''obj_hashfn'' CPtr,
     Member ''obj_cmpfn'' CPtr]"

lemma layout_struct_rhashtable_params [simp]: "cwf struct_rhashtable_params" "calign struct_rhashtable_params = 8" "csize struct_rhashtable_params = 40"
  by (simp_all add: struct_rhashtable_params_def place_def align_up_def)

definition struct_rhashtable :: ctype where
  "struct_rhashtable = CStruct [
     Member ''tbl'' CPtr, Member ''key_len'' (CInt 4), Member ''max_elems'' (CInt 4),
     Member ''p'' struct_rhashtable_params, Member ''rhlist'' (CInt 1),
     Member ''run_work'' struct_work_struct, Member ''mutex'' struct_mutex,
     Member ''lock'' struct_spinlock, Member ''nelems'' type_atomic_t]"

lemma layout_struct_rhashtable [simp]: "cwf struct_rhashtable" "calign struct_rhashtable = 8" "csize struct_rhashtable = 136"
  by (simp_all add: struct_rhashtable_def place_def align_up_def)

definition struct_bridge_id :: ctype where
  "struct_bridge_id = CStruct [
     Member ''prio'' (CArray (CInt 1) 2), Member ''addr'' (CArray (CInt 1) 6)]"

lemma layout_struct_bridge_id [simp]: "cwf struct_bridge_id" "calign struct_bridge_id = 1" "csize struct_bridge_id = 8"
  by (simp_all add: struct_bridge_id_def place_def align_up_def)

definition struct_bridge_mcast_other_query :: ctype where
  "struct_bridge_mcast_other_query = CStruct [
     Member ''timer'' struct_timer_list, Member ''delay_timer'' struct_timer_list]"

lemma layout_struct_bridge_mcast_other_query [simp]: "cwf struct_bridge_mcast_other_query" "calign struct_bridge_mcast_other_query = 8" "csize struct_bridge_mcast_other_query = 80"
  by (simp_all add: struct_bridge_mcast_other_query_def place_def align_up_def)

definition struct_bridge_mcast_own_query :: ctype where
  "struct_bridge_mcast_own_query = CStruct [
     Member ''timer'' struct_timer_list, Member ''startup_sent'' (CInt 4)]"

lemma layout_struct_bridge_mcast_own_query [simp]: "cwf struct_bridge_mcast_own_query" "calign struct_bridge_mcast_own_query = 8" "csize struct_bridge_mcast_own_query = 48"
  by (simp_all add: struct_bridge_mcast_own_query_def place_def align_up_def)

definition struct_br_ip :: ctype where
  "struct_br_ip = CStruct [
     Member ''src'' (CUnion [
       Member ''ip4'' (CInt 4), Member ''ip6'' struct_in6_addr]), Member ''dst'' (CUnion [
       Member ''ip4'' (CInt 4), Member ''ip6'' struct_in6_addr,
       Member ''mac_addr'' (CArray (CInt 1) 6)]), Member ''proto'' (CInt 2),
     Member ''vid'' (CInt 2)]"

lemma layout_struct_br_ip [simp]: "cwf struct_br_ip" "calign struct_br_ip = 4" "csize struct_br_ip = 36"
  by (simp_all add: struct_br_ip_def place_def align_up_def)

definition struct_bridge_mcast_querier :: ctype where
  "struct_bridge_mcast_querier = CStruct [
     Member ''addr'' struct_br_ip, Member ''port_ifidx'' (CInt 4),
     Member ''seq'' struct_seqcount_spinlock]"

lemma layout_struct_bridge_mcast_querier [simp]: "cwf struct_bridge_mcast_querier" "calign struct_bridge_mcast_querier = 4" "csize struct_bridge_mcast_querier = 44"
  by (simp_all add: struct_bridge_mcast_querier_def place_def align_up_def)

definition struct_net_bridge_mcast :: ctype where
  "struct_net_bridge_mcast = CStruct [
     Member ''br'' CPtr, Member ''vlan'' CPtr, Member ''multicast_last_member_count'' (CInt 4),
     Member ''multicast_startup_query_count'' (CInt 4), Member ''multicast_querier'' (CInt 1),
     Member ''multicast_igmp_version'' (CInt 1), Member ''multicast_router'' (CInt 1),
     Member ''multicast_mld_version'' (CInt 1),
     Member ''multicast_last_member_interval'' (CInt 8),
     Member ''multicast_membership_interval'' (CInt 8),
     Member ''multicast_querier_interval'' (CInt 8),
     Member ''multicast_query_interval'' (CInt 8),
     Member ''multicast_query_response_interval'' (CInt 8),
     Member ''multicast_startup_query_interval'' (CInt 8),
     Member ''ip4_mc_router_list'' struct_hlist_head,
     Member ''ip4_mc_router_timer'' struct_timer_list,
     Member ''ip4_other_query'' struct_bridge_mcast_other_query,
     Member ''ip4_own_query'' struct_bridge_mcast_own_query,
     Member ''ip4_querier'' struct_bridge_mcast_querier,
     Member ''ip6_mc_router_list'' struct_hlist_head,
     Member ''ip6_mc_router_timer'' struct_timer_list,
     Member ''ip6_other_query'' struct_bridge_mcast_other_query,
     Member ''ip6_own_query'' struct_bridge_mcast_own_query,
     Member ''ip6_querier'' struct_bridge_mcast_querier]"

lemma layout_struct_net_bridge_mcast [simp]: "cwf struct_net_bridge_mcast" "calign struct_net_bridge_mcast = 8" "csize struct_net_bridge_mcast = 528"
  by (simp_all add: struct_net_bridge_mcast_def place_def align_up_def)

definition struct_net_bridge :: ctype where
  "struct_net_bridge = CStruct [
     Member ''lock'' struct_spinlock, Member ''hash_lock'' struct_spinlock,
     Member ''frame_type_list'' struct_hlist_head, Member ''dev'' CPtr,
     Member ''options'' (CInt 8), Member ''vlan_proto'' (CInt 2),
     Member ''default_pvid'' (CInt 2), Member ''vlgrp'' CPtr,
     Member ''fdb_hash_tbl'' struct_rhashtable, Member ''port_list'' struct_list_head,
     Member '''' (CUnion [
       Member ''fake_rtable'' struct_rtable, Member ''fake_rt6_info'' struct_rt6_info]),
     Member ''group_fwd_mask'' (CInt 2), Member ''group_fwd_mask_required'' (CInt 2),
     Member ''designated_root'' struct_bridge_id, Member ''bridge_id'' struct_bridge_id,
     Member ''topology_change'' (CInt 1), Member ''topology_change_detected'' (CInt 1),
     Member ''root_port'' (CInt 2), Member ''max_age'' (CInt 8), Member ''hello_time'' (CInt 8),
     Member ''forward_delay'' (CInt 8), Member ''ageing_time'' (CInt 8),
     Member ''bridge_max_age'' (CInt 8), Member ''bridge_hello_time'' (CInt 8),
     Member ''bridge_forward_delay'' (CInt 8), Member ''bridge_ageing_time'' (CInt 8),
     Member ''root_path_cost'' (CInt 4), Member ''group_addr'' (CArray (CInt 1) 6),
     Member ''stp_enabled'' (CInt 4), Member ''multicast_ctx'' struct_net_bridge_mcast,
     Member ''mcast_stats'' CPtr, Member ''hash_max'' (CInt 4),
     Member ''multicast_lock'' struct_spinlock, Member ''mdb_hash_tbl'' struct_rhashtable,
     Member ''sg_port_tbl'' struct_rhashtable, Member ''mcast_gc_list'' struct_hlist_head,
     Member ''mdb_list'' struct_hlist_head, Member ''mcast_gc_work'' struct_work_struct,
     Member ''hello_timer'' struct_timer_list, Member ''tcn_timer'' struct_timer_list,
     Member ''topology_change_timer'' struct_timer_list, Member ''gc_work'' struct_delayed_work,
     Member ''ifobj'' CPtr, Member ''auto_cnt'' (CInt 4), Member ''fdb_n_learned'' type_atomic_t,
     Member ''fdb_max_learned'' (CInt 4), Member ''last_hwdom'' (CInt 4),
     Member ''busy_hwdoms'' (CInt 8), Member ''fdb_list'' struct_hlist_head]"

lemma layout_struct_net_bridge [simp]: "cwf struct_net_bridge" "calign struct_net_bridge = 8" "csize struct_net_bridge = 1640"
  by (simp_all add: struct_net_bridge_def place_def align_up_def)

definition struct_nf_sockopt_ops :: ctype where
  "struct_nf_sockopt_ops = CStruct [
     Member ''list'' struct_list_head, Member ''pf'' (CInt 1), Member ''set_optmin'' (CInt 4),
     Member ''set_optmax'' (CInt 4), Member ''set'' CPtr, Member ''get_optmin'' (CInt 4),
     Member ''get_optmax'' (CInt 4), Member ''get'' CPtr, Member ''owner'' CPtr]"

lemma layout_struct_nf_sockopt_ops [simp]: "cwf struct_nf_sockopt_ops" "calign struct_nf_sockopt_ops = 8" "csize struct_nf_sockopt_ops = 64"
  by (simp_all add: struct_nf_sockopt_ops_def place_def align_up_def)

text \<open>Every structure of this theory, by name.\<close>

definition file_types :: "(string \<times> ctype) list" where
  "file_types = [
     (''struct_page'', struct_page), (''type_swp_entry_t'', type_swp_entry_t),
     (''struct_folio'', struct_folio), (''struct_address_space'', struct_address_space),
     (''struct_inode'', struct_inode), (''struct_hlist_bl_node'', struct_hlist_bl_node),
     (''struct_qstr'', struct_qstr), (''struct_lockref'', struct_lockref),
     (''struct_dentry'', struct_dentry), (''struct_hlist_bl_head'', struct_hlist_bl_head),
     (''struct_mem_dqinfo'', struct_mem_dqinfo), (''struct_quota_info'', struct_quota_info),
     (''struct_rcu_sync'', struct_rcu_sync),
     (''struct_percpu_rw_semaphore'', struct_percpu_rw_semaphore),
     (''struct_sb_writers'', struct_sb_writers), (''type_uuid_t'', type_uuid_t),
     (''struct_list_lru'', struct_list_lru), (''struct_super_block'', struct_super_block),
     (''struct_fown_struct'', struct_fown_struct),
     (''struct_file_ra_state'', struct_file_ra_state), (''struct_file'', struct_file),
     (''struct_file_operations'', struct_file_operations),
     (''struct_inode_operations'', struct_inode_operations),
     (''struct_super_operations'', struct_super_operations),
     (''struct_dentry_operations'', struct_dentry_operations),
     (''struct_address_space_operations'', struct_address_space_operations),
     (''struct_vfsmount'', struct_vfsmount), (''struct_mount'', struct_mount),
     (''struct_reciprocal_value'', struct_reciprocal_value),
     (''struct_kmem_cache_order_objects'', struct_kmem_cache_order_objects),
     (''struct_kmem_cache'', struct_kmem_cache), (''struct_free_area'', struct_free_area),
     (''struct_zone'', struct_zone), (''struct_zoneref'', struct_zoneref),
     (''struct_zonelist'', struct_zonelist), (''struct_lru_gen_folio'', struct_lru_gen_folio),
     (''struct_lru_gen_mm_state'', struct_lru_gen_mm_state),
     (''struct_zswap_lruvec_state'', struct_zswap_lruvec_state),
     (''struct_lruvec'', struct_lruvec), (''struct_lru_gen_mm_walk'', struct_lru_gen_mm_walk),
     (''struct_hlist_nulls_head'', struct_hlist_nulls_head),
     (''struct_lru_gen_memcg'', struct_lru_gen_memcg),
     (''struct_memory_failure_stats'', struct_memory_failure_stats),
     (''struct_pglist_data'', struct_pglist_data), (''struct_seq_file'', struct_seq_file),
     (''struct_bpf_mount_opts'', struct_bpf_mount_opts), (''struct_kset'', struct_kset),
     (''struct_kobj_type'', struct_kobj_type), (''struct_device_driver'', struct_device_driver),
     (''struct_bus_type'', struct_bus_type), (''struct_class'', struct_class),
     (''struct_trace_event'', struct_trace_event),
     (''struct_trace_event_call'', struct_trace_event_call),
     (''struct_arch_specific_insn'', struct_arch_specific_insn),
     (''struct_kprobe'', struct_kprobe), (''struct_arch_uprobe'', struct_arch_uprobe),
     (''struct_uprobe'', struct_uprobe), (''struct_linux_binprm'', struct_linux_binprm),
     (''struct_linux_binfmt'', struct_linux_binfmt),
     (''struct_irq_common_data'', struct_irq_common_data),
     (''struct_irq_data'', struct_irq_data), (''struct_irq_desc'', struct_irq_desc),
     (''struct_rt6key'', struct_rt6key), (''struct_fib6_nh'', struct_fib6_nh),
     (''struct_fib6_info'', struct_fib6_info), (''struct_rt6_info'', struct_rt6_info),
     (''struct_in6_pktinfo'', struct_in6_pktinfo), (''struct_inet6_cork'', struct_inet6_cork),
     (''struct_ipv6_pinfo'', struct_ipv6_pinfo), (''struct_icmp_filter'', struct_icmp_filter),
     (''struct_raw_sock'', struct_raw_sock),
     (''struct_wait_queue_entry'', struct_wait_queue_entry),
     (''struct_scm_stat'', struct_scm_stat), (''struct_unix_sock'', struct_unix_sock),
     (''struct_tcp_congestion_ops'', struct_tcp_congestion_ops),
     (''struct_ubuf_info'', struct_ubuf_info),
     (''struct_page_pool_params_fast'', struct_page_pool_params_fast),
     (''struct_pp_alloc_cache'', struct_pp_alloc_cache), (''struct_ptr_ring'', struct_ptr_ring),
     (''struct_page_pool_params_slow'', struct_page_pool_params_slow),
     (''struct_page_pool'', struct_page_pool), (''struct_xdp_frame'', struct_xdp_frame),
     (''struct_rhashtable_params'', struct_rhashtable_params),
     (''struct_rhashtable'', struct_rhashtable), (''struct_bridge_id'', struct_bridge_id),
     (''struct_bridge_mcast_other_query'', struct_bridge_mcast_other_query),
     (''struct_bridge_mcast_own_query'', struct_bridge_mcast_own_query),
     (''struct_br_ip'', struct_br_ip),
     (''struct_bridge_mcast_querier'', struct_bridge_mcast_querier),
     (''struct_net_bridge_mcast'', struct_net_bridge_mcast),
     (''struct_net_bridge'', struct_net_bridge),
     (''struct_nf_sockopt_ops'', struct_nf_sockopt_ops)]"

lemma file_types_wf: "list_all (\<lambda>(x, t). cwf t) file_types"
  by (simp add: file_types_def)

end
