(* ===== verification/Kernel_Near.thy ===== *)
theory Kernel_Near
  imports Kernel_Files
begin

text \<open>
  The structures of agent/vmlinux.h that are within three pointers of the context the hook is
  called with and that no other theory has: what network devices, their parents in the driver
  model, and the tables of a network namespace point to.
\<close>

definition struct_attribute_group :: ctype where
  "struct_attribute_group = CStruct [
     Member ''name'' CPtr, Member ''is_visible'' CPtr, Member ''is_bin_visible'' CPtr,
     Member ''attrs'' CPtr, Member ''bin_attrs'' CPtr]"

lemma layout_struct_attribute_group [simp]: "cwf struct_attribute_group" "calign struct_attribute_group = 8" "csize struct_attribute_group = 40"
  by (simp_all add: struct_attribute_group_def place_def align_up_def)

definition struct_bpf_local_storage :: ctype where
  "struct_bpf_local_storage = CStruct [
     Member ''cache'' (CArray CPtr 16), Member ''smap'' CPtr, Member ''list'' struct_hlist_head,
     Member ''owner'' CPtr, Member ''rcu'' struct_callback_head,
     Member ''lock'' struct_raw_spinlock]"

lemma layout_struct_bpf_local_storage [simp]: "cwf struct_bpf_local_storage" "calign struct_bpf_local_storage = 8" "csize struct_bpf_local_storage = 176"
  by (simp_all add: struct_bpf_local_storage_def place_def align_up_def)

definition struct_bpf_mprog_fp :: ctype where
  "struct_bpf_mprog_fp = CStruct [
     Member ''prog'' CPtr]"

lemma layout_struct_bpf_mprog_fp [simp]: "cwf struct_bpf_mprog_fp" "calign struct_bpf_mprog_fp = 8" "csize struct_bpf_mprog_fp = 8"
  by (simp_all add: struct_bpf_mprog_fp_def place_def align_up_def)

definition struct_bpf_mprog_entry :: ctype where
  "struct_bpf_mprog_entry = CStruct [
     Member ''fp_items'' (CArray struct_bpf_mprog_fp 64), Member ''parent'' CPtr]"

lemma layout_struct_bpf_mprog_entry [simp]: "cwf struct_bpf_mprog_entry" "calign struct_bpf_mprog_entry = 8" "csize struct_bpf_mprog_entry = 520"
  by (simp_all add: struct_bpf_mprog_entry_def place_def align_up_def)

definition struct_bpf_prog_array_item :: ctype where
  "struct_bpf_prog_array_item = CStruct [
     Member ''prog'' CPtr, Member '''' (CUnion [
       Member ''cgroup_storage'' (CArray CPtr 2), Member ''bpf_cookie'' (CInt 8)])]"

lemma layout_struct_bpf_prog_array_item [simp]: "cwf struct_bpf_prog_array_item" "calign struct_bpf_prog_array_item = 8" "csize struct_bpf_prog_array_item = 24"
  by (simp_all add: struct_bpf_prog_array_item_def place_def align_up_def)

definition struct_bpf_prog_array :: ctype where
  "struct_bpf_prog_array = CStruct [
     Member ''rcu'' struct_callback_head, Member ''items'' (CArray struct_bpf_prog_array_item 0)]"

lemma layout_struct_bpf_prog_array [simp]: "cwf struct_bpf_prog_array" "calign struct_bpf_prog_array = 8" "csize struct_bpf_prog_array = 16"
  by (simp_all add: struct_bpf_prog_array_def place_def align_up_def)

definition struct_bpf_xdp_link :: ctype where
  "struct_bpf_xdp_link = CStruct [
     Member ''link'' struct_bpf_link, Member ''dev'' CPtr, Member ''flags'' (CInt 4)]"

lemma layout_struct_bpf_xdp_link [simp]: "cwf struct_bpf_xdp_link" "calign struct_bpf_xdp_link = 8" "csize struct_bpf_xdp_link = 80"
  by (simp_all add: struct_bpf_xdp_link_def place_def align_up_def)

definition struct_bus_dma_region :: ctype where
  "struct_bus_dma_region = CStruct [
     Member ''cpu_start'' (CInt 8), Member ''dma_start'' (CInt 8), Member ''size'' (CInt 8)]"

lemma layout_struct_bus_dma_region [simp]: "cwf struct_bus_dma_region" "calign struct_bus_dma_region = 8" "csize struct_bus_dma_region = 24"
  by (simp_all add: struct_bus_dma_region_def place_def align_up_def)

definition struct_cma :: ctype where
  "struct_cma = CStruct [
     Member ''base_pfn'' (CInt 8), Member ''count'' (CInt 8), Member ''bitmap'' CPtr,
     Member ''order_per_bit'' (CInt 4), Member ''lock'' struct_spinlock,
     Member ''name'' (CArray (CInt 1) 64), Member ''reserve_pages_on_error'' (CInt 1)]"

lemma layout_struct_cma [simp]: "cwf struct_cma" "calign struct_cma = 8" "csize struct_cma = 104"
  by (simp_all add: struct_cma_def place_def align_up_def)

definition struct_cpu_rmap :: ctype where
  "struct_cpu_rmap = CStruct [
     Member ''refcount'' struct_kref, Member ''size'' (CInt 2), Member ''obj'' CPtr,
     Member ''near'' (CArray (CStruct [
       Member ''index'' (CInt 2), Member ''dist'' (CInt 2)]) 0)]"

lemma layout_struct_cpu_rmap [simp]: "cwf struct_cpu_rmap" "calign struct_cpu_rmap = 8" "csize struct_cpu_rmap = 16"
  by (simp_all add: struct_cpu_rmap_def place_def align_up_def)

definition struct_ctl_node :: ctype where
  "struct_ctl_node = CStruct [
     Member ''node'' struct_rb_node, Member ''header'' CPtr]"

lemma layout_struct_ctl_node [simp]: "cwf struct_ctl_node" "calign struct_ctl_node = 8" "csize struct_ctl_node = 32"
  by (simp_all add: struct_ctl_node_def place_def align_up_def)

definition struct_ctl_table :: ctype where
  "struct_ctl_table = CStruct [
     Member ''procname'' CPtr, Member ''data'' CPtr, Member ''maxlen'' (CInt 4),
     Member ''mode'' (CInt 2), Member ''proc_handler'' CPtr, Member ''poll'' CPtr,
     Member ''extra1'' CPtr, Member ''extra2'' CPtr]"

lemma layout_struct_ctl_table [simp]: "cwf struct_ctl_table" "calign struct_ctl_table = 8" "csize struct_ctl_table = 56"
  by (simp_all add: struct_ctl_table_def place_def align_up_def)

definition struct_ctl_table_root :: ctype where
  "struct_ctl_table_root = CStruct [
     Member ''default_set'' struct_ctl_table_set, Member ''lookup'' CPtr,
     Member ''set_ownership'' CPtr, Member ''permissions'' CPtr]"

lemma layout_struct_ctl_table_root [simp]: "cwf struct_ctl_table_root" "calign struct_ctl_table_root = 8" "csize struct_ctl_table_root = 128"
  by (simp_all add: struct_ctl_table_root_def place_def align_up_def)

definition struct_dcbnl_rtnl_ops :: ctype where
  "struct_dcbnl_rtnl_ops = CStruct [
     Member ''ieee_getets'' CPtr, Member ''ieee_setets'' CPtr, Member ''ieee_getmaxrate'' CPtr,
     Member ''ieee_setmaxrate'' CPtr, Member ''ieee_getqcn'' CPtr, Member ''ieee_setqcn'' CPtr,
     Member ''ieee_getqcnstats'' CPtr, Member ''ieee_getpfc'' CPtr, Member ''ieee_setpfc'' CPtr,
     Member ''ieee_getapp'' CPtr, Member ''ieee_setapp'' CPtr, Member ''ieee_delapp'' CPtr,
     Member ''ieee_peer_getets'' CPtr, Member ''ieee_peer_getpfc'' CPtr,
     Member ''getstate'' CPtr, Member ''setstate'' CPtr, Member ''getpermhwaddr'' CPtr,
     Member ''setpgtccfgtx'' CPtr, Member ''setpgbwgcfgtx'' CPtr, Member ''setpgtccfgrx'' CPtr,
     Member ''setpgbwgcfgrx'' CPtr, Member ''getpgtccfgtx'' CPtr, Member ''getpgbwgcfgtx'' CPtr,
     Member ''getpgtccfgrx'' CPtr, Member ''getpgbwgcfgrx'' CPtr, Member ''setpfccfg'' CPtr,
     Member ''getpfccfg'' CPtr, Member ''setall'' CPtr, Member ''getcap'' CPtr,
     Member ''getnumtcs'' CPtr, Member ''setnumtcs'' CPtr, Member ''getpfcstate'' CPtr,
     Member ''setpfcstate'' CPtr, Member ''getbcncfg'' CPtr, Member ''setbcncfg'' CPtr,
     Member ''getbcnrp'' CPtr, Member ''setbcnrp'' CPtr, Member ''setapp'' CPtr,
     Member ''getapp'' CPtr, Member ''getfeatcfg'' CPtr, Member ''setfeatcfg'' CPtr,
     Member ''getdcbx'' CPtr, Member ''setdcbx'' CPtr, Member ''peer_getappinfo'' CPtr,
     Member ''peer_getapptable'' CPtr, Member ''cee_peer_getpg'' CPtr,
     Member ''cee_peer_getpfc'' CPtr, Member ''dcbnl_getbuffer'' CPtr,
     Member ''dcbnl_setbuffer'' CPtr, Member ''dcbnl_setapptrust'' CPtr,
     Member ''dcbnl_getapptrust'' CPtr, Member ''dcbnl_setrewr'' CPtr,
     Member ''dcbnl_delrewr'' CPtr]"

lemma layout_struct_dcbnl_rtnl_ops [simp]: "cwf struct_dcbnl_rtnl_ops" "calign struct_dcbnl_rtnl_ops = 8" "csize struct_dcbnl_rtnl_ops = 424"
  by (simp_all add: struct_dcbnl_rtnl_ops_def place_def align_up_def)

definition struct_dev_ifalias :: ctype where
  "struct_dev_ifalias = CStruct [
     Member ''rcuhead'' struct_callback_head, Member ''ifalias'' (CArray (CInt 1) 0)]"

lemma layout_struct_dev_ifalias [simp]: "cwf struct_dev_ifalias" "calign struct_dev_ifalias = 8" "csize struct_dev_ifalias = 16"
  by (simp_all add: struct_dev_ifalias_def place_def align_up_def)

definition struct_dev_iommu :: ctype where
  "struct_dev_iommu = CStruct [
     Member ''lock'' struct_mutex, Member ''fault_param'' CPtr, Member ''fwspec'' CPtr,
     Member ''iommu_dev'' CPtr, Member ''priv'' CPtr, Member ''max_pasids'' (CInt 4),
     Bits ''attach_deferred'' 4 1, Bits ''pci_32bit_workaround'' 4 1,
     Bits ''require_direct'' 4 1, Bits ''shadow_on_flush'' 4 1]"

lemma layout_struct_dev_iommu [simp]: "cwf struct_dev_iommu" "calign struct_dev_iommu = 8" "csize struct_dev_iommu = 72"
  by (simp_all add: struct_dev_iommu_def place_def align_up_def)

definition struct_dev_pin_info :: ctype where
  "struct_dev_pin_info = CStruct [
     Member ''p'' CPtr, Member ''default_state'' CPtr, Member ''init_state'' CPtr,
     Member ''sleep_state'' CPtr, Member ''idle_state'' CPtr]"

lemma layout_struct_dev_pin_info [simp]: "cwf struct_dev_pin_info" "calign struct_dev_pin_info = 8" "csize struct_dev_pin_info = 40"
  by (simp_all add: struct_dev_pin_info_def place_def align_up_def)

definition struct_dev_pm_ops :: ctype where
  "struct_dev_pm_ops = CStruct [
     Member ''prepare'' CPtr, Member ''complete'' CPtr, Member ''suspend'' CPtr,
     Member ''resume'' CPtr, Member ''freeze'' CPtr, Member ''thaw'' CPtr,
     Member ''poweroff'' CPtr, Member ''restore'' CPtr, Member ''suspend_late'' CPtr,
     Member ''resume_early'' CPtr, Member ''freeze_late'' CPtr, Member ''thaw_early'' CPtr,
     Member ''poweroff_late'' CPtr, Member ''restore_early'' CPtr, Member ''suspend_noirq'' CPtr,
     Member ''resume_noirq'' CPtr, Member ''freeze_noirq'' CPtr, Member ''thaw_noirq'' CPtr,
     Member ''poweroff_noirq'' CPtr, Member ''restore_noirq'' CPtr,
     Member ''runtime_suspend'' CPtr, Member ''runtime_resume'' CPtr,
     Member ''runtime_idle'' CPtr]"

lemma layout_struct_dev_pm_ops [simp]: "cwf struct_dev_pm_ops" "calign struct_dev_pm_ops = 8" "csize struct_dev_pm_ops = 184"
  by (simp_all add: struct_dev_pm_ops_def place_def align_up_def)

definition struct_dev_pm_domain :: ctype where
  "struct_dev_pm_domain = CStruct [
     Member ''ops'' struct_dev_pm_ops, Member ''start'' CPtr, Member ''detach'' CPtr,
     Member ''activate'' CPtr, Member ''sync'' CPtr, Member ''dismiss'' CPtr,
     Member ''set_performance_state'' CPtr]"

lemma layout_struct_dev_pm_domain [simp]: "cwf struct_dev_pm_domain" "calign struct_dev_pm_domain = 8" "csize struct_dev_pm_domain = 232"
  by (simp_all add: struct_dev_pm_domain_def place_def align_up_def)

definition struct_pm_qos_constraints :: ctype where
  "struct_pm_qos_constraints = CStruct [
     Member ''list'' struct_plist_head, Member ''target_value'' (CInt 4),
     Member ''default_value'' (CInt 4), Member ''no_constraint_value'' (CInt 4),
     Member ''type'' (CInt 4), Member ''notifiers'' CPtr]"

lemma layout_struct_pm_qos_constraints [simp]: "cwf struct_pm_qos_constraints" "calign struct_pm_qos_constraints = 8" "csize struct_pm_qos_constraints = 40"
  by (simp_all add: struct_pm_qos_constraints_def place_def align_up_def)

definition struct_freq_constraints :: ctype where
  "struct_freq_constraints = CStruct [
     Member ''min_freq'' struct_pm_qos_constraints,
     Member ''min_freq_notifiers'' struct_blocking_notifier_head,
     Member ''max_freq'' struct_pm_qos_constraints,
     Member ''max_freq_notifiers'' struct_blocking_notifier_head]"

lemma layout_struct_freq_constraints [simp]: "cwf struct_freq_constraints" "calign struct_freq_constraints = 8" "csize struct_freq_constraints = 176"
  by (simp_all add: struct_freq_constraints_def place_def align_up_def)

definition struct_pm_qos_flags :: ctype where
  "struct_pm_qos_flags = CStruct [
     Member ''list'' struct_list_head, Member ''effective_flags'' (CInt 4)]"

lemma layout_struct_pm_qos_flags [simp]: "cwf struct_pm_qos_flags" "calign struct_pm_qos_flags = 8" "csize struct_pm_qos_flags = 24"
  by (simp_all add: struct_pm_qos_flags_def place_def align_up_def)

definition struct_dev_pm_qos :: ctype where
  "struct_dev_pm_qos = CStruct [
     Member ''resume_latency'' struct_pm_qos_constraints,
     Member ''latency_tolerance'' struct_pm_qos_constraints,
     Member ''freq'' struct_freq_constraints, Member ''flags'' struct_pm_qos_flags,
     Member ''resume_latency_req'' CPtr, Member ''latency_tolerance_req'' CPtr,
     Member ''flags_req'' CPtr]"

lemma layout_struct_dev_pm_qos [simp]: "cwf struct_dev_pm_qos" "calign struct_dev_pm_qos = 8" "csize struct_dev_pm_qos = 304"
  by (simp_all add: struct_dev_pm_qos_def place_def align_up_def)

definition struct_device_dma_parameters :: ctype where
  "struct_device_dma_parameters = CStruct [
     Member ''max_segment_size'' (CInt 4), Member ''min_align_mask'' (CInt 4),
     Member ''segment_boundary_mask'' (CInt 8)]"

lemma layout_struct_device_dma_parameters [simp]: "cwf struct_device_dma_parameters" "calign struct_device_dma_parameters = 8" "csize struct_device_dma_parameters = 16"
  by (simp_all add: struct_device_dma_parameters_def place_def align_up_def)

definition struct_fwnode_handle :: ctype where
  "struct_fwnode_handle = CStruct [
     Member ''secondary'' CPtr, Member ''ops'' CPtr, Member ''dev'' CPtr,
     Member ''suppliers'' struct_list_head, Member ''consumers'' struct_list_head,
     Member ''flags'' (CInt 1)]"

lemma layout_struct_fwnode_handle [simp]: "cwf struct_fwnode_handle" "calign struct_fwnode_handle = 8" "csize struct_fwnode_handle = 64"
  by (simp_all add: struct_fwnode_handle_def place_def align_up_def)

definition struct_device_node :: ctype where
  "struct_device_node = CStruct [
     Member ''name'' CPtr, Member ''phandle'' (CInt 4), Member ''full_name'' CPtr,
     Member ''fwnode'' struct_fwnode_handle, Member ''properties'' CPtr,
     Member ''deadprops'' CPtr, Member ''parent'' CPtr, Member ''child'' CPtr,
     Member ''sibling'' CPtr, Member ''_flags'' (CInt 8), Member ''data'' CPtr]"

lemma layout_struct_device_node [simp]: "cwf struct_device_node" "calign struct_device_node = 8" "csize struct_device_node = 144"
  by (simp_all add: struct_device_node_def place_def align_up_def)

definition struct_device_physical_location :: ctype where
  "struct_device_physical_location = CStruct [
     Member ''panel'' (CInt 4), Member ''vertical_position'' (CInt 4),
     Member ''horizontal_position'' (CInt 4), Member ''dock'' (CInt 1), Member ''lid'' (CInt 1)]"

lemma layout_struct_device_physical_location [simp]: "cwf struct_device_physical_location" "calign struct_device_physical_location = 4" "csize struct_device_physical_location = 16"
  by (simp_all add: struct_device_physical_location_def place_def align_up_def)

definition struct_klist :: ctype where
  "struct_klist = CStruct [
     Member ''k_lock'' struct_spinlock, Member ''k_list'' struct_list_head, Member ''get'' CPtr,
     Member ''put'' CPtr]"

lemma layout_struct_klist [simp]: "cwf struct_klist" "calign struct_klist = 8" "csize struct_klist = 40"
  by (simp_all add: struct_klist_def place_def align_up_def)

definition struct_klist_node :: ctype where
  "struct_klist_node = CStruct [
     Member ''n_klist'' CPtr, Member ''n_node'' struct_list_head, Member ''n_ref'' struct_kref]"

lemma layout_struct_klist_node [simp]: "cwf struct_klist_node" "calign struct_klist_node = 8" "csize struct_klist_node = 32"
  by (simp_all add: struct_klist_node_def place_def align_up_def)

definition struct_device_private :: ctype where
  "struct_device_private = CStruct [
     Member ''klist_children'' struct_klist, Member ''knode_parent'' struct_klist_node,
     Member ''knode_driver'' struct_klist_node, Member ''knode_bus'' struct_klist_node,
     Member ''knode_class'' struct_klist_node, Member ''deferred_probe'' struct_list_head,
     Member ''async_driver'' CPtr, Member ''deferred_probe_reason'' CPtr, Member ''device'' CPtr,
     Bits ''dead'' 1 1]"

lemma layout_struct_device_private [simp]: "cwf struct_device_private" "calign struct_device_private = 8" "csize struct_device_private = 216"
  by (simp_all add: struct_device_private_def place_def align_up_def)

definition struct_device_type :: ctype where
  "struct_device_type = CStruct [
     Member ''name'' CPtr, Member ''groups'' CPtr, Member ''uevent'' CPtr,
     Member ''devnode'' CPtr, Member ''release'' CPtr, Member ''pm'' CPtr]"

lemma layout_struct_device_type [simp]: "cwf struct_device_type" "calign struct_device_type = 8" "csize struct_device_type = 48"
  by (simp_all add: struct_device_type_def place_def align_up_def)

definition struct_netdev_phys_item_id :: ctype where
  "struct_netdev_phys_item_id = CStruct [
     Member ''id'' (CArray (CInt 1) 32), Member ''id_len'' (CInt 1)]"

lemma layout_struct_netdev_phys_item_id [simp]: "cwf struct_netdev_phys_item_id" "calign struct_netdev_phys_item_id = 1" "csize struct_netdev_phys_item_id = 33"
  by (simp_all add: struct_netdev_phys_item_id_def place_def align_up_def)

definition struct_devlink_port_phys_attrs :: ctype where
  "struct_devlink_port_phys_attrs = CStruct [
     Member ''port_number'' (CInt 4), Member ''split_subport_number'' (CInt 4)]"

lemma layout_struct_devlink_port_phys_attrs [simp]: "cwf struct_devlink_port_phys_attrs" "calign struct_devlink_port_phys_attrs = 4" "csize struct_devlink_port_phys_attrs = 8"
  by (simp_all add: struct_devlink_port_phys_attrs_def place_def align_up_def)

definition struct_devlink_port_pci_pf_attrs :: ctype where
  "struct_devlink_port_pci_pf_attrs = CStruct [
     Member ''controller'' (CInt 4), Member ''pf'' (CInt 2), Bits ''external'' 1 1]"

lemma layout_struct_devlink_port_pci_pf_attrs [simp]: "cwf struct_devlink_port_pci_pf_attrs" "calign struct_devlink_port_pci_pf_attrs = 4" "csize struct_devlink_port_pci_pf_attrs = 8"
  by (simp_all add: struct_devlink_port_pci_pf_attrs_def place_def align_up_def)

definition struct_devlink_port_pci_vf_attrs :: ctype where
  "struct_devlink_port_pci_vf_attrs = CStruct [
     Member ''controller'' (CInt 4), Member ''pf'' (CInt 2), Member ''vf'' (CInt 2),
     Bits ''external'' 1 1]"

lemma layout_struct_devlink_port_pci_vf_attrs [simp]: "cwf struct_devlink_port_pci_vf_attrs" "calign struct_devlink_port_pci_vf_attrs = 4" "csize struct_devlink_port_pci_vf_attrs = 12"
  by (simp_all add: struct_devlink_port_pci_vf_attrs_def place_def align_up_def)

definition struct_devlink_port_pci_sf_attrs :: ctype where
  "struct_devlink_port_pci_sf_attrs = CStruct [
     Member ''controller'' (CInt 4), Member ''sf'' (CInt 4), Member ''pf'' (CInt 2),
     Bits ''external'' 1 1]"

lemma layout_struct_devlink_port_pci_sf_attrs [simp]: "cwf struct_devlink_port_pci_sf_attrs" "calign struct_devlink_port_pci_sf_attrs = 4" "csize struct_devlink_port_pci_sf_attrs = 12"
  by (simp_all add: struct_devlink_port_pci_sf_attrs_def place_def align_up_def)

definition struct_devlink_port_attrs :: ctype where
  "struct_devlink_port_attrs = CStruct [
     Bits ''split'' 1 1, Bits ''splittable'' 1 1, Member ''lanes'' (CInt 4),
     Member ''flavour'' (CInt 4), Member ''switch_id'' struct_netdev_phys_item_id,
     Member '''' (CUnion [
       Member ''phys'' struct_devlink_port_phys_attrs,
       Member ''pci_pf'' struct_devlink_port_pci_pf_attrs,
       Member ''pci_vf'' struct_devlink_port_pci_vf_attrs,
       Member ''pci_sf'' struct_devlink_port_pci_sf_attrs])]"

lemma layout_struct_devlink_port_attrs [simp]: "cwf struct_devlink_port_attrs" "calign struct_devlink_port_attrs = 4" "csize struct_devlink_port_attrs = 60"
  by (simp_all add: struct_devlink_port_attrs_def place_def align_up_def)

definition struct_devlink_port :: ctype where
  "struct_devlink_port = CStruct [
     Member ''list'' struct_list_head, Member ''region_list'' struct_list_head,
     Member ''devlink'' CPtr, Member ''ops'' CPtr, Member ''index'' (CInt 4),
     Member ''type_lock'' struct_spinlock, Member ''type'' (CInt 4),
     Member ''desired_type'' (CInt 4), Member '''' (CUnion [
       Member ''type_eth'' (CStruct [
         Member ''netdev'' CPtr, Member ''ifindex'' (CInt 4),
         Member ''ifname'' (CArray (CInt 1) 16)]), Member ''type_ib'' (CStruct [
         Member ''ibdev'' CPtr])]), Member ''attrs'' struct_devlink_port_attrs,
     Bits ''attrs_set'' 1 1, Bits ''switch_port'' 1 1, Bits ''registered'' 1 1,
     Bits ''initialized'' 1 1, Member ''type_warn_dw'' struct_delayed_work,
     Member ''reporter_list'' struct_list_head, Member ''devlink_rate'' CPtr,
     Member ''linecard'' CPtr, Member ''rel_index'' (CInt 4)]"

lemma layout_struct_devlink_port [simp]: "cwf struct_devlink_port" "calign struct_devlink_port = 8" "csize struct_devlink_port = 288"
  by (simp_all add: struct_devlink_port_def place_def align_up_def)

definition struct_dim_irq_moder :: ctype where
  "struct_dim_irq_moder = CStruct [
     Member ''profile_flags'' (CInt 1), Member ''coal_flags'' (CInt 1),
     Member ''dim_rx_mode'' (CInt 1), Member ''dim_tx_mode'' (CInt 1),
     Member ''rx_profile'' CPtr, Member ''tx_profile'' CPtr, Member ''rx_dim_work'' CPtr,
     Member ''tx_dim_work'' CPtr]"

lemma layout_struct_dim_irq_moder [simp]: "cwf struct_dim_irq_moder" "calign struct_dim_irq_moder = 8" "csize struct_dim_irq_moder = 40"
  by (simp_all add: struct_dim_irq_moder_def place_def align_up_def)

definition struct_dm_hw_stat_delta :: ctype where
  "struct_dm_hw_stat_delta = CStruct [
     Member ''last_rx'' (CInt 8), Member ''last_drop_val'' (CInt 8),
     Member ''rcu'' struct_callback_head]"

lemma layout_struct_dm_hw_stat_delta [simp]: "cwf struct_dm_hw_stat_delta" "calign struct_dm_hw_stat_delta = 8" "csize struct_dm_hw_stat_delta = 32"
  by (simp_all add: struct_dm_hw_stat_delta_def place_def align_up_def)

definition struct_dma_map_ops :: ctype where
  "struct_dma_map_ops = CStruct [
     Member ''flags'' (CInt 4), Member ''alloc'' CPtr, Member ''free'' CPtr,
     Member ''alloc_pages_op'' CPtr, Member ''free_pages'' CPtr,
     Member ''alloc_noncontiguous'' CPtr, Member ''free_noncontiguous'' CPtr,
     Member ''mmap'' CPtr, Member ''get_sgtable'' CPtr, Member ''map_page'' CPtr,
     Member ''unmap_page'' CPtr, Member ''map_sg'' CPtr, Member ''unmap_sg'' CPtr,
     Member ''map_resource'' CPtr, Member ''unmap_resource'' CPtr,
     Member ''sync_single_for_cpu'' CPtr, Member ''sync_single_for_device'' CPtr,
     Member ''sync_sg_for_cpu'' CPtr, Member ''sync_sg_for_device'' CPtr,
     Member ''cache_sync'' CPtr, Member ''dma_supported'' CPtr,
     Member ''get_required_mask'' CPtr, Member ''max_mapping_size'' CPtr,
     Member ''opt_mapping_size'' CPtr, Member ''get_merge_boundary'' CPtr]"

lemma layout_struct_dma_map_ops [simp]: "cwf struct_dma_map_ops" "calign struct_dma_map_ops = 8" "csize struct_dma_map_ops = 200"
  by (simp_all add: struct_dma_map_ops_def place_def align_up_def)

definition struct_dpll_pin_phase_adjust_range :: ctype where
  "struct_dpll_pin_phase_adjust_range = CStruct [
     Member ''min'' (CInt 4), Member ''max'' (CInt 4)]"

lemma layout_struct_dpll_pin_phase_adjust_range [simp]: "cwf struct_dpll_pin_phase_adjust_range" "calign struct_dpll_pin_phase_adjust_range = 4" "csize struct_dpll_pin_phase_adjust_range = 8"
  by (simp_all add: struct_dpll_pin_phase_adjust_range_def place_def align_up_def)

definition struct_dpll_pin_properties :: ctype where
  "struct_dpll_pin_properties = CStruct [
     Member ''board_label'' CPtr, Member ''panel_label'' CPtr, Member ''package_label'' CPtr,
     Member ''type'' (CInt 4), Member ''capabilities'' (CInt 8),
     Member ''freq_supported_num'' (CInt 4), Member ''freq_supported'' CPtr,
     Member ''phase_range'' struct_dpll_pin_phase_adjust_range]"

lemma layout_struct_dpll_pin_properties [simp]: "cwf struct_dpll_pin_properties" "calign struct_dpll_pin_properties = 8" "csize struct_dpll_pin_properties = 64"
  by (simp_all add: struct_dpll_pin_properties_def place_def align_up_def)

definition struct_dpll_pin :: ctype where
  "struct_dpll_pin = CStruct [
     Member ''id'' (CInt 4), Member ''pin_idx'' (CInt 4), Member ''clock_id'' (CInt 8),
     Member ''module'' CPtr, Member ''dpll_refs'' struct_xarray,
     Member ''parent_refs'' struct_xarray, Member ''prop'' struct_dpll_pin_properties,
     Member ''refcount'' struct_refcount_struct, Member ''rcu'' struct_callback_head]"

lemma layout_struct_dpll_pin [simp]: "cwf struct_dpll_pin" "calign struct_dpll_pin = 8" "csize struct_dpll_pin = 144"
  by (simp_all add: struct_dpll_pin_def place_def align_up_def)

definition struct_phylink_config :: ctype where
  "struct_phylink_config = CStruct [
     Member ''dev'' CPtr, Member ''type'' (CInt 4), Member ''poll_fixed_state'' (CInt 1),
     Member ''mac_managed_pm'' (CInt 1), Member ''mac_requires_rxc'' (CInt 1),
     Member ''default_an_inband'' (CInt 1), Member ''get_fixed_state'' CPtr,
     Member ''supported_interfaces'' (CArray (CInt 8) 1), Member ''mac_capabilities'' (CInt 8)]"

lemma layout_struct_phylink_config [simp]: "cwf struct_phylink_config" "calign struct_phylink_config = 8" "csize struct_phylink_config = 40"
  by (simp_all add: struct_phylink_config_def place_def align_up_def)

definition struct_dsa_port :: ctype where
  "struct_dsa_port = CStruct [
     Member '''' (CUnion [
       Member ''conduit'' CPtr, Member ''user'' CPtr]), Member ''tag_ops'' CPtr,
     Member ''dst'' CPtr, Member ''rcv'' CPtr, Member ''ds'' CPtr, Member ''index'' (CInt 4),
     Member ''type'' (CInt 4), Member ''name'' CPtr, Member ''cpu_dp'' CPtr,
     Member ''mac'' (CArray (CInt 1) 6), Member ''stp_state'' (CInt 1),
     Bits ''vlan_filtering'' 1 1, Bits ''learning'' 1 1, Bits ''lag_tx_enabled'' 1 1,
     Bits ''conduit_admin_up'' 1 1, Bits ''conduit_oper_up'' 1 1, Bits ''cpu_port_in_lag'' 1 1,
     Bits ''setup'' 1 1, Member ''dn'' CPtr, Member ''ageing_time'' (CInt 4),
     Member ''bridge'' CPtr, Member ''devlink_port'' struct_devlink_port, Member ''pl'' CPtr,
     Member ''pl_config'' struct_phylink_config, Member ''lag'' CPtr, Member ''hsr_dev'' CPtr,
     Member ''list'' struct_list_head, Member ''orig_ethtool_ops'' CPtr,
     Member ''addr_lists_lock'' struct_mutex, Member ''fdbs'' struct_list_head,
     Member ''mdbs'' struct_list_head, Member ''vlans_lock'' struct_mutex, Member '''' (CUnion [
       Member ''vlans'' struct_list_head, Member ''user_vlans'' struct_list_head])]"

lemma layout_struct_dsa_port [simp]: "cwf struct_dsa_port" "calign struct_dsa_port = 8" "csize struct_dsa_port = 584"
  by (simp_all add: struct_dsa_port_def place_def align_up_def)

definition struct_em_perf_domain :: ctype where
  "struct_em_perf_domain = CStruct [
     Member ''em_table'' CPtr, Member ''nr_perf_states'' (CInt 4), Member ''flags'' (CInt 8),
     Member ''cpus'' (CArray (CInt 8) 0)]"

lemma layout_struct_em_perf_domain [simp]: "cwf struct_em_perf_domain" "calign struct_em_perf_domain = 8" "csize struct_em_perf_domain = 24"
  by (simp_all add: struct_em_perf_domain_def place_def align_up_def)

definition struct_ethtool_netdev_state :: ctype where
  "struct_ethtool_netdev_state = CStruct [
     Member ''rss_ctx'' struct_xarray, Member ''rss_lock'' struct_mutex,
     Bits ''wol_enabled'' 4 1, Bits ''module_fw_flash_in_progress'' 4 1]"

lemma layout_struct_ethtool_netdev_state [simp]: "cwf struct_ethtool_netdev_state" "calign struct_ethtool_netdev_state = 8" "csize struct_ethtool_netdev_state = 56"
  by (simp_all add: struct_ethtool_netdev_state_def place_def align_up_def)

definition struct_fib6_node :: ctype where
  "struct_fib6_node = CStruct [
     Member ''parent'' CPtr, Member ''left'' CPtr, Member ''right'' CPtr,
     Member ''subtree'' CPtr, Member ''leaf'' CPtr, Member ''fn_bit'' (CInt 2),
     Member ''fn_flags'' (CInt 2), Member ''fn_sernum'' (CInt 4), Member ''rr_ptr'' CPtr,
     Member ''rcu'' struct_callback_head]"

lemma layout_struct_fib6_node [simp]: "cwf struct_fib6_node" "calign struct_fib6_node = 8" "csize struct_fib6_node = 72"
  by (simp_all add: struct_fib6_node_def place_def align_up_def)

definition struct_inet_peer_base :: ctype where
  "struct_inet_peer_base = CStruct [
     Member ''rb_root'' struct_rb_root, Member ''lock'' type_seqlock_t, Member ''total'' (CInt 4)]"

lemma layout_struct_inet_peer_base [simp]: "cwf struct_inet_peer_base" "calign struct_inet_peer_base = 8" "csize struct_inet_peer_base = 24"
  by (simp_all add: struct_inet_peer_base_def place_def align_up_def)

definition struct_fib6_table :: ctype where
  "struct_fib6_table = CStruct [
     Member ''tb6_hlist'' struct_hlist_node, Member ''tb6_id'' (CInt 4),
     Member ''tb6_lock'' struct_spinlock, Member ''tb6_root'' struct_fib6_node,
     Member ''tb6_peers'' struct_inet_peer_base, Member ''flags'' (CInt 4),
     Member ''fib_seq'' (CInt 4), Member ''tb6_gc_hlist'' struct_hlist_head]"

lemma layout_struct_fib6_table [simp]: "cwf struct_fib6_table" "calign struct_fib6_table = 8" "csize struct_fib6_table = 136"
  by (simp_all add: struct_fib6_table_def place_def align_up_def)

definition struct_fib_notifier_ops :: ctype where
  "struct_fib_notifier_ops = CStruct [
     Member ''family'' (CInt 4), Member ''list'' struct_list_head, Member ''fib_seq_read'' CPtr,
     Member ''fib_dump'' CPtr, Member ''owner'' CPtr, Member ''rcu'' struct_callback_head]"

lemma layout_struct_fib_notifier_ops [simp]: "cwf struct_fib_notifier_ops" "calign struct_fib_notifier_ops = 8" "csize struct_fib_notifier_ops = 64"
  by (simp_all add: struct_fib_notifier_ops_def place_def align_up_def)

definition struct_fib_rules_ops :: ctype where
  "struct_fib_rules_ops = CStruct [
     Member ''family'' (CInt 4), Member ''list'' struct_list_head, Member ''rule_size'' (CInt 4),
     Member ''addr_size'' (CInt 4), Member ''unresolved_rules'' (CInt 4),
     Member ''nr_goto_rules'' (CInt 4), Member ''fib_rules_seq'' (CInt 4),
     Member ''action'' CPtr, Member ''suppress'' CPtr, Member ''match'' CPtr,
     Member ''configure'' CPtr, Member ''delete'' CPtr, Member ''compare'' CPtr,
     Member ''fill'' CPtr, Member ''nlmsg_payload'' CPtr, Member ''flush_cache'' CPtr,
     Member ''nlgroup'' (CInt 4), Member ''rules_list'' struct_list_head, Member ''owner'' CPtr,
     Member ''fro_net'' CPtr, Member ''rcu'' struct_callback_head]"

lemma layout_struct_fib_rules_ops [simp]: "cwf struct_fib_rules_ops" "calign struct_fib_rules_ops = 8" "csize struct_fib_rules_ops = 176"
  by (simp_all add: struct_fib_rules_ops_def place_def align_up_def)

definition struct_fib_table :: ctype where
  "struct_fib_table = CStruct [
     Member ''tb_hlist'' struct_hlist_node, Member ''tb_id'' (CInt 4),
     Member ''tb_num_default'' (CInt 4), Member ''rcu'' struct_callback_head,
     Member ''tb_data'' CPtr, Member ''__data'' (CArray (CInt 8) 0)]"

lemma layout_struct_fib_table [simp]: "cwf struct_fib_table" "calign struct_fib_table = 8" "csize struct_fib_table = 48"
  by (simp_all add: struct_fib_table_def place_def align_up_def)

definition struct_fqdir :: ctype where
  "struct_fqdir = CStruct [
     Member ''high_thresh'' (CInt 8), Member ''low_thresh'' (CInt 8),
     Member ''timeout'' (CInt 4), Member ''max_dist'' (CInt 4), Member ''f'' CPtr,
     Member ''net'' CPtr, Member ''dead'' (CInt 1), Bits '''' 8 64, Bits '''' 8 64,
     Member ''rhashtable'' struct_rhashtable, Bits '''' 8 64, Bits '''' 8 64, Bits '''' 8 64,
     Bits '''' 8 64, Bits '''' 8 64, Bits '''' 8 64, Bits '''' 8 64,
     Member ''mem'' type_atomic64_t, Member ''destroy_work'' struct_work_struct,
     Member ''free_list'' struct_llist_node, Bits '''' 8 64, Bits '''' 8 64]"

lemma layout_struct_fqdir [simp]: "cwf struct_fqdir" "calign struct_fqdir = 8" "csize struct_fqdir = 320"
  by (simp_all add: struct_fqdir_def place_def align_up_def)

definition struct_header_ops :: ctype where
  "struct_header_ops = CStruct [
     Member ''create'' CPtr, Member ''parse'' CPtr, Member ''cache'' CPtr,
     Member ''cache_update'' CPtr, Member ''validate'' CPtr, Member ''parse_protocol'' CPtr]"

lemma layout_struct_header_ops [simp]: "cwf struct_header_ops" "calign struct_header_ops = 8" "csize struct_header_ops = 48"
  by (simp_all add: struct_header_ops_def place_def align_up_def)

definition struct_icmp_mib :: ctype where
  "struct_icmp_mib = CStruct [
     Member ''mibs'' (CArray (CInt 8) 30)]"

lemma layout_struct_icmp_mib [simp]: "cwf struct_icmp_mib" "calign struct_icmp_mib = 8" "csize struct_icmp_mib = 240"
  by (simp_all add: struct_icmp_mib_def place_def align_up_def)

definition struct_icmpmsg_mib :: ctype where
  "struct_icmpmsg_mib = CStruct [
     Member ''mibs'' (CArray type_atomic64_t 512)]"

lemma layout_struct_icmpmsg_mib [simp]: "cwf struct_icmpmsg_mib" "calign struct_icmpmsg_mib = 8" "csize struct_icmpmsg_mib = 4096"
  by (simp_all add: struct_icmpmsg_mib_def place_def align_up_def)

definition struct_icmpv6_mib :: ctype where
  "struct_icmpv6_mib = CStruct [
     Member ''mibs'' (CArray (CInt 8) 7)]"

lemma layout_struct_icmpv6_mib [simp]: "cwf struct_icmpv6_mib" "calign struct_icmpv6_mib = 8" "csize struct_icmpv6_mib = 56"
  by (simp_all add: struct_icmpv6_mib_def place_def align_up_def)

definition struct_icmpv6msg_mib :: ctype where
  "struct_icmpv6msg_mib = CStruct [
     Member ''mibs'' (CArray type_atomic64_t 512)]"

lemma layout_struct_icmpv6msg_mib [simp]: "cwf struct_icmpv6msg_mib" "calign struct_icmpv6msg_mib = 8" "csize struct_icmpv6msg_mib = 4096"
  by (simp_all add: struct_icmpv6msg_mib_def place_def align_up_def)

definition struct_inet_hashinfo :: ctype where
  "struct_inet_hashinfo = CStruct [
     Member ''ehash'' CPtr, Member ''ehash_locks'' CPtr, Member ''ehash_mask'' (CInt 4),
     Member ''ehash_locks_mask'' (CInt 4), Member ''bind_bucket_cachep'' CPtr,
     Member ''bhash'' CPtr, Member ''bind2_bucket_cachep'' CPtr, Member ''bhash2'' CPtr,
     Member ''bhash_size'' (CInt 4), Member ''lhash2_mask'' (CInt 4), Member ''lhash2'' CPtr,
     Member ''pernet'' (CInt 1), Bits '''' 8 64, Bits '''' 8 64, Bits '''' 8 64, Bits '''' 8 64,
     Bits '''' 8 64, Bits '''' 8 64]"

lemma layout_struct_inet_hashinfo [simp]: "cwf struct_inet_hashinfo" "calign struct_inet_hashinfo = 8" "csize struct_inet_hashinfo = 128"
  by (simp_all add: struct_inet_hashinfo_def place_def align_up_def)

definition struct_io_tlb_pool :: ctype where
  "struct_io_tlb_pool = CStruct [
     Member ''start'' (CInt 8), Member ''end'' (CInt 8), Member ''vaddr'' CPtr,
     Member ''nslabs'' (CInt 8), Member ''late_alloc'' (CInt 1), Member ''nareas'' (CInt 4),
     Member ''area_nslabs'' (CInt 4), Member ''areas'' CPtr, Member ''slots'' CPtr]"

lemma layout_struct_io_tlb_pool [simp]: "cwf struct_io_tlb_pool" "calign struct_io_tlb_pool = 8" "csize struct_io_tlb_pool = 64"
  by (simp_all add: struct_io_tlb_pool_def place_def align_up_def)

definition struct_io_tlb_mem :: ctype where
  "struct_io_tlb_mem = CStruct [
     Member ''defpool'' struct_io_tlb_pool, Member ''nslabs'' (CInt 8), Member ''debugfs'' CPtr,
     Member ''force_bounce'' (CInt 1), Member ''for_alloc'' (CInt 1),
     Member ''total_used'' type_atomic64_t, Member ''used_hiwater'' type_atomic64_t,
     Member ''transient_nslabs'' type_atomic64_t]"

lemma layout_struct_io_tlb_mem [simp]: "cwf struct_io_tlb_mem" "calign struct_io_tlb_mem = 8" "csize struct_io_tlb_mem = 112"
  by (simp_all add: struct_io_tlb_mem_def place_def align_up_def)

definition struct_ioam6_pernet_data :: ctype where
  "struct_ioam6_pernet_data = CStruct [
     Member ''lock'' struct_mutex, Member ''namespaces'' struct_rhashtable,
     Member ''schemas'' struct_rhashtable]"

lemma layout_struct_ioam6_pernet_data [simp]: "cwf struct_ioam6_pernet_data" "calign struct_ioam6_pernet_data = 8" "csize struct_ioam6_pernet_data = 304"
  by (simp_all add: struct_ioam6_pernet_data_def place_def align_up_def)

definition struct_iommu_group :: ctype where
  "struct_iommu_group = CStruct [
     Member ''kobj'' struct_kobject, Member ''devices_kobj'' CPtr,
     Member ''devices'' struct_list_head, Member ''pasid_array'' struct_xarray,
     Member ''mutex'' struct_mutex, Member ''iommu_data'' CPtr,
     Member ''iommu_data_release'' CPtr, Member ''name'' CPtr, Member ''id'' (CInt 4),
     Member ''default_domain'' CPtr, Member ''blocking_domain'' CPtr, Member ''domain'' CPtr,
     Member ''entry'' struct_list_head, Member ''owner_cnt'' (CInt 4), Member ''owner'' CPtr]"

lemma layout_struct_iommu_group [simp]: "cwf struct_iommu_group" "calign struct_iommu_group = 8" "csize struct_iommu_group = 224"
  by (simp_all add: struct_iommu_group_def place_def align_up_def)

definition struct_ip_conntrack_stat :: ctype where
  "struct_ip_conntrack_stat = CStruct [
     Member ''found'' (CInt 4), Member ''invalid'' (CInt 4), Member ''insert'' (CInt 4),
     Member ''insert_failed'' (CInt 4), Member ''clash_resolve'' (CInt 4),
     Member ''drop'' (CInt 4), Member ''early_drop'' (CInt 4), Member ''error'' (CInt 4),
     Member ''expect_new'' (CInt 4), Member ''expect_create'' (CInt 4),
     Member ''expect_delete'' (CInt 4), Member ''search_restart'' (CInt 4),
     Member ''chaintoolong'' (CInt 4)]"

lemma layout_struct_ip_conntrack_stat [simp]: "cwf struct_ip_conntrack_stat" "calign struct_ip_conntrack_stat = 4" "csize struct_ip_conntrack_stat = 52"
  by (simp_all add: struct_ip_conntrack_stat_def place_def align_up_def)

definition struct_ip_ra_chain :: ctype where
  "struct_ip_ra_chain = CStruct [
     Member ''next'' CPtr, Member ''sk'' CPtr, Member '''' (CUnion [
       Member ''destructor'' CPtr, Member ''saved_sk'' CPtr]),
     Member ''rcu'' struct_callback_head]"

lemma layout_struct_ip_ra_chain [simp]: "cwf struct_ip_ra_chain" "calign struct_ip_ra_chain = 8" "csize struct_ip_ra_chain = 40"
  by (simp_all add: struct_ip_ra_chain_def place_def align_up_def)

definition struct_ipstats_mib :: ctype where
  "struct_ipstats_mib = CStruct [
     Member ''mibs'' (CArray (CInt 8) 38), Member ''syncp'' struct_u64_stats_sync]"

lemma layout_struct_ipstats_mib [simp]: "cwf struct_ipstats_mib" "calign struct_ipstats_mib = 8" "csize struct_ipstats_mib = 304"
  by (simp_all add: struct_ipstats_mib_def place_def align_up_def)

definition struct_irq_domain :: ctype where
  "struct_irq_domain = CStruct [
     Member ''link'' struct_list_head, Member ''name'' CPtr, Member ''ops'' CPtr,
     Member ''host_data'' CPtr, Member ''flags'' (CInt 4), Member ''mapcount'' (CInt 4),
     Member ''mutex'' struct_mutex, Member ''root'' CPtr, Member ''fwnode'' CPtr,
     Member ''bus_token'' (CInt 4), Member ''gc'' CPtr, Member ''dev'' CPtr,
     Member ''pm_dev'' CPtr, Member ''parent'' CPtr, Member ''msi_parent_ops'' CPtr,
     Member ''exit'' CPtr, Member ''hwirq_max'' (CInt 8), Member ''revmap_size'' (CInt 4),
     Member ''revmap_tree'' struct_xarray, Member ''revmap'' (CArray CPtr 0)]"

lemma layout_struct_irq_domain [simp]: "cwf struct_irq_domain" "calign struct_irq_domain = 8" "csize struct_irq_domain = 184"
  by (simp_all add: struct_irq_domain_def place_def align_up_def)

definition struct_iw_handler_def :: ctype where
  "struct_iw_handler_def = CStruct [
     Member ''standard'' CPtr, Member ''num_standard'' (CInt 2), Member ''num_private'' (CInt 2),
     Member ''num_private_args'' (CInt 2), Member ''private'' CPtr, Member ''private_args'' CPtr,
     Member ''get_wireless_stats'' CPtr]"

lemma layout_struct_iw_handler_def [simp]: "cwf struct_iw_handler_def" "calign struct_iw_handler_def = 8" "csize struct_iw_handler_def = 40"
  by (simp_all add: struct_iw_handler_def_def place_def align_up_def)

definition struct_iw_public_data :: ctype where
  "struct_iw_public_data = CStruct [
     Member ''spy_data'' CPtr, Member ''libipw'' CPtr]"

lemma layout_struct_iw_public_data [simp]: "cwf struct_iw_public_data" "calign struct_iw_public_data = 8" "csize struct_iw_public_data = 16"
  by (simp_all add: struct_iw_public_data_def place_def align_up_def)

definition struct_kernfs_elem_dir :: ctype where
  "struct_kernfs_elem_dir = CStruct [
     Member ''subdirs'' (CInt 8), Member ''children'' struct_rb_root, Member ''root'' CPtr,
     Member ''rev'' (CInt 8)]"

lemma layout_struct_kernfs_elem_dir [simp]: "cwf struct_kernfs_elem_dir" "calign struct_kernfs_elem_dir = 8" "csize struct_kernfs_elem_dir = 32"
  by (simp_all add: struct_kernfs_elem_dir_def place_def align_up_def)

definition struct_kernfs_elem_symlink :: ctype where
  "struct_kernfs_elem_symlink = CStruct [
     Member ''target_kn'' CPtr]"

lemma layout_struct_kernfs_elem_symlink [simp]: "cwf struct_kernfs_elem_symlink" "calign struct_kernfs_elem_symlink = 8" "csize struct_kernfs_elem_symlink = 8"
  by (simp_all add: struct_kernfs_elem_symlink_def place_def align_up_def)

definition struct_kernfs_elem_attr :: ctype where
  "struct_kernfs_elem_attr = CStruct [
     Member ''ops'' CPtr, Member ''open'' CPtr, Member ''size'' (CInt 8),
     Member ''notify_next'' CPtr]"

lemma layout_struct_kernfs_elem_attr [simp]: "cwf struct_kernfs_elem_attr" "calign struct_kernfs_elem_attr = 8" "csize struct_kernfs_elem_attr = 32"
  by (simp_all add: struct_kernfs_elem_attr_def place_def align_up_def)

definition struct_kernfs_node :: ctype where
  "struct_kernfs_node = CStruct [
     Member ''count'' type_atomic_t, Member ''active'' type_atomic_t, Member ''parent'' CPtr,
     Member ''name'' CPtr, Member ''rb'' struct_rb_node, Member ''ns'' CPtr,
     Member ''hash'' (CInt 4), Member ''flags'' (CInt 2), Member ''mode'' (CInt 2),
     Member '''' (CUnion [
       Member ''dir'' struct_kernfs_elem_dir, Member ''symlink'' struct_kernfs_elem_symlink,
       Member ''attr'' struct_kernfs_elem_attr]), Member ''id'' (CInt 8), Member ''priv'' CPtr,
     Member ''iattr'' CPtr, Member ''rcu'' struct_callback_head]"

lemma layout_struct_kernfs_node [simp]: "cwf struct_kernfs_node" "calign struct_kernfs_node = 8" "csize struct_kernfs_node = 136"
  by (simp_all add: struct_kernfs_node_def place_def align_up_def)

definition struct_key_tag :: ctype where
  "struct_key_tag = CStruct [
     Member ''rcu'' struct_callback_head, Member ''usage'' struct_refcount_struct,
     Member ''removed'' (CInt 1)]"

lemma layout_struct_key_tag [simp]: "cwf struct_key_tag" "calign struct_key_tag = 8" "csize struct_key_tag = 24"
  by (simp_all add: struct_key_tag_def place_def align_up_def)

definition struct_l3mdev_ops :: ctype where
  "struct_l3mdev_ops = CStruct [
     Member ''l3mdev_fib_table'' CPtr, Member ''l3mdev_l3_rcv'' CPtr,
     Member ''l3mdev_l3_out'' CPtr, Member ''l3mdev_link_scope_lookup'' CPtr]"

lemma layout_struct_l3mdev_ops [simp]: "cwf struct_l3mdev_ops" "calign struct_l3mdev_ops = 8" "csize struct_l3mdev_ops = 32"
  by (simp_all add: struct_l3mdev_ops_def place_def align_up_def)

definition struct_linux_mib :: ctype where
  "struct_linux_mib = CStruct [
     Member ''mibs'' (CArray (CInt 8) 132)]"

lemma layout_struct_linux_mib [simp]: "cwf struct_linux_mib" "calign struct_linux_mib = 8" "csize struct_linux_mib = 1056"
  by (simp_all add: struct_linux_mib_def place_def align_up_def)

definition struct_linux_tls_mib :: ctype where
  "struct_linux_tls_mib = CStruct [
     Member ''mibs'' (CArray (CInt 8) 13)]"

lemma layout_struct_linux_tls_mib [simp]: "cwf struct_linux_tls_mib" "calign struct_linux_tls_mib = 8" "csize struct_linux_tls_mib = 104"
  by (simp_all add: struct_linux_tls_mib_def place_def align_up_def)

definition struct_macsec_ops :: ctype where
  "struct_macsec_ops = CStruct [
     Member ''mdo_dev_open'' CPtr, Member ''mdo_dev_stop'' CPtr, Member ''mdo_add_secy'' CPtr,
     Member ''mdo_upd_secy'' CPtr, Member ''mdo_del_secy'' CPtr, Member ''mdo_add_rxsc'' CPtr,
     Member ''mdo_upd_rxsc'' CPtr, Member ''mdo_del_rxsc'' CPtr, Member ''mdo_add_rxsa'' CPtr,
     Member ''mdo_upd_rxsa'' CPtr, Member ''mdo_del_rxsa'' CPtr, Member ''mdo_add_txsa'' CPtr,
     Member ''mdo_upd_txsa'' CPtr, Member ''mdo_del_txsa'' CPtr,
     Member ''mdo_get_dev_stats'' CPtr, Member ''mdo_get_tx_sc_stats'' CPtr,
     Member ''mdo_get_tx_sa_stats'' CPtr, Member ''mdo_get_rx_sc_stats'' CPtr,
     Member ''mdo_get_rx_sa_stats'' CPtr, Member ''mdo_insert_tx_tag'' CPtr,
     Member ''needed_headroom'' (CInt 4), Member ''needed_tailroom'' (CInt 4),
     Member ''rx_uses_md_dst'' (CInt 1)]"

lemma layout_struct_macsec_ops [simp]: "cwf struct_macsec_ops" "calign struct_macsec_ops = 8" "csize struct_macsec_ops = 176"
  by (simp_all add: struct_macsec_ops_def place_def align_up_def)

definition struct_mptcp_mib :: ctype where
  "struct_mptcp_mib = CStruct [
     Member ''mibs'' (CArray (CInt 8) 64)]"

lemma layout_struct_mptcp_mib [simp]: "cwf struct_mptcp_mib" "calign struct_mptcp_mib = 8" "csize struct_mptcp_mib = 512"
  by (simp_all add: struct_mptcp_mib_def place_def align_up_def)

definition struct_msi_dev_domain :: ctype where
  "struct_msi_dev_domain = CStruct [
     Member ''store'' struct_xarray, Member ''domain'' CPtr]"

lemma layout_struct_msi_dev_domain [simp]: "cwf struct_msi_dev_domain" "calign struct_msi_dev_domain = 8" "csize struct_msi_dev_domain = 24"
  by (simp_all add: struct_msi_dev_domain_def place_def align_up_def)

definition struct_msi_device_data :: ctype where
  "struct_msi_device_data = CStruct [
     Member ''properties'' (CInt 8), Member ''mutex'' struct_mutex,
     Member ''__domains'' (CArray struct_msi_dev_domain 1), Member ''__iter_idx'' (CInt 8)]"

lemma layout_struct_msi_device_data [simp]: "cwf struct_msi_device_data" "calign struct_msi_device_data = 8" "csize struct_msi_device_data = 72"
  by (simp_all add: struct_msi_device_data_def place_def align_up_def)

definition struct_ndisc_ops :: ctype where
  "struct_ndisc_ops = CStruct [
     Member ''is_useropt'' CPtr, Member ''parse_options'' CPtr, Member ''update'' CPtr,
     Member ''opt_addr_space'' CPtr, Member ''fill_addr_option'' CPtr,
     Member ''prefix_rcv_add_addr'' CPtr]"

lemma layout_struct_ndisc_ops [simp]: "cwf struct_ndisc_ops" "calign struct_ndisc_ops = 8" "csize struct_ndisc_ops = 48"
  by (simp_all add: struct_ndisc_ops_def place_def align_up_def)

definition struct_net_device_core_stats :: ctype where
  "struct_net_device_core_stats = CStruct [
     Member ''rx_dropped'' (CInt 8), Member ''tx_dropped'' (CInt 8),
     Member ''rx_nohandler'' (CInt 8), Member ''rx_otherhost_dropped'' (CInt 8)]"

lemma layout_struct_net_device_core_stats [simp]: "cwf struct_net_device_core_stats" "calign struct_net_device_core_stats = 8" "csize struct_net_device_core_stats = 32"
  by (simp_all add: struct_net_device_core_stats_def place_def align_up_def)

definition struct_net_generic :: ctype where
  "struct_net_generic = CStruct [
     Member '''' (CUnion [
       Member ''s'' (CStruct [
         Member ''len'' (CInt 4), Member ''rcu'' struct_callback_head]), Member '''' (CStruct [
         Member ''__empty_ptr'' (CStruct []), Member ''ptr'' (CArray CPtr 0)])])]"

lemma layout_struct_net_generic [simp]: "cwf struct_net_generic" "calign struct_net_generic = 8" "csize struct_net_generic = 24"
  by (simp_all add: struct_net_generic_def place_def align_up_def)

definition struct_netdev_name_node :: ctype where
  "struct_netdev_name_node = CStruct [
     Member ''hlist'' struct_hlist_node, Member ''list'' struct_list_head, Member ''dev'' CPtr,
     Member ''name'' CPtr, Member ''rcu'' struct_callback_head]"

lemma layout_struct_netdev_name_node [simp]: "cwf struct_netdev_name_node" "calign struct_netdev_name_node = 8" "csize struct_netdev_name_node = 64"
  by (simp_all add: struct_netdev_name_node_def place_def align_up_def)

definition struct_netdev_queue_mgmt_ops :: ctype where
  "struct_netdev_queue_mgmt_ops = CStruct [
     Member ''ndo_queue_mem_size'' (CInt 8), Member ''ndo_queue_mem_alloc'' CPtr,
     Member ''ndo_queue_mem_free'' CPtr, Member ''ndo_queue_start'' CPtr,
     Member ''ndo_queue_stop'' CPtr]"

lemma layout_struct_netdev_queue_mgmt_ops [simp]: "cwf struct_netdev_queue_mgmt_ops" "calign struct_netdev_queue_mgmt_ops = 8" "csize struct_netdev_queue_mgmt_ops = 40"
  by (simp_all add: struct_netdev_queue_mgmt_ops_def place_def align_up_def)

definition struct_netdev_stat_ops :: ctype where
  "struct_netdev_stat_ops = CStruct [
     Member ''get_queue_stats_rx'' CPtr, Member ''get_queue_stats_tx'' CPtr,
     Member ''get_base_stats'' CPtr]"

lemma layout_struct_netdev_stat_ops [simp]: "cwf struct_netdev_stat_ops" "calign struct_netdev_stat_ops = 8" "csize struct_netdev_stat_ops = 24"
  by (simp_all add: struct_netdev_stat_ops_def place_def align_up_def)

definition struct_semaphore :: ctype where
  "struct_semaphore = CStruct [
     Member ''lock'' struct_raw_spinlock, Member ''count'' (CInt 4),
     Member ''wait_list'' struct_list_head]"

lemma layout_struct_semaphore [simp]: "cwf struct_semaphore" "calign struct_semaphore = 8" "csize struct_semaphore = 24"
  by (simp_all add: struct_semaphore_def place_def align_up_def)

definition struct_netpoll_info :: ctype where
  "struct_netpoll_info = CStruct [
     Member ''refcnt'' struct_refcount_struct, Member ''dev_lock'' struct_semaphore,
     Member ''txq'' struct_sk_buff_head, Member ''tx_work'' struct_delayed_work,
     Member ''netpoll'' CPtr, Member ''rcu'' struct_callback_head]"

lemma layout_struct_netpoll_info [simp]: "cwf struct_netpoll_info" "calign struct_netpoll_info = 8" "csize struct_netpoll_info = 168"
  by (simp_all add: struct_netpoll_info_def place_def align_up_def)

definition struct_netprio_map :: ctype where
  "struct_netprio_map = CStruct [
     Member ''rcu'' struct_callback_head, Member ''priomap_len'' (CInt 4),
     Member ''priomap'' (CArray (CInt 4) 0)]"

lemma layout_struct_netprio_map [simp]: "cwf struct_netprio_map" "calign struct_netprio_map = 8" "csize struct_netprio_map = 24"
  by (simp_all add: struct_netprio_map_def place_def align_up_def)

definition struct_nf_ct_event_notifier :: ctype where
  "struct_nf_ct_event_notifier = CStruct [
     Member ''ct_event'' CPtr, Member ''exp_event'' CPtr]"

lemma layout_struct_nf_ct_event_notifier [simp]: "cwf struct_nf_ct_event_notifier" "calign struct_nf_ct_event_notifier = 8" "csize struct_nf_ct_event_notifier = 16"
  by (simp_all add: struct_nf_ct_event_notifier_def place_def align_up_def)

definition struct_nf_flow_table_stat :: ctype where
  "struct_nf_flow_table_stat = CStruct [
     Member ''count_wq_add'' (CInt 4), Member ''count_wq_del'' (CInt 4),
     Member ''count_wq_stats'' (CInt 4)]"

lemma layout_struct_nf_flow_table_stat [simp]: "cwf struct_nf_flow_table_stat" "calign struct_nf_flow_table_stat = 4" "csize struct_nf_flow_table_stat = 12"
  by (simp_all add: struct_nf_flow_table_stat_def place_def align_up_def)

definition struct_nf_logger :: ctype where
  "struct_nf_logger = CStruct [
     Member ''name'' CPtr, Member ''type'' (CInt 4), Member ''logfn'' CPtr, Member ''me'' CPtr]"

lemma layout_struct_nf_logger [simp]: "cwf struct_nf_logger" "calign struct_nf_logger = 8" "csize struct_nf_logger = 32"
  by (simp_all add: struct_nf_logger_def place_def align_up_def)

definition struct_notifier_block :: ctype where
  "struct_notifier_block = CStruct [
     Member ''notifier_call'' CPtr, Member ''next'' CPtr, Member ''priority'' (CInt 4)]"

lemma layout_struct_notifier_block [simp]: "cwf struct_notifier_block" "calign struct_notifier_block = 8" "csize struct_notifier_block = 24"
  by (simp_all add: struct_notifier_block_def place_def align_up_def)

definition struct_pcpu_dstats :: ctype where
  "struct_pcpu_dstats = CStruct [
     Member ''rx_packets'' type_u64_stats_t, Member ''rx_bytes'' type_u64_stats_t,
     Member ''rx_drops'' type_u64_stats_t, Member ''tx_packets'' type_u64_stats_t,
     Member ''tx_bytes'' type_u64_stats_t, Member ''tx_drops'' type_u64_stats_t,
     Member ''syncp'' struct_u64_stats_sync, Bits '''' 8 64, Bits '''' 8 64]"

lemma layout_struct_pcpu_dstats [simp]: "cwf struct_pcpu_dstats" "calign struct_pcpu_dstats = 8" "csize struct_pcpu_dstats = 64"
  by (simp_all add: struct_pcpu_dstats_def place_def align_up_def)

definition struct_pcpu_lstats :: ctype where
  "struct_pcpu_lstats = CStruct [
     Member ''packets'' type_u64_stats_t, Member ''bytes'' type_u64_stats_t,
     Member ''syncp'' struct_u64_stats_sync]"

lemma layout_struct_pcpu_lstats [simp]: "cwf struct_pcpu_lstats" "calign struct_pcpu_lstats = 8" "csize struct_pcpu_lstats = 16"
  by (simp_all add: struct_pcpu_lstats_def place_def align_up_def)

definition struct_pcpu_sw_netstats :: ctype where
  "struct_pcpu_sw_netstats = CStruct [
     Member ''rx_packets'' type_u64_stats_t, Member ''rx_bytes'' type_u64_stats_t,
     Member ''tx_packets'' type_u64_stats_t, Member ''tx_bytes'' type_u64_stats_t,
     Member ''syncp'' struct_u64_stats_sync]"

lemma layout_struct_pcpu_sw_netstats [simp]: "cwf struct_pcpu_sw_netstats" "calign struct_pcpu_sw_netstats = 8" "csize struct_pcpu_sw_netstats = 32"
  by (simp_all add: struct_pcpu_sw_netstats_def place_def align_up_def)

definition struct_mdio_device :: ctype where
  "struct_mdio_device = CStruct [
     Member ''dev'' struct_device, Member ''bus'' CPtr, Member ''modalias'' (CArray (CInt 1) 32),
     Member ''bus_match'' CPtr, Member ''device_free'' CPtr, Member ''device_remove'' CPtr,
     Member ''addr'' (CInt 4), Member ''flags'' (CInt 4), Member ''reset_state'' (CInt 4),
     Member ''reset_gpio'' CPtr, Member ''reset_ctrl'' CPtr,
     Member ''reset_assert_delay'' (CInt 4), Member ''reset_deassert_delay'' (CInt 4)]"

lemma layout_struct_mdio_device [simp]: "cwf struct_mdio_device" "calign struct_mdio_device = 8" "csize struct_mdio_device = 856"
  by (simp_all add: struct_mdio_device_def place_def align_up_def)

definition struct_phy_c45_device_ids :: ctype where
  "struct_phy_c45_device_ids = CStruct [
     Member ''devices_in_package'' (CInt 4), Member ''mmds_present'' (CInt 4),
     Member ''device_ids'' (CArray (CInt 4) 32)]"

lemma layout_struct_phy_c45_device_ids [simp]: "cwf struct_phy_c45_device_ids" "calign struct_phy_c45_device_ids = 4" "csize struct_phy_c45_device_ids = 136"
  by (simp_all add: struct_phy_c45_device_ids_def place_def align_up_def)

definition struct_eee_config :: ctype where
  "struct_eee_config = CStruct [
     Member ''tx_lpi_timer'' (CInt 4), Member ''tx_lpi_enabled'' (CInt 1),
     Member ''eee_enabled'' (CInt 1)]"

lemma layout_struct_eee_config [simp]: "cwf struct_eee_config" "calign struct_eee_config = 4" "csize struct_eee_config = 8"
  by (simp_all add: struct_eee_config_def place_def align_up_def)

definition struct_phy_device :: ctype where
  "struct_phy_device = CStruct [
     Member ''mdio'' struct_mdio_device, Member ''drv'' CPtr, Member ''devlink'' CPtr,
     Member ''phy_id'' (CInt 4), Member ''c45_ids'' struct_phy_c45_device_ids,
     Bits ''is_c45'' 4 1, Bits ''is_internal'' 4 1, Bits ''is_pseudo_fixed_link'' 4 1,
     Bits ''is_gigabit_capable'' 4 1, Bits ''has_fixups'' 4 1, Bits ''suspended'' 4 1,
     Bits ''suspended_by_mdio_bus'' 4 1, Bits ''sysfs_links'' 4 1, Bits ''loopback_enabled'' 4 1,
     Bits ''downshifted_rate'' 4 1, Bits ''is_on_sfp_module'' 4 1, Bits ''mac_managed_pm'' 4 1,
     Bits ''wol_enabled'' 4 1, Bits ''autoneg'' 4 1, Bits ''link'' 4 1,
     Bits ''autoneg_complete'' 4 1, Bits ''interrupts'' 4 1, Bits ''irq_suspended'' 4 1,
     Bits ''irq_rerun'' 4 1, Bits ''default_timestamp'' 4 1, Member ''rate_matching'' (CInt 4),
     Member ''state'' (CInt 4), Member ''dev_flags'' (CInt 4), Member ''interface'' (CInt 4),
     Member ''possible_interfaces'' (CArray (CInt 8) 1), Member ''speed'' (CInt 4),
     Member ''duplex'' (CInt 4), Member ''port'' (CInt 4), Member ''pause'' (CInt 4),
     Member ''asym_pause'' (CInt 4), Member ''master_slave_get'' (CInt 1),
     Member ''master_slave_set'' (CInt 1), Member ''master_slave_state'' (CInt 1),
     Member ''supported'' (CArray (CInt 8) 2), Member ''advertising'' (CArray (CInt 8) 2),
     Member ''lp_advertising'' (CArray (CInt 8) 2), Member ''adv_old'' (CArray (CInt 8) 2),
     Member ''supported_eee'' (CArray (CInt 8) 2),
     Member ''advertising_eee'' (CArray (CInt 8) 2), Member ''eee_enabled'' (CInt 1),
     Member ''host_interfaces'' (CArray (CInt 8) 1), Member ''eee_broken_modes'' (CInt 4),
     Member ''enable_tx_lpi'' (CInt 1), Member ''eee_cfg'' struct_eee_config,
     Member ''phy_led_triggers'' CPtr, Member ''phy_num_led_triggers'' (CInt 4),
     Member ''last_triggered'' CPtr, Member ''led_link_trigger'' CPtr,
     Member ''leds'' struct_list_head, Member ''irq'' (CInt 4), Member ''priv'' CPtr,
     Member ''shared'' CPtr, Member ''skb'' CPtr, Member ''ehdr'' CPtr, Member ''nest'' CPtr,
     Member ''state_queue'' struct_delayed_work, Member ''lock'' struct_mutex,
     Member ''sfp_bus_attached'' (CInt 1), Member ''sfp_bus'' CPtr, Member ''phylink'' CPtr,
     Member ''attached_dev'' CPtr, Member ''mii_ts'' CPtr, Member ''psec'' CPtr,
     Member ''mdix'' (CInt 1), Member ''mdix_ctrl'' (CInt 1), Member ''pma_extable'' (CInt 4),
     Member ''link_down_events'' (CInt 4), Member ''phy_link_change'' CPtr,
     Member ''adjust_link'' CPtr, Member ''macsec_ops'' CPtr]"

lemma layout_struct_phy_device [simp]: "cwf struct_phy_device" "calign struct_phy_device = 8" "csize struct_phy_device = 1496"
  by (simp_all add: struct_phy_device_def place_def align_up_def)

definition struct_pm_subsys_data :: ctype where
  "struct_pm_subsys_data = CStruct [
     Member ''lock'' struct_spinlock, Member ''refcount'' (CInt 4),
     Member ''clock_op_might_sleep'' (CInt 4), Member ''clock_mutex'' struct_mutex,
     Member ''clock_list'' struct_list_head, Member ''domain_data'' CPtr]"

lemma layout_struct_pm_subsys_data [simp]: "cwf struct_pm_subsys_data" "calign struct_pm_subsys_data = 8" "csize struct_pm_subsys_data = 72"
  by (simp_all add: struct_pm_subsys_data_def place_def align_up_def)

definition struct_proc_dir_entry :: ctype where
  "struct_proc_dir_entry = CStruct [
     Member ''in_use'' type_atomic_t, Member ''refcnt'' struct_refcount_struct,
     Member ''pde_openers'' struct_list_head, Member ''pde_unload_lock'' struct_spinlock,
     Member ''pde_unload_completion'' CPtr, Member ''proc_iops'' CPtr, Member '''' (CUnion [
       Member ''proc_ops'' CPtr, Member ''proc_dir_ops'' CPtr]), Member ''proc_dops'' CPtr,
     Member '''' (CUnion [
       Member ''seq_ops'' CPtr, Member ''single_show'' CPtr]), Member ''write'' CPtr,
     Member ''data'' CPtr, Member ''state_size'' (CInt 4), Member ''low_ino'' (CInt 4),
     Member ''nlink'' (CInt 4), Member ''uid'' type_kuid_t, Member ''gid'' type_kgid_t,
     Member ''size'' (CInt 8), Member ''parent'' CPtr, Member ''subdir'' struct_rb_root,
     Member ''subdir_node'' struct_rb_node, Member ''name'' CPtr, Member ''mode'' (CInt 2),
     Member ''flags'' (CInt 1), Member ''namelen'' (CInt 1),
     Member ''inline_name'' (CArray (CInt 1) 0)]"

lemma layout_struct_proc_dir_entry [simp]: "cwf struct_proc_dir_entry" "calign struct_proc_dir_entry = 8" "csize struct_proc_dir_entry = 176"
  by (simp_all add: struct_proc_dir_entry_def place_def align_up_def)

definition struct_proc_ns_operations :: ctype where
  "struct_proc_ns_operations = CStruct [
     Member ''name'' CPtr, Member ''real_ns_name'' CPtr, Member ''type'' (CInt 4),
     Member ''get'' CPtr, Member ''put'' CPtr, Member ''install'' CPtr, Member ''owner'' CPtr,
     Member ''get_parent'' CPtr]"

lemma layout_struct_proc_ns_operations [simp]: "cwf struct_proc_ns_operations" "calign struct_proc_ns_operations = 8" "csize struct_proc_ns_operations = 64"
  by (simp_all add: struct_proc_ns_operations_def place_def align_up_def)

definition struct_prot_inuse :: ctype where
  "struct_prot_inuse = CStruct [
     Member ''all'' (CInt 4), Member ''val'' (CArray (CInt 4) 64)]"

lemma layout_struct_prot_inuse [simp]: "cwf struct_prot_inuse" "calign struct_prot_inuse = 4" "csize struct_prot_inuse = 260"
  by (simp_all add: struct_prot_inuse_def place_def align_up_def)

definition struct_rt6_statistics :: ctype where
  "struct_rt6_statistics = CStruct [
     Member ''fib_nodes'' (CInt 4), Member ''fib_route_nodes'' (CInt 4),
     Member ''fib_rt_entries'' (CInt 4), Member ''fib_rt_cache'' (CInt 4),
     Member ''fib_discarded_routes'' (CInt 4), Member ''fib_rt_alloc'' type_atomic_t]"

lemma layout_struct_rt6_statistics [simp]: "cwf struct_rt6_statistics" "calign struct_rt6_statistics = 4" "csize struct_rt6_statistics = 24"
  by (simp_all add: struct_rt6_statistics_def place_def align_up_def)

definition struct_rtnl_hw_stats64 :: ctype where
  "struct_rtnl_hw_stats64 = CStruct [
     Member ''rx_packets'' (CInt 8), Member ''tx_packets'' (CInt 8),
     Member ''rx_bytes'' (CInt 8), Member ''tx_bytes'' (CInt 8), Member ''rx_errors'' (CInt 8),
     Member ''tx_errors'' (CInt 8), Member ''rx_dropped'' (CInt 8),
     Member ''tx_dropped'' (CInt 8), Member ''multicast'' (CInt 8)]"

lemma layout_struct_rtnl_hw_stats64 [simp]: "cwf struct_rtnl_hw_stats64" "calign struct_rtnl_hw_stats64 = 8" "csize struct_rtnl_hw_stats64 = 72"
  by (simp_all add: struct_rtnl_hw_stats64_def place_def align_up_def)

definition struct_seg6_pernet_data :: ctype where
  "struct_seg6_pernet_data = CStruct [
     Member ''lock'' struct_mutex, Member ''tun_src'' CPtr,
     Member ''hmac_infos'' struct_rhashtable]"

lemma layout_struct_seg6_pernet_data [simp]: "cwf struct_seg6_pernet_data" "calign struct_seg6_pernet_data = 8" "csize struct_seg6_pernet_data = 176"
  by (simp_all add: struct_seg6_pernet_data_def place_def align_up_def)

definition struct_sfp_bus :: ctype where
  "struct_sfp_bus = CStruct [
     Member ''kref'' struct_kref, Member ''node'' struct_list_head, Member ''fwnode'' CPtr,
     Member ''socket_ops'' CPtr, Member ''sfp_dev'' CPtr, Member ''sfp'' CPtr,
     Member ''sfp_quirk'' CPtr, Member ''upstream_ops'' CPtr, Member ''upstream'' CPtr,
     Member ''phydev'' CPtr, Member ''registered'' (CInt 1), Member ''started'' (CInt 1)]"

lemma layout_struct_sfp_bus [simp]: "cwf struct_sfp_bus" "calign struct_sfp_bus = 8" "csize struct_sfp_bus = 96"
  by (simp_all add: struct_sfp_bus_def place_def align_up_def)

definition struct_sock_reuseport :: ctype where
  "struct_sock_reuseport = CStruct [
     Member ''rcu'' struct_callback_head, Member ''max_socks'' (CInt 2),
     Member ''num_socks'' (CInt 2), Member ''num_closed_socks'' (CInt 2),
     Member ''incoming_cpu'' (CInt 2), Member ''synq_overflow_ts'' (CInt 4),
     Member ''reuseport_id'' (CInt 4), Bits ''bind_inany'' 4 1, Bits ''has_conns'' 4 1,
     Member ''prog'' CPtr, Member ''socks'' (CArray CPtr 0)]"

lemma layout_struct_sock_reuseport [simp]: "cwf struct_sock_reuseport" "calign struct_sock_reuseport = 8" "csize struct_sock_reuseport = 48"
  by (simp_all add: struct_sock_reuseport_def place_def align_up_def)

definition struct_tcp_fastopen_context :: ctype where
  "struct_tcp_fastopen_context = CStruct [
     Member ''key'' (CArray type_siphash_key_t 2), Member ''num'' (CInt 4),
     Member ''rcu'' struct_callback_head]"

lemma layout_struct_tcp_fastopen_context [simp]: "cwf struct_tcp_fastopen_context" "calign struct_tcp_fastopen_context = 8" "csize struct_tcp_fastopen_context = 56"
  by (simp_all add: struct_tcp_fastopen_context_def place_def align_up_def)

definition struct_tcp_mib :: ctype where
  "struct_tcp_mib = CStruct [
     Member ''mibs'' (CArray (CInt 8) 16)]"

lemma layout_struct_tcp_mib [simp]: "cwf struct_tcp_mib" "calign struct_tcp_mib = 8" "csize struct_tcp_mib = 128"
  by (simp_all add: struct_tcp_mib_def place_def align_up_def)

definition struct_tlsdev_ops :: ctype where
  "struct_tlsdev_ops = CStruct [
     Member ''tls_dev_add'' CPtr, Member ''tls_dev_del'' CPtr, Member ''tls_dev_resync'' CPtr]"

lemma layout_struct_tlsdev_ops [simp]: "cwf struct_tlsdev_ops" "calign struct_tlsdev_ops = 8" "csize struct_tlsdev_ops = 24"
  by (simp_all add: struct_tlsdev_ops_def place_def align_up_def)

definition struct_ucounts :: ctype where
  "struct_ucounts = CStruct [
     Member ''node'' struct_hlist_node, Member ''ns'' CPtr, Member ''uid'' type_kuid_t,
     Member ''count'' type_atomic_t, Member ''ucount'' (CArray type_atomic64_t 12),
     Member ''rlimit'' (CArray type_atomic64_t 4)]"

lemma layout_struct_ucounts [simp]: "cwf struct_ucounts" "calign struct_ucounts = 8" "csize struct_ucounts = 160"
  by (simp_all add: struct_ucounts_def place_def align_up_def)

definition struct_udp_mib :: ctype where
  "struct_udp_mib = CStruct [
     Member ''mibs'' (CArray (CInt 8) 10)]"

lemma layout_struct_udp_mib [simp]: "cwf struct_udp_mib" "calign struct_udp_mib = 8" "csize struct_udp_mib = 80"
  by (simp_all add: struct_udp_mib_def place_def align_up_def)

definition struct_udp_table :: ctype where
  "struct_udp_table = CStruct [
     Member ''hash'' CPtr, Member ''hash2'' CPtr, Member ''mask'' (CInt 4),
     Member ''log'' (CInt 4)]"

lemma layout_struct_udp_table [simp]: "cwf struct_udp_table" "calign struct_udp_table = 8" "csize struct_udp_table = 24"
  by (simp_all add: struct_udp_table_def place_def align_up_def)

definition struct_udp_tunnel_nic_table_info :: ctype where
  "struct_udp_tunnel_nic_table_info = CStruct [
     Member ''n_entries'' (CInt 4), Member ''tunnel_types'' (CInt 4)]"

lemma layout_struct_udp_tunnel_nic_table_info [simp]: "cwf struct_udp_tunnel_nic_table_info" "calign struct_udp_tunnel_nic_table_info = 4" "csize struct_udp_tunnel_nic_table_info = 8"
  by (simp_all add: struct_udp_tunnel_nic_table_info_def place_def align_up_def)

definition struct_udp_tunnel_nic_info :: ctype where
  "struct_udp_tunnel_nic_info = CStruct [
     Member ''set_port'' CPtr, Member ''unset_port'' CPtr, Member ''sync_table'' CPtr,
     Member ''shared'' CPtr, Member ''flags'' (CInt 4),
     Member ''tables'' (CArray struct_udp_tunnel_nic_table_info 4)]"

lemma layout_struct_udp_tunnel_nic_info [simp]: "cwf struct_udp_tunnel_nic_info" "calign struct_udp_tunnel_nic_info = 8" "csize struct_udp_tunnel_nic_info = 72"
  by (simp_all add: struct_udp_tunnel_nic_info_def place_def align_up_def)

definition struct_uevent_sock :: ctype where
  "struct_uevent_sock = CStruct [
     Member ''list'' struct_list_head, Member ''sk'' CPtr]"

lemma layout_struct_uevent_sock [simp]: "cwf struct_uevent_sock" "calign struct_uevent_sock = 8" "csize struct_uevent_sock = 24"
  by (simp_all add: struct_uevent_sock_def place_def align_up_def)

definition struct_vlan_group :: ctype where
  "struct_vlan_group = CStruct [
     Member ''nr_vlan_devs'' (CInt 4), Member ''hlist'' struct_hlist_node,
     Member ''vlan_devices_arrays'' (CArray CPtr 16)]"

lemma layout_struct_vlan_group [simp]: "cwf struct_vlan_group" "calign struct_vlan_group = 8" "csize struct_vlan_group = 152"
  by (simp_all add: struct_vlan_group_def place_def align_up_def)

definition struct_vlan_info :: ctype where
  "struct_vlan_info = CStruct [
     Member ''real_dev'' CPtr, Member ''grp'' struct_vlan_group,
     Member ''vid_list'' struct_list_head, Member ''nr_vids'' (CInt 4),
     Member ''rcu'' struct_callback_head]"

lemma layout_struct_vlan_info [simp]: "cwf struct_vlan_info" "calign struct_vlan_info = 8" "csize struct_vlan_info = 200"
  by (simp_all add: struct_vlan_info_def place_def align_up_def)

definition struct_wake_irq :: ctype where
  "struct_wake_irq = CStruct [
     Member ''dev'' CPtr, Member ''status'' (CInt 4), Member ''irq'' (CInt 4),
     Member ''name'' CPtr]"

lemma layout_struct_wake_irq [simp]: "cwf struct_wake_irq" "calign struct_wake_irq = 8" "csize struct_wake_irq = 24"
  by (simp_all add: struct_wake_irq_def place_def align_up_def)

definition struct_wakeup_source :: ctype where
  "struct_wakeup_source = CStruct [
     Member ''name'' CPtr, Member ''id'' (CInt 4), Member ''entry'' struct_list_head,
     Member ''lock'' struct_spinlock, Member ''wakeirq'' CPtr,
     Member ''timer'' struct_timer_list, Member ''timer_expires'' (CInt 8),
     Member ''total_time'' (CInt 8), Member ''max_time'' (CInt 8), Member ''last_time'' (CInt 8),
     Member ''start_prevent_time'' (CInt 8), Member ''prevent_sleep_time'' (CInt 8),
     Member ''event_count'' (CInt 8), Member ''active_count'' (CInt 8),
     Member ''relax_count'' (CInt 8), Member ''expire_count'' (CInt 8),
     Member ''wakeup_count'' (CInt 8), Member ''dev'' CPtr, Bits ''active'' 1 1,
     Bits ''autosleep_enabled'' 1 1]"

lemma layout_struct_wakeup_source [simp]: "cwf struct_wakeup_source" "calign struct_wakeup_source = 8" "csize struct_wakeup_source = 192"
  by (simp_all add: struct_wakeup_source_def place_def align_up_def)

definition struct_ieee80211_edmg :: ctype where
  "struct_ieee80211_edmg = CStruct [
     Member ''channels'' (CInt 1), Member ''bw_config'' (CInt 4)]"

lemma layout_struct_ieee80211_edmg [simp]: "cwf struct_ieee80211_edmg" "calign struct_ieee80211_edmg = 4" "csize struct_ieee80211_edmg = 8"
  by (simp_all add: struct_ieee80211_edmg_def place_def align_up_def)

definition struct_cfg80211_chan_def :: ctype where
  "struct_cfg80211_chan_def = CStruct [
     Member ''chan'' CPtr, Member ''width'' (CInt 4), Member ''center_freq1'' (CInt 4),
     Member ''center_freq2'' (CInt 4), Member ''edmg'' struct_ieee80211_edmg,
     Member ''freq1_offset'' (CInt 2), Member ''punctured'' (CInt 2)]"

lemma layout_struct_cfg80211_chan_def [simp]: "cwf struct_cfg80211_chan_def" "calign struct_cfg80211_chan_def = 8" "csize struct_cfg80211_chan_def = 32"
  by (simp_all add: struct_cfg80211_chan_def_def place_def align_up_def)

definition struct_ieee80211_mcs_info :: ctype where
  "struct_ieee80211_mcs_info = CStruct [
     Member ''rx_mask'' (CArray (CInt 1) 10), Member ''rx_highest'' (CInt 2),
     Member ''tx_params'' (CInt 1), Member ''reserved'' (CArray (CInt 1) 3)]"

lemma layout_struct_ieee80211_mcs_info [simp]: "cwf struct_ieee80211_mcs_info" "calign struct_ieee80211_mcs_info = 2" "csize struct_ieee80211_mcs_info = 16"
  by (simp_all add: struct_ieee80211_mcs_info_def place_def align_up_def)

definition struct_ieee80211_ht_cap :: ctype where
  "struct_ieee80211_ht_cap = CPacked [
     Member ''cap_info'' (CInt 2), Member ''ampdu_params_info'' (CInt 1),
     Member ''mcs'' struct_ieee80211_mcs_info, Member ''extended_ht_cap_info'' (CInt 2),
     Member ''tx_BF_cap_info'' (CInt 4), Member ''antenna_selection_info'' (CInt 1)]"

lemma layout_struct_ieee80211_ht_cap [simp]: "cwf struct_ieee80211_ht_cap" "calign struct_ieee80211_ht_cap = 1" "csize struct_ieee80211_ht_cap = 26"
  by (simp_all add: struct_ieee80211_ht_cap_def place_def align_up_def)

definition struct_cfg80211_ibss_params :: ctype where
  "struct_cfg80211_ibss_params = CStruct [
     Member ''ssid'' CPtr, Member ''bssid'' CPtr, Member ''chandef'' struct_cfg80211_chan_def,
     Member ''ie'' CPtr, Member ''ssid_len'' (CInt 1), Member ''ie_len'' (CInt 1),
     Member ''beacon_interval'' (CInt 2), Member ''basic_rates'' (CInt 4),
     Member ''channel_fixed'' (CInt 1), Member ''privacy'' (CInt 1),
     Member ''control_port'' (CInt 1), Member ''control_port_over_nl80211'' (CInt 1),
     Member ''userspace_handles_dfs'' (CInt 1), Member ''mcast_rate'' (CArray (CInt 4) 6),
     Member ''ht_capa'' struct_ieee80211_ht_cap, Member ''ht_capa_mask'' struct_ieee80211_ht_cap,
     Member ''wep_keys'' CPtr, Member ''wep_tx_key'' (CInt 4)]"

lemma layout_struct_cfg80211_ibss_params [simp]: "cwf struct_cfg80211_ibss_params" "calign struct_cfg80211_ibss_params = 8" "csize struct_cfg80211_ibss_params = 168"
  by (simp_all add: struct_cfg80211_ibss_params_def place_def align_up_def)

definition struct_cfg80211_crypto_settings :: ctype where
  "struct_cfg80211_crypto_settings = CStruct [
     Member ''wpa_versions'' (CInt 4), Member ''cipher_group'' (CInt 4),
     Member ''n_ciphers_pairwise'' (CInt 4), Member ''ciphers_pairwise'' (CArray (CInt 4) 5),
     Member ''n_akm_suites'' (CInt 4), Member ''akm_suites'' (CArray (CInt 4) 10),
     Member ''control_port'' (CInt 1), Member ''control_port_ethertype'' (CInt 2),
     Member ''control_port_no_encrypt'' (CInt 1), Member ''control_port_over_nl80211'' (CInt 1),
     Member ''control_port_no_preauth'' (CInt 1), Member ''psk'' CPtr, Member ''sae_pwd'' CPtr,
     Member ''sae_pwd_len'' (CInt 1), Member ''sae_pwe'' (CInt 4)]"

lemma layout_struct_cfg80211_crypto_settings [simp]: "cwf struct_cfg80211_crypto_settings" "calign struct_cfg80211_crypto_settings = 8" "csize struct_cfg80211_crypto_settings = 112"
  by (simp_all add: struct_cfg80211_crypto_settings_def place_def align_up_def)

definition struct_ieee80211_vht_mcs_info :: ctype where
  "struct_ieee80211_vht_mcs_info = CStruct [
     Member ''rx_mcs_map'' (CInt 2), Member ''rx_highest'' (CInt 2),
     Member ''tx_mcs_map'' (CInt 2), Member ''tx_highest'' (CInt 2)]"

lemma layout_struct_ieee80211_vht_mcs_info [simp]: "cwf struct_ieee80211_vht_mcs_info" "calign struct_ieee80211_vht_mcs_info = 2" "csize struct_ieee80211_vht_mcs_info = 8"
  by (simp_all add: struct_ieee80211_vht_mcs_info_def place_def align_up_def)

definition struct_ieee80211_vht_cap :: ctype where
  "struct_ieee80211_vht_cap = CStruct [
     Member ''vht_cap_info'' (CInt 4), Member ''supp_mcs'' struct_ieee80211_vht_mcs_info]"

lemma layout_struct_ieee80211_vht_cap [simp]: "cwf struct_ieee80211_vht_cap" "calign struct_ieee80211_vht_cap = 4" "csize struct_ieee80211_vht_cap = 12"
  by (simp_all add: struct_ieee80211_vht_cap_def place_def align_up_def)

definition struct_cfg80211_bss_select_adjust :: ctype where
  "struct_cfg80211_bss_select_adjust = CStruct [
     Member ''band'' (CInt 4), Member ''delta'' (CInt 1)]"

lemma layout_struct_cfg80211_bss_select_adjust [simp]: "cwf struct_cfg80211_bss_select_adjust" "calign struct_cfg80211_bss_select_adjust = 4" "csize struct_cfg80211_bss_select_adjust = 8"
  by (simp_all add: struct_cfg80211_bss_select_adjust_def place_def align_up_def)

definition struct_cfg80211_bss_selection :: ctype where
  "struct_cfg80211_bss_selection = CStruct [
     Member ''behaviour'' (CInt 4), Member ''param'' (CUnion [
       Member ''band_pref'' (CInt 4), Member ''adjust'' struct_cfg80211_bss_select_adjust])]"

lemma layout_struct_cfg80211_bss_selection [simp]: "cwf struct_cfg80211_bss_selection" "calign struct_cfg80211_bss_selection = 4" "csize struct_cfg80211_bss_selection = 12"
  by (simp_all add: struct_cfg80211_bss_selection_def place_def align_up_def)

definition struct_cfg80211_connect_params :: ctype where
  "struct_cfg80211_connect_params = CStruct [
     Member ''channel'' CPtr, Member ''channel_hint'' CPtr, Member ''bssid'' CPtr,
     Member ''bssid_hint'' CPtr, Member ''ssid'' CPtr, Member ''ssid_len'' (CInt 8),
     Member ''auth_type'' (CInt 4), Member ''ie'' CPtr, Member ''ie_len'' (CInt 8),
     Member ''privacy'' (CInt 1), Member ''mfp'' (CInt 4),
     Member ''crypto'' struct_cfg80211_crypto_settings, Member ''key'' CPtr,
     Member ''key_len'' (CInt 1), Member ''key_idx'' (CInt 1), Member ''flags'' (CInt 4),
     Member ''bg_scan_period'' (CInt 4), Member ''ht_capa'' struct_ieee80211_ht_cap,
     Member ''ht_capa_mask'' struct_ieee80211_ht_cap,
     Member ''vht_capa'' struct_ieee80211_vht_cap,
     Member ''vht_capa_mask'' struct_ieee80211_vht_cap, Member ''pbss'' (CInt 1),
     Member ''bss_select'' struct_cfg80211_bss_selection, Member ''prev_bssid'' CPtr,
     Member ''fils_erp_username'' CPtr, Member ''fils_erp_username_len'' (CInt 8),
     Member ''fils_erp_realm'' CPtr, Member ''fils_erp_realm_len'' (CInt 8),
     Member ''fils_erp_next_seq_num'' (CInt 2), Member ''fils_erp_rrk'' CPtr,
     Member ''fils_erp_rrk_len'' (CInt 8), Member ''want_1x'' (CInt 1),
     Member ''edmg'' struct_ieee80211_edmg]"

lemma layout_struct_cfg80211_connect_params [simp]: "cwf struct_cfg80211_connect_params" "calign struct_cfg80211_connect_params = 8" "csize struct_cfg80211_connect_params = 384"
  by (simp_all add: struct_cfg80211_connect_params_def place_def align_up_def)

definition struct_wiphy_work :: ctype where
  "struct_wiphy_work = CStruct [
     Member ''entry'' struct_list_head, Member ''func'' CPtr]"

lemma layout_struct_wiphy_work [simp]: "cwf struct_wiphy_work" "calign struct_wiphy_work = 8" "csize struct_wiphy_work = 24"
  by (simp_all add: struct_wiphy_work_def place_def align_up_def)

definition struct_wireless_dev :: ctype where
  "struct_wireless_dev = CStruct [
     Member ''wiphy'' CPtr, Member ''iftype'' (CInt 4), Member ''list'' struct_list_head,
     Member ''netdev'' CPtr, Member ''identifier'' (CInt 4),
     Member ''mgmt_registrations'' struct_list_head, Bits ''mgmt_registrations_need_update'' 1 1,
     Member ''use_4addr'' (CInt 1), Member ''is_running'' (CInt 1),
     Member ''registered'' (CInt 1), Member ''registering'' (CInt 1), Bits '''' 2 0,
     Member ''address'' (CArray (CInt 1) 6), Member ''conn'' CPtr, Member ''connect_keys'' CPtr,
     Member ''conn_bss_type'' (CInt 4), Member ''conn_owner_nlportid'' (CInt 4),
     Member ''disconnect_wk'' struct_work_struct,
     Member ''disconnect_bssid'' (CArray (CInt 1) 6), Member ''event_list'' struct_list_head,
     Member ''event_lock'' struct_spinlock, Bits ''connected'' 1 1, Member ''ps'' (CInt 1),
     Member ''ps_timeout'' (CInt 4), Member ''ap_unexpected_nlportid'' (CInt 4),
     Member ''owner_nlportid'' (CInt 4), Member ''nl_owner_dead'' (CInt 1),
     Member ''cac_started'' (CInt 1), Member ''cac_start_time'' (CInt 8),
     Member ''cac_time_ms'' (CInt 4), Member ''wext'' (CStruct [
       Member ''ibss'' struct_cfg80211_ibss_params,
       Member ''connect'' struct_cfg80211_connect_params, Member ''keys'' CPtr,
       Member ''ie'' CPtr, Member ''ie_len'' (CInt 8), Member ''bssid'' (CArray (CInt 1) 6),
       Member ''prev_bssid'' (CArray (CInt 1) 6), Member ''ssid'' (CArray (CInt 1) 32),
       Member ''default_key'' (CInt 1), Member ''default_mgmt_key'' (CInt 1),
       Member ''prev_bssid_valid'' (CInt 1)]), Member ''cqm_rssi_work'' struct_wiphy_work,
     Member ''cqm_config'' CPtr, Member ''pmsr_list'' struct_list_head,
     Member ''pmsr_lock'' struct_spinlock, Member ''pmsr_free_wk'' struct_work_struct,
     Member ''unprot_beacon_reported'' (CInt 8), Member ''u'' (CUnion [
       Member ''client'' (CStruct [
         Member ''connected_addr'' (CArray (CInt 1) 6), Member ''ssid'' (CArray (CInt 1) 32),
         Member ''ssid_len'' (CInt 1), Bits '''' 8 0]), Member ''mesh'' (CStruct [
         Member ''beacon_interval'' (CInt 4), Member ''preset_chandef'' struct_cfg80211_chan_def,
         Member ''chandef'' struct_cfg80211_chan_def, Member ''id'' (CArray (CInt 1) 32),
         Member ''id_len'' (CInt 1), Member ''id_up_len'' (CInt 1)]), Member ''ap'' (CStruct [
         Member ''preset_chandef'' struct_cfg80211_chan_def,
         Member ''ssid'' (CArray (CInt 1) 32), Member ''ssid_len'' (CInt 1)]),
       Member ''ibss'' (CStruct [
         Member ''current_bss'' CPtr, Member ''chandef'' struct_cfg80211_chan_def,
         Member ''beacon_interval'' (CInt 4), Member ''ssid'' (CArray (CInt 1) 32),
         Member ''ssid_len'' (CInt 1)]), Member ''ocb'' (CStruct [
         Member ''chandef'' struct_cfg80211_chan_def])]), Member ''links'' (CArray (CStruct [
       Member ''addr'' (CArray (CInt 1) 6), Member '''' (CUnion [
         Member ''ap'' (CStruct [
           Member ''beacon_interval'' (CInt 4), Member ''chandef'' struct_cfg80211_chan_def]),
         Member ''client'' (CStruct [
           Member ''current_bss'' CPtr])])]) 15), Member ''valid_links'' (CInt 2)]"

lemma layout_struct_wireless_dev [simp]: "cwf struct_wireless_dev" "calign struct_wireless_dev = 8" "csize struct_wireless_dev = 1760"
  by (simp_all add: struct_wireless_dev_def place_def align_up_def)

definition struct_wpan_dev :: ctype where
  "struct_wpan_dev = CStruct [
     Member ''wpan_phy'' CPtr, Member ''iftype'' (CInt 4), Member ''list'' struct_list_head,
     Member ''netdev'' CPtr, Member ''header_ops'' CPtr, Member ''lowpan_dev'' CPtr,
     Member ''identifier'' (CInt 4), Member ''pan_id'' (CInt 2), Member ''short_addr'' (CInt 2),
     Member ''extended_addr'' (CInt 8), Member ''bsn'' type_atomic_t,
     Member ''dsn'' type_atomic_t, Member ''min_be'' (CInt 1), Member ''max_be'' (CInt 1),
     Member ''csma_retries'' (CInt 1), Member ''frame_retries'' (CInt 1),
     Member ''lbt'' (CInt 1), Member ''ackreq'' (CInt 1),
     Member ''association_lock'' struct_mutex, Member ''parent'' CPtr,
     Member ''children'' struct_list_head, Member ''max_associations'' (CInt 4),
     Member ''nchildren'' (CInt 4)]"

lemma layout_struct_wpan_dev [simp]: "cwf struct_wpan_dev" "calign struct_wpan_dev = 8" "csize struct_wpan_dev = 152"
  by (simp_all add: struct_wpan_dev_def place_def align_up_def)

definition struct_xdp_dev_bulk_queue :: ctype where
  "struct_xdp_dev_bulk_queue = CStruct [
     Member ''q'' (CArray CPtr 16), Member ''flush_node'' struct_list_head, Member ''dev'' CPtr,
     Member ''dev_rx'' CPtr, Member ''xdp_prog'' CPtr, Member ''count'' (CInt 4)]"

lemma layout_struct_xdp_dev_bulk_queue [simp]: "cwf struct_xdp_dev_bulk_queue" "calign struct_xdp_dev_bulk_queue = 8" "csize struct_xdp_dev_bulk_queue = 176"
  by (simp_all add: struct_xdp_dev_bulk_queue_def place_def align_up_def)

definition struct_xdp_metadata_ops :: ctype where
  "struct_xdp_metadata_ops = CStruct [
     Member ''xmo_rx_timestamp'' CPtr, Member ''xmo_rx_hash'' CPtr,
     Member ''xmo_rx_vlan_tag'' CPtr]"

lemma layout_struct_xdp_metadata_ops [simp]: "cwf struct_xdp_metadata_ops" "calign struct_xdp_metadata_ops = 8" "csize struct_xdp_metadata_ops = 24"
  by (simp_all add: struct_xdp_metadata_ops_def place_def align_up_def)

definition struct_xfrm_mark :: ctype where
  "struct_xfrm_mark = CStruct [
     Member ''v'' (CInt 4), Member ''m'' (CInt 4)]"

lemma layout_struct_xfrm_mark [simp]: "cwf struct_xfrm_mark" "calign struct_xfrm_mark = 4" "csize struct_xfrm_mark = 8"
  by (simp_all add: struct_xfrm_mark_def place_def align_up_def)

definition type_xfrm_address_t :: ctype where
  "type_xfrm_address_t = CUnion [
     Member ''a4'' (CInt 4), Member ''a6'' (CArray (CInt 4) 4), Member ''in6'' struct_in6_addr]"

lemma layout_type_xfrm_address_t [simp]: "cwf type_xfrm_address_t" "calign type_xfrm_address_t = 4" "csize type_xfrm_address_t = 16"
  by (simp_all add: type_xfrm_address_t_def place_def align_up_def)

definition struct_xfrm_selector :: ctype where
  "struct_xfrm_selector = CStruct [
     Member ''daddr'' type_xfrm_address_t, Member ''saddr'' type_xfrm_address_t,
     Member ''dport'' (CInt 2), Member ''dport_mask'' (CInt 2), Member ''sport'' (CInt 2),
     Member ''sport_mask'' (CInt 2), Member ''family'' (CInt 2), Member ''prefixlen_d'' (CInt 1),
     Member ''prefixlen_s'' (CInt 1), Member ''proto'' (CInt 1), Member ''ifindex'' (CInt 4),
     Member ''user'' (CInt 4)]"

lemma layout_struct_xfrm_selector [simp]: "cwf struct_xfrm_selector" "calign struct_xfrm_selector = 4" "csize struct_xfrm_selector = 56"
  by (simp_all add: struct_xfrm_selector_def place_def align_up_def)

definition struct_xfrm_lifetime_cfg :: ctype where
  "struct_xfrm_lifetime_cfg = CStruct [
     Member ''soft_byte_limit'' (CInt 8), Member ''hard_byte_limit'' (CInt 8),
     Member ''soft_packet_limit'' (CInt 8), Member ''hard_packet_limit'' (CInt 8),
     Member ''soft_add_expires_seconds'' (CInt 8), Member ''hard_add_expires_seconds'' (CInt 8),
     Member ''soft_use_expires_seconds'' (CInt 8), Member ''hard_use_expires_seconds'' (CInt 8)]"

lemma layout_struct_xfrm_lifetime_cfg [simp]: "cwf struct_xfrm_lifetime_cfg" "calign struct_xfrm_lifetime_cfg = 8" "csize struct_xfrm_lifetime_cfg = 64"
  by (simp_all add: struct_xfrm_lifetime_cfg_def place_def align_up_def)

definition struct_xfrm_lifetime_cur :: ctype where
  "struct_xfrm_lifetime_cur = CStruct [
     Member ''bytes'' (CInt 8), Member ''packets'' (CInt 8), Member ''add_time'' (CInt 8),
     Member ''use_time'' (CInt 8)]"

lemma layout_struct_xfrm_lifetime_cur [simp]: "cwf struct_xfrm_lifetime_cur" "calign struct_xfrm_lifetime_cur = 8" "csize struct_xfrm_lifetime_cur = 32"
  by (simp_all add: struct_xfrm_lifetime_cur_def place_def align_up_def)

definition struct_xfrm_policy_walk_entry :: ctype where
  "struct_xfrm_policy_walk_entry = CStruct [
     Member ''all'' struct_list_head, Member ''dead'' (CInt 1)]"

lemma layout_struct_xfrm_policy_walk_entry [simp]: "cwf struct_xfrm_policy_walk_entry" "calign struct_xfrm_policy_walk_entry = 8" "csize struct_xfrm_policy_walk_entry = 24"
  by (simp_all add: struct_xfrm_policy_walk_entry_def place_def align_up_def)

definition struct_xfrm_policy_queue :: ctype where
  "struct_xfrm_policy_queue = CStruct [
     Member ''hold_queue'' struct_sk_buff_head, Member ''hold_timer'' struct_timer_list,
     Member ''timeout'' (CInt 8)]"

lemma layout_struct_xfrm_policy_queue [simp]: "cwf struct_xfrm_policy_queue" "calign struct_xfrm_policy_queue = 8" "csize struct_xfrm_policy_queue = 72"
  by (simp_all add: struct_xfrm_policy_queue_def place_def align_up_def)

definition struct_xfrm_id :: ctype where
  "struct_xfrm_id = CStruct [
     Member ''daddr'' type_xfrm_address_t, Member ''spi'' (CInt 4), Member ''proto'' (CInt 1)]"

lemma layout_struct_xfrm_id [simp]: "cwf struct_xfrm_id" "calign struct_xfrm_id = 4" "csize struct_xfrm_id = 24"
  by (simp_all add: struct_xfrm_id_def place_def align_up_def)

definition struct_xfrm_tmpl :: ctype where
  "struct_xfrm_tmpl = CStruct [
     Member ''id'' struct_xfrm_id, Member ''saddr'' type_xfrm_address_t,
     Member ''encap_family'' (CInt 2), Member ''reqid'' (CInt 4), Member ''mode'' (CInt 1),
     Member ''share'' (CInt 1), Member ''optional'' (CInt 1), Member ''allalgs'' (CInt 1),
     Member ''aalgos'' (CInt 4), Member ''ealgos'' (CInt 4), Member ''calgos'' (CInt 4)]"

lemma layout_struct_xfrm_tmpl [simp]: "cwf struct_xfrm_tmpl" "calign struct_xfrm_tmpl = 4" "csize struct_xfrm_tmpl = 64"
  by (simp_all add: struct_xfrm_tmpl_def place_def align_up_def)

definition struct_xfrm_dev_offload :: ctype where
  "struct_xfrm_dev_offload = CStruct [
     Member ''dev'' CPtr, Member ''dev_tracker'' type_netdevice_tracker,
     Member ''real_dev'' CPtr, Member ''offload_handle'' (CInt 8), Bits ''dir'' 1 2,
     Bits ''type'' 1 2, Bits ''flags'' 1 2]"

lemma layout_struct_xfrm_dev_offload [simp]: "cwf struct_xfrm_dev_offload" "calign struct_xfrm_dev_offload = 8" "csize struct_xfrm_dev_offload = 32"
  by (simp_all add: struct_xfrm_dev_offload_def place_def align_up_def)

definition struct_xfrm_policy :: ctype where
  "struct_xfrm_policy = CStruct [
     Member ''xp_net'' type_possible_net_t, Member ''bydst'' struct_hlist_node,
     Member ''byidx'' struct_hlist_node, Member ''lock'' type_rwlock_t,
     Member ''refcnt'' struct_refcount_struct, Member ''pos'' (CInt 4),
     Member ''timer'' struct_timer_list, Member ''genid'' type_atomic_t,
     Member ''priority'' (CInt 4), Member ''index'' (CInt 4), Member ''if_id'' (CInt 4),
     Member ''mark'' struct_xfrm_mark, Member ''selector'' struct_xfrm_selector,
     Member ''lft'' struct_xfrm_lifetime_cfg, Member ''curlft'' struct_xfrm_lifetime_cur,
     Member ''walk'' struct_xfrm_policy_walk_entry, Member ''polq'' struct_xfrm_policy_queue,
     Member ''bydst_reinsert'' (CInt 1), Member ''type'' (CInt 1), Member ''action'' (CInt 1),
     Member ''flags'' (CInt 1), Member ''xfrm_nr'' (CInt 1), Member ''family'' (CInt 2),
     Member ''security'' CPtr, Member ''xfrm_vec'' (CArray struct_xfrm_tmpl 6),
     Member ''bydst_inexact_list'' struct_hlist_node, Member ''rcu'' struct_callback_head,
     Member ''xdo'' struct_xfrm_dev_offload]"

lemma layout_struct_xfrm_policy [simp]: "cwf struct_xfrm_policy" "calign struct_xfrm_policy = 8" "csize struct_xfrm_policy = 832"
  by (simp_all add: struct_xfrm_policy_def place_def align_up_def)

definition struct_xfrmdev_ops :: ctype where
  "struct_xfrmdev_ops = CStruct [
     Member ''xdo_dev_state_add'' CPtr, Member ''xdo_dev_state_delete'' CPtr,
     Member ''xdo_dev_state_free'' CPtr, Member ''xdo_dev_offload_ok'' CPtr,
     Member ''xdo_dev_state_advance_esn'' CPtr, Member ''xdo_dev_state_update_stats'' CPtr,
     Member ''xdo_dev_policy_add'' CPtr, Member ''xdo_dev_policy_delete'' CPtr,
     Member ''xdo_dev_policy_free'' CPtr]"

lemma layout_struct_xfrmdev_ops [simp]: "cwf struct_xfrmdev_ops" "calign struct_xfrmdev_ops = 8" "csize struct_xfrmdev_ops = 72"
  by (simp_all add: struct_xfrmdev_ops_def place_def align_up_def)

definition struct_xps_dev_maps :: ctype where
  "struct_xps_dev_maps = CStruct [
     Member ''rcu'' struct_callback_head, Member ''nr_ids'' (CInt 4), Member ''num_tc'' (CInt 2),
     Member ''attr_map'' (CArray CPtr 0)]"

lemma layout_struct_xps_dev_maps [simp]: "cwf struct_xps_dev_maps" "calign struct_xps_dev_maps = 8" "csize struct_xps_dev_maps = 24"
  by (simp_all add: struct_xps_dev_maps_def place_def align_up_def)

definition struct_xsk_tx_metadata_ops :: ctype where
  "struct_xsk_tx_metadata_ops = CStruct [
     Member ''tmo_request_timestamp'' CPtr, Member ''tmo_fill_timestamp'' CPtr,
     Member ''tmo_request_checksum'' CPtr]"

lemma layout_struct_xsk_tx_metadata_ops [simp]: "cwf struct_xsk_tx_metadata_ops" "calign struct_xsk_tx_metadata_ops = 8" "csize struct_xsk_tx_metadata_ops = 24"
  by (simp_all add: struct_xsk_tx_metadata_ops_def place_def align_up_def)

text \<open>Every structure of this theory, by name.\<close>

definition near_types :: "(string \<times> ctype) list" where
  "near_types = [
     (''struct_attribute_group'', struct_attribute_group),
     (''struct_bpf_local_storage'', struct_bpf_local_storage),
     (''struct_bpf_mprog_fp'', struct_bpf_mprog_fp),
     (''struct_bpf_mprog_entry'', struct_bpf_mprog_entry),
     (''struct_bpf_prog_array_item'', struct_bpf_prog_array_item),
     (''struct_bpf_prog_array'', struct_bpf_prog_array),
     (''struct_bpf_xdp_link'', struct_bpf_xdp_link),
     (''struct_bus_dma_region'', struct_bus_dma_region), (''struct_cma'', struct_cma),
     (''struct_cpu_rmap'', struct_cpu_rmap), (''struct_ctl_node'', struct_ctl_node),
     (''struct_ctl_table'', struct_ctl_table),
     (''struct_ctl_table_root'', struct_ctl_table_root),
     (''struct_dcbnl_rtnl_ops'', struct_dcbnl_rtnl_ops),
     (''struct_dev_ifalias'', struct_dev_ifalias), (''struct_dev_iommu'', struct_dev_iommu),
     (''struct_dev_pin_info'', struct_dev_pin_info), (''struct_dev_pm_ops'', struct_dev_pm_ops),
     (''struct_dev_pm_domain'', struct_dev_pm_domain),
     (''struct_pm_qos_constraints'', struct_pm_qos_constraints),
     (''struct_freq_constraints'', struct_freq_constraints),
     (''struct_pm_qos_flags'', struct_pm_qos_flags), (''struct_dev_pm_qos'', struct_dev_pm_qos),
     (''struct_device_dma_parameters'', struct_device_dma_parameters),
     (''struct_fwnode_handle'', struct_fwnode_handle),
     (''struct_device_node'', struct_device_node),
     (''struct_device_physical_location'', struct_device_physical_location),
     (''struct_klist'', struct_klist), (''struct_klist_node'', struct_klist_node),
     (''struct_device_private'', struct_device_private),
     (''struct_device_type'', struct_device_type),
     (''struct_netdev_phys_item_id'', struct_netdev_phys_item_id),
     (''struct_devlink_port_phys_attrs'', struct_devlink_port_phys_attrs),
     (''struct_devlink_port_pci_pf_attrs'', struct_devlink_port_pci_pf_attrs),
     (''struct_devlink_port_pci_vf_attrs'', struct_devlink_port_pci_vf_attrs),
     (''struct_devlink_port_pci_sf_attrs'', struct_devlink_port_pci_sf_attrs),
     (''struct_devlink_port_attrs'', struct_devlink_port_attrs),
     (''struct_devlink_port'', struct_devlink_port),
     (''struct_dim_irq_moder'', struct_dim_irq_moder),
     (''struct_dm_hw_stat_delta'', struct_dm_hw_stat_delta),
     (''struct_dma_map_ops'', struct_dma_map_ops),
     (''struct_dpll_pin_phase_adjust_range'', struct_dpll_pin_phase_adjust_range),
     (''struct_dpll_pin_properties'', struct_dpll_pin_properties),
     (''struct_dpll_pin'', struct_dpll_pin), (''struct_phylink_config'', struct_phylink_config),
     (''struct_dsa_port'', struct_dsa_port), (''struct_em_perf_domain'', struct_em_perf_domain),
     (''struct_ethtool_netdev_state'', struct_ethtool_netdev_state),
     (''struct_fib6_node'', struct_fib6_node),
     (''struct_inet_peer_base'', struct_inet_peer_base),
     (''struct_fib6_table'', struct_fib6_table),
     (''struct_fib_notifier_ops'', struct_fib_notifier_ops),
     (''struct_fib_rules_ops'', struct_fib_rules_ops), (''struct_fib_table'', struct_fib_table),
     (''struct_fqdir'', struct_fqdir), (''struct_header_ops'', struct_header_ops),
     (''struct_icmp_mib'', struct_icmp_mib), (''struct_icmpmsg_mib'', struct_icmpmsg_mib),
     (''struct_icmpv6_mib'', struct_icmpv6_mib),
     (''struct_icmpv6msg_mib'', struct_icmpv6msg_mib),
     (''struct_inet_hashinfo'', struct_inet_hashinfo),
     (''struct_io_tlb_pool'', struct_io_tlb_pool), (''struct_io_tlb_mem'', struct_io_tlb_mem),
     (''struct_ioam6_pernet_data'', struct_ioam6_pernet_data),
     (''struct_iommu_group'', struct_iommu_group),
     (''struct_ip_conntrack_stat'', struct_ip_conntrack_stat),
     (''struct_ip_ra_chain'', struct_ip_ra_chain), (''struct_ipstats_mib'', struct_ipstats_mib),
     (''struct_irq_domain'', struct_irq_domain),
     (''struct_iw_handler_def'', struct_iw_handler_def),
     (''struct_iw_public_data'', struct_iw_public_data),
     (''struct_kernfs_elem_dir'', struct_kernfs_elem_dir),
     (''struct_kernfs_elem_symlink'', struct_kernfs_elem_symlink),
     (''struct_kernfs_elem_attr'', struct_kernfs_elem_attr),
     (''struct_kernfs_node'', struct_kernfs_node), (''struct_key_tag'', struct_key_tag),
     (''struct_l3mdev_ops'', struct_l3mdev_ops), (''struct_linux_mib'', struct_linux_mib),
     (''struct_linux_tls_mib'', struct_linux_tls_mib),
     (''struct_macsec_ops'', struct_macsec_ops), (''struct_mptcp_mib'', struct_mptcp_mib),
     (''struct_msi_dev_domain'', struct_msi_dev_domain),
     (''struct_msi_device_data'', struct_msi_device_data),
     (''struct_ndisc_ops'', struct_ndisc_ops),
     (''struct_net_device_core_stats'', struct_net_device_core_stats),
     (''struct_net_generic'', struct_net_generic),
     (''struct_netdev_name_node'', struct_netdev_name_node),
     (''struct_netdev_queue_mgmt_ops'', struct_netdev_queue_mgmt_ops),
     (''struct_netdev_stat_ops'', struct_netdev_stat_ops),
     (''struct_semaphore'', struct_semaphore), (''struct_netpoll_info'', struct_netpoll_info),
     (''struct_netprio_map'', struct_netprio_map),
     (''struct_nf_ct_event_notifier'', struct_nf_ct_event_notifier),
     (''struct_nf_flow_table_stat'', struct_nf_flow_table_stat),
     (''struct_nf_logger'', struct_nf_logger),
     (''struct_notifier_block'', struct_notifier_block),
     (''struct_pcpu_dstats'', struct_pcpu_dstats), (''struct_pcpu_lstats'', struct_pcpu_lstats),
     (''struct_pcpu_sw_netstats'', struct_pcpu_sw_netstats),
     (''struct_mdio_device'', struct_mdio_device),
     (''struct_phy_c45_device_ids'', struct_phy_c45_device_ids),
     (''struct_eee_config'', struct_eee_config), (''struct_phy_device'', struct_phy_device),
     (''struct_pm_subsys_data'', struct_pm_subsys_data),
     (''struct_proc_dir_entry'', struct_proc_dir_entry),
     (''struct_proc_ns_operations'', struct_proc_ns_operations),
     (''struct_prot_inuse'', struct_prot_inuse),
     (''struct_rt6_statistics'', struct_rt6_statistics),
     (''struct_rtnl_hw_stats64'', struct_rtnl_hw_stats64),
     (''struct_seg6_pernet_data'', struct_seg6_pernet_data),
     (''struct_sfp_bus'', struct_sfp_bus), (''struct_sock_reuseport'', struct_sock_reuseport),
     (''struct_tcp_fastopen_context'', struct_tcp_fastopen_context),
     (''struct_tcp_mib'', struct_tcp_mib), (''struct_tlsdev_ops'', struct_tlsdev_ops),
     (''struct_ucounts'', struct_ucounts), (''struct_udp_mib'', struct_udp_mib),
     (''struct_udp_table'', struct_udp_table),
     (''struct_udp_tunnel_nic_table_info'', struct_udp_tunnel_nic_table_info),
     (''struct_udp_tunnel_nic_info'', struct_udp_tunnel_nic_info),
     (''struct_uevent_sock'', struct_uevent_sock), (''struct_vlan_group'', struct_vlan_group),
     (''struct_vlan_info'', struct_vlan_info), (''struct_wake_irq'', struct_wake_irq),
     (''struct_wakeup_source'', struct_wakeup_source),
     (''struct_ieee80211_edmg'', struct_ieee80211_edmg),
     (''struct_cfg80211_chan_def'', struct_cfg80211_chan_def),
     (''struct_ieee80211_mcs_info'', struct_ieee80211_mcs_info),
     (''struct_ieee80211_ht_cap'', struct_ieee80211_ht_cap),
     (''struct_cfg80211_ibss_params'', struct_cfg80211_ibss_params),
     (''struct_cfg80211_crypto_settings'', struct_cfg80211_crypto_settings),
     (''struct_ieee80211_vht_mcs_info'', struct_ieee80211_vht_mcs_info),
     (''struct_ieee80211_vht_cap'', struct_ieee80211_vht_cap),
     (''struct_cfg80211_bss_select_adjust'', struct_cfg80211_bss_select_adjust),
     (''struct_cfg80211_bss_selection'', struct_cfg80211_bss_selection),
     (''struct_cfg80211_connect_params'', struct_cfg80211_connect_params),
     (''struct_wiphy_work'', struct_wiphy_work), (''struct_wireless_dev'', struct_wireless_dev),
     (''struct_wpan_dev'', struct_wpan_dev),
     (''struct_xdp_dev_bulk_queue'', struct_xdp_dev_bulk_queue),
     (''struct_xdp_metadata_ops'', struct_xdp_metadata_ops),
     (''struct_xfrm_mark'', struct_xfrm_mark), (''type_xfrm_address_t'', type_xfrm_address_t),
     (''struct_xfrm_selector'', struct_xfrm_selector),
     (''struct_xfrm_lifetime_cfg'', struct_xfrm_lifetime_cfg),
     (''struct_xfrm_lifetime_cur'', struct_xfrm_lifetime_cur),
     (''struct_xfrm_policy_walk_entry'', struct_xfrm_policy_walk_entry),
     (''struct_xfrm_policy_queue'', struct_xfrm_policy_queue),
     (''struct_xfrm_id'', struct_xfrm_id), (''struct_xfrm_tmpl'', struct_xfrm_tmpl),
     (''struct_xfrm_dev_offload'', struct_xfrm_dev_offload),
     (''struct_xfrm_policy'', struct_xfrm_policy), (''struct_xfrmdev_ops'', struct_xfrmdev_ops),
     (''struct_xps_dev_maps'', struct_xps_dev_maps),
     (''struct_xsk_tx_metadata_ops'', struct_xsk_tx_metadata_ops)]"

lemma near_types_wf: "list_all (\<lambda>(x, t). cwf t) near_types"
  by (simp add: near_types_def)

end
