(* ===== verification/Kernel_Far.thy ===== *)
theory Kernel_Far
  imports Kernel_Near
begin

text \<open>
  The structures of agent/vmlinux.h that are four pointers away from the context the hook is
  called with, first part (in the order of their names): attributes, device management, link
  settings, routing rules, and what they contain by value.
\<close>

definition struct_ack_sample :: ctype where
  "struct_ack_sample = CStruct [
     Member ''pkts_acked'' (CInt 4), Member ''rtt_us'' (CInt 4), Member ''in_flight'' (CInt 4)]"

lemma layout_struct_ack_sample [simp]: "cwf struct_ack_sample" "calign struct_ack_sample = 4" "csize struct_ack_sample = 12"
  by (simp_all add: struct_ack_sample_def place_def align_up_def)

definition struct_acpi_device_id :: ctype where
  "struct_acpi_device_id = CStruct [
     Member ''id'' (CArray (CInt 1) 16), Member ''driver_data'' (CInt 8),
     Member ''cls'' (CInt 4), Member ''cls_msk'' (CInt 4)]"

lemma layout_struct_acpi_device_id [simp]: "cwf struct_acpi_device_id" "calign struct_acpi_device_id = 8" "csize struct_acpi_device_id = 32"
  by (simp_all add: struct_acpi_device_id_def place_def align_up_def)

definition struct_attribute :: ctype where
  "struct_attribute = CStruct [
     Member ''name'' CPtr, Member ''mode'' (CInt 2)]"

lemma layout_struct_attribute [simp]: "cwf struct_attribute" "calign struct_attribute = 8" "csize struct_attribute = 16"
  by (simp_all add: struct_attribute_def place_def align_up_def)

definition struct_bin_attribute :: ctype where
  "struct_bin_attribute = CStruct [
     Member ''attr'' struct_attribute, Member ''size'' (CInt 8), Member ''private'' CPtr,
     Member ''f_mapping'' CPtr, Member ''read'' CPtr, Member ''write'' CPtr,
     Member ''llseek'' CPtr, Member ''mmap'' CPtr]"

lemma layout_struct_bin_attribute [simp]: "cwf struct_bin_attribute" "calign struct_bin_attribute = 8" "csize struct_bin_attribute = 72"
  by (simp_all add: struct_bin_attribute_def place_def align_up_def)

definition struct_binfmt_misc :: ctype where
  "struct_binfmt_misc = CStruct [
     Member ''entries'' struct_list_head, Member ''entries_lock'' type_rwlock_t,
     Member ''enabled'' (CInt 1)]"

lemma layout_struct_binfmt_misc [simp]: "cwf struct_binfmt_misc" "calign struct_binfmt_misc = 8" "csize struct_binfmt_misc = 32"
  by (simp_all add: struct_binfmt_misc_def place_def align_up_def)

definition struct_bpf_cgroup_storage_key :: ctype where
  "struct_bpf_cgroup_storage_key = CStruct [
     Member ''cgroup_inode_id'' (CInt 8), Member ''attach_type'' (CInt 4)]"

lemma layout_struct_bpf_cgroup_storage_key [simp]: "cwf struct_bpf_cgroup_storage_key" "calign struct_bpf_cgroup_storage_key = 8" "csize struct_bpf_cgroup_storage_key = 16"
  by (simp_all add: struct_bpf_cgroup_storage_key_def place_def align_up_def)

definition struct_bpf_cgroup_storage :: ctype where
  "struct_bpf_cgroup_storage = CStruct [
     Member '''' (CUnion [
       Member ''buf'' CPtr, Member ''percpu_buf'' CPtr]), Member ''map'' CPtr,
     Member ''key'' struct_bpf_cgroup_storage_key, Member ''list_map'' struct_list_head,
     Member ''list_cg'' struct_list_head, Member ''node'' struct_rb_node,
     Member ''rcu'' struct_callback_head]"

lemma layout_struct_bpf_cgroup_storage [simp]: "cwf struct_bpf_cgroup_storage" "calign struct_bpf_cgroup_storage = 8" "csize struct_bpf_cgroup_storage = 104"
  by (simp_all add: struct_bpf_cgroup_storage_def place_def align_up_def)

definition struct_bpf_local_storage_data :: ctype where
  "struct_bpf_local_storage_data = CStruct [
     Member ''smap'' CPtr, Member ''data'' (CArray (CInt 1) 0)]"

lemma layout_struct_bpf_local_storage_data [simp]: "cwf struct_bpf_local_storage_data" "calign struct_bpf_local_storage_data = 8" "csize struct_bpf_local_storage_data = 8"
  by (simp_all add: struct_bpf_local_storage_data_def place_def align_up_def)

definition struct_bpf_local_storage_map :: ctype where
  "struct_bpf_local_storage_map = CStruct [
     Member ''map'' struct_bpf_map, Member ''buckets'' CPtr, Member ''bucket_log'' (CInt 4),
     Member ''elem_size'' (CInt 2), Member ''cache_idx'' (CInt 2),
     Member ''selem_ma'' struct_bpf_mem_alloc, Member ''storage_ma'' struct_bpf_mem_alloc,
     Member ''bpf_ma'' (CInt 1)]"

lemma layout_struct_bpf_local_storage_map [simp]: "cwf struct_bpf_local_storage_map" "calign struct_bpf_local_storage_map = 8" "csize struct_bpf_local_storage_map = 400"
  by (simp_all add: struct_bpf_local_storage_map_def place_def align_up_def)

definition struct_bpf_mprog_cp :: ctype where
  "struct_bpf_mprog_cp = CStruct [
     Member ''link'' CPtr]"

lemma layout_struct_bpf_mprog_cp [simp]: "cwf struct_bpf_mprog_cp" "calign struct_bpf_mprog_cp = 8" "csize struct_bpf_mprog_cp = 8"
  by (simp_all add: struct_bpf_mprog_cp_def place_def align_up_def)

definition struct_bpf_mprog_bundle :: ctype where
  "struct_bpf_mprog_bundle = CStruct [
     Member ''a'' struct_bpf_mprog_entry, Member ''b'' struct_bpf_mprog_entry,
     Member ''cp_items'' (CArray struct_bpf_mprog_cp 64), Member ''ref'' CPtr,
     Member ''revision'' type_atomic64_t, Member ''count'' (CInt 4)]"

lemma layout_struct_bpf_mprog_bundle [simp]: "cwf struct_bpf_mprog_bundle" "calign struct_bpf_mprog_bundle = 8" "csize struct_bpf_mprog_bundle = 1576"
  by (simp_all add: struct_bpf_mprog_bundle_def place_def align_up_def)

definition struct_bucket_table :: ctype where
  "struct_bucket_table = CStruct [
     Member ''size'' (CInt 4), Member ''nest'' (CInt 4), Member ''hash_rnd'' (CInt 4),
     Member ''walkers'' struct_list_head, Member ''rcu'' struct_callback_head,
     Member ''future_tbl'' CPtr, Member ''dep_map'' struct_lockdep_map, Bits '''' 8 64,
     Member ''buckets'' (CArray CPtr 0)]"

lemma layout_struct_bucket_table [simp]: "cwf struct_bucket_table" "calign struct_bucket_table = 8" "csize struct_bucket_table = 64"
  by (simp_all add: struct_bucket_table_def place_def align_up_def)

definition struct_cee_pfc :: ctype where
  "struct_cee_pfc = CStruct [
     Member ''willing'' (CInt 1), Member ''error'' (CInt 1), Member ''pfc_en'' (CInt 1),
     Member ''tcs_supported'' (CInt 1)]"

lemma layout_struct_cee_pfc [simp]: "cwf struct_cee_pfc" "calign struct_cee_pfc = 1" "csize struct_cee_pfc = 4"
  by (simp_all add: struct_cee_pfc_def place_def align_up_def)

definition struct_cee_pg :: ctype where
  "struct_cee_pg = CStruct [
     Member ''willing'' (CInt 1), Member ''error'' (CInt 1), Member ''pg_en'' (CInt 1),
     Member ''tcs_supported'' (CInt 1), Member ''pg_bw'' (CArray (CInt 1) 8),
     Member ''prio_pg'' (CArray (CInt 1) 8)]"

lemma layout_struct_cee_pg [simp]: "cwf struct_cee_pg" "calign struct_cee_pg = 1" "csize struct_cee_pg = 20"
  by (simp_all add: struct_cee_pg_def place_def align_up_def)

definition struct_cgroup_root :: ctype where
  "struct_cgroup_root = CStruct [
     Member ''kf_root'' CPtr, Member ''subsys_mask'' (CInt 4), Member ''hierarchy_id'' (CInt 4),
     Member ''root_list'' struct_list_head, Member ''rcu'' struct_callback_head, Bits '''' 8 64,
     Bits '''' 8 64, Member ''cgrp'' struct_cgroup, Member ''cgrp_ancestor_storage'' CPtr,
     Member ''nr_cgrps'' type_atomic_t, Member ''flags'' (CInt 4),
     Member ''release_agent_path'' (CArray (CInt 1) 4096), Member ''name'' (CArray (CInt 1) 64),
     Bits '''' 8 64, Bits '''' 8 64, Bits '''' 8 64, Bits '''' 8 64, Bits '''' 8 64,
     Bits '''' 8 64]"

lemma layout_struct_cgroup_root [simp]: "cwf struct_cgroup_root" "calign struct_cgroup_root = 8" "csize struct_cgroup_root = 6272"
  by (simp_all add: struct_cgroup_root_def place_def align_up_def)

definition struct_cgroup_rstat_cpu :: ctype where
  "struct_cgroup_rstat_cpu = CStruct [
     Member ''bsync'' struct_u64_stats_sync, Member ''bstat'' struct_cgroup_base_stat,
     Member ''last_bstat'' struct_cgroup_base_stat,
     Member ''subtree_bstat'' struct_cgroup_base_stat,
     Member ''last_subtree_bstat'' struct_cgroup_base_stat, Member ''updated_children'' CPtr,
     Member ''updated_next'' CPtr]"

lemma layout_struct_cgroup_rstat_cpu [simp]: "cwf struct_cgroup_rstat_cpu" "calign struct_cgroup_rstat_cpu = 8" "csize struct_cgroup_rstat_cpu = 144"
  by (simp_all add: struct_cgroup_rstat_cpu_def place_def align_up_def)

definition struct_ctl_table_poll :: ctype where
  "struct_ctl_table_poll = CStruct [
     Member ''event'' type_atomic_t, Member ''wait'' struct_wait_queue_head]"

lemma layout_struct_ctl_table_poll [simp]: "cwf struct_ctl_table_poll" "calign struct_ctl_table_poll = 8" "csize struct_ctl_table_poll = 32"
  by (simp_all add: struct_ctl_table_poll_def place_def align_up_def)

definition struct_dcb_app :: ctype where
  "struct_dcb_app = CStruct [
     Member ''selector'' (CInt 1), Member ''priority'' (CInt 1), Member ''protocol'' (CInt 2)]"

lemma layout_struct_dcb_app [simp]: "cwf struct_dcb_app" "calign struct_dcb_app = 2" "csize struct_dcb_app = 4"
  by (simp_all add: struct_dcb_app_def place_def align_up_def)

definition struct_dcb_peer_app_info :: ctype where
  "struct_dcb_peer_app_info = CStruct [
     Member ''willing'' (CInt 1), Member ''error'' (CInt 1)]"

lemma layout_struct_dcb_peer_app_info [simp]: "cwf struct_dcb_peer_app_info" "calign struct_dcb_peer_app_info = 1" "csize struct_dcb_peer_app_info = 2"
  by (simp_all add: struct_dcb_peer_app_info_def place_def align_up_def)

definition struct_dcbnl_buffer :: ctype where
  "struct_dcbnl_buffer = CStruct [
     Member ''prio2buffer'' (CArray (CInt 1) 8), Member ''buffer_size'' (CArray (CInt 4) 8),
     Member ''total_size'' (CInt 4)]"

lemma layout_struct_dcbnl_buffer [simp]: "cwf struct_dcbnl_buffer" "calign struct_dcbnl_buffer = 4" "csize struct_dcbnl_buffer = 44"
  by (simp_all add: struct_dcbnl_buffer_def place_def align_up_def)

definition struct_vmem_altmap :: ctype where
  "struct_vmem_altmap = CStruct [
     Member ''base_pfn'' (CInt 8), Member ''end_pfn'' (CInt 8), Member ''reserve'' (CInt 8),
     Member ''free'' (CInt 8), Member ''align'' (CInt 8), Member ''alloc'' (CInt 8),
     Member ''inaccessible'' (CInt 1)]"

lemma layout_struct_vmem_altmap [simp]: "cwf struct_vmem_altmap" "calign struct_vmem_altmap = 8" "csize struct_vmem_altmap = 56"
  by (simp_all add: struct_vmem_altmap_def place_def align_up_def)

definition struct_range :: ctype where
  "struct_range = CStruct [
     Member ''start'' (CInt 8), Member ''end'' (CInt 8)]"

lemma layout_struct_range [simp]: "cwf struct_range" "calign struct_range = 8" "csize struct_range = 16"
  by (simp_all add: struct_range_def place_def align_up_def)

definition struct_dev_pagemap :: ctype where
  "struct_dev_pagemap = CStruct [
     Member ''altmap'' struct_vmem_altmap, Member ''ref'' struct_percpu_ref,
     Member ''done'' struct_completion, Member ''type'' (CInt 4), Member ''flags'' (CInt 4),
     Member ''vmemmap_shift'' (CInt 8), Member ''ops'' CPtr, Member ''owner'' CPtr,
     Member ''nr_range'' (CInt 4), Member '''' (CUnion [
       Member ''range'' struct_range, Member '''' (CStruct [
         Member ''__empty_ranges'' (CStruct []), Member ''ranges'' (CArray struct_range 0)])])]"

lemma layout_struct_dev_pagemap [simp]: "cwf struct_dev_pagemap" "calign struct_dev_pagemap = 8" "csize struct_dev_pagemap = 160"
  by (simp_all add: struct_dev_pagemap_def place_def align_up_def)

definition struct_pm_qos_flags_request :: ctype where
  "struct_pm_qos_flags_request = CStruct [
     Member ''node'' struct_list_head, Member ''flags'' (CInt 4)]"

lemma layout_struct_pm_qos_flags_request [simp]: "cwf struct_pm_qos_flags_request" "calign struct_pm_qos_flags_request = 8" "csize struct_pm_qos_flags_request = 24"
  by (simp_all add: struct_pm_qos_flags_request_def place_def align_up_def)

definition struct_freq_qos_request :: ctype where
  "struct_freq_qos_request = CStruct [
     Member ''type'' (CInt 4), Member ''pnode'' struct_plist_node, Member ''qos'' CPtr]"

lemma layout_struct_freq_qos_request [simp]: "cwf struct_freq_qos_request" "calign struct_freq_qos_request = 8" "csize struct_freq_qos_request = 56"
  by (simp_all add: struct_freq_qos_request_def place_def align_up_def)

definition struct_dev_pm_qos_request :: ctype where
  "struct_dev_pm_qos_request = CStruct [
     Member ''type'' (CInt 4), Member ''data'' (CUnion [
       Member ''pnode'' struct_plist_node, Member ''flr'' struct_pm_qos_flags_request,
       Member ''freq'' struct_freq_qos_request]), Member ''dev'' CPtr]"

lemma layout_struct_dev_pm_qos_request [simp]: "cwf struct_dev_pm_qos_request" "calign struct_dev_pm_qos_request = 8" "csize struct_dev_pm_qos_request = 72"
  by (simp_all add: struct_dev_pm_qos_request_def place_def align_up_def)

definition struct_device_link :: ctype where
  "struct_device_link = CStruct [
     Member ''supplier'' CPtr, Member ''s_node'' struct_list_head, Member ''consumer'' CPtr,
     Member ''c_node'' struct_list_head, Member ''link_dev'' struct_device,
     Member ''status'' (CInt 4), Member ''flags'' (CInt 4),
     Member ''rpm_active'' struct_refcount_struct, Member ''kref'' struct_kref,
     Member ''rm_work'' struct_work_struct, Member ''supplier_preactivated'' (CInt 1)]"

lemma layout_struct_device_link [simp]: "cwf struct_device_link" "calign struct_device_link = 8" "csize struct_device_link = 856"
  by (simp_all add: struct_device_link_def place_def align_up_def)

definition struct_devlink_dev_stats :: ctype where
  "struct_devlink_dev_stats = CStruct [
     Member ''reload_stats'' (CArray (CInt 4) 6),
     Member ''remote_reload_stats'' (CArray (CInt 4) 6)]"

lemma layout_struct_devlink_dev_stats [simp]: "cwf struct_devlink_dev_stats" "calign struct_devlink_dev_stats = 4" "csize struct_devlink_dev_stats = 48"
  by (simp_all add: struct_devlink_dev_stats_def place_def align_up_def)

definition struct_devlink :: ctype where
  "struct_devlink = CStruct [
     Member ''index'' (CInt 4), Member ''ports'' struct_xarray,
     Member ''rate_list'' struct_list_head, Member ''sb_list'' struct_list_head,
     Member ''dpipe_table_list'' struct_list_head, Member ''resource_list'' struct_list_head,
     Member ''params'' struct_xarray, Member ''region_list'' struct_list_head,
     Member ''reporter_list'' struct_list_head, Member ''dpipe_headers'' CPtr,
     Member ''trap_list'' struct_list_head, Member ''trap_group_list'' struct_list_head,
     Member ''trap_policer_list'' struct_list_head, Member ''linecard_list'' struct_list_head,
     Member ''ops'' CPtr, Member ''snapshot_ids'' struct_xarray,
     Member ''stats'' struct_devlink_dev_stats, Member ''dev'' CPtr,
     Member ''_net'' type_possible_net_t, Member ''lock'' struct_mutex,
     Member ''lock_key'' struct_lock_class_key, Bits ''reload_failed'' 1 1,
     Member ''refcount'' struct_refcount_struct, Member ''rwork'' struct_rcu_work,
     Member ''rel'' CPtr, Member ''nested_rels'' struct_xarray,
     Member ''priv'' (CArray (CInt 1) 0)]"

lemma layout_struct_devlink [simp]: "cwf struct_devlink" "calign struct_devlink = 8" "csize struct_devlink = 416"
  by (simp_all add: struct_devlink_def place_def align_up_def)

definition struct_devlink_linecard :: ctype where
  "struct_devlink_linecard = CStruct [
     Member ''list'' struct_list_head, Member ''devlink'' CPtr, Member ''index'' (CInt 4),
     Member ''ops'' CPtr, Member ''priv'' CPtr, Member ''state'' (CInt 4),
     Member ''state_lock'' struct_mutex, Member ''type'' CPtr, Member ''types'' CPtr,
     Member ''types_count'' (CInt 4), Member ''rel_index'' (CInt 4)]"

lemma layout_struct_devlink_linecard [simp]: "cwf struct_devlink_linecard" "calign struct_devlink_linecard = 8" "csize struct_devlink_linecard = 112"
  by (simp_all add: struct_devlink_linecard_def place_def align_up_def)

definition struct_devlink_port_ops :: ctype where
  "struct_devlink_port_ops = CStruct [
     Member ''port_split'' CPtr, Member ''port_unsplit'' CPtr, Member ''port_type_set'' CPtr,
     Member ''port_del'' CPtr, Member ''port_fn_hw_addr_get'' CPtr,
     Member ''port_fn_hw_addr_set'' CPtr, Member ''port_fn_roce_get'' CPtr,
     Member ''port_fn_roce_set'' CPtr, Member ''port_fn_migratable_get'' CPtr,
     Member ''port_fn_migratable_set'' CPtr, Member ''port_fn_state_get'' CPtr,
     Member ''port_fn_state_set'' CPtr, Member ''port_fn_ipsec_crypto_get'' CPtr,
     Member ''port_fn_ipsec_crypto_set'' CPtr, Member ''port_fn_ipsec_packet_get'' CPtr,
     Member ''port_fn_ipsec_packet_set'' CPtr, Member ''port_fn_max_io_eqs_get'' CPtr,
     Member ''port_fn_max_io_eqs_set'' CPtr]"

lemma layout_struct_devlink_port_ops [simp]: "cwf struct_devlink_port_ops" "calign struct_devlink_port_ops = 8" "csize struct_devlink_port_ops = 144"
  by (simp_all add: struct_devlink_port_ops_def place_def align_up_def)

definition struct_devlink_rate :: ctype where
  "struct_devlink_rate = CStruct [
     Member ''list'' struct_list_head, Member ''type'' (CInt 4), Member ''devlink'' CPtr,
     Member ''priv'' CPtr, Member ''tx_share'' (CInt 8), Member ''tx_max'' (CInt 8),
     Member ''parent'' CPtr, Member '''' (CUnion [
       Member ''devlink_port'' CPtr, Member '''' (CStruct [
         Member ''name'' CPtr, Member ''refcnt'' struct_refcount_struct])]),
     Member ''tx_priority'' (CInt 4), Member ''tx_weight'' (CInt 4)]"

lemma layout_struct_devlink_rate [simp]: "cwf struct_devlink_rate" "calign struct_devlink_rate = 8" "csize struct_devlink_rate = 88"
  by (simp_all add: struct_devlink_rate_def place_def align_up_def)

definition struct_dim_cq_moder :: ctype where
  "struct_dim_cq_moder = CStruct [
     Member ''usec'' (CInt 2), Member ''pkts'' (CInt 2), Member ''comps'' (CInt 2),
     Member ''cq_period_mode'' (CInt 1), Member ''rcu'' struct_callback_head]"

lemma layout_struct_dim_cq_moder [simp]: "cwf struct_dim_cq_moder" "calign struct_dim_cq_moder = 8" "csize struct_dim_cq_moder = 24"
  by (simp_all add: struct_dim_cq_moder_def place_def align_up_def)

definition struct_dpll_pin_frequency :: ctype where
  "struct_dpll_pin_frequency = CStruct [
     Member ''min'' (CInt 8), Member ''max'' (CInt 8)]"

lemma layout_struct_dpll_pin_frequency [simp]: "cwf struct_dpll_pin_frequency" "calign struct_dpll_pin_frequency = 8" "csize struct_dpll_pin_frequency = 16"
  by (simp_all add: struct_dpll_pin_frequency_def place_def align_up_def)

definition struct_driver_private :: ctype where
  "struct_driver_private = CStruct [
     Member ''kobj'' struct_kobject, Member ''klist_devices'' struct_klist,
     Member ''knode_bus'' struct_klist_node, Member ''mkobj'' CPtr, Member ''driver'' CPtr]"

lemma layout_struct_driver_private [simp]: "cwf struct_driver_private" "calign struct_driver_private = 8" "csize struct_driver_private = 152"
  by (simp_all add: struct_driver_private_def place_def align_up_def)

definition struct_dsa_bridge :: ctype where
  "struct_dsa_bridge = CStruct [
     Member ''dev'' CPtr, Member ''num'' (CInt 4), Member ''tx_fwd_offload'' (CInt 1),
     Member ''refcount'' struct_refcount_struct]"

lemma layout_struct_dsa_bridge [simp]: "cwf struct_dsa_bridge" "calign struct_dsa_bridge = 8" "csize struct_dsa_bridge = 24"
  by (simp_all add: struct_dsa_bridge_def place_def align_up_def)

definition struct_dsa_device_ops :: ctype where
  "struct_dsa_device_ops = CStruct [
     Member ''xmit'' CPtr, Member ''rcv'' CPtr, Member ''flow_dissect'' CPtr,
     Member ''connect'' CPtr, Member ''disconnect'' CPtr, Member ''needed_headroom'' (CInt 4),
     Member ''needed_tailroom'' (CInt 4), Member ''name'' CPtr, Member ''proto'' (CInt 4),
     Member ''promisc_on_conduit'' (CInt 1)]"

lemma layout_struct_dsa_device_ops [simp]: "cwf struct_dsa_device_ops" "calign struct_dsa_device_ops = 8" "csize struct_dsa_device_ops = 64"
  by (simp_all add: struct_dsa_device_ops_def place_def align_up_def)

definition struct_dsa_lag :: ctype where
  "struct_dsa_lag = CStruct [
     Member ''dev'' CPtr, Member ''id'' (CInt 4), Member ''fdb_lock'' struct_mutex,
     Member ''fdbs'' struct_list_head, Member ''refcount'' struct_refcount_struct]"

lemma layout_struct_dsa_lag [simp]: "cwf struct_dsa_lag" "calign struct_dsa_lag = 8" "csize struct_dsa_lag = 72"
  by (simp_all add: struct_dsa_lag_def place_def align_up_def)

definition struct_dsa_switch :: ctype where
  "struct_dsa_switch = CStruct [
     Member ''dev'' CPtr, Member ''dst'' CPtr, Member ''index'' (CInt 4), Bits ''setup'' 4 1,
     Bits ''vlan_filtering_is_global'' 4 1, Bits ''needs_standalone_vlan_filtering'' 4 1,
     Bits ''configure_vlan_while_not_filtering'' 4 1, Bits ''untag_bridge_pvid'' 4 1,
     Bits ''untag_vlan_aware_bridge_pvid'' 4 1, Bits ''assisted_learning_on_cpu_port'' 4 1,
     Bits ''vlan_filtering'' 4 1, Bits ''mtu_enforcement_ingress'' 4 1,
     Bits ''fdb_isolation'' 4 1, Bits ''dscp_prio_mapping_is_global'' 4 1,
     Member ''nb'' struct_notifier_block, Member ''priv'' CPtr, Member ''tagger_data'' CPtr,
     Member ''cd'' CPtr, Member ''ops'' CPtr, Member ''phylink_mac_ops'' CPtr,
     Member ''phys_mii_mask'' (CInt 4), Member ''user_mii_bus'' CPtr,
     Member ''ageing_time_min'' (CInt 4), Member ''ageing_time_max'' (CInt 4),
     Member ''tag_8021q_ctx'' CPtr, Member ''devlink'' CPtr, Member ''num_tx_queues'' (CInt 4),
     Member ''num_lag_ids'' (CInt 4), Member ''max_num_bridges'' (CInt 4),
     Member ''num_ports'' (CInt 4)]"

lemma layout_struct_dsa_switch [simp]: "cwf struct_dsa_switch" "calign struct_dsa_switch = 8" "csize struct_dsa_switch = 144"
  by (simp_all add: struct_dsa_switch_def place_def align_up_def)

definition struct_dsa_switch_tree :: ctype where
  "struct_dsa_switch_tree = CStruct [
     Member ''list'' struct_list_head, Member ''ports'' struct_list_head,
     Member ''nh'' struct_raw_notifier_head, Member ''index'' (CInt 4),
     Member ''refcount'' struct_kref, Member ''lags'' CPtr, Member ''tag_ops'' CPtr,
     Member ''default_proto'' (CInt 4), Member ''setup'' (CInt 1), Member ''pd'' CPtr,
     Member ''rtable'' struct_list_head, Member ''lags_len'' (CInt 4),
     Member ''last_switch'' (CInt 4)]"

lemma layout_struct_dsa_switch_tree [simp]: "cwf struct_dsa_switch_tree" "calign struct_dsa_switch_tree = 8" "csize struct_dsa_switch_tree = 104"
  by (simp_all add: struct_dsa_switch_tree_def place_def align_up_def)

definition struct_dst_metrics :: ctype where
  "struct_dst_metrics = CStruct [
     Member ''metrics'' (CArray (CInt 4) 17), Member ''refcnt'' struct_refcount_struct]"

lemma layout_struct_dst_metrics [simp]: "cwf struct_dst_metrics" "calign struct_dst_metrics = 4" "csize struct_dst_metrics = 72"
  by (simp_all add: struct_dst_metrics_def place_def align_up_def)

definition struct_em_perf_state :: ctype where
  "struct_em_perf_state = CStruct [
     Member ''performance'' (CInt 8), Member ''frequency'' (CInt 8), Member ''power'' (CInt 8),
     Member ''cost'' (CInt 8), Member ''flags'' (CInt 8)]"

lemma layout_struct_em_perf_state [simp]: "cwf struct_em_perf_state" "calign struct_em_perf_state = 8" "csize struct_em_perf_state = 40"
  by (simp_all add: struct_em_perf_state_def place_def align_up_def)

definition struct_em_perf_table :: ctype where
  "struct_em_perf_table = CStruct [
     Member ''rcu'' struct_callback_head, Member ''kref'' struct_kref,
     Member ''state'' (CArray struct_em_perf_state 0)]"

lemma layout_struct_em_perf_table [simp]: "cwf struct_em_perf_table" "calign struct_em_perf_table = 8" "csize struct_em_perf_table = 24"
  by (simp_all add: struct_em_perf_table_def place_def align_up_def)

definition struct_ethtool_channels :: ctype where
  "struct_ethtool_channels = CStruct [
     Member ''cmd'' (CInt 4), Member ''max_rx'' (CInt 4), Member ''max_tx'' (CInt 4),
     Member ''max_other'' (CInt 4), Member ''max_combined'' (CInt 4),
     Member ''rx_count'' (CInt 4), Member ''tx_count'' (CInt 4), Member ''other_count'' (CInt 4),
     Member ''combined_count'' (CInt 4)]"

lemma layout_struct_ethtool_channels [simp]: "cwf struct_ethtool_channels" "calign struct_ethtool_channels = 4" "csize struct_ethtool_channels = 36"
  by (simp_all add: struct_ethtool_channels_def place_def align_up_def)

definition struct_ethtool_coalesce :: ctype where
  "struct_ethtool_coalesce = CStruct [
     Member ''cmd'' (CInt 4), Member ''rx_coalesce_usecs'' (CInt 4),
     Member ''rx_max_coalesced_frames'' (CInt 4), Member ''rx_coalesce_usecs_irq'' (CInt 4),
     Member ''rx_max_coalesced_frames_irq'' (CInt 4), Member ''tx_coalesce_usecs'' (CInt 4),
     Member ''tx_max_coalesced_frames'' (CInt 4), Member ''tx_coalesce_usecs_irq'' (CInt 4),
     Member ''tx_max_coalesced_frames_irq'' (CInt 4),
     Member ''stats_block_coalesce_usecs'' (CInt 4),
     Member ''use_adaptive_rx_coalesce'' (CInt 4), Member ''use_adaptive_tx_coalesce'' (CInt 4),
     Member ''pkt_rate_low'' (CInt 4), Member ''rx_coalesce_usecs_low'' (CInt 4),
     Member ''rx_max_coalesced_frames_low'' (CInt 4), Member ''tx_coalesce_usecs_low'' (CInt 4),
     Member ''tx_max_coalesced_frames_low'' (CInt 4), Member ''pkt_rate_high'' (CInt 4),
     Member ''rx_coalesce_usecs_high'' (CInt 4),
     Member ''rx_max_coalesced_frames_high'' (CInt 4),
     Member ''tx_coalesce_usecs_high'' (CInt 4),
     Member ''tx_max_coalesced_frames_high'' (CInt 4), Member ''rate_sample_interval'' (CInt 4)]"

lemma layout_struct_ethtool_coalesce [simp]: "cwf struct_ethtool_coalesce" "calign struct_ethtool_coalesce = 4" "csize struct_ethtool_coalesce = 92"
  by (simp_all add: struct_ethtool_coalesce_def place_def align_up_def)

definition struct_ethtool_drvinfo :: ctype where
  "struct_ethtool_drvinfo = CStruct [
     Member ''cmd'' (CInt 4), Member ''driver'' (CArray (CInt 1) 32),
     Member ''version'' (CArray (CInt 1) 32), Member ''fw_version'' (CArray (CInt 1) 32),
     Member ''bus_info'' (CArray (CInt 1) 32), Member ''erom_version'' (CArray (CInt 1) 32),
     Member ''reserved2'' (CArray (CInt 1) 12), Member ''n_priv_flags'' (CInt 4),
     Member ''n_stats'' (CInt 4), Member ''testinfo_len'' (CInt 4),
     Member ''eedump_len'' (CInt 4), Member ''regdump_len'' (CInt 4)]"

lemma layout_struct_ethtool_drvinfo [simp]: "cwf struct_ethtool_drvinfo" "calign struct_ethtool_drvinfo = 4" "csize struct_ethtool_drvinfo = 196"
  by (simp_all add: struct_ethtool_drvinfo_def place_def align_up_def)

definition struct_ethtool_dump :: ctype where
  "struct_ethtool_dump = CStruct [
     Member ''cmd'' (CInt 4), Member ''version'' (CInt 4), Member ''flag'' (CInt 4),
     Member ''len'' (CInt 4), Member ''data'' (CArray (CInt 1) 0)]"

lemma layout_struct_ethtool_dump [simp]: "cwf struct_ethtool_dump" "calign struct_ethtool_dump = 4" "csize struct_ethtool_dump = 16"
  by (simp_all add: struct_ethtool_dump_def place_def align_up_def)

definition struct_ethtool_eeprom :: ctype where
  "struct_ethtool_eeprom = CStruct [
     Member ''cmd'' (CInt 4), Member ''magic'' (CInt 4), Member ''offset'' (CInt 4),
     Member ''len'' (CInt 4), Member ''data'' (CArray (CInt 1) 0)]"

lemma layout_struct_ethtool_eeprom [simp]: "cwf struct_ethtool_eeprom" "calign struct_ethtool_eeprom = 4" "csize struct_ethtool_eeprom = 16"
  by (simp_all add: struct_ethtool_eeprom_def place_def align_up_def)

definition struct_ethtool_eth_ctrl_stats :: ctype where
  "struct_ethtool_eth_ctrl_stats = CStruct [
     Member ''src'' (CInt 4), Member '''' (CUnion [
       Member '''' (CStruct [
         Member ''MACControlFramesTransmitted'' (CInt 8),
         Member ''MACControlFramesReceived'' (CInt 8),
         Member ''UnsupportedOpcodesReceived'' (CInt 8)]), Member ''stats'' (CStruct [
         Member ''MACControlFramesTransmitted'' (CInt 8),
         Member ''MACControlFramesReceived'' (CInt 8),
         Member ''UnsupportedOpcodesReceived'' (CInt 8)])])]"

lemma layout_struct_ethtool_eth_ctrl_stats [simp]: "cwf struct_ethtool_eth_ctrl_stats" "calign struct_ethtool_eth_ctrl_stats = 8" "csize struct_ethtool_eth_ctrl_stats = 32"
  by (simp_all add: struct_ethtool_eth_ctrl_stats_def place_def align_up_def)

definition struct_ethtool_eth_mac_stats :: ctype where
  "struct_ethtool_eth_mac_stats = CStruct [
     Member ''src'' (CInt 4), Member '''' (CUnion [
       Member '''' (CStruct [
         Member ''FramesTransmittedOK'' (CInt 8), Member ''SingleCollisionFrames'' (CInt 8),
         Member ''MultipleCollisionFrames'' (CInt 8), Member ''FramesReceivedOK'' (CInt 8),
         Member ''FrameCheckSequenceErrors'' (CInt 8), Member ''AlignmentErrors'' (CInt 8),
         Member ''OctetsTransmittedOK'' (CInt 8),
         Member ''FramesWithDeferredXmissions'' (CInt 8), Member ''LateCollisions'' (CInt 8),
         Member ''FramesAbortedDueToXSColls'' (CInt 8),
         Member ''FramesLostDueToIntMACXmitError'' (CInt 8),
         Member ''CarrierSenseErrors'' (CInt 8), Member ''OctetsReceivedOK'' (CInt 8),
         Member ''FramesLostDueToIntMACRcvError'' (CInt 8),
         Member ''MulticastFramesXmittedOK'' (CInt 8),
         Member ''BroadcastFramesXmittedOK'' (CInt 8),
         Member ''FramesWithExcessiveDeferral'' (CInt 8),
         Member ''MulticastFramesReceivedOK'' (CInt 8),
         Member ''BroadcastFramesReceivedOK'' (CInt 8), Member ''InRangeLengthErrors'' (CInt 8),
         Member ''OutOfRangeLengthField'' (CInt 8), Member ''FrameTooLongErrors'' (CInt 8)]),
       Member ''stats'' (CStruct [
         Member ''FramesTransmittedOK'' (CInt 8), Member ''SingleCollisionFrames'' (CInt 8),
         Member ''MultipleCollisionFrames'' (CInt 8), Member ''FramesReceivedOK'' (CInt 8),
         Member ''FrameCheckSequenceErrors'' (CInt 8), Member ''AlignmentErrors'' (CInt 8),
         Member ''OctetsTransmittedOK'' (CInt 8),
         Member ''FramesWithDeferredXmissions'' (CInt 8), Member ''LateCollisions'' (CInt 8),
         Member ''FramesAbortedDueToXSColls'' (CInt 8),
         Member ''FramesLostDueToIntMACXmitError'' (CInt 8),
         Member ''CarrierSenseErrors'' (CInt 8), Member ''OctetsReceivedOK'' (CInt 8),
         Member ''FramesLostDueToIntMACRcvError'' (CInt 8),
         Member ''MulticastFramesXmittedOK'' (CInt 8),
         Member ''BroadcastFramesXmittedOK'' (CInt 8),
         Member ''FramesWithExcessiveDeferral'' (CInt 8),
         Member ''MulticastFramesReceivedOK'' (CInt 8),
         Member ''BroadcastFramesReceivedOK'' (CInt 8), Member ''InRangeLengthErrors'' (CInt 8),
         Member ''OutOfRangeLengthField'' (CInt 8), Member ''FrameTooLongErrors'' (CInt 8)])])]"

lemma layout_struct_ethtool_eth_mac_stats [simp]: "cwf struct_ethtool_eth_mac_stats" "calign struct_ethtool_eth_mac_stats = 8" "csize struct_ethtool_eth_mac_stats = 184"
  by (simp_all add: struct_ethtool_eth_mac_stats_def place_def align_up_def)

definition struct_ethtool_eth_phy_stats :: ctype where
  "struct_ethtool_eth_phy_stats = CStruct [
     Member ''src'' (CInt 4), Member '''' (CUnion [
       Member '''' (CStruct [
         Member ''SymbolErrorDuringCarrier'' (CInt 8)]), Member ''stats'' (CStruct [
         Member ''SymbolErrorDuringCarrier'' (CInt 8)])])]"

lemma layout_struct_ethtool_eth_phy_stats [simp]: "cwf struct_ethtool_eth_phy_stats" "calign struct_ethtool_eth_phy_stats = 8" "csize struct_ethtool_eth_phy_stats = 16"
  by (simp_all add: struct_ethtool_eth_phy_stats_def place_def align_up_def)

definition struct_ethtool_fec_stat :: ctype where
  "struct_ethtool_fec_stat = CStruct [
     Member ''total'' (CInt 8), Member ''lanes'' (CArray (CInt 8) 8)]"

lemma layout_struct_ethtool_fec_stat [simp]: "cwf struct_ethtool_fec_stat" "calign struct_ethtool_fec_stat = 8" "csize struct_ethtool_fec_stat = 72"
  by (simp_all add: struct_ethtool_fec_stat_def place_def align_up_def)

definition struct_ethtool_fec_stats :: ctype where
  "struct_ethtool_fec_stats = CStruct [
     Member ''corrected_blocks'' struct_ethtool_fec_stat,
     Member ''uncorrectable_blocks'' struct_ethtool_fec_stat,
     Member ''corrected_bits'' struct_ethtool_fec_stat]"

lemma layout_struct_ethtool_fec_stats [simp]: "cwf struct_ethtool_fec_stats" "calign struct_ethtool_fec_stats = 8" "csize struct_ethtool_fec_stats = 216"
  by (simp_all add: struct_ethtool_fec_stats_def place_def align_up_def)

definition struct_ethtool_fecparam :: ctype where
  "struct_ethtool_fecparam = CStruct [
     Member ''cmd'' (CInt 4), Member ''active_fec'' (CInt 4), Member ''fec'' (CInt 4),
     Member ''reserved'' (CInt 4)]"

lemma layout_struct_ethtool_fecparam [simp]: "cwf struct_ethtool_fecparam" "calign struct_ethtool_fecparam = 4" "csize struct_ethtool_fecparam = 16"
  by (simp_all add: struct_ethtool_fecparam_def place_def align_up_def)

definition struct_ethtool_flash :: ctype where
  "struct_ethtool_flash = CStruct [
     Member ''cmd'' (CInt 4), Member ''region'' (CInt 4), Member ''data'' (CArray (CInt 1) 128)]"

lemma layout_struct_ethtool_flash [simp]: "cwf struct_ethtool_flash" "calign struct_ethtool_flash = 4" "csize struct_ethtool_flash = 136"
  by (simp_all add: struct_ethtool_flash_def place_def align_up_def)

definition struct_ethtool_keee :: ctype where
  "struct_ethtool_keee = CStruct [
     Member ''supported'' (CArray (CInt 8) 2), Member ''advertised'' (CArray (CInt 8) 2),
     Member ''lp_advertised'' (CArray (CInt 8) 2), Member ''tx_lpi_timer'' (CInt 4),
     Member ''tx_lpi_enabled'' (CInt 1), Member ''eee_active'' (CInt 1),
     Member ''eee_enabled'' (CInt 1)]"

lemma layout_struct_ethtool_keee [simp]: "cwf struct_ethtool_keee" "calign struct_ethtool_keee = 8" "csize struct_ethtool_keee = 56"
  by (simp_all add: struct_ethtool_keee_def place_def align_up_def)

definition struct_ethtool_link_ext_state_info :: ctype where
  "struct_ethtool_link_ext_state_info = CStruct [
     Member ''link_ext_state'' (CInt 4), Member '''' (CUnion [
       Member ''autoneg'' (CInt 4), Member ''link_training'' (CInt 4),
       Member ''link_logical_mismatch'' (CInt 4), Member ''bad_signal_integrity'' (CInt 4),
       Member ''cable_issue'' (CInt 4), Member ''module'' (CInt 4),
       Member ''__link_ext_substate'' (CInt 4)])]"

lemma layout_struct_ethtool_link_ext_state_info [simp]: "cwf struct_ethtool_link_ext_state_info" "calign struct_ethtool_link_ext_state_info = 4" "csize struct_ethtool_link_ext_state_info = 8"
  by (simp_all add: struct_ethtool_link_ext_state_info_def place_def align_up_def)

definition struct_ethtool_link_ext_stats :: ctype where
  "struct_ethtool_link_ext_stats = CStruct [
     Member ''link_down_events'' (CInt 8)]"

lemma layout_struct_ethtool_link_ext_stats [simp]: "cwf struct_ethtool_link_ext_stats" "calign struct_ethtool_link_ext_stats = 8" "csize struct_ethtool_link_ext_stats = 8"
  by (simp_all add: struct_ethtool_link_ext_stats_def place_def align_up_def)

definition struct_ethtool_link_settings :: ctype where
  "struct_ethtool_link_settings = CStruct [
     Member ''cmd'' (CInt 4), Member ''speed'' (CInt 4), Member ''duplex'' (CInt 1),
     Member ''port'' (CInt 1), Member ''phy_address'' (CInt 1), Member ''autoneg'' (CInt 1),
     Member ''mdio_support'' (CInt 1), Member ''eth_tp_mdix'' (CInt 1),
     Member ''eth_tp_mdix_ctrl'' (CInt 1), Member ''link_mode_masks_nwords'' (CInt 1),
     Member ''transceiver'' (CInt 1), Member ''master_slave_cfg'' (CInt 1),
     Member ''master_slave_state'' (CInt 1), Member ''rate_matching'' (CInt 1),
     Member ''reserved'' (CArray (CInt 4) 7), Member ''link_mode_masks'' (CArray (CInt 4) 0)]"

lemma layout_struct_ethtool_link_settings [simp]: "cwf struct_ethtool_link_settings" "calign struct_ethtool_link_settings = 4" "csize struct_ethtool_link_settings = 48"
  by (simp_all add: struct_ethtool_link_settings_def place_def align_up_def)

definition struct_ethtool_link_ksettings :: ctype where
  "struct_ethtool_link_ksettings = CStruct [
     Member ''base'' struct_ethtool_link_settings, Member ''link_modes'' (CStruct [
       Member ''supported'' (CArray (CInt 8) 2), Member ''advertising'' (CArray (CInt 8) 2),
       Member ''lp_advertising'' (CArray (CInt 8) 2)]), Member ''lanes'' (CInt 4)]"

lemma layout_struct_ethtool_link_ksettings [simp]: "cwf struct_ethtool_link_ksettings" "calign struct_ethtool_link_ksettings = 8" "csize struct_ethtool_link_ksettings = 104"
  by (simp_all add: struct_ethtool_link_ksettings_def place_def align_up_def)

definition struct_ethtool_mm_cfg :: ctype where
  "struct_ethtool_mm_cfg = CStruct [
     Member ''verify_time'' (CInt 4), Member ''verify_enabled'' (CInt 1),
     Member ''tx_enabled'' (CInt 1), Member ''pmac_enabled'' (CInt 1),
     Member ''tx_min_frag_size'' (CInt 4)]"

lemma layout_struct_ethtool_mm_cfg [simp]: "cwf struct_ethtool_mm_cfg" "calign struct_ethtool_mm_cfg = 4" "csize struct_ethtool_mm_cfg = 12"
  by (simp_all add: struct_ethtool_mm_cfg_def place_def align_up_def)

definition struct_ethtool_mm_state :: ctype where
  "struct_ethtool_mm_state = CStruct [
     Member ''verify_time'' (CInt 4), Member ''max_verify_time'' (CInt 4),
     Member ''verify_status'' (CInt 4), Member ''tx_enabled'' (CInt 1),
     Member ''tx_active'' (CInt 1), Member ''pmac_enabled'' (CInt 1),
     Member ''verify_enabled'' (CInt 1), Member ''tx_min_frag_size'' (CInt 4),
     Member ''rx_min_frag_size'' (CInt 4)]"

lemma layout_struct_ethtool_mm_state [simp]: "cwf struct_ethtool_mm_state" "calign struct_ethtool_mm_state = 4" "csize struct_ethtool_mm_state = 24"
  by (simp_all add: struct_ethtool_mm_state_def place_def align_up_def)

definition struct_ethtool_mm_stats :: ctype where
  "struct_ethtool_mm_stats = CStruct [
     Member ''MACMergeFrameAssErrorCount'' (CInt 8),
     Member ''MACMergeFrameSmdErrorCount'' (CInt 8), Member ''MACMergeFrameAssOkCount'' (CInt 8),
     Member ''MACMergeFragCountRx'' (CInt 8), Member ''MACMergeFragCountTx'' (CInt 8),
     Member ''MACMergeHoldCount'' (CInt 8)]"

lemma layout_struct_ethtool_mm_stats [simp]: "cwf struct_ethtool_mm_stats" "calign struct_ethtool_mm_stats = 8" "csize struct_ethtool_mm_stats = 48"
  by (simp_all add: struct_ethtool_mm_stats_def place_def align_up_def)

definition struct_ethtool_modinfo :: ctype where
  "struct_ethtool_modinfo = CStruct [
     Member ''cmd'' (CInt 4), Member ''type'' (CInt 4), Member ''eeprom_len'' (CInt 4),
     Member ''reserved'' (CArray (CInt 4) 8)]"

lemma layout_struct_ethtool_modinfo [simp]: "cwf struct_ethtool_modinfo" "calign struct_ethtool_modinfo = 4" "csize struct_ethtool_modinfo = 44"
  by (simp_all add: struct_ethtool_modinfo_def place_def align_up_def)

definition struct_ethtool_module_eeprom :: ctype where
  "struct_ethtool_module_eeprom = CStruct [
     Member ''offset'' (CInt 4), Member ''length'' (CInt 4), Member ''page'' (CInt 1),
     Member ''bank'' (CInt 1), Member ''i2c_address'' (CInt 1), Member ''data'' CPtr]"

lemma layout_struct_ethtool_module_eeprom [simp]: "cwf struct_ethtool_module_eeprom" "calign struct_ethtool_module_eeprom = 8" "csize struct_ethtool_module_eeprom = 24"
  by (simp_all add: struct_ethtool_module_eeprom_def place_def align_up_def)

definition struct_ethtool_module_power_mode_params :: ctype where
  "struct_ethtool_module_power_mode_params = CStruct [
     Member ''policy'' (CInt 4), Member ''mode'' (CInt 4)]"

lemma layout_struct_ethtool_module_power_mode_params [simp]: "cwf struct_ethtool_module_power_mode_params" "calign struct_ethtool_module_power_mode_params = 4" "csize struct_ethtool_module_power_mode_params = 8"
  by (simp_all add: struct_ethtool_module_power_mode_params_def place_def align_up_def)

definition struct_ethtool_pause_stats :: ctype where
  "struct_ethtool_pause_stats = CStruct [
     Member ''src'' (CInt 4), Member '''' (CUnion [
       Member '''' (CStruct [
         Member ''tx_pause_frames'' (CInt 8), Member ''rx_pause_frames'' (CInt 8)]),
       Member ''stats'' (CStruct [
         Member ''tx_pause_frames'' (CInt 8), Member ''rx_pause_frames'' (CInt 8)])])]"

lemma layout_struct_ethtool_pause_stats [simp]: "cwf struct_ethtool_pause_stats" "calign struct_ethtool_pause_stats = 8" "csize struct_ethtool_pause_stats = 24"
  by (simp_all add: struct_ethtool_pause_stats_def place_def align_up_def)

definition struct_ethtool_pauseparam :: ctype where
  "struct_ethtool_pauseparam = CStruct [
     Member ''cmd'' (CInt 4), Member ''autoneg'' (CInt 4), Member ''rx_pause'' (CInt 4),
     Member ''tx_pause'' (CInt 4)]"

lemma layout_struct_ethtool_pauseparam [simp]: "cwf struct_ethtool_pauseparam" "calign struct_ethtool_pauseparam = 4" "csize struct_ethtool_pauseparam = 16"
  by (simp_all add: struct_ethtool_pauseparam_def place_def align_up_def)

definition struct_ethtool_regs :: ctype where
  "struct_ethtool_regs = CStruct [
     Member ''cmd'' (CInt 4), Member ''version'' (CInt 4), Member ''len'' (CInt 4),
     Member ''data'' (CArray (CInt 1) 0)]"

lemma layout_struct_ethtool_regs [simp]: "cwf struct_ethtool_regs" "calign struct_ethtool_regs = 4" "csize struct_ethtool_regs = 12"
  by (simp_all add: struct_ethtool_regs_def place_def align_up_def)

definition struct_ethtool_ringparam :: ctype where
  "struct_ethtool_ringparam = CStruct [
     Member ''cmd'' (CInt 4), Member ''rx_max_pending'' (CInt 4),
     Member ''rx_mini_max_pending'' (CInt 4), Member ''rx_jumbo_max_pending'' (CInt 4),
     Member ''tx_max_pending'' (CInt 4), Member ''rx_pending'' (CInt 4),
     Member ''rx_mini_pending'' (CInt 4), Member ''rx_jumbo_pending'' (CInt 4),
     Member ''tx_pending'' (CInt 4)]"

lemma layout_struct_ethtool_ringparam [simp]: "cwf struct_ethtool_ringparam" "calign struct_ethtool_ringparam = 4" "csize struct_ethtool_ringparam = 36"
  by (simp_all add: struct_ethtool_ringparam_def place_def align_up_def)

definition struct_ethtool_rmon_hist_range :: ctype where
  "struct_ethtool_rmon_hist_range = CStruct [
     Member ''low'' (CInt 2), Member ''high'' (CInt 2)]"

lemma layout_struct_ethtool_rmon_hist_range [simp]: "cwf struct_ethtool_rmon_hist_range" "calign struct_ethtool_rmon_hist_range = 2" "csize struct_ethtool_rmon_hist_range = 4"
  by (simp_all add: struct_ethtool_rmon_hist_range_def place_def align_up_def)

definition struct_ethtool_rmon_stats :: ctype where
  "struct_ethtool_rmon_stats = CStruct [
     Member ''src'' (CInt 4), Member '''' (CUnion [
       Member '''' (CStruct [
         Member ''undersize_pkts'' (CInt 8), Member ''oversize_pkts'' (CInt 8),
         Member ''fragments'' (CInt 8), Member ''jabbers'' (CInt 8),
         Member ''hist'' (CArray (CInt 8) 10), Member ''hist_tx'' (CArray (CInt 8) 10)]),
       Member ''stats'' (CStruct [
         Member ''undersize_pkts'' (CInt 8), Member ''oversize_pkts'' (CInt 8),
         Member ''fragments'' (CInt 8), Member ''jabbers'' (CInt 8),
         Member ''hist'' (CArray (CInt 8) 10), Member ''hist_tx'' (CArray (CInt 8) 10)])])]"

lemma layout_struct_ethtool_rmon_stats [simp]: "cwf struct_ethtool_rmon_stats" "calign struct_ethtool_rmon_stats = 8" "csize struct_ethtool_rmon_stats = 200"
  by (simp_all add: struct_ethtool_rmon_stats_def place_def align_up_def)

definition struct_ethtool_rxfh_context :: ctype where
  "struct_ethtool_rxfh_context = CStruct [
     Member ''indir_size'' (CInt 4), Member ''key_size'' (CInt 4), Member ''priv_size'' (CInt 2),
     Member ''hfunc'' (CInt 1), Member ''input_xfrm'' (CInt 1), Bits ''indir_configured'' 1 1,
     Bits ''key_configured'' 1 1, Member ''key_off'' (CInt 4), Bits '''' 8 0,
     Member ''data'' (CArray (CInt 1) 0)]"

lemma layout_struct_ethtool_rxfh_context [simp]: "cwf struct_ethtool_rxfh_context" "calign struct_ethtool_rxfh_context = 4" "csize struct_ethtool_rxfh_context = 24"
  by (simp_all add: struct_ethtool_rxfh_context_def place_def align_up_def)

definition struct_ethtool_rxfh_param :: ctype where
  "struct_ethtool_rxfh_param = CStruct [
     Member ''hfunc'' (CInt 1), Member ''indir_size'' (CInt 4), Member ''indir'' CPtr,
     Member ''key_size'' (CInt 4), Member ''key'' CPtr, Member ''rss_context'' (CInt 4),
     Member ''rss_delete'' (CInt 1), Member ''input_xfrm'' (CInt 1)]"

lemma layout_struct_ethtool_rxfh_param [simp]: "cwf struct_ethtool_rxfh_param" "calign struct_ethtool_rxfh_param = 8" "csize struct_ethtool_rxfh_param = 40"
  by (simp_all add: struct_ethtool_rxfh_param_def place_def align_up_def)

definition struct_ethtool_tcpip4_spec :: ctype where
  "struct_ethtool_tcpip4_spec = CStruct [
     Member ''ip4src'' (CInt 4), Member ''ip4dst'' (CInt 4), Member ''psrc'' (CInt 2),
     Member ''pdst'' (CInt 2), Member ''tos'' (CInt 1)]"

lemma layout_struct_ethtool_tcpip4_spec [simp]: "cwf struct_ethtool_tcpip4_spec" "calign struct_ethtool_tcpip4_spec = 4" "csize struct_ethtool_tcpip4_spec = 16"
  by (simp_all add: struct_ethtool_tcpip4_spec_def place_def align_up_def)

definition struct_ethtool_ah_espip4_spec :: ctype where
  "struct_ethtool_ah_espip4_spec = CStruct [
     Member ''ip4src'' (CInt 4), Member ''ip4dst'' (CInt 4), Member ''spi'' (CInt 4),
     Member ''tos'' (CInt 1)]"

lemma layout_struct_ethtool_ah_espip4_spec [simp]: "cwf struct_ethtool_ah_espip4_spec" "calign struct_ethtool_ah_espip4_spec = 4" "csize struct_ethtool_ah_espip4_spec = 16"
  by (simp_all add: struct_ethtool_ah_espip4_spec_def place_def align_up_def)

definition struct_ethtool_usrip4_spec :: ctype where
  "struct_ethtool_usrip4_spec = CStruct [
     Member ''ip4src'' (CInt 4), Member ''ip4dst'' (CInt 4), Member ''l4_4_bytes'' (CInt 4),
     Member ''tos'' (CInt 1), Member ''ip_ver'' (CInt 1), Member ''proto'' (CInt 1)]"

lemma layout_struct_ethtool_usrip4_spec [simp]: "cwf struct_ethtool_usrip4_spec" "calign struct_ethtool_usrip4_spec = 4" "csize struct_ethtool_usrip4_spec = 16"
  by (simp_all add: struct_ethtool_usrip4_spec_def place_def align_up_def)

definition struct_ethtool_tcpip6_spec :: ctype where
  "struct_ethtool_tcpip6_spec = CStruct [
     Member ''ip6src'' (CArray (CInt 4) 4), Member ''ip6dst'' (CArray (CInt 4) 4),
     Member ''psrc'' (CInt 2), Member ''pdst'' (CInt 2), Member ''tclass'' (CInt 1)]"

lemma layout_struct_ethtool_tcpip6_spec [simp]: "cwf struct_ethtool_tcpip6_spec" "calign struct_ethtool_tcpip6_spec = 4" "csize struct_ethtool_tcpip6_spec = 40"
  by (simp_all add: struct_ethtool_tcpip6_spec_def place_def align_up_def)

definition struct_ethtool_ah_espip6_spec :: ctype where
  "struct_ethtool_ah_espip6_spec = CStruct [
     Member ''ip6src'' (CArray (CInt 4) 4), Member ''ip6dst'' (CArray (CInt 4) 4),
     Member ''spi'' (CInt 4), Member ''tclass'' (CInt 1)]"

lemma layout_struct_ethtool_ah_espip6_spec [simp]: "cwf struct_ethtool_ah_espip6_spec" "calign struct_ethtool_ah_espip6_spec = 4" "csize struct_ethtool_ah_espip6_spec = 40"
  by (simp_all add: struct_ethtool_ah_espip6_spec_def place_def align_up_def)

definition struct_ethtool_usrip6_spec :: ctype where
  "struct_ethtool_usrip6_spec = CStruct [
     Member ''ip6src'' (CArray (CInt 4) 4), Member ''ip6dst'' (CArray (CInt 4) 4),
     Member ''l4_4_bytes'' (CInt 4), Member ''tclass'' (CInt 1), Member ''l4_proto'' (CInt 1)]"

lemma layout_struct_ethtool_usrip6_spec [simp]: "cwf struct_ethtool_usrip6_spec" "calign struct_ethtool_usrip6_spec = 4" "csize struct_ethtool_usrip6_spec = 40"
  by (simp_all add: struct_ethtool_usrip6_spec_def place_def align_up_def)

definition struct_ethhdr :: ctype where
  "struct_ethhdr = CStruct [
     Member ''h_dest'' (CArray (CInt 1) 6), Member ''h_source'' (CArray (CInt 1) 6),
     Member ''h_proto'' (CInt 2)]"

lemma layout_struct_ethhdr [simp]: "cwf struct_ethhdr" "calign struct_ethhdr = 2" "csize struct_ethhdr = 14"
  by (simp_all add: struct_ethhdr_def place_def align_up_def)

definition union_ethtool_flow_union :: ctype where
  "union_ethtool_flow_union = CUnion [
     Member ''tcp_ip4_spec'' struct_ethtool_tcpip4_spec,
     Member ''udp_ip4_spec'' struct_ethtool_tcpip4_spec,
     Member ''sctp_ip4_spec'' struct_ethtool_tcpip4_spec,
     Member ''ah_ip4_spec'' struct_ethtool_ah_espip4_spec,
     Member ''esp_ip4_spec'' struct_ethtool_ah_espip4_spec,
     Member ''usr_ip4_spec'' struct_ethtool_usrip4_spec,
     Member ''tcp_ip6_spec'' struct_ethtool_tcpip6_spec,
     Member ''udp_ip6_spec'' struct_ethtool_tcpip6_spec,
     Member ''sctp_ip6_spec'' struct_ethtool_tcpip6_spec,
     Member ''ah_ip6_spec'' struct_ethtool_ah_espip6_spec,
     Member ''esp_ip6_spec'' struct_ethtool_ah_espip6_spec,
     Member ''usr_ip6_spec'' struct_ethtool_usrip6_spec, Member ''ether_spec'' struct_ethhdr,
     Member ''hdata'' (CArray (CInt 1) 52)]"

lemma layout_union_ethtool_flow_union [simp]: "cwf union_ethtool_flow_union" "calign union_ethtool_flow_union = 4" "csize union_ethtool_flow_union = 52"
  by (simp_all add: union_ethtool_flow_union_def place_def align_up_def)

definition struct_ethtool_flow_ext :: ctype where
  "struct_ethtool_flow_ext = CStruct [
     Member ''padding'' (CArray (CInt 1) 2), Member ''h_dest'' (CArray (CInt 1) 6),
     Member ''vlan_etype'' (CInt 2), Member ''vlan_tci'' (CInt 2),
     Member ''data'' (CArray (CInt 4) 2)]"

lemma layout_struct_ethtool_flow_ext [simp]: "cwf struct_ethtool_flow_ext" "calign struct_ethtool_flow_ext = 4" "csize struct_ethtool_flow_ext = 20"
  by (simp_all add: struct_ethtool_flow_ext_def place_def align_up_def)

definition struct_ethtool_rx_flow_spec :: ctype where
  "struct_ethtool_rx_flow_spec = CStruct [
     Member ''flow_type'' (CInt 4), Member ''h_u'' union_ethtool_flow_union,
     Member ''h_ext'' struct_ethtool_flow_ext, Member ''m_u'' union_ethtool_flow_union,
     Member ''m_ext'' struct_ethtool_flow_ext, Member ''ring_cookie'' (CInt 8),
     Member ''location'' (CInt 4)]"

lemma layout_struct_ethtool_rx_flow_spec [simp]: "cwf struct_ethtool_rx_flow_spec" "calign struct_ethtool_rx_flow_spec = 8" "csize struct_ethtool_rx_flow_spec = 168"
  by (simp_all add: struct_ethtool_rx_flow_spec_def place_def align_up_def)

definition struct_ethtool_rxnfc :: ctype where
  "struct_ethtool_rxnfc = CStruct [
     Member ''cmd'' (CInt 4), Member ''flow_type'' (CInt 4), Member ''data'' (CInt 8),
     Member ''fs'' struct_ethtool_rx_flow_spec, Member '''' (CUnion [
       Member ''rule_cnt'' (CInt 4), Member ''rss_context'' (CInt 4)]),
     Member ''rule_locs'' (CArray (CInt 4) 0)]"

lemma layout_struct_ethtool_rxnfc [simp]: "cwf struct_ethtool_rxnfc" "calign struct_ethtool_rxnfc = 8" "csize struct_ethtool_rxnfc = 192"
  by (simp_all add: struct_ethtool_rxnfc_def place_def align_up_def)

definition struct_ethtool_stats :: ctype where
  "struct_ethtool_stats = CStruct [
     Member ''cmd'' (CInt 4), Member ''n_stats'' (CInt 4), Member ''data'' (CArray (CInt 8) 0)]"

lemma layout_struct_ethtool_stats [simp]: "cwf struct_ethtool_stats" "calign struct_ethtool_stats = 8" "csize struct_ethtool_stats = 8"
  by (simp_all add: struct_ethtool_stats_def place_def align_up_def)

definition struct_ethtool_test :: ctype where
  "struct_ethtool_test = CStruct [
     Member ''cmd'' (CInt 4), Member ''flags'' (CInt 4), Member ''reserved'' (CInt 4),
     Member ''len'' (CInt 4), Member ''data'' (CArray (CInt 8) 0)]"

lemma layout_struct_ethtool_test [simp]: "cwf struct_ethtool_test" "calign struct_ethtool_test = 8" "csize struct_ethtool_test = 16"
  by (simp_all add: struct_ethtool_test_def place_def align_up_def)

definition struct_ethtool_ts_stats :: ctype where
  "struct_ethtool_ts_stats = CStruct [
     Member '''' (CUnion [
       Member '''' (CStruct [
         Member ''pkts'' (CInt 8), Member ''lost'' (CInt 8), Member ''err'' (CInt 8)]),
       Member ''tx_stats'' (CStruct [
         Member ''pkts'' (CInt 8), Member ''lost'' (CInt 8), Member ''err'' (CInt 8)])])]"

lemma layout_struct_ethtool_ts_stats [simp]: "cwf struct_ethtool_ts_stats" "calign struct_ethtool_ts_stats = 8" "csize struct_ethtool_ts_stats = 24"
  by (simp_all add: struct_ethtool_ts_stats_def place_def align_up_def)

definition struct_ethtool_tunable :: ctype where
  "struct_ethtool_tunable = CStruct [
     Member ''cmd'' (CInt 4), Member ''id'' (CInt 4), Member ''type_id'' (CInt 4),
     Member ''len'' (CInt 4), Member ''data'' (CArray CPtr 0)]"

lemma layout_struct_ethtool_tunable [simp]: "cwf struct_ethtool_tunable" "calign struct_ethtool_tunable = 8" "csize struct_ethtool_tunable = 16"
  by (simp_all add: struct_ethtool_tunable_def place_def align_up_def)

definition struct_ethtool_wolinfo :: ctype where
  "struct_ethtool_wolinfo = CStruct [
     Member ''cmd'' (CInt 4), Member ''supported'' (CInt 4), Member ''wolopts'' (CInt 4),
     Member ''sopass'' (CArray (CInt 1) 6)]"

lemma layout_struct_ethtool_wolinfo [simp]: "cwf struct_ethtool_wolinfo" "calign struct_ethtool_wolinfo = 4" "csize struct_ethtool_wolinfo = 20"
  by (simp_all add: struct_ethtool_wolinfo_def place_def align_up_def)

definition struct_fasync_struct :: ctype where
  "struct_fasync_struct = CStruct [
     Member ''fa_lock'' type_rwlock_t, Member ''magic'' (CInt 4), Member ''fa_fd'' (CInt 4),
     Member ''fa_next'' CPtr, Member ''fa_file'' CPtr, Member ''fa_rcu'' struct_callback_head]"

lemma layout_struct_fasync_struct [simp]: "cwf struct_fasync_struct" "calign struct_fasync_struct = 8" "csize struct_fasync_struct = 48"
  by (simp_all add: struct_fasync_struct_def place_def align_up_def)

definition struct_fib_lookup_arg :: ctype where
  "struct_fib_lookup_arg = CStruct [
     Member ''lookup_ptr'' CPtr, Member ''lookup_data'' CPtr, Member ''result'' CPtr,
     Member ''rule'' CPtr, Member ''table'' (CInt 4), Member ''flags'' (CInt 4)]"

lemma layout_struct_fib_lookup_arg [simp]: "cwf struct_fib_lookup_arg" "calign struct_fib_lookup_arg = 8" "csize struct_fib_lookup_arg = 40"
  by (simp_all add: struct_fib_lookup_arg_def place_def align_up_def)

definition struct_fib_kuid_range :: ctype where
  "struct_fib_kuid_range = CStruct [
     Member ''start'' type_kuid_t, Member ''end'' type_kuid_t]"

lemma layout_struct_fib_kuid_range [simp]: "cwf struct_fib_kuid_range" "calign struct_fib_kuid_range = 4" "csize struct_fib_kuid_range = 8"
  by (simp_all add: struct_fib_kuid_range_def place_def align_up_def)

definition struct_fib_rule_port_range :: ctype where
  "struct_fib_rule_port_range = CStruct [
     Member ''start'' (CInt 2), Member ''end'' (CInt 2)]"

lemma layout_struct_fib_rule_port_range [simp]: "cwf struct_fib_rule_port_range" "calign struct_fib_rule_port_range = 2" "csize struct_fib_rule_port_range = 4"
  by (simp_all add: struct_fib_rule_port_range_def place_def align_up_def)

definition struct_fib_rule :: ctype where
  "struct_fib_rule = CStruct [
     Member ''list'' struct_list_head, Member ''iifindex'' (CInt 4),
     Member ''oifindex'' (CInt 4), Member ''mark'' (CInt 4), Member ''mark_mask'' (CInt 4),
     Member ''flags'' (CInt 4), Member ''table'' (CInt 4), Member ''action'' (CInt 1),
     Member ''l3mdev'' (CInt 1), Member ''proto'' (CInt 1), Member ''ip_proto'' (CInt 1),
     Member ''target'' (CInt 4), Member ''tun_id'' (CInt 8), Member ''ctarget'' CPtr,
     Member ''fr_net'' CPtr, Member ''refcnt'' struct_refcount_struct, Member ''pref'' (CInt 4),
     Member ''suppress_ifgroup'' (CInt 4), Member ''suppress_prefixlen'' (CInt 4),
     Member ''iifname'' (CArray (CInt 1) 16), Member ''oifname'' (CArray (CInt 1) 16),
     Member ''uid_range'' struct_fib_kuid_range,
     Member ''sport_range'' struct_fib_rule_port_range,
     Member ''dport_range'' struct_fib_rule_port_range, Member ''rcu'' struct_callback_head]"

lemma layout_struct_fib_rule [simp]: "cwf struct_fib_rule" "calign struct_fib_rule = 8" "csize struct_fib_rule = 152"
  by (simp_all add: struct_fib_rule_def place_def align_up_def)

definition struct_fib_rule_hdr :: ctype where
  "struct_fib_rule_hdr = CStruct [
     Member ''family'' (CInt 1), Member ''dst_len'' (CInt 1), Member ''src_len'' (CInt 1),
     Member ''tos'' (CInt 1), Member ''table'' (CInt 1), Member ''res1'' (CInt 1),
     Member ''res2'' (CInt 1), Member ''action'' (CInt 1), Member ''flags'' (CInt 4)]"

lemma layout_struct_fib_rule_hdr [simp]: "cwf struct_fib_rule_hdr" "calign struct_fib_rule_hdr = 4" "csize struct_fib_rule_hdr = 12"
  by (simp_all add: struct_fib_rule_hdr_def place_def align_up_def)

definition struct_fnhe_hash_bucket :: ctype where
  "struct_fnhe_hash_bucket = CStruct [
     Member ''chain'' CPtr]"

lemma layout_struct_fnhe_hash_bucket [simp]: "cwf struct_fnhe_hash_bucket" "calign struct_fnhe_hash_bucket = 8" "csize struct_fnhe_hash_bucket = 8"
  by (simp_all add: struct_fnhe_hash_bucket_def place_def align_up_def)

definition struct_fwnode_operations :: ctype where
  "struct_fwnode_operations = CStruct [
     Member ''get'' CPtr, Member ''put'' CPtr, Member ''device_is_available'' CPtr,
     Member ''device_get_match_data'' CPtr, Member ''device_dma_supported'' CPtr,
     Member ''device_get_dma_attr'' CPtr, Member ''property_present'' CPtr,
     Member ''property_read_int_array'' CPtr, Member ''property_read_string_array'' CPtr,
     Member ''get_name'' CPtr, Member ''get_name_prefix'' CPtr, Member ''get_parent'' CPtr,
     Member ''get_next_child_node'' CPtr, Member ''get_named_child_node'' CPtr,
     Member ''get_reference_args'' CPtr, Member ''graph_get_next_endpoint'' CPtr,
     Member ''graph_get_remote_endpoint'' CPtr, Member ''graph_get_port_parent'' CPtr,
     Member ''graph_parse_endpoint'' CPtr, Member ''iomap'' CPtr, Member ''irq_get'' CPtr,
     Member ''add_links'' CPtr]"

lemma layout_struct_fwnode_operations [simp]: "cwf struct_fwnode_operations" "calign struct_fwnode_operations = 8" "csize struct_fwnode_operations = 176"
  by (simp_all add: struct_fwnode_operations_def place_def align_up_def)

definition struct_gpio_desc :: ctype where
  "struct_gpio_desc = CStruct [
     Member ''gdev'' CPtr, Member ''flags'' (CInt 8), Member ''label'' CPtr, Member ''name'' CPtr]"

lemma layout_struct_gpio_desc [simp]: "cwf struct_gpio_desc" "calign struct_gpio_desc = 8" "csize struct_gpio_desc = 32"
  by (simp_all add: struct_gpio_desc_def place_def align_up_def)

definition struct_group_info :: ctype where
  "struct_group_info = CStruct [
     Member ''usage'' struct_refcount_struct, Member ''ngroups'' (CInt 4),
     Member ''gid'' (CArray type_kgid_t 0)]"

lemma layout_struct_group_info [simp]: "cwf struct_group_info" "calign struct_group_info = 4" "csize struct_group_info = 8"
  by (simp_all add: struct_group_info_def place_def align_up_def)

definition struct_ib_device_ops :: ctype where
  "struct_ib_device_ops = CStruct [
     Member ''owner'' CPtr, Member ''driver_id'' (CInt 4), Member ''uverbs_abi_ver'' (CInt 4),
     Bits ''uverbs_no_driver_id_binding'' 4 1, Member ''device_group'' CPtr,
     Member ''port_groups'' CPtr, Member ''post_send'' CPtr, Member ''post_recv'' CPtr,
     Member ''drain_rq'' CPtr, Member ''drain_sq'' CPtr, Member ''poll_cq'' CPtr,
     Member ''peek_cq'' CPtr, Member ''req_notify_cq'' CPtr, Member ''post_srq_recv'' CPtr,
     Member ''process_mad'' CPtr, Member ''query_device'' CPtr, Member ''modify_device'' CPtr,
     Member ''get_dev_fw_str'' CPtr, Member ''get_vector_affinity'' CPtr,
     Member ''query_port'' CPtr, Member ''modify_port'' CPtr, Member ''get_port_immutable'' CPtr,
     Member ''get_link_layer'' CPtr, Member ''get_netdev'' CPtr,
     Member ''alloc_rdma_netdev'' CPtr, Member ''rdma_netdev_get_params'' CPtr,
     Member ''query_gid'' CPtr, Member ''add_gid'' CPtr, Member ''del_gid'' CPtr,
     Member ''query_pkey'' CPtr, Member ''alloc_ucontext'' CPtr,
     Member ''dealloc_ucontext'' CPtr, Member ''mmap'' CPtr, Member ''mmap_free'' CPtr,
     Member ''disassociate_ucontext'' CPtr, Member ''alloc_pd'' CPtr, Member ''dealloc_pd'' CPtr,
     Member ''create_ah'' CPtr, Member ''create_user_ah'' CPtr, Member ''modify_ah'' CPtr,
     Member ''query_ah'' CPtr, Member ''destroy_ah'' CPtr, Member ''create_srq'' CPtr,
     Member ''modify_srq'' CPtr, Member ''query_srq'' CPtr, Member ''destroy_srq'' CPtr,
     Member ''create_qp'' CPtr, Member ''modify_qp'' CPtr, Member ''query_qp'' CPtr,
     Member ''destroy_qp'' CPtr, Member ''create_cq'' CPtr, Member ''modify_cq'' CPtr,
     Member ''destroy_cq'' CPtr, Member ''resize_cq'' CPtr, Member ''get_dma_mr'' CPtr,
     Member ''reg_user_mr'' CPtr, Member ''reg_user_mr_dmabuf'' CPtr,
     Member ''rereg_user_mr'' CPtr, Member ''dereg_mr'' CPtr, Member ''alloc_mr'' CPtr,
     Member ''alloc_mr_integrity'' CPtr, Member ''advise_mr'' CPtr, Member ''map_mr_sg'' CPtr,
     Member ''check_mr_status'' CPtr, Member ''alloc_mw'' CPtr, Member ''dealloc_mw'' CPtr,
     Member ''attach_mcast'' CPtr, Member ''detach_mcast'' CPtr, Member ''alloc_xrcd'' CPtr,
     Member ''dealloc_xrcd'' CPtr, Member ''create_flow'' CPtr, Member ''destroy_flow'' CPtr,
     Member ''destroy_flow_action'' CPtr, Member ''set_vf_link_state'' CPtr,
     Member ''get_vf_config'' CPtr, Member ''get_vf_stats'' CPtr, Member ''get_vf_guid'' CPtr,
     Member ''set_vf_guid'' CPtr, Member ''create_wq'' CPtr, Member ''destroy_wq'' CPtr,
     Member ''modify_wq'' CPtr, Member ''create_rwq_ind_table'' CPtr,
     Member ''destroy_rwq_ind_table'' CPtr, Member ''alloc_dm'' CPtr, Member ''dealloc_dm'' CPtr,
     Member ''reg_dm_mr'' CPtr, Member ''create_counters'' CPtr,
     Member ''destroy_counters'' CPtr, Member ''read_counters'' CPtr,
     Member ''map_mr_sg_pi'' CPtr, Member ''alloc_hw_device_stats'' CPtr,
     Member ''alloc_hw_port_stats'' CPtr, Member ''get_hw_stats'' CPtr,
     Member ''modify_hw_stat'' CPtr, Member ''fill_res_mr_entry'' CPtr,
     Member ''fill_res_mr_entry_raw'' CPtr, Member ''fill_res_cq_entry'' CPtr,
     Member ''fill_res_cq_entry_raw'' CPtr, Member ''fill_res_qp_entry'' CPtr,
     Member ''fill_res_qp_entry_raw'' CPtr, Member ''fill_res_cm_id_entry'' CPtr,
     Member ''fill_res_srq_entry'' CPtr, Member ''fill_res_srq_entry_raw'' CPtr,
     Member ''enable_driver'' CPtr, Member ''dealloc_driver'' CPtr, Member ''iw_add_ref'' CPtr,
     Member ''iw_rem_ref'' CPtr, Member ''iw_get_qp'' CPtr, Member ''iw_connect'' CPtr,
     Member ''iw_accept'' CPtr, Member ''iw_reject'' CPtr, Member ''iw_create_listen'' CPtr,
     Member ''iw_destroy_listen'' CPtr, Member ''counter_bind_qp'' CPtr,
     Member ''counter_unbind_qp'' CPtr, Member ''counter_dealloc'' CPtr,
     Member ''counter_alloc_stats'' CPtr, Member ''counter_update_stats'' CPtr,
     Member ''fill_stat_mr_entry'' CPtr, Member ''query_ucontext'' CPtr,
     Member ''get_numa_node'' CPtr, Member ''add_sub_dev'' CPtr, Member ''del_sub_dev'' CPtr,
     Member ''size_ib_ah'' (CInt 8), Member ''size_ib_counters'' (CInt 8),
     Member ''size_ib_cq'' (CInt 8), Member ''size_ib_mw'' (CInt 8),
     Member ''size_ib_pd'' (CInt 8), Member ''size_ib_qp'' (CInt 8),
     Member ''size_ib_rwq_ind_table'' (CInt 8), Member ''size_ib_srq'' (CInt 8),
     Member ''size_ib_ucontext'' (CInt 8), Member ''size_ib_xrcd'' (CInt 8)]"

lemma layout_struct_ib_device_ops [simp]: "cwf struct_ib_device_ops" "calign struct_ib_device_ops = 8" "csize struct_ib_device_ops = 1056"
  by (simp_all add: struct_ib_device_ops_def place_def align_up_def)

definition struct_ib_core_device :: ctype where
  "struct_ib_core_device = CStruct [
     Member ''dev'' struct_device, Member ''rdma_net'' type_possible_net_t,
     Member ''ports_kobj'' CPtr, Member ''port_list'' struct_list_head, Member ''owner'' CPtr]"

lemma layout_struct_ib_core_device [simp]: "cwf struct_ib_core_device" "calign struct_ib_core_device = 8" "csize struct_ib_core_device = 792"
  by (simp_all add: struct_ib_core_device_def place_def align_up_def)

definition struct_ib_odp_caps :: ctype where
  "struct_ib_odp_caps = CStruct [
     Member ''general_caps'' (CInt 8), Member ''per_transport_caps'' (CStruct [
       Member ''rc_odp_caps'' (CInt 4), Member ''uc_odp_caps'' (CInt 4),
       Member ''ud_odp_caps'' (CInt 4), Member ''xrc_odp_caps'' (CInt 4)])]"

lemma layout_struct_ib_odp_caps [simp]: "cwf struct_ib_odp_caps" "calign struct_ib_odp_caps = 8" "csize struct_ib_odp_caps = 24"
  by (simp_all add: struct_ib_odp_caps_def place_def align_up_def)

definition struct_ib_rss_caps :: ctype where
  "struct_ib_rss_caps = CStruct [
     Member ''supported_qpts'' (CInt 4), Member ''max_rwq_indirection_tables'' (CInt 4),
     Member ''max_rwq_indirection_table_size'' (CInt 4)]"

lemma layout_struct_ib_rss_caps [simp]: "cwf struct_ib_rss_caps" "calign struct_ib_rss_caps = 4" "csize struct_ib_rss_caps = 12"
  by (simp_all add: struct_ib_rss_caps_def place_def align_up_def)

definition struct_ib_tm_caps :: ctype where
  "struct_ib_tm_caps = CStruct [
     Member ''max_rndv_hdr_size'' (CInt 4), Member ''max_num_tags'' (CInt 4),
     Member ''flags'' (CInt 4), Member ''max_ops'' (CInt 4), Member ''max_sge'' (CInt 4)]"

lemma layout_struct_ib_tm_caps [simp]: "cwf struct_ib_tm_caps" "calign struct_ib_tm_caps = 4" "csize struct_ib_tm_caps = 20"
  by (simp_all add: struct_ib_tm_caps_def place_def align_up_def)

definition struct_ib_cq_caps :: ctype where
  "struct_ib_cq_caps = CStruct [
     Member ''max_cq_moderation_count'' (CInt 2), Member ''max_cq_moderation_period'' (CInt 2)]"

lemma layout_struct_ib_cq_caps [simp]: "cwf struct_ib_cq_caps" "calign struct_ib_cq_caps = 2" "csize struct_ib_cq_caps = 4"
  by (simp_all add: struct_ib_cq_caps_def place_def align_up_def)

definition struct_ib_device_attr :: ctype where
  "struct_ib_device_attr = CStruct [
     Member ''fw_ver'' (CInt 8), Member ''sys_image_guid'' (CInt 8),
     Member ''max_mr_size'' (CInt 8), Member ''page_size_cap'' (CInt 8),
     Member ''vendor_id'' (CInt 4), Member ''vendor_part_id'' (CInt 4),
     Member ''hw_ver'' (CInt 4), Member ''max_qp'' (CInt 4), Member ''max_qp_wr'' (CInt 4),
     Member ''device_cap_flags'' (CInt 8), Member ''kernel_cap_flags'' (CInt 8),
     Member ''max_send_sge'' (CInt 4), Member ''max_recv_sge'' (CInt 4),
     Member ''max_sge_rd'' (CInt 4), Member ''max_cq'' (CInt 4), Member ''max_cqe'' (CInt 4),
     Member ''max_mr'' (CInt 4), Member ''max_pd'' (CInt 4), Member ''max_qp_rd_atom'' (CInt 4),
     Member ''max_ee_rd_atom'' (CInt 4), Member ''max_res_rd_atom'' (CInt 4),
     Member ''max_qp_init_rd_atom'' (CInt 4), Member ''max_ee_init_rd_atom'' (CInt 4),
     Member ''atomic_cap'' (CInt 4), Member ''masked_atomic_cap'' (CInt 4),
     Member ''max_ee'' (CInt 4), Member ''max_rdd'' (CInt 4), Member ''max_mw'' (CInt 4),
     Member ''max_raw_ipv6_qp'' (CInt 4), Member ''max_raw_ethy_qp'' (CInt 4),
     Member ''max_mcast_grp'' (CInt 4), Member ''max_mcast_qp_attach'' (CInt 4),
     Member ''max_total_mcast_qp_attach'' (CInt 4), Member ''max_ah'' (CInt 4),
     Member ''max_srq'' (CInt 4), Member ''max_srq_wr'' (CInt 4),
     Member ''max_srq_sge'' (CInt 4), Member ''max_fast_reg_page_list_len'' (CInt 4),
     Member ''max_pi_fast_reg_page_list_len'' (CInt 4), Member ''max_pkeys'' (CInt 2),
     Member ''local_ca_ack_delay'' (CInt 1), Member ''sig_prot_cap'' (CInt 4),
     Member ''sig_guard_cap'' (CInt 4), Member ''odp_caps'' struct_ib_odp_caps,
     Member ''timestamp_mask'' (CInt 8), Member ''hca_core_clock'' (CInt 8),
     Member ''rss_caps'' struct_ib_rss_caps, Member ''max_wq_type_rq'' (CInt 4),
     Member ''raw_packet_caps'' (CInt 4), Member ''tm_caps'' struct_ib_tm_caps,
     Member ''cq_caps'' struct_ib_cq_caps, Member ''max_dm_size'' (CInt 8),
     Member ''max_sgl_rd'' (CInt 4)]"

lemma layout_struct_ib_device_attr [simp]: "cwf struct_ib_device_attr" "calign struct_ib_device_attr = 8" "csize struct_ib_device_attr = 304"
  by (simp_all add: struct_ib_device_attr_def place_def align_up_def)

definition struct_rdmacg_device :: ctype where
  "struct_rdmacg_device = CStruct [
     Member ''dev_node'' struct_list_head, Member ''rpools'' struct_list_head,
     Member ''name'' CPtr]"

lemma layout_struct_rdmacg_device [simp]: "cwf struct_rdmacg_device" "calign struct_rdmacg_device = 8" "csize struct_rdmacg_device = 40"
  by (simp_all add: struct_rdmacg_device_def place_def align_up_def)

definition struct_ib_device :: ctype where
  "struct_ib_device = CStruct [
     Member ''dma_device'' CPtr, Member ''ops'' struct_ib_device_ops,
     Member ''name'' (CArray (CInt 1) 64), Member ''callback_head'' struct_callback_head,
     Member ''event_handler_list'' struct_list_head,
     Member ''event_handler_rwsem'' struct_rw_semaphore,
     Member ''qp_open_list_lock'' struct_spinlock,
     Member ''client_data_rwsem'' struct_rw_semaphore, Member ''client_data'' struct_xarray,
     Member ''unregistration_lock'' struct_mutex, Member ''cache_lock'' type_rwlock_t,
     Member ''port_data'' CPtr, Member ''num_comp_vectors'' (CInt 4), Member '''' (CUnion [
       Member ''dev'' struct_device, Member ''coredev'' struct_ib_core_device]),
     Member ''groups'' (CArray CPtr 4), Member ''uverbs_cmd_mask'' (CInt 8),
     Member ''node_desc'' (CArray (CInt 1) 64), Member ''node_guid'' (CInt 8),
     Member ''local_dma_lkey'' (CInt 4), Bits ''is_switch'' 2 1, Bits ''kverbs_provider'' 2 1,
     Bits ''use_cq_dim'' 2 1, Member ''node_type'' (CInt 1), Member ''phys_port_cnt'' (CInt 4),
     Member ''attrs'' struct_ib_device_attr, Member ''hw_stats_data'' CPtr,
     Member ''cg_device'' struct_rdmacg_device, Member ''index'' (CInt 4),
     Member ''cq_pools_lock'' struct_spinlock, Member ''cq_pools'' (CArray struct_list_head 3),
     Member ''res'' CPtr, Member ''driver_def'' CPtr, Member ''refcount'' struct_refcount_struct,
     Member ''unreg_completion'' struct_completion,
     Member ''unregistration_work'' struct_work_struct, Member ''link_ops'' CPtr,
     Member ''compat_devs_mutex'' struct_mutex, Member ''compat_devs'' struct_xarray,
     Member ''iw_ifname'' (CArray (CInt 1) 16), Member ''iw_driver_flags'' (CInt 4),
     Member ''lag_flags'' (CInt 4), Member ''subdev_lock'' struct_mutex,
     Member ''subdev_list_head'' struct_list_head, Member ''type'' (CInt 4),
     Member ''parent'' CPtr, Member ''subdev_list'' struct_list_head,
     Member ''name_assign_type'' (CInt 4)]"

lemma layout_struct_ib_device [simp]: "cwf struct_ib_device" "calign struct_ib_device = 8" "csize struct_ib_device = 2904"
  by (simp_all add: struct_ib_device_def place_def align_up_def)

definition struct_icmpv6_mib_device :: ctype where
  "struct_icmpv6_mib_device = CStruct [
     Member ''mibs'' (CArray type_atomic64_t 7)]"

lemma layout_struct_icmpv6_mib_device [simp]: "cwf struct_icmpv6_mib_device" "calign struct_icmpv6_mib_device = 8" "csize struct_icmpv6_mib_device = 56"
  by (simp_all add: struct_icmpv6_mib_device_def place_def align_up_def)

definition struct_icmpv6msg_mib_device :: ctype where
  "struct_icmpv6msg_mib_device = CStruct [
     Member ''mibs'' (CArray type_atomic64_t 512)]"

lemma layout_struct_icmpv6msg_mib_device [simp]: "cwf struct_icmpv6msg_mib_device" "calign struct_icmpv6msg_mib_device = 8" "csize struct_icmpv6msg_mib_device = 4096"
  by (simp_all add: struct_icmpv6msg_mib_device_def place_def align_up_def)

definition struct_ieee80211_channel :: ctype where
  "struct_ieee80211_channel = CStruct [
     Member ''band'' (CInt 4), Member ''center_freq'' (CInt 4), Member ''freq_offset'' (CInt 2),
     Member ''hw_value'' (CInt 2), Member ''flags'' (CInt 4),
     Member ''max_antenna_gain'' (CInt 4), Member ''max_power'' (CInt 4),
     Member ''max_reg_power'' (CInt 4), Member ''beacon_found'' (CInt 1),
     Member ''orig_flags'' (CInt 4), Member ''orig_mag'' (CInt 4), Member ''orig_mpwr'' (CInt 4),
     Member ''dfs_state'' (CInt 4), Member ''dfs_state_entered'' (CInt 8),
     Member ''dfs_cac_ms'' (CInt 4), Member ''psd'' (CInt 1)]"

lemma layout_struct_ieee80211_channel [simp]: "cwf struct_ieee80211_channel" "calign struct_ieee80211_channel = 8" "csize struct_ieee80211_channel = 64"
  by (simp_all add: struct_ieee80211_channel_def place_def align_up_def)

definition struct_ieee802154_pan_device :: ctype where
  "struct_ieee802154_pan_device = CStruct [
     Member ''pan_id'' (CInt 2), Member ''mode'' (CInt 1), Member ''short_addr'' (CInt 2),
     Member ''extended_addr'' (CInt 8), Member ''node'' struct_list_head]"

lemma layout_struct_ieee802154_pan_device [simp]: "cwf struct_ieee802154_pan_device" "calign struct_ieee802154_pan_device = 8" "csize struct_ieee802154_pan_device = 32"
  by (simp_all add: struct_ieee802154_pan_device_def place_def align_up_def)

definition struct_ieee_ets :: ctype where
  "struct_ieee_ets = CStruct [
     Member ''willing'' (CInt 1), Member ''ets_cap'' (CInt 1), Member ''cbs'' (CInt 1),
     Member ''tc_tx_bw'' (CArray (CInt 1) 8), Member ''tc_rx_bw'' (CArray (CInt 1) 8),
     Member ''tc_tsa'' (CArray (CInt 1) 8), Member ''prio_tc'' (CArray (CInt 1) 8),
     Member ''tc_reco_bw'' (CArray (CInt 1) 8), Member ''tc_reco_tsa'' (CArray (CInt 1) 8),
     Member ''reco_prio_tc'' (CArray (CInt 1) 8)]"

lemma layout_struct_ieee_ets [simp]: "cwf struct_ieee_ets" "calign struct_ieee_ets = 1" "csize struct_ieee_ets = 59"
  by (simp_all add: struct_ieee_ets_def place_def align_up_def)

definition struct_ieee_maxrate :: ctype where
  "struct_ieee_maxrate = CStruct [
     Member ''tc_maxrate'' (CArray (CInt 8) 8)]"

lemma layout_struct_ieee_maxrate [simp]: "cwf struct_ieee_maxrate" "calign struct_ieee_maxrate = 8" "csize struct_ieee_maxrate = 64"
  by (simp_all add: struct_ieee_maxrate_def place_def align_up_def)

definition struct_ieee_pfc :: ctype where
  "struct_ieee_pfc = CStruct [
     Member ''pfc_cap'' (CInt 1), Member ''pfc_en'' (CInt 1), Member ''mbc'' (CInt 1),
     Member ''delay'' (CInt 2), Member ''requests'' (CArray (CInt 8) 8),
     Member ''indications'' (CArray (CInt 8) 8)]"

lemma layout_struct_ieee_pfc [simp]: "cwf struct_ieee_pfc" "calign struct_ieee_pfc = 8" "csize struct_ieee_pfc = 136"
  by (simp_all add: struct_ieee_pfc_def place_def align_up_def)

definition struct_ieee_qcn :: ctype where
  "struct_ieee_qcn = CStruct [
     Member ''rpg_enable'' (CArray (CInt 1) 8), Member ''rppp_max_rps'' (CArray (CInt 4) 8),
     Member ''rpg_time_reset'' (CArray (CInt 4) 8),
     Member ''rpg_byte_reset'' (CArray (CInt 4) 8), Member ''rpg_threshold'' (CArray (CInt 4) 8),
     Member ''rpg_max_rate'' (CArray (CInt 4) 8), Member ''rpg_ai_rate'' (CArray (CInt 4) 8),
     Member ''rpg_hai_rate'' (CArray (CInt 4) 8), Member ''rpg_gd'' (CArray (CInt 4) 8),
     Member ''rpg_min_dec_fac'' (CArray (CInt 4) 8), Member ''rpg_min_rate'' (CArray (CInt 4) 8),
     Member ''cndd_state_machine'' (CArray (CInt 4) 8)]"

lemma layout_struct_ieee_qcn [simp]: "cwf struct_ieee_qcn" "calign struct_ieee_qcn = 4" "csize struct_ieee_qcn = 360"
  by (simp_all add: struct_ieee_qcn_def place_def align_up_def)

definition struct_ieee_qcn_stats :: ctype where
  "struct_ieee_qcn_stats = CStruct [
     Member ''rppp_rp_centiseconds'' (CArray (CInt 8) 8),
     Member ''rppp_created_rps'' (CArray (CInt 4) 8)]"

lemma layout_struct_ieee_qcn_stats [simp]: "cwf struct_ieee_qcn_stats" "calign struct_ieee_qcn_stats = 8" "csize struct_ieee_qcn_stats = 96"
  by (simp_all add: struct_ieee_qcn_stats_def place_def align_up_def)

definition struct_if_settings :: ctype where
  "struct_if_settings = CStruct [
     Member ''type'' (CInt 4), Member ''size'' (CInt 4), Member ''ifs_ifsu'' (CUnion [
       Member ''raw_hdlc'' CPtr, Member ''cisco'' CPtr, Member ''fr'' CPtr,
       Member ''fr_pvc'' CPtr, Member ''fr_pvc_info'' CPtr, Member ''x25'' CPtr,
       Member ''sync'' CPtr, Member ''te1'' CPtr])]"

lemma layout_struct_if_settings [simp]: "cwf struct_if_settings" "calign struct_if_settings = 8" "csize struct_if_settings = 16"
  by (simp_all add: struct_if_settings_def place_def align_up_def)

definition struct_ifacaddr6 :: ctype where
  "struct_ifacaddr6 = CStruct [
     Member ''aca_addr'' struct_in6_addr, Member ''aca_rt'' CPtr, Member ''aca_next'' CPtr,
     Member ''aca_addr_lst'' struct_hlist_node, Member ''aca_users'' (CInt 4),
     Member ''aca_refcnt'' struct_refcount_struct, Member ''aca_cstamp'' (CInt 8),
     Member ''aca_tstamp'' (CInt 8), Member ''rcu'' struct_callback_head]"

lemma layout_struct_ifacaddr6 [simp]: "cwf struct_ifacaddr6" "calign struct_ifacaddr6 = 8" "csize struct_ifacaddr6 = 88"
  by (simp_all add: struct_ifacaddr6_def place_def align_up_def)

definition struct_ifla_vf_guid :: ctype where
  "struct_ifla_vf_guid = CStruct [
     Member ''vf'' (CInt 4), Member ''guid'' (CInt 8)]"

lemma layout_struct_ifla_vf_guid [simp]: "cwf struct_ifla_vf_guid" "calign struct_ifla_vf_guid = 8" "csize struct_ifla_vf_guid = 16"
  by (simp_all add: struct_ifla_vf_guid_def place_def align_up_def)

definition struct_ifla_vf_info :: ctype where
  "struct_ifla_vf_info = CStruct [
     Member ''vf'' (CInt 4), Member ''mac'' (CArray (CInt 1) 32), Member ''vlan'' (CInt 4),
     Member ''qos'' (CInt 4), Member ''spoofchk'' (CInt 4), Member ''linkstate'' (CInt 4),
     Member ''min_tx_rate'' (CInt 4), Member ''max_tx_rate'' (CInt 4),
     Member ''rss_query_en'' (CInt 4), Member ''trusted'' (CInt 4),
     Member ''vlan_proto'' (CInt 2)]"

lemma layout_struct_ifla_vf_info [simp]: "cwf struct_ifla_vf_info" "calign struct_ifla_vf_info = 4" "csize struct_ifla_vf_info = 72"
  by (simp_all add: struct_ifla_vf_info_def place_def align_up_def)

definition struct_ifla_vf_stats :: ctype where
  "struct_ifla_vf_stats = CStruct [
     Member ''rx_packets'' (CInt 8), Member ''tx_packets'' (CInt 8),
     Member ''rx_bytes'' (CInt 8), Member ''tx_bytes'' (CInt 8), Member ''broadcast'' (CInt 8),
     Member ''multicast'' (CInt 8), Member ''rx_dropped'' (CInt 8),
     Member ''tx_dropped'' (CInt 8)]"

lemma layout_struct_ifla_vf_stats [simp]: "cwf struct_ifla_vf_stats" "calign struct_ifla_vf_stats = 8" "csize struct_ifla_vf_stats = 64"
  by (simp_all add: struct_ifla_vf_stats_def place_def align_up_def)

definition struct_ifmap :: ctype where
  "struct_ifmap = CStruct [
     Member ''mem_start'' (CInt 8), Member ''mem_end'' (CInt 8), Member ''base_addr'' (CInt 2),
     Member ''irq'' (CInt 1), Member ''dma'' (CInt 1), Member ''port'' (CInt 1)]"

lemma layout_struct_ifmap [simp]: "cwf struct_ifmap" "calign struct_ifmap = 8" "csize struct_ifmap = 24"
  by (simp_all add: struct_ifmap_def place_def align_up_def)

definition struct_ifmcaddr6 :: ctype where
  "struct_ifmcaddr6 = CStruct [
     Member ''mca_addr'' struct_in6_addr, Member ''idev'' CPtr, Member ''next'' CPtr,
     Member ''mca_sources'' CPtr, Member ''mca_tomb'' CPtr, Member ''mca_sfmode'' (CInt 4),
     Member ''mca_crcount'' (CInt 1), Member ''mca_sfcount'' (CArray (CInt 8) 2),
     Member ''mca_work'' struct_delayed_work, Member ''mca_flags'' (CInt 4),
     Member ''mca_users'' (CInt 4), Member ''mca_refcnt'' struct_refcount_struct,
     Member ''mca_cstamp'' (CInt 8), Member ''mca_tstamp'' (CInt 8),
     Member ''rcu'' struct_callback_head]"

lemma layout_struct_ifmcaddr6 [simp]: "cwf struct_ifmcaddr6" "calign struct_ifmcaddr6 = 8" "csize struct_ifmcaddr6 = 208"
  by (simp_all add: struct_ifmcaddr6_def place_def align_up_def)

definition struct_sockaddr :: ctype where
  "struct_sockaddr = CStruct [
     Member ''sa_family'' (CInt 2), Member '''' (CUnion [
       Member ''sa_data_min'' (CArray (CInt 1) 14), Member '''' (CStruct [
         Member ''__empty_sa_data'' (CStruct []), Member ''sa_data'' (CArray (CInt 1) 0)])])]"

lemma layout_struct_sockaddr [simp]: "cwf struct_sockaddr" "calign struct_sockaddr = 2" "csize struct_sockaddr = 16"
  by (simp_all add: struct_sockaddr_def place_def align_up_def)

definition struct_ifreq :: ctype where
  "struct_ifreq = CStruct [
     Member ''ifr_ifrn'' (CUnion [
       Member ''ifrn_name'' (CArray (CInt 1) 16)]), Member ''ifr_ifru'' (CUnion [
       Member ''ifru_addr'' struct_sockaddr, Member ''ifru_dstaddr'' struct_sockaddr,
       Member ''ifru_broadaddr'' struct_sockaddr, Member ''ifru_netmask'' struct_sockaddr,
       Member ''ifru_hwaddr'' struct_sockaddr, Member ''ifru_flags'' (CInt 2),
       Member ''ifru_ivalue'' (CInt 4), Member ''ifru_mtu'' (CInt 4),
       Member ''ifru_map'' struct_ifmap, Member ''ifru_slave'' (CArray (CInt 1) 16),
       Member ''ifru_newname'' (CArray (CInt 1) 16), Member ''ifru_data'' CPtr,
       Member ''ifru_settings'' struct_if_settings])]"

lemma layout_struct_ifreq [simp]: "cwf struct_ifreq" "calign struct_ifreq = 8" "csize struct_ifreq = 40"
  by (simp_all add: struct_ifreq_def place_def align_up_def)

definition struct_in_ifaddr :: ctype where
  "struct_in_ifaddr = CStruct [
     Member ''hash'' struct_hlist_node, Member ''ifa_next'' CPtr, Member ''ifa_dev'' CPtr,
     Member ''callback_head'' struct_callback_head, Member ''ifa_local'' (CInt 4),
     Member ''ifa_address'' (CInt 4), Member ''ifa_mask'' (CInt 4),
     Member ''ifa_rt_priority'' (CInt 4), Member ''ifa_broadcast'' (CInt 4),
     Member ''ifa_scope'' (CInt 1), Member ''ifa_prefixlen'' (CInt 1),
     Member ''ifa_proto'' (CInt 1), Member ''ifa_flags'' (CInt 4),
     Member ''ifa_label'' (CArray (CInt 1) 16), Member ''ifa_valid_lft'' (CInt 4),
     Member ''ifa_preferred_lft'' (CInt 4), Member ''ifa_cstamp'' (CInt 8),
     Member ''ifa_tstamp'' (CInt 8)]"

lemma layout_struct_in_ifaddr [simp]: "cwf struct_in_ifaddr" "calign struct_in_ifaddr = 8" "csize struct_in_ifaddr = 120"
  by (simp_all add: struct_in_ifaddr_def place_def align_up_def)

definition struct_inet_bind_hashbucket :: ctype where
  "struct_inet_bind_hashbucket = CStruct [
     Member ''lock'' struct_spinlock, Member ''chain'' struct_hlist_head]"

lemma layout_struct_inet_bind_hashbucket [simp]: "cwf struct_inet_bind_hashbucket" "calign struct_inet_bind_hashbucket = 8" "csize struct_inet_bind_hashbucket = 16"
  by (simp_all add: struct_inet_bind_hashbucket_def place_def align_up_def)

definition struct_inet_ehash_bucket :: ctype where
  "struct_inet_ehash_bucket = CStruct [
     Member ''chain'' struct_hlist_nulls_head]"

lemma layout_struct_inet_ehash_bucket [simp]: "cwf struct_inet_ehash_bucket" "calign struct_inet_ehash_bucket = 8" "csize struct_inet_ehash_bucket = 8"
  by (simp_all add: struct_inet_ehash_bucket_def place_def align_up_def)

definition struct_inet_frags :: ctype where
  "struct_inet_frags = CStruct [
     Member ''qsize'' (CInt 4), Member ''constructor'' CPtr, Member ''destructor'' CPtr,
     Member ''frag_expire'' CPtr, Member ''frags_cachep'' CPtr, Member ''frags_cache_name'' CPtr,
     Member ''rhash_params'' struct_rhashtable_params, Member ''refcnt'' struct_refcount_struct,
     Member ''completion'' struct_completion]"

lemma layout_struct_inet_frags [simp]: "cwf struct_inet_frags" "calign struct_inet_frags = 8" "csize struct_inet_frags = 128"
  by (simp_all add: struct_inet_frags_def place_def align_up_def)

definition struct_inet_listen_hashbucket :: ctype where
  "struct_inet_listen_hashbucket = CStruct [
     Member ''lock'' struct_spinlock, Member ''nulls_head'' struct_hlist_nulls_head]"

lemma layout_struct_inet_listen_hashbucket [simp]: "cwf struct_inet_listen_hashbucket" "calign struct_inet_listen_hashbucket = 8" "csize struct_inet_listen_hashbucket = 16"
  by (simp_all add: struct_inet_listen_hashbucket_def place_def align_up_def)

definition struct_io_tlb_area :: ctype where
  "struct_io_tlb_area = CStruct [
     Member ''used'' (CInt 8), Member ''index'' (CInt 4), Member ''lock'' struct_spinlock]"

lemma layout_struct_io_tlb_area [simp]: "cwf struct_io_tlb_area" "calign struct_io_tlb_area = 8" "csize struct_io_tlb_area = 16"
  by (simp_all add: struct_io_tlb_area_def place_def align_up_def)

definition struct_io_tlb_slot :: ctype where
  "struct_io_tlb_slot = CStruct [
     Member ''orig_addr'' (CInt 8), Member ''alloc_size'' (CInt 8), Member ''list'' (CInt 2),
     Member ''pad_slots'' (CInt 2)]"

lemma layout_struct_io_tlb_slot [simp]: "cwf struct_io_tlb_slot" "calign struct_io_tlb_slot = 8" "csize struct_io_tlb_slot = 24"
  by (simp_all add: struct_io_tlb_slot_def place_def align_up_def)

definition struct_iommu_device :: ctype where
  "struct_iommu_device = CStruct [
     Member ''list'' struct_list_head, Member ''ops'' CPtr, Member ''fwnode'' CPtr,
     Member ''dev'' CPtr, Member ''singleton_group'' CPtr, Member ''max_pasids'' (CInt 4)]"

lemma layout_struct_iommu_device [simp]: "cwf struct_iommu_device" "calign struct_iommu_device = 8" "csize struct_iommu_device = 56"
  by (simp_all add: struct_iommu_device_def place_def align_up_def)

definition struct_iommu_domain_geometry :: ctype where
  "struct_iommu_domain_geometry = CStruct [
     Member ''aperture_start'' (CInt 8), Member ''aperture_end'' (CInt 8),
     Member ''force_aperture'' (CInt 1)]"

lemma layout_struct_iommu_domain_geometry [simp]: "cwf struct_iommu_domain_geometry" "calign struct_iommu_domain_geometry = 8" "csize struct_iommu_domain_geometry = 24"
  by (simp_all add: struct_iommu_domain_geometry_def place_def align_up_def)

definition struct_iommu_domain :: ctype where
  "struct_iommu_domain = CStruct [
     Member ''type'' (CInt 4), Member ''ops'' CPtr, Member ''dirty_ops'' CPtr,
     Member ''owner'' CPtr, Member ''pgsize_bitmap'' (CInt 8),
     Member ''geometry'' struct_iommu_domain_geometry, Member ''iova_cookie'' CPtr,
     Member ''iopf_handler'' CPtr, Member ''fault_data'' CPtr, Member '''' (CUnion [
       Member '''' (CStruct [
         Member ''handler'' CPtr, Member ''handler_token'' CPtr]), Member '''' (CStruct [
         Member ''mm'' CPtr, Member ''users'' (CInt 4), Member ''next'' struct_list_head])])]"

lemma layout_struct_iommu_domain [simp]: "cwf struct_iommu_domain" "calign struct_iommu_domain = 8" "csize struct_iommu_domain = 120"
  by (simp_all add: struct_iommu_domain_def place_def align_up_def)

definition struct_iommu_fault_param :: ctype where
  "struct_iommu_fault_param = CStruct [
     Member ''lock'' struct_mutex, Member ''users'' struct_refcount_struct,
     Member ''rcu'' struct_callback_head, Member ''dev'' CPtr, Member ''queue'' CPtr,
     Member ''queue_list'' struct_list_head, Member ''partial'' struct_list_head,
     Member ''faults'' struct_list_head]"

lemma layout_struct_iommu_fault_param [simp]: "cwf struct_iommu_fault_param" "calign struct_iommu_fault_param = 8" "csize struct_iommu_fault_param = 120"
  by (simp_all add: struct_iommu_fault_param_def place_def align_up_def)

text \<open>Every structure of this theory, by name.\<close>

definition far_types :: "(string \<times> ctype) list" where
  "far_types = [
     (''struct_ack_sample'', struct_ack_sample),
     (''struct_acpi_device_id'', struct_acpi_device_id),
     (''struct_attribute'', struct_attribute), (''struct_bin_attribute'', struct_bin_attribute),
     (''struct_binfmt_misc'', struct_binfmt_misc),
     (''struct_bpf_cgroup_storage_key'', struct_bpf_cgroup_storage_key),
     (''struct_bpf_cgroup_storage'', struct_bpf_cgroup_storage),
     (''struct_bpf_local_storage_data'', struct_bpf_local_storage_data),
     (''struct_bpf_local_storage_map'', struct_bpf_local_storage_map),
     (''struct_bpf_mprog_cp'', struct_bpf_mprog_cp),
     (''struct_bpf_mprog_bundle'', struct_bpf_mprog_bundle),
     (''struct_bucket_table'', struct_bucket_table), (''struct_cee_pfc'', struct_cee_pfc),
     (''struct_cee_pg'', struct_cee_pg), (''struct_cgroup_root'', struct_cgroup_root),
     (''struct_cgroup_rstat_cpu'', struct_cgroup_rstat_cpu),
     (''struct_ctl_table_poll'', struct_ctl_table_poll), (''struct_dcb_app'', struct_dcb_app),
     (''struct_dcb_peer_app_info'', struct_dcb_peer_app_info),
     (''struct_dcbnl_buffer'', struct_dcbnl_buffer),
     (''struct_vmem_altmap'', struct_vmem_altmap), (''struct_range'', struct_range),
     (''struct_dev_pagemap'', struct_dev_pagemap),
     (''struct_pm_qos_flags_request'', struct_pm_qos_flags_request),
     (''struct_freq_qos_request'', struct_freq_qos_request),
     (''struct_dev_pm_qos_request'', struct_dev_pm_qos_request),
     (''struct_device_link'', struct_device_link),
     (''struct_devlink_dev_stats'', struct_devlink_dev_stats),
     (''struct_devlink'', struct_devlink),
     (''struct_devlink_linecard'', struct_devlink_linecard),
     (''struct_devlink_port_ops'', struct_devlink_port_ops),
     (''struct_devlink_rate'', struct_devlink_rate),
     (''struct_dim_cq_moder'', struct_dim_cq_moder),
     (''struct_dpll_pin_frequency'', struct_dpll_pin_frequency),
     (''struct_driver_private'', struct_driver_private),
     (''struct_dsa_bridge'', struct_dsa_bridge),
     (''struct_dsa_device_ops'', struct_dsa_device_ops), (''struct_dsa_lag'', struct_dsa_lag),
     (''struct_dsa_switch'', struct_dsa_switch),
     (''struct_dsa_switch_tree'', struct_dsa_switch_tree),
     (''struct_dst_metrics'', struct_dst_metrics),
     (''struct_em_perf_state'', struct_em_perf_state),
     (''struct_em_perf_table'', struct_em_perf_table),
     (''struct_ethtool_channels'', struct_ethtool_channels),
     (''struct_ethtool_coalesce'', struct_ethtool_coalesce),
     (''struct_ethtool_drvinfo'', struct_ethtool_drvinfo),
     (''struct_ethtool_dump'', struct_ethtool_dump),
     (''struct_ethtool_eeprom'', struct_ethtool_eeprom),
     (''struct_ethtool_eth_ctrl_stats'', struct_ethtool_eth_ctrl_stats),
     (''struct_ethtool_eth_mac_stats'', struct_ethtool_eth_mac_stats),
     (''struct_ethtool_eth_phy_stats'', struct_ethtool_eth_phy_stats),
     (''struct_ethtool_fec_stat'', struct_ethtool_fec_stat),
     (''struct_ethtool_fec_stats'', struct_ethtool_fec_stats),
     (''struct_ethtool_fecparam'', struct_ethtool_fecparam),
     (''struct_ethtool_flash'', struct_ethtool_flash),
     (''struct_ethtool_keee'', struct_ethtool_keee),
     (''struct_ethtool_link_ext_state_info'', struct_ethtool_link_ext_state_info),
     (''struct_ethtool_link_ext_stats'', struct_ethtool_link_ext_stats),
     (''struct_ethtool_link_settings'', struct_ethtool_link_settings),
     (''struct_ethtool_link_ksettings'', struct_ethtool_link_ksettings),
     (''struct_ethtool_mm_cfg'', struct_ethtool_mm_cfg),
     (''struct_ethtool_mm_state'', struct_ethtool_mm_state),
     (''struct_ethtool_mm_stats'', struct_ethtool_mm_stats),
     (''struct_ethtool_modinfo'', struct_ethtool_modinfo),
     (''struct_ethtool_module_eeprom'', struct_ethtool_module_eeprom),
     (''struct_ethtool_module_power_mode_params'', struct_ethtool_module_power_mode_params),
     (''struct_ethtool_pause_stats'', struct_ethtool_pause_stats),
     (''struct_ethtool_pauseparam'', struct_ethtool_pauseparam),
     (''struct_ethtool_regs'', struct_ethtool_regs),
     (''struct_ethtool_ringparam'', struct_ethtool_ringparam),
     (''struct_ethtool_rmon_hist_range'', struct_ethtool_rmon_hist_range),
     (''struct_ethtool_rmon_stats'', struct_ethtool_rmon_stats),
     (''struct_ethtool_rxfh_context'', struct_ethtool_rxfh_context),
     (''struct_ethtool_rxfh_param'', struct_ethtool_rxfh_param),
     (''struct_ethtool_tcpip4_spec'', struct_ethtool_tcpip4_spec),
     (''struct_ethtool_ah_espip4_spec'', struct_ethtool_ah_espip4_spec),
     (''struct_ethtool_usrip4_spec'', struct_ethtool_usrip4_spec),
     (''struct_ethtool_tcpip6_spec'', struct_ethtool_tcpip6_spec),
     (''struct_ethtool_ah_espip6_spec'', struct_ethtool_ah_espip6_spec),
     (''struct_ethtool_usrip6_spec'', struct_ethtool_usrip6_spec),
     (''struct_ethhdr'', struct_ethhdr),
     (''union_ethtool_flow_union'', union_ethtool_flow_union),
     (''struct_ethtool_flow_ext'', struct_ethtool_flow_ext),
     (''struct_ethtool_rx_flow_spec'', struct_ethtool_rx_flow_spec),
     (''struct_ethtool_rxnfc'', struct_ethtool_rxnfc),
     (''struct_ethtool_stats'', struct_ethtool_stats),
     (''struct_ethtool_test'', struct_ethtool_test),
     (''struct_ethtool_ts_stats'', struct_ethtool_ts_stats),
     (''struct_ethtool_tunable'', struct_ethtool_tunable),
     (''struct_ethtool_wolinfo'', struct_ethtool_wolinfo),
     (''struct_fasync_struct'', struct_fasync_struct),
     (''struct_fib_lookup_arg'', struct_fib_lookup_arg),
     (''struct_fib_kuid_range'', struct_fib_kuid_range),
     (''struct_fib_rule_port_range'', struct_fib_rule_port_range),
     (''struct_fib_rule'', struct_fib_rule), (''struct_fib_rule_hdr'', struct_fib_rule_hdr),
     (''struct_fnhe_hash_bucket'', struct_fnhe_hash_bucket),
     (''struct_fwnode_operations'', struct_fwnode_operations),
     (''struct_gpio_desc'', struct_gpio_desc), (''struct_group_info'', struct_group_info),
     (''struct_ib_device_ops'', struct_ib_device_ops),
     (''struct_ib_core_device'', struct_ib_core_device),
     (''struct_ib_odp_caps'', struct_ib_odp_caps), (''struct_ib_rss_caps'', struct_ib_rss_caps),
     (''struct_ib_tm_caps'', struct_ib_tm_caps), (''struct_ib_cq_caps'', struct_ib_cq_caps),
     (''struct_ib_device_attr'', struct_ib_device_attr),
     (''struct_rdmacg_device'', struct_rdmacg_device), (''struct_ib_device'', struct_ib_device),
     (''struct_icmpv6_mib_device'', struct_icmpv6_mib_device),
     (''struct_icmpv6msg_mib_device'', struct_icmpv6msg_mib_device),
     (''struct_ieee80211_channel'', struct_ieee80211_channel),
     (''struct_ieee802154_pan_device'', struct_ieee802154_pan_device),
     (''struct_ieee_ets'', struct_ieee_ets), (''struct_ieee_maxrate'', struct_ieee_maxrate),
     (''struct_ieee_pfc'', struct_ieee_pfc), (''struct_ieee_qcn'', struct_ieee_qcn),
     (''struct_ieee_qcn_stats'', struct_ieee_qcn_stats),
     (''struct_if_settings'', struct_if_settings), (''struct_ifacaddr6'', struct_ifacaddr6),
     (''struct_ifla_vf_guid'', struct_ifla_vf_guid),
     (''struct_ifla_vf_info'', struct_ifla_vf_info),
     (''struct_ifla_vf_stats'', struct_ifla_vf_stats), (''struct_ifmap'', struct_ifmap),
     (''struct_ifmcaddr6'', struct_ifmcaddr6), (''struct_sockaddr'', struct_sockaddr),
     (''struct_ifreq'', struct_ifreq), (''struct_in_ifaddr'', struct_in_ifaddr),
     (''struct_inet_bind_hashbucket'', struct_inet_bind_hashbucket),
     (''struct_inet_ehash_bucket'', struct_inet_ehash_bucket),
     (''struct_inet_frags'', struct_inet_frags),
     (''struct_inet_listen_hashbucket'', struct_inet_listen_hashbucket),
     (''struct_io_tlb_area'', struct_io_tlb_area), (''struct_io_tlb_slot'', struct_io_tlb_slot),
     (''struct_iommu_device'', struct_iommu_device),
     (''struct_iommu_domain_geometry'', struct_iommu_domain_geometry),
     (''struct_iommu_domain'', struct_iommu_domain),
     (''struct_iommu_fault_param'', struct_iommu_fault_param)]"

lemma far_types_wf: "list_all (\<lambda>(x, t). cwf t) far_types"
  by (simp add: far_types_def)

end
