(* ===== verification/Kernel_Farther.thy ===== *)
theory Kernel_Farther
  imports Kernel_Far
begin

text \<open>
  The structures of agent/vmlinux.h that are four pointers away from the context the hook is
  called with, second part: address lists, interrupt domains, caches, neighbours, timers of
  connections, transport security and transforms. With this theory every named structure and
  union within four pointers of the context is transcribed.
\<close>

definition struct_iommu_fwspec :: ctype where
  "struct_iommu_fwspec = CStruct [
     Member ''iommu_fwnode'' CPtr, Member ''flags'' (CInt 4), Member ''num_ids'' (CInt 4),
     Member ''ids'' (CArray (CInt 4) 0)]"

lemma layout_struct_iommu_fwspec [simp]: "cwf struct_iommu_fwspec" "calign struct_iommu_fwspec = 8" "csize struct_iommu_fwspec = 16"
  by (simp_all add: struct_iommu_fwspec_def place_def align_up_def)

definition struct_ip_mc_list :: ctype where
  "struct_ip_mc_list = CStruct [
     Member ''interface'' CPtr, Member ''multiaddr'' (CInt 4), Member ''sfmode'' (CInt 4),
     Member ''sources'' CPtr, Member ''tomb'' CPtr, Member ''sfcount'' (CArray (CInt 8) 2),
     Member '''' (CUnion [
       Member ''next'' CPtr, Member ''next_rcu'' CPtr]), Member ''next_hash'' CPtr,
     Member ''timer'' struct_timer_list, Member ''users'' (CInt 4),
     Member ''refcnt'' struct_refcount_struct, Member ''lock'' struct_spinlock,
     Member ''tm_running'' (CInt 1), Member ''reporter'' (CInt 1),
     Member ''unsolicit_count'' (CInt 1), Member ''loaded'' (CInt 1),
     Member ''gsquery'' (CInt 1), Member ''crcount'' (CInt 1),
     Member ''rcu'' struct_callback_head]"

lemma layout_struct_ip_mc_list [simp]: "cwf struct_ip_mc_list" "calign struct_ip_mc_list = 8" "csize struct_ip_mc_list = 144"
  by (simp_all add: struct_ip_mc_list_def place_def align_up_def)

definition struct_ip_tunnel_parm_kern :: ctype where
  "struct_ip_tunnel_parm_kern = CStruct [
     Member ''name'' (CArray (CInt 1) 16), Member ''i_flags'' (CArray (CInt 8) 1),
     Member ''o_flags'' (CArray (CInt 8) 1), Member ''i_key'' (CInt 4),
     Member ''o_key'' (CInt 4), Member ''link'' (CInt 4), Member ''iph'' struct_iphdr]"

lemma layout_struct_ip_tunnel_parm_kern [simp]: "cwf struct_ip_tunnel_parm_kern" "calign struct_ip_tunnel_parm_kern = 8" "csize struct_ip_tunnel_parm_kern = 64"
  by (simp_all add: struct_ip_tunnel_parm_kern_def place_def align_up_def)

definition struct_irq_domain_chip_generic :: ctype where
  "struct_irq_domain_chip_generic = CStruct [
     Member ''irqs_per_chip'' (CInt 4), Member ''num_chips'' (CInt 4),
     Member ''irq_flags_to_clear'' (CInt 4), Member ''irq_flags_to_set'' (CInt 4),
     Member ''gc_flags'' (CInt 4), Member ''exit'' CPtr, Member ''gc'' (CArray CPtr 0)]"

lemma layout_struct_irq_domain_chip_generic [simp]: "cwf struct_irq_domain_chip_generic" "calign struct_irq_domain_chip_generic = 8" "csize struct_irq_domain_chip_generic = 32"
  by (simp_all add: struct_irq_domain_chip_generic_def place_def align_up_def)

definition struct_irq_domain_ops :: ctype where
  "struct_irq_domain_ops = CStruct [
     Member ''match'' CPtr, Member ''select'' CPtr, Member ''map'' CPtr, Member ''unmap'' CPtr,
     Member ''xlate'' CPtr, Member ''alloc'' CPtr, Member ''free'' CPtr,
     Member ''activate'' CPtr, Member ''deactivate'' CPtr, Member ''translate'' CPtr]"

lemma layout_struct_irq_domain_ops [simp]: "cwf struct_irq_domain_ops" "calign struct_irq_domain_ops = 8" "csize struct_irq_domain_ops = 80"
  by (simp_all add: struct_irq_domain_ops_def place_def align_up_def)

definition struct_iw_priv_args :: ctype where
  "struct_iw_priv_args = CStruct [
     Member ''cmd'' (CInt 4), Member ''set_args'' (CInt 2), Member ''get_args'' (CInt 2),
     Member ''name'' (CArray (CInt 1) 16)]"

lemma layout_struct_iw_priv_args [simp]: "cwf struct_iw_priv_args" "calign struct_iw_priv_args = 4" "csize struct_iw_priv_args = 24"
  by (simp_all add: struct_iw_priv_args_def place_def align_up_def)

definition struct_iw_quality :: ctype where
  "struct_iw_quality = CStruct [
     Member ''qual'' (CInt 1), Member ''level'' (CInt 1), Member ''noise'' (CInt 1),
     Member ''updated'' (CInt 1)]"

lemma layout_struct_iw_quality [simp]: "cwf struct_iw_quality" "calign struct_iw_quality = 1" "csize struct_iw_quality = 4"
  by (simp_all add: struct_iw_quality_def place_def align_up_def)

definition struct_iw_spy_data :: ctype where
  "struct_iw_spy_data = CStruct [
     Member ''spy_number'' (CInt 4), Member ''spy_address'' (CArray (CInt 1) 48),
     Member ''spy_stat'' (CArray struct_iw_quality 8), Member ''spy_thr_low'' struct_iw_quality,
     Member ''spy_thr_high'' struct_iw_quality, Member ''spy_thr_under'' (CArray (CInt 1) 8)]"

lemma layout_struct_iw_spy_data [simp]: "cwf struct_iw_spy_data" "calign struct_iw_spy_data = 4" "csize struct_iw_spy_data = 100"
  by (simp_all add: struct_iw_spy_data_def place_def align_up_def)

definition struct_iw_discarded :: ctype where
  "struct_iw_discarded = CStruct [
     Member ''nwid'' (CInt 4), Member ''code'' (CInt 4), Member ''fragment'' (CInt 4),
     Member ''retries'' (CInt 4), Member ''misc'' (CInt 4)]"

lemma layout_struct_iw_discarded [simp]: "cwf struct_iw_discarded" "calign struct_iw_discarded = 4" "csize struct_iw_discarded = 20"
  by (simp_all add: struct_iw_discarded_def place_def align_up_def)

definition struct_iw_missed :: ctype where
  "struct_iw_missed = CStruct [
     Member ''beacon'' (CInt 4)]"

lemma layout_struct_iw_missed [simp]: "cwf struct_iw_missed" "calign struct_iw_missed = 4" "csize struct_iw_missed = 4"
  by (simp_all add: struct_iw_missed_def place_def align_up_def)

definition struct_iw_statistics :: ctype where
  "struct_iw_statistics = CStruct [
     Member ''status'' (CInt 2), Member ''qual'' struct_iw_quality,
     Member ''discard'' struct_iw_discarded, Member ''miss'' struct_iw_missed]"

lemma layout_struct_iw_statistics [simp]: "cwf struct_iw_statistics" "calign struct_iw_statistics = 4" "csize struct_iw_statistics = 32"
  by (simp_all add: struct_iw_statistics_def place_def align_up_def)

definition struct_kernel_ethtool_coalesce :: ctype where
  "struct_kernel_ethtool_coalesce = CStruct [
     Member ''use_cqe_mode_tx'' (CInt 1), Member ''use_cqe_mode_rx'' (CInt 1),
     Member ''tx_aggr_max_bytes'' (CInt 4), Member ''tx_aggr_max_frames'' (CInt 4),
     Member ''tx_aggr_time_usecs'' (CInt 4)]"

lemma layout_struct_kernel_ethtool_coalesce [simp]: "cwf struct_kernel_ethtool_coalesce" "calign struct_kernel_ethtool_coalesce = 4" "csize struct_kernel_ethtool_coalesce = 16"
  by (simp_all add: struct_kernel_ethtool_coalesce_def place_def align_up_def)

definition struct_kernel_ethtool_ringparam :: ctype where
  "struct_kernel_ethtool_ringparam = CStruct [
     Member ''rx_buf_len'' (CInt 4), Member ''tcp_data_split'' (CInt 1),
     Member ''tx_push'' (CInt 1), Member ''rx_push'' (CInt 1), Member ''cqe_size'' (CInt 4),
     Member ''tx_push_buf_len'' (CInt 4), Member ''tx_push_buf_max_len'' (CInt 4)]"

lemma layout_struct_kernel_ethtool_ringparam [simp]: "cwf struct_kernel_ethtool_ringparam" "calign struct_kernel_ethtool_ringparam = 4" "csize struct_kernel_ethtool_ringparam = 20"
  by (simp_all add: struct_kernel_ethtool_ringparam_def place_def align_up_def)

definition struct_kernel_ethtool_ts_info :: ctype where
  "struct_kernel_ethtool_ts_info = CStruct [
     Member ''cmd'' (CInt 4), Member ''so_timestamping'' (CInt 4), Member ''phc_index'' (CInt 4),
     Member ''tx_types'' (CInt 4), Member ''rx_filters'' (CInt 4)]"

lemma layout_struct_kernel_ethtool_ts_info [simp]: "cwf struct_kernel_ethtool_ts_info" "calign struct_kernel_ethtool_ts_info = 4" "csize struct_kernel_ethtool_ts_info = 20"
  by (simp_all add: struct_kernel_ethtool_ts_info_def place_def align_up_def)

definition struct_kernel_hwtstamp_config :: ctype where
  "struct_kernel_hwtstamp_config = CStruct [
     Member ''flags'' (CInt 4), Member ''tx_type'' (CInt 4), Member ''rx_filter'' (CInt 4),
     Member ''ifr'' CPtr, Member ''copied_to_user'' (CInt 1), Member ''source'' (CInt 4)]"

lemma layout_struct_kernel_hwtstamp_config [simp]: "cwf struct_kernel_hwtstamp_config" "calign struct_kernel_hwtstamp_config = 8" "csize struct_kernel_hwtstamp_config = 32"
  by (simp_all add: struct_kernel_hwtstamp_config_def place_def align_up_def)

definition struct_simple_xattrs :: ctype where
  "struct_simple_xattrs = CStruct [
     Member ''rb_root'' struct_rb_root, Member ''lock'' type_rwlock_t]"

lemma layout_struct_simple_xattrs [simp]: "cwf struct_simple_xattrs" "calign struct_simple_xattrs = 8" "csize struct_simple_xattrs = 16"
  by (simp_all add: struct_simple_xattrs_def place_def align_up_def)

definition struct_kernfs_iattrs :: ctype where
  "struct_kernfs_iattrs = CStruct [
     Member ''ia_uid'' type_kuid_t, Member ''ia_gid'' type_kgid_t,
     Member ''ia_atime'' struct_timespec64, Member ''ia_mtime'' struct_timespec64,
     Member ''ia_ctime'' struct_timespec64, Member ''xattrs'' struct_simple_xattrs,
     Member ''nr_user_xattrs'' type_atomic_t, Member ''user_xattr_size'' type_atomic_t]"

lemma layout_struct_kernfs_iattrs [simp]: "cwf struct_kernfs_iattrs" "calign struct_kernfs_iattrs = 8" "csize struct_kernfs_iattrs = 80"
  by (simp_all add: struct_kernfs_iattrs_def place_def align_up_def)

definition struct_kernfs_open_node :: ctype where
  "struct_kernfs_open_node = CStruct [
     Member ''callback_head'' struct_callback_head, Member ''event'' type_atomic_t,
     Member ''poll'' struct_wait_queue_head, Member ''files'' struct_list_head,
     Member ''nr_mmapped'' (CInt 4), Member ''nr_to_release'' (CInt 4)]"

lemma layout_struct_kernfs_open_node [simp]: "cwf struct_kernfs_open_node" "calign struct_kernfs_open_node = 8" "csize struct_kernfs_open_node = 72"
  by (simp_all add: struct_kernfs_open_node_def place_def align_up_def)

definition struct_kernfs_ops :: ctype where
  "struct_kernfs_ops = CStruct [
     Member ''open'' CPtr, Member ''release'' CPtr, Member ''seq_show'' CPtr,
     Member ''seq_start'' CPtr, Member ''seq_next'' CPtr, Member ''seq_stop'' CPtr,
     Member ''read'' CPtr, Member ''atomic_write_len'' (CInt 8), Member ''prealloc'' (CInt 1),
     Member ''write'' CPtr, Member ''poll'' CPtr, Member ''mmap'' CPtr, Member ''llseek'' CPtr]"

lemma layout_struct_kernfs_ops [simp]: "cwf struct_kernfs_ops" "calign struct_kernfs_ops = 8" "csize struct_kernfs_ops = 104"
  by (simp_all add: struct_kernfs_ops_def place_def align_up_def)

definition struct_kernfs_root :: ctype where
  "struct_kernfs_root = CStruct [
     Member ''kn'' CPtr, Member ''flags'' (CInt 4), Member ''ino_idr'' struct_idr,
     Member ''last_id_lowbits'' (CInt 4), Member ''id_highbits'' (CInt 4),
     Member ''syscall_ops'' CPtr, Member ''supers'' struct_list_head,
     Member ''deactivate_waitq'' struct_wait_queue_head,
     Member ''kernfs_rwsem'' struct_rw_semaphore,
     Member ''kernfs_iattr_rwsem'' struct_rw_semaphore,
     Member ''kernfs_supers_rwsem'' struct_rw_semaphore, Member ''rcu'' struct_callback_head]"

lemma layout_struct_kernfs_root [simp]: "cwf struct_kernfs_root" "calign struct_kernfs_root = 8" "csize struct_kernfs_root = 232"
  by (simp_all add: struct_kernfs_root_def place_def align_up_def)

definition struct_key_params :: ctype where
  "struct_key_params = CStruct [
     Member ''key'' CPtr, Member ''seq'' CPtr, Member ''key_len'' (CInt 4),
     Member ''seq_len'' (CInt 4), Member ''vlan_id'' (CInt 2), Member ''cipher'' (CInt 4),
     Member ''mode'' (CInt 4)]"

lemma layout_struct_key_params [simp]: "cwf struct_key_params" "calign struct_key_params = 8" "csize struct_key_params = 40"
  by (simp_all add: struct_key_params_def place_def align_up_def)

definition type_freelist_aba_t :: ctype where
  "type_freelist_aba_t = CUnion [
     Member '''' (CStruct [
       Member ''freelist'' CPtr, Member ''counter'' (CInt 8)]), Member ''full'' (CInt 16)]"

lemma layout_type_freelist_aba_t [simp]: "cwf type_freelist_aba_t" "calign type_freelist_aba_t = 16" "csize type_freelist_aba_t = 16"
  by (simp_all add: type_freelist_aba_t_def place_def align_up_def)

definition struct_kmem_cache_cpu :: ctype where
  "struct_kmem_cache_cpu = CStruct [
     Member '''' (CUnion [
       Member '''' (CStruct [
         Member ''freelist'' CPtr, Member ''tid'' (CInt 8)]),
       Member ''freelist_tid'' type_freelist_aba_t]), Member ''slab'' CPtr,
     Member ''partial'' CPtr, Member ''lock'' type_local_lock_t]"

lemma layout_struct_kmem_cache_cpu [simp]: "cwf struct_kmem_cache_cpu" "calign struct_kmem_cache_cpu = 16" "csize struct_kmem_cache_cpu = 32"
  by (simp_all add: struct_kmem_cache_cpu_def place_def align_up_def)

definition struct_kmem_cache_node :: ctype where
  "struct_kmem_cache_node = CStruct [
     Member ''list_lock'' struct_spinlock, Member ''nr_partial'' (CInt 8),
     Member ''partial'' struct_list_head, Member ''nr_slabs'' type_atomic64_t,
     Member ''total_objects'' type_atomic64_t, Member ''full'' struct_list_head]"

lemma layout_struct_kmem_cache_node [simp]: "cwf struct_kmem_cache_node" "calign struct_kmem_cache_node = 8" "csize struct_kmem_cache_node = 64"
  by (simp_all add: struct_kmem_cache_node_def place_def align_up_def)

definition struct_kobj_ns_type_operations :: ctype where
  "struct_kobj_ns_type_operations = CStruct [
     Member ''type'' (CInt 4), Member ''current_may_mount'' CPtr,
     Member ''grab_current_ns'' CPtr, Member ''netlink_ns'' CPtr, Member ''initial_ns'' CPtr,
     Member ''drop_ns'' CPtr]"

lemma layout_struct_kobj_ns_type_operations [simp]: "cwf struct_kobj_ns_type_operations" "calign struct_kobj_ns_type_operations = 8" "csize struct_kobj_ns_type_operations = 48"
  by (simp_all add: struct_kobj_ns_type_operations_def place_def align_up_def)

definition struct_kobj_uevent_env :: ctype where
  "struct_kobj_uevent_env = CStruct [
     Member ''argv'' (CArray CPtr 3), Member ''envp'' (CArray CPtr 64),
     Member ''envp_idx'' (CInt 4), Member ''buf'' (CArray (CInt 1) 2048),
     Member ''buflen'' (CInt 4)]"

lemma layout_struct_kobj_uevent_env [simp]: "cwf struct_kobj_uevent_env" "calign struct_kobj_uevent_env = 8" "csize struct_kobj_uevent_env = 2592"
  by (simp_all add: struct_kobj_uevent_env_def place_def align_up_def)

definition struct_kset_uevent_ops :: ctype where
  "struct_kset_uevent_ops = CStruct [
     Member ''filter'' CPtr, Member ''name'' CPtr, Member ''uevent'' CPtr]"

lemma layout_struct_kset_uevent_ops [simp]: "cwf struct_kset_uevent_ops" "calign struct_kset_uevent_ops = 8" "csize struct_kset_uevent_ops = 24"
  by (simp_all add: struct_kset_uevent_ops_def place_def align_up_def)

definition struct_lwtunnel_state :: ctype where
  "struct_lwtunnel_state = CStruct [
     Member ''type'' (CInt 2), Member ''flags'' (CInt 2), Member ''headroom'' (CInt 2),
     Member ''refcnt'' type_atomic_t, Member ''orig_output'' CPtr, Member ''orig_input'' CPtr,
     Member ''rcu'' struct_callback_head, Member ''data'' (CArray (CInt 1) 0)]"

lemma layout_struct_lwtunnel_state [simp]: "cwf struct_lwtunnel_state" "calign struct_lwtunnel_state = 8" "csize struct_lwtunnel_state = 48"
  by (simp_all add: struct_lwtunnel_state_def place_def align_up_def)

definition struct_macsec_context :: ctype where
  "struct_macsec_context = CStruct [
     Member '''' (CUnion [
       Member ''netdev'' CPtr, Member ''phydev'' CPtr]), Member ''offload'' (CInt 4),
     Member ''secy'' CPtr, Member ''rx_sc'' CPtr, Member ''sa'' (CStruct [
       Member ''update_pn'' (CInt 1), Member ''assoc_num'' (CInt 1),
       Member ''key'' (CArray (CInt 1) 128), Member '''' (CUnion [
         Member ''rx_sa'' CPtr, Member ''tx_sa'' CPtr])]), Member ''stats'' (CUnion [
       Member ''tx_sc_stats'' CPtr, Member ''tx_sa_stats'' CPtr, Member ''rx_sc_stats'' CPtr,
       Member ''rx_sa_stats'' CPtr, Member ''dev_stats'' CPtr])]"

lemma layout_struct_macsec_context [simp]: "cwf struct_macsec_context" "calign struct_macsec_context = 8" "csize struct_macsec_context = 184"
  by (simp_all add: struct_macsec_context_def place_def align_up_def)

definition struct_mem_cgroup_reclaim_iter :: ctype where
  "struct_mem_cgroup_reclaim_iter = CStruct [
     Member ''position'' CPtr, Member ''generation'' (CInt 4)]"

lemma layout_struct_mem_cgroup_reclaim_iter [simp]: "cwf struct_mem_cgroup_reclaim_iter" "calign struct_mem_cgroup_reclaim_iter = 8" "csize struct_mem_cgroup_reclaim_iter = 16"
  by (simp_all add: struct_mem_cgroup_reclaim_iter_def place_def align_up_def)

definition struct_mem_cgroup_per_node :: ctype where
  "struct_mem_cgroup_per_node = CStruct [
     Member ''memcg'' CPtr, Member ''lruvec_stats_percpu'' CPtr, Member ''lruvec_stats'' CPtr,
     Member ''shrinker_info'' CPtr, Bits '''' 8 64, Bits '''' 8 64, Bits '''' 8 64,
     Bits '''' 8 64, Member ''_pad1_'' struct_cacheline_padding, Member ''lruvec'' struct_lruvec,
     Bits '''' 8 64, Bits '''' 8 64, Member ''_pad2_'' struct_cacheline_padding,
     Member ''lru_zone_size'' (CArray (CInt 8) 25),
     Member ''iter'' struct_mem_cgroup_reclaim_iter, Bits '''' 8 64, Bits '''' 8 64,
     Bits '''' 8 64, Bits '''' 8 64, Bits '''' 8 64]"

lemma layout_struct_mem_cgroup_per_node [simp]: "cwf struct_mem_cgroup_per_node" "calign struct_mem_cgroup_per_node = 8" "csize struct_mem_cgroup_per_node = 1920"
  by (simp_all add: struct_mem_cgroup_per_node_def place_def align_up_def)

definition struct_memcg_vmstats :: ctype where
  "struct_memcg_vmstats = CStruct [
     Member ''state'' (CArray (CInt 8) 34), Member ''events'' (CArray (CInt 8) 22),
     Member ''state_local'' (CArray (CInt 8) 34), Member ''events_local'' (CArray (CInt 8) 22),
     Member ''state_pending'' (CArray (CInt 8) 34),
     Member ''events_pending'' (CArray (CInt 8) 22), Member ''stats_updates'' type_atomic64_t]"

lemma layout_struct_memcg_vmstats [simp]: "cwf struct_memcg_vmstats" "calign struct_memcg_vmstats = 8" "csize struct_memcg_vmstats = 1352"
  by (simp_all add: struct_memcg_vmstats_def place_def align_up_def)

definition struct_memcg_vmstats_percpu :: ctype where
  "struct_memcg_vmstats_percpu = CStruct [
     Member ''stats_updates'' (CInt 4), Member ''parent'' CPtr, Member ''vmstats'' CPtr,
     Member ''state'' (CArray (CInt 8) 34), Member ''events'' (CArray (CInt 8) 22),
     Member ''state_prev'' (CArray (CInt 8) 34), Member ''events_prev'' (CArray (CInt 8) 22),
     Member ''nr_page_events'' (CInt 8), Member ''targets'' (CArray (CInt 8) 2), Bits '''' 8 64,
     Bits '''' 8 64]"

lemma layout_struct_memcg_vmstats_percpu [simp]: "cwf struct_memcg_vmstats_percpu" "calign struct_memcg_vmstats_percpu = 8" "csize struct_memcg_vmstats_percpu = 960"
  by (simp_all add: struct_memcg_vmstats_percpu_def place_def align_up_def)

definition struct_mdio_bus_stats :: ctype where
  "struct_mdio_bus_stats = CStruct [
     Member ''transfers'' type_u64_stats_t, Member ''errors'' type_u64_stats_t,
     Member ''writes'' type_u64_stats_t, Member ''reads'' type_u64_stats_t,
     Member ''syncp'' struct_u64_stats_sync]"

lemma layout_struct_mdio_bus_stats [simp]: "cwf struct_mdio_bus_stats" "calign struct_mdio_bus_stats = 8" "csize struct_mdio_bus_stats = 32"
  by (simp_all add: struct_mdio_bus_stats_def place_def align_up_def)

definition struct_mii_bus :: ctype where
  "struct_mii_bus = CStruct [
     Member ''owner'' CPtr, Member ''name'' CPtr, Member ''id'' (CArray (CInt 1) 61),
     Member ''priv'' CPtr, Member ''read'' CPtr, Member ''write'' CPtr, Member ''read_c45'' CPtr,
     Member ''write_c45'' CPtr, Member ''reset'' CPtr,
     Member ''stats'' (CArray struct_mdio_bus_stats 32), Member ''mdio_lock'' struct_mutex,
     Member ''parent'' CPtr, Member ''state'' (CInt 4), Member ''dev'' struct_device,
     Member ''mdio_map'' (CArray CPtr 32), Member ''phy_mask'' (CInt 4),
     Member ''phy_ignore_ta_mask'' (CInt 4), Member ''irq'' (CArray (CInt 4) 32),
     Member ''reset_delay_us'' (CInt 4), Member ''reset_post_delay_us'' (CInt 4),
     Member ''reset_gpiod'' CPtr, Member ''shared_lock'' struct_mutex,
     Member ''shared'' (CArray CPtr 32)]"

lemma layout_struct_mii_bus [simp]: "cwf struct_mii_bus" "calign struct_mii_bus = 8" "csize struct_mii_bus = 2648"
  by (simp_all add: struct_mii_bus_def place_def align_up_def)

definition struct_mii_timestamper :: ctype where
  "struct_mii_timestamper = CStruct [
     Member ''rxtstamp'' CPtr, Member ''txtstamp'' CPtr, Member ''hwtstamp'' CPtr,
     Member ''link_state'' CPtr, Member ''ts_info'' CPtr, Member ''device'' CPtr]"

lemma layout_struct_mii_timestamper [simp]: "cwf struct_mii_timestamper" "calign struct_mii_timestamper = 8" "csize struct_mii_timestamper = 48"
  by (simp_all add: struct_mii_timestamper_def place_def align_up_def)

definition struct_iovec :: ctype where
  "struct_iovec = CStruct [
     Member ''iov_base'' CPtr, Member ''iov_len'' (CInt 8)]"

lemma layout_struct_iovec [simp]: "cwf struct_iovec" "calign struct_iovec = 8" "csize struct_iovec = 16"
  by (simp_all add: struct_iovec_def place_def align_up_def)

definition struct_iov_iter :: ctype where
  "struct_iov_iter = CStruct [
     Member ''iter_type'' (CInt 1), Member ''nofault'' (CInt 1), Member ''data_source'' (CInt 1),
     Member ''iov_offset'' (CInt 8), Member '''' (CUnion [
       Member ''__ubuf_iovec'' struct_iovec, Member '''' (CStruct [
         Member '''' (CUnion [
           Member ''__iov'' CPtr, Member ''kvec'' CPtr, Member ''bvec'' CPtr,
           Member ''xarray'' CPtr, Member ''ubuf'' CPtr]), Member ''count'' (CInt 8)])]),
     Member '''' (CUnion [
       Member ''nr_segs'' (CInt 8), Member ''xarray_start'' (CInt 8)])]"

lemma layout_struct_iov_iter [simp]: "cwf struct_iov_iter" "calign struct_iov_iter = 8" "csize struct_iov_iter = 40"
  by (simp_all add: struct_iov_iter_def place_def align_up_def)

definition struct_msghdr :: ctype where
  "struct_msghdr = CStruct [
     Member ''msg_name'' CPtr, Member ''msg_namelen'' (CInt 4), Member ''msg_inq'' (CInt 4),
     Member ''msg_iter'' struct_iov_iter, Member '''' (CUnion [
       Member ''msg_control'' CPtr, Member ''msg_control_user'' CPtr]),
     Bits ''msg_control_is_user'' 1 1, Bits ''msg_get_inq'' 1 1, Member ''msg_flags'' (CInt 4),
     Member ''msg_controllen'' (CInt 8), Member ''msg_iocb'' CPtr, Member ''msg_ubuf'' CPtr,
     Member ''sg_from_iter'' CPtr]"

lemma layout_struct_msghdr [simp]: "cwf struct_msghdr" "calign struct_msghdr = 8" "csize struct_msghdr = 104"
  by (simp_all add: struct_msghdr_def place_def align_up_def)

definition struct_msi_parent_ops :: ctype where
  "struct_msi_parent_ops = CStruct [
     Member ''supported_flags'' (CInt 4), Member ''required_flags'' (CInt 4),
     Member ''bus_select_token'' (CInt 4), Member ''bus_select_mask'' (CInt 4),
     Member ''prefix'' CPtr, Member ''init_dev_msi_info'' CPtr]"

lemma layout_struct_msi_parent_ops [simp]: "cwf struct_msi_parent_ops" "calign struct_msi_parent_ops = 8" "csize struct_msi_parent_ops = 32"
  by (simp_all add: struct_msi_parent_ops_def place_def align_up_def)

definition struct_nd_opt_hdr :: ctype where
  "struct_nd_opt_hdr = CStruct [
     Member ''nd_opt_type'' (CInt 1), Member ''nd_opt_len'' (CInt 1)]"

lemma layout_struct_nd_opt_hdr [simp]: "cwf struct_nd_opt_hdr" "calign struct_nd_opt_hdr = 1" "csize struct_nd_opt_hdr = 2"
  by (simp_all add: struct_nd_opt_hdr_def place_def align_up_def)

definition struct_ndisc_options :: ctype where
  "struct_ndisc_options = CStruct [
     Member ''nd_opt_array'' (CArray CPtr 15), Member ''nd_opts_ri'' CPtr,
     Member ''nd_opts_ri_end'' CPtr, Member ''nd_useropts'' CPtr,
     Member ''nd_useropts_end'' CPtr, Member ''nd_802154_opt_array'' (CArray CPtr 3)]"

lemma layout_struct_ndisc_options [simp]: "cwf struct_ndisc_options" "calign struct_ndisc_options = 8" "csize struct_ndisc_options = 176"
  by (simp_all add: struct_ndisc_options_def place_def align_up_def)

definition struct_ndmsg :: ctype where
  "struct_ndmsg = CStruct [
     Member ''ndm_family'' (CInt 1), Member ''ndm_pad1'' (CInt 1), Member ''ndm_pad2'' (CInt 2),
     Member ''ndm_ifindex'' (CInt 4), Member ''ndm_state'' (CInt 2),
     Member ''ndm_flags'' (CInt 1), Member ''ndm_type'' (CInt 1)]"

lemma layout_struct_ndmsg [simp]: "cwf struct_ndmsg" "calign struct_ndmsg = 4" "csize struct_ndmsg = 12"
  by (simp_all add: struct_ndmsg_def place_def align_up_def)

definition struct_neigh_ops :: ctype where
  "struct_neigh_ops = CStruct [
     Member ''family'' (CInt 4), Member ''solicit'' CPtr, Member ''error_report'' CPtr,
     Member ''output'' CPtr, Member ''connected_output'' CPtr]"

lemma layout_struct_neigh_ops [simp]: "cwf struct_neigh_ops" "calign struct_neigh_ops = 8" "csize struct_neigh_ops = 40"
  by (simp_all add: struct_neigh_ops_def place_def align_up_def)

definition struct_net_device_path :: ctype where
  "struct_net_device_path = CStruct [
     Member ''type'' (CInt 4), Member ''dev'' CPtr, Member '''' (CUnion [
       Member ''encap'' (CStruct [
         Member ''id'' (CInt 2), Member ''proto'' (CInt 2), Member ''h_dest'' (CArray (CInt 1) 6)]),
       Member ''bridge'' (CStruct [
         Member ''vlan_mode'' (CInt 4), Member ''vlan_id'' (CInt 2),
         Member ''vlan_proto'' (CInt 2)]), Member ''dsa'' (CStruct [
         Member ''port'' (CInt 4), Member ''proto'' (CInt 2)]), Member ''mtk_wdma'' (CStruct [
         Member ''wdma_idx'' (CInt 1), Member ''queue'' (CInt 1), Member ''wcid'' (CInt 2),
         Member ''bss'' (CInt 1), Member ''amsdu'' (CInt 1)])])]"

lemma layout_struct_net_device_path [simp]: "cwf struct_net_device_path" "calign struct_net_device_path = 8" "csize struct_net_device_path = 32"
  by (simp_all add: struct_net_device_path_def place_def align_up_def)

definition struct_net_device_path_ctx :: ctype where
  "struct_net_device_path_ctx = CStruct [
     Member ''dev'' CPtr, Member ''daddr'' (CArray (CInt 1) 6), Member ''num_vlans'' (CInt 4),
     Member ''vlan'' (CArray (CStruct [
       Member ''id'' (CInt 2), Member ''proto'' (CInt 2)]) 2)]"

lemma layout_struct_net_device_path_ctx [simp]: "cwf struct_net_device_path_ctx" "calign struct_net_device_path_ctx = 8" "csize struct_net_device_path_ctx = 32"
  by (simp_all add: struct_net_device_path_ctx_def place_def align_up_def)

definition struct_net_rate_estimator :: ctype where
  "struct_net_rate_estimator = CStruct [
     Member ''bstats'' CPtr, Member ''stats_lock'' CPtr, Member ''running'' (CInt 1),
     Member ''cpu_bstats'' CPtr, Member ''ewma_log'' (CInt 1), Member ''intvl_log'' (CInt 1),
     Member ''seq'' struct_seqcount, Member ''last_packets'' (CInt 8),
     Member ''last_bytes'' (CInt 8), Member ''avpps'' (CInt 8), Member ''avbps'' (CInt 8),
     Member ''next_jiffies'' (CInt 8), Member ''timer'' struct_timer_list,
     Member ''rcu'' struct_callback_head]"

lemma layout_struct_net_rate_estimator [simp]: "cwf struct_net_rate_estimator" "calign struct_net_rate_estimator = 8" "csize struct_net_rate_estimator = 136"
  by (simp_all add: struct_net_rate_estimator_def place_def align_up_def)

definition struct_netdev_bpf :: ctype where
  "struct_netdev_bpf = CStruct [
     Member ''command'' (CInt 4), Member '''' (CUnion [
       Member '''' (CStruct [
         Member ''flags'' (CInt 4), Member ''prog'' CPtr, Member ''extack'' CPtr]),
       Member '''' (CStruct [
         Member ''offmap'' CPtr]), Member ''xsk'' (CStruct [
         Member ''pool'' CPtr, Member ''queue_id'' (CInt 2)])])]"

lemma layout_struct_netdev_bpf [simp]: "cwf struct_netdev_bpf" "calign struct_netdev_bpf = 8" "csize struct_netdev_bpf = 32"
  by (simp_all add: struct_netdev_bpf_def place_def align_up_def)

definition struct_netdev_fcoe_hbainfo :: ctype where
  "struct_netdev_fcoe_hbainfo = CStruct [
     Member ''manufacturer'' (CArray (CInt 1) 64), Member ''serial_number'' (CArray (CInt 1) 64),
     Member ''hardware_version'' (CArray (CInt 1) 64),
     Member ''driver_version'' (CArray (CInt 1) 64),
     Member ''optionrom_version'' (CArray (CInt 1) 64),
     Member ''firmware_version'' (CArray (CInt 1) 64), Member ''model'' (CArray (CInt 1) 256),
     Member ''model_description'' (CArray (CInt 1) 256)]"

lemma layout_struct_netdev_fcoe_hbainfo [simp]: "cwf struct_netdev_fcoe_hbainfo" "calign struct_netdev_fcoe_hbainfo = 1" "csize struct_netdev_fcoe_hbainfo = 896"
  by (simp_all add: struct_netdev_fcoe_hbainfo_def place_def align_up_def)

definition struct_netdev_queue_stats_rx :: ctype where
  "struct_netdev_queue_stats_rx = CStruct [
     Member ''bytes'' (CInt 8), Member ''packets'' (CInt 8), Member ''alloc_fail'' (CInt 8),
     Member ''hw_drops'' (CInt 8), Member ''hw_drop_overruns'' (CInt 8),
     Member ''csum_unnecessary'' (CInt 8), Member ''csum_none'' (CInt 8),
     Member ''csum_bad'' (CInt 8), Member ''hw_gro_packets'' (CInt 8),
     Member ''hw_gro_bytes'' (CInt 8), Member ''hw_gro_wire_packets'' (CInt 8),
     Member ''hw_gro_wire_bytes'' (CInt 8), Member ''hw_drop_ratelimits'' (CInt 8)]"

lemma layout_struct_netdev_queue_stats_rx [simp]: "cwf struct_netdev_queue_stats_rx" "calign struct_netdev_queue_stats_rx = 8" "csize struct_netdev_queue_stats_rx = 104"
  by (simp_all add: struct_netdev_queue_stats_rx_def place_def align_up_def)

definition struct_netdev_queue_stats_tx :: ctype where
  "struct_netdev_queue_stats_tx = CStruct [
     Member ''bytes'' (CInt 8), Member ''packets'' (CInt 8), Member ''hw_drops'' (CInt 8),
     Member ''hw_drop_errors'' (CInt 8), Member ''csum_none'' (CInt 8),
     Member ''needs_csum'' (CInt 8), Member ''hw_gso_packets'' (CInt 8),
     Member ''hw_gso_bytes'' (CInt 8), Member ''hw_gso_wire_packets'' (CInt 8),
     Member ''hw_gso_wire_bytes'' (CInt 8), Member ''hw_drop_ratelimits'' (CInt 8),
     Member ''stop'' (CInt 8), Member ''wake'' (CInt 8)]"

lemma layout_struct_netdev_queue_stats_tx [simp]: "cwf struct_netdev_queue_stats_tx" "calign struct_netdev_queue_stats_tx = 8" "csize struct_netdev_queue_stats_tx = 104"
  by (simp_all add: struct_netdev_queue_stats_tx_def place_def align_up_def)

definition struct_netlink_ext_ack :: ctype where
  "struct_netlink_ext_ack = CStruct [
     Member ''_msg'' CPtr, Member ''bad_attr'' CPtr, Member ''policy'' CPtr,
     Member ''miss_nest'' CPtr, Member ''miss_type'' (CInt 2),
     Member ''cookie'' (CArray (CInt 1) 20), Member ''cookie_len'' (CInt 1),
     Member ''_msg_buf'' (CArray (CInt 1) 80)]"

lemma layout_struct_netlink_ext_ack [simp]: "cwf struct_netlink_ext_ack" "calign struct_netlink_ext_ack = 8" "csize struct_netlink_ext_ack = 136"
  by (simp_all add: struct_netlink_ext_ack_def place_def align_up_def)

definition union_inet_addr :: ctype where
  "union_inet_addr = CUnion [
     Member ''all'' (CArray (CInt 4) 4), Member ''ip'' (CInt 4),
     Member ''ip6'' (CArray (CInt 4) 4), Member ''in'' struct_in_addr,
     Member ''in6'' struct_in6_addr]"

lemma layout_union_inet_addr [simp]: "cwf union_inet_addr" "calign union_inet_addr = 4" "csize union_inet_addr = 16"
  by (simp_all add: union_inet_addr_def place_def align_up_def)

definition struct_netpoll :: ctype where
  "struct_netpoll = CStruct [
     Member ''dev'' CPtr, Member ''dev_tracker'' type_netdevice_tracker,
     Member ''dev_name'' (CArray (CInt 1) 16), Member ''name'' CPtr,
     Member ''local_ip'' union_inet_addr, Member ''remote_ip'' union_inet_addr,
     Member ''ipv6'' (CInt 1), Member ''local_port'' (CInt 2), Member ''remote_port'' (CInt 2),
     Member ''remote_mac'' (CArray (CInt 1) 6)]"

lemma layout_struct_netpoll [simp]: "cwf struct_netpoll" "calign struct_netpoll = 8" "csize struct_netpoll = 80"
  by (simp_all add: struct_netpoll_def place_def align_up_def)

definition struct_nexthop :: ctype where
  "struct_nexthop = CStruct [
     Member ''rb_node'' struct_rb_node, Member ''fi_list'' struct_list_head,
     Member ''f6i_list'' struct_list_head, Member ''fdb_list'' struct_list_head,
     Member ''grp_list'' struct_list_head, Member ''net'' CPtr, Member ''id'' (CInt 4),
     Member ''protocol'' (CInt 1), Member ''nh_flags'' (CInt 1), Member ''is_group'' (CInt 1),
     Member ''refcnt'' struct_refcount_struct, Member ''rcu'' struct_callback_head,
     Member '''' (CUnion [
       Member ''nh_info'' CPtr, Member ''nh_grp'' CPtr])]"

lemma layout_struct_nexthop [simp]: "cwf struct_nexthop" "calign struct_nexthop = 8" "csize struct_nexthop = 136"
  by (simp_all add: struct_nexthop_def place_def align_up_def)

definition struct_nf_ct_event :: ctype where
  "struct_nf_ct_event = CStruct [
     Member ''ct'' CPtr, Member ''portid'' (CInt 4), Member ''report'' (CInt 4)]"

lemma layout_struct_nf_ct_event [simp]: "cwf struct_nf_ct_event" "calign struct_nf_ct_event = 8" "csize struct_nf_ct_event = 16"
  by (simp_all add: struct_nf_ct_event_def place_def align_up_def)

definition struct_nf_exp_event :: ctype where
  "struct_nf_exp_event = CStruct [
     Member ''exp'' CPtr, Member ''portid'' (CInt 4), Member ''report'' (CInt 4)]"

lemma layout_struct_nf_exp_event [simp]: "cwf struct_nf_exp_event" "calign struct_nf_exp_event = 8" "csize struct_nf_exp_event = 16"
  by (simp_all add: struct_nf_exp_event_def place_def align_up_def)

definition struct_nla_policy :: ctype where
  "struct_nla_policy = CStruct [
     Member ''type'' (CInt 1), Member ''validation_type'' (CInt 1), Member ''len'' (CInt 2),
     Member '''' (CUnion [
       Member ''strict_start_type'' (CInt 2), Member ''bitfield32_valid'' (CInt 4),
       Member ''mask'' (CInt 4), Member ''reject_message'' CPtr, Member ''nested_policy'' CPtr,
       Member ''range'' CPtr, Member ''range_signed'' CPtr, Member '''' (CStruct [
         Member ''min'' (CInt 2), Member ''max'' (CInt 2)]), Member ''validate'' CPtr])]"

lemma layout_struct_nla_policy [simp]: "cwf struct_nla_policy" "calign struct_nla_policy = 8" "csize struct_nla_policy = 16"
  by (simp_all add: struct_nla_policy_def place_def align_up_def)

definition struct_nlattr :: ctype where
  "struct_nlattr = CStruct [
     Member ''nla_len'' (CInt 2), Member ''nla_type'' (CInt 2)]"

lemma layout_struct_nlattr [simp]: "cwf struct_nlattr" "calign struct_nlattr = 2" "csize struct_nlattr = 4"
  by (simp_all add: struct_nlattr_def place_def align_up_def)

definition struct_nlmsghdr :: ctype where
  "struct_nlmsghdr = CStruct [
     Member ''nlmsg_len'' (CInt 4), Member ''nlmsg_type'' (CInt 2),
     Member ''nlmsg_flags'' (CInt 2), Member ''nlmsg_seq'' (CInt 4),
     Member ''nlmsg_pid'' (CInt 4)]"

lemma layout_struct_nlmsghdr [simp]: "cwf struct_nlmsghdr" "calign struct_nlmsghdr = 4" "csize struct_nlmsghdr = 16"
  by (simp_all add: struct_nlmsghdr_def place_def align_up_def)

definition struct_nsset :: ctype where
  "struct_nsset = CStruct [
     Member ''flags'' (CInt 4), Member ''nsproxy'' CPtr, Member ''fs'' CPtr, Member ''cred'' CPtr]"

lemma layout_struct_nsset [simp]: "cwf struct_nsset" "calign struct_nsset = 8" "csize struct_nsset = 32"
  by (simp_all add: struct_nsset_def place_def align_up_def)

definition struct_obj_cgroup :: ctype where
  "struct_obj_cgroup = CStruct [
     Member ''refcnt'' struct_percpu_ref, Member ''memcg'' CPtr,
     Member ''nr_charged_bytes'' type_atomic_t, Member '''' (CUnion [
       Member ''list'' struct_list_head, Member ''rcu'' struct_callback_head])]"

lemma layout_struct_obj_cgroup [simp]: "cwf struct_obj_cgroup" "calign struct_obj_cgroup = 8" "csize struct_obj_cgroup = 48"
  by (simp_all add: struct_obj_cgroup_def place_def align_up_def)

definition struct_of_device_id :: ctype where
  "struct_of_device_id = CStruct [
     Member ''name'' (CArray (CInt 1) 32), Member ''type'' (CArray (CInt 1) 32),
     Member ''compatible'' (CArray (CInt 1) 128), Member ''data'' CPtr]"

lemma layout_struct_of_device_id [simp]: "cwf struct_of_device_id" "calign struct_of_device_id = 8" "csize struct_of_device_id = 200"
  by (simp_all add: struct_of_device_id_def place_def align_up_def)

definition struct_percpu_ref_data :: ctype where
  "struct_percpu_ref_data = CStruct [
     Member ''count'' type_atomic64_t, Member ''release'' CPtr, Member ''confirm_switch'' CPtr,
     Bits ''force_atomic'' 1 1, Bits ''allow_reinit'' 1 1, Member ''rcu'' struct_callback_head,
     Member ''ref'' CPtr]"

lemma layout_struct_percpu_ref_data [simp]: "cwf struct_percpu_ref_data" "calign struct_percpu_ref_data = 8" "csize struct_percpu_ref_data = 56"
  by (simp_all add: struct_percpu_ref_data_def place_def align_up_def)

definition struct_mdio_driver_common :: ctype where
  "struct_mdio_driver_common = CStruct [
     Member ''driver'' struct_device_driver, Member ''flags'' (CInt 4)]"

lemma layout_struct_mdio_driver_common [simp]: "cwf struct_mdio_driver_common" "calign struct_mdio_driver_common = 8" "csize struct_mdio_driver_common = 152"
  by (simp_all add: struct_mdio_driver_common_def place_def align_up_def)

definition struct_phy_driver :: ctype where
  "struct_phy_driver = CStruct [
     Member ''mdiodrv'' struct_mdio_driver_common, Member ''phy_id'' (CInt 4),
     Member ''name'' CPtr, Member ''phy_id_mask'' (CInt 4), Member ''features'' CPtr,
     Member ''flags'' (CInt 4), Member ''driver_data'' CPtr, Member ''soft_reset'' CPtr,
     Member ''config_init'' CPtr, Member ''probe'' CPtr, Member ''get_features'' CPtr,
     Member ''get_rate_matching'' CPtr, Member ''suspend'' CPtr, Member ''resume'' CPtr,
     Member ''config_aneg'' CPtr, Member ''aneg_done'' CPtr, Member ''read_status'' CPtr,
     Member ''config_intr'' CPtr, Member ''handle_interrupt'' CPtr, Member ''remove'' CPtr,
     Member ''match_phy_device'' CPtr, Member ''set_wol'' CPtr, Member ''get_wol'' CPtr,
     Member ''link_change_notify'' CPtr, Member ''read_mmd'' CPtr, Member ''write_mmd'' CPtr,
     Member ''read_page'' CPtr, Member ''write_page'' CPtr, Member ''module_info'' CPtr,
     Member ''module_eeprom'' CPtr, Member ''cable_test_start'' CPtr,
     Member ''cable_test_tdr_start'' CPtr, Member ''cable_test_get_status'' CPtr,
     Member ''get_sset_count'' CPtr, Member ''get_strings'' CPtr, Member ''get_stats'' CPtr,
     Member ''get_tunable'' CPtr, Member ''set_tunable'' CPtr, Member ''set_loopback'' CPtr,
     Member ''get_sqi'' CPtr, Member ''get_sqi_max'' CPtr, Member ''get_plca_cfg'' CPtr,
     Member ''set_plca_cfg'' CPtr, Member ''get_plca_status'' CPtr,
     Member ''led_brightness_set'' CPtr, Member ''led_blink_set'' CPtr,
     Member ''led_hw_is_supported'' CPtr, Member ''led_hw_control_set'' CPtr,
     Member ''led_hw_control_get'' CPtr, Member ''led_polarity_set'' CPtr]"

lemma layout_struct_phy_driver [simp]: "cwf struct_phy_driver" "calign struct_phy_driver = 8" "csize struct_phy_driver = 544"
  by (simp_all add: struct_phy_driver_def place_def align_up_def)

definition struct_phy_package_shared :: ctype where
  "struct_phy_package_shared = CStruct [
     Member ''base_addr'' (CInt 1), Member ''np'' CPtr, Member ''refcnt'' struct_refcount_struct,
     Member ''flags'' (CInt 8), Member ''priv_size'' (CInt 8), Member ''priv'' CPtr]"

lemma layout_struct_phy_package_shared [simp]: "cwf struct_phy_package_shared" "calign struct_phy_package_shared = 8" "csize struct_phy_package_shared = 48"
  by (simp_all add: struct_phy_package_shared_def place_def align_up_def)

definition struct_phylink_link_state :: ctype where
  "struct_phylink_link_state = CStruct [
     Member ''advertising'' (CArray (CInt 8) 2), Member ''lp_advertising'' (CArray (CInt 8) 2),
     Member ''interface'' (CInt 4), Member ''speed'' (CInt 4), Member ''duplex'' (CInt 4),
     Member ''pause'' (CInt 4), Member ''rate_matching'' (CInt 4), Bits ''link'' 4 1,
     Bits ''an_complete'' 4 1]"

lemma layout_struct_phylink_link_state [simp]: "cwf struct_phylink_link_state" "calign struct_phylink_link_state = 8" "csize struct_phylink_link_state = 56"
  by (simp_all add: struct_phylink_link_state_def place_def align_up_def)

definition struct_pinctrl :: ctype where
  "struct_pinctrl = CStruct [
     Member ''node'' struct_list_head, Member ''dev'' CPtr, Member ''states'' struct_list_head,
     Member ''state'' CPtr, Member ''dt_maps'' struct_list_head, Member ''users'' struct_kref]"

lemma layout_struct_pinctrl [simp]: "cwf struct_pinctrl" "calign struct_pinctrl = 8" "csize struct_pinctrl = 72"
  by (simp_all add: struct_pinctrl_def place_def align_up_def)

definition struct_pinctrl_state :: ctype where
  "struct_pinctrl_state = CStruct [
     Member ''node'' struct_list_head, Member ''name'' CPtr, Member ''settings'' struct_list_head]"

lemma layout_struct_pinctrl_state [simp]: "cwf struct_pinctrl_state" "calign struct_pinctrl_state = 8" "csize struct_pinctrl_state = 40"
  by (simp_all add: struct_pinctrl_state_def place_def align_up_def)

definition struct_pm_domain_data :: ctype where
  "struct_pm_domain_data = CStruct [
     Member ''list_node'' struct_list_head, Member ''dev'' CPtr]"

lemma layout_struct_pm_domain_data [simp]: "cwf struct_pm_domain_data" "calign struct_pm_domain_data = 8" "csize struct_pm_domain_data = 24"
  by (simp_all add: struct_pm_domain_data_def place_def align_up_def)

definition struct_pool_workqueue :: ctype where
  "struct_pool_workqueue = CStruct [
     Member ''pool'' CPtr, Member ''wq'' CPtr, Member ''work_color'' (CInt 4),
     Member ''flush_color'' (CInt 4), Member ''refcnt'' (CInt 4),
     Member ''nr_in_flight'' (CArray (CInt 4) 16), Member ''plugged'' (CInt 1),
     Member ''nr_active'' (CInt 4), Member ''inactive_works'' struct_list_head,
     Member ''pending_node'' struct_list_head, Member ''pwqs_node'' struct_list_head,
     Member ''mayday_node'' struct_list_head, Member ''stats'' (CArray (CInt 8) 8),
     Member ''release_work'' struct_kthread_work, Member ''rcu'' struct_callback_head,
     Bits '''' 8 64, Bits '''' 8 64, Bits '''' 8 64, Bits '''' 8 64, Bits '''' 8 64,
     Bits '''' 8 64, Bits '''' 8 64, Bits '''' 8 64, Bits '''' 8 64, Bits '''' 8 64,
     Bits '''' 8 64, Bits '''' 8 64, Bits '''' 8 64, Bits '''' 8 64, Bits '''' 8 64,
     Bits '''' 8 64, Bits '''' 8 64, Bits '''' 8 64, Bits '''' 8 64, Bits '''' 8 64,
     Bits '''' 8 64, Bits '''' 8 64, Bits '''' 8 64, Bits '''' 8 64, Bits '''' 8 64,
     Bits '''' 8 64, Bits '''' 8 64, Bits '''' 8 64]"

lemma layout_struct_pool_workqueue [simp]: "cwf struct_pool_workqueue" "calign struct_pool_workqueue = 8" "csize struct_pool_workqueue = 512"
  by (simp_all add: struct_pool_workqueue_def place_def align_up_def)

definition struct_prefix_info :: ctype where
  "struct_prefix_info = CStruct [
     Member ''type'' (CInt 1), Member ''length'' (CInt 1), Member ''prefix_len'' (CInt 1),
     Member '''' (CUnion [
       Member ''flags'' (CInt 1), Member '''' (CStruct [
         Bits ''reserved'' 1 6, Bits ''autoconf'' 1 1, Bits ''onlink'' 1 1])]),
     Member ''valid'' (CInt 4), Member ''prefered'' (CInt 4), Member ''reserved2'' (CInt 4),
     Member ''prefix'' struct_in6_addr]"

lemma layout_struct_prefix_info [simp]: "cwf struct_prefix_info" "calign struct_prefix_info = 4" "csize struct_prefix_info = 32"
  by (simp_all add: struct_prefix_info_def place_def align_up_def)

definition struct_proc_ops :: ctype where
  "struct_proc_ops = CStruct [
     Member ''proc_flags'' (CInt 4), Member ''proc_open'' CPtr, Member ''proc_read'' CPtr,
     Member ''proc_read_iter'' CPtr, Member ''proc_write'' CPtr, Member ''proc_lseek'' CPtr,
     Member ''proc_release'' CPtr, Member ''proc_poll'' CPtr, Member ''proc_ioctl'' CPtr,
     Member ''proc_compat_ioctl'' CPtr, Member ''proc_mmap'' CPtr,
     Member ''proc_get_unmapped_area'' CPtr]"

lemma layout_struct_proc_ops [simp]: "cwf struct_proc_ops" "calign struct_proc_ops = 8" "csize struct_proc_ops = 96"
  by (simp_all add: struct_proc_ops_def place_def align_up_def)

definition struct_property :: ctype where
  "struct_property = CStruct [
     Member ''name'' CPtr, Member ''length'' (CInt 4), Member ''value'' CPtr,
     Member ''next'' CPtr]"

lemma layout_struct_property [simp]: "cwf struct_property" "calign struct_property = 8" "csize struct_property = 32"
  by (simp_all add: struct_property_def place_def align_up_def)

definition struct_proto_accept_arg :: ctype where
  "struct_proto_accept_arg = CStruct [
     Member ''flags'' (CInt 4), Member ''err'' (CInt 4), Member ''is_empty'' (CInt 4),
     Member ''kern'' (CInt 1)]"

lemma layout_struct_proto_accept_arg [simp]: "cwf struct_proto_accept_arg" "calign struct_proto_accept_arg = 4" "csize struct_proto_accept_arg = 16"
  by (simp_all add: struct_proto_accept_arg_def place_def align_up_def)

definition struct_psi_group :: ctype where
  "struct_psi_group = CStruct [
     Member ''parent'' CPtr, Member ''enabled'' (CInt 1), Member ''avgs_lock'' struct_mutex,
     Member ''pcpu'' CPtr, Member ''avg_total'' (CArray (CInt 8) 7),
     Member ''avg_last_update'' (CInt 8), Member ''avg_next_update'' (CInt 8),
     Member ''avgs_work'' struct_delayed_work, Member ''avg_triggers'' struct_list_head,
     Member ''avg_nr_triggers'' (CArray (CInt 4) 7), Member ''total'' (CArray (CInt 8) 14),
     Member ''avg'' (CArray (CInt 8) 21), Member ''rtpoll_task'' CPtr,
     Member ''rtpoll_timer'' struct_timer_list, Member ''rtpoll_wait'' struct_wait_queue_head,
     Member ''rtpoll_wakeup'' type_atomic_t, Member ''rtpoll_scheduled'' type_atomic_t,
     Member ''rtpoll_trigger_lock'' struct_mutex, Member ''rtpoll_triggers'' struct_list_head,
     Member ''rtpoll_nr_triggers'' (CArray (CInt 4) 7), Member ''rtpoll_states'' (CInt 4),
     Member ''rtpoll_min_period'' (CInt 8), Member ''rtpoll_total'' (CArray (CInt 8) 7),
     Member ''rtpoll_next_update'' (CInt 8), Member ''rtpoll_until'' (CInt 8)]"

lemma layout_struct_psi_group [simp]: "cwf struct_psi_group" "calign struct_psi_group = 8" "csize struct_psi_group = 784"
  by (simp_all add: struct_psi_group_def place_def align_up_def)

definition struct_tc_sizespec :: ctype where
  "struct_tc_sizespec = CStruct [
     Member ''cell_log'' (CInt 1), Member ''size_log'' (CInt 1), Member ''cell_align'' (CInt 2),
     Member ''overhead'' (CInt 4), Member ''linklayer'' (CInt 4), Member ''mpu'' (CInt 4),
     Member ''mtu'' (CInt 4), Member ''tsize'' (CInt 4)]"

lemma layout_struct_tc_sizespec [simp]: "cwf struct_tc_sizespec" "calign struct_tc_sizespec = 4" "csize struct_tc_sizespec = 24"
  by (simp_all add: struct_tc_sizespec_def place_def align_up_def)

definition struct_qdisc_size_table :: ctype where
  "struct_qdisc_size_table = CStruct [
     Member ''rcu'' struct_callback_head, Member ''list'' struct_list_head,
     Member ''szopts'' struct_tc_sizespec, Member ''refcnt'' (CInt 4),
     Member ''data'' (CArray (CInt 2) 0)]"

lemma layout_struct_qdisc_size_table [simp]: "cwf struct_qdisc_size_table" "calign struct_qdisc_size_table = 8" "csize struct_qdisc_size_table = 64"
  by (simp_all add: struct_qdisc_size_table_def place_def align_up_def)

definition struct_rate_sample :: ctype where
  "struct_rate_sample = CStruct [
     Member ''prior_mstamp'' (CInt 8), Member ''prior_delivered'' (CInt 4),
     Member ''prior_delivered_ce'' (CInt 4), Member ''delivered'' (CInt 4),
     Member ''delivered_ce'' (CInt 4), Member ''interval_us'' (CInt 8),
     Member ''snd_interval_us'' (CInt 4), Member ''rcv_interval_us'' (CInt 4),
     Member ''rtt_us'' (CInt 8), Member ''losses'' (CInt 4), Member ''acked_sacked'' (CInt 4),
     Member ''prior_in_flight'' (CInt 4), Member ''last_end_seq'' (CInt 4),
     Member ''is_app_limited'' (CInt 1), Member ''is_retrans'' (CInt 1),
     Member ''is_ack_delayed'' (CInt 1)]"

lemma layout_struct_rate_sample [simp]: "cwf struct_rate_sample" "calign struct_rate_sample = 8" "csize struct_rate_sample = 72"
  by (simp_all add: struct_rate_sample_def place_def align_up_def)

definition struct_raw_hashinfo :: ctype where
  "struct_raw_hashinfo = CStruct [
     Member ''lock'' struct_spinlock, Bits '''' 8 64, Bits '''' 8 64, Bits '''' 8 64,
     Bits '''' 8 64, Bits '''' 8 64, Bits '''' 8 64, Bits '''' 8 64,
     Member ''ht'' (CArray struct_hlist_head 256)]"

lemma layout_struct_raw_hashinfo [simp]: "cwf struct_raw_hashinfo" "calign struct_raw_hashinfo = 8" "csize struct_raw_hashinfo = 2112"
  by (simp_all add: struct_raw_hashinfo_def place_def align_up_def)

definition struct_request_sock_ops :: ctype where
  "struct_request_sock_ops = CStruct [
     Member ''family'' (CInt 4), Member ''obj_size'' (CInt 4), Member ''slab'' CPtr,
     Member ''slab_name'' CPtr, Member ''rtx_syn_ack'' CPtr, Member ''send_ack'' CPtr,
     Member ''send_reset'' CPtr, Member ''destructor'' CPtr, Member ''syn_ack_timeout'' CPtr]"

lemma layout_struct_request_sock_ops [simp]: "cwf struct_request_sock_ops" "calign struct_request_sock_ops = 8" "csize struct_request_sock_ops = 64"
  by (simp_all add: struct_request_sock_ops_def place_def align_up_def)

definition struct_reset_control :: ctype where
  "struct_reset_control = CStruct [
     Member ''rcdev'' CPtr, Member ''list'' struct_list_head, Member ''id'' (CInt 4),
     Member ''refcnt'' struct_kref, Member ''acquired'' (CInt 1), Member ''shared'' (CInt 1),
     Member ''array'' (CInt 1), Member ''deassert_count'' type_atomic_t,
     Member ''triggered_count'' type_atomic_t]"

lemma layout_struct_reset_control [simp]: "cwf struct_reset_control" "calign struct_reset_control = 8" "csize struct_reset_control = 48"
  by (simp_all add: struct_reset_control_def place_def align_up_def)

definition struct_rps_dev_flow :: ctype where
  "struct_rps_dev_flow = CStruct [
     Member ''cpu'' (CInt 2), Member ''filter'' (CInt 2), Member ''last_qtail'' (CInt 4)]"

lemma layout_struct_rps_dev_flow [simp]: "cwf struct_rps_dev_flow" "calign struct_rps_dev_flow = 4" "csize struct_rps_dev_flow = 8"
  by (simp_all add: struct_rps_dev_flow_def place_def align_up_def)

definition struct_rps_dev_flow_table :: ctype where
  "struct_rps_dev_flow_table = CStruct [
     Member ''mask'' (CInt 4), Member ''rcu'' struct_callback_head,
     Member ''flows'' (CArray struct_rps_dev_flow 0)]"

lemma layout_struct_rps_dev_flow_table [simp]: "cwf struct_rps_dev_flow_table" "calign struct_rps_dev_flow_table = 8" "csize struct_rps_dev_flow_table = 24"
  by (simp_all add: struct_rps_dev_flow_table_def place_def align_up_def)

definition struct_rps_map :: ctype where
  "struct_rps_map = CStruct [
     Member ''len'' (CInt 4), Member ''rcu'' struct_callback_head,
     Member ''cpus'' (CArray (CInt 2) 0)]"

lemma layout_struct_rps_map [simp]: "cwf struct_rps_map" "calign struct_rps_map = 8" "csize struct_rps_map = 24"
  by (simp_all add: struct_rps_map_def place_def align_up_def)

definition struct_rt6_exception_bucket :: ctype where
  "struct_rt6_exception_bucket = CStruct [
     Member ''chain'' struct_hlist_head, Member ''depth'' (CInt 4)]"

lemma layout_struct_rt6_exception_bucket [simp]: "cwf struct_rt6_exception_bucket" "calign struct_rt6_exception_bucket = 8" "csize struct_rt6_exception_bucket = 16"
  by (simp_all add: struct_rt6_exception_bucket_def place_def align_up_def)

definition struct_rtnl_link_stats64 :: ctype where
  "struct_rtnl_link_stats64 = CStruct [
     Member ''rx_packets'' (CInt 8), Member ''tx_packets'' (CInt 8),
     Member ''rx_bytes'' (CInt 8), Member ''tx_bytes'' (CInt 8), Member ''rx_errors'' (CInt 8),
     Member ''tx_errors'' (CInt 8), Member ''rx_dropped'' (CInt 8),
     Member ''tx_dropped'' (CInt 8), Member ''multicast'' (CInt 8),
     Member ''collisions'' (CInt 8), Member ''rx_length_errors'' (CInt 8),
     Member ''rx_over_errors'' (CInt 8), Member ''rx_crc_errors'' (CInt 8),
     Member ''rx_frame_errors'' (CInt 8), Member ''rx_fifo_errors'' (CInt 8),
     Member ''rx_missed_errors'' (CInt 8), Member ''tx_aborted_errors'' (CInt 8),
     Member ''tx_carrier_errors'' (CInt 8), Member ''tx_fifo_errors'' (CInt 8),
     Member ''tx_heartbeat_errors'' (CInt 8), Member ''tx_window_errors'' (CInt 8),
     Member ''rx_compressed'' (CInt 8), Member ''tx_compressed'' (CInt 8),
     Member ''rx_nohandler'' (CInt 8), Member ''rx_otherhost_dropped'' (CInt 8)]"

lemma layout_struct_rtnl_link_stats64 [simp]: "cwf struct_rtnl_link_stats64" "calign struct_rtnl_link_stats64 = 8" "csize struct_rtnl_link_stats64 = 200"
  by (simp_all add: struct_rtnl_link_stats64_def place_def align_up_def)

definition struct_scatterlist :: ctype where
  "struct_scatterlist = CStruct [
     Member ''page_link'' (CInt 8), Member ''offset'' (CInt 4), Member ''length'' (CInt 4),
     Member ''dma_address'' (CInt 8), Member ''dma_length'' (CInt 4),
     Member ''dma_flags'' (CInt 4)]"

lemma layout_struct_scatterlist [simp]: "cwf struct_scatterlist" "calign struct_scatterlist = 8" "csize struct_scatterlist = 32"
  by (simp_all add: struct_scatterlist_def place_def align_up_def)

definition struct_seq_operations :: ctype where
  "struct_seq_operations = CStruct [
     Member ''start'' CPtr, Member ''stop'' CPtr, Member ''next'' CPtr, Member ''show'' CPtr]"

lemma layout_struct_seq_operations [simp]: "cwf struct_seq_operations" "calign struct_seq_operations = 8" "csize struct_seq_operations = 32"
  by (simp_all add: struct_seq_operations_def place_def align_up_def)

definition struct_sfp_quirk :: ctype where
  "struct_sfp_quirk = CStruct [
     Member ''vendor'' CPtr, Member ''part'' CPtr, Member ''modes'' CPtr, Member ''fixup'' CPtr]"

lemma layout_struct_sfp_quirk [simp]: "cwf struct_sfp_quirk" "calign struct_sfp_quirk = 8" "csize struct_sfp_quirk = 32"
  by (simp_all add: struct_sfp_quirk_def place_def align_up_def)

definition struct_sfp_socket_ops :: ctype where
  "struct_sfp_socket_ops = CStruct [
     Member ''attach'' CPtr, Member ''detach'' CPtr, Member ''start'' CPtr, Member ''stop'' CPtr,
     Member ''set_signal_rate'' CPtr, Member ''module_info'' CPtr, Member ''module_eeprom'' CPtr,
     Member ''module_eeprom_by_page'' CPtr]"

lemma layout_struct_sfp_socket_ops [simp]: "cwf struct_sfp_socket_ops" "calign struct_sfp_socket_ops = 8" "csize struct_sfp_socket_ops = 64"
  by (simp_all add: struct_sfp_socket_ops_def place_def align_up_def)

definition struct_sfp_upstream_ops :: ctype where
  "struct_sfp_upstream_ops = CStruct [
     Member ''attach'' CPtr, Member ''detach'' CPtr, Member ''module_insert'' CPtr,
     Member ''module_remove'' CPtr, Member ''module_start'' CPtr, Member ''module_stop'' CPtr,
     Member ''link_down'' CPtr, Member ''link_up'' CPtr, Member ''connect_phy'' CPtr,
     Member ''disconnect_phy'' CPtr]"

lemma layout_struct_sfp_upstream_ops [simp]: "cwf struct_sfp_upstream_ops" "calign struct_sfp_upstream_ops = 8" "csize struct_sfp_upstream_ops = 80"
  by (simp_all add: struct_sfp_upstream_ops_def place_def align_up_def)

definition struct_sg_table :: ctype where
  "struct_sg_table = CStruct [
     Member ''sgl'' CPtr, Member ''nents'' (CInt 4), Member ''orig_nents'' (CInt 4)]"

lemma layout_struct_sg_table [simp]: "cwf struct_sg_table" "calign struct_sg_table = 8" "csize struct_sg_table = 16"
  by (simp_all add: struct_sg_table_def place_def align_up_def)

definition struct_sk_psock_progs :: ctype where
  "struct_sk_psock_progs = CStruct [
     Member ''msg_parser'' CPtr, Member ''stream_parser'' CPtr, Member ''stream_verdict'' CPtr,
     Member ''skb_verdict'' CPtr, Member ''msg_parser_link'' CPtr,
     Member ''stream_parser_link'' CPtr, Member ''stream_verdict_link'' CPtr,
     Member ''skb_verdict_link'' CPtr]"

lemma layout_struct_sk_psock_progs [simp]: "cwf struct_sk_psock_progs" "calign struct_sk_psock_progs = 8" "csize struct_sk_psock_progs = 64"
  by (simp_all add: struct_sk_psock_progs_def place_def align_up_def)

definition struct_strp_stats :: ctype where
  "struct_strp_stats = CStruct [
     Member ''msgs'' (CInt 8), Member ''bytes'' (CInt 8), Member ''mem_fail'' (CInt 4),
     Member ''need_more_hdr'' (CInt 4), Member ''msg_too_big'' (CInt 4),
     Member ''msg_timeouts'' (CInt 4), Member ''bad_hdr_len'' (CInt 4)]"

lemma layout_struct_strp_stats [simp]: "cwf struct_strp_stats" "calign struct_strp_stats = 8" "csize struct_strp_stats = 40"
  by (simp_all add: struct_strp_stats_def place_def align_up_def)

definition struct_strp_callbacks :: ctype where
  "struct_strp_callbacks = CStruct [
     Member ''parse_msg'' CPtr, Member ''rcv_msg'' CPtr, Member ''read_sock_done'' CPtr,
     Member ''abort_parser'' CPtr, Member ''lock'' CPtr, Member ''unlock'' CPtr]"

lemma layout_struct_strp_callbacks [simp]: "cwf struct_strp_callbacks" "calign struct_strp_callbacks = 8" "csize struct_strp_callbacks = 48"
  by (simp_all add: struct_strp_callbacks_def place_def align_up_def)

definition struct_strparser :: ctype where
  "struct_strparser = CStruct [
     Member ''sk'' CPtr, Bits ''stopped'' 4 1, Bits ''paused'' 4 1, Bits ''aborted'' 4 1,
     Bits ''interrupted'' 4 1, Bits ''unrecov_intr'' 4 1, Member ''skb_nextp'' CPtr,
     Member ''skb_head'' CPtr, Member ''need_bytes'' (CInt 4),
     Member ''msg_timer_work'' struct_delayed_work, Member ''work'' struct_work_struct,
     Member ''stats'' struct_strp_stats, Member ''cb'' struct_strp_callbacks]"

lemma layout_struct_strparser [simp]: "cwf struct_strparser" "calign struct_strparser = 8" "csize struct_strparser = 248"
  by (simp_all add: struct_strparser_def place_def align_up_def)

definition struct_sk_psock_work_state :: ctype where
  "struct_sk_psock_work_state = CStruct [
     Member ''len'' (CInt 4), Member ''off'' (CInt 4)]"

lemma layout_struct_sk_psock_work_state [simp]: "cwf struct_sk_psock_work_state" "calign struct_sk_psock_work_state = 4" "csize struct_sk_psock_work_state = 8"
  by (simp_all add: struct_sk_psock_work_state_def place_def align_up_def)

definition struct_sk_psock :: ctype where
  "struct_sk_psock = CStruct [
     Member ''sk'' CPtr, Member ''sk_redir'' CPtr, Member ''apply_bytes'' (CInt 4),
     Member ''cork_bytes'' (CInt 4), Member ''eval'' (CInt 4), Member ''redir_ingress'' (CInt 1),
     Member ''cork'' CPtr, Member ''progs'' struct_sk_psock_progs,
     Member ''strp'' struct_strparser, Member ''ingress_skb'' struct_sk_buff_head,
     Member ''ingress_msg'' struct_list_head, Member ''ingress_lock'' struct_spinlock,
     Member ''state'' (CInt 8), Member ''link'' struct_list_head,
     Member ''link_lock'' struct_spinlock, Member ''refcnt'' struct_refcount_struct,
     Member ''saved_unhash'' CPtr, Member ''saved_destroy'' CPtr, Member ''saved_close'' CPtr,
     Member ''saved_write_space'' CPtr, Member ''saved_data_ready'' CPtr,
     Member ''psock_update_sk_prot'' CPtr, Member ''sk_proto'' CPtr,
     Member ''work_mutex'' struct_mutex, Member ''work_state'' struct_sk_psock_work_state,
     Member ''work'' struct_delayed_work, Member ''sk_pair'' CPtr,
     Member ''rwork'' struct_rcu_work]"

lemma layout_struct_sk_psock [simp]: "cwf struct_sk_psock" "calign struct_sk_psock = 8" "csize struct_sk_psock = 680"
  by (simp_all add: struct_sk_psock_def place_def align_up_def)

definition struct_sock_fprog_kern :: ctype where
  "struct_sock_fprog_kern = CStruct [
     Member ''len'' (CInt 2), Member ''filter'' CPtr]"

lemma layout_struct_sock_fprog_kern [simp]: "cwf struct_sock_fprog_kern" "calign struct_sock_fprog_kern = 8" "csize struct_sock_fprog_kern = 16"
  by (simp_all add: struct_sock_fprog_kern_def place_def align_up_def)

definition struct_sysfs_ops :: ctype where
  "struct_sysfs_ops = CStruct [
     Member ''show'' CPtr, Member ''store'' CPtr]"

lemma layout_struct_sysfs_ops [simp]: "cwf struct_sysfs_ops" "calign struct_sysfs_ops = 8" "csize struct_sysfs_ops = 16"
  by (simp_all add: struct_sysfs_ops_def place_def align_up_def)

definition struct_timewait_sock_ops :: ctype where
  "struct_timewait_sock_ops = CStruct [
     Member ''twsk_slab'' CPtr, Member ''twsk_slab_name'' CPtr,
     Member ''twsk_obj_size'' (CInt 4), Member ''twsk_destructor'' CPtr]"

lemma layout_struct_timewait_sock_ops [simp]: "cwf struct_timewait_sock_ops" "calign struct_timewait_sock_ops = 8" "csize struct_timewait_sock_ops = 32"
  by (simp_all add: struct_timewait_sock_ops_def place_def align_up_def)

definition struct_tls_prot_info :: ctype where
  "struct_tls_prot_info = CStruct [
     Member ''version'' (CInt 2), Member ''cipher_type'' (CInt 2),
     Member ''prepend_size'' (CInt 2), Member ''tag_size'' (CInt 2),
     Member ''overhead_size'' (CInt 2), Member ''iv_size'' (CInt 2),
     Member ''salt_size'' (CInt 2), Member ''rec_seq_size'' (CInt 2),
     Member ''aad_size'' (CInt 2), Member ''tail_size'' (CInt 2)]"

lemma layout_struct_tls_prot_info [simp]: "cwf struct_tls_prot_info" "calign struct_tls_prot_info = 2" "csize struct_tls_prot_info = 20"
  by (simp_all add: struct_tls_prot_info_def place_def align_up_def)

definition struct_cipher_context :: ctype where
  "struct_cipher_context = CStruct [
     Member ''iv'' (CArray (CInt 1) 20), Member ''rec_seq'' (CArray (CInt 1) 8)]"

lemma layout_struct_cipher_context [simp]: "cwf struct_cipher_context" "calign struct_cipher_context = 1" "csize struct_cipher_context = 28"
  by (simp_all add: struct_cipher_context_def place_def align_up_def)

definition struct_tls_crypto_info :: ctype where
  "struct_tls_crypto_info = CStruct [
     Member ''version'' (CInt 2), Member ''cipher_type'' (CInt 2)]"

lemma layout_struct_tls_crypto_info [simp]: "cwf struct_tls_crypto_info" "calign struct_tls_crypto_info = 2" "csize struct_tls_crypto_info = 4"
  by (simp_all add: struct_tls_crypto_info_def place_def align_up_def)

definition struct_tls12_crypto_info_aes_gcm_128 :: ctype where
  "struct_tls12_crypto_info_aes_gcm_128 = CStruct [
     Member ''info'' struct_tls_crypto_info, Member ''iv'' (CArray (CInt 1) 8),
     Member ''key'' (CArray (CInt 1) 16), Member ''salt'' (CArray (CInt 1) 4),
     Member ''rec_seq'' (CArray (CInt 1) 8)]"

lemma layout_struct_tls12_crypto_info_aes_gcm_128 [simp]: "cwf struct_tls12_crypto_info_aes_gcm_128" "calign struct_tls12_crypto_info_aes_gcm_128 = 2" "csize struct_tls12_crypto_info_aes_gcm_128 = 40"
  by (simp_all add: struct_tls12_crypto_info_aes_gcm_128_def place_def align_up_def)

definition struct_tls12_crypto_info_aes_gcm_256 :: ctype where
  "struct_tls12_crypto_info_aes_gcm_256 = CStruct [
     Member ''info'' struct_tls_crypto_info, Member ''iv'' (CArray (CInt 1) 8),
     Member ''key'' (CArray (CInt 1) 32), Member ''salt'' (CArray (CInt 1) 4),
     Member ''rec_seq'' (CArray (CInt 1) 8)]"

lemma layout_struct_tls12_crypto_info_aes_gcm_256 [simp]: "cwf struct_tls12_crypto_info_aes_gcm_256" "calign struct_tls12_crypto_info_aes_gcm_256 = 2" "csize struct_tls12_crypto_info_aes_gcm_256 = 56"
  by (simp_all add: struct_tls12_crypto_info_aes_gcm_256_def place_def align_up_def)

definition struct_tls12_crypto_info_chacha20_poly1305 :: ctype where
  "struct_tls12_crypto_info_chacha20_poly1305 = CStruct [
     Member ''info'' struct_tls_crypto_info, Member ''iv'' (CArray (CInt 1) 12),
     Member ''key'' (CArray (CInt 1) 32), Member ''salt'' (CArray (CInt 1) 0),
     Member ''rec_seq'' (CArray (CInt 1) 8)]"

lemma layout_struct_tls12_crypto_info_chacha20_poly1305 [simp]: "cwf struct_tls12_crypto_info_chacha20_poly1305" "calign struct_tls12_crypto_info_chacha20_poly1305 = 2" "csize struct_tls12_crypto_info_chacha20_poly1305 = 56"
  by (simp_all add: struct_tls12_crypto_info_chacha20_poly1305_def place_def align_up_def)

definition struct_tls12_crypto_info_sm4_gcm :: ctype where
  "struct_tls12_crypto_info_sm4_gcm = CStruct [
     Member ''info'' struct_tls_crypto_info, Member ''iv'' (CArray (CInt 1) 8),
     Member ''key'' (CArray (CInt 1) 16), Member ''salt'' (CArray (CInt 1) 4),
     Member ''rec_seq'' (CArray (CInt 1) 8)]"

lemma layout_struct_tls12_crypto_info_sm4_gcm [simp]: "cwf struct_tls12_crypto_info_sm4_gcm" "calign struct_tls12_crypto_info_sm4_gcm = 2" "csize struct_tls12_crypto_info_sm4_gcm = 40"
  by (simp_all add: struct_tls12_crypto_info_sm4_gcm_def place_def align_up_def)

definition struct_tls12_crypto_info_sm4_ccm :: ctype where
  "struct_tls12_crypto_info_sm4_ccm = CStruct [
     Member ''info'' struct_tls_crypto_info, Member ''iv'' (CArray (CInt 1) 8),
     Member ''key'' (CArray (CInt 1) 16), Member ''salt'' (CArray (CInt 1) 4),
     Member ''rec_seq'' (CArray (CInt 1) 8)]"

lemma layout_struct_tls12_crypto_info_sm4_ccm [simp]: "cwf struct_tls12_crypto_info_sm4_ccm" "calign struct_tls12_crypto_info_sm4_ccm = 2" "csize struct_tls12_crypto_info_sm4_ccm = 40"
  by (simp_all add: struct_tls12_crypto_info_sm4_ccm_def place_def align_up_def)

definition union_tls_crypto_context :: ctype where
  "union_tls_crypto_context = CUnion [
     Member ''info'' struct_tls_crypto_info, Member '''' (CUnion [
       Member ''aes_gcm_128'' struct_tls12_crypto_info_aes_gcm_128,
       Member ''aes_gcm_256'' struct_tls12_crypto_info_aes_gcm_256,
       Member ''chacha20_poly1305'' struct_tls12_crypto_info_chacha20_poly1305,
       Member ''sm4_gcm'' struct_tls12_crypto_info_sm4_gcm,
       Member ''sm4_ccm'' struct_tls12_crypto_info_sm4_ccm])]"

lemma layout_union_tls_crypto_context [simp]: "cwf union_tls_crypto_context" "calign union_tls_crypto_context = 2" "csize union_tls_crypto_context = 56"
  by (simp_all add: union_tls_crypto_context_def place_def align_up_def)

definition struct_tls_context :: ctype where
  "struct_tls_context = CStruct [
     Member ''prot_info'' struct_tls_prot_info, Bits ''tx_conf'' 1 3, Bits ''rx_conf'' 1 3,
     Bits ''zerocopy_sendfile'' 1 1, Bits ''rx_no_pad'' 1 1, Member ''push_pending_record'' CPtr,
     Member ''sk_write_space'' CPtr, Member ''priv_ctx_tx'' CPtr, Member ''priv_ctx_rx'' CPtr,
     Member ''netdev'' CPtr, Member ''tx'' struct_cipher_context,
     Member ''rx'' struct_cipher_context, Member ''partially_sent_record'' CPtr,
     Member ''partially_sent_offset'' (CInt 2), Member ''splicing_pages'' (CInt 1),
     Member ''pending_open_record_frags'' (CInt 1), Member ''tx_lock'' struct_mutex,
     Member ''flags'' (CInt 8), Member ''sk_proto'' CPtr, Member ''sk'' CPtr,
     Member ''sk_destruct'' CPtr, Member ''crypto_send'' union_tls_crypto_context,
     Member ''crypto_recv'' union_tls_crypto_context, Member ''list'' struct_list_head,
     Member ''refcount'' struct_refcount_struct, Member ''rcu'' struct_callback_head]"

lemma layout_struct_tls_context [simp]: "cwf struct_tls_context" "calign struct_tls_context = 8" "csize struct_tls_context = 352"
  by (simp_all add: struct_tls_context_def place_def align_up_def)

definition struct_udp_hslot :: ctype where
  "struct_udp_hslot = CStruct [
     Member ''head'' struct_hlist_head, Member ''count'' (CInt 4),
     Member ''lock'' struct_spinlock]"

lemma layout_struct_udp_hslot [simp]: "cwf struct_udp_hslot" "calign struct_udp_hslot = 8" "csize struct_udp_hslot = 16"
  by (simp_all add: struct_udp_hslot_def place_def align_up_def)

definition struct_udp_tunnel_info :: ctype where
  "struct_udp_tunnel_info = CStruct [
     Member ''type'' (CInt 2), Member ''sa_family'' (CInt 2), Member ''port'' (CInt 2),
     Member ''hw_priv'' (CInt 1)]"

lemma layout_struct_udp_tunnel_info [simp]: "cwf struct_udp_tunnel_info" "calign struct_udp_tunnel_info = 2" "csize struct_udp_tunnel_info = 8"
  by (simp_all add: struct_udp_tunnel_info_def place_def align_up_def)

definition struct_udp_tunnel_nic_shared :: ctype where
  "struct_udp_tunnel_nic_shared = CStruct [
     Member ''udp_tunnel_nic_info'' CPtr, Member ''devices'' struct_list_head]"

lemma layout_struct_udp_tunnel_nic_shared [simp]: "cwf struct_udp_tunnel_nic_shared" "calign struct_udp_tunnel_nic_shared = 8" "csize struct_udp_tunnel_nic_shared = 24"
  by (simp_all add: struct_udp_tunnel_nic_shared_def place_def align_up_def)

definition struct_uncached_list :: ctype where
  "struct_uncached_list = CStruct [
     Member ''lock'' struct_spinlock, Member ''head'' struct_list_head]"

lemma layout_struct_uncached_list [simp]: "cwf struct_uncached_list" "calign struct_uncached_list = 8" "csize struct_uncached_list = 24"
  by (simp_all add: struct_uncached_list_def place_def align_up_def)

definition struct_wiphy :: ctype where
  "struct_wiphy = CStruct [
     Member ''mtx'' struct_mutex, Member ''perm_addr'' (CArray (CInt 1) 6),
     Member ''addr_mask'' (CArray (CInt 1) 6), Member ''addresses'' CPtr,
     Member ''mgmt_stypes'' CPtr, Member ''iface_combinations'' CPtr,
     Member ''n_iface_combinations'' (CInt 4), Member ''software_iftypes'' (CInt 2),
     Member ''n_addresses'' (CInt 2), Member ''interface_modes'' (CInt 2),
     Member ''max_acl_mac_addrs'' (CInt 2), Member ''flags'' (CInt 4),
     Member ''regulatory_flags'' (CInt 4), Member ''features'' (CInt 4),
     Member ''ext_features'' (CArray (CInt 1) 9), Member ''ap_sme_capa'' (CInt 4),
     Member ''signal_type'' (CInt 4), Member ''bss_priv_size'' (CInt 4),
     Member ''max_scan_ssids'' (CInt 1), Member ''max_sched_scan_reqs'' (CInt 1),
     Member ''max_sched_scan_ssids'' (CInt 1), Member ''max_match_sets'' (CInt 1),
     Member ''max_scan_ie_len'' (CInt 2), Member ''max_sched_scan_ie_len'' (CInt 2),
     Member ''max_sched_scan_plans'' (CInt 4), Member ''max_sched_scan_plan_interval'' (CInt 4),
     Member ''max_sched_scan_plan_iterations'' (CInt 4), Member ''n_cipher_suites'' (CInt 4),
     Member ''cipher_suites'' CPtr, Member ''n_akm_suites'' (CInt 4), Member ''akm_suites'' CPtr,
     Member ''iftype_akm_suites'' CPtr, Member ''num_iftype_akm_suites'' (CInt 4),
     Member ''retry_short'' (CInt 1), Member ''retry_long'' (CInt 1),
     Member ''frag_threshold'' (CInt 4), Member ''rts_threshold'' (CInt 4),
     Member ''coverage_class'' (CInt 1), Member ''fw_version'' (CArray (CInt 1) 32),
     Member ''hw_version'' (CInt 4), Member ''wowlan'' CPtr, Member ''wowlan_config'' CPtr,
     Member ''max_remain_on_channel_duration'' (CInt 2), Member ''max_num_pmkids'' (CInt 1),
     Member ''available_antennas_tx'' (CInt 4), Member ''available_antennas_rx'' (CInt 4),
     Member ''probe_resp_offload'' (CInt 4), Member ''extended_capabilities'' CPtr,
     Member ''extended_capabilities_mask'' CPtr, Member ''extended_capabilities_len'' (CInt 1),
     Member ''iftype_ext_capab'' CPtr, Member ''num_iftype_ext_capab'' (CInt 4),
     Member ''privid'' CPtr, Member ''bands'' (CArray CPtr 6), Member ''reg_notifier'' CPtr,
     Member ''regd'' CPtr, Member ''dev'' struct_device, Member ''registered'' (CInt 1),
     Member ''debugfsdir'' CPtr, Member ''ht_capa_mod_mask'' CPtr,
     Member ''vht_capa_mod_mask'' CPtr, Member ''wdev_list'' struct_list_head,
     Member ''_net'' type_possible_net_t, Member ''wext'' CPtr, Member ''coalesce'' CPtr,
     Member ''vendor_commands'' CPtr, Member ''vendor_events'' CPtr,
     Member ''n_vendor_commands'' (CInt 4), Member ''n_vendor_events'' (CInt 4),
     Member ''max_ap_assoc_sta'' (CInt 2), Member ''max_num_csa_counters'' (CInt 1),
     Member ''bss_select_support'' (CInt 4), Member ''nan_supported_bands'' (CInt 1),
     Member ''txq_limit'' (CInt 4), Member ''txq_memory_limit'' (CInt 4),
     Member ''txq_quantum'' (CInt 4), Member ''tx_queue_len'' (CInt 8),
     Bits ''support_mbssid'' 1 1, Bits ''support_only_he_mbssid'' 1 1, Member ''pmsr_capa'' CPtr,
     Member ''tid_config_support'' (CStruct [
       Member ''peer'' (CInt 8), Member ''vif'' (CInt 8), Member ''max_retry'' (CInt 1)]),
     Member ''max_data_retry_count'' (CInt 1), Member ''sar_capa'' CPtr, Member ''rfkill'' CPtr,
     Member ''mbssid_max_interfaces'' (CInt 1), Member ''ema_max_profile_periodicity'' (CInt 1),
     Member ''max_num_akm_suites'' (CInt 2), Member ''hw_timestamp_max_peers'' (CInt 2),
     Member ''n_radio'' (CInt 4), Member ''radio'' CPtr, Member ''priv'' (CArray (CInt 1) 0)]"

lemma layout_struct_wiphy [simp]: "cwf struct_wiphy" "calign struct_wiphy = 8" "csize struct_wiphy = 1344"
  by (simp_all add: struct_wiphy_def place_def align_up_def)

definition struct_worker :: ctype where
  "struct_worker = CStruct [
     Member '''' (CUnion [
       Member ''entry'' struct_list_head, Member ''hentry'' struct_hlist_node]),
     Member ''current_work'' CPtr, Member ''current_func'' CPtr, Member ''current_pwq'' CPtr,
     Member ''current_at'' (CInt 8), Member ''current_color'' (CInt 4),
     Member ''sleeping'' (CInt 4), Member ''last_func'' CPtr,
     Member ''scheduled'' struct_list_head, Member ''task'' CPtr, Member ''pool'' CPtr,
     Member ''node'' struct_list_head, Member ''last_active'' (CInt 8),
     Member ''flags'' (CInt 4), Member ''id'' (CInt 4), Member ''desc'' (CArray (CInt 1) 32),
     Member ''rescue_wq'' CPtr]"

lemma layout_struct_worker [simp]: "cwf struct_worker" "calign struct_worker = 8" "csize struct_worker = 168"
  by (simp_all add: struct_worker_def place_def align_up_def)

definition struct_workqueue_attrs :: ctype where
  "struct_workqueue_attrs = CStruct [
     Member ''nice'' (CInt 4), Member ''cpumask'' (CArray struct_cpumask 1),
     Member ''__pod_cpumask'' (CArray struct_cpumask 1), Member ''affn_strict'' (CInt 1),
     Member ''affn_scope'' (CInt 4), Member ''ordered'' (CInt 1)]"

lemma layout_struct_workqueue_attrs [simp]: "cwf struct_workqueue_attrs" "calign struct_workqueue_attrs = 8" "csize struct_workqueue_attrs = 120"
  by (simp_all add: struct_workqueue_attrs_def place_def align_up_def)

definition struct_wpan_dev_header_ops :: ctype where
  "struct_wpan_dev_header_ops = CStruct [
     Member ''create'' CPtr]"

lemma layout_struct_wpan_dev_header_ops [simp]: "cwf struct_wpan_dev_header_ops" "calign struct_wpan_dev_header_ops = 8" "csize struct_wpan_dev_header_ops = 8"
  by (simp_all add: struct_wpan_dev_header_ops_def place_def align_up_def)

definition struct_wpan_phy_supported :: ctype where
  "struct_wpan_phy_supported = CStruct [
     Member ''channels'' (CArray (CInt 4) 32), Member ''cca_modes'' (CInt 4),
     Member ''cca_opts'' (CInt 4), Member ''iftypes'' (CInt 4), Member ''lbt'' (CInt 4),
     Member ''min_minbe'' (CInt 1), Member ''max_minbe'' (CInt 1), Member ''min_maxbe'' (CInt 1),
     Member ''max_maxbe'' (CInt 1), Member ''min_csma_backoffs'' (CInt 1),
     Member ''max_csma_backoffs'' (CInt 1), Member ''min_frame_retries'' (CInt 1),
     Member ''max_frame_retries'' (CInt 1), Member ''tx_powers_size'' (CInt 8),
     Member ''cca_ed_levels_size'' (CInt 8), Member ''tx_powers'' CPtr,
     Member ''cca_ed_levels'' CPtr]"

lemma layout_struct_wpan_phy_supported [simp]: "cwf struct_wpan_phy_supported" "calign struct_wpan_phy_supported = 8" "csize struct_wpan_phy_supported = 184"
  by (simp_all add: struct_wpan_phy_supported_def place_def align_up_def)

definition struct_wpan_phy_cca :: ctype where
  "struct_wpan_phy_cca = CStruct [
     Member ''mode'' (CInt 4), Member ''opt'' (CInt 4)]"

lemma layout_struct_wpan_phy_cca [simp]: "cwf struct_wpan_phy_cca" "calign struct_wpan_phy_cca = 4" "csize struct_wpan_phy_cca = 8"
  by (simp_all add: struct_wpan_phy_cca_def place_def align_up_def)

definition struct_wpan_phy :: ctype where
  "struct_wpan_phy = CStruct [
     Member ''privid'' CPtr, Member ''flags'' (CInt 8), Member ''current_channel'' (CInt 1),
     Member ''current_page'' (CInt 1), Member ''supported'' struct_wpan_phy_supported,
     Member ''transmit_power'' (CInt 4), Member ''cca'' struct_wpan_phy_cca,
     Member ''perm_extended_addr'' (CInt 8), Member ''cca_ed_level'' (CInt 4),
     Member ''symbol_duration'' (CInt 4), Member ''lifs_period'' (CInt 2),
     Member ''sifs_period'' (CInt 2), Member ''dev'' struct_device,
     Member ''_net'' type_possible_net_t, Member ''queue_lock'' struct_spinlock,
     Member ''ongoing_txs'' type_atomic_t, Member ''hold_txs'' type_atomic_t,
     Member ''sync_txq'' struct_wait_queue_head, Member ''filtering'' (CInt 4), Bits '''' 8 0,
     Member ''priv'' (CArray (CInt 1) 0)]"

lemma layout_struct_wpan_phy [simp]: "cwf struct_wpan_phy" "calign struct_wpan_phy = 8" "csize struct_wpan_phy = 1056"
  by (simp_all add: struct_wpan_phy_def place_def align_up_def)

definition struct_wq_device :: ctype where
  "struct_wq_device = CStruct [
     Member ''wq'' CPtr, Member ''dev'' struct_device]"

lemma layout_struct_wq_device [simp]: "cwf struct_wq_device" "calign struct_wq_device = 8" "csize struct_wq_device = 760"
  by (simp_all add: struct_wq_device_def place_def align_up_def)

definition struct_wq_flusher :: ctype where
  "struct_wq_flusher = CStruct [
     Member ''list'' struct_list_head, Member ''flush_color'' (CInt 4),
     Member ''done'' struct_completion]"

lemma layout_struct_wq_flusher [simp]: "cwf struct_wq_flusher" "calign struct_wq_flusher = 8" "csize struct_wq_flusher = 56"
  by (simp_all add: struct_wq_flusher_def place_def align_up_def)

definition struct_wq_node_nr_active :: ctype where
  "struct_wq_node_nr_active = CStruct [
     Member ''max'' (CInt 4), Member ''nr'' type_atomic_t, Member ''lock'' struct_raw_spinlock,
     Member ''pending_pwqs'' struct_list_head]"

lemma layout_struct_wq_node_nr_active [simp]: "cwf struct_wq_node_nr_active" "calign struct_wq_node_nr_active = 8" "csize struct_wq_node_nr_active = 32"
  by (simp_all add: struct_wq_node_nr_active_def place_def align_up_def)

definition struct_xfrm_sec_ctx :: ctype where
  "struct_xfrm_sec_ctx = CStruct [
     Member ''ctx_doi'' (CInt 1), Member ''ctx_alg'' (CInt 1), Member ''ctx_len'' (CInt 2),
     Member ''ctx_sid'' (CInt 4), Member ''ctx_str'' (CArray (CInt 1) 0)]"

lemma layout_struct_xfrm_sec_ctx [simp]: "cwf struct_xfrm_sec_ctx" "calign struct_xfrm_sec_ctx = 4" "csize struct_xfrm_sec_ctx = 8"
  by (simp_all add: struct_xfrm_sec_ctx_def place_def align_up_def)

definition struct_xfrm_state_walk :: ctype where
  "struct_xfrm_state_walk = CStruct [
     Member ''all'' struct_list_head, Member ''state'' (CInt 1), Member ''dying'' (CInt 1),
     Member ''proto'' (CInt 1), Member ''seq'' (CInt 4), Member ''filter'' CPtr]"

lemma layout_struct_xfrm_state_walk [simp]: "cwf struct_xfrm_state_walk" "calign struct_xfrm_state_walk = 8" "csize struct_xfrm_state_walk = 32"
  by (simp_all add: struct_xfrm_state_walk_def place_def align_up_def)

definition struct_xfrm_replay_state :: ctype where
  "struct_xfrm_replay_state = CStruct [
     Member ''oseq'' (CInt 4), Member ''seq'' (CInt 4), Member ''bitmap'' (CInt 4)]"

lemma layout_struct_xfrm_replay_state [simp]: "cwf struct_xfrm_replay_state" "calign struct_xfrm_replay_state = 4" "csize struct_xfrm_replay_state = 12"
  by (simp_all add: struct_xfrm_replay_state_def place_def align_up_def)

definition struct_xfrm_stats :: ctype where
  "struct_xfrm_stats = CStruct [
     Member ''replay_window'' (CInt 4), Member ''replay'' (CInt 4),
     Member ''integrity_failed'' (CInt 4)]"

lemma layout_struct_xfrm_stats [simp]: "cwf struct_xfrm_stats" "calign struct_xfrm_stats = 4" "csize struct_xfrm_stats = 12"
  by (simp_all add: struct_xfrm_stats_def place_def align_up_def)

definition struct_xfrm_mode :: ctype where
  "struct_xfrm_mode = CStruct [
     Member ''encap'' (CInt 1), Member ''family'' (CInt 1), Member ''flags'' (CInt 1)]"

lemma layout_struct_xfrm_mode [simp]: "cwf struct_xfrm_mode" "calign struct_xfrm_mode = 1" "csize struct_xfrm_mode = 3"
  by (simp_all add: struct_xfrm_mode_def place_def align_up_def)

definition struct_xfrm_state :: ctype where
  "struct_xfrm_state = CStruct [
     Member ''xs_net'' type_possible_net_t, Member '''' (CUnion [
       Member ''gclist'' struct_hlist_node, Member ''bydst'' struct_hlist_node]),
     Member '''' (CUnion [
       Member ''dev_gclist'' struct_hlist_node, Member ''bysrc'' struct_hlist_node]),
     Member ''byspi'' struct_hlist_node, Member ''byseq'' struct_hlist_node,
     Member ''refcnt'' struct_refcount_struct, Member ''lock'' struct_spinlock,
     Member ''id'' struct_xfrm_id, Member ''sel'' struct_xfrm_selector,
     Member ''mark'' struct_xfrm_mark, Member ''if_id'' (CInt 4), Member ''tfcpad'' (CInt 4),
     Member ''genid'' (CInt 4), Member ''km'' struct_xfrm_state_walk, Member ''props'' (CStruct [
       Member ''reqid'' (CInt 4), Member ''mode'' (CInt 1), Member ''replay_window'' (CInt 1),
       Member ''aalgo'' (CInt 1), Member ''ealgo'' (CInt 1), Member ''calgo'' (CInt 1),
       Member ''flags'' (CInt 1), Member ''family'' (CInt 2),
       Member ''saddr'' type_xfrm_address_t, Member ''header_len'' (CInt 4),
       Member ''trailer_len'' (CInt 4), Member ''extra_flags'' (CInt 4),
       Member ''smark'' struct_xfrm_mark]), Member ''lft'' struct_xfrm_lifetime_cfg,
     Member ''aalg'' CPtr, Member ''ealg'' CPtr, Member ''calg'' CPtr, Member ''aead'' CPtr,
     Member ''geniv'' CPtr, Member ''new_mapping_sport'' (CInt 2),
     Member ''new_mapping'' (CInt 4), Member ''mapping_maxage'' (CInt 4), Member ''encap'' CPtr,
     Member ''encap_sk'' CPtr, Member ''nat_keepalive_interval'' (CInt 4),
     Member ''nat_keepalive_expiration'' (CInt 8), Member ''coaddr'' CPtr,
     Member ''tunnel'' CPtr, Member ''tunnel_users'' type_atomic_t,
     Member ''replay'' struct_xfrm_replay_state, Member ''replay_esn'' CPtr,
     Member ''preplay'' struct_xfrm_replay_state, Member ''preplay_esn'' CPtr,
     Member ''repl_mode'' (CInt 4), Member ''xflags'' (CInt 4),
     Member ''replay_maxage'' (CInt 4), Member ''replay_maxdiff'' (CInt 4),
     Member ''rtimer'' struct_timer_list, Member ''stats'' struct_xfrm_stats,
     Member ''curlft'' struct_xfrm_lifetime_cur, Member ''mtimer'' struct_hrtimer,
     Member ''xso'' struct_xfrm_dev_offload, Member ''saved_tmo'' (CInt 8),
     Member ''lastused'' (CInt 8), Member ''xfrag'' struct_page_frag, Member ''type'' CPtr,
     Member ''inner_mode'' struct_xfrm_mode, Member ''inner_mode_iaf'' struct_xfrm_mode,
     Member ''outer_mode'' struct_xfrm_mode, Member ''type_offload'' CPtr,
     Member ''security'' CPtr, Member ''data'' CPtr, Member ''dir'' (CInt 1)]"

lemma layout_struct_xfrm_state [simp]: "cwf struct_xfrm_state" "calign struct_xfrm_state = 8" "csize struct_xfrm_state = 768"
  by (simp_all add: struct_xfrm_state_def place_def align_up_def)

definition struct_xps_map :: ctype where
  "struct_xps_map = CStruct [
     Member ''len'' (CInt 4), Member ''alloc_len'' (CInt 4), Member ''rcu'' struct_callback_head,
     Member ''queues'' (CArray (CInt 2) 0)]"

lemma layout_struct_xps_map [simp]: "cwf struct_xps_map" "calign struct_xps_map = 8" "csize struct_xps_map = 24"
  by (simp_all add: struct_xps_map_def place_def align_up_def)

definition struct_xsk_buff_pool :: ctype where
  "struct_xsk_buff_pool = CStruct [
     Member ''dev'' CPtr, Member ''netdev'' CPtr, Member ''xsk_tx_list'' struct_list_head,
     Member ''xsk_tx_list_lock'' struct_spinlock, Member ''users'' struct_refcount_struct,
     Member ''umem'' CPtr, Member ''work'' struct_work_struct,
     Member ''free_list'' struct_list_head, Member ''xskb_list'' struct_list_head,
     Member ''heads_cnt'' (CInt 4), Member ''queue_id'' (CInt 2), Bits '''' 8 64,
     Member ''fq'' CPtr, Member ''cq'' CPtr, Member ''dma_pages'' CPtr, Member ''heads'' CPtr,
     Member ''tx_descs'' CPtr, Member ''chunk_mask'' (CInt 8), Member ''addrs_cnt'' (CInt 8),
     Member ''free_list_cnt'' (CInt 4), Member ''dma_pages_cnt'' (CInt 4),
     Member ''free_heads_cnt'' (CInt 4), Member ''headroom'' (CInt 4),
     Member ''chunk_size'' (CInt 4), Member ''chunk_shift'' (CInt 4),
     Member ''frame_len'' (CInt 4), Member ''tx_metadata_len'' (CInt 1),
     Member ''cached_need_wakeup'' (CInt 1), Member ''uses_need_wakeup'' (CInt 1),
     Member ''unaligned'' (CInt 1), Member ''tx_sw_csum'' (CInt 1), Member ''addrs'' CPtr,
     Member ''cq_lock'' struct_spinlock, Member ''free_heads'' (CArray CPtr 0), Bits '''' 8 64,
     Bits '''' 8 64]"

lemma layout_struct_xsk_buff_pool [simp]: "cwf struct_xsk_buff_pool" "calign struct_xsk_buff_pool = 8" "csize struct_xsk_buff_pool = 256"
  by (simp_all add: struct_xsk_buff_pool_def place_def align_up_def)

definition struct_tcpvegas_info :: ctype where
  "struct_tcpvegas_info = CStruct [
     Member ''tcpv_enabled'' (CInt 4), Member ''tcpv_rttcnt'' (CInt 4),
     Member ''tcpv_rtt'' (CInt 4), Member ''tcpv_minrtt'' (CInt 4)]"

lemma layout_struct_tcpvegas_info [simp]: "cwf struct_tcpvegas_info" "calign struct_tcpvegas_info = 4" "csize struct_tcpvegas_info = 16"
  by (simp_all add: struct_tcpvegas_info_def place_def align_up_def)

definition struct_tcp_dctcp_info :: ctype where
  "struct_tcp_dctcp_info = CStruct [
     Member ''dctcp_enabled'' (CInt 2), Member ''dctcp_ce_state'' (CInt 2),
     Member ''dctcp_alpha'' (CInt 4), Member ''dctcp_ab_ecn'' (CInt 4),
     Member ''dctcp_ab_tot'' (CInt 4)]"

lemma layout_struct_tcp_dctcp_info [simp]: "cwf struct_tcp_dctcp_info" "calign struct_tcp_dctcp_info = 4" "csize struct_tcp_dctcp_info = 16"
  by (simp_all add: struct_tcp_dctcp_info_def place_def align_up_def)

definition struct_tcp_bbr_info :: ctype where
  "struct_tcp_bbr_info = CStruct [
     Member ''bbr_bw_lo'' (CInt 4), Member ''bbr_bw_hi'' (CInt 4),
     Member ''bbr_min_rtt'' (CInt 4), Member ''bbr_pacing_gain'' (CInt 4),
     Member ''bbr_cwnd_gain'' (CInt 4)]"

lemma layout_struct_tcp_bbr_info [simp]: "cwf struct_tcp_bbr_info" "calign struct_tcp_bbr_info = 4" "csize struct_tcp_bbr_info = 20"
  by (simp_all add: struct_tcp_bbr_info_def place_def align_up_def)

definition union_tcp_cc_info :: ctype where
  "union_tcp_cc_info = CUnion [
     Member ''vegas'' struct_tcpvegas_info, Member ''dctcp'' struct_tcp_dctcp_info,
     Member ''bbr'' struct_tcp_bbr_info]"

lemma layout_union_tcp_cc_info [simp]: "cwf union_tcp_cc_info" "calign union_tcp_cc_info = 4" "csize union_tcp_cc_info = 20"
  by (simp_all add: union_tcp_cc_info_def place_def align_up_def)

text \<open>Every structure of this theory, by name.\<close>

definition farther_types :: "(string \<times> ctype) list" where
  "farther_types = [
     (''struct_iommu_fwspec'', struct_iommu_fwspec), (''struct_ip_mc_list'', struct_ip_mc_list),
     (''struct_ip_tunnel_parm_kern'', struct_ip_tunnel_parm_kern),
     (''struct_irq_domain_chip_generic'', struct_irq_domain_chip_generic),
     (''struct_irq_domain_ops'', struct_irq_domain_ops),
     (''struct_iw_priv_args'', struct_iw_priv_args), (''struct_iw_quality'', struct_iw_quality),
     (''struct_iw_spy_data'', struct_iw_spy_data),
     (''struct_iw_discarded'', struct_iw_discarded), (''struct_iw_missed'', struct_iw_missed),
     (''struct_iw_statistics'', struct_iw_statistics),
     (''struct_kernel_ethtool_coalesce'', struct_kernel_ethtool_coalesce),
     (''struct_kernel_ethtool_ringparam'', struct_kernel_ethtool_ringparam),
     (''struct_kernel_ethtool_ts_info'', struct_kernel_ethtool_ts_info),
     (''struct_kernel_hwtstamp_config'', struct_kernel_hwtstamp_config),
     (''struct_simple_xattrs'', struct_simple_xattrs),
     (''struct_kernfs_iattrs'', struct_kernfs_iattrs),
     (''struct_kernfs_open_node'', struct_kernfs_open_node),
     (''struct_kernfs_ops'', struct_kernfs_ops), (''struct_kernfs_root'', struct_kernfs_root),
     (''struct_key_params'', struct_key_params), (''type_freelist_aba_t'', type_freelist_aba_t),
     (''struct_kmem_cache_cpu'', struct_kmem_cache_cpu),
     (''struct_kmem_cache_node'', struct_kmem_cache_node),
     (''struct_kobj_ns_type_operations'', struct_kobj_ns_type_operations),
     (''struct_kobj_uevent_env'', struct_kobj_uevent_env),
     (''struct_kset_uevent_ops'', struct_kset_uevent_ops),
     (''struct_lwtunnel_state'', struct_lwtunnel_state),
     (''struct_macsec_context'', struct_macsec_context),
     (''struct_mem_cgroup_reclaim_iter'', struct_mem_cgroup_reclaim_iter),
     (''struct_mem_cgroup_per_node'', struct_mem_cgroup_per_node),
     (''struct_memcg_vmstats'', struct_memcg_vmstats),
     (''struct_memcg_vmstats_percpu'', struct_memcg_vmstats_percpu),
     (''struct_mdio_bus_stats'', struct_mdio_bus_stats), (''struct_mii_bus'', struct_mii_bus),
     (''struct_mii_timestamper'', struct_mii_timestamper), (''struct_iovec'', struct_iovec),
     (''struct_iov_iter'', struct_iov_iter), (''struct_msghdr'', struct_msghdr),
     (''struct_msi_parent_ops'', struct_msi_parent_ops),
     (''struct_nd_opt_hdr'', struct_nd_opt_hdr),
     (''struct_ndisc_options'', struct_ndisc_options), (''struct_ndmsg'', struct_ndmsg),
     (''struct_neigh_ops'', struct_neigh_ops),
     (''struct_net_device_path'', struct_net_device_path),
     (''struct_net_device_path_ctx'', struct_net_device_path_ctx),
     (''struct_net_rate_estimator'', struct_net_rate_estimator),
     (''struct_netdev_bpf'', struct_netdev_bpf),
     (''struct_netdev_fcoe_hbainfo'', struct_netdev_fcoe_hbainfo),
     (''struct_netdev_queue_stats_rx'', struct_netdev_queue_stats_rx),
     (''struct_netdev_queue_stats_tx'', struct_netdev_queue_stats_tx),
     (''struct_netlink_ext_ack'', struct_netlink_ext_ack),
     (''union_inet_addr'', union_inet_addr), (''struct_netpoll'', struct_netpoll),
     (''struct_nexthop'', struct_nexthop), (''struct_nf_ct_event'', struct_nf_ct_event),
     (''struct_nf_exp_event'', struct_nf_exp_event), (''struct_nla_policy'', struct_nla_policy),
     (''struct_nlattr'', struct_nlattr), (''struct_nlmsghdr'', struct_nlmsghdr),
     (''struct_nsset'', struct_nsset), (''struct_obj_cgroup'', struct_obj_cgroup),
     (''struct_of_device_id'', struct_of_device_id),
     (''struct_percpu_ref_data'', struct_percpu_ref_data),
     (''struct_mdio_driver_common'', struct_mdio_driver_common),
     (''struct_phy_driver'', struct_phy_driver),
     (''struct_phy_package_shared'', struct_phy_package_shared),
     (''struct_phylink_link_state'', struct_phylink_link_state),
     (''struct_pinctrl'', struct_pinctrl), (''struct_pinctrl_state'', struct_pinctrl_state),
     (''struct_pm_domain_data'', struct_pm_domain_data),
     (''struct_pool_workqueue'', struct_pool_workqueue),
     (''struct_prefix_info'', struct_prefix_info), (''struct_proc_ops'', struct_proc_ops),
     (''struct_property'', struct_property),
     (''struct_proto_accept_arg'', struct_proto_accept_arg),
     (''struct_psi_group'', struct_psi_group), (''struct_tc_sizespec'', struct_tc_sizespec),
     (''struct_qdisc_size_table'', struct_qdisc_size_table),
     (''struct_rate_sample'', struct_rate_sample),
     (''struct_raw_hashinfo'', struct_raw_hashinfo),
     (''struct_request_sock_ops'', struct_request_sock_ops),
     (''struct_reset_control'', struct_reset_control),
     (''struct_rps_dev_flow'', struct_rps_dev_flow),
     (''struct_rps_dev_flow_table'', struct_rps_dev_flow_table),
     (''struct_rps_map'', struct_rps_map),
     (''struct_rt6_exception_bucket'', struct_rt6_exception_bucket),
     (''struct_rtnl_link_stats64'', struct_rtnl_link_stats64),
     (''struct_scatterlist'', struct_scatterlist),
     (''struct_seq_operations'', struct_seq_operations),
     (''struct_sfp_quirk'', struct_sfp_quirk),
     (''struct_sfp_socket_ops'', struct_sfp_socket_ops),
     (''struct_sfp_upstream_ops'', struct_sfp_upstream_ops),
     (''struct_sg_table'', struct_sg_table), (''struct_sk_psock_progs'', struct_sk_psock_progs),
     (''struct_strp_stats'', struct_strp_stats),
     (''struct_strp_callbacks'', struct_strp_callbacks),
     (''struct_strparser'', struct_strparser),
     (''struct_sk_psock_work_state'', struct_sk_psock_work_state),
     (''struct_sk_psock'', struct_sk_psock),
     (''struct_sock_fprog_kern'', struct_sock_fprog_kern),
     (''struct_sysfs_ops'', struct_sysfs_ops),
     (''struct_timewait_sock_ops'', struct_timewait_sock_ops),
     (''struct_tls_prot_info'', struct_tls_prot_info),
     (''struct_cipher_context'', struct_cipher_context),
     (''struct_tls_crypto_info'', struct_tls_crypto_info),
     (''struct_tls12_crypto_info_aes_gcm_128'', struct_tls12_crypto_info_aes_gcm_128),
     (''struct_tls12_crypto_info_aes_gcm_256'', struct_tls12_crypto_info_aes_gcm_256),
     (''struct_tls12_crypto_info_chacha20_poly1305'', struct_tls12_crypto_info_chacha20_poly1305),
     (''struct_tls12_crypto_info_sm4_gcm'', struct_tls12_crypto_info_sm4_gcm),
     (''struct_tls12_crypto_info_sm4_ccm'', struct_tls12_crypto_info_sm4_ccm),
     (''union_tls_crypto_context'', union_tls_crypto_context),
     (''struct_tls_context'', struct_tls_context), (''struct_udp_hslot'', struct_udp_hslot),
     (''struct_udp_tunnel_info'', struct_udp_tunnel_info),
     (''struct_udp_tunnel_nic_shared'', struct_udp_tunnel_nic_shared),
     (''struct_uncached_list'', struct_uncached_list), (''struct_wiphy'', struct_wiphy),
     (''struct_worker'', struct_worker), (''struct_workqueue_attrs'', struct_workqueue_attrs),
     (''struct_wpan_dev_header_ops'', struct_wpan_dev_header_ops),
     (''struct_wpan_phy_supported'', struct_wpan_phy_supported),
     (''struct_wpan_phy_cca'', struct_wpan_phy_cca), (''struct_wpan_phy'', struct_wpan_phy),
     (''struct_wq_device'', struct_wq_device), (''struct_wq_flusher'', struct_wq_flusher),
     (''struct_wq_node_nr_active'', struct_wq_node_nr_active),
     (''struct_xfrm_sec_ctx'', struct_xfrm_sec_ctx),
     (''struct_xfrm_state_walk'', struct_xfrm_state_walk),
     (''struct_xfrm_replay_state'', struct_xfrm_replay_state),
     (''struct_xfrm_stats'', struct_xfrm_stats), (''struct_xfrm_mode'', struct_xfrm_mode),
     (''struct_xfrm_state'', struct_xfrm_state), (''struct_xps_map'', struct_xps_map),
     (''struct_xsk_buff_pool'', struct_xsk_buff_pool),
     (''struct_tcpvegas_info'', struct_tcpvegas_info),
     (''struct_tcp_dctcp_info'', struct_tcp_dctcp_info),
     (''struct_tcp_bbr_info'', struct_tcp_bbr_info), (''union_tcp_cc_info'', union_tcp_cc_info)]"

lemma farther_types_wf: "list_all (\<lambda>(x, t). cwf t) farther_types"
  by (simp add: farther_types_def)

end
