(* ===== verification/Abi_Facts.thy ===== *)
theory Abi_Facts
  imports Kernel_Farther Kernel_Enums Agent_Facts
begin

text \<open>
  What the program takes for granted about the kernel's interface: the constants it spells as
  numbers are the kernel's enumerators, its loads stay inside the objects they read, and the
  transcribed structures are laid out as C requires.
\<close>

section \<open>Constants\<close>

text \<open>
  The numbers in the program are the kernel's: the agent attaches to the IPv4 family's
  postrouting hook, the packet program tests the protocol numbers of TCP and UDP, its map is
  of the hash type, and its insertions use \<open>BPF_ANY\<close>.
\<close>

lemma constants_match_kernel:
  "enum_value enum_nfproto ''NFPROTO_IPV4'' = Some (int (ProtocolFamily attach_options))
    \<and> enum_value enum_nf_inet_hooks ''NF_INET_POST_ROUTING'' = Some (int (HookNumber attach_options))
    \<and> enum_value enum_ipproto ''IPPROTO_TCP'' = Some (uint IPPROTO_TCP)
    \<and> enum_value enum_ipproto ''IPPROTO_UDP'' = Some (uint IPPROTO_UDP)
    \<and> enum_value enum_bpf_map_update_flags ''BPF_ANY'' = Some (uint BPF_ANY)
    \<and> enum_value enum_bpf_map_type ''BPF_MAP_TYPE_HASH'' = Some 1
    \<and> enum_value enum_bpf_func_id ''BPF_FUNC_map_lookup_elem'' = Some 1
    \<and> enum_value enum_bpf_func_id ''BPF_FUNC_map_update_elem'' = Some 2
    \<and> map snd enum_bpf_func_id = map int [0..<length enum_bpf_func_id]"
  by (simp add: enum_value_def enum_nfproto_def enum_nf_inet_hooks_def enum_ipproto_def
      enum_bpf_map_update_flags_def enum_bpf_map_type_def enum_bpf_func_id_def attach_options_def
      IPPROTO_TCP_def IPPROTO_UDP_def BPF_ANY_def upt_rec)

section \<open>Loads\<close>

text \<open>
  The hook's loads stay inside what it reads: the header members lie within the 20 bytes it asks
  for, \<open>protocol\<close> lies within the socket buffer and is read through the context's pointer, before
  the cast to the user-visible \<open>__sk_buff\<close>, whose member of that name is elsewhere.
\<close>

lemma hook_loads_in_bounds:
  "csize struct_iphdr = 20
    \<and> offsetof ''tot_len'' struct_iphdr = Some 2 \<and> offsetof ''protocol'' struct_iphdr = Some 9
    \<and> offsetof ''saddr'' struct_iphdr = Some 12 \<and> offsetof ''daddr'' struct_iphdr = Some 16
    \<and> csize struct_bpf_nf_ctx = 16 \<and> offsetof ''skb'' struct_bpf_nf_ctx = Some 8
    \<and> csize struct_sk_buff = 232 \<and> offsetof ''protocol'' struct_sk_buff = Some 180
    \<and> offsetof ''protocol'' struct___sk_buff = Some 16
    \<and> locate ''source'' struct_tcphdr = Some (0, Member ''source'' (CInt 2))
    \<and> locate ''dest'' struct_tcphdr = Some (16, Member ''dest'' (CInt 2))
    \<and> locate ''source'' struct_udphdr = Some (0, Member ''source'' (CInt 2))
    \<and> locate ''dest'' struct_udphdr = Some (16, Member ''dest'' (CInt 2))
    \<and> csize struct_tcphdr = 20 \<and> csize struct_udphdr = 8"
proof -
  have "locate ''protocol'' struct___sk_buff = Some (128, Member ''protocol'' (CInt 4))"
    by (simp add: struct___sk_buff_def place_def align_up_def)
  then show ?thesis
    by (simp add: offsetof_def locate_ctx struct_tcphdr_def struct_udphdr_def place_def align_up_def)
qed


section \<open>Layout of the kernel's structures\<close>

definition kernel_types :: "(string \<times> ctype) list" where
  "kernel_types =
     hook_types @ net_types @ netns_types @ bpf_types @ verifier_types @ packet_types
       @ task_types @ file_types @ near_types @ far_types @ farther_types"

lemma kernel_types_wf: "(x, t) \<in> set kernel_types \<Longrightarrow> cwf t"
  using hook_types_wf net_types_wf netns_types_wf bpf_types_wf verifier_types_wf packet_types_wf
    task_types_wf file_types_wf near_types_wf far_types_wf farther_types_wf
  by (auto simp: kernel_types_def list_all_iff)



end
