(* ===== verification/Bpf_Loader.thy ===== *)
theory Bpf_Loader
  imports Bpf_Program
begin

text \<open>
  The Go side of the compiled program (agent/kubezonnet_bpfel.go and its twin for big-endian
  machines, written by bpf2go): which object a build embeds, the Go types of the map's key and
  value, loading and closing. The eBPF library is an argument: it reads a specification from the
  bytes of an object file, loads it, and closes descriptors.
\<close>

section \<open>Which object is embedded\<close>

text \<open>The build constraints of the two files, by GOARCH.\<close>

definition bpfel_archs :: "string list" where
  "bpfel_archs = [''386'', ''amd64'', ''arm'', ''arm64'', ''loong64'', ''mips64le'', ''mipsle'',
     ''ppc64le'', ''riscv64'']"

definition bpfeb_archs :: "string list" where
  "bpfeb_archs = [''mips'', ''mips64'', ''ppc64'', ''s390x'']"

definition embedded_for :: "string \<Rightarrow> byte_order option" where
  "embedded_for arch =
     (if arch \<in> set bpfel_archs then Some LE else if arch \<in> set bpfeb_archs then Some BE else None)"

text \<open>No build takes both files, and the containers are built for a little-endian machine.\<close>

lemma embedded_unambiguous: "set bpfel_archs \<inter> set bpfeb_archs = {}" "embedded_for ''amd64'' = Some LE"
  by (simp_all add: bpfel_archs_def bpfeb_archs_def embedded_for_def)

section \<open>Types\<close>

text \<open>Go lays out these structures as C does: every field at a multiple of its size.\<close>

definition kubezonnetIpKey :: ctype where
  "kubezonnetIpKey = CStruct [
     Member ''SrcIp'' (CInt 4), Member ''DestIp'' (CInt 4),
     Member ''SrcPort'' (CInt 2), Member ''DestPort'' (CInt 2)]"

definition kubezonnetIpValue :: ctype where
  "kubezonnetIpValue = CStruct [Member ''PacketSize'' (CInt 8)]"

lemma loader_types_fit:
  "csize kubezonnetIpKey = csize (map_key ip_map)" "csize kubezonnetIpValue = csize (map_value ip_map)"
  "offsetof ''SrcIp'' kubezonnetIpKey = offsetof ''src_ip'' (map_key ip_map)"
  "offsetof ''DestIp'' kubezonnetIpKey = offsetof ''dest_ip'' (map_key ip_map)"
  "offsetof ''SrcPort'' kubezonnetIpKey = offsetof ''src_port'' (map_key ip_map)"
  "offsetof ''DestPort'' kubezonnetIpKey = offsetof ''dest_port'' (map_key ip_map)"
  by (simp_all add: kubezonnetIpKey_def kubezonnetIpValue_def ip_map_def struct_ip_key_def
      struct_ip_value_def offsetof_def place_def align_up_def)

section \<open>Loading\<close>

definition loadKubezonnet :: "(u8 list \<Rightarrow> string + 'spec) \<Rightarrow> u8 list \<Rightarrow> string + 'spec" where
  "loadKubezonnet loadSpec bytes =
     (case loadSpec bytes of
        Inl err \<Rightarrow> Inl (''can't load kubezonnet: '' @ err)
      | Inr spec \<Rightarrow> Inr spec)"

definition loadKubezonnetObjects ::
    "(u8 list \<Rightarrow> string + 'spec) \<Rightarrow> ('spec \<Rightarrow> 'k \<Rightarrow> string option \<times> 'k) \<Rightarrow> u8 list
      \<Rightarrow> 'k \<Rightarrow> string option \<times> 'k" where
  "loadKubezonnetObjects loadSpec loadAndAssign bytes k =
     (case loadKubezonnet loadSpec bytes of
        Inl err \<Rightarrow> (Some err, k)
      | Inr spec \<Rightarrow> loadAndAssign spec k)"

section \<open>Closing\<close>

text \<open>A closer acts on the kernel's descriptors and may report an error.\<close>

type_synonym 'k closer = "'k \<Rightarrow> string option \<times> 'k"

fun KubezonnetClose :: "'k closer list \<Rightarrow> 'k closer" where
  "KubezonnetClose [] k = (None, k)"
| "KubezonnetClose (c # cs) k =
     (case c k of
        (Some err, k') \<Rightarrow> (Some err, k')
      | (None, k') \<Rightarrow> KubezonnetClose cs k')"

record 'k kubezonnetPrograms =
  NfPostroutingHook :: "'k closer"

record 'k kubezonnetMaps =
  IpMap :: "'k closer"

definition programs_Close :: "'k kubezonnetPrograms \<Rightarrow> 'k closer" where
  "programs_Close p = KubezonnetClose [NfPostroutingHook p]"

definition maps_Close :: "'k kubezonnetMaps \<Rightarrow> 'k closer" where
  "maps_Close m = KubezonnetClose [IpMap m]"

definition objects_Close :: "'k kubezonnetPrograms \<Rightarrow> 'k kubezonnetMaps \<Rightarrow> 'k closer" where
  "objects_Close p m = KubezonnetClose [programs_Close p, maps_Close m]"

text \<open>
  The program is closed first, and the map only when that went well: the first error is
  returned and what comes after it stays open.
\<close>

lemma objects_Close_result:
  "objects_Close p m k = (case NfPostroutingHook p k of
     (Some err, k') \<Rightarrow> (Some err, k') | (None, k') \<Rightarrow> IpMap m k')"
  by (auto simp: objects_Close_def programs_Close_def maps_Close_def split: prod.split option.split)

end
