(* ===== verification/Workload.thy ===== *)
theory Workload
  imports Net_IP
begin

text \<open>
  The load generator with which the repository is tried out on a cluster (src/test/main.go): its
  configuration from the environment, and one connection between the client, which writes a
  chunk per tick and reads two bytes back, and the server, which answers every read with two
  bytes. The two directions of the TCP connection are bounded queues of bytes.
\<close>

section \<open>Configuration\<close>

text \<open>\<open>os.Getenv\<close> gives the empty string for a variable that is not set.\<close>

definition getEnv :: "(string \<Rightarrow> string) \<Rightarrow> string \<Rightarrow> string \<Rightarrow> string" where
  "getEnv env key defaultValue = (if env key \<noteq> [] then env key else defaultValue)"

definition getEnvInt :: "(string \<Rightarrow> string) \<Rightarrow> string \<Rightarrow> int \<Rightarrow> int" where
  "getEnvInt env key defaultValue =
     (if env key \<noteq> [] then
        (case Atoi (env key) of Some i \<Rightarrow> i | None \<Rightarrow> defaultValue)
      else defaultValue)"

datatype test_mode =
    RunServer string
  | RunClient string int int

definition test_main :: "(string \<Rightarrow> string) \<Rightarrow> test_mode" where
  "test_main env =
     (if getEnv env ''MODE'' ''server'' = ''server'' then RunServer (getEnv env ''PORT'' ''8888'')
      else RunClient (getEnv env ''SERVER'' ''test-server:8888'')
             (getEnvInt env ''CHUNK_SIZE_MB'' 1) (getEnvInt env ''INTERVAL_MS'' 100))"

text \<open>The chunk, whose length is computed in 64-bit integers; \<open>make\<close> panics on a negative one.\<close>

definition chunk_len :: "int \<Rightarrow> int" where
  "chunk_len chunkSizeMB = (chunkSizeMB * 1024 * 1024 + 2 ^ 63) mod 2 ^ 64 - 2 ^ 63"

definition test_chunk :: "int \<Rightarrow> u8 list go" where
  "test_chunk chunkSizeMB =
     (if chunk_len chunkSizeMB < 0 then Inl NegativeLength
      else Inr (map (\<lambda>i. word_of_nat (i mod 256)) [0..<nat (chunk_len chunkSizeMB)]))"

lemma length_test_chunk:
  "0 \<le> mb \<Longrightarrow> mb < 2 ^ 43 \<Longrightarrow> \<exists>chunk. test_chunk mb = Inr chunk \<and> length chunk = nat mb * 1048576"
  by (simp add: test_chunk_def chunk_len_def nat_mult_distrib)

lemma test_main_default: "test_main (\<lambda>_. []) = RunServer ''8888''"
  "test_main (\<lambda>k. if k = ''MODE'' then ''client'' else []) = RunClient ''test-server:8888'' 1 100"
  by (simp_all add: test_main_def getEnv_def getEnvInt_def)

section \<open>A connection\<close>

text \<open>
  Where the client and the server are: a write goes on until the kernel has taken all its bytes.
  \<open>chunks\<close>, \<open>received\<close>, \<open>reads\<close> and \<open>acks_taken\<close> count what has happened, without wrap-around.
\<close>

datatype client_at = Ticking | Writing nat | AwaitAck | ClientClosed

datatype server_at = Reading | Acking nat | ServerClosed

record session =
  client_pos :: client_at
  server_pos :: server_at
  data_queue :: nat
  ack_queue :: nat
  totalSent :: u64
  totalReceived :: u64
  chunks :: nat
  received :: nat
  reads :: nat
  acks_taken :: nat

definition connected :: session where
  "connected = \<lparr>client_pos = Ticking, server_pos = Reading, data_queue = 0, ack_queue = 0,
     totalSent = 0, totalReceived = 0, chunks = 0, received = 0, reads = 0, acks_taken = 0\<rparr>"

text \<open>
  The client's loop. \<open>size\<close> is the length of a chunk and \<open>D\<close> what the kernels on both sides
  buffer towards the server. The error of the read is ignored, the one of the write is not.
\<close>

inductive client_step :: "nat \<Rightarrow> nat \<Rightarrow> session \<Rightarrow> session \<Rightarrow> bool" for len D where
  tick: "client_pos s = Ticking \<Longrightarrow> client_step len D s (s\<lparr>client_pos := Writing len\<rparr>)"
| send_part: "client_pos s = Writing k \<Longrightarrow> 0 < j \<Longrightarrow> j \<le> k \<Longrightarrow> data_queue s + j \<le> D \<Longrightarrow>
    client_step len D s (s\<lparr>client_pos := Writing (k - j), data_queue := data_queue s + j\<rparr>)"
| send_all: "client_pos s = Writing 0 \<Longrightarrow>
    client_step len D s
      (s\<lparr>client_pos := AwaitAck, totalSent := totalSent s + word_of_nat len, chunks := Suc (chunks s)\<rparr>)"
| write_error: "client_pos s = Writing k \<Longrightarrow> client_step len D s (s\<lparr>client_pos := ClientClosed\<rparr>)"
| read_ack: "client_pos s = AwaitAck \<Longrightarrow> 0 < j \<Longrightarrow> j \<le> 2 \<Longrightarrow> j \<le> ack_queue s \<Longrightarrow>
    client_step len D s
      (s\<lparr>client_pos := Ticking, ack_queue := ack_queue s - j, acks_taken := acks_taken s + j\<rparr>)"
| read_error: "client_pos s = AwaitAck \<Longrightarrow> client_step len D s (s\<lparr>client_pos := Ticking\<rparr>)"

text \<open>
  The server's \<open>handleConnection\<close>: one read of at most 32 KiB, then the answer, for which the
  kernels buffer \<open>B\<close> bytes. The answer fails, unnoticed, once the client has closed.
\<close>

inductive connection_step :: "nat \<Rightarrow> session \<Rightarrow> session \<Rightarrow> bool" for B where
  read: "server_pos s = Reading \<Longrightarrow> 0 < n \<Longrightarrow> n \<le> 32 * 1024 \<Longrightarrow> n \<le> data_queue s \<Longrightarrow>
    connection_step B s
      (s\<lparr>server_pos := Acking 2, data_queue := data_queue s - n,
         totalReceived := totalReceived s + word_of_nat n, received := received s + n,
         reads := Suc (reads s)\<rparr>)"
| read_end: "server_pos s = Reading \<Longrightarrow> connection_step B s (s\<lparr>server_pos := ServerClosed\<rparr>)"
| ack: "server_pos s = Acking k \<Longrightarrow> 0 < j \<Longrightarrow> j \<le> k \<Longrightarrow> ack_queue s + j \<le> B \<Longrightarrow>
    connection_step B s (s\<lparr>server_pos := Acking (k - j), ack_queue := ack_queue s + j\<rparr>)"
| acked: "server_pos s = Acking 0 \<Longrightarrow> connection_step B s (s\<lparr>server_pos := Reading\<rparr>)"
| ack_failed: "server_pos s = Acking k \<Longrightarrow> client_pos s = ClientClosed \<Longrightarrow>
    connection_step B s (s\<lparr>server_pos := Reading\<rparr>)"

definition session_step :: "nat \<Rightarrow> nat \<Rightarrow> nat \<Rightarrow> session \<Rightarrow> session \<Rightarrow> bool" where
  "session_step len D B s s' \<longleftrightarrow> client_step len D s s' \<or> connection_step B s s'"

section \<open>What the queues hold\<close>

fun unwritten :: "client_at \<Rightarrow> nat" where
  "unwritten (Writing k) = k"
| "unwritten _ = 0"

fun writing :: "client_at \<Rightarrow> bool" where
  "writing (Writing k) = True"
| "writing _ = False"

fun unacked :: "server_at \<Rightarrow> nat" where
  "unacked (Acking k) = k"
| "unacked _ = 0"

text \<open>
  Bytes are conserved in both directions until the client closes, and every read costs an answer.
\<close>

definition balanced :: "nat \<Rightarrow> nat \<Rightarrow> nat \<Rightarrow> session \<Rightarrow> bool" where
  "balanced len D B s \<longleftrightarrow>
     data_queue s + received s + unwritten (client_pos s)
       = len * chunks s + (if writing (client_pos s) then len else 0)
     \<and> ack_queue s + acks_taken s + unacked (server_pos s) = 2 * reads s
     \<and> received s \<le> 32768 * reads s \<and> acks_taken s + (if client_pos s = AwaitAck then 2 else 0) \<le> 2 * chunks s
     \<and> data_queue s \<le> D \<and> ack_queue s \<le> B \<and> unacked (server_pos s) \<le> 2
     \<and> unwritten (client_pos s) \<le> len
     \<and> totalSent s = word_of_nat (len * chunks s) \<and> totalReceived s = word_of_nat (received s)"

lemma balancedD:
  assumes "balanced len D B s"
  shows "data_queue s + received s + unwritten (client_pos s)
      = len * chunks s + (if writing (client_pos s) then len else 0)"
    and "ack_queue s + acks_taken s + unacked (server_pos s) = 2 * reads s"
    and "received s \<le> 32768 * reads s"
    and "acks_taken s + (if client_pos s = AwaitAck then 2 else 0) \<le> 2 * chunks s"
    and "data_queue s \<le> D" "ack_queue s \<le> B" "unacked (server_pos s) \<le> 2" "unwritten (client_pos s) \<le> len"
    and "totalSent s = word_of_nat (len * chunks s)" "totalReceived s = word_of_nat (received s)"
  using assms unfolding balanced_def by blast+

lemma client_step_balanced:
  assumes "client_step len D s s'" "balanced len D B s"
  shows "client_pos s' = ClientClosed \<or> balanced len D B s'"
  using assms(1)
proof (cases rule: client_step.cases)
  case tick
  then show ?thesis using balancedD [OF assms(2)] by (simp add: balanced_def)
next
  case (send_part k j)
  then show ?thesis using balancedD [OF assms(2)] by (simp add: balanced_def)
next
  case send_all
  then show ?thesis using balancedD [OF assms(2)] by (simp add: balanced_def)
next
  case (write_error k)
  then show ?thesis by simp
next
  case (read_ack j)
  then show ?thesis using balancedD [OF assms(2)] by (simp add: balanced_def)
next
  case read_error
  then show ?thesis using balancedD [OF assms(2)] by (simp add: balanced_def)
qed

lemma closing_keeps_chunks:
  "client_step len D s s' \<Longrightarrow> client_pos s \<noteq> ClientClosed \<Longrightarrow> client_pos s' = ClientClosed \<Longrightarrow> chunks s' = chunks s"
  by (auto elim: client_step.cases)

lemma connection_step_balanced:
  assumes "connection_step B s s'" "balanced len D B s" "client_pos s \<noteq> ClientClosed"
  shows "balanced len D B s'"
  using assms(1)
proof (cases rule: connection_step.cases)
  case (read n)
  then show ?thesis using balancedD [OF assms(2)] by (simp add: balanced_def)
next
  case read_end
  then show ?thesis using balancedD [OF assms(2)] by (simp add: balanced_def)
next
  case (ack k j)
  then show ?thesis using balancedD [OF assms(2)] by (simp add: balanced_def)
next
  case acked
  then show ?thesis using balancedD [OF assms(2)] by (simp add: balanced_def)
next
  case (ack_failed k)
  then show ?thesis using assms(3) by simp
qed

text \<open>The number of chunks never passes what the queues can hold the answers of.\<close>

definition paced :: "nat \<Rightarrow> nat \<Rightarrow> nat \<Rightarrow> session \<Rightarrow> bool" where
  "paced len D B s \<longleftrightarrow> len * chunks s \<le> D + 16384 * (B + 2) + 32768 * chunks s"

lemma balanced_paced: "balanced len D B s \<Longrightarrow> paced len D B s"
proof -
  assume b: "balanced len D B s"
  note d = balancedD [OF b]
  have "len * chunks s \<le> data_queue s + received s"
    using d(1,8) by (cases "client_pos s") simp_all
  moreover have "2 * reads s \<le> B + 2 * chunks s + 2" using d(2,4,6,7) by linarith
  ultimately show ?thesis using d(3,5) by (simp add: paced_def)
qed

text \<open>
  C36. The load generator stalls. The client reads two bytes per chunk, the server answers every
  read of at most 32 KiB with two, so with chunks of more than 32 KiB the answers pile up until
  the kernels' buffers are full; then the server stops reading and the client's write never
  returns. However the two sides and the network interleave, a connection carries no more than
  \<open>(D + 16384 (B + 2)) / (len - 32768)\<close> chunks. Until then the two totals that are logged agree
  but for the bytes on their way.
\<close>

theorem workload_stalls:
  assumes "(session_step len D B)\<^sup>*\<^sup>* connected s" "32768 < len"
  shows "chunks s \<le> (D + 16384 * (B + 2)) div (len - 32768)
    \<and> (client_pos s = Ticking \<or> client_pos s = AwaitAck \<longrightarrow>
         totalSent s = totalReceived s + word_of_nat (data_queue s))"
proof -
  have "(client_pos s = ClientClosed \<or> balanced len D B s) \<and> paced len D B s"
    using assms(1)
  proof (induction rule: rtranclp_induct)
    case base
    have "balanced len D B connected" by (simp add: balanced_def connected_def)
    then show ?case using balanced_paced by blast
  next
    case (step s s')
    show ?case
    proof (cases "client_pos s = ClientClosed")
      case True
      then have "client_pos s' = ClientClosed \<and> chunks s' = chunks s"
        using step.hyps(2) by (auto simp: session_step_def elim: client_step.cases connection_step.cases)
      then show ?thesis using step.IH by (simp add: paced_def)
    next
      case False
      then have b: "balanced len D B s" using step.IH by blast
      have "client_pos s' = ClientClosed \<and> chunks s' = chunks s \<or> balanced len D B s'"
        using step.hyps(2) client_step_balanced [OF _ b] connection_step_balanced [OF _ b False]
        unfolding session_step_def by (auto dest: closing_keeps_chunks [OF _ False])
      then show ?thesis using step.IH balanced_paced by (auto simp: paced_def)
    qed
  qed
  then have state: "client_pos s = ClientClosed \<or> balanced len D B s"
    and "len * chunks s \<le> D + 16384 * (B + 2) + 32768 * chunks s" by (simp_all add: paced_def)
  moreover have "chunks s * (len - 32768) = len * chunks s - 32768 * chunks s"
    by (simp add: diff_mult_distrib2 mult.commute)
  ultimately have "chunks s * (len - 32768) \<le> D + 16384 * (B + 2)" by linarith
  then have "chunks s \<le> (D + 16384 * (B + 2)) div (len - 32768)"
    using assms(2) by (simp add: less_eq_div_iff_mult_less_eq)
  moreover have "totalSent s = totalReceived s + word_of_nat (data_queue s)"
    if "client_pos s = Ticking \<or> client_pos s = AwaitAck"
  proof -
    have b: "balanced len D B s" using state that by auto
    have "len * chunks s = received s + data_queue s" using balancedD(1) [OF b] that by auto
    then show ?thesis using balancedD(9,10) [OF b] by simp
  qed
  ultimately show ?thesis by blast
qed

text \<open>The witness: one chunk of 1 MiB, with 1 MiB of buffers towards the server.\<close>

theorem workload_stalls_witness:
  "\<exists>s. (session_step 1048576 1048576 4)\<^sup>*\<^sup>* connected s \<and> chunks s = 1
    \<and> chunks s \<le> (1048576 + 16384 * (4 + 2)) div (1048576 - 32768)
    \<and> totalSent s = totalReceived s + word_of_nat (data_queue s)"
proof -
  let ?step = "session_step 1048576 1048576 4"
  let ?s1 = "connected\<lparr>client_pos := Writing 1048576\<rparr>"
  let ?s2 = "?s1\<lparr>client_pos := Writing (1048576 - 1048576), data_queue := data_queue ?s1 + 1048576\<rparr>"
  let ?s3 = "?s2\<lparr>client_pos := AwaitAck, totalSent := totalSent ?s2 + word_of_nat 1048576, chunks := Suc (chunks ?s2)\<rparr>"
  have 1: "?step connected ?s1"
    unfolding session_step_def by (intro disjI1 client_step.tick) (simp add: connected_def)
  have 2: "?step ?s1 ?s2"
    unfolding session_step_def by (intro disjI1 client_step.send_part) (simp_all add: connected_def)
  have 3: "?step ?s2 ?s3"
    unfolding session_step_def by (intro disjI1 client_step.send_all) simp
  have run: "?step\<^sup>*\<^sup>* connected ?s3"
    using 1 2 3 by (meson converse_rtranclp_into_rtranclp rtranclp.rtrancl_refl)
  have "chunks ?s3 = 1" "client_pos ?s3 = AwaitAck" by (simp_all add: connected_def)
  with run workload_stalls [OF run] show ?thesis by (intro exI [of _ ?s3]) simp
qed

end
