(* ===== verification/Spec2Isabelle.thy ===== *)
theory Spec2Isabelle
  imports Server_Mutex Server_Restart Server_Scrape Cluster_Progress Cluster_Races Bpf_Recycle Agent_Run Abi_Facts
    Bpf_Loader Workload
begin

text \<open>
  kubezonnet measures the traffic that the pods of a Kubernetes cluster send to other zones.
  This development models the program and proves what makes its numbers right, and where
  they are not.

  The parts and how they meet. On every node the agent (src/agent/agent.go, started by
  src/cmd/agent/main.go) loads a kernel program (src/agent/kubezonnet.c, compiled against
  src/agent/vmlinux.h) and attaches it to the netfilter postrouting hook. For each IPv4 packet
  between two addresses of the configured subnet the program adds the packet's total length to
  a counter in a hash map of 1024 flows. Once per flush interval the agent empties the map,
  keeps the flows whose source is one of the node's own pods, encodes them
  (src/payload/payload.go, src/byteorder/byte_order.go) and posts them to the server
  (src/cmd/server/main.go). The server watches pods and nodes, resolves both ends of a flow to
  a pod or a node and its zone, charges the traffic to the source when the zones differ, and
  exports one Prometheus counter per source.

  Shared theories. Prelude: machine integers, Go panics as \<open>Inl\<close>, byte slices with their
  capacity, runs of step functions, and the locales \<open>step_invariant\<close> and \<open>refinement\<close>.
  Binary: the big-endian codecs of encoding/binary (locale \<open>be_codec\<close>, interpreted at 2, 4 and
  8 bytes). Ledger: counters that are only added to (locale \<open>ledger\<close>). Net_IP: the part of
  Go's net and strconv packages the code calls (ParseIP, ParseCIDR, To4, String, Atoi).
  Kubernetes: the fields of pods and nodes that the program reads.

  Wire format. Byteorder models Htonl and Ntohl; Payload models Encode and Decode with the
  bounds check of every slice and index expression, and the 32-bit size computation as written.
  Shown: both round trips, the result on every message, and the exact condition of the panic.
  \<open>fits n\<close> says that n entries are encoded without that wrap-around; it holds for the 1024
  entries of a full flow map. Ip_Convert models both copies of ipToUint32 and maskToUint32.

  Kernel program. C_Layout computes sizes, alignments and offsets of C declarations. Kernel_ABI,
  Kernel_Net, Kernel_Netns, Kernel_Bpf, Kernel_Verifier, Kernel_Packet, Kernel_Task and
  Kernel_Files transcribe the structures of vmlinux.h that the program reads, those that its
  context points to, those behind the map, the program and the link, those a program is loaded and
  a packet is routed with, and the tasks, processors, files and devices around them; Kernel_Near,
  Kernel_Far and Kernel_Farther add what is still missing of the named structures within four
  pointers of the hook's context; Kernel_Enums the enumerations behind its constants. Bpf_Program
  is kubezonnet.c: the map's types, \<open>handle_v4\<close> and
  \<open>nf_postrouting_hook\<close>, for both byte orders, with the kernel's helpers as a record
  of functions. Bpf_Kernel states what the program relies on as the locale
  \<open>bpf_kernel\<close> and interprets it on \<open>sim_kernel\<close>, a hash map of 1024
  preallocated slots. Bpf_Facts: the hook refines an abstract counter and accepts every packet.
  Bpf_Concurrent splits the map access into its two kernel calls, interleaved among CPUs and with
  the agent's batches (locale \<open>bpf_kernel_batch\<close>): traffic is never over-reported,
  and the one way to lose some is exhibited. Bpf_Progress: flows already in the map are counted
  exactly, and every access completes. Bpf_Recycle: with drains in between, an addition may count
  for the flow that reuses its entry, so these bounds hold for totals and not for single flows.
  Abi_Facts: the constants are the kernel's, the loads are in bounds and aligned.

  Bpf_Loader is the Go side of the compiled program (agent/kubezonnet_bpfel.go and its twin): the
  object a build embeds, the key's layout in Go, loading, and closing with its early return.

  Agent. Agent models the flags, the constants written into the program, the filter of the
  node's own flows, the HTTP client's use and the flush loop; the map's batch, the informer's
  store and the HTTP client are arguments; the debug lines and the unused attachment to an
  interface are there too. Agent_Facts: the outcome of a flush in every case,
  the filter, and that the constants describe the CIDR block. Agent_Run is \<open>Run\<close> and \<open>main\<close>:
  the setup with its early returns and exits, the deferred releases and the exit status; whatever
  fails, nothing stays behind in the kernel, and a signal ends the agent.

  Server. Server models the five indexes and every handler; each holds the mutex while it touches
  the state, so a handler is one atomic step, and the iteration order of a Go map is an argument.
  Server_Facts: closed forms of the handlers, the accounting of a request, commuting requests, the
  collector with its conversion to float64. Server_System: the steps as an inductive relation, the
  reachable states and their invariants. Server_Spec: a cluster specification without indexes,
  which the server refines on every lawful run, that is, while an address belongs to one pod at
  a time and a pod keeps its addresses. Server_Restart: a new server that is told the live pods and
  nodes in any order resolves addresses as the old one did. Server_Scrape orders the pod keys and
  shows that a scrape is a function of the state. Server_Main: \<open>main\<close>, the routes, the informers' handlers
  and the instrumentation; no input ends the process. Server_Mutex splits every handler into what
  it does before the mutex and its single index accesses inside, lets any number of them
  interleave, and shows that they behave like the atomic handlers and always complete.

  Pipeline composes all parts for one flush: the packets a hook counts arrive in the counters of
  their sources. Cluster is the whole system, any number of nodes, the messages in flight and the
  server, in any interleaving, with a packet counted in one step: with losses anywhere nobody is
  billed for more than it sent, and without losses every byte is accounted for exactly.
  Cluster_Progress: such a run can always be brought to the point where all bytes are billed.
  Cluster_Races is the same system with the hook's map accesses interleaved as in Bpf_Concurrent; it
  contains every run of Cluster, and what its races get wrong stays on the node where they happen:
  the keys at home on a node are together never billed more than the node's hook has seen.

  Workload is the load generator for trials on a cluster (src/test/main.go): its configuration, and
  one connection as two bounded queues, which is shown to stall.

  Parameters, with the documented behaviour that is used stated as a locale or a hypothesis: the
  BPF helpers and the batch operation of the map, client-go's informers, the HTTP client and
  server, the counters of promhttp. Each has a concrete instance in the witnesses.

  Not modelled: the compiled object (it is built, not checked in), log output, allocation failure,
  the flag parser, the dialling and listening of the load generator, the deployment manifests, and
  the rest of vmlinux.h (a generated dump of all kernel types): drivers, other file systems and
  subsystems further than four pointers from the hook's context, as far as none of the objects
  above contains them.
\<close>

end
